(* ===== verification/Prelude.thy ===== *)
theory Prelude
  imports Main "HOL-Library.Sublist"
begin

text \<open>
  Shared vocabulary of the development: JavaScript strings as lists of UTF-16 code units with
  the string operations the backend uses (\<open>trim\<close>, \<open>toLowerCase\<close>, \<open>slice\<close>, \<open>includes\<close>,
  \<open>split\<close>, \<open>String(n)\<close>, \<open>Number(s)\<close>), MySQL's case-insensitive comparison and its
  \<open>LIKE\<close>, and the generic list lemmas the components share.
  Strings that users type (titles, emails, subdomains, tokens) are \<open>jstring\<close>; strings the
  program only compares with its own literals (message keys, plan names, reason codes) are
  HOL strings.
\<close>

section \<open>Automation collections\<close>

named_theorems prog "definitions of the monadic operations, unfolded for symbolic execution"
named_theorems keeps "structural rules: which programs keep a predicate on the world"

section \<open>JavaScript strings\<close>

type_synonym jstring = "nat list"

definition js :: "string \<Rightarrow> jstring" where
  "js s = map of_char s"

lemma js_Nil [simp]: "js [] = []"
  by (simp add: js_def)

lemma js_Cons [simp]: "js (c # s) = of_char c # js s"
  by (simp add: js_def)

lemma js_eq_Nil [simp]: "js s = [] \<longleftrightarrow> s = []"
  by (simp add: js_def)

lemma length_js [simp]: "length (js s) = length s"
  by (simp add: js_def)

text \<open>The white space of \<open>trim\<close> and of \<open>\s\<close> in a regular expression (ECMAScript 2024).\<close>

definition js_space :: "nat \<Rightarrow> bool" where
  "js_space u \<longleftrightarrow>
     u \<in> set [9, 10, 11, 12, 13, 32, 160, 5760, 8232, 8233, 8239, 8287, 12288, 65279]
     \<or> (8192 \<le> u \<and> u \<le> 8202)"

definition js_trim :: "jstring \<Rightarrow> jstring" where
  "js_trim s = rev (dropWhile js_space (rev (dropWhile js_space s)))"

text \<open>
  \<open>toLowerCase\<close>, exact for ASCII and Latin-1 and for the one other code unit whose lower-case
  form is one ASCII unit (the Kelvin sign); other code units are left as they are.
\<close>

definition lower_unit :: "nat \<Rightarrow> nat" where
  "lower_unit u =
     (if 65 \<le> u \<and> u \<le> 90 then u + 32
      else if 192 \<le> u \<and> u \<le> 222 \<and> u \<noteq> 215 then u + 32
      else if u = 8490 then 107 else u)"

definition js_lower :: "jstring \<Rightarrow> jstring" where
  "js_lower s = map lower_unit s"

definition upper_unit :: "nat \<Rightarrow> nat" where
  "upper_unit u =
     (if 97 \<le> u \<and> u \<le> 122 then u - 32
      else if 224 \<le> u \<and> u \<le> 254 \<and> u \<noteq> 247 then u - 32 else u)"

definition js_upper :: "jstring \<Rightarrow> jstring" where
  "js_upper s = map upper_unit s"

fun js_includes :: "jstring \<Rightarrow> jstring \<Rightarrow> bool" where
  "js_includes [] p = (p = [])"
| "js_includes (c # cs) p = (prefix p (c # cs) \<or> js_includes cs p)"

text \<open>\<open>s.split(sep)\<close> for a separator of one code unit.\<close>

fun js_split :: "nat \<Rightarrow> jstring \<Rightarrow> jstring list" where
  "js_split sep [] = [[]]"
| "js_split sep (c # cs) =
     (if c = sep then [] # js_split sep cs
      else case js_split sep cs of [] \<Rightarrow> [[c]] | p # ps \<Rightarrow> (c # p) # ps)"

text \<open>\<open>s || null\<close>: the empty string is falsy.\<close>

definition or_null :: "jstring \<Rightarrow> jstring option" where
  "or_null s = (if s = [] then None else Some s)"

text \<open>\<open>(x || "")\<close> for a request field that may be absent or null.\<close>

definition or_empty :: "jstring option \<Rightarrow> jstring" where
  "or_empty x = (case x of None \<Rightarrow> [] | Some s \<Rightarrow> s)"

lemma or_empty_simps [simp]: "or_empty None = []" "or_empty (Some s) = s"
  by (simp_all add: or_empty_def)

definition is_digit :: "nat \<Rightarrow> bool" where
  "is_digit u \<longleftrightarrow> 48 \<le> u \<and> u \<le> 57"

definition is_upper_ascii :: "nat \<Rightarrow> bool" where
  "is_upper_ascii u \<longleftrightarrow> 65 \<le> u \<and> u \<le> 90"

definition is_lower_ascii :: "nat \<Rightarrow> bool" where
  "is_lower_ascii u \<longleftrightarrow> 97 \<le> u \<and> u \<le> 122"

text \<open>\<open>String(n)\<close> for a non-negative integer, and \<open>Number(s)\<close> for a string of digits.\<close>

fun js_of_nat :: "nat \<Rightarrow> jstring" where
  "js_of_nat n = (if n < 10 then [48 + n] else js_of_nat (n div 10) @ [48 + n mod 10])"

declare js_of_nat.simps [simp del]

definition js_to_nat :: "jstring \<Rightarrow> nat" where
  "js_to_nat s = foldl (\<lambda>a c. 10 * a + (c - 48)) 0 s"

text \<open>
  JavaScript's \<open>Math.round\<close> of a rational given by numerator and positive denominator:
  the integer nearest to it, halves upwards.
\<close>

definition math_round :: "int \<Rightarrow> int \<Rightarrow> int" where
  "math_round num den = (2 * num + den) div (2 * den)"

subsection \<open>Facts about strings\<close>

lemma js_lower_Nil [simp]: "js_lower [] = []"
  by (simp add: js_lower_def)

lemma length_js_lower [simp]: "length (js_lower s) = length s"
  by (simp add: js_lower_def)

lemma lower_unit_idem [simp]: "lower_unit (lower_unit u) = lower_unit u"
  by (simp add: lower_unit_def)

lemma js_lower_idem [simp]: "js_lower (js_lower s) = js_lower s"
  by (simp add: js_lower_def comp_def)

lemma js_lower_append: "js_lower (a @ b) = js_lower a @ js_lower b"
  by (simp add: js_lower_def)

lemma js_trim_Nil [simp]: "js_trim [] = []"
  by (simp add: js_trim_def)

lemma length_js_trim: "length (js_trim s) \<le> length s"
proof -
  have "length (js_trim s) \<le> length (dropWhile js_space s)"
    unfolding js_trim_def by (metis length_dropWhile_le length_rev)
  also have "\<dots> \<le> length s" by (rule length_dropWhile_le)
  finally show ?thesis .
qed

lemma dropWhile_self: "xs = [] \<or> \<not> P (hd xs) \<Longrightarrow> dropWhile P xs = xs"
  by (cases xs) auto

lemma js_trim_idem [simp]: "js_trim (js_trim s) = js_trim s"
proof -
  define a where "a = dropWhile js_space s"
  define b where "b = dropWhile js_space (rev a)"
  have a: "a = [] \<or> \<not> js_space (hd a)" using hd_dropWhile [of js_space s] by (auto simp: a_def)
  have b: "b = [] \<or> \<not> js_space (hd b)" using hd_dropWhile [of js_space "rev a"] by (auto simp: b_def)
  obtain pre where pre: "rev a = pre @ b" unfolding b_def
    by (metis takeWhile_dropWhile_id)
  then have ra: "a = rev b @ rev pre" by (metis rev_append rev_rev_ident)
  have "rev b = [] \<or> \<not> js_space (hd (rev b))"
  proof (cases "b = []")
    case False
    then have "hd a = hd (rev b)" using ra by simp
    with a ra False show ?thesis by auto
  qed simp
  then have "dropWhile js_space (rev b) = rev b" by (rule dropWhile_self)
  moreover have "dropWhile js_space b = b" using b by (rule dropWhile_self)
  moreover have "js_trim s = rev b" by (simp add: js_trim_def a_def b_def)
  ultimately show ?thesis by (simp add: js_trim_def)
qed

lemma js_includes_iff: "js_includes s p \<longleftrightarrow> sublist p s"
proof (induction s)
  case Nil
  show ?case by auto
next
  case (Cons c cs)
  then show ?case by (auto simp: sublist_Cons_right)
qed

lemma js_split_nonempty: "js_split sep s \<noteq> []"
  by (induction s) (auto split: list.splits)

lemma js_split_no_sep: "sep \<notin> set s \<Longrightarrow> js_split sep s = [s]"
  by (induction s) auto

lemma js_split_append:
  "sep \<notin> set a \<Longrightarrow> js_split sep (a @ sep # b) = a # js_split sep b"
  by (induction a) auto

lemma or_null_eq_None [simp]: "or_null s = None \<longleftrightarrow> s = []"
  by (simp add: or_null_def)

lemma or_null_eq_Some [simp]: "or_null s = Some t \<longleftrightarrow> s = t \<and> t \<noteq> []"
  by (auto simp: or_null_def)

lemma js_of_nat_digits: "\<forall>c \<in> set (js_of_nat n). is_digit c"
proof (induction n rule: js_of_nat.induct)
  case (1 n)
  show ?case
  proof (cases "n < 10")
    case True
    then show ?thesis by (subst js_of_nat.simps) (simp add: is_digit_def)
  next
    case False
    with 1 have "\<forall>c \<in> set (js_of_nat (n div 10)). is_digit c" by simp
    with False show ?thesis by (subst js_of_nat.simps) (auto simp: is_digit_def)
  qed
qed

lemma js_of_nat_nonempty [simp]: "js_of_nat n \<noteq> []"
  by (subst js_of_nat.simps) simp

lemma js_to_nat_of_nat [simp]: "js_to_nat (js_of_nat n) = n"
proof (induction n rule: js_of_nat.induct)
  case (1 n)
  show ?case
  proof (cases "n < 10")
    case True
    then show ?thesis by (subst js_of_nat.simps) (simp add: js_to_nat_def)
  next
    case False
    with 1 have "js_to_nat (js_of_nat (n div 10)) = n div 10" by simp
    with False show ?thesis
      by (subst js_of_nat.simps) (simp add: js_to_nat_def)
  qed
qed

section \<open>MySQL comparisons\<close>

text \<open>
  Equality under the server's default collation (\<open>utf8mb4_0900_ai_ci\<close>): case is ignored.
  Accents are ignored too by that collation; the model keeps them apart.
\<close>

definition sql_eq :: "jstring \<Rightarrow> jstring \<Rightarrow> bool" where
  "sql_eq a b \<longleftrightarrow> js_lower a = js_lower b"

lemma sql_eq_refl [simp]: "sql_eq a a"
  by (simp add: sql_eq_def)

lemma sql_eq_sym: "sql_eq a b \<longleftrightarrow> sql_eq b a"
  by (auto simp: sql_eq_def)

lemma sql_eq_trans: "sql_eq a b \<Longrightarrow> sql_eq b c \<Longrightarrow> sql_eq a c"
  by (simp add: sql_eq_def)

lemma sql_eq_cong: "sql_eq a b \<Longrightarrow> sql_eq a c \<longleftrightarrow> sql_eq b c"
  by (simp add: sql_eq_def)

text \<open>\<open>column = ?\<close> where the column may be NULL: NULL equals nothing.\<close>

definition sql_eq_null :: "jstring option \<Rightarrow> jstring \<Rightarrow> bool" where
  "sql_eq_null x b \<longleftrightarrow> (case x of None \<Rightarrow> False | Some a \<Rightarrow> sql_eq a b)"

lemma sql_eq_null_simps [simp]:
  "sql_eq_null None b = False" "sql_eq_null (Some a) b = sql_eq a b"
  by (simp_all add: sql_eq_null_def)

text \<open>\<open>s LIKE pat\<close>: \<open>%\<close> matches any string, \<open>_\<close> any code unit, backslash escapes.\<close>

fun sql_like :: "jstring \<Rightarrow> jstring \<Rightarrow> bool" where
  "sql_like [] [] = True"
| "sql_like [] (c # cs) = False"
| "sql_like (p # ps) [] =
     (if p = 37 then sql_like ps [] else False)"
| "sql_like (p # ps) (c # cs) =
     (if p = 37 then sql_like ps (c # cs) \<or> sql_like (p # ps) cs
      else if p = 95 then sql_like ps cs
      else if p = 92 then
        (case ps of [] \<Rightarrow> c = 92 \<and> cs = []
         | q # qs \<Rightarrow> lower_unit q = lower_unit c \<and> sql_like qs cs)
      else lower_unit p = lower_unit c \<and> sql_like ps cs)"

definition like_plain :: "jstring \<Rightarrow> bool" where
  "like_plain s \<longleftrightarrow> (\<forall>u \<in> set s. u \<noteq> 37 \<and> u \<noteq> 95 \<and> u \<noteq> 92)"

lemma sql_like_percent: "sql_like [37] s"
  by (induction s) auto

lemma sql_like_plain_tail:
  "like_plain p \<Longrightarrow> sql_like (p @ [37]) s \<longleftrightarrow> prefix (js_lower p) (js_lower s)"
proof (induction p arbitrary: s)
  case Nil
  show ?case by (simp add: sql_like_percent)
next
  case (Cons u p)
  then show ?case
    by (cases s) (auto simp: like_plain_def js_lower_def)
qed

text \<open>\<open>LIKE '%needle%'\<close> for a needle without wildcards is case-insensitive containment.\<close>

lemma sql_like_contains:
  "like_plain p \<Longrightarrow> sql_like (37 # p @ [37]) s \<longleftrightarrow> js_includes (js_lower s) (js_lower p)"
proof (induction s)
  case Nil
  have "sql_like (p @ [37]) [] \<longleftrightarrow> prefix (js_lower p) (js_lower [])"
    using Nil by (rule sql_like_plain_tail)
  then show ?case by simp
next
  case (Cons c cs)
  have "sql_like (p @ [37]) (c # cs) \<longleftrightarrow> prefix (js_lower p) (js_lower (c # cs))"
    using Cons.prems by (rule sql_like_plain_tail)
  with Cons show ?case by (simp add: js_lower_def)
qed

section \<open>Generic list and option lemmas\<close>

lemma filter_filter_conj: "filter P (filter Q xs) = filter (\<lambda>x. Q x \<and> P x) xs"
  by (induction xs) auto

lemma filter_map_keep:
  assumes "\<And>x. x \<in> set xs \<Longrightarrow> P (f x) \<longleftrightarrow> P x" and "\<And>x. x \<in> set xs \<Longrightarrow> P x \<Longrightarrow> f x = x"
  shows "filter P (map f xs) = filter P xs"
  using assms by (induction xs) auto

text \<open>\<open>rows[0]\<close>: undefined for an empty result.\<close>

definition first_row :: "'a list \<Rightarrow> 'a option" where
  "first_row xs = (case xs of [] \<Rightarrow> None | x # _ \<Rightarrow> Some x)"

lemma first_row_simps [simp]:
  "first_row [] = None" "first_row (x # xs) = Some x"
  by (simp_all add: first_row_def)

lemma first_row_SomeD: "first_row xs = Some x \<Longrightarrow> x \<in> set xs"
  by (cases xs) auto

lemma first_row_None_iff [simp]: "first_row xs = None \<longleftrightarrow> xs = []"
  by (cases xs) auto

definition update_where :: "('a \<Rightarrow> bool) \<Rightarrow> ('a \<Rightarrow> 'a) \<Rightarrow> 'a list \<Rightarrow> 'a list" where
  "update_where P f xs = map (\<lambda>x. if P x then f x else x) xs"

lemma length_update_where [simp]: "length (update_where P f xs) = length xs"
  by (simp add: update_where_def)

lemma update_where_Nil [simp]: "update_where P f [] = []"
  by (simp add: update_where_def)

lemma update_where_Cons [simp]:
  "update_where P f (x # xs) = (if P x then f x else x) # update_where P f xs"
  by (simp add: update_where_def)

lemma map_update_where_same:
  "(\<And>x. g (f x) = g x) \<Longrightarrow> map g (update_where P f xs) = map g xs"
  by (induction xs) auto

lemma set_update_where: "set (update_where P f xs) = (\<lambda>x. if P x then f x else x) ` set xs"
  by (simp add: update_where_def)

lemma filter_update_where_other:
  assumes "\<And>x. P x \<Longrightarrow> \<not> Q x" and "\<And>x. P x \<Longrightarrow> \<not> Q (f x)"
  shows "filter Q (update_where P f xs) = filter Q xs"
  using assms by (induction xs) auto

lemma filter_filter_other:
  assumes "\<And>x. P x \<Longrightarrow> \<not> Q x"
  shows "filter Q (filter (\<lambda>x. \<not> P x) xs) = filter Q xs"
  using assms by (induction xs) auto

lemma update_where_no_match:
  "(\<And>x. x \<in> set xs \<Longrightarrow> \<not> P x) \<Longrightarrow> update_where P f xs = xs"
  by (induction xs) auto

lemma findD: "find P xs = Some x \<Longrightarrow> x \<in> set xs \<and> P x"
  by (auto simp: find_Some_iff)

lemma update_where_idem:
  assumes "\<And>x. P x \<Longrightarrow> f (f x) = f x"
  shows "update_where P f (update_where P f xs) = update_where P f xs"
  using assms by (induction xs) auto

lemma length_filter_filter_le: "length (filter P (filter Q xs)) \<le> length (filter P xs)"
  by (induction xs) auto

end
