(* ===== verification/Schema.thy ===== *)
theory Schema
  imports Prelude
begin

text \<open>
  The MySQL schema (\<open>database/schema.sql\<close> and the additive migrations of \<open>scripts/\<close>): one
  record per row type with the columns the modelled code reads or writes, one list per table
  in primary-key order, the \<open>AUTO_INCREMENT\<close> counters and the database clock.  ENUM columns
  are datatypes, nullable columns are options, DATETIME columns are milliseconds.
  Foreign keys appear as the cascading deletes and as the referential checks of the inserts.
\<close>

section \<open>Enumerated columns\<close>

datatype role = Owner | Member
datatype post_status = StOpen | StPlanned | StInProgress | StCompleted | StClosed | StRejected
datatype post_type = Feedback | FeatureRequest | BugReport
datatype moderation = Published | PendingReview | Spam
datatype interval = Month | Year
datatype invite_status = InvPending | InvAccepted | InvRevoked
datatype reset_status = ResPending | ResUsed
datatype promo_type = PercentOff | FreePlan
datatype promo_duration = Once | Repeating | Forever
datatype attachment_kind = ImageFile | VideoFile

text \<open>The textual forms the requests carry; any other text is no member of the ENUM.\<close>

fun parse_status :: "string \<Rightarrow> post_status option" where
  "parse_status s =
     (if s = ''open'' then Some StOpen else if s = ''planned'' then Some StPlanned
      else if s = ''in_progress'' then Some StInProgress
      else if s = ''completed'' then Some StCompleted
      else if s = ''closed'' then Some StClosed
      else if s = ''rejected'' then Some StRejected else None)"

fun parse_post_type :: "string \<Rightarrow> post_type option" where
  "parse_post_type s =
     (if s = ''feedback'' then Some Feedback
      else if s = ''feature_request'' then Some FeatureRequest
      else if s = ''bug_report'' then Some BugReport else None)"

fun parse_moderation :: "string \<Rightarrow> moderation option" where
  "parse_moderation s =
     (if s = ''published'' then Some Published else if s = ''pending'' then Some PendingReview
      else if s = ''spam'' then Some Spam else None)"

definition status_text :: "post_status \<Rightarrow> string" where
  "status_text s =
     (case s of StOpen \<Rightarrow> ''open'' | StPlanned \<Rightarrow> ''planned'' | StInProgress \<Rightarrow> ''in_progress''
      | StCompleted \<Rightarrow> ''completed'' | StClosed \<Rightarrow> ''closed'' | StRejected \<Rightarrow> ''rejected'')"

definition post_type_text :: "post_type \<Rightarrow> string" where
  "post_type_text t =
     (case t of Feedback \<Rightarrow> ''feedback'' | FeatureRequest \<Rightarrow> ''feature_request''
      | BugReport \<Rightarrow> ''bug_report'')"

lemma parse_status_text [simp]: "parse_status (status_text s) = Some s"
  by (cases s) (simp_all add: status_text_def)

lemma parse_post_type_text [simp]: "parse_post_type (post_type_text t) = Some t"
  by (cases t) (simp_all add: post_type_text_def)

text \<open>
  An ENUM column compares and stores text under the column's collation, so letter case does
  not matter; text that is no member is an error on insertion and matches nothing in a query.
\<close>

definition enum_is :: "string \<Rightarrow> string \<Rightarrow> bool" where
  "enum_is member s \<longleftrightarrow> sql_eq (js member) (js s)"

definition enum_status :: "string \<Rightarrow> post_status option" where
  "enum_status s = find (\<lambda>x. enum_is (status_text x) s)
     [StOpen, StPlanned, StInProgress, StCompleted, StClosed, StRejected]"

definition enum_post_type :: "string \<Rightarrow> post_type option" where
  "enum_post_type s = find (\<lambda>x. enum_is (post_type_text x) s) [Feedback, FeatureRequest, BugReport]"

text \<open>\<open>interval === "year" ? "year" : "month"\<close>.\<close>

definition interval_of_string :: "string option \<Rightarrow> interval" where
  "interval_of_string s = (if s = Some ''year'' then Year else Month)"

section \<open>Rows\<close>

record tenant =
  t_id :: nat
  t_name :: jstring
  t_slug :: jstring
  t_subdomain :: jstring
  t_custom_domain :: "jstring option"
  t_website :: "jstring option"
  t_plan :: string
  t_stripe_customer :: "string option"
  t_stripe_sub :: "string option"
  t_status :: "string option"
  t_interval :: "interval option"
  t_period_end :: "int option"
  t_pending_plan :: "string option"
  t_pending_interval :: "interval option"
  t_pending_at :: "int option"
  t_logo :: "jstring option"
  t_color :: "jstring option"
  t_active :: bool
  t_require_auth :: bool

record user =
  u_id :: nat
  u_tenant :: "nat option"
  u_email :: jstring
  u_password :: "jstring option"
  u_name :: jstring
  u_contact :: "jstring option"
  u_role :: role
  u_admin :: bool
  u_avatar :: "jstring option"
  u_active :: bool
  u_last_login :: "int option"

record account =
  b_email :: jstring
  b_plan :: string
  b_stripe_customer :: "string option"
  b_stripe_sub :: "string option"
  b_paddle_customer :: "string option"
  b_paddle_sub :: "string option"
  b_status :: "string option"
  b_interval :: "interval option"
  b_period_end :: "int option"
  b_pending_plan :: "string option"
  b_pending_interval :: "interval option"
  b_pending_at :: "int option"

record post =
  p_id :: nat
  p_tenant :: nat
  p_author :: "nat option"
  p_submitter_name :: "jstring option"
  p_submitter_email :: "jstring option"
  p_guest :: "jstring option"
  p_voter_hash :: "jstring option"
  p_title :: jstring
  p_description :: jstring
  p_type :: post_type
  p_status :: post_status
  p_notified_at :: "int option"
  p_priority :: int
  p_pinned :: bool
  p_duplicate_of :: "nat option"
  p_moderation :: moderation
  p_score :: int
  p_reasons :: "string list"
  p_reviewed_at :: "int option"
  p_reviewed_score :: "int option"
  p_created :: int

record vote =
  v_id :: nat
  v_tenant :: nat
  v_post :: nat
  v_user :: "nat option"
  v_guest :: "jstring option"
  v_hash :: "jstring option"

record board_comment =
  c_id :: nat
  c_tenant :: nat
  c_post :: nat
  c_author :: "nat option"
  c_submitter_name :: "jstring option"
  c_submitter_email :: "jstring option"
  c_guest :: "jstring option"
  c_voter_hash :: "jstring option"
  c_as_owner :: nat
  c_parent :: "nat option"
  c_body :: jstring
  c_edited :: bool
  c_moderation :: moderation
  c_score :: int
  c_reasons :: "string list"
  c_reviewed_at :: "int option"
  c_reviewed_score :: "int option"
  c_created :: int

record tag =
  g_id :: nat
  g_tenant :: nat
  g_name :: jstring
  g_color :: "jstring option"

record post_tag =
  pt_id :: nat
  pt_tenant :: nat
  pt_post :: nat
  pt_tag :: nat

record roadmap_column =
  rc_id :: nat
  rc_tenant :: nat
  rc_name :: jstring
  rc_key :: string
  rc_order :: int

record roadmap_item =
  ri_id :: nat
  ri_tenant :: nat
  ri_post :: nat
  ri_column :: nat
  ri_order :: int
  ri_release :: "int option"

record changelog_entry =
  cl_id :: nat
  cl_tenant :: nat
  cl_title :: jstring
  cl_summary :: "jstring option"
  cl_content :: jstring
  cl_published_at :: "int option"
  cl_published :: bool
  cl_created_by :: nat
  cl_created :: int

record notification =
  n_id :: nat
  n_tenant :: nat
  n_user :: nat
  n_type :: string
  n_title :: jstring
  n_message :: "jstring option"
  n_ref :: "nat option"
  n_read :: bool
  n_read_at :: "int option"
  n_created :: int

record api_key =
  k_id :: nat
  k_tenant :: nat
  k_created_by :: nat
  k_name :: jstring
  k_prefix :: jstring
  k_hash :: jstring
  k_scopes :: "jstring option"  \<comment> \<open>JSON text\<close>
  k_expires :: "jstring option"
  k_revoked :: bool
  k_created :: int

record integration =
  ig_id :: nat
  ig_tenant :: nat
  ig_type :: string
  ig_config :: jstring  \<comment> \<open>JSON text\<close>
  ig_active :: bool
  ig_created :: int

record audit_entry =
  al_id :: nat
  al_tenant :: nat
  al_actor :: "nat option"
  al_action :: jstring
  al_entity_type :: jstring
  al_entity :: "nat option"
  al_metadata :: jstring  \<comment> \<open>JSON text\<close>
  al_ip :: "jstring option"
  al_agent :: "jstring option"
  al_created :: int

record support_session =
  su_id :: nat
  su_tenant :: "nat option"
  su_user :: "nat option"
  su_email :: jstring
  su_name :: "jstring option"
  su_open :: bool
  su_created :: int
  su_last_message :: "int option"
  su_user_read :: "int option"
  su_admin_read :: "int option"
  su_closed_at :: "int option"
  su_closed_by :: "nat option"

datatype support_sender = FromUser | FromAdmin

record support_message =
  ms_id :: nat
  ms_session :: nat
  ms_sender :: support_sender
  ms_user :: "nat option"
  ms_admin :: "nat option"
  ms_body :: jstring
  ms_created :: int

record attachment =
  a_id :: nat
  a_tenant :: nat
  a_post :: "nat option"
  a_kind :: attachment_kind
  a_path :: jstring
  a_mime :: string
  a_size :: int
  a_name :: "jstring option"

record file_upload =
  f_id :: nat
  f_tenant :: nat
  f_uploader :: nat

record invitation =
  i_id :: nat
  i_tenant :: nat
  i_email :: jstring
  i_token :: jstring
  i_invited_by :: "nat option"
  i_status :: invite_status
  i_expires :: int
  i_accepted_by :: "nat option"
  i_created :: int

record password_reset =
  pr_id :: nat
  pr_email :: jstring
  pr_hash :: jstring
  pr_status :: reset_status
  pr_expires :: int

record session =
  s_id :: jstring
  s_email :: jstring
  s_agent :: "jstring option"
  s_ip :: "jstring option"
  s_last_seen :: int
  s_revoked :: "int option"

record oauth_account =
  o_email :: jstring
  o_provider :: string
  o_subject :: jstring

record promo_code =
  pc_id :: nat
  pc_code :: jstring
  pc_type :: promo_type
  pc_applies_to :: "string option"
  pc_percent :: "int option"
  pc_grant :: "string option"
  pc_duration :: promo_duration
  pc_months :: "int option"
  pc_stripe_coupon :: "string option"
  pc_stripe_promo :: "string option"
  pc_paddle_discount :: "string option"
  pc_max :: "int option"
  pc_redeemed :: int
  pc_expires :: "int option"
  pc_active :: bool
  pc_created_by :: "nat option"
  pc_created :: int

record promo_redemption =
  rd_id :: nat
  rd_code :: nat
  rd_tenant :: nat
  rd_user :: "nat option"
  rd_email :: "jstring option"
  rd_plan :: "string option"
  rd_expires :: "int option"

record offer =
  of_id :: nat
  of_plan :: string
  of_interval :: interval
  of_price_cents :: int
  of_label :: "jstring option"
  of_starts :: "int option"
  of_ends :: "int option"
  of_stripe_coupon :: "string option"
  of_paddle_discount :: "string option"
  of_active :: bool
  of_created_by :: "nat option"
  of_created :: int

text \<open>A row of \<open>public_write_counters\<close>, keyed by scope and window start.\<close>

record write_counter =
  w_scope :: jstring
  w_start :: int
  w_count :: nat

section \<open>The database\<close>

record database =
  clock :: int
  auto :: "string \<Rightarrow> nat"
  tenants :: "tenant list"
  users :: "user list"
  accounts :: "account list"
  posts :: "post list"
  votes :: "vote list"
  comments :: "board_comment list"
  tags :: "tag list"
  post_tags :: "post_tag list"
  roadmap_columns :: "roadmap_column list"
  roadmap_items :: "roadmap_item list"
  changelog :: "changelog_entry list"
  notifications :: "notification list"
  api_keys :: "api_key list"
  integrations :: "integration list"
  attachments :: "attachment list"
  file_uploads :: "file_upload list"
  invitations :: "invitation list"
  password_resets :: "password_reset list"
  sessions :: "session list"
  oauth_accounts :: "oauth_account list"
  promo_codes :: "promo_code list"
  promo_redemptions :: "promo_redemption list"
  offers :: "offer list"
  write_counters :: "write_counter list"
  audit_logs :: "audit_entry list"
  support_sessions :: "support_session list"
  support_messages :: "support_message list"

definition empty_db :: "int \<Rightarrow> database" where
  "empty_db t =
     \<lparr>clock = t, auto = (\<lambda>_. 1), tenants = [], users = [], accounts = [], posts = [], votes = [],
      comments = [], tags = [], post_tags = [], roadmap_columns = [], roadmap_items = [],
      changelog = [], notifications = [], api_keys = [], integrations = [], attachments = [],
      file_uploads = [], invitations = [], password_resets = [], sessions = [],
      oauth_accounts = [], promo_codes = [], promo_redemptions = [], offers = [],
      write_counters = [], audit_logs = [], support_sessions = [], support_messages = []\<rparr>"

text \<open>\<open>AUTO_INCREMENT\<close>: the id a table hands out next, and its advance.\<close>

definition next_id :: "string \<Rightarrow> database \<Rightarrow> nat" where
  "next_id tbl d = auto d tbl"

definition bump_id :: "string \<Rightarrow> database \<Rightarrow> database" where
  "bump_id tbl d = d\<lparr>auto := (auto d)(tbl := Suc (auto d tbl))\<rparr>"

definition seconds :: "int \<Rightarrow> int" where "seconds n = n * 1000"
definition minutes :: "int \<Rightarrow> int" where "minutes n = n * 60000"
definition hours :: "int \<Rightarrow> int" where "hours n = n * 3600000"
definition days :: "int \<Rightarrow> int" where "days n = n * 86400000"

lemmas time_defs = seconds_def minutes_def hours_def days_def

section \<open>Cascading deletes\<close>

text \<open>
  \<open>fk_comments_parent ON DELETE CASCADE\<close>: deleting comments deletes their replies, to any
  depth.  Each round adds the replies of the ids found so far; the number of comments bounds
  the rounds that can still add one.
\<close>

definition replies_of :: "nat list \<Rightarrow> board_comment list \<Rightarrow> nat list" where
  "replies_of ids cs =
     map c_id (filter (\<lambda>c. case c_parent c of None \<Rightarrow> False | Some p \<Rightarrow> p \<in> set ids) cs)"

fun thread_closure :: "nat \<Rightarrow> nat list \<Rightarrow> board_comment list \<Rightarrow> nat list" where
  "thread_closure 0 ids cs = ids"
| "thread_closure (Suc n) ids cs =
     thread_closure n (remdups (ids @ replies_of ids cs)) cs"

definition delete_comments :: "(board_comment \<Rightarrow> bool) \<Rightarrow> database \<Rightarrow> database" where
  "delete_comments P d =
     (let gone = thread_closure (length (comments d))
                   (map c_id (filter P (comments d))) (comments d)
      in d\<lparr>comments := filter (\<lambda>c. c_id c \<notin> set gone) (comments d)\<rparr>)"

text \<open>
  Deleting posts: votes, comments, tag links, roadmap items and attachments of the post go
  with it (CASCADE), and a post marked as its duplicate loses the mark (SET NULL).
\<close>

definition delete_posts :: "(post \<Rightarrow> bool) \<Rightarrow> database \<Rightarrow> database" where
  "delete_posts P d =
     (let gone = map p_id (filter P (posts d));
          d1 = delete_comments (\<lambda>c. c_post c \<in> set gone) d
      in d1\<lparr>posts := update_where
               (\<lambda>p. case p_duplicate_of p of None \<Rightarrow> False | Some q \<Rightarrow> q \<in> set gone)
               (\<lambda>p. p\<lparr>p_duplicate_of := None\<rparr>)
               (filter (\<lambda>p. \<not> P p) (posts d)),
            votes := filter (\<lambda>v. v_post v \<notin> set gone) (votes d),
            post_tags := filter (\<lambda>x. pt_post x \<notin> set gone) (post_tags d),
            roadmap_items := filter (\<lambda>x. ri_post x \<notin> set gone) (roadmap_items d),
            attachments := filter (\<lambda>a. case a_post a of None \<Rightarrow> True
                                        | Some q \<Rightarrow> q \<notin> set gone) (attachments d)\<rparr>)"

definition delete_columns :: "(roadmap_column \<Rightarrow> bool) \<Rightarrow> database \<Rightarrow> database" where
  "delete_columns P d =
     (let gone = map rc_id (filter P (roadmap_columns d))
      in d\<lparr>roadmap_columns := filter (\<lambda>x. \<not> P x) (roadmap_columns d),
           roadmap_items := filter (\<lambda>x. ri_column x \<notin> set gone) (roadmap_items d)\<rparr>)"

definition delete_tags :: "(tag \<Rightarrow> bool) \<Rightarrow> database \<Rightarrow> database" where
  "delete_tags P d =
     (let gone = map g_id (filter P (tags d))
      in d\<lparr>tags := filter (\<lambda>x. \<not> P x) (tags d),
           post_tags := filter (\<lambda>x. pt_tag x \<notin> set gone) (post_tags d)\<rparr>)"

section \<open>A workspace's own data\<close>

text \<open>
  Everything the database stores under a tenant id: the content of the workspace, its
  members, its invitations and its row in \<open>tenants\<close>.
\<close>

definition tenant_view :: "nat \<Rightarrow> database \<Rightarrow> database" where
  "tenant_view t d =
     (empty_db 0)\<lparr>
       tenants := filter (\<lambda>x. t_id x = t) (tenants d),
       users := filter (\<lambda>x. u_tenant x = Some t) (users d),
       posts := filter (\<lambda>x. p_tenant x = t) (posts d),
       votes := filter (\<lambda>x. v_tenant x = t) (votes d),
       comments := filter (\<lambda>x. c_tenant x = t) (comments d),
       tags := filter (\<lambda>x. g_tenant x = t) (tags d),
       post_tags := filter (\<lambda>x. pt_tenant x = t) (post_tags d),
       roadmap_columns := filter (\<lambda>x. rc_tenant x = t) (roadmap_columns d),
       roadmap_items := filter (\<lambda>x. ri_tenant x = t) (roadmap_items d),
       changelog := filter (\<lambda>x. cl_tenant x = t) (changelog d),
       notifications := filter (\<lambda>x. n_tenant x = t) (notifications d),
       api_keys := filter (\<lambda>x. k_tenant x = t) (api_keys d),
       integrations := filter (\<lambda>x. ig_tenant x = t) (integrations d),
       attachments := filter (\<lambda>x. a_tenant x = t) (attachments d),
       file_uploads := filter (\<lambda>x. f_tenant x = t) (file_uploads d),
       invitations := filter (\<lambda>x. i_tenant x = t) (invitations d),
       promo_redemptions := filter (\<lambda>x. rd_tenant x = t) (promo_redemptions d)\<rparr>"

end
