(* ===== verification/Runtime.thy ===== *)
theory Runtime
  imports Schema
begin

text \<open>
  The execution model of a request handler: a state-and-exception monad over the \<open>world\<close>.
  A handler awaits database round trips (\<open>sql\<close>), calls to outside services (\<open>call\<close>), random
  draws and the clock.  Every round trip may fail: the world carries a fault schedule
  (\<open>fault n\<close>: the n-th round trip fails), so a theorem that does not mention it holds under
  every pattern of database failures.  An outside service is an arbitrary function of the
  requests it has received so far and of the time; the requests are recorded in the log.
  Two calculi reason about handlers: \<open>wp\<close> executes them symbolically, \<open>preserves\<close> and
  \<open>emits_only\<close> follow their structure.
\<close>

section \<open>Exceptions, responses\<close>

text \<open>
  \<open>Thrown\<close> is a \<open>throw setServerResponse(...)\<close>; \<open>Coded\<close> an \<open>Error\<close> with a \<open>code\<close>;
  \<open>DupEntry\<close> MySQL's \<open>ER_DUP_ENTRY\<close> with the violated key; \<open>DbError\<close> any other failure of
  the database; \<open>JsError\<close> any other \<open>Error\<close>.
\<close>

datatype exn = DbError | DupEntry string | Thrown int string | Coded string | JsError string

text \<open>
  What a handler settles to: \<open>Promise.resolve/reject(setServerResponse(code, key, lg, result))\<close>.
  The language only selects the text of the message, so a response keeps the message key.
\<close>

datatype 'r outcome = Resolve int string 'r | Reject int string

text \<open>\<open>API_STATUS_CODE\<close>.\<close>

definition OK :: int where "OK = 200"
definition CREATED :: int where "CREATED = 201"
definition BAD_REQUEST :: int where "BAD_REQUEST = 400"
definition UNAUTHORIZED :: int where "UNAUTHORIZED = 401"
definition PAYMENT_REQUIRED :: int where "PAYMENT_REQUIRED = 402"
definition FORBIDDEN :: int where "FORBIDDEN = 403"
definition NOT_FOUND :: int where "NOT_FOUND = 404"
definition CONFLICT :: int where "CONFLICT = 409"
definition TOO_MANY_REQUESTS :: int where "TOO_MANY_REQUESTS = 429"
definition INTERNAL_SERVER_ERROR :: int where "INTERNAL_SERVER_ERROR = 500"

lemmas status_defs = OK_def CREATED_def BAD_REQUEST_def UNAUTHORIZED_def PAYMENT_REQUIRED_def
  FORBIDDEN_def NOT_FOUND_def CONFLICT_def TOO_MANY_REQUESTS_def INTERNAL_SERVER_ERROR_def

section \<open>Outside services\<close>

datatype proration = ProratedImmediately | DoNotBill

record paddle_sub =
  ps_id :: string
  ps_customer :: string
  ps_status :: string
  ps_price :: "string option"
  ps_period_end :: "int option"
  ps_scheduled :: "(string \<times> int option) option"
  ps_discount :: "string option"

record paddle_preview =
  pv_grand_total :: "int option"
  pv_result_action :: "string option"
  pv_result_amount :: int
  pv_currency :: string

record paddle_event =
  pe_type :: string
  pe_sub :: "string option"
  pe_customer :: "string option"
  pe_email :: "jstring option"

record stripe_sub =
  ss_id :: string
  ss_customer :: "string option"
  ss_status :: string
  ss_price :: "string option"
  ss_yearly :: bool
  ss_period_end :: "int option"
  ss_email :: "jstring option"
  ss_tenant :: "nat option"
  ss_item :: "string option"
  ss_schedule :: "string option"
  ss_cancel_at_end :: bool
  ss_currency :: "string option"
  ss_created :: int

datatype stripe_event =
    SessionCompleted "string option" "jstring option"  \<comment> \<open>subscription, account in the metadata\<close>
  | SubscriptionEvent stripe_sub
  | OtherStripeEvent

text \<open>The discount of a checkout: the customer's own code, a redeemed one, an offer's coupon.\<close>

datatype stripe_discount = TypeACode | PromotionCode string | Coupon string

text \<open>A discount made at a provider: an amount off in cents or a percentage.\<close>

datatype discount_kind = Flat int | Percentage int

record discount_terms =
  dt_kind :: discount_kind
  dt_recur :: bool
  dt_periods :: "int option"
  dt_limit :: "int option"
  dt_expires :: "int option"
  dt_prices :: "string list option"

text \<open>The requests that change something outside, in the order they were sent.\<close>

datatype event =
    EvMail jstring string
  | EvSubUpdate string string proration "string option"
  | EvSubDiscount string string
  | EvSubResume string
  | EvSubCancel string bool
  | EvCustomer jstring
  | EvTransaction string string "string option" jstring
  | EvDiscount discount_terms
  | EvDiscountArchive string
  | EvStripeCancel string
  | EvStripeSwap string string string
  | EvStripeCancelAtEnd string bool
  | EvStripeRelease string
  | EvStripeSchedule string
  | EvStripePhases string "string option" int "int option" string
  | EvStripeCustomer jstring
  | EvStripeCheckout string string stripe_discount jstring
  | EvStripeCoupon discount_terms
  | EvStripePromotion string jstring
  | EvStripePromotionOff string
  | EvStripeCouponDelete string

text \<open>
  The Paddle SDK: each method as a function of the history of requests, the time and its
  arguments; \<open>Inl\<close> is a thrown SDK error with its message.
\<close>

record paddle_api =
  pd_sub_get :: "event list \<Rightarrow> int \<Rightarrow> string \<Rightarrow> string + paddle_sub"
  pd_sub_update :: "event list \<Rightarrow> int \<Rightarrow> string \<Rightarrow> string \<Rightarrow> proration \<Rightarrow> string option \<Rightarrow> string + unit"
  pd_sub_discount :: "event list \<Rightarrow> int \<Rightarrow> string \<Rightarrow> string \<Rightarrow> string + unit"
  pd_sub_resume :: "event list \<Rightarrow> int \<Rightarrow> string \<Rightarrow> string + unit"
  pd_sub_cancel :: "event list \<Rightarrow> int \<Rightarrow> string \<Rightarrow> bool \<Rightarrow> string + paddle_sub"
  pd_sub_list :: "event list \<Rightarrow> int \<Rightarrow> string \<Rightarrow> string + paddle_sub list"
  pd_customers :: "event list \<Rightarrow> int \<Rightarrow> jstring \<Rightarrow> string + string list"
  pd_customer_create :: "event list \<Rightarrow> int \<Rightarrow> jstring \<Rightarrow> string + string"
  pd_transaction :: "event list \<Rightarrow> int \<Rightarrow> string \<Rightarrow> string \<Rightarrow> string option \<Rightarrow> string + string"
  pd_discount_get :: "event list \<Rightarrow> int \<Rightarrow> string \<Rightarrow> string + string list"
  pd_preview :: "event list \<Rightarrow> int \<Rightarrow> string \<Rightarrow> string \<Rightarrow> string option \<Rightarrow> string + paddle_preview"
  pd_portal :: "event list \<Rightarrow> int \<Rightarrow> string \<Rightarrow> string option \<Rightarrow> string + string option"
  pd_unmarshal :: "jstring \<Rightarrow> jstring \<Rightarrow> string + paddle_event"
  pd_discount_create :: "event list \<Rightarrow> int \<Rightarrow> discount_terms \<Rightarrow> string + string"
  pd_discount_archive :: "event list \<Rightarrow> int \<Rightarrow> string \<Rightarrow> string + unit"
  pd_discount_update :: "event list \<Rightarrow> int \<Rightarrow> string \<Rightarrow> string + unit"

text \<open>The Stripe SDK, in the same way; a schedule is the list of the start dates of its phases.\<close>

record stripe_api =
  st_sub_list :: "event list \<Rightarrow> int \<Rightarrow> string \<Rightarrow> string + stripe_sub list"
  st_sub_cancel :: "event list \<Rightarrow> int \<Rightarrow> string \<Rightarrow> string + unit"
  st_sub_get :: "event list \<Rightarrow> int \<Rightarrow> string \<Rightarrow> string + stripe_sub"
  st_sub_swap :: "event list \<Rightarrow> int \<Rightarrow> string \<Rightarrow> string \<Rightarrow> string \<Rightarrow> string + unit"
  st_cancel_at_end :: "event list \<Rightarrow> int \<Rightarrow> string \<Rightarrow> bool \<Rightarrow> string + stripe_sub"
  st_preview :: "event list \<Rightarrow> int \<Rightarrow> string option \<Rightarrow> string \<Rightarrow> string \<Rightarrow> string \<Rightarrow> string + (int \<times> string option)"
  st_sched_release :: "event list \<Rightarrow> int \<Rightarrow> string \<Rightarrow> string + unit"
  st_sched_create :: "event list \<Rightarrow> int \<Rightarrow> string \<Rightarrow> string + string"
  st_sched_get :: "event list \<Rightarrow> int \<Rightarrow> string \<Rightarrow> string + int list"
  st_sched_update :: "event list \<Rightarrow> int \<Rightarrow> string \<Rightarrow> string option \<Rightarrow> int \<Rightarrow> int option \<Rightarrow> string \<Rightarrow> string + unit"
  st_customer_create :: "event list \<Rightarrow> int \<Rightarrow> jstring \<Rightarrow> string + string"
  st_checkout :: "event list \<Rightarrow> int \<Rightarrow> string \<Rightarrow> string \<Rightarrow> stripe_discount \<Rightarrow> jstring \<Rightarrow> string + string option"
  st_portal :: "event list \<Rightarrow> int \<Rightarrow> string \<Rightarrow> string + string option"
  st_construct :: "string \<Rightarrow> jstring \<Rightarrow> jstring \<Rightarrow> string + stripe_event"
  st_coupon_create :: "event list \<Rightarrow> int \<Rightarrow> discount_terms \<Rightarrow> string + string"
  st_coupon_delete :: "event list \<Rightarrow> int \<Rightarrow> string \<Rightarrow> string + unit"
  st_promotion_create :: "event list \<Rightarrow> int \<Rightarrow> string \<Rightarrow> jstring \<Rightarrow> int option \<Rightarrow> int option \<Rightarrow> string + string"
  st_promotion_off :: "event list \<Rightarrow> int \<Rightarrow> string \<Rightarrow> string + unit"

text \<open>What \<open>dns.resolveMx\<close> answers.\<close>

datatype dns_reply = MxRecords nat | NotFoundDomain | DnsFailure

text \<open>The claims of a signed token, and what verifying a token at a given time answers.\<close>

record jwt_claims =
  jc_id :: "nat option"
  jc_email :: "jstring option"
  jc_tenant :: "nat option"
  jc_role :: "role option"
  jc_sid :: "jstring option"
  jc_scope :: "string option"

datatype jwt_result = JwtExpired | JwtInvalid | JwtValid jwt_claims

text \<open>
  Everything the backend uses and does not implement: the fault schedule of the database,
  the environment variables, the cryptographic primitives, the WHATWG URL parser
  (\<open>url_host u\<close> is \<open>new URL(u).host\<close>, \<open>None\<close> where it throws), the mailer, DNS and the payment
  providers.  \<open>env_num\<close> is \<open>Number(process.env.X)\<close> of a set variable.
\<close>

record services =
  fault :: "nat \<Rightarrow> bool"
  env :: "string \<Rightarrow> string option"
  env_num :: "string \<Rightarrow> int option"
  hmac_hex :: "jstring \<Rightarrow> jstring"
  sha256_hex :: "jstring \<Rightarrow> jstring"
  random_hex :: "nat \<Rightarrow> jstring"
  bcrypt_hash :: "nat \<Rightarrow> jstring \<Rightarrow> jstring"
  bcrypt_compare :: "jstring \<Rightarrow> jstring \<Rightarrow> bool"
  jwt_sign :: "int \<Rightarrow> jwt_claims \<Rightarrow> jstring"
  jwt_verify :: "int \<Rightarrow> jstring \<Rightarrow> jwt_result"
  url_host :: "jstring \<Rightarrow> jstring option"
  resolve_mx :: "int \<Rightarrow> jstring \<Rightarrow> dns_reply"
  mail_sent :: "event list \<Rightarrow> jstring \<Rightarrow> bool"
  mail_configured :: bool
  prune_draw :: "nat \<Rightarrow> bool"
  paddle :: paddle_api
  stripe :: stripe_api

section \<open>The world and its programs\<close>

text \<open>
  \<open>mx_cache\<close> and \<open>tenant_cache\<close> are the module-level \<open>Map\<close>s of \<open>emailQuality.js\<close> and
  \<open>cache.js\<close>, association lists in insertion order; \<open>rn\<close> counts the random draws.
\<close>

record world =
  db :: database
  js_now :: int
  qn :: nat
  rn :: nat
  log :: "event list"
  mx_cache :: "(jstring \<times> bool \<times> int) list"
  tenant_cache :: "(jstring \<times> tenant \<times> int) list"
  svc :: services

type_synonym 'a io = "world \<Rightarrow> (exn + 'a) \<times> world"

definition ret :: "'a \<Rightarrow> 'a io" where
  "ret x = (\<lambda>w. (Inr x, w))"

definition raise :: "exn \<Rightarrow> 'a io" where
  "raise e = (\<lambda>w. (Inl e, w))"

definition bnd :: "'a io \<Rightarrow> ('a \<Rightarrow> 'b io) \<Rightarrow> 'b io" where
  "bnd m f = (\<lambda>w. case m w of (Inl e, w') \<Rightarrow> (Inl e, w') | (Inr x, w') \<Rightarrow> f x w')"

text \<open>\<open>try { m } catch (e) { h e }\<close>: what \<open>m\<close> wrote before it failed stays written.\<close>

definition catch :: "'a io \<Rightarrow> (exn \<Rightarrow> 'a io) \<Rightarrow> 'a io" where
  "catch m h = (\<lambda>w. case m w of (Inl e, w') \<Rightarrow> h e w' | (Inr x, w') \<Rightarrow> (Inr x, w'))"

definition asks :: "(world \<Rightarrow> 'a) \<Rightarrow> 'a io" where
  "asks f = (\<lambda>w. (Inr (f w), w))"

text \<open>One round trip to the database.\<close>

definition sql :: "(database \<Rightarrow> exn + ('a \<times> database)) \<Rightarrow> 'a io" where
  "sql f = (\<lambda>w.
     let w1 = w\<lparr>qn := Suc (qn w)\<rparr>
     in if fault (svc w) (qn w) then (Inl DbError, w1)
        else case f (db w) of
          Inl e \<Rightarrow> (Inl e, w1)
        | Inr (x, d) \<Rightarrow> (Inr x, w1\<lparr>db := d\<rparr>))"

definition select :: "(database \<Rightarrow> 'a) \<Rightarrow> 'a io" where
  "select f = sql (\<lambda>d. Inr (f d, d))"

definition execute :: "(database \<Rightarrow> 'a \<times> database) \<Rightarrow> 'a io" where
  "execute f = sql (\<lambda>d. Inr (f d))"

text \<open>A request to an outside service, recorded whether it succeeds or not.\<close>

definition call :: "event list \<Rightarrow> (world \<Rightarrow> string + 'a) \<Rightarrow> 'a io" where
  "call evs f = (\<lambda>w.
     let w1 = w\<lparr>log := log w @ evs\<rparr>
     in case f w of Inl m \<Rightarrow> (Inl (JsError m), w1) | Inr x \<Rightarrow> (Inr x, w1))"

text \<open>The wall clock when a later request arrives.\<close>

definition at_time :: "int \<Rightarrow> unit io" where
  "at_time t = (\<lambda>w. (Inr (), w\<lparr>js_now := t\<rparr>))"

definition draw_hex :: "jstring io" where
  "draw_hex = (\<lambda>w. (Inr (random_hex (svc w) (rn w)), w\<lparr>rn := Suc (rn w)\<rparr>))"

definition hash_password :: "jstring \<Rightarrow> jstring io" where
  "hash_password p = (\<lambda>w. (Inr (bcrypt_hash (svc w) (rn w) p), w\<lparr>rn := Suc (rn w)\<rparr>))"

text \<open>
  \<open>sendEmail\<close> never throws: it reports whether a provider accepted the message.
\<close>

definition send_email :: "jstring \<Rightarrow> string \<Rightarrow> bool io" where
  "send_email to kind = (\<lambda>w.
     (Inr (mail_sent (svc w) (log w) to), w\<lparr>log := log w @ [EvMail to kind]\<rparr>))"

text \<open>
  \<open>beginTransaction \<dots> commit/rollback\<close> on one connection.  A body ends in \<open>Commit\<close> or
  \<open>Rollback\<close>; an exception inside it reaches the \<open>catch\<close> of the handler, which rolls back.
  Beginning and committing are round trips of their own.
\<close>

datatype ('a, 'b) tx_end = Rollback 'a | Commit 'b

definition transaction :: "('a, 'b) tx_end io \<Rightarrow> ('a + 'b) io" where
  "transaction m = bnd (select (\<lambda>_. ())) (\<lambda>_. (\<lambda>w.
     case m w of
       (Inl e, w') \<Rightarrow> (Inl e, w'\<lparr>db := db w\<rparr>)
     | (Inr (Rollback a), w') \<Rightarrow> (Inr (Inl a), w'\<lparr>db := db w\<rparr>)
     | (Inr (Commit b), w') \<Rightarrow>
         (case select (\<lambda>_. ()) w' of
            (Inl e, w'') \<Rightarrow> (Inl e, w''\<lparr>db := db w\<rparr>)
          | (Inr _, w'') \<Rightarrow> (Inr (Inr b), w''))))"

text \<open>\<open>for (const x of xs) await body(x)\<close>, collecting the results.\<close>

primrec for_each :: "'a list \<Rightarrow> ('a \<Rightarrow> 'b io) \<Rightarrow> 'b list io" where
  "for_each [] f = ret []"
| "for_each (x # xs) f = bnd (f x) (\<lambda>y. bnd (for_each xs f) (\<lambda>ys. ret (y # ys)))"

text \<open>\<open>Number(process.env.X) || dflt\<close>.\<close>

definition env_or :: "services \<Rightarrow> string \<Rightarrow> int \<Rightarrow> int" where
  "env_or s x dflt = (case env_num s x of None \<Rightarrow> dflt | Some n \<Rightarrow> if n = 0 then dflt else n)"

text \<open>\<open>Boolean(process.env.X)\<close>.\<close>

definition env_set :: "services \<Rightarrow> string \<Rightarrow> bool" where
  "env_set s x \<longleftrightarrow> (case env s x of None \<Rightarrow> False | Some v \<Rightarrow> v \<noteq> [])"

text \<open>\<open>req.auth\<close>: the signed-in user as the database knows it; the tenant is NULL before
  onboarding.\<close>

record auth =
  au_id :: nat
  au_tenant :: "nat option"
  au_role :: role
  au_email :: jstring
  au_sid :: "jstring option"

section \<open>Symbolic execution\<close>

definition wp :: "'a io \<Rightarrow> (exn + 'a \<Rightarrow> world \<Rightarrow> bool) \<Rightarrow> world \<Rightarrow> bool" where
  "wp m Q w = (case m w of (r, w') \<Rightarrow> Q r w')"

lemma wp_iff: "wp m Q w \<longleftrightarrow> Q (fst (m w)) (snd (m w))"
  by (simp add: wp_def case_prod_beta)

lemma wp_ret [simp]: "wp (ret x) Q w = Q (Inr x) w"
  by (simp add: wp_def ret_def)

lemma wp_raise [simp]: "wp (raise e) Q w = Q (Inl e) w"
  by (simp add: wp_def raise_def)

lemma wp_asks [simp]: "wp (asks f) Q w = Q (Inr (f w)) w"
  by (simp add: wp_def asks_def)

lemma wp_bnd [simp]:
  "wp (bnd m f) Q w = wp m (\<lambda>r w'. case r of Inl e \<Rightarrow> Q (Inl e) w' | Inr x \<Rightarrow> wp (f x) Q w') w"
  by (auto simp: wp_def bnd_def split: prod.splits sum.splits)

lemma wp_catch [simp]:
  "wp (catch m h) Q w = wp m (\<lambda>r w'. case r of Inl e \<Rightarrow> wp (h e) Q w' | Inr x \<Rightarrow> Q (Inr x) w') w"
  by (auto simp: wp_def catch_def split: prod.splits sum.splits)

lemma wp_if [simp]: "wp (if b then m else n) Q w = (if b then wp m Q w else wp n Q w)"
  by simp

lemma wp_sql [simp]:
  "wp (sql f) Q w =
     (if fault (svc w) (qn w) then Q (Inl DbError) (w\<lparr>qn := Suc (qn w)\<rparr>)
      else case f (db w) of
        Inl e \<Rightarrow> Q (Inl e) (w\<lparr>qn := Suc (qn w)\<rparr>)
      | Inr (x, d) \<Rightarrow> Q (Inr x) (w\<lparr>qn := Suc (qn w), db := d\<rparr>))"
  by (auto simp: wp_def sql_def Let_def split: sum.splits prod.splits)

lemma wp_select [simp]:
  "wp (select f) Q w =
     (if fault (svc w) (qn w) then Q (Inl DbError) (w\<lparr>qn := Suc (qn w)\<rparr>)
      else Q (Inr (f (db w))) (w\<lparr>qn := Suc (qn w)\<rparr>))"
  by (simp add: select_def)

lemma wp_execute [simp]:
  "wp (execute f) Q w =
     (if fault (svc w) (qn w) then Q (Inl DbError) (w\<lparr>qn := Suc (qn w)\<rparr>)
      else Q (Inr (fst (f (db w)))) (w\<lparr>qn := Suc (qn w), db := snd (f (db w))\<rparr>))"
  by (simp add: execute_def split: prod.splits)

lemma wp_call [simp]:
  "wp (call evs f) Q w =
     (case f w of
        Inl m \<Rightarrow> Q (Inl (JsError m)) (w\<lparr>log := log w @ evs\<rparr>)
      | Inr x \<Rightarrow> Q (Inr x) (w\<lparr>log := log w @ evs\<rparr>))"
  by (simp add: wp_def call_def Let_def split: sum.splits)

lemma wp_at_time [simp]: "wp (at_time t) Q w = Q (Inr ()) (w\<lparr>js_now := t\<rparr>)"
  by (simp add: wp_def at_time_def)

lemma wp_draw_hex [simp]:
  "wp draw_hex Q w = Q (Inr (random_hex (svc w) (rn w))) (w\<lparr>rn := Suc (rn w)\<rparr>)"
  by (simp add: wp_def draw_hex_def)

lemma wp_hash_password [simp]:
  "wp (hash_password p) Q w = Q (Inr (bcrypt_hash (svc w) (rn w) p)) (w\<lparr>rn := Suc (rn w)\<rparr>)"
  by (simp add: wp_def hash_password_def)

lemma wp_send_email [simp]:
  "wp (send_email to kind) Q w =
     Q (Inr (mail_sent (svc w) (log w) to)) (w\<lparr>log := log w @ [EvMail to kind]\<rparr>)"
  by (simp add: wp_def send_email_def)

lemma wp_transaction [simp]:
  "wp (transaction m) Q w =
     (if fault (svc w) (qn w) then Q (Inl DbError) (w\<lparr>qn := Suc (qn w)\<rparr>)
      else wp m (\<lambda>r w'. case r of
             Inl e \<Rightarrow> Q (Inl e) (w'\<lparr>db := db w\<rparr>)
           | Inr (Rollback a) \<Rightarrow> Q (Inr (Inl a)) (w'\<lparr>db := db w\<rparr>)
           | Inr (Commit b) \<Rightarrow>
               (if fault (svc w') (qn w')
                then Q (Inl DbError) (w'\<lparr>qn := Suc (qn w'), db := db w\<rparr>)
                else Q (Inr (Inr b)) (w'\<lparr>qn := Suc (qn w')\<rparr>)))
           (w\<lparr>qn := Suc (qn w)\<rparr>))"
  by (auto simp: wp_def transaction_def bnd_def select_def sql_def Let_def
           split: prod.splits sum.splits tx_end.splits)

lemma wp_case_option [simp]:
  "wp (case x of None \<Rightarrow> m | Some y \<Rightarrow> f y) Q w =
     (case x of None \<Rightarrow> wp m Q w | Some y \<Rightarrow> wp (f y) Q w)"
  by (simp split: option.splits)

lemma wp_case_sum [simp]:
  "wp (case x of Inl y \<Rightarrow> f y | Inr z \<Rightarrow> g z) Q w =
     (case x of Inl y \<Rightarrow> wp (f y) Q w | Inr z \<Rightarrow> wp (g z) Q w)"
  by (simp split: sum.splits)

lemma wp_case_prod [simp]:
  "wp (case p of (x, y) \<Rightarrow> f x y) Q w = (case p of (x, y) \<Rightarrow> wp (f x y) Q w)"
  by (simp split: prod.splits)

lemma wp_let [simp]: "wp (let x = a in m x) Q w = (let x = a in wp (m x) Q w)"
  by (simp add: Let_def)

lemma wp_mono: "wp m Q w \<Longrightarrow> (\<And>r w'. Q r w' \<Longrightarrow> R r w') \<Longrightarrow> wp m R w"
  by (simp add: wp_iff)

lemma wp_transaction_all:
  assumes "wp m (\<lambda>r w'. case r of Inr (Commit x) \<Rightarrow> C x (db w') | _ \<Rightarrow> True) (w\<lparr>qn := Suc (qn w)\<rparr>)"
  shows "wp (transaction m) (\<lambda>r w'. case r of Inr (Inr x) \<Rightarrow> C x (db w') | _ \<Rightarrow> db w' = db w) w"
  by (auto intro!: wp_mono [OF assms] split: sum.splits tx_end.splits)

lemma wp_ifI: "(b \<Longrightarrow> wp m Q w) \<Longrightarrow> (\<not> b \<Longrightarrow> wp n Q w) \<Longrightarrow> wp (if b then m else n) Q w"
  by simp

lemma wp_any: "(\<And>r w'. Q r w') \<Longrightarrow> wp m Q w"
  by (simp add: wp_iff)

lemma wp_seq:
  assumes "wp m R w" and "\<And>x w'. R (Inr x) w' \<Longrightarrow> wp (f x) Q w'"
    and "\<And>e w'. R (Inl e) w' \<Longrightarrow> Q (Inl e) w'"
  shows "wp (bnd m f) Q w"
  unfolding wp_bnd by (rule wp_mono [OF assms(1)]) (auto split: sum.splits intro: assms)

lemma wpI: "wp m (\<lambda>r' w'. r = r' \<longrightarrow> w1 = w' \<longrightarrow> P) w \<Longrightarrow> m w = (r, w1) \<Longrightarrow> P"
  by (simp add: wp_def)

text \<open>No round trip from number \<open>a\<close> up to (not including) number \<open>b\<close> failed.\<close>

definition no_fault :: "services \<Rightarrow> nat \<Rightarrow> nat \<Rightarrow> bool" where
  "no_fault sv a b \<longleftrightarrow> list_all (\<lambda>n. \<not> fault sv n) [a..<b]"

lemma no_fault_same [simp]: "no_fault sv a a"
  by (simp add: no_fault_def)

lemma no_fault_step: "\<not> fault sv a \<Longrightarrow> no_fault sv (Suc a) b \<Longrightarrow> no_fault sv a b"
  by (cases "a < b") (auto simp: no_fault_def upt_rec)

text \<open>A database without failures, the setting of the functional theorems.\<close>

definition healthy :: "world \<Rightarrow> bool" where
  "healthy w \<longleftrightarrow> (\<forall>n. \<not> fault (svc w) n)"

lemma healthyD [simp]: "healthy w \<Longrightarrow> fault (svc w) n = False"
  by (simp add: healthy_def)

lemma wp_for_each_Nil [simp]: "wp (for_each [] f) Q w = Q (Inr []) w"
  by simp

lemma healthy_update [simp]:
  "healthy (w\<lparr>qn := n\<rparr>) = healthy w" "healthy (w\<lparr>db := d\<rparr>) = healthy w"
  "healthy (w\<lparr>rn := n\<rparr>) = healthy w" "healthy (w\<lparr>log := l\<rparr>) = healthy w"
  "healthy (w\<lparr>js_now := t\<rparr>) = healthy w" "healthy (w\<lparr>mx_cache := m\<rparr>) = healthy w"
  "healthy (w\<lparr>tenant_cache := c\<rparr>) = healthy w"
  by (simp_all add: healthy_def)

section \<open>Structural rules\<close>

definition preserves :: "(database \<Rightarrow> bool) \<Rightarrow> 'a io \<Rightarrow> bool" where
  "preserves P m \<longleftrightarrow> (\<forall>w. P (db w) \<longrightarrow> P (db (snd (m w))))"

lemma preservesI: "(\<And>w. P (db w) \<Longrightarrow> wp m (\<lambda>_ w'. P (db w')) w) \<Longrightarrow> preserves P m"
  by (simp add: preserves_def wp_iff)

lemma preserves_wp: "preserves P m \<Longrightarrow> P (db w) \<Longrightarrow> wp m (\<lambda>_ w'. P (db w')) w"
  by (simp add: preserves_def wp_iff)

lemma preservesD: "preserves P m \<Longrightarrow> P (db w) \<Longrightarrow> P (db (snd (m w)))"
  by (simp add: preserves_def)

lemma preserves_ret [keeps]: "preserves P (ret x)"
  by (simp add: preserves_def ret_def)

lemma preserves_raise [keeps]: "preserves P (raise e)"
  by (simp add: preserves_def raise_def)

lemma preserves_asks [keeps]: "preserves P (asks f)"
  by (simp add: preserves_def asks_def)

lemma preserves_bnd [keeps]:
  "preserves P m \<Longrightarrow> (\<And>x. preserves P (f x)) \<Longrightarrow> preserves P (bnd m f)"
  by (simp add: preserves_def bnd_def split: prod.splits sum.splits) (metis snd_conv)

lemma preserves_catch [keeps]:
  "preserves P m \<Longrightarrow> (\<And>e. preserves P (h e)) \<Longrightarrow> preserves P (catch m h)"
  by (simp add: preserves_def catch_def split: prod.splits sum.splits) (metis snd_conv)

lemma preserves_select [keeps]: "preserves P (select f)"
  by (rule preservesI) simp

lemma preserves_sql:
  "(\<And>d x d'. P d \<Longrightarrow> f d = Inr (x, d') \<Longrightarrow> P d') \<Longrightarrow> preserves P (sql f)"
  by (rule preservesI) (auto split: sum.splits prod.splits)

lemma preserves_execute:
  "(\<And>d. P d \<Longrightarrow> P (snd (f d))) \<Longrightarrow> preserves P (execute f)"
  by (rule preservesI) simp

lemma preserves_call [keeps]: "preserves P (call evs f)"
  by (rule preservesI) (simp split: sum.splits)

lemma preserves_at_time [keeps]: "preserves P (at_time t)"
  by (rule preservesI) simp

lemma preserves_draw_hex [keeps]: "preserves P draw_hex"
  by (rule preservesI) simp

lemma preserves_hash_password [keeps]: "preserves P (hash_password p)"
  by (rule preservesI) simp

lemma preserves_send_email [keeps]: "preserves P (send_email to kind)"
  by (rule preservesI) simp

lemma preserves_transaction [keeps]:
  assumes "preserves P m"
  shows "preserves P (transaction m)"
proof (rule preservesI)
  fix w :: world
  assume P: "P (db w)"
  have "wp m (\<lambda>_ w'. P (db w')) (w\<lparr>qn := Suc (qn w)\<rparr>)"
    using assms P by (intro preserves_wp) simp_all
  then have "wp m (\<lambda>r w'. case r of
             Inl e \<Rightarrow> P (db (w'\<lparr>db := db w\<rparr>))
           | Inr (Rollback a) \<Rightarrow> P (db (w'\<lparr>db := db w\<rparr>))
           | Inr (Commit b) \<Rightarrow>
               (if fault (svc w') (qn w') then P (db (w'\<lparr>qn := Suc (qn w'), db := db w\<rparr>))
                else P (db (w'\<lparr>qn := Suc (qn w')\<rparr>)))) (w\<lparr>qn := Suc (qn w)\<rparr>)"
    by (rule wp_mono) (simp add: P split: sum.splits tx_end.splits)
  then show "wp (transaction m) (\<lambda>_ w'. P (db w')) w" using P by simp
qed

lemma preserves_if [keeps]:
  "(b \<Longrightarrow> preserves P m) \<Longrightarrow> (\<not> b \<Longrightarrow> preserves P n) \<Longrightarrow> preserves P (if b then m else n)"
  by simp

lemma preserves_case_option [keeps]:
  "(x = None \<Longrightarrow> preserves P m) \<Longrightarrow> (\<And>y. x = Some y \<Longrightarrow> preserves P (f y)) \<Longrightarrow>
   preserves P (case x of None \<Rightarrow> m | Some y \<Rightarrow> f y)"
  by (simp split: option.splits)

lemma preserves_case_sum [keeps]:
  "(\<And>y. x = Inl y \<Longrightarrow> preserves P (f y)) \<Longrightarrow> (\<And>z. x = Inr z \<Longrightarrow> preserves P (g z)) \<Longrightarrow>
   preserves P (case x of Inl y \<Rightarrow> f y | Inr z \<Rightarrow> g z)"
  by (simp split: sum.splits)

lemma preserves_case_prod [keeps]:
  "(\<And>x y. p = (x, y) \<Longrightarrow> preserves P (f x y)) \<Longrightarrow> preserves P (case p of (x, y) \<Rightarrow> f x y)"
  by (simp split: prod.splits)

lemma preserves_case_list [keeps]:
  "(xs = [] \<Longrightarrow> preserves P m) \<Longrightarrow> (\<And>y ys. xs = y # ys \<Longrightarrow> preserves P (f y ys)) \<Longrightarrow>
   preserves P (case xs of [] \<Rightarrow> m | y # ys \<Rightarrow> f y ys)"
  by (simp split: list.splits)

lemma preserves_let [keeps]: "(\<And>x. x = a \<Longrightarrow> preserves P (m x)) \<Longrightarrow> preserves P (let x = a in m x)"
  by (simp add: Let_def)

lemma preserves_for_each [keeps]:
  "(\<And>x. x \<in> set xs \<Longrightarrow> preserves P (f x)) \<Longrightarrow> preserves P (for_each xs f)"
  by (induction xs) (auto intro!: keeps)

text \<open>Programs that send only requests of a set \<open>S\<close> to the outside.\<close>

definition emits_only :: "event set \<Rightarrow> 'a io \<Rightarrow> bool" where
  "emits_only S m \<longleftrightarrow> (\<forall>w. \<exists>es. log (snd (m w)) = log w @ es \<and> set es \<subseteq> S)"

lemma emits_onlyI:
  "(\<And>w. wp m (\<lambda>_ w'. \<exists>es. log w' = log w @ es \<and> set es \<subseteq> S) w) \<Longrightarrow> emits_only S m"
  by (simp add: emits_only_def wp_iff)

lemma emits_only_ret [keeps]: "emits_only S (ret x)"
  by (rule emits_onlyI) simp

lemma emits_only_raise [keeps]: "emits_only S (raise e)"
  by (rule emits_onlyI) simp

lemma emits_only_asks [keeps]: "emits_only S (asks f)"
  by (rule emits_onlyI) simp

lemma emits_only_sql [keeps]: "emits_only S (sql f)"
  by (rule emits_onlyI) (simp split: sum.splits prod.splits)

lemma emits_only_select [keeps]: "emits_only S (select f)"
  by (rule emits_onlyI) simp

lemma emits_only_execute [keeps]: "emits_only S (execute f)"
  by (rule emits_onlyI) simp

lemma emits_only_call [keeps]: "set evs \<subseteq> S \<Longrightarrow> emits_only S (call evs f)"
  by (rule emits_onlyI) (simp split: sum.splits)

lemma emits_only_at_time [keeps]: "emits_only S (at_time t)"
  by (rule emits_onlyI) simp

lemma emits_only_draw_hex [keeps]: "emits_only S draw_hex"
  by (rule emits_onlyI) simp

lemma emits_only_hash_password [keeps]: "emits_only S (hash_password p)"
  by (rule emits_onlyI) simp

lemma emits_only_send_email [keeps]: "EvMail to kind \<in> S \<Longrightarrow> emits_only S (send_email to kind)"
  by (rule emits_onlyI) simp

lemma emits_only_step:
  assumes "emits_only S m" and "log w = l @ es" and "set es \<subseteq> S"
  shows "\<exists>es'. log (snd (m w)) = l @ es' \<and> set es' \<subseteq> S"
proof -
  from assms(1) obtain fs where "log (snd (m w)) = log w @ fs" "set fs \<subseteq> S"
    unfolding emits_only_def by blast
  with assms(2,3) show ?thesis by (intro exI [of _ "es @ fs"]) simp
qed

lemma emits_only_bnd [keeps]:
  assumes "emits_only S m" and "\<And>x. emits_only S (f x)"
  shows "emits_only S (bnd m f)"
  unfolding emits_only_def
proof
  fix w :: world
  obtain r w' where mw: "m w = (r, w')" by fastforce
  with assms(1) obtain es where es: "log w' = log w @ es" "set es \<subseteq> S"
    unfolding emits_only_def by (metis snd_conv)
  show "\<exists>es. log (snd (bnd m f w)) = log w @ es \<and> set es \<subseteq> S"
    using es mw emits_only_step [OF assms(2) es] by (cases r) (auto simp: bnd_def)
qed

lemma emits_only_catch [keeps]:
  assumes "emits_only S m" and "\<And>e. emits_only S (h e)"
  shows "emits_only S (catch m h)"
  unfolding emits_only_def
proof
  fix w :: world
  obtain r w' where mw: "m w = (r, w')" by fastforce
  with assms(1) obtain es where es: "log w' = log w @ es" "set es \<subseteq> S"
    unfolding emits_only_def by (metis snd_conv)
  show "\<exists>es. log (snd (catch m h w)) = log w @ es \<and> set es \<subseteq> S"
    using es mw emits_only_step [OF assms(2) es] by (cases r) (auto simp: catch_def)
qed

lemma emits_only_transaction [keeps]:
  assumes "emits_only S m"
  shows "emits_only S (transaction m)"
proof (rule emits_onlyI)
  fix w :: world
  let ?w1 = "w\<lparr>qn := Suc (qn w)\<rparr>"
  have "\<exists>es. log (snd (m ?w1)) = log ?w1 @ es \<and> set es \<subseteq> S"
    using assms unfolding emits_only_def by blast
  then have "wp m (\<lambda>_ w'. \<exists>es. log w' = log w @ es \<and> set es \<subseteq> S) ?w1"
    by (simp add: wp_iff)
  then have "wp m (\<lambda>r w'. case r of
             Inl e \<Rightarrow> (\<exists>es. log (w'\<lparr>db := db w\<rparr>) = log w @ es \<and> set es \<subseteq> S)
           | Inr (Rollback a) \<Rightarrow> (\<exists>es. log (w'\<lparr>db := db w\<rparr>) = log w @ es \<and> set es \<subseteq> S)
           | Inr (Commit b) \<Rightarrow>
               (if fault (svc w') (qn w')
                then \<exists>es. log (w'\<lparr>qn := Suc (qn w'), db := db w\<rparr>) = log w @ es \<and> set es \<subseteq> S
                else \<exists>es. log (w'\<lparr>qn := Suc (qn w')\<rparr>) = log w @ es \<and> set es \<subseteq> S))
             ?w1"
    by (rule wp_mono) (simp split: sum.splits tx_end.splits)
  then show "wp (transaction m) (\<lambda>_ w'. \<exists>es. log w' = log w @ es \<and> set es \<subseteq> S) w" by simp
qed

lemma emits_only_if [keeps]:
  "(b \<Longrightarrow> emits_only S m) \<Longrightarrow> (\<not> b \<Longrightarrow> emits_only S n) \<Longrightarrow> emits_only S (if b then m else n)"
  by simp

lemma emits_only_case_option [keeps]:
  "(x = None \<Longrightarrow> emits_only S m) \<Longrightarrow> (\<And>y. x = Some y \<Longrightarrow> emits_only S (f y)) \<Longrightarrow>
   emits_only S (case x of None \<Rightarrow> m | Some y \<Rightarrow> f y)"
  by (simp split: option.splits)

lemma emits_only_case_sum [keeps]:
  "(\<And>y. x = Inl y \<Longrightarrow> emits_only S (f y)) \<Longrightarrow> (\<And>z. x = Inr z \<Longrightarrow> emits_only S (g z)) \<Longrightarrow>
   emits_only S (case x of Inl y \<Rightarrow> f y | Inr z \<Rightarrow> g z)"
  by (simp split: sum.splits)

lemma emits_only_case_prod [keeps]:
  "(\<And>x y. p = (x, y) \<Longrightarrow> emits_only S (f x y)) \<Longrightarrow> emits_only S (case p of (x, y) \<Rightarrow> f x y)"
  by (simp split: prod.splits)

lemma emits_only_case_list [keeps]:
  "(xs = [] \<Longrightarrow> emits_only S m) \<Longrightarrow> (\<And>y ys. xs = y # ys \<Longrightarrow> emits_only S (f y ys)) \<Longrightarrow>
   emits_only S (case xs of [] \<Rightarrow> m | y # ys \<Rightarrow> f y ys)"
  by (simp split: list.splits)

lemma emits_only_let [keeps]:
  "(\<And>x. x = a \<Longrightarrow> emits_only S (m x)) \<Longrightarrow> emits_only S (let x = a in m x)"
  by (simp add: Let_def)

lemma emits_only_for_each [keeps]:
  "(\<And>x. x \<in> set xs \<Longrightarrow> emits_only S (f x)) \<Longrightarrow> emits_only S (for_each xs f)"
  by (induction xs) (auto intro!: keeps)

text \<open>Programs that return, when they return normally, only values of a set \<open>V\<close>.\<close>

definition yields :: "'a set \<Rightarrow> 'a io \<Rightarrow> bool" where
  "yields V m \<longleftrightarrow> (\<forall>w x. fst (m w) = Inr x \<longrightarrow> x \<in> V)"

lemma yieldsI: "(\<And>w. wp m (\<lambda>r _. \<forall>x. r = Inr x \<longrightarrow> x \<in> V) w) \<Longrightarrow> yields V m"
  by (simp add: yields_def wp_iff)

lemma yields_wp: "yields V m \<Longrightarrow> wp m (\<lambda>r _. \<forall>x. r = Inr x \<longrightarrow> x \<in> V) w"
  by (simp add: yields_def wp_iff)

lemma yields_ret [keeps]: "x \<in> V \<Longrightarrow> yields V (ret x)"
  by (simp add: yields_def ret_def)

lemma yields_raise [keeps]: "yields V (raise e)"
  by (simp add: yields_def raise_def)

lemma yields_bnd [keeps]: "(\<And>x. yields V (f x)) \<Longrightarrow> yields V (bnd m f)"
  by (auto simp: yields_def bnd_def split: prod.splits sum.splits)

lemma yields_catch [keeps]: "yields V m \<Longrightarrow> (\<And>e. yields V (h e)) \<Longrightarrow> yields V (catch m h)"
  by (auto simp: yields_def catch_def split: prod.splits sum.splits) (metis fst_conv)

lemma yields_if [keeps]:
  "(b \<Longrightarrow> yields V m) \<Longrightarrow> (\<not> b \<Longrightarrow> yields V n) \<Longrightarrow> yields V (if b then m else n)"
  by simp

lemma yields_case_option [keeps]:
  "(x = None \<Longrightarrow> yields V m) \<Longrightarrow> (\<And>y. x = Some y \<Longrightarrow> yields V (f y)) \<Longrightarrow>
   yields V (case x of None \<Rightarrow> m | Some y \<Rightarrow> f y)"
  by (simp split: option.splits)

lemma yields_case_sum [keeps]:
  "(\<And>y. x = Inl y \<Longrightarrow> yields V (f y)) \<Longrightarrow> (\<And>z. x = Inr z \<Longrightarrow> yields V (g z)) \<Longrightarrow>
   yields V (case x of Inl y \<Rightarrow> f y | Inr z \<Rightarrow> g z)"
  by (simp split: sum.splits)

lemma yields_case_prod [keeps]:
  "(\<And>x y. p = (x, y) \<Longrightarrow> yields V (f x y)) \<Longrightarrow> yields V (case p of (x, y) \<Rightarrow> f x y)"
  by (simp split: prod.splits)

lemma yields_case_list [keeps]:
  "(xs = [] \<Longrightarrow> yields V m) \<Longrightarrow> (\<And>y ys. xs = y # ys \<Longrightarrow> yields V (f y ys)) \<Longrightarrow>
   yields V (case xs of [] \<Rightarrow> m | y # ys \<Rightarrow> f y ys)"
  by (simp split: list.splits)

lemma yields_let [keeps]: "(\<And>x. x = a \<Longrightarrow> yields V (m x)) \<Longrightarrow> yields V (let x = a in m x)"
  by (simp add: Let_def)

text \<open>Programs during which the wall clock and the services stay as they are.\<close>

definition steady :: "'a io \<Rightarrow> bool" where
  "steady m \<longleftrightarrow> (\<forall>w. js_now (snd (m w)) = js_now w \<and> svc (snd (m w)) = svc w)"

lemma steadyI: "(\<And>w. wp m (\<lambda>_ w'. js_now w' = js_now w \<and> svc w' = svc w) w) \<Longrightarrow> steady m"
  by (simp add: steady_def wp_iff)

lemma steady_wp: "steady m \<Longrightarrow> wp m (\<lambda>_ w'. js_now w' = js_now w \<and> svc w' = svc w) w"
  by (simp add: steady_def wp_iff)

lemma wp_conj: "wp m Q w \<Longrightarrow> wp m R w \<Longrightarrow> wp m (\<lambda>r w'. Q r w' \<and> R r w') w"
  by (simp add: wp_iff)

lemma steady_atoms [keeps]:
  "steady (ret x)" "steady (raise e)" "steady (asks f)" "steady (sql g)" "steady (select h)"
  "steady (execute k)" "steady (call evs c)" "steady draw_hex" "steady (hash_password p)"
  "steady (send_email to kind)"
  by (rule steadyI, simp split: sum.splits prod.splits)+

lemma steady_bnd [keeps]: "steady m \<Longrightarrow> (\<And>x. steady (f x)) \<Longrightarrow> steady (bnd m f)"
  by (auto simp: steady_def bnd_def split: prod.splits sum.splits) (metis snd_conv)+

lemma steady_catch [keeps]: "steady m \<Longrightarrow> (\<And>e. steady (h e)) \<Longrightarrow> steady (catch m h)"
  by (auto simp: steady_def catch_def split: prod.splits sum.splits) (metis snd_conv)+

lemma steady_transaction [keeps]:
  assumes "steady m"
  shows "steady (transaction m)"
proof (rule steadyI)
  fix w :: world
  show "wp (transaction m) (\<lambda>_ w'. js_now w' = js_now w \<and> svc w' = svc w) w"
    using steady_wp [OF assms, of "w\<lparr>qn := Suc (qn w)\<rparr>"]
    by (auto elim!: wp_mono split: sum.splits tx_end.splits)
qed

lemma steady_if [keeps]: "(b \<Longrightarrow> steady m) \<Longrightarrow> (\<not> b \<Longrightarrow> steady n) \<Longrightarrow> steady (if b then m else n)"
  by simp

lemma steady_case_option [keeps]:
  "(x = None \<Longrightarrow> steady m) \<Longrightarrow> (\<And>y. x = Some y \<Longrightarrow> steady (f y)) \<Longrightarrow>
   steady (case x of None \<Rightarrow> m | Some y \<Rightarrow> f y)"
  by (simp split: option.splits)

lemma steady_case_sum [keeps]:
  "(\<And>y. x = Inl y \<Longrightarrow> steady (f y)) \<Longrightarrow> (\<And>z. x = Inr z \<Longrightarrow> steady (g z)) \<Longrightarrow>
   steady (case x of Inl y \<Rightarrow> f y | Inr z \<Rightarrow> g z)"
  by (simp split: sum.splits)

lemma steady_case_prod [keeps]:
  "(\<And>x y. p = (x, y) \<Longrightarrow> steady (f x y)) \<Longrightarrow> steady (case p of (x, y) \<Rightarrow> f x y)"
  by (simp split: prod.splits)

lemma steady_case_list [keeps]:
  "(xs = [] \<Longrightarrow> steady m) \<Longrightarrow> (\<And>y ys. xs = y # ys \<Longrightarrow> steady (f y ys)) \<Longrightarrow>
   steady (case xs of [] \<Rightarrow> m | y # ys \<Rightarrow> f y ys)"
  by (simp split: list.splits)

lemma steady_let [keeps]: "(\<And>x. x = a \<Longrightarrow> steady (m x)) \<Longrightarrow> steady (let x = a in m x)"
  by (simp add: Let_def)

section \<open>A concrete world\<close>

text \<open>
  A world with a healthy database, no environment variables, toy primitives and payment
  providers that refuse everything; the instances of the theorems are evaluated in it.
\<close>

definition demo_paddle :: paddle_api where
  "demo_paddle =
     \<lparr>pd_sub_get = (\<lambda>_ _ _. Inl ''off''), pd_sub_update = (\<lambda>_ _ _ _ _ _. Inl ''off''),
      pd_sub_discount = (\<lambda>_ _ _ _. Inl ''off''), pd_sub_resume = (\<lambda>_ _ _. Inl ''off''),
      pd_sub_cancel = (\<lambda>_ _ _ _. Inl ''off''), pd_sub_list = (\<lambda>_ _ _. Inl ''off''),
      pd_customers = (\<lambda>_ _ _. Inl ''off''), pd_customer_create = (\<lambda>_ _ _. Inl ''off''),
      pd_transaction = (\<lambda>_ _ _ _ _. Inl ''off''), pd_discount_get = (\<lambda>_ _ _. Inl ''off''),
      pd_preview = (\<lambda>_ _ _ _ _. Inl ''off''), pd_portal = (\<lambda>_ _ _ _. Inl ''off''),
      pd_unmarshal = (\<lambda>_ _. Inl ''off''), pd_discount_create = (\<lambda>_ _ _. Inl ''off''),
      pd_discount_archive = (\<lambda>_ _ _. Inl ''off''), pd_discount_update = (\<lambda>_ _ _. Inl ''off'')\<rparr>"

definition demo_stripe :: stripe_api where
  "demo_stripe =
     \<lparr>st_sub_list = (\<lambda>_ _ _. Inl ''off''), st_sub_cancel = (\<lambda>_ _ _. Inl ''off''),
      st_sub_get = (\<lambda>_ _ _. Inl ''off''), st_sub_swap = (\<lambda>_ _ _ _ _. Inl ''off''),
      st_cancel_at_end = (\<lambda>_ _ _ _. Inl ''off''), st_preview = (\<lambda>_ _ _ _ _ _. Inl ''off''),
      st_sched_release = (\<lambda>_ _ _. Inl ''off''), st_sched_create = (\<lambda>_ _ _. Inl ''off''),
      st_sched_get = (\<lambda>_ _ _. Inl ''off''), st_sched_update = (\<lambda>_ _ _ _ _ _ _. Inl ''off''),
      st_customer_create = (\<lambda>_ _ _. Inl ''off''), st_checkout = (\<lambda>_ _ _ _ _ _. Inl ''off''),
      st_portal = (\<lambda>_ _ _. Inl ''off''), st_construct = (\<lambda>_ _ _. Inl ''off''),
      st_coupon_create = (\<lambda>_ _ _. Inl ''off''), st_coupon_delete = (\<lambda>_ _ _. Inl ''off''),
      st_promotion_create = (\<lambda>_ _ _ _ _ _. Inl ''off''), st_promotion_off = (\<lambda>_ _ _. Inl ''off'')\<rparr>"

definition demo_services :: services where
  "demo_services =
     \<lparr>fault = (\<lambda>_. False), env = (\<lambda>_. None), env_num = (\<lambda>_. None),
      hmac_hex = (\<lambda>s. 49 # map (\<lambda>u. 48 + u mod 10) s), sha256_hex = (\<lambda>s. 35 # s),
      random_hex = (\<lambda>n. 114 # js_of_nat n), bcrypt_hash = (\<lambda>n p. 36 # p),
      bcrypt_compare = (\<lambda>p h. h = 36 # p), jwt_sign = (\<lambda>_ _. []), jwt_verify = (\<lambda>_ _. JwtInvalid), url_host = (\<lambda>_. None),
      resolve_mx = (\<lambda>_ _. MxRecords 1), mail_sent = (\<lambda>_ _. True), mail_configured = True,
      prune_draw = (\<lambda>_. False), paddle = demo_paddle, stripe = demo_stripe\<rparr>"

definition demo_world :: "database \<Rightarrow> world" where
  "demo_world d =
     \<lparr>db = d, js_now = clock d, qn = 0, rn = 0, log = [], mx_cache = [], tenant_cache = [],
      svc = demo_services\<rparr>"

lemma healthy_demo [simp]: "healthy (demo_world d)"
  by (simp add: healthy_def demo_world_def demo_services_def)

lemma demo_world_simps [simp]:
  "db (demo_world d) = d" "svc (demo_world d) = demo_services" "js_now (demo_world d) = clock d"
  "log (demo_world d) = []" "mx_cache (demo_world d) = []" "tenant_cache (demo_world d) = []"
  "qn (demo_world d) = 0" "rn (demo_world d) = 0"
  by (simp_all add: demo_world_def)

text \<open>Two workspaces: \<open>acme\<close> on Business with an owner and a member, \<open>beta\<close> on Free.\<close>

definition demo_tenant :: "nat \<Rightarrow> string \<Rightarrow> string \<Rightarrow> tenant" where
  "demo_tenant i sub plan =
     \<lparr>t_id = i, t_name = js sub, t_slug = js sub, t_subdomain = js sub, t_custom_domain = None,
      t_website = None, t_plan = plan, t_stripe_customer = None, t_stripe_sub = None,
      t_status = None, t_interval = None, t_period_end = None, t_pending_plan = None,
      t_pending_interval = None, t_pending_at = None, t_logo = None, t_color = None,
      t_active = True, t_require_auth = False\<rparr>"

definition demo_user :: "nat \<Rightarrow> nat \<Rightarrow> string \<Rightarrow> role \<Rightarrow> user" where
  "demo_user i t e r =
     \<lparr>u_id = i, u_tenant = Some t, u_email = js e, u_password = Some (36 # js ''secret''),
      u_name = js e, u_contact = None, u_role = r, u_admin = False, u_avatar = None,
      u_active = True, u_last_login = None\<rparr>"

definition demo_account :: "string \<Rightarrow> string \<Rightarrow> account" where
  "demo_account e p =
     \<lparr>b_email = js e, b_plan = p, b_stripe_customer = None, b_stripe_sub = None,
      b_paddle_customer = None, b_paddle_sub = None, b_status = None, b_interval = None,
      b_period_end = None, b_pending_plan = None, b_pending_interval = None, b_pending_at = None\<rparr>"

definition demo_post :: "nat \<Rightarrow> nat \<Rightarrow> string \<Rightarrow> post" where
  "demo_post i t title =
     \<lparr>p_id = i, p_tenant = t, p_author = None, p_submitter_name = None, p_submitter_email = None,
      p_guest = None, p_voter_hash = None, p_title = js title, p_description = [],
      p_type = Feedback, p_status = StOpen, p_notified_at = None, p_priority = 0,
      p_pinned = False, p_duplicate_of = None, p_moderation = Published, p_score = 0,
      p_reasons = [], p_reviewed_at = None, p_reviewed_score = None, p_created = 0\<rparr>"

definition demo_db :: database where
  "demo_db =
     (empty_db 1000000000)\<lparr>
       auto := (\<lambda>_. 10),
       tenants := [demo_tenant 1 ''acme'' ''business'', demo_tenant 2 ''beta'' ''free''],
       users := [demo_user 1 1 ''a@x.io'' Owner, demo_user 2 2 ''b@x.io'' Owner,
                 demo_user 3 1 ''c@x.io'' Member],
       accounts := [demo_account ''a@x.io'' ''business''],
       posts := [demo_post 5 1 ''dark mode'', demo_post 6 2 ''export'']\<rparr>"

lemmas demo_defs = demo_db_def empty_db_def demo_tenant_def demo_user_def demo_account_def
  demo_post_def

end
