(* ===== verification/Plans.thy ===== *)
theory Plans
  imports Runtime
begin

text \<open>
  \<open>src/consts/plans.js\<close>: the subscription plans, their limits, the tier order, list prices and
  the two price catalogues (Stripe and Paddle price ids taken from the environment).  A limit
  of \<open>None\<close> is JavaScript's \<open>Infinity\<close>.
\<close>

section \<open>Plans and limits\<close>

record plan_limits =
  seats :: "nat option"
  ownWorkspaces :: "nat option"
  joinWorkspaces :: "nat option"
  customDomain :: bool
  allowIntegrations :: bool
  deleteFeedback :: bool
  allowAttachments :: bool
  contactSubmitter :: bool
  multiDevice :: bool
  ownerBadge :: bool
  ownerPrivacy :: bool
  restrictAnonymousPosting :: bool

definition free_limits :: plan_limits where
  "free_limits = \<lparr>seats = Some 2, ownWorkspaces = Some 1, joinWorkspaces = Some 1,
     customDomain = False, allowIntegrations = False, deleteFeedback = False,
     allowAttachments = False, contactSubmitter = False, multiDevice = False,
     ownerBadge = False, ownerPrivacy = False, restrictAnonymousPosting = False\<rparr>"

definition pro_limits :: plan_limits where
  "pro_limits = \<lparr>seats = Some 5, ownWorkspaces = Some 3, joinWorkspaces = Some 3,
     customDomain = True, allowIntegrations = True, deleteFeedback = True,
     allowAttachments = True, contactSubmitter = True, multiDevice = False,
     ownerBadge = True, ownerPrivacy = False, restrictAnonymousPosting = True\<rparr>"

definition business_limits :: plan_limits where
  "business_limits = \<lparr>seats = None, ownWorkspaces = None, joinWorkspaces = None,
     customDomain = True, allowIntegrations = True, deleteFeedback = True,
     allowAttachments = True, contactSubmitter = True, multiDevice = True,
     ownerBadge = True, ownerPrivacy = True, restrictAnonymousPosting = True\<rparr>"

record plan_def =
  pl_key :: string
  pl_price :: int
  pl_stripe :: "string option"
  pl_stripe_yearly :: "string option"
  pl_paddle :: "string option"
  pl_paddle_yearly :: "string option"
  pl_limits :: plan_limits

type_synonym environ = "string \<Rightarrow> string option"

text \<open>\<open>process.env.X || null\<close>.\<close>

definition env_id :: "environ \<Rightarrow> string \<Rightarrow> string option" where
  "env_id e x = (case e x of None \<Rightarrow> None | Some v \<Rightarrow> if v = [] then None else Some v)"

definition PLANS :: "environ \<Rightarrow> plan_def list" where
  "PLANS e =
     [\<lparr>pl_key = ''free'', pl_price = 0, pl_stripe = None, pl_stripe_yearly = None,
       pl_paddle = None, pl_paddle_yearly = None, pl_limits = free_limits\<rparr>,
      \<lparr>pl_key = ''pro'', pl_price = 10,
       pl_stripe = env_id e ''STRIPE_PRICE_PRO'',
       pl_stripe_yearly = env_id e ''STRIPE_PRICE_PRO_YEARLY'',
       pl_paddle = env_id e ''PADDLE_PRICE_PRO'',
       pl_paddle_yearly = env_id e ''PADDLE_PRICE_PRO_YEARLY'', pl_limits = pro_limits\<rparr>,
      \<lparr>pl_key = ''business'', pl_price = 15,
       pl_stripe = env_id e ''STRIPE_PRICE_BUSINESS'',
       pl_stripe_yearly = env_id e ''STRIPE_PRICE_BUSINESS_YEARLY'',
       pl_paddle = env_id e ''PADDLE_PRICE_BUSINESS'',
       pl_paddle_yearly = env_id e ''PADDLE_PRICE_BUSINESS_YEARLY'',
       pl_limits = business_limits\<rparr>]"

text \<open>\<open>PLANS[name]\<close>, undefined for any other name.\<close>

definition plan_named :: "environ \<Rightarrow> string \<Rightarrow> plan_def option" where
  "plan_named e name = find (\<lambda>p. pl_key p = name) (PLANS e)"

text \<open>\<open>PLAN_RANK[name] ?? 0\<close>.\<close>

definition plan_rank :: "string \<Rightarrow> nat" where
  "plan_rank p = (if p = ''pro'' then 1 else if p = ''business'' then 2 else 0)"

definition maxPlan :: "string list \<Rightarrow> string" where
  "maxPlan ps = foldl (\<lambda>best p. if plan_rank best < plan_rank p then p else best) ''free'' ps"

text \<open>
  The yearly total: the monthly price less 20%, rounded to a whole dollar, times twelve.
\<close>

definition listPrice :: "string \<Rightarrow> interval \<Rightarrow> int" where
  "listPrice plan iv =
     (let monthly = (case plan_named (\<lambda>_. None) plan of None \<Rightarrow> 0 | Some p \<Rightarrow> pl_price p)
      in if iv = Year then math_round (monthly * 8) 10 * 12 else monthly)"

definition priceIdFor :: "environ \<Rightarrow> string \<Rightarrow> interval \<Rightarrow> string option" where
  "priceIdFor e plan iv =
     (case plan_named e plan of
        None \<Rightarrow> None
      | Some p \<Rightarrow> if iv = Year then pl_stripe_yearly p else pl_stripe p)"

definition planByPriceId :: "environ \<Rightarrow> string option \<Rightarrow> string option" where
  "planByPriceId e pid =
     (case pid of
        None \<Rightarrow> None
      | Some i \<Rightarrow> if i = [] then None
          else map_option pl_key
            (find (\<lambda>p. pl_stripe p = Some i \<or> pl_stripe_yearly p = Some i) (PLANS e)))"

definition intervalByPriceId :: "environ \<Rightarrow> string option \<Rightarrow> interval option" where
  "intervalByPriceId e pid =
     (case pid of
        None \<Rightarrow> None
      | Some i \<Rightarrow> if i = [] then None
          else Some (if list_ex (\<lambda>p. pl_stripe_yearly p = Some i) (PLANS e) then Year else Month))"

definition paddlePriceIdFor :: "environ \<Rightarrow> string \<Rightarrow> interval \<Rightarrow> string option" where
  "paddlePriceIdFor e plan iv =
     (case plan_named e plan of
        None \<Rightarrow> None
      | Some p \<Rightarrow> if iv = Year then pl_paddle_yearly p else pl_paddle p)"

definition planByPaddlePriceId :: "environ \<Rightarrow> string option \<Rightarrow> string option" where
  "planByPaddlePriceId e pid =
     (case pid of
        None \<Rightarrow> None
      | Some i \<Rightarrow> if i = [] then None
          else map_option pl_key
            (find (\<lambda>p. pl_paddle p = Some i \<or> pl_paddle_yearly p = Some i) (PLANS e)))"

definition intervalByPaddlePriceId :: "environ \<Rightarrow> string option \<Rightarrow> interval option" where
  "intervalByPaddlePriceId e pid =
     (case pid of
        None \<Rightarrow> None
      | Some i \<Rightarrow> if i = [] then None
          else Some (if list_ex (\<lambda>p. pl_paddle_yearly p = Some i) (PLANS e) then Year else Month))"

text \<open>\<open>(PLANS[planName] || PLANS.free).limits\<close>.\<close>

definition getPlanLimits :: "string \<Rightarrow> plan_limits" where
  "getPlanLimits plan =
     (if plan = ''pro'' then pro_limits
      else if plan = ''business'' then business_limits else free_limits)"

text \<open>\<open>count < limit\<close> where the limit may be infinite.\<close>

definition below_limit :: "nat \<Rightarrow> nat option \<Rightarrow> bool" where
  "below_limit n l \<longleftrightarrow> (case l of None \<Rightarrow> True | Some k \<Rightarrow> n < k)"

lemma below_limit_simps [simp]:
  "below_limit n None = True" "below_limit n (Some k) = (n < k)"
  by (simp_all add: below_limit_def)

lemmas limit_defs = free_limits_def pro_limits_def business_limits_def

lemma getPlanLimits_agrees:
  "getPlanLimits plan =
     (case plan_named e plan of None \<Rightarrow> free_limits | Some p \<Rightarrow> pl_limits p)"
  by (simp add: getPlanLimits_def plan_named_def PLANS_def)

lemma getPlanLimits_free [simp]: "getPlanLimits ''free'' = free_limits"
  by (simp add: getPlanLimits_def)

lemma getPlanLimits_pro [simp]: "getPlanLimits ''pro'' = pro_limits"
  by (simp add: getPlanLimits_def)

lemma getPlanLimits_business [simp]: "getPlanLimits ''business'' = business_limits"
  by (simp add: getPlanLimits_def)

section \<open>The tier order\<close>

lemma maxPlan_fold_bound:
  "plan_rank b \<le> plan_rank (foldl (\<lambda>best p. if plan_rank best < plan_rank p then p else best) b ps)
   \<and> (\<forall>p \<in> set ps. plan_rank p \<le>
        plan_rank (foldl (\<lambda>best p. if plan_rank best < plan_rank p then p else best) b ps))"
proof (induction ps arbitrary: b)
  case Nil
  show ?case by simp
next
  case (Cons p ps)
  define b' where "b' = (if plan_rank b < plan_rank p then p else b)"
  have "plan_rank b \<le> plan_rank b'" and "plan_rank p \<le> plan_rank b'"
    by (auto simp: b'_def)
  with Cons.IH [of b'] show ?case
    by (auto simp: b'_def [symmetric] intro: le_trans)
qed

lemma maxPlan_fold_mem:
  "foldl (\<lambda>best p. if plan_rank best < plan_rank p then p else best) b ps \<in> insert b (set ps)"
proof (induction ps arbitrary: b)
  case Nil
  show ?case by simp
next
  case (Cons p ps)
  then show ?case
    using Cons.IH [of "if plan_rank b < plan_rank p then p else b"] by (auto split: if_splits)
qed

definition limit_le :: "nat option \<Rightarrow> nat option \<Rightarrow> bool" where
  "limit_le a b \<longleftrightarrow> (case b of None \<Rightarrow> True | Some m \<Rightarrow> (case a of None \<Rightarrow> False | Some n \<Rightarrow> n \<le> m))"

text \<open>One set of limits grants everything another one grants.\<close>

definition limits_le :: "plan_limits \<Rightarrow> plan_limits \<Rightarrow> bool" where
  "limits_le a b \<longleftrightarrow>
     limit_le (seats a) (seats b) \<and> limit_le (ownWorkspaces a) (ownWorkspaces b)
     \<and> limit_le (joinWorkspaces a) (joinWorkspaces b)
     \<and> (customDomain a \<longrightarrow> customDomain b) \<and> (allowIntegrations a \<longrightarrow> allowIntegrations b)
     \<and> (deleteFeedback a \<longrightarrow> deleteFeedback b) \<and> (allowAttachments a \<longrightarrow> allowAttachments b)
     \<and> (contactSubmitter a \<longrightarrow> contactSubmitter b) \<and> (multiDevice a \<longrightarrow> multiDevice b)
     \<and> (ownerBadge a \<longrightarrow> ownerBadge b) \<and> (ownerPrivacy a \<longrightarrow> ownerPrivacy b)
     \<and> (restrictAnonymousPosting a \<longrightarrow> restrictAnonymousPosting b)"

lemma limits_le_rank:
  "plan_rank a \<le> plan_rank b \<Longrightarrow> limits_le (getPlanLimits a) (getPlanLimits b)"
  by (auto simp: plan_rank_def getPlanLimits_def limits_le_def limit_le_def limit_defs
           split: if_splits)

section \<open>Price catalogues\<close>

text \<open>
  What the billing code relies on when it turns a provider's price id back into a plan and an
  interval: both maps invert the lookup that produced the id.
\<close>

locale price_catalogue =
  fixes ok :: "environ \<Rightarrow> bool"
    and price_for :: "environ \<Rightarrow> string \<Rightarrow> interval \<Rightarrow> string option"
    and plan_of :: "environ \<Rightarrow> string option \<Rightarrow> string option"
    and interval_of :: "environ \<Rightarrow> string option \<Rightarrow> interval option"
  assumes plan_of_price: "ok e \<Longrightarrow> price_for e p iv = Some i \<Longrightarrow> plan_of e (Some i) = Some p"
    and interval_of_price:
      "ok e \<Longrightarrow> price_for e p iv = Some i \<Longrightarrow> interval_of e (Some i) = Some iv"
    and plan_of_known: "plan_of e x = Some p \<Longrightarrow> p \<in> {''free'', ''pro'', ''business''}"
begin

lemma price_for_inj:
  assumes "ok e" and "price_for e p iv = Some i" and "price_for e p' iv' = Some i"
  shows "p = p' \<and> iv = iv'"
  using plan_of_price [OF assms(1,2)] plan_of_price [OF assms(1,3)]
    interval_of_price [OF assms(1,2)] interval_of_price [OF assms(1,3)] by simp

lemma same_price_same_plan:
  "ok e \<Longrightarrow> price_for e p iv = Some i \<Longrightarrow> price_for e p' iv' = Some j \<Longrightarrow>
   i = j \<longleftrightarrow> p = p' \<and> iv = iv'"
  using price_for_inj by auto

end

text \<open>The environment gives different ids to different prices.\<close>

definition distinct_ids :: "environ \<Rightarrow> string list \<Rightarrow> bool" where
  "distinct_ids e xs \<longleftrightarrow>
     distinct (List.map_filter (env_id e) xs)"

definition paddle_prices_ok :: "environ \<Rightarrow> bool" where
  "paddle_prices_ok e \<longleftrightarrow> distinct_ids e
     [''PADDLE_PRICE_PRO'', ''PADDLE_PRICE_PRO_YEARLY'', ''PADDLE_PRICE_BUSINESS'',
      ''PADDLE_PRICE_BUSINESS_YEARLY'']"

definition stripe_prices_ok :: "environ \<Rightarrow> bool" where
  "stripe_prices_ok e \<longleftrightarrow> distinct_ids e
     [''STRIPE_PRICE_PRO'', ''STRIPE_PRICE_PRO_YEARLY'', ''STRIPE_PRICE_BUSINESS'',
      ''STRIPE_PRICE_BUSINESS_YEARLY'']"

lemma env_id_nonempty: "env_id e x = Some i \<Longrightarrow> i \<noteq> []"
  by (auto simp: env_id_def split: option.splits if_splits)

lemma distinct_ids_4:
  assumes "distinct_ids e [a, b, c, d]"
  shows "\<And>i. env_id e a = Some i \<Longrightarrow> env_id e b \<noteq> Some i \<and> env_id e c \<noteq> Some i \<and> env_id e d \<noteq> Some i"
    and "\<And>i. env_id e b = Some i \<Longrightarrow> env_id e a \<noteq> Some i \<and> env_id e c \<noteq> Some i \<and> env_id e d \<noteq> Some i"
    and "\<And>i. env_id e c = Some i \<Longrightarrow> env_id e a \<noteq> Some i \<and> env_id e b \<noteq> Some i \<and> env_id e d \<noteq> Some i"
    and "\<And>i. env_id e d = Some i \<Longrightarrow> env_id e a \<noteq> Some i \<and> env_id e b \<noteq> Some i \<and> env_id e c \<noteq> Some i"
  using assms by (auto simp: distinct_ids_def List.map_filter_def split: if_splits option.splits)

lemma paddlePriceIdFor_Some:
  assumes "paddlePriceIdFor e p iv = Some i"
  shows "(p = ''pro'' \<and> iv = Month \<and> env_id e ''PADDLE_PRICE_PRO'' = Some i)
       \<or> (p = ''pro'' \<and> iv = Year \<and> env_id e ''PADDLE_PRICE_PRO_YEARLY'' = Some i)
       \<or> (p = ''business'' \<and> iv = Month \<and> env_id e ''PADDLE_PRICE_BUSINESS'' = Some i)
       \<or> (p = ''business'' \<and> iv = Year \<and> env_id e ''PADDLE_PRICE_BUSINESS_YEARLY'' = Some i)"
proof -
  consider "p = ''free''" | "p = ''pro''" | "p = ''business''"
    | "p \<notin> {''free'', ''pro'', ''business''}" by blast
  then show ?thesis using assms
    by cases (cases iv; force simp: paddlePriceIdFor_def plan_named_def PLANS_def)+
qed

lemma priceIdFor_Some:
  assumes "priceIdFor e p iv = Some i"
  shows "(p = ''pro'' \<and> iv = Month \<and> env_id e ''STRIPE_PRICE_PRO'' = Some i)
       \<or> (p = ''pro'' \<and> iv = Year \<and> env_id e ''STRIPE_PRICE_PRO_YEARLY'' = Some i)
       \<or> (p = ''business'' \<and> iv = Month \<and> env_id e ''STRIPE_PRICE_BUSINESS'' = Some i)
       \<or> (p = ''business'' \<and> iv = Year \<and> env_id e ''STRIPE_PRICE_BUSINESS_YEARLY'' = Some i)"
proof -
  consider "p = ''free''" | "p = ''pro''" | "p = ''business''"
    | "p \<notin> {''free'', ''pro'', ''business''}" by blast
  then show ?thesis using assms
    by cases (cases iv; force simp: priceIdFor_def plan_named_def PLANS_def)+
qed

lemma planByPaddlePriceId_cases:
  assumes "paddle_prices_ok e" and "paddlePriceIdFor e p iv = Some i"
  shows "planByPaddlePriceId e (Some i) = Some p \<and> intervalByPaddlePriceId e (Some i) = Some iv"
proof -
  note d = distinct_ids_4 [OF assms(1) [unfolded paddle_prices_ok_def]]
  note defs = planByPaddlePriceId_def intervalByPaddlePriceId_def PLANS_def env_id_nonempty
  show ?thesis using paddlePriceIdFor_Some [OF assms(2)]
  proof (elim disjE conjE, goal_cases)
    case 1 with d(1) [OF 1(3)] show ?case by (simp add: defs)
  next
    case 2 with d(2) [OF 2(3)] show ?case by (simp add: defs)
  next
    case 3 with d(3) [OF 3(3)] show ?case by (simp add: defs)
  next
    case 4 with d(4) [OF 4(3)] show ?case by (simp add: defs)
  qed
qed

interpretation paddle_book: price_catalogue
  paddle_prices_ok paddlePriceIdFor planByPaddlePriceId intervalByPaddlePriceId
  by unfold_locales
     (simp_all add: planByPaddlePriceId_cases,
      auto simp: planByPaddlePriceId_def PLANS_def split: option.splits if_splits)

lemma planByPriceId_cases:
  assumes "stripe_prices_ok e" and "priceIdFor e p iv = Some i"
  shows "planByPriceId e (Some i) = Some p \<and> intervalByPriceId e (Some i) = Some iv"
proof -
  note d = distinct_ids_4 [OF assms(1) [unfolded stripe_prices_ok_def]]
  note defs = planByPriceId_def intervalByPriceId_def PLANS_def env_id_nonempty
  show ?thesis using priceIdFor_Some [OF assms(2)]
  proof (elim disjE conjE, goal_cases)
    case 1 with d(1) [OF 1(3)] show ?case by (simp add: defs)
  next
    case 2 with d(2) [OF 2(3)] show ?case by (simp add: defs)
  next
    case 3 with d(3) [OF 3(3)] show ?case by (simp add: defs)
  next
    case 4 with d(4) [OF 4(3)] show ?case by (simp add: defs)
  qed
qed

interpretation stripe_book: price_catalogue
  stripe_prices_ok priceIdFor planByPriceId intervalByPriceId
  by unfold_locales
     (simp_all add: planByPriceId_cases,
      auto simp: planByPriceId_def PLANS_def split: option.splits if_splits)

end
