(* ===== verification/Plan_Guard.thy ===== *)
theory Plan_Guard
  imports Plans
begin

text \<open>
  \<open>src/common/planGuard.js\<close> and \<open>src/middlewares/plan/requireAttachments.js\<close>: the plan of a
  workspace, the tier of an account, the workspace caps that follow from it, and the gate in
  front of the uploads.
\<close>

section \<open>Reading plans\<close>

text \<open>\<open>rows[0]?.plan_name || "free"\<close>.\<close>

definition plan_or_free :: "string option \<Rightarrow> string" where
  "plan_or_free p = (case p of None \<Rightarrow> ''free'' | Some x \<Rightarrow> if x = [] then ''free'' else x)"

definition tenant_plan :: "database \<Rightarrow> nat option \<Rightarrow> string" where
  "tenant_plan d tid =
     plan_or_free (map_option t_plan (find (\<lambda>t. Some (t_id t) = tid) (tenants d)))"

definition getTenantPlan :: "nat option \<Rightarrow> string io" where
  "getTenantPlan tid = select (\<lambda>d. tenant_plan d tid)"

definition account_tier :: "database \<Rightarrow> jstring \<Rightarrow> string" where
  "account_tier d email =
     plan_or_free (map_option b_plan (find (\<lambda>b. sql_eq (b_email b) email) (accounts d)))"

definition getAccountTier :: "jstring \<Rightarrow> string io" where
  "getAccountTier email = (if email = [] then ret ''free'' else select (\<lambda>d. account_tier d email))"

text \<open>The active memberships of an email in active workspaces.\<close>

definition active_memberships :: "database \<Rightarrow> jstring \<Rightarrow> (user \<times> tenant) list" where
  "active_memberships d email =
     filter (\<lambda>(u, t). u_tenant u = Some (t_id t) \<and> sql_eq (u_email u) email \<and> u_active u \<and> t_active t)
       (List.product (users d) (tenants d))"

record workspace_usage =
  wu_tier :: string
  wu_owned :: nat
  wu_member :: nat
  wu_own_limit :: "nat option"
  wu_join_limit :: "nat option"
  wu_can_create :: bool
  wu_can_join :: bool

definition owned_count :: "database \<Rightarrow> jstring \<Rightarrow> nat" where
  "owned_count d email = length (filter (\<lambda>(u, t). u_role u = Owner) (active_memberships d email))"

definition member_count :: "database \<Rightarrow> jstring \<Rightarrow> nat" where
  "member_count d email = length (active_memberships d email) - owned_count d email"

definition usage_of :: "string \<Rightarrow> nat \<Rightarrow> nat \<Rightarrow> workspace_usage" where
  "usage_of tier owned member =
     (let limits = getPlanLimits tier
      in \<lparr>wu_tier = tier, wu_owned = owned, wu_member = member,
          wu_own_limit = ownWorkspaces limits, wu_join_limit = joinWorkspaces limits,
          wu_can_create = below_limit owned (ownWorkspaces limits),
          wu_can_join = below_limit member (joinWorkspaces limits)\<rparr>)"

definition getAccountWorkspaceUsage :: "jstring \<Rightarrow> workspace_usage io" where
  "getAccountWorkspaceUsage email =
     bnd (select (\<lambda>d. (owned_count d email, member_count d email))) (\<lambda>(owned, member).
     bnd (getAccountTier email) (\<lambda>tier.
       ret (usage_of tier owned member)))"

definition planAllows :: "nat option \<Rightarrow> (plan_limits \<Rightarrow> bool) \<Rightarrow> bool io" where
  "planAllows tid capability =
     bnd (getTenantPlan tid) (\<lambda>p. ret (capability (getPlanLimits p)))"

text \<open>\<open>requireAttachmentsAuthed\<close>: true lets the upload through, false answers 402.\<close>

definition requireAttachments :: "nat option \<Rightarrow> bool io" where
  "requireAttachments tid = catch (planAllows tid allowAttachments) (\<lambda>_. ret False)"

lemma plan_guard_keeps [keeps]:
  "preserves P (getTenantPlan tid)" "preserves P (getAccountTier e)"
  "preserves P (getAccountWorkspaceUsage e)" "preserves P (planAllows tid c)"
  "preserves P (requireAttachments tid)"
  "emits_only S (getTenantPlan tid)" "emits_only S (getAccountTier e)"
  "emits_only S (getAccountWorkspaceUsage e)" "emits_only S (planAllows tid c)"
  "emits_only S (requireAttachments tid)"
  unfolding getTenantPlan_def getAccountTier_def getAccountWorkspaceUsage_def planAllows_def
    requireAttachments_def
  by (intro keeps)+

lemma wp_getTenantPlan [simp]:
  "wp (getTenantPlan tid) Q w =
     (if fault (svc w) (qn w) then Q (Inl DbError) (w\<lparr>qn := Suc (qn w)\<rparr>)
      else Q (Inr (tenant_plan (db w) tid)) (w\<lparr>qn := Suc (qn w)\<rparr>))"
  by (simp add: getTenantPlan_def)

lemma plan_or_free_limits: "getPlanLimits (plan_or_free p) = (case p of None \<Rightarrow> free_limits | Some x \<Rightarrow> getPlanLimits x)"
  by (auto simp: plan_or_free_def getPlanLimits_def split: option.splits)

text \<open>
  The upload gate is closed unless the paid capability is there: an upload passes only if
  the workspace's stored plan is exactly \<open>pro\<close> or \<open>business\<close>; a missing workspace, an unknown
  plan name and a failing database are all refused.
\<close>

theorem attachments_gate:
  "wp (requireAttachments tid)
     (\<lambda>r w'. r = Inr (\<not> fault (svc w) (qn w) \<and> tenant_plan (db w) tid \<in> {''pro'', ''business''})
        \<and> db w' = db w) w"
  by (simp add: requireAttachments_def planAllows_def getPlanLimits_def limit_defs)

text \<open>
  Plans are ordered: a higher tier never takes anything away, whatever plan names are
  compared, and the plan that wins a comparison of several grants the limits of each of them.
\<close>

theorem higher_plan_grants_more:
  "list_all (\<lambda>p. limits_le (getPlanLimits p) (getPlanLimits (maxPlan ps))) ps
   \<and> maxPlan ps \<in> insert ''free'' (set ps)"
  using maxPlan_fold_bound [of "''free''" ps] maxPlan_fold_mem [of "''free''" ps]
  by (auto simp: maxPlan_def list_all_iff intro: limits_le_rank)

end
