(* ===== verification/Account_Billing.thy ===== *)
theory Account_Billing
  imports Plan_Guard
begin

text \<open>
  \<open>src/common/accountBilling.js\<close> and \<open>src/common/billingProvider.js\<close>: the account's row in \<open>billing_accounts\<close> is the source
  of truth of its plan, mirrored onto every active workspace the account owns.
\<close>

section \<open>Accounts\<close>

definition free_account :: "jstring \<Rightarrow> account" where
  "free_account email =
     \<lparr>b_email = email, b_plan = ''free'', b_stripe_customer = None, b_stripe_sub = None,
      b_paddle_customer = None, b_paddle_sub = None, b_status = None, b_interval = None,
      b_period_end = None, b_pending_plan = None, b_pending_interval = None, b_pending_at = None\<rparr>"

definition account_of :: "database \<Rightarrow> jstring \<Rightarrow> account" where
  "account_of d email =
     (case find (\<lambda>b. sql_eq (b_email b) email) (accounts d) of
        None \<Rightarrow> free_account email | Some b \<Rightarrow> b)"

definition is_owner_of :: "jstring \<Rightarrow> nat \<Rightarrow> user \<Rightarrow> bool" where
  "is_owner_of email t u \<longleftrightarrow>
     u_tenant u = Some t \<and> u_role u = Owner \<and> u_active u \<and> sql_eq (u_email u) email"

definition owns :: "database \<Rightarrow> jstring \<Rightarrow> nat \<Rightarrow> bool" where
  "owns d email t \<longleftrightarrow> list_ex (is_owner_of email t) (users d)"

text \<open>\<open>x || null\<close> for a text column.\<close>

definition text_or_null :: "string option \<Rightarrow> string option" where
  "text_or_null x = (case x of None \<Rightarrow> None | Some s \<Rightarrow> if s = [] then None else Some s)"

text \<open>The columns the mirror writes.\<close>

definition mirror_onto :: "account \<Rightarrow> tenant \<Rightarrow> tenant" where
  "mirror_onto b t =
     t\<lparr>t_plan := plan_or_free (Some (b_plan b)), t_status := text_or_null (b_status b),
       t_interval := b_interval b, t_period_end := b_period_end b,
       t_pending_plan := text_or_null (b_pending_plan b), t_pending_interval := b_pending_interval b,
       t_pending_at := b_pending_at b, t_stripe_customer := None, t_stripe_sub := None\<rparr>"

definition mirror_db :: "account \<Rightarrow> jstring \<Rightarrow> database \<Rightarrow> database" where
  "mirror_db b email d =
     d\<lparr>tenants := update_where (\<lambda>t. t_active t \<and> owns d email (t_id t)) (mirror_onto b) (tenants d)\<rparr>"

definition ownerEmailOfTenant :: "nat \<Rightarrow> jstring option io" where
  "ownerEmailOfTenant tid =
     select (\<lambda>d. map_option u_email
       (find (\<lambda>u. u_tenant u = Some tid \<and> u_role u = Owner \<and> u_active u) (users d)))"

definition getAccount :: "jstring \<Rightarrow> account io" where
  "getAccount email = (if email = [] then ret (free_account []) else select (\<lambda>d. account_of d email))"

text \<open>\<open>INSERT IGNORE INTO billing_accounts (email, plan_name) VALUES (?, 'free')\<close>.\<close>

definition insert_account :: "jstring \<Rightarrow> database \<Rightarrow> database" where
  "insert_account email d =
     (if list_ex (\<lambda>b. sql_eq (b_email b) email) (accounts d) then d
      else d\<lparr>accounts := accounts d @ [free_account email]\<rparr>)"

definition ensureAccount :: "jstring \<Rightarrow> account io" where
  "ensureAccount email =
     (if email = [] then raise (JsError ''ensureAccount: email required'')
      else bnd (execute (\<lambda>d. ((), insert_account email d))) (\<lambda>_. getAccount email))"

definition mirrorAccountToTenants :: "jstring \<Rightarrow> unit io" where
  "mirrorAccountToTenants email =
     bnd (getAccount email) (\<lambda>acct. execute (\<lambda>d. ((), mirror_db acct email d)))"

text \<open>The columns \<open>setAccountPlan\<close> may be given; absent keys leave the column as it is.\<close>

datatype billing_field =
    PlanName string | StripeCustomer "string option" | StripeSubscription "string option"
  | PaddleCustomer "string option" | PaddleSubscription "string option"
  | SubscriptionStatus "string option" | BillingInterval "interval option"
  | PeriodEnd "int option" | PendingPlan "string option"
  | PendingInterval "interval option" | PendingEffectiveAt "int option"

fun set_field :: "billing_field \<Rightarrow> account \<Rightarrow> account" where
  "set_field (PlanName p) b = b\<lparr>b_plan := p\<rparr>"
| "set_field (StripeCustomer x) b = b\<lparr>b_stripe_customer := x\<rparr>"
| "set_field (StripeSubscription x) b = b\<lparr>b_stripe_sub := x\<rparr>"
| "set_field (PaddleCustomer x) b = b\<lparr>b_paddle_customer := x\<rparr>"
| "set_field (PaddleSubscription x) b = b\<lparr>b_paddle_sub := x\<rparr>"
| "set_field (SubscriptionStatus x) b = b\<lparr>b_status := x\<rparr>"
| "set_field (BillingInterval x) b = b\<lparr>b_interval := x\<rparr>"
| "set_field (PeriodEnd x) b = b\<lparr>b_period_end := x\<rparr>"
| "set_field (PendingPlan x) b = b\<lparr>b_pending_plan := x\<rparr>"
| "set_field (PendingInterval x) b = b\<lparr>b_pending_interval := x\<rparr>"
| "set_field (PendingEffectiveAt x) b = b\<lparr>b_pending_at := x\<rparr>"

definition set_fields :: "billing_field list \<Rightarrow> account \<Rightarrow> account" where
  "set_fields fs b = fold set_field fs b"

definition update_account :: "jstring \<Rightarrow> billing_field list \<Rightarrow> database \<Rightarrow> database" where
  "update_account email fs d =
     d\<lparr>accounts := update_where (\<lambda>b. sql_eq (b_email b) email) (set_fields fs) (accounts d)\<rparr>"

text \<open>\<open>setAccountPlan\<close> on a connection of the caller, and in a transaction of its own.\<close>

definition setAccountPlan_on :: "jstring \<Rightarrow> billing_field list \<Rightarrow> unit io" where
  "setAccountPlan_on email fs =
     (if email = [] then raise (JsError ''setAccountPlan: email required'')
      else bnd (execute (\<lambda>d. ((), insert_account email d))) (\<lambda>_.
           bnd (if fs = [] then ret () else execute (\<lambda>d. ((), update_account email fs d))) (\<lambda>_.
           mirrorAccountToTenants email)))"

definition setAccountPlan :: "jstring \<Rightarrow> billing_field list \<Rightarrow> unit io" where
  "setAccountPlan email fs =
     (if email = [] then raise (JsError ''setAccountPlan: email required'')
      else bnd (transaction (bnd (setAccountPlan_on email fs) (\<lambda>_. ret (Commit ())))) (\<lambda>(_ :: unit + unit). ret ()))"

definition free_fields :: "string option \<Rightarrow> billing_field list" where
  "free_fields status =
     [PlanName ''free'', SubscriptionStatus status, BillingInterval None, StripeSubscription None,
      PeriodEnd None, PendingPlan None, PendingInterval None, PendingEffectiveAt None]"

definition resetAccountToFree :: "jstring \<Rightarrow> string option \<Rightarrow> unit io" where
  "resetAccountToFree email status = setAccountPlan email (free_fields status)"

definition resetAccountToFree_on :: "jstring \<Rightarrow> string option \<Rightarrow> unit io" where
  "resetAccountToFree_on email status = setAccountPlan_on email (free_fields status)"

section \<open>Stripe\<close>

definition stripe_active_statuses :: "string list" where
  "stripe_active_statuses = [''active'', ''trialing'', ''past_due'']"

definition stripe_fields :: "environ \<Rightarrow> stripe_sub \<Rightarrow> billing_field list" where
  "stripe_fields e sub =
     (let isActive = ss_status sub \<in> set stripe_active_statuses;
          planName = (if isActive
                      then (case planByPriceId e (ss_price sub) of None \<Rightarrow> ''free'' | Some p \<Rightarrow> p)
                      else ''free'');
          periodEnd = (case ss_period_end sub of None \<Rightarrow> None
                       | Some s \<Rightarrow> if s = 0 then None else Some (s * 1000))
      in [PlanName planName, StripeCustomer (ss_customer sub), StripeSubscription (Some (ss_id sub)),
          SubscriptionStatus (Some (ss_status sub)),
          BillingInterval (if isActive then Some (if ss_yearly sub then Year else Month) else None),
          PeriodEnd (if isActive then periodEnd else None)])"

text \<open>The account a subscription belongs to: metadata, legacy metadata, known customer.\<close>

definition attribute_sub :: "stripe_sub \<Rightarrow> jstring option io" where
  "attribute_sub sub =
     bnd (case or_null (or_empty (ss_email sub)) of
            Some e \<Rightarrow> ret (Some e)
          | None \<Rightarrow>
              (case ss_tenant sub of
                 None \<Rightarrow> ret None
               | Some t \<Rightarrow> if t = 0 then ret None else ownerEmailOfTenant t)) (\<lambda>email.
       case email of
         Some e \<Rightarrow> ret (Some e)
       | None \<Rightarrow>
           (case ss_customer sub of
              None \<Rightarrow> ret None
            | Some c \<Rightarrow> if c = [] then ret None
                else select (\<lambda>d. map_option b_email
                       (find (\<lambda>b. b_stripe_customer b = Some c) (accounts d)))))"

definition applyAccountSubscription :: "stripe_sub \<Rightarrow> unit io" where
  "applyAccountSubscription sub =
     bnd (attribute_sub sub) (\<lambda>email.
       case email of
         None \<Rightarrow> ret ()
       | Some e \<Rightarrow>
           if e = [] then ret ()
           else bnd (asks (\<lambda>w. stripe_fields (env (svc w)) sub)) (\<lambda>fs. setAccountPlan e fs))"

definition isPaddleActive :: "services \<Rightarrow> bool" where
  "isPaddleActive sv \<longleftrightarrow> env sv ''BILLING_PROVIDER'' \<noteq> Some ''stripe''"

definition isStripeConfigured :: "services \<Rightarrow> bool" where
  "isStripeConfigured sv \<longleftrightarrow> env_set sv ''STRIPE_SECRET_KEY''"

definition pick_sub :: "stripe_sub list \<Rightarrow> stripe_sub option" where
  "pick_sub subs =
     (let ranked = sort_key (\<lambda>s. - ss_created s) subs
      in case find (\<lambda>s. ss_status s \<in> set stripe_active_statuses) ranked of
           Some s \<Rightarrow> Some s | None \<Rightarrow> first_row ranked)"

text \<open>A comped account: kept while it lasts, reset to Free once its end has passed.\<close>

definition reconcile_comp :: "jstring \<Rightarrow> account \<Rightarrow> unit io" where
  "reconcile_comp email acct =
     bnd (asks js_now) (\<lambda>now.
       case b_period_end acct of
         Some end_at \<Rightarrow> if end_at < now then resetAccountToFree email None
                        else mirrorAccountToTenants email
       | None \<Rightarrow> mirrorAccountToTenants email)"

definition clear_pending :: "jstring \<Rightarrow> unit io" where
  "clear_pending email = setAccountPlan email [PendingPlan None, PendingInterval None, PendingEffectiveAt None]"

definition reconcileStripe :: "jstring \<Rightarrow> unit io" where
  "reconcileStripe email =
     bnd (asks (\<lambda>w. isStripeConfigured (svc w))) (\<lambda>configured.
     if \<not> configured then ret ()
     else bnd (getAccount email) (\<lambda>acct.
       if b_status acct = Some ''comped'' then reconcile_comp email acct
       else case text_or_null (b_stripe_customer acct) of
         None \<Rightarrow> ret ()
       | Some customerId \<Rightarrow>
           bnd (call [] (\<lambda>w. st_sub_list (stripe (svc w)) (log w) (js_now w) customerId)) (\<lambda>subs.
             case pick_sub subs of
               None \<Rightarrow> resetAccountToFree email None
             | Some chosen0 \<Rightarrow>
                 let chosen = (if or_empty (ss_email chosen0) = []
                               then chosen0\<lparr>ss_email := Some email\<rparr> else chosen0)
                 in bnd (if ss_status chosen \<in> {''canceled'', ''incomplete_expired''}
                         then resetAccountToFree email (Some (ss_status chosen))
                         else applyAccountSubscription chosen) (\<lambda>_.
                    bnd (getAccount email) (\<lambda>after.
                      case text_or_null (b_pending_plan after) of
                        None \<Rightarrow> ret ()
                      | Some p \<Rightarrow>
                          if b_plan after = p \<or> text_or_null (ss_schedule chosen) = None then clear_pending email
                          else ret ())))))"

text \<open>The Stripe half of \<open>cancelActiveSubscription\<close>: best effort, never fails.\<close>

definition cancelStripeSubscription :: "jstring \<Rightarrow> unit io" where
  "cancelStripeSubscription email =
     bnd (getAccount email) (\<lambda>acct.
     bnd (asks (\<lambda>w. isStripeConfigured (svc w))) (\<lambda>configured.
       case text_or_null (b_stripe_sub acct) of
         None \<Rightarrow> ret ()
       | Some s \<Rightarrow>
           if configured
           then catch (call [EvStripeCancel s] (\<lambda>w. st_sub_cancel (stripe (svc w)) (log w) (js_now w) s))
                      (\<lambda>_. ret ())
           else ret ()))"

section \<open>What a plan change does to the database\<close>

definition plan_db :: "jstring \<Rightarrow> billing_field list \<Rightarrow> database \<Rightarrow> database" where
  "plan_db email fs d =
     (let d2 = update_account email fs (insert_account email d)
      in mirror_db (account_of d2 email) email d2)"

lemma set_field_email [simp]: "b_email (set_field f b) = b_email b"
  by (cases f) simp_all

lemma set_fields_email [simp]: "b_email (set_fields fs b) = b_email b"
  by (induction fs arbitrary: b) (simp_all add: set_fields_def)

lemma set_fields_Nil [simp]: "set_fields [] b = b"
  by (simp add: set_fields_def)

lemma set_fields_Cons [simp]: "set_fields (f # fs) b = set_fields fs (set_field f b)"
  by (simp add: set_fields_def)

lemma update_account_Nil [simp]: "update_account email [] d = d"
proof -
  have "set_fields [] = (\<lambda>b. b)" by (simp add: fun_eq_iff)
  moreover have "update_where P (\<lambda>b. b) xs = xs" for P and xs :: "account list"
    by (induction xs) auto
  ultimately show ?thesis by (simp add: update_account_def)
qed

lemma mirror_onto_simps [simp]:
  "t_id (mirror_onto b t) = t_id t" "t_active (mirror_onto b t) = t_active t"
  "mirror_onto b (mirror_onto b' t) = mirror_onto b t"
  by (simp_all add: mirror_onto_def)

lemma mirror_onto_email [simp]: "mirror_onto (b\<lparr>b_email := e\<rparr>) t = mirror_onto b t"
  by (simp add: mirror_onto_def)

lemma account_of_cong: "sql_eq e e' \<Longrightarrow> mirror_onto (account_of d e) t = mirror_onto (account_of d e') t"
proof -
  assume "sql_eq e e'"
  then have "(\<lambda>b. sql_eq (b_email b) e) = (\<lambda>b. sql_eq (b_email b) e')"
    by (auto simp: sql_eq_def fun_eq_iff)
  then have "find (\<lambda>b. sql_eq (b_email b) e) (accounts d) = find (\<lambda>b. sql_eq (b_email b) e') (accounts d)"
    by (rule arg_cong)
  then show ?thesis
    by (simp add: account_of_def free_account_def mirror_onto_def split: option.splits)
qed

lemma find_none_append: "find P (xs @ ys) = (case find P xs of None \<Rightarrow> find P ys | Some x \<Rightarrow> Some x)"
  by (induction xs) auto

lemma find_None_list_ex: "find P xs = None \<longleftrightarrow> \<not> list_ex P xs"
  by (induction xs) auto

lemma account_of_insert:
  "mirror_onto (account_of (insert_account email d) e) t = mirror_onto (account_of d e) t"
  by (auto simp: account_of_def insert_account_def find_none_append free_account_def mirror_onto_def
           split: option.splits)

lemma insert_account_known: "list_ex (\<lambda>b. sql_eq (b_email b) email) (accounts (insert_account email d))"
  by (simp add: insert_account_def free_account_def)

lemma account_of_update_other:
  "\<not> sql_eq email e \<Longrightarrow> account_of (update_account email fs d) e = account_of d e"
proof -
  assume n: "\<not> sql_eq email e"
  have "find (\<lambda>b. sql_eq (b_email b) e)
          (update_where (\<lambda>b. sql_eq (b_email b) email) (set_fields fs) bs) =
        find (\<lambda>b. sql_eq (b_email b) e) bs" for bs
    using n by (induction bs) (auto simp: sql_eq_def)
  then show ?thesis by (simp add: account_of_def update_account_def)
qed

lemma account_of_update_same:
  "list_ex (\<lambda>b. sql_eq (b_email b) email) (accounts d) \<Longrightarrow>
   account_of (update_account email fs d) email = set_fields fs (account_of d email)"
proof -
  have "find (\<lambda>b. sql_eq (b_email b) email)
          (update_where (\<lambda>b. sql_eq (b_email b) email) (set_fields fs) bs) =
        map_option (set_fields fs) (find (\<lambda>b. sql_eq (b_email b) email) bs)" for bs
    by (induction bs) auto
  moreover assume "list_ex (\<lambda>b. sql_eq (b_email b) email) (accounts d)"
  ultimately show ?thesis
    by (auto simp: account_of_def update_account_def find_None_list_ex split: option.splits)
qed

lemma mirror_db_fields [simp]:
  "accounts (mirror_db b email d) = accounts d" "users (mirror_db b email d) = users d"
  "owns (mirror_db b email d) = owns d" "account_of (mirror_db b email d) = account_of d"
  by (simp_all add: mirror_db_def owns_def [abs_def] account_of_def [abs_def])

lemma update_account_fields [simp]:
  "users (update_account email fs d) = users d" "tenants (update_account email fs d) = tenants d"
  "owns (update_account email fs d) = owns d"
  by (simp_all add: update_account_def owns_def [abs_def])

lemma insert_account_fields [simp]:
  "users (insert_account email d) = users d" "tenants (insert_account email d) = tenants d"
  "owns (insert_account email d) = owns d"
  by (simp_all add: insert_account_def owns_def [abs_def])

lemma plan_db_fields [simp]:
  "users (plan_db email fs d) = users d" "owns (plan_db email fs d) = owns d"
  by (simp_all add: plan_db_def Let_def)

lemma account_of_plan_db:
  "account_of (plan_db email fs d) email = set_fields fs (account_of (insert_account email d) email)"
  by (simp add: plan_db_def Let_def account_of_update_same insert_account_known)

lemma account_of_plan_db_other:
  "\<not> sql_eq email e \<Longrightarrow> mirror_onto (account_of (plan_db email fs d) e) t = mirror_onto (account_of d e) t"
  by (simp add: plan_db_def Let_def account_of_update_other account_of_insert)

text \<open>A plan change is atomic: all of it, or nothing.\<close>

lemma setAccountPlan_on_spec:
  "email \<noteq> [] \<Longrightarrow>
   wp (setAccountPlan_on email fs)
     (\<lambda>r w'. (r = Inr () \<longrightarrow> db w' = plan_db email fs (db w))
        \<and> svc w' = svc w \<and> js_now w' = js_now w \<and> log w' = log w) w"
  by (simp add: setAccountPlan_on_def mirrorAccountToTenants_def getAccount_def plan_db_def Let_def)

lemma setAccountPlan_spec:
  assumes "email \<noteq> []"
  shows "wp (setAccountPlan email fs)
     (\<lambda>r w'. (r = Inr () \<and> db w' = plan_db email fs (db w) \<or> (\<exists>e. r = Inl e) \<and> db w' = db w)
        \<and> svc w' = svc w \<and> js_now w' = js_now w \<and> log w' = log w) w"
  using assms
  by (auto simp: setAccountPlan_def split: sum.splits tx_end.splits
           intro!: wp_mono [OF setAccountPlan_on_spec])

lemma setAccountPlan_on_healthy:
  "healthy w \<Longrightarrow> email \<noteq> [] \<Longrightarrow>
   wp (setAccountPlan_on email fs) (\<lambda>r w'. r = Inr () \<and> healthy w') w"
  by (simp add: setAccountPlan_on_def mirrorAccountToTenants_def getAccount_def)

section \<open>The mirror\<close>

text \<open>
  A source of truth with copies: writing a key makes every copy of that key agree with it and
  disturbs neither the source nor the copies of any other key.
\<close>

locale mirror =
  fixes ok :: "'d \<Rightarrow> bool"
    and same :: "'k \<Rightarrow> 'k \<Rightarrow> bool"
    and source :: "'d \<Rightarrow> 'k \<Rightarrow> 'a"
    and copies :: "'d \<Rightarrow> 'k \<Rightarrow> 'c set"
    and agree :: "'a \<Rightarrow> 'c \<Rightarrow> bool"
    and put :: "'k \<Rightarrow> 'f \<Rightarrow> 'd \<Rightarrow> 'd"
  assumes put_ok: "ok d \<Longrightarrow> ok (put k f d)"
    and put_agrees: "ok d \<Longrightarrow> same k k' \<Longrightarrow> c \<in> copies (put k f d) k' \<Longrightarrow> agree (source (put k f d) k') c"
    and put_copies: "ok d \<Longrightarrow> \<not> same k k' \<Longrightarrow> c \<in> copies (put k f d) k' \<Longrightarrow> c \<in> copies d k'"
    and put_source: "\<not> same k k' \<Longrightarrow> agree (source (put k f d) k') c = agree (source d k') c"
begin

definition consistent :: "'d \<Rightarrow> bool" where
  "consistent d \<longleftrightarrow> (\<forall>k c. c \<in> copies d k \<longrightarrow> agree (source d k) c)"

lemma put_consistent: "ok d \<Longrightarrow> consistent d \<Longrightarrow> consistent (put k f d)"
proof -
  assume ok: "ok d" and con: "consistent d"
  have "agree (source (put k f d) k') c" if c: "c \<in> copies (put k f d) k'" for k' c
  proof (cases "same k k'")
    case True
    then show ?thesis by (rule put_agrees [OF ok _ c])
  next
    case False
    have "c \<in> copies d k'" by (rule put_copies [OF ok False c])
    with con have "agree (source d k') c" by (simp add: consistent_def)
    then show ?thesis by (simp add: put_source [OF False])
  qed
  then show "consistent (put k f d)" by (simp add: consistent_def)
qed

lemma put_many:
  "ok d \<Longrightarrow> consistent d \<Longrightarrow>
   ok (foldl (\<lambda>d (k, f). put k f d) d ws) \<and> consistent (foldl (\<lambda>d (k, f). put k f d) d ws)"
proof (induction ws arbitrary: d)
  case (Cons kf ws)
  obtain k f where kf: "kf = (k, f)" by fastforce
  show ?case
    using Cons.IH [of "put k f d"] put_ok [OF Cons.prems(1)] put_consistent [OF Cons.prems]
    by (simp add: kf)
qed simp

end

definition one_owner :: "database \<Rightarrow> bool" where
  "one_owner d \<longleftrightarrow>
     (\<forall>e e' t. owns d e t \<longrightarrow> owns d e' t \<longrightarrow> sql_eq e e')"

definition owned_workspaces :: "database \<Rightarrow> jstring \<Rightarrow> tenant set" where
  "owned_workspaces d email = {t \<in> set (tenants d). t_active t \<and> owns d email (t_id t)}"

definition mirrors :: "account \<Rightarrow> tenant \<Rightarrow> bool" where
  "mirrors b t \<longleftrightarrow> mirror_onto b t = t"

text \<open>Every active workspace carries exactly the plan columns of the account that owns it.\<close>

definition billing_consistent :: "database \<Rightarrow> bool" where
  "billing_consistent d \<longleftrightarrow>
     (\<forall>email t. t \<in> owned_workspaces d email \<longrightarrow> mirrors (account_of d email) t)"

lemma owns_cong: "sql_eq e e' \<Longrightarrow> owns d e t \<longleftrightarrow> owns d e' t"
proof -
  assume "sql_eq e e'"
  then have "is_owner_of e t u = is_owner_of e' t u" for u by (simp add: is_owner_of_def sql_eq_def)
  then show ?thesis by (simp add: owns_def list_ex_iff)
qed

lemma tenants_plan_db:
  "tenants (plan_db email fs d) =
     update_where (\<lambda>t. t_active t \<and> owns d email (t_id t))
       (mirror_onto (account_of (plan_db email fs d) email)) (tenants d)"
  by (simp add: plan_db_def Let_def mirror_db_def)
     (simp add: account_of_def)

lemma plan_db_mirrors:
  "t \<in> owned_workspaces (plan_db email fs d) email \<Longrightarrow>
   mirrors (set_fields fs (account_of (insert_account email d) email)) t"
  by (auto simp: owned_workspaces_def tenants_plan_db set_update_where mirrors_def account_of_plan_db)

lemma one_owner_plan_db [simp]: "one_owner (plan_db email fs d) = one_owner d"
  by (simp add: one_owner_def)

interpretation plan_mirror: mirror one_owner sql_eq account_of owned_workspaces mirrors plan_db
proof (unfold_locales, goal_cases)
  case (1 d k f)
  then show ?case by simp
next
  case (2 d k k' c f)
  then obtain t0 where "t0 \<in> set (tenants d)" "t_active c" "owns d k' (t_id c)"
    and c: "c = (if t_active t0 \<and> owns d k (t_id t0) then mirror_onto (account_of (plan_db k f d) k) t0 else t0)"
    by (auto simp: owned_workspaces_def tenants_plan_db set_update_where)
  then have "t_active t0 \<and> owns d k (t_id t0)" using owns_cong [OF 2(2)]
    by (auto split: if_splits)
  with c have "c = mirror_onto (account_of (plan_db k f d) k) t0" by simp
  then show ?case using account_of_cong [OF 2(2)] by (simp add: mirrors_def)
next
  case (3 d k k' c f)
  then obtain t0 where "t0 \<in> set (tenants d)" "t_active c" "owns d k' (t_id c)"
    and c: "c = (if t_active t0 \<and> owns d k (t_id t0) then mirror_onto (account_of (plan_db k f d) k) t0 else t0)"
    by (auto simp: owned_workspaces_def tenants_plan_db set_update_where)
  moreover from this have "\<not> owns d k (t_id t0)"
    using 3(1,2) unfolding one_owner_def by (auto split: if_splits)
  ultimately show ?case by (auto simp: owned_workspaces_def)
next
  case (4 k k' f d c)
  then show ?case by (simp add: mirrors_def account_of_plan_db_other)
qed

lemma billing_consistent_mirror: "billing_consistent = plan_mirror.consistent"
  by (simp add: fun_eq_iff billing_consistent_def plan_mirror.consistent_def)

lemma plan_db_consistent: "one_owner d \<Longrightarrow> billing_consistent d \<Longrightarrow> billing_consistent (plan_db email fs d)"
  unfolding billing_consistent_mirror by (rule plan_mirror.put_consistent)

definition billing_ok :: "database \<Rightarrow> bool" where
  "billing_ok d \<longleftrightarrow> one_owner d \<and> billing_consistent d"

lemma setAccountPlan_billing_ok [keeps]: "preserves billing_ok (setAccountPlan email fs)"
proof (cases "email = []")
  case True
  then show ?thesis by (simp add: setAccountPlan_def preserves_raise)
next
  case False
  show ?thesis
    by (rule preservesI, rule wp_mono [OF setAccountPlan_spec [OF False]])
       (auto simp: billing_ok_def plan_db_consistent)
qed

lemma mirror_db_consistent:
  "billing_consistent d \<Longrightarrow> mirror_db (account_of d email) email d = d"
proof -
  assume "billing_consistent d"
  then have "update_where (\<lambda>t. t_active t \<and> owns d email (t_id t)) (mirror_onto (account_of d email)) (tenants d) = tenants d"
    by (auto simp: update_where_def billing_consistent_def owned_workspaces_def mirrors_def intro: map_idI)
  then show ?thesis by (simp add: mirror_db_def)
qed

lemma mirrorAccountToTenants_billing_ok [keeps]:
  "email \<noteq> [] \<Longrightarrow> preserves billing_ok (mirrorAccountToTenants email)"
  by (rule preservesI) (simp add: mirrorAccountToTenants_def getAccount_def billing_ok_def mirror_db_consistent)

text \<open>
  C22: A plan change is atomic and complete: it either reports an error and leaves the database
  exactly as it was, or it succeeds and then the account has the given columns and every
  active workspace it owns carries the account's plan.
\<close>

theorem setAccountPlan_atomic:
  assumes "email \<noteq> []"
  shows "wp (setAccountPlan email fs)
     (\<lambda>r w'. case r of
        Inl e \<Rightarrow> db w' = db w
      | Inr _ \<Rightarrow>
          account_of (db w') email = set_fields fs (account_of (insert_account email (db w)) email)
          \<and> Ball (owned_workspaces (db w') email) (mirrors (account_of (db w') email))) w"
  by (intro wp_mono [OF setAccountPlan_spec [OF assms]])
     (auto simp: account_of_plan_db plan_db_mirrors split: sum.splits)

lemma demo_owns:
  "owns demo_db e t \<longleftrightarrow> t = 1 \<and> sql_eq (js ''a@x.io'') e \<or> t = 2 \<and> sql_eq (js ''b@x.io'') e"
  by (auto simp: owns_def is_owner_of_def demo_defs)

lemma demo_emails_differ: "sql_eq (js ''a@x.io'') e \<Longrightarrow> \<not> sql_eq (js ''b@x.io'') e"
  by (auto simp: sql_eq_def js_lower_def lower_unit_def)

lemma demo_billing_ok: "one_owner demo_db \<and> billing_consistent demo_db"
proof -
  have "mirrors (account_of demo_db e) (demo_tenant 1 ''acme'' ''business'')" if "sql_eq (js ''a@x.io'') e" for e
    using that by (simp add: mirrors_def mirror_onto_def account_of_def demo_defs plan_or_free_def
        text_or_null_def del: js_Cons)
  moreover have "mirrors (account_of demo_db e) (demo_tenant 2 ''beta'' ''free'')" if "sql_eq (js ''b@x.io'') e" for e
    using that demo_emails_differ [of e]
    by (auto simp: mirrors_def mirror_onto_def account_of_def demo_defs plan_or_free_def
        text_or_null_def free_account_def simp del: js_Cons)
  moreover have "tenants demo_db = [demo_tenant 1 ''acme'' ''business'', demo_tenant 2 ''beta'' ''free'']"
    by (simp add: demo_db_def)
  ultimately have "billing_consistent demo_db"
    by (auto simp: billing_consistent_def owned_workspaces_def demo_owns demo_tenant_def
             simp del: js_Cons)
  moreover have "one_owner demo_db"
    by (auto simp: one_owner_def demo_owns sql_eq_def)
  ultimately show ?thesis by blast
qed

lemma setAccountPlan_atomic_witness:
  "wp (setAccountPlan (js ''a@x.io'') [PlanName ''pro''])
     (\<lambda>r w'. case r of
        Inl e \<Rightarrow> db w' = demo_db
      | Inr _ \<Rightarrow> account_of (db w') (js ''a@x.io'') =
                  set_fields [PlanName ''pro''] (account_of (insert_account (js ''a@x.io'') demo_db) (js ''a@x.io''))
          \<and> Ball (owned_workspaces (db w') (js ''a@x.io'')) (mirrors (account_of (db w') (js ''a@x.io''))))
     (demo_world demo_db)"
  using setAccountPlan_atomic [of "js ''a@x.io''" "[PlanName ''pro'']" "demo_world demo_db"]
  by (simp only: demo_world_simps js_eq_Nil) simp

end
