(* ===== verification/Offers.thy ===== *)
theory Offers
  imports Account_Billing
begin

text \<open>
  \<open>src/common/offers.js\<close>: promotional offers, what the pricing page advertises and which offer a
  checkout applies.  Prices are kept in cents; dates are read in the proleptic Gregorian
  calendar of UTC (\<open>civil\<close>), the server's local time zone being taken as UTC.
\<close>

section \<open>Calendar dates\<close>

text \<open>Year, month and day of a time in milliseconds since 1970.\<close>

definition civil :: "int \<Rightarrow> int \<times> int \<times> int" where
  "civil ms =
     (let z = ms div 86400000 + 719468;
          era = z div 146097;
          doe = z - era * 146097;
          yoe = (doe - doe div 1460 + doe div 36524 - doe div 146096) div 365;
          doy = doe - (365 * yoe + yoe div 4 - yoe div 100);
          mp = (5 * doy + 2) div 153;
          d = doy - (153 * mp + 2) div 5 + 1;
          m = (if mp < 10 then mp + 3 else mp - 9);
          y = yoe + era * 400 + (if m \<le> 2 then 1 else 0)
      in (y, m, d))"

text \<open>1 January 1970, 29 February 2024 and 31 December 1999.\<close>

lemma civil_examples:
  "civil 0 = (1970, 1, 1)" "civil 1709164800000 = (2024, 2, 29)" "civil 946684799999 = (1999, 12, 31)"
  by code_simp+

section \<open>Active offers\<close>

definition isHonourable :: "services \<Rightarrow> offer \<Rightarrow> bool" where
  "isHonourable sv r \<longleftrightarrow>
     (if isPaddleActive sv then text_or_null (of_paddle_discount r) \<noteq> None
      else text_or_null (of_stripe_coupon r) \<noteq> None)"

definition offerDurationPeriods :: "int \<Rightarrow> interval \<Rightarrow> int option \<Rightarrow> int option \<Rightarrow> int option" where
  "offerDurationPeriods now iv startsAt endsAt =
     (if iv = Year then Some 1
      else case endsAt of
        None \<Rightarrow> None
      | Some e \<Rightarrow>
          let (sy, sm, sd) = civil (case startsAt of Some s \<Rightarrow> s | None \<Rightarrow> now);
              (ey, em, ed) = civil e;
              months = (ey - sy) * 12 + (em - sm);
              months = (if ed < sd then months - 1 else months)
          in Some (max 1 months))"

definition offer_active :: "int \<Rightarrow> offer \<Rightarrow> bool" where
  "offer_active now r \<longleftrightarrow>
     of_active r \<and> (case of_starts r of None \<Rightarrow> True | Some s \<Rightarrow> s \<le> now)
     \<and> (case of_ends r of None \<Rightarrow> True | Some e \<Rightarrow> now \<le> e)"

record shaped_offer =
  so_id :: nat
  so_plan :: string
  so_interval :: interval
  so_original :: int
  so_price_cents :: int
  so_percent_off :: int
  so_label :: "jstring option"
  so_periods :: "int option"
  so_ends :: "int option"
  so_coupon :: "string option"
  so_discount :: "string option"

definition shape :: "int \<Rightarrow> offer \<Rightarrow> shaped_offer" where
  "shape now r =
     (let original = listPrice (of_plan r) (of_interval r)
      in \<lparr>so_id = of_id r, so_plan = of_plan r, so_interval = of_interval r,
          so_original = original, so_price_cents = of_price_cents r,
          so_percent_off = (if original > 0
             then math_round (100 * (original * 100 - of_price_cents r)) (original * 100) else 0),
          so_label = (case of_label r of None \<Rightarrow> None | Some l \<Rightarrow> or_null l),
          so_periods = offerDurationPeriods now (of_interval r) (of_starts r) (of_ends r),
          so_ends = of_ends r, so_coupon = text_or_null (of_stripe_coupon r),
          so_discount = text_or_null (of_paddle_discount r)\<rparr>)"

text \<open>\<open>ORDER BY created_at DESC\<close>.\<close>

definition newest_first :: "offer list \<Rightarrow> offer list" where
  "newest_first rs = sort_key (\<lambda>r. - of_created r) rs"

definition active_offers :: "database \<Rightarrow> offer list" where
  "active_offers d = newest_first (filter (offer_active (clock d)) (offers d))"

text \<open>What the pricing page shows for a plan and an interval.\<close>

fun keep_first :: "shaped_offer list \<Rightarrow> shaped_offer list" where
  "keep_first [] = []"
| "keep_first (o1 # os) =
     o1 # filter (\<lambda>x. (so_plan x, so_interval x) \<noteq> (so_plan o1, so_interval o1)) (keep_first os)"

definition getActiveOffers :: "shaped_offer list io" where
  "getActiveOffers =
     bnd (asks (\<lambda>w. (svc w, js_now w))) (\<lambda>(sv, now).
       select (\<lambda>d. map (\<lambda>s. s\<lparr>so_coupon := None, so_discount := None\<rparr>)
         (keep_first (map (shape now) (filter (isHonourable sv) (active_offers d))))))"

text \<open>What a checkout or a plan change applies.\<close>

definition offer_for :: "database \<Rightarrow> string \<Rightarrow> interval \<Rightarrow> offer option" where
  "offer_for d plan iv =
     first_row (newest_first (filter (\<lambda>r. of_plan r = plan \<and> of_interval r = iv \<and> offer_active (clock d) r)
                                (offers d)))"

definition getActiveOfferForPlanInterval :: "string \<Rightarrow> interval \<Rightarrow> shaped_offer option io" where
  "getActiveOfferForPlanInterval plan iv =
     bnd (asks js_now) (\<lambda>now. select (\<lambda>d. map_option (shape now) (offer_for d plan iv)))"

lemma offers_keep [keeps]:
  "preserves P getActiveOffers" "preserves P (getActiveOfferForPlanInterval plan iv)"
  "emits_only S getActiveOffers" "emits_only S (getActiveOfferForPlanInterval plan iv)"
  unfolding getActiveOffers_def getActiveOfferForPlanInterval_def by (intro keeps)+

lemma wp_getActiveOfferForPlanInterval [simp]:
  "wp (getActiveOfferForPlanInterval plan iv) Q w =
     (if fault (svc w) (qn w) then Q (Inl DbError) (w\<lparr>qn := Suc (qn w)\<rparr>)
      else Q (Inr (map_option (shape (js_now w)) (offer_for (db w) plan iv))) (w\<lparr>qn := Suc (qn w)\<rparr>))"
  by (simp add: getActiveOfferForPlanInterval_def)

section \<open>Advertised and charged offers\<close>

definition advertised :: "services \<Rightarrow> database \<Rightarrow> string \<Rightarrow> interval \<Rightarrow> offer option" where
  "advertised sv d plan iv =
     find (\<lambda>r. isHonourable sv r \<and> of_plan r = plan \<and> of_interval r = iv) (active_offers d)"

lemma find_filter: "find P (filter Q xs) = find (\<lambda>x. Q x \<and> P x) xs"
  by (induction xs) auto

lemma find_first_row: "find P xs = first_row (filter P xs)"
  by (induction xs) auto

lemma filter_newest_first: "filter P (newest_first rs) = newest_first (filter P rs)"
  by (simp add: newest_first_def filter_sort)

lemma offer_for_find:
  "offer_for d plan iv = find (\<lambda>r. of_plan r = plan \<and> of_interval r = iv) (active_offers d)"
  by (simp add: offer_for_def active_offers_def find_first_row filter_newest_first conj_ac)

lemma keep_first_find:
  "find (\<lambda>x. so_plan x = p \<and> so_interval x = iv) (keep_first xs) =
   find (\<lambda>x. so_plan x = p \<and> so_interval x = iv) xs"
proof (induction xs)
  case (Cons x xs)
  show ?case
  proof (cases "so_plan x = p \<and> so_interval x = iv")
    case False
    then have "find (\<lambda>x. so_plan x = p \<and> so_interval x = iv)
        (filter (\<lambda>y. (so_plan y, so_interval y) \<noteq> (so_plan x, so_interval x)) ys) =
        find (\<lambda>x. so_plan x = p \<and> so_interval x = iv) ys" for ys
      by (induction ys) auto
    from this [of "keep_first xs"] False Cons show ?thesis by auto
  qed simp
qed simp

lemma advertised_iff:
  "wp getActiveOffers
     (\<lambda>r w'. case r of Inl e \<Rightarrow> e = DbError
        | Inr os \<Rightarrow>
            find (\<lambda>x. so_plan x = plan \<and> so_interval x = iv) os =
            map_option (\<lambda>o1. (shape (js_now w) o1)\<lparr>so_coupon := None, so_discount := None\<rparr>)
              (advertised (svc w) (db w) plan iv)) w"
proof -
  let ?f = "\<lambda>s. s\<lparr>so_coupon := None, so_discount := None\<rparr>"
  have 1: "find (\<lambda>x. so_plan x = plan \<and> so_interval x = iv) (map ?f xs) =
        map_option ?f (find (\<lambda>x. so_plan x = plan \<and> so_interval x = iv) xs)" for xs
    by (induction xs) auto
  have shape: "so_plan (shape n r) = of_plan r" "so_interval (shape n r) = of_interval r" for n r
    by (simp_all add: shape_def Let_def)
  have 2: "find (\<lambda>x. so_plan x = plan \<and> so_interval x = iv) (map (shape n) rs) =
        map_option (shape n) (find (\<lambda>r. of_plan r = plan \<and> of_interval r = iv) rs)" for n rs
    by (induction rs) (auto simp: shape)
  show ?thesis
    by (simp add: getActiveOffers_def 1 2 keep_first_find find_filter advertised_def
        option.map_comp comp_def)
qed

text \<open>
  Where every live offer has a discount on the active provider, the price that is
  advertised is the price that is charged: the offer shown for a plan and interval is the very
  offer a checkout looks up for them, and it lasts for at least one billing period.
\<close>

theorem advertised_is_charged:
  assumes "list_all (isHonourable sv) (active_offers d)"
  shows "offer_for d plan iv = advertised sv d plan iv
         \<and> list_all (\<lambda>o1. case so_periods (shape now o1) of None \<Rightarrow> True | Some n \<Rightarrow> 1 \<le> n) (offers d)"
proof -
  have "find (\<lambda>r. of_plan r = plan \<and> of_interval r = iv) rs =
        find (\<lambda>r. isHonourable sv r \<and> of_plan r = plan \<and> of_interval r = iv) rs"
    if "list_all (isHonourable sv) rs" for rs
    using that by (induction rs) auto
  moreover have "case so_periods (shape now r) of None \<Rightarrow> True | Some n \<Rightarrow> 1 \<le> n" for r
    by (auto simp: shape_def offerDurationPeriods_def Let_def split: option.splits prod.splits)
  ultimately show ?thesis
    using assms by (simp add: offer_for_find advertised_def list_all_iff)
qed

definition demo_offer :: "nat \<Rightarrow> int \<Rightarrow> int \<Rightarrow> string option \<Rightarrow> offer" where
  "demo_offer i created cents disc =
     \<lparr>of_id = i, of_plan = ''pro'', of_interval = Month, of_price_cents = cents, of_label = None,
      of_starts = None, of_ends = None, of_stripe_coupon = None, of_paddle_discount = disc,
      of_active = True, of_created_by = None, of_created = created\<rparr>"

definition offers_db :: "offer list \<Rightarrow> database" where
  "offers_db os = (empty_db 0)\<lparr>offers := os\<rparr>"

lemma advertised_is_charged_witness:
  "offer_for (offers_db [demo_offer 1 5 560 (Some ''dsc'')]) ''pro'' Month =
   advertised demo_services (offers_db [demo_offer 1 5 560 (Some ''dsc'')]) ''pro'' Month"
  using advertised_is_charged [of demo_services "offers_db [demo_offer 1 5 560 (Some ''dsc'')]" "''pro''" Month]
  by (simp add: offers_db_def demo_offer_def empty_db_def active_offers_def newest_first_def
      offer_active_def isHonourable_def isPaddleActive_def demo_services_def text_or_null_def)

text \<open>
  The rule \<open>never show an offer we cannot charge\<close> is broken when the newest offer has no
  provider discount and an older one does: the page advertises the older offer, while the
  checkout looks only at the newest one and finds no discount to apply.
\<close>

theorem advertised_but_not_charged:
  "let d = offers_db [demo_offer 1 5 560 (Some ''dsc''), demo_offer 2 9 700 None]
   in advertised demo_services d ''pro'' Month = Some (demo_offer 1 5 560 (Some ''dsc''))
      \<and> map_option (\<lambda>r. so_discount (shape 0 r)) (offer_for d ''pro'' Month) = Some None"
  by (simp add: offers_db_def demo_offer_def empty_db_def active_offers_def newest_first_def
      offer_active_def isHonourable_def isPaddleActive_def demo_services_def text_or_null_def
      advertised_def offer_for_def shape_def Let_def)

end
