(* ===== verification/Paddle_Billing.thy ===== *)
theory Paddle_Billing
  imports Offers
begin

text \<open>
  \<open>src/main/billing/paddleBilling.js\<close>, the dispatch of \<open>accountBilling.js\<close> to it and the sweep of
  \<open>src/common/billingScheduler.js\<close>.  Paddle itself is the parameter \<open>paddle\<close> of the services:
  what it answers is arbitrary, what it is asked to do is recorded in the log.
\<close>

section \<open>Helpers\<close>

definition isPaddleConfigured :: "services \<Rightarrow> bool" where
  "isPaddleConfigured sv \<longleftrightarrow> env_set sv ''PADDLE_API_KEY''"

datatype direction = Upgrade | Downgrade | SamePlan

definition directionOf :: "string \<Rightarrow> interval \<Rightarrow> string \<Rightarrow> interval \<Rightarrow> direction" where
  "directionOf curPlan curInterval newPlan newInterval =
     (if curPlan = newPlan \<and> curInterval = newInterval then SamePlan
      else if plan_rank newPlan > plan_rank curPlan then Upgrade
      else if plan_rank newPlan < plan_rank curPlan then Downgrade
      else if newInterval = Year then Upgrade else Downgrade)"

record norm_sub =
  ns_id :: string
  ns_customer :: string
  ns_status :: string
  ns_plan :: string
  ns_interval :: "interval option"
  ns_period_end :: "int option"
  ns_cancels :: bool
  ns_discount :: "string option"

definition live_statuses :: "string list" where
  "live_statuses = [''active'', ''trialing'', ''past_due'']"

definition normalizeSub :: "environ \<Rightarrow> paddle_sub \<Rightarrow> norm_sub" where
  "normalizeSub e sub =
     (let isActive = ps_status sub \<in> set live_statuses;
          priceId = text_or_null (ps_price sub)
      in \<lparr>ns_id = ps_id sub, ns_customer = ps_customer sub, ns_status = ps_status sub,
          ns_plan = (if isActive
                     then (case planByPaddlePriceId e priceId of None \<Rightarrow> ''free'' | Some p \<Rightarrow> p)
                     else ''free''),
          ns_interval = (if isActive then intervalByPaddlePriceId e priceId else None),
          ns_period_end = ps_period_end sub,
          ns_cancels = (map_option fst (ps_scheduled sub) = Some ''cancel''),
          ns_discount = text_or_null (ps_discount sub)\<rparr>)"

text \<open>Calls of the SDK.\<close>

definition sub_get :: "string \<Rightarrow> paddle_sub io" where
  "sub_get i = call [] (\<lambda>w. pd_sub_get (paddle (svc w)) (log w) (js_now w) i)"

definition sub_update :: "string \<Rightarrow> string option \<Rightarrow> proration \<Rightarrow> string option \<Rightarrow> unit io" where
  "sub_update i price mode disc =
     (let p = (case price of None \<Rightarrow> [] | Some x \<Rightarrow> x)
      in call [EvSubUpdate i p mode disc]
           (\<lambda>w. pd_sub_update (paddle (svc w)) (log w) (js_now w) i p mode disc))"

definition customers_list :: "jstring \<Rightarrow> string list io" where
  "customers_list email = call [] (\<lambda>w. pd_customers (paddle (svc w)) (log w) (js_now w) email)"

section \<open>Discounts on a subscription\<close>

definition ensureOfferDiscount :: "norm_sub \<Rightarrow> unit io" where
  "ensureOfferDiscount sub =
     catch
      (if ns_plan sub = [] \<or> ns_plan sub = ''free'' \<or> ns_status sub \<notin> set live_statuses then ret ()
       else
         bnd (case ns_discount sub of
                None \<Rightarrow> ret True
              | Some disc \<Rightarrow>
                  bnd (asks (\<lambda>w. paddlePriceIdFor (env (svc w)) (ns_plan sub)
                               (if ns_interval sub = Some Year then Year else Month)))
                    (\<lambda>cur.
                  catch (bnd (call [] (\<lambda>w. pd_discount_get (paddle (svc w)) (log w) (js_now w) disc))
                           (\<lambda>restrict. ret (\<not> (restrict = [] \<or>
                              (case text_or_null cur of None \<Rightarrow> False | Some c \<Rightarrow> c \<in> set restrict)))))
                        (\<lambda>_. ret False))) (\<lambda>attach.
           if \<not> attach then ret ()
           else bnd (getActiveOfferForPlanInterval (ns_plan sub)
                       (if ns_interval sub = Some Year then Year else Month)) (\<lambda>off.
                  case off of
                    None \<Rightarrow> ret ()
                  | Some o1 \<Rightarrow>
                      (case so_discount o1 of
                         None \<Rightarrow> ret ()
                       | Some d \<Rightarrow>
                           call [EvSubDiscount (ns_id sub) d]
                             (\<lambda>w. pd_sub_discount (paddle (svc w)) (log w) (js_now w) (ns_id sub) d)))))
      (\<lambda>_. ret ())"

section \<open>Finding customer and subscription\<close>

definition ensurePaddleCustomer :: "jstring \<Rightarrow> string io" where
  "ensurePaddleCustomer email =
     bnd (getAccount email) (\<lambda>acct.
       case text_or_null (b_paddle_customer acct) of
         Some c \<Rightarrow> ret c
       | None \<Rightarrow>
           bnd (customers_list email) (\<lambda>existing.
           bnd (case existing of
                  c # _ \<Rightarrow> ret c
                | [] \<Rightarrow> call [EvCustomer email]
                         (\<lambda>w. pd_customer_create (paddle (svc w)) (log w) (js_now w) email)) (\<lambda>c.
           bnd (setAccountPlan email [PaddleCustomer (Some c)]) (\<lambda>_. ret c))))"

definition fetchSubscription :: "jstring \<Rightarrow> norm_sub option io" where
  "fetchSubscription email =
     bnd (asks (\<lambda>w. env (svc w))) (\<lambda>e.
     bnd (getAccount email) (\<lambda>acct.
       case text_or_null (b_paddle_sub acct) of
         Some i \<Rightarrow> bnd (sub_get i) (\<lambda>s. ret (Some (normalizeSub e s)))
       | None \<Rightarrow>
           bnd (case text_or_null (b_paddle_customer acct) of
                  Some c \<Rightarrow> ret (Some c)
                | None \<Rightarrow>
                    bnd (customers_list email) (\<lambda>found.
                      case found of
                        [] \<Rightarrow> ret None
                      | c # _ \<Rightarrow> if c = [] then ret None
                          else bnd (setAccountPlan email [PaddleCustomer (Some c)]) (\<lambda>_. ret (Some c))))
             (\<lambda>customerId.
              case customerId of
                None \<Rightarrow> ret None
              | Some c \<Rightarrow>
                  bnd (call [] (\<lambda>w. pd_sub_list (paddle (svc w)) (log w) (js_now w) c)) (\<lambda>subs.
                    case subs of
                      [] \<Rightarrow> ret None
                    | s # _ \<Rightarrow>
                        bnd (setAccountPlan email [PaddleSubscription (Some (ps_id s))]) (\<lambda>_.
                          ret (Some (normalizeSub e s)))))))"

section \<open>Reconciliation\<close>

definition pending_active :: "int \<Rightarrow> account \<Rightarrow> bool" where
  "pending_active now acct \<longleftrightarrow>
     text_or_null (b_pending_plan acct) \<noteq> None
     \<and> (case b_pending_at acct of None \<Rightarrow> False | Some at \<Rightarrow> at > now)"

definition hold_fields :: "account \<Rightarrow> norm_sub \<Rightarrow> billing_field list" where
  "hold_fields acct sub =
     [SubscriptionStatus (Some (ns_status sub)),
      PeriodEnd (case b_period_end acct of Some e \<Rightarrow> Some e | None \<Rightarrow> ns_period_end sub),
      PaddleSubscription (Some (ns_id sub)), PaddleCustomer (Some (ns_customer sub))]"

definition apply_fields :: "norm_sub \<Rightarrow> billing_field list" where
  "apply_fields sub =
     [PlanName (ns_plan sub), SubscriptionStatus (Some (ns_status sub)),
      BillingInterval (ns_interval sub), PeriodEnd (ns_period_end sub),
      PaddleSubscription (Some (ns_id sub)), PaddleCustomer (Some (ns_customer sub)),
      PendingPlan None, PendingInterval None, PendingEffectiveAt None]"

definition reconcile_apply :: "jstring \<Rightarrow> account \<Rightarrow> norm_sub option \<Rightarrow> unit io" where
  "reconcile_apply email acct sub =
     bnd (asks js_now) (\<lambda>now.
       case sub of
         None \<Rightarrow>
           if text_or_null (b_status acct) \<noteq> None \<and> b_status acct \<noteq> Some ''comped''
           then resetAccountToFree email None else ret ()
       | Some s \<Rightarrow>
           if ns_plan s = ''free'' then
             (if text_or_null (b_status acct) \<noteq> None \<and> b_status acct \<noteq> Some ''comped''
              then resetAccountToFree email (text_or_null (Some (ns_status s))) else ret ())
           else if pending_active now acct then setAccountPlan email (hold_fields acct s)
           else bnd (ensureOfferDiscount s) (\<lambda>_. setAccountPlan email (apply_fields s)))"

definition reconcile :: "jstring \<Rightarrow> unit io" where
  "reconcile email =
     bnd (asks (\<lambda>w. (isPaddleConfigured (svc w), js_now w))) (\<lambda>(configured, now).
       if email = [] \<or> \<not> configured then ret ()
       else bnd (getAccount email) (\<lambda>acct.
         if b_status acct = Some ''comped'' then
           (case b_period_end acct of
              None \<Rightarrow> ret ()
            | Some e \<Rightarrow> if e < now then resetAccountToFree email None else ret ())
         else bnd (fetchSubscription email) (\<lambda>sub. reconcile_apply email acct sub)))"

text \<open>\<open>reconcileAccount\<close> and \<open>cancelActiveSubscription\<close> of \<open>accountBilling.js\<close>.\<close>

definition reconcileAccount :: "jstring \<Rightarrow> unit io" where
  "reconcileAccount email =
     (if email = [] then ret ()
      else bnd (asks (\<lambda>w. isPaddleActive (svc w))) (\<lambda>paddleActive.
        if paddleActive then reconcile email else reconcileStripe email))"

definition cancelLiveSubscription :: "jstring \<Rightarrow> unit io" where
  "cancelLiveSubscription email =
     bnd (getAccount email) (\<lambda>acct.
     bnd (asks (\<lambda>w. isPaddleConfigured (svc w))) (\<lambda>configured.
       case text_or_null (b_paddle_sub acct) of
         None \<Rightarrow> ret ()
       | Some i \<Rightarrow>
           if \<not> configured then ret ()
           else catch (bnd (call [EvSubCancel i True]
                       (\<lambda>w. pd_sub_cancel (paddle (svc w)) (log w) (js_now w) i True)) (\<lambda>_. ret ()))
                      (\<lambda>_. ret ())))"

definition cancelActiveSubscription :: "jstring \<Rightarrow> unit io" where
  "cancelActiveSubscription email =
     bnd (asks (\<lambda>w. isPaddleActive (svc w))) (\<lambda>paddleActive.
       if paddleActive then cancelLiveSubscription email else cancelStripeSubscription email)"

section \<open>Handlers\<close>

text \<open>The payload of a billing response; the currency label is left out.\<close>

datatype billing_result =
    CheckoutStarted string | Previewed direction int "int option" bool
  | Changed direction string interval | Scheduled direction string interval "int option"
  | ChangeCancelled | CancelledAt "int option" | Resumed | PortalUrl string

definition contains_ci :: "string \<Rightarrow> string \<Rightarrow> bool" where
  "contains_ci msg needle \<longleftrightarrow> js_includes (js_lower (js msg)) (js needle)"

definition too_small_message :: "exn \<Rightarrow> bool" where
  "too_small_message e \<longleftrightarrow>
     (case e of
        JsError m \<Rightarrow> contains_ci m ''minimum payment amount'' \<or> contains_ci m ''balance is less than''
      | _ \<Rightarrow> False)"

definition has_live_subscription :: "account \<Rightarrow> bool" where
  "has_live_subscription acct \<longleftrightarrow>
     text_or_null (b_paddle_sub acct) \<noteq> None
     \<and> (case b_status acct of None \<Rightarrow> False | Some s \<Rightarrow> s \<in> set live_statuses)"

text \<open>The discount to apply: a promo code's, re-checked against its plan, else the offer's.\<close>

definition checkout_discount :: "string \<Rightarrow> interval \<Rightarrow> string option \<Rightarrow> (unit + string option) io" where
  "checkout_discount plan iv promotion =
     (case text_or_null promotion of
        Some code \<Rightarrow>
          bnd (select (\<lambda>d. find (\<lambda>c. pc_paddle_discount c = Some code \<and> pc_active c) (promo_codes d))) (\<lambda>row.
            case row of
              None \<Rightarrow> ret (Inr (Some code))
            | Some c \<Rightarrow>
                (case text_or_null (pc_applies_to c) of
                   None \<Rightarrow> ret (Inr (Some code))
                 | Some p \<Rightarrow> if p \<noteq> ''any'' \<and> p \<noteq> plan then ret (Inl ()) else ret (Inr (Some code))))
      | None \<Rightarrow>
          bnd (getActiveOfferForPlanInterval plan iv) (\<lambda>off.
            ret (Inr (case off of None \<Rightarrow> None | Some o1 \<Rightarrow> so_discount o1))))"

definition createCheckout ::
  "string \<Rightarrow> auth \<Rightarrow> string option \<Rightarrow> string option \<Rightarrow> billing_result outcome io" where
  "createCheckout plan au promotion interval =
     (let iv = interval_of_string interval; email = au_email au
      in bnd (asks svc) (\<lambda>sv.
         let price = text_or_null (paddlePriceIdFor (env sv) plan iv)
         in if au_role au \<noteq> Owner then ret (Reject FORBIDDEN ''billing_forbidden'')
         else if \<not> isPaddleConfigured sv then ret (Reject INTERNAL_SERVER_ERROR ''stripe_not_configured'')
         else case price of
           None \<Rightarrow> ret (Reject BAD_REQUEST ''invalid_plan'')
         | Some priceId \<Rightarrow>
             if plan = ''free'' then ret (Reject BAD_REQUEST ''invalid_plan'')
             else bnd (getAccount email) (\<lambda>existing.
               if has_live_subscription existing
               then ret (Reject BAD_REQUEST ''subscription_already_active'')
               else bnd (checkout_discount plan iv promotion) (\<lambda>disc.
                 case disc of
                   Inl _ \<Rightarrow> ret (Reject BAD_REQUEST ''promo_plan_mismatch'')
                 | Inr discountId \<Rightarrow>
                     catch
                       (bnd (ensurePaddleCustomer email) (\<lambda>c.
                        bnd (call [EvTransaction priceId c discountId email]
                               (\<lambda>w. pd_transaction (paddle (svc w)) (log w) (js_now w) priceId c discountId)) (\<lambda>t.
                          ret (Resolve OK ''checkout_session_created'' (CheckoutStarted t)))))
                       (\<lambda>e. if too_small_message e then ret (Reject BAD_REQUEST ''discount_below_minimum'')
                            else ret (Reject INTERNAL_SERVER_ERROR ''failed_to_create_checkout''))))))"

record change_ctx =
  cx_email :: jstring
  cx_sub :: string
  cx_plan :: string
  cx_interval :: interval
  cx_period_end :: "int option"

definition loadForChange :: "auth \<Rightarrow> change_ctx io" where
  "loadForChange au =
     bnd (asks svc) (\<lambda>sv.
       if au_role au \<noteq> Owner then raise (Thrown FORBIDDEN ''billing_forbidden'')
       else if \<not> isPaddleConfigured sv then raise (Thrown INTERNAL_SERVER_ERROR ''stripe_not_configured'')
       else bnd (getAccount (au_email au)) (\<lambda>acct.
         case text_or_null (b_paddle_sub acct) of
           None \<Rightarrow> raise (Thrown BAD_REQUEST ''no_active_subscription'')
         | Some i \<Rightarrow>
             if b_status acct = Some ''comped'' then raise (Thrown BAD_REQUEST ''no_active_subscription'')
             else ret \<lparr>cx_email = au_email au, cx_sub = i,
                       cx_plan = plan_or_free (Some (b_plan acct)),
                       cx_interval = (case b_interval acct of None \<Rightarrow> Month | Some iv \<Rightarrow> iv),
                       cx_period_end = b_period_end acct\<rparr>))"

text \<open>\<open>error?.statusCode ? reject(error) : reject(500, key)\<close>.\<close>

definition reject_with :: "string \<Rightarrow> exn \<Rightarrow> 'a outcome io" where
  "reject_with key e =
     (case e of
        Thrown code k \<Rightarrow> ret (Reject code k)
      | _ \<Rightarrow> ret (Reject INTERNAL_SERVER_ERROR key))"

definition offerDiscountFor :: "string \<Rightarrow> interval \<Rightarrow> string option io" where
  "offerDiscountFor plan iv =
     bnd (getActiveOfferForPlanInterval plan iv) (\<lambda>off.
       ret (case off of None \<Rightarrow> None | Some o1 \<Rightarrow> so_discount o1))"

definition previewAmountDueNow :: "paddle_preview \<Rightarrow> int" where
  "previewAmountDueNow p =
     (case pv_grand_total p of
        Some t \<Rightarrow> max 0 t
      | None \<Rightarrow> if pv_result_action p = Some ''charge'' then max 0 (pv_result_amount p) else 0)"

definition previewChange :: "string \<Rightarrow> string option \<Rightarrow> auth \<Rightarrow> billing_result outcome io" where
  "previewChange plan interval au =
     catch
       (bnd (loadForChange au) (\<lambda>c.
          let iv = interval_of_string interval;
              dir = directionOf (cx_plan c) (cx_interval c) plan iv
          in case dir of
               SamePlan \<Rightarrow> ret (Reject BAD_REQUEST ''already_on_plan'')
             | Downgrade \<Rightarrow>
                 ret (Resolve OK ''plan_change_previewed'' (Previewed dir 0 (cx_period_end c) False))
             | Upgrade \<Rightarrow>
                 bnd (asks (\<lambda>w. paddlePriceIdFor (env (svc w)) plan iv)) (\<lambda>priceId.
                 bnd (offerDiscountFor plan iv) (\<lambda>disc.
                 bnd (call [] (\<lambda>w. pd_preview (paddle (svc w)) (log w) (js_now w) (cx_sub c)
                                     (case priceId of None \<Rightarrow> [] | Some x \<Rightarrow> x) disc)) (\<lambda>p.
                   ret (Resolve OK ''plan_change_previewed''
                          (Previewed dir (previewAmountDueNow p) None True)))))))
       (reject_with ''plan_change_failed'')"

definition pending_fields :: "string option \<Rightarrow> interval option \<Rightarrow> int option \<Rightarrow> billing_field list" where
  "pending_fields plan iv at = [PendingPlan plan, PendingInterval iv, PendingEffectiveAt at]"

definition applyChange :: "string \<Rightarrow> string option \<Rightarrow> auth \<Rightarrow> billing_result outcome io" where
  "applyChange plan interval au =
     bnd (catch (bnd (loadForChange au) (\<lambda>c. ret (Inr c)))
                (\<lambda>e. bnd (reject_with ''plan_change_failed'' e) (\<lambda>r. ret (Inl r)))) (\<lambda>ctx.
       case ctx of
         Inl r \<Rightarrow> ret r
       | Inr c \<Rightarrow>
           let iv = interval_of_string interval;
               dir = directionOf (cx_plan c) (cx_interval c) plan iv;
               intervalChanged = (iv \<noteq> cx_interval c)
           in if dir = SamePlan then ret (Reject BAD_REQUEST ''already_on_plan'')
           else if intervalChanged \<and> cx_interval c = Year
           then ret (Reject BAD_REQUEST ''downgrade_interval_unsupported'')
           else if dir = Downgrade \<and> intervalChanged \<and> cx_interval c = Month
           then ret (Reject BAD_REQUEST ''downgrade_interval_unsupported'')
           else catch
             (bnd (asks (\<lambda>w. paddlePriceIdFor (env (svc w)) plan iv)) (\<lambda>priceId.
                if dir = Upgrade then
                  bnd (offerDiscountFor plan iv) (\<lambda>disc.
                  bnd (sub_update (cx_sub c) priceId ProratedImmediately disc) (\<lambda>_.
                  bnd (reconcile (cx_email c)) (\<lambda>_.
                    ret (Resolve OK ''plan_changed'' (Changed dir plan iv)))))
                else
                  bnd (if \<not> intervalChanged
                       then bnd (offerDiscountFor plan iv) (\<lambda>disc.
                              sub_update (cx_sub c) priceId DoNotBill disc)
                       else ret ()) (\<lambda>_.
                  bnd (setAccountPlan (cx_email c) (pending_fields (Some plan) (Some iv) (cx_period_end c))) (\<lambda>_.
                    ret (Resolve OK ''plan_change_scheduled'' (Scheduled dir plan iv (cx_period_end c)))))))
             (\<lambda>_. ret (Reject INTERNAL_SERVER_ERROR ''plan_change_failed'')))"

text \<open>The common prologue of the handlers that act on the live subscription.\<close>

definition with_subscription ::
  "string \<Rightarrow> auth \<Rightarrow> (change_ctx \<Rightarrow> billing_result outcome io) \<Rightarrow> billing_result outcome io" where
  "with_subscription key au body =
     bnd (catch (bnd (loadForChange au) (\<lambda>c. ret (Inr c)))
                (\<lambda>e. bnd (reject_with key e) (\<lambda>r. ret (Inl r)))) (\<lambda>ctx.
       case ctx of Inl r \<Rightarrow> ret r | Inr c \<Rightarrow> body c)"

definition cancelScheduledChange :: "auth \<Rightarrow> billing_result outcome io" where
  "cancelScheduledChange au =
     with_subscription ''plan_change_failed'' au (\<lambda>c.
       bnd (getAccount (cx_email c)) (\<lambda>acct.
         if text_or_null (b_pending_plan acct) = None
         then ret (Resolve OK ''plan_change_cancelled'' ChangeCancelled)
         else catch
           (bnd (asks (\<lambda>w. text_or_null (paddlePriceIdFor (env (svc w)) (cx_plan c) (cx_interval c)))) (\<lambda>priceId.
            bnd (sub_get (cx_sub c)) (\<lambda>sub.
            bnd (if priceId \<noteq> None \<and> text_or_null (ps_price sub) \<noteq> priceId
                 then sub_update (cx_sub c) priceId DoNotBill None else ret ()) (\<lambda>_.
            bnd (setAccountPlan (cx_email c) (pending_fields None None None)) (\<lambda>_.
              ret (Resolve OK ''plan_change_cancelled'' ChangeCancelled))))))
           (\<lambda>_. ret (Reject INTERNAL_SERVER_ERROR ''plan_change_failed''))))"

definition cancelSubscription :: "auth \<Rightarrow> billing_result outcome io" where
  "cancelSubscription au =
     with_subscription ''internal_server_error'' au (\<lambda>c.
       catch
         (bnd (call [EvSubCancel (cx_sub c) False]
                (\<lambda>w. pd_sub_cancel (paddle (svc w)) (log w) (js_now w) (cx_sub c) False)) (\<lambda>sub.
            ret (Resolve OK ''subscription_cancelled''
              (CancelledAt (case ps_scheduled sub of
                  Some (_, Some at) \<Rightarrow> Some at | _ \<Rightarrow> ps_period_end sub)))))
         (\<lambda>_. ret (Reject INTERNAL_SERVER_ERROR ''internal_server_error'')))"

definition resumeSubscription :: "auth \<Rightarrow> billing_result outcome io" where
  "resumeSubscription au =
     with_subscription ''internal_server_error'' au (\<lambda>c.
       catch
         (bnd (call [EvSubResume (cx_sub c)]
                (\<lambda>w. pd_sub_resume (paddle (svc w)) (log w) (js_now w) (cx_sub c))) (\<lambda>_.
            ret (Resolve OK ''subscription_resumed'' Resumed)))
         (\<lambda>_. ret (Reject INTERNAL_SERVER_ERROR ''internal_server_error'')))"

definition createPortalSession :: "auth \<Rightarrow> billing_result outcome io" where
  "createPortalSession au =
     bnd (asks svc) (\<lambda>sv.
       if au_role au \<noteq> Owner then ret (Reject FORBIDDEN ''billing_forbidden'')
       else if \<not> isPaddleConfigured sv then ret (Reject INTERNAL_SERVER_ERROR ''stripe_not_configured'')
       else catch
         (bnd (getAccount (au_email au)) (\<lambda>acct.
            case text_or_null (b_paddle_customer acct) of
              None \<Rightarrow> ret (Reject BAD_REQUEST ''no_active_subscription'')
            | Some c \<Rightarrow>
                bnd (call [] (\<lambda>w. pd_portal (paddle (svc w)) (log w) (js_now w) c
                                    (text_or_null (b_paddle_sub acct)))) (\<lambda>url.
                  case text_or_null url of
                    None \<Rightarrow> ret (Reject INTERNAL_SERVER_ERROR ''failed_to_create_portal'')
                  | Some u \<Rightarrow> ret (Resolve OK ''portal_session_created'' (PortalUrl u)))))
         (\<lambda>_. ret (Reject INTERNAL_SERVER_ERROR ''failed_to_create_portal'')))"

text \<open>
  The webhook: a bad signature is a 400, everything after it is acknowledged; \<open>sub.id\<close> or
  \<open>customerId\<close> find the account when the event does not name it.
\<close>

definition handleWebhook :: "jstring \<Rightarrow> jstring \<Rightarrow> (int + unit) io" where
  "handleWebhook body signature =
     bnd (asks (\<lambda>w. pd_unmarshal (paddle (svc w)) body signature)) (\<lambda>ev.
       case ev of
         Inl _ \<Rightarrow> ret (Inl 400)
       | Inr e \<Rightarrow>
           bnd (catch
             (if take 13 (pe_type e) \<noteq> ''subscription.'' then ret ()
              else bnd (case or_null (or_empty (pe_email e)) of
                     Some m \<Rightarrow> ret (Some m)
                   | None \<Rightarrow>
                       if text_or_null (pe_sub e) = None \<and> text_or_null (pe_customer e) = None
                       then ret None
                       else select (\<lambda>d. map_option b_email
                              (find (\<lambda>b. (text_or_null (pe_sub e) \<noteq> None \<and> b_paddle_sub b = pe_sub e)
                                       \<or> (text_or_null (pe_customer e) \<noteq> None \<and> b_paddle_customer b = pe_customer e))
                                 (accounts d)))) (\<lambda>email.
                   case email of
                     None \<Rightarrow> ret ()
                   | Some m \<Rightarrow> if m = [] then ret () else reconcile m))
             (\<lambda>_. ret ())) (\<lambda>_. ret (Inr ())))"

section \<open>The scheduler\<close>

text \<open>The accounts whose pending change is due within the lead time.\<close>

definition due_accounts :: "int \<Rightarrow> database \<Rightarrow> account list" where
  "due_accounts leadSeconds d =
     filter (\<lambda>b. b_pending_plan b \<noteq> None \<and> b_pending_at b \<noteq> None \<and> b_paddle_sub b \<noteq> None
               \<and> b_status b \<noteq> Some ''comped''
               \<and> the (b_pending_at b) \<le> clock d + seconds leadSeconds) (accounts d)"

text \<open>One account of the sweep; the result says whether a change was applied.\<close>

definition apply_due :: "account \<Rightarrow> bool io" where
  "apply_due row =
     (let iv = (if b_pending_interval row = Some Year then Year else Month);
          plan = (case b_pending_plan row of None \<Rightarrow> [] | Some p \<Rightarrow> p);
          i = (case b_paddle_sub row of None \<Rightarrow> [] | Some x \<Rightarrow> x);
          due = (case b_pending_at row of None \<Rightarrow> 0 | Some t \<Rightarrow> t)
      in bnd (asks (\<lambda>w. env (svc w))) (\<lambda>e.
         case text_or_null (paddlePriceIdFor e plan iv) of
           None \<Rightarrow> ret False
         | Some target \<Rightarrow>
             bnd (sub_get i) (\<lambda>sub.
               let live = text_or_null (ps_price sub)
               in if live = Some target then ret False
               else case ps_period_end sub of
                 Some pe \<Rightarrow>
                   if pe - due > 24 * 3600 * 1000
                   then bnd (setAccountPlan (b_email row) [PendingEffectiveAt (Some pe)]) (\<lambda>_. ret False)
                   else bnd (sub_update i (Some target)
                          (if intervalByPaddlePriceId e live = Some iv then DoNotBill else ProratedImmediately) None)
                        (\<lambda>_. bnd (reconcile (b_email row)) (\<lambda>_. ret True))
               | None \<Rightarrow>
                   bnd (sub_update i (Some target)
                          (if intervalByPaddlePriceId e live = Some iv then DoNotBill else ProratedImmediately) None)
                     (\<lambda>_. bnd (reconcile (b_email row)) (\<lambda>_. ret True)))))"

definition applyDuePendingChanges :: "int \<Rightarrow> (nat \<times> nat) io" where
  "applyDuePendingChanges leadSeconds =
     bnd (asks (\<lambda>w. isPaddleConfigured (svc w))) (\<lambda>configured.
       if \<not> configured then ret (0, 0)
       else bnd (select (due_accounts leadSeconds)) (\<lambda>rows.
            bnd (for_each rows (\<lambda>row. catch (apply_due row) (\<lambda>_. ret False))) (\<lambda>done.
              ret (length rows, length (filter id done)))))"

definition positive_or :: "int option \<Rightarrow> int \<Rightarrow> int" where
  "positive_or v dflt = (case v of None \<Rightarrow> dflt | Some n \<Rightarrow> if n > 0 then n else dflt)"

text \<open>One tick; \<open>lock\<close> is the answer of \<open>GET_LOCK\<close>.  A failing sweep is only logged.\<close>

definition scheduler_tick :: "bool \<Rightarrow> unit io" where
  "scheduler_tick lock =
     catch (bnd (asks (\<lambda>w. positive_or (env_num (svc w) ''BILLING_SCHEDULER_LEAD_HOURS'') 6 * 3600)) (\<lambda>lead.
            if lock then bnd (applyDuePendingChanges lead) (\<lambda>_. ret ()) else ret ()))
           (\<lambda>_. ret ())"

section \<open>Structure of the billing programs\<close>

lemma case_direction_keeps [keeps]:
  "preserves P m \<Longrightarrow> preserves P n \<Longrightarrow> preserves P k \<Longrightarrow>
   preserves P (case x of Upgrade \<Rightarrow> m | Downgrade \<Rightarrow> n | SamePlan \<Rightarrow> k)"
  "emits_only S m \<Longrightarrow> emits_only S n \<Longrightarrow> emits_only S k \<Longrightarrow>
   emits_only S (case x of Upgrade \<Rightarrow> m | Downgrade \<Rightarrow> n | SamePlan \<Rightarrow> k)"
  by (simp_all split: direction.splits)

lemma account_reads_keep [keeps]:
  "preserves P (getAccount email)" "emits_only S (getAccount email)"
  unfolding getAccount_def by (intro keeps)+

lemma setAccountPlan_silent [keeps]: "emits_only S (setAccountPlan email fs)"
  unfolding setAccountPlan_def setAccountPlan_on_def mirrorAccountToTenants_def by (intro keeps)

lemma resetAccountToFree_silent [keeps]: "emits_only S (resetAccountToFree email st)"
  unfolding resetAccountToFree_def by (intro keeps)

lemma sdk_reads_keep [keeps]:
  "preserves P (sub_get i)" "emits_only S (sub_get i)"
  "preserves P (customers_list email)" "emits_only S (customers_list email)"
  unfolding sub_get_def customers_list_def by (intro keeps; simp)+

lemma sub_update_keeps [keeps]:
  "preserves P (sub_update i p m d)"
  "(\<And>x. EvSubUpdate i x m d \<in> S) \<Longrightarrow> emits_only S (sub_update i p m d)"
  unfolding sub_update_def Let_def by (intro keeps; simp)+

definition discount_events :: "event set" where
  "discount_events = {e. \<exists>i d. e = EvSubDiscount i d}"

lemma ensureOfferDiscount_keeps [keeps]:
  "preserves P (ensureOfferDiscount sub)" "discount_events \<subseteq> S \<Longrightarrow> emits_only S (ensureOfferDiscount sub)"
  unfolding ensureOfferDiscount_def
  by (intro keeps; auto simp: discount_events_def)+

lemma fetchSubscription_silent [keeps]: "emits_only S (fetchSubscription email)"
  unfolding fetchSubscription_def by (intro keeps; simp)

lemma reconcile_emits [keeps]:
  "discount_events \<subseteq> S \<Longrightarrow> emits_only S (reconcile_apply email acct sub)"
  "discount_events \<subseteq> S \<Longrightarrow> emits_only S (reconcile email)"
  unfolding reconcile_def reconcile_apply_def by (intro keeps; simp)+

lemma ownerEmailOfTenant_keeps [keeps]: "preserves P (ownerEmailOfTenant t)"
  unfolding ownerEmailOfTenant_def by (intro keeps)

lemma cancelActive_keeps [keeps]:
  "preserves P (cancelActiveSubscription email)" "preserves P (cancelLiveSubscription email)"
  "preserves P (cancelStripeSubscription email)"
  unfolding cancelActiveSubscription_def cancelLiveSubscription_def cancelStripeSubscription_def
  by (intro keeps)+

lemma loadForChange_keeps [keeps]:
  "preserves P (loadForChange au)" "emits_only S (loadForChange au)"
  unfolding loadForChange_def by (intro keeps)+

lemma reject_with_keeps [keeps]:
  "preserves P (reject_with key e)" "emits_only S (reject_with key e)"
  unfolding reject_with_def by (cases e; simp; intro keeps)+

lemma offerDiscountFor_keeps [keeps]:
  "preserves P (offerDiscountFor plan iv)" "emits_only S (offerDiscountFor plan iv)"
  unfolding offerDiscountFor_def by (intro keeps)+

lemma with_subscription_keeps [keeps]:
  "(\<And>c. preserves P (body c)) \<Longrightarrow> preserves P (with_subscription key au body)"
  "(\<And>c. emits_only S (body c)) \<Longrightarrow> emits_only S (with_subscription key au body)"
  unfolding with_subscription_def by (intro keeps; simp)+

text \<open>
  The interface between the plan store and its clients: a predicate that the two writes of
  \<open>accountBilling.js\<close> keep is kept by every billing handler, whatever the providers answer.
\<close>

locale plan_invariant =
  fixes inv :: "database \<Rightarrow> bool"
  assumes plan_write: "preserves inv (setAccountPlan email fs)"
    and mirror_write: "email \<noteq> [] \<Longrightarrow> preserves inv (mirrorAccountToTenants email)"
begin

lemmas writes_keep [keeps] = plan_write mirror_write

lemma reset_keeps [keeps]: "preserves inv (resetAccountToFree email st)"
  unfolding resetAccountToFree_def by (intro keeps)

lemma fetch_keeps [keeps]: "preserves inv (fetchSubscription email)"
  unfolding fetchSubscription_def by (intro keeps; simp)

lemma reconcile_apply_keeps [keeps]: "preserves inv (reconcile_apply email acct sub)"
  unfolding reconcile_apply_def by (intro keeps; simp)

lemma reconcile_keeps [keeps]: "preserves inv (reconcile email)"
  unfolding reconcile_def by (intro keeps; simp)

lemma reconcileStripe_keeps [keeps]: "email \<noteq> [] \<Longrightarrow> preserves inv (reconcileStripe email)"
  unfolding reconcileStripe_def reconcile_comp_def applyAccountSubscription_def attribute_sub_def
    clear_pending_def
  by (intro keeps)

lemma reconcileAccount_keeps [keeps]: "preserves inv (reconcileAccount email)"
  unfolding reconcileAccount_def by (intro keeps)

lemma handlers_keep:
  "preserves inv (createCheckout plan au promo iv)"
  "preserves inv (previewChange plan iv au)"
  "preserves inv (applyChange plan iv au)"
  "preserves inv (cancelScheduledChange au)"
  "preserves inv (cancelSubscription au)"
  "preserves inv (resumeSubscription au)"
  "preserves inv (createPortalSession au)"
  "preserves inv (handleWebhook body sig)"
  "preserves inv (applyDuePendingChanges lead)"
  unfolding createCheckout_def checkout_discount_def ensurePaddleCustomer_def previewChange_def
    applyChange_def cancelScheduledChange_def cancelSubscription_def resumeSubscription_def
    createPortalSession_def handleWebhook_def applyDuePendingChanges_def apply_due_def Let_def
  by (intro keeps)+

lemma tick_keeps: "preserves inv (scheduler_tick lock)"
  unfolding scheduler_tick_def by (intro keeps handlers_keep)

end

interpretation mirror_inv: plan_invariant billing_ok
  by unfold_locales (rule setAccountPlan_billing_ok, erule mirrorAccountToTenants_billing_ok)

section \<open>Downgrades never charge\<close>

lemma account_of_insert_fields:
  "b_plan (account_of (insert_account email d) e) = b_plan (account_of d e)"
  "b_interval (account_of (insert_account email d) e) = b_interval (account_of d e)"
  "b_period_end (account_of (insert_account email d) e) = b_period_end (account_of d e)"
  "b_status (account_of (insert_account email d) e) = b_status (account_of d e)"
  "b_paddle_sub (account_of (insert_account email d) e) = b_paddle_sub (account_of d e)"
  "b_pending_plan (account_of (insert_account email d) e) = b_pending_plan (account_of d e)"
  "b_pending_interval (account_of (insert_account email d) e) = b_pending_interval (account_of d e)"
  "b_pending_at (account_of (insert_account email d) e) = b_pending_at (account_of d e)"
  by (auto simp: account_of_def insert_account_def find_none_append free_account_def split: option.splits)

lemma loadForChange_spec:
  "wp (loadForChange au)
     (\<lambda>r w'. db w' = db w \<and> log w' = log w \<and> svc w' = svc w \<and> js_now w' = js_now w
        \<and> (\<forall>c. r = Inr c \<longrightarrow> au_role au = Owner \<and> au_email au \<noteq> [] \<and> cx_email c = au_email au
             \<and> cx_plan c = plan_or_free (Some (b_plan (account_of (db w) (au_email au))))
             \<and> cx_interval c = (case b_interval (account_of (db w) (au_email au)) of None \<Rightarrow> Month | Some iv \<Rightarrow> iv)
             \<and> cx_period_end c = b_period_end (account_of (db w) (au_email au))
             \<and> text_or_null (b_paddle_sub (account_of (db w) (au_email au))) = Some (cx_sub c))) w"
  by (auto simp: loadForChange_def getAccount_def free_account_def text_or_null_def split: option.splits if_splits)

definition no_charge_events :: "event set" where
  "no_charge_events = {e. \<exists>i p d. e = EvSubUpdate i p DoNotBill d}"

definition downgrade_scheduled :: "jstring \<Rightarrow> string \<Rightarrow> world \<Rightarrow> world \<Rightarrow> bool" where
  "downgrade_scheduled email plan w w' \<longleftrightarrow>
     (let a = account_of (db w) email; a' = account_of (db w') email
      in b_plan a' = b_plan a \<and> b_interval a' = b_interval a \<and> b_period_end a' = b_period_end a
         \<and> b_pending_plan a' = Some plan \<and> b_pending_at a' = b_period_end a
         \<and> (\<exists>es. log w' = log w @ es \<and> set es \<subseteq> no_charge_events))"

lemma swap_then_schedule:
  assumes "email \<noteq> []" and "at = b_period_end (account_of (db w) email)"
  shows "wp (bnd (if b then bnd (offerDiscountFor plan iv) (\<lambda>disc. sub_update i priceId DoNotBill disc)
                  else ret ()) (\<lambda>_.
             bnd (setAccountPlan email (pending_fields (Some plan) (Some iv) at)) (\<lambda>_. ret x)))
     (\<lambda>r w'. \<forall>y. r = Inr y \<longrightarrow> downgrade_scheduled email plan w w') w"
proof -
  have sched: "wp (bnd (setAccountPlan email (pending_fields (Some plan) (Some iv) at)) (\<lambda>_. ret x))
      (\<lambda>r w'. \<forall>y. r = Inr y \<longrightarrow> downgrade_scheduled email plan w w') w1"
    if "db w1 = db w" "\<exists>es. log w1 = log w @ es \<and> set es \<subseteq> no_charge_events" for w1
    by (rule wp_seq [OF setAccountPlan_spec [OF assms(1)]])
       (use that assms in \<open>auto simp: downgrade_scheduled_def Let_def account_of_plan_db pending_fields_def
          account_of_insert_fields\<close>)
  have upd: "wp (bnd (offerDiscountFor plan iv) (\<lambda>disc. sub_update i priceId DoNotBill disc))
     (\<lambda>r w1. db w1 = db w \<and> (\<exists>es. log w1 = log w @ es \<and> set es \<subseteq> no_charge_events)) w"
    by (auto simp: offerDiscountFor_def sub_update_def Let_def no_charge_events_def split: sum.splits)
  show ?thesis
    by (cases b; simp only: if_True if_False; rule wp_seq [OF upd] wp_seq [where R = "\<lambda>r w1. w1 = w"])
       (use sched in \<open>auto simp del: wp_bnd\<close>)
qed

definition scheduled_only_downgrades :: "jstring \<Rightarrow> string \<Rightarrow> world \<Rightarrow> exn + billing_result outcome \<Rightarrow> world \<Rightarrow> bool" where
  "scheduled_only_downgrades email plan w r w' \<longleftrightarrow>
     (case r of
        Inr (Resolve st key (Scheduled dir p i at)) \<Rightarrow> downgrade_scheduled email plan w w'
      | _ \<Rightarrow> True)"

lemma applyChange_downgrade:
  "wp (applyChange plan interval au) (\<lambda>r w'. scheduled_only_downgrades (au_email au) plan w r w') w"
proof -
  let ?Q = "\<lambda>r w'. scheduled_only_downgrades (au_email au) plan w r w'"
  let ?R = "\<lambda>r w'. case r of Inl e \<Rightarrow> False | Inr (Inl x) \<Rightarrow> (\<exists>c k. x = Reject c k)
            | Inr (Inr c) \<Rightarrow> db w' = db w \<and> log w' = log w \<and> cx_email c = au_email au
                \<and> au_email au \<noteq> [] \<and> cx_period_end c = b_period_end (account_of (db w) (au_email au))"
  have ctx: "wp (catch (bnd (loadForChange au) (\<lambda>c. ret (Inr c)))
                (\<lambda>e. bnd (reject_with ''plan_change_failed'' e) (\<lambda>r. ret (Inl r)))) ?R w"
    unfolding wp_catch wp_bnd
    by (rule wp_mono [OF loadForChange_spec])
       (auto simp: reject_with_def split: sum.splits exn.splits)
  have body: "wp (catch
       (bnd (asks f) (\<lambda>priceId.
          if up then
            bnd (offerDiscountFor plan iv) (\<lambda>disc.
            bnd (sub_update i priceId ProratedImmediately disc) (\<lambda>_.
            bnd (reconcile email) (\<lambda>_. ret (Resolve OK k (Changed dir plan iv)))))
          else
            bnd (if b then bnd (offerDiscountFor plan iv) (\<lambda>disc. sub_update i priceId DoNotBill disc)
                 else ret ()) (\<lambda>_.
            bnd (setAccountPlan (au_email au) (pending_fields (Some plan) (Some iv) at)) (\<lambda>_. ret x))))
       (\<lambda>_. ret (Reject c l))) ?Q w1"
    if "au_email au \<noteq> []" "at = b_period_end (account_of (db w) (au_email au))"
       "db w1 = db w" "log w1 = log w" for w1 f up i iv email k dir b x at c l
  proof (cases up)
    case True
    have "yields {Resolve OK k (Changed dir plan iv), Reject c l} (catch
        (bnd (asks f) (\<lambda>priceId.
            bnd (offerDiscountFor plan iv) (\<lambda>disc.
            bnd (sub_update i priceId ProratedImmediately disc) (\<lambda>_.
            bnd (reconcile email) (\<lambda>_. ret (Resolve OK k (Changed dir plan iv)))))))
        (\<lambda>_. ret (Reject c l)))"
      by (intro keeps; simp)
    from yields_wp [OF this] show ?thesis unfolding if_P [OF True]
      by (rule wp_mono) (auto simp: scheduled_only_downgrades_def split: sum.splits)
  next
    case False
    have "downgrade_scheduled (au_email au) plan w1 = downgrade_scheduled (au_email au) plan w"
      using that by (simp add: downgrade_scheduled_def fun_eq_iff)
    moreover have "at = b_period_end (account_of (db w1) (au_email au))" using that by simp
    ultimately show ?thesis unfolding if_not_P [OF False] wp_catch wp_bnd [of "asks f"] wp_asks sum.case
      by (intro wp_mono [OF swap_then_schedule [OF that(1)]])
         (auto simp: scheduled_only_downgrades_def split: sum.splits outcome.splits billing_result.splits)
  qed
  show ?thesis
    unfolding applyChange_def
  proof (rule wp_seq [OF ctx], goal_cases)
    case (1 ctx w1)
    show ?case
    proof (cases ctx)
      case (Inl r)
      with 1 show ?thesis by (auto simp: scheduled_only_downgrades_def)
    next
      case (Inr c)
      with 1 have c: "au_email au \<noteq> []" "cx_period_end c = b_period_end (account_of (db w) (au_email au))"
        "db w1 = db w" "log w1 = log w" "cx_email c = au_email au" by auto
      show ?thesis
        unfolding Inr sum.case Let_def c(5)
        by (intro wp_ifI; (rule body [OF c(1-4)])?; simp add: scheduled_only_downgrades_def)
    qed
  qed simp
qed

text \<open>
  C1: A scheduled downgrade costs nothing and takes nothing away: when \<open>applyChange\<close> answers
  \<open>plan_change_scheduled\<close>, every request it sent to Paddle was a \<open>do_not_bill\<close> item change, the
  account still has its plan, its interval and its period end, and the lower plan is noted for
  exactly that period end.
\<close>

theorem downgrade_keeps_paid_period:
  "wp (applyChange plan interval au)
     (\<lambda>r w'. case r of
        Inr (Resolve st key (Scheduled dir p i at)) \<Rightarrow>
          let a = account_of (db w) (au_email au); a' = account_of (db w') (au_email au)
          in b_plan a' = b_plan a \<and> b_interval a' = b_interval a \<and> b_period_end a' = b_period_end a
             \<and> b_pending_plan a' = Some plan \<and> b_pending_at a' = b_period_end a
             \<and> (\<exists>es. log w' = log w @ es \<and> set es \<subseteq> no_charge_events)
      | _ \<Rightarrow> True) w"
  using applyChange_downgrade [of plan interval au w]
  by (simp only: scheduled_only_downgrades_def downgrade_scheduled_def)

section \<open>What a reconciliation may do to a pending change\<close>

lemma steady_billing [keeps]:
  "steady (getAccount email)" "steady (setAccountPlan email fs)" "steady (resetAccountToFree email st)"
  "steady (sub_get i)" "steady (sub_update i p m d)" "steady (customers_list email)"
  "steady (getActiveOfferForPlanInterval plan iv)" "steady (offerDiscountFor plan iv)"
  "steady (fetchSubscription email)" "steady (ensureOfferDiscount sub)"
  unfolding getAccount_def setAccountPlan_def setAccountPlan_on_def mirrorAccountToTenants_def
    resetAccountToFree_def sub_get_def sub_update_def customers_list_def
    getActiveOfferForPlanInterval_def offerDiscountFor_def fetchSubscription_def
    ensureOfferDiscount_def Let_def
  by (intro keeps)+

text \<open>The account still has its plan and the markers, or it has lost its subscription.\<close>

definition same_term :: "account \<Rightarrow> account \<Rightarrow> bool" where
  "same_term a b \<longleftrightarrow>
     b_plan b = b_plan a \<and> b_interval b = b_interval a \<and> b_pending_plan b = b_pending_plan a
     \<and> b_pending_at b = b_pending_at a"

definition freed :: "account \<Rightarrow> bool" where
  "freed b \<longleftrightarrow> b_plan b = ''free'' \<and> b_pending_plan b = None"

definition held :: "account \<Rightarrow> jstring \<Rightarrow> database \<Rightarrow> bool" where
  "held a email d \<longleftrightarrow> same_term a (account_of d email) \<or> freed (account_of d email)"

lemma plan_change_held:
  assumes "(\<forall>b. same_term b (set_fields fs b)) \<or> (\<forall>b. freed (set_fields fs b))"
  shows "preserves (held a email) (setAccountPlan email fs)"
proof (cases "email = []")
  case True
  then show ?thesis by (simp add: setAccountPlan_def preserves_raise)
next
  case False
  have ins: "same_term b (account_of (insert_account email d) email) = same_term b (account_of d email)"
    "freed (account_of (insert_account email d) email) = freed (account_of d email)" for b d
    by (simp_all add: same_term_def freed_def account_of_insert_fields)
  have keep: "same_term b (set_fields fs b) \<Longrightarrow> freed b \<Longrightarrow> freed (set_fields fs b)"
    "same_term b (set_fields fs b) \<Longrightarrow> same_term c b \<Longrightarrow> same_term c (set_fields fs b)" for b c
    by (simp_all add: same_term_def freed_def)
  have "held a email (plan_db email fs d)" if "held a email d" for d
    using that assms keep ins unfolding held_def account_of_plan_db by metis
  then show ?thesis
    by (intro preservesI wp_mono [OF setAccountPlan_spec [OF False]]) auto
qed

lemma id_fields_held [keeps]:
  "preserves (held a email) (setAccountPlan email [PaddleCustomer c])"
  "preserves (held a email) (setAccountPlan email [PaddleSubscription i])"
  "preserves (held a email) (setAccountPlan email (hold_fields acct sub))"
  "preserves (held a email) (resetAccountToFree email st)"
  unfolding resetAccountToFree_def
  by (intro plan_change_held; simp add: same_term_def freed_def hold_fields_def free_fields_def)+

lemma fetchSubscription_held [keeps]: "preserves (held a email) (fetchSubscription email)"
  unfolding fetchSubscription_def by (intro keeps)

lemma reconcile_apply_held:
  assumes "pending_active (js_now w) acct" and "held a email (db w)"
  shows "wp (reconcile_apply email acct sub) (\<lambda>_ w'. held a email (db w')) w"
proof -
  have reset: "wp (resetAccountToFree email st) (\<lambda>_ w'. held a email (db w')) w" for st
    by (rule preserves_wp [OF id_fields_held(4) assms(2)])
  have hold: "wp (setAccountPlan email (hold_fields acct s)) (\<lambda>_ w'. held a email (db w')) w" for s
    by (rule preserves_wp [OF id_fields_held(3) assms(2)])
  show ?thesis
    using assms(1) reset hold assms(2) by (simp add: reconcile_apply_def split: option.splits)
qed

lemma reconcile_held:
  assumes "pending_active (js_now w) (account_of (db w) email)"
  shows "wp (reconcile email) (\<lambda>_ w'. held (account_of (db w) email) email (db w')) w"
proof -
  let ?a = "account_of (db w) email"
  have same: "held ?a email (db w)" by (simp add: held_def same_term_def)
  let ?w = "w\<lparr>qn := Suc (qn w)\<rparr>"
  have reset: "wp (resetAccountToFree email st) (\<lambda>_ w'. held ?a email (db w')) ?w" for st
    by (rule preserves_wp [OF id_fields_held(4)]) (simp add: same)
  have fetch: "wp (bnd (fetchSubscription email) (\<lambda>sub. reconcile_apply email ?a sub))
                 (\<lambda>_ w'. held ?a email (db w')) ?w"
  proof (rule wp_seq [OF wp_conj])
    show "wp (fetchSubscription email) (\<lambda>r w'. held ?a email (db w')) ?w"
      by (rule preserves_wp [OF fetchSubscription_held]) (simp add: same)
    show "wp (fetchSubscription email) (\<lambda>r w'. js_now w' = js_now ?w \<and> svc w' = svc ?w) ?w"
      by (intro steady_wp keeps)
  qed (use assms in \<open>auto intro: reconcile_apply_held\<close>)
  show ?thesis
  proof (cases "email = [] \<or> \<not> isPaddleConfigured (svc w)")
    case True
    then show ?thesis using same by (auto simp: reconcile_def)
  next
    case False
    let ?rest = "\<lambda>acct. if b_status acct = Some ''comped'' then
        (case b_period_end acct of
           None \<Rightarrow> ret ()
         | Some e \<Rightarrow> if e < js_now w then resetAccountToFree email None else ret ())
      else bnd (fetchSubscription email) (\<lambda>sub. reconcile_apply email acct sub)"
    have rest: "wp (?rest ?a) (\<lambda>_ w'. held ?a email (db w')) ?w"
      using same reset fetch by (simp del: wp_bnd split: option.splits)
    have "wp (bnd (getAccount email) ?rest) (\<lambda>_ w'. held ?a email (db w')) w"
      using False same rest
      by (simp add: getAccount_def wp_bnd [of "select f" for f] del: wp_bnd split: option.splits if_splits)
    with False show ?thesis
      by (simp add: reconcile_def wp_bnd [of "asks f" for f] del: wp_bnd)
  qed
qed


end
