(* ===== verification/Content.thy ===== *)
theory Content
  imports Plan_Guard
begin

text \<open>
  The content tables of a workspace and what every handler that writes them shares: the
  inserts with their foreign keys, the attachments (\<open>src/main/attachments/attachments.js\<close>), the
  team notification (\<open>src/common/notifications.js\<close>), the roadmap synchronisation
  (\<open>src/common/roadmapSync.js\<close>), and the isolation predicate that the handlers keep.
\<close>

section \<open>Columns and keys\<close>

text \<open>A TEXT column holds at most 65535 bytes of UTF-8; a surrogate is half of four bytes.\<close>

definition utf8_bytes :: "nat \<Rightarrow> nat" where
  "utf8_bytes u = (if u < 128 then 1 else if u < 2048 then 2
                   else if 55296 \<le> u \<and> u \<le> 57343 then 2 else 3)"

definition text_fits :: "jstring \<Rightarrow> bool" where
  "text_fits s \<longleftrightarrow> sum_list (map utf8_bytes s) \<le> 65535"

definition has_tenant :: "database \<Rightarrow> nat \<Rightarrow> bool" where
  "has_tenant d i \<longleftrightarrow> list_ex (\<lambda>t. t_id t = i) (tenants d)"

definition has_user :: "database \<Rightarrow> nat \<Rightarrow> bool" where
  "has_user d i \<longleftrightarrow> list_ex (\<lambda>u. u_id u = i) (users d)"

definition has_post :: "database \<Rightarrow> nat \<Rightarrow> bool" where
  "has_post d i \<longleftrightarrow> list_ex (\<lambda>p. p_id p = i) (posts d)"

definition has_comment :: "database \<Rightarrow> nat \<Rightarrow> bool" where
  "has_comment d i \<longleftrightarrow> list_ex (\<lambda>c. c_id c = i) (comments d)"

text \<open>A nullable foreign key.\<close>

definition fk_opt :: "(nat \<Rightarrow> bool) \<Rightarrow> nat option \<Rightarrow> bool" where
  "fk_opt has x \<longleftrightarrow> (case x of None \<Rightarrow> True | Some i \<Rightarrow> has i)"

definition insert_post :: "post \<Rightarrow> database \<Rightarrow> exn + (nat \<times> database)" where
  "insert_post p d =
     (if has_tenant d (p_tenant p) \<and> fk_opt (has_user d) (p_author p)
         \<and> length (p_title p) \<le> 200 \<and> text_fits (p_description p)
         \<and> 0 \<le> p_priority p \<and> p_priority p \<le> 255 \<and> 0 \<le> p_score p \<and> p_score p \<le> 255
      then let i = next_id ''posts'' d
           in Inr (i, (bump_id ''posts'' d)\<lparr>posts := posts d @ [p\<lparr>p_id := i, p_created := clock d\<rparr>]\<rparr>)
      else Inl DbError)"

definition insert_comment :: "board_comment \<Rightarrow> database \<Rightarrow> exn + (nat \<times> database)" where
  "insert_comment c d =
     (if has_tenant d (c_tenant c) \<and> has_post d (c_post c) \<and> fk_opt (has_user d) (c_author c)
         \<and> fk_opt (has_comment d) (c_parent c) \<and> text_fits (c_body c)
         \<and> 0 \<le> c_score c \<and> c_score c \<le> 255
      then let i = next_id ''comments'' d
           in Inr (i, (bump_id ''comments'' d)\<lparr>comments := comments d @ [c\<lparr>c_id := i, c_created := clock d\<rparr>]\<rparr>)
      else Inl DbError)"

section \<open>Attachments\<close>

definition insert_attachment :: "attachment \<Rightarrow> database \<Rightarrow> exn + (nat \<times> database)" where
  "insert_attachment a d =
     (if has_tenant d (a_tenant a)
      then let i = next_id ''post_attachments'' d
           in Inr (i, (bump_id ''post_attachments'' d)\<lparr>attachments := attachments d @ [a\<lparr>a_id := i\<rparr>]\<rparr>)
      else Inl DbError)"

definition MAX_ATTACHMENTS_PER_POST :: nat where "MAX_ATTACHMENTS_PER_POST = 3"

definition kindForMime :: "string \<Rightarrow> attachment_kind option" where
  "kindForMime mime =
     (if mime \<in> set [''image/png'', ''image/jpeg'', ''image/jpg'', ''image/webp'', ''image/gif''] then Some ImageFile
      else if mime \<in> set [''video/mp4'', ''video/webm'', ''video/quicktime''] then Some VideoFile
      else None)"

definition IMAGE_MAX_BYTES :: int where "IMAGE_MAX_BYTES = 10 * 1024 * 1024"
definition VIDEO_MAX_BYTES :: int where "VIDEO_MAX_BYTES = 50 * 1024 * 1024"

definition EXT_FOR_MIME :: "string \<Rightarrow> string" where
  "EXT_FOR_MIME mime =
     (if mime = ''image/png'' then ''.png'' else if mime \<in> set [''image/jpeg'', ''image/jpg''] then ''.jpg''
      else if mime = ''image/webp'' then ''.webp'' else if mime = ''image/gif'' then ''.gif''
      else if mime = ''video/mp4'' then ''.mp4'' else if mime = ''video/webm'' then ''.webm''
      else if mime = ''video/quicktime'' then ''.mov'' else [])"

record upload =
  up_mime :: string
  up_size :: int
  up_name :: "jstring option"

text \<open>
  \<open>storeAttachment\<close>; the file system is not modelled, so writing the file always succeeds.
  The result is the id, the kind and the public path of the stored row.
\<close>

definition storeAttachment :: "upload option \<Rightarrow> nat \<Rightarrow> (nat \<times> attachment_kind \<times> jstring) outcome io" where
  "storeAttachment file tenantId =
     (case file of
        None \<Rightarrow> ret (Reject BAD_REQUEST ''attachment_required'')
      | Some f \<Rightarrow>
          (case kindForMime (up_mime f) of
             None \<Rightarrow> ret (Reject BAD_REQUEST ''invalid_attachment_type'')
           | Some kind \<Rightarrow>
               if up_size f > (if kind = ImageFile then IMAGE_MAX_BYTES else VIDEO_MAX_BYTES)
               then ret (Reject BAD_REQUEST (if kind = ImageFile then ''attachment_image_too_large''
                                             else ''attachment_video_too_large''))
               else bnd (asks js_now) (\<lambda>now.
                    bnd draw_hex (\<lambda>hex.
                      let path = js ''uploads/attachments/att-'' @ js_of_nat (nat now) @ 45 # hex @ js (EXT_FOR_MIME (up_mime f))
                      in catch
                           (bnd (sql (insert_attachment
                                 \<lparr>a_id = 0, a_tenant = tenantId, a_post = None, a_kind = kind, a_path = path,
                                  a_mime = up_mime f, a_size = up_size f,
                                  a_name = or_null (take 255 (or_empty (up_name f)))\<rparr>)) (\<lambda>i.
                              ret (Resolve CREATED ''attachment_uploaded'' (i, kind, path))))
                           (\<lambda>_. ret (Reject INTERNAL_SERVER_ERROR ''failed_to_upload_attachment''))))))"

text \<open>\<open>ids\<close> are the entries of the request that are integers.\<close>

definition claim_attachments :: "nat list \<Rightarrow> nat \<Rightarrow> nat \<Rightarrow> database \<Rightarrow> database" where
  "claim_attachments ids postId tenantId d =
     d\<lparr>attachments := update_where (\<lambda>a. a_tenant a = tenantId \<and> a_post a = None \<and> a_id a \<in> set ids)
                        (\<lambda>a. a\<lparr>a_post := Some postId\<rparr>) (attachments d)\<rparr>"

definition attachToPost :: "int list \<Rightarrow> nat \<Rightarrow> nat \<Rightarrow> nat io" where
  "attachToPost attachmentIds postId tenantId =
     (let ids = map nat (take MAX_ATTACHMENTS_PER_POST (filter (\<lambda>n. n > 0) attachmentIds))
      in if ids = [] then ret 0
         else catch (execute (\<lambda>d.
                (length (filter (\<lambda>a. a_tenant a = tenantId \<and> a_post a = None \<and> a_id a \<in> set ids) (attachments d)),
                 claim_attachments ids postId tenantId d)))
              (\<lambda>_. ret 0))"

definition attachments_of :: "nat \<Rightarrow> nat \<Rightarrow> database \<Rightarrow> attachment list" where
  "attachments_of postId tenantId d =
     filter (\<lambda>a. a_post a = Some postId \<and> a_tenant a = tenantId) (attachments d)"

definition getAttachmentsForPost :: "nat \<Rightarrow> nat \<Rightarrow> attachment list io" where
  "getAttachmentsForPost postId tenantId = select (attachments_of postId tenantId)"

section \<open>Team notifications\<close>

definition team_recipients :: "nat \<Rightarrow> nat option \<Rightarrow> database \<Rightarrow> nat list" where
  "team_recipients tenantId exclude d =
     map u_id (filter (\<lambda>u. u_tenant u = Some tenantId \<and> u_active u \<and> Some (u_id u) \<noteq> exclude) (users d))"

definition getTeamRecipients :: "nat \<Rightarrow> nat option \<Rightarrow> nat list io" where
  "getTeamRecipients tenantId exclude = select (team_recipients tenantId exclude)"

fun number_from :: "nat \<Rightarrow> 'a list \<Rightarrow> (nat \<times> 'a) list" where
  "number_from i [] = []"
| "number_from i (x # xs) = (i, x) # number_from (Suc i) xs"

text \<open>One INSERT of several rows.\<close>

definition insert_notifications :: "nat \<Rightarrow> string \<Rightarrow> jstring \<Rightarrow> jstring option \<Rightarrow> nat option \<Rightarrow> nat list \<Rightarrow> database \<Rightarrow> database" where
  "insert_notifications tenantId type title message ref recipients d =
     d\<lparr>auto := (auto d)(''notifications'' := auto d ''notifications'' + length recipients),
       notifications := notifications d @
         map (\<lambda>(i, u). \<lparr>n_id = i, n_tenant = tenantId, n_user = u, n_type = type, n_title = title,
                        n_message = message, n_ref = ref, n_read = False, n_read_at = None,
                        n_created = clock d\<rparr>)
           (number_from (auto d ''notifications'') recipients)\<rparr>"

text \<open>
  \<open>notifyTeam\<close>, a fire-and-forget call: it runs to its end where it is started and its
  failure is swallowed.
\<close>

definition notifyTeam :: "nat \<Rightarrow> string \<Rightarrow> jstring \<Rightarrow> jstring option \<Rightarrow> nat option \<Rightarrow> nat option \<Rightarrow> unit io" where
  "notifyTeam tenantId type title message ref exclude =
     catch (bnd (getTeamRecipients tenantId exclude) (\<lambda>recipients.
              if recipients = [] then ret ()
              else execute (\<lambda>d. ((), insert_notifications tenantId type (take 160 title)
                     (map_option (take 2000) message) ref recipients d))))
           (\<lambda>_. ret ())"

text \<open>\<open>truncate\<close> of the portal handlers: trimmed, cut at \<open>n\<close> and marked with an ellipsis.\<close>

definition truncate_text :: "nat \<Rightarrow> jstring \<Rightarrow> jstring" where
  "truncate_text n s = (let t = js_trim s in if length t > n then take n t @ [8230] else t)"

section \<open>Roadmap synchronisation\<close>

definition statusFromColumnKey :: "string \<Rightarrow> post_status option" where
  "statusFromColumnKey key = parse_status key"

definition set_post_status :: "nat \<Rightarrow> nat \<Rightarrow> post_status \<Rightarrow> database \<Rightarrow> database" where
  "set_post_status tenantId postId st d =
     d\<lparr>posts := update_where (\<lambda>p. p_id p = postId \<and> p_tenant p = tenantId) (\<lambda>p. p\<lparr>p_status := st\<rparr>) (posts d)\<rparr>"

definition syncPostStatusToColumn :: "nat \<Rightarrow> nat \<Rightarrow> nat \<Rightarrow> unit io" where
  "syncPostStatusToColumn tenantId postId columnId =
     catch (if columnId = 0 \<or> postId = 0 then ret ()
            else bnd (select (\<lambda>d. find (\<lambda>c. rc_id c = columnId \<and> rc_tenant c = tenantId) (roadmap_columns d))) (\<lambda>row.
              case row of
                None \<Rightarrow> ret ()
              | Some c \<Rightarrow>
                  (case statusFromColumnKey (rc_key c) of
                     None \<Rightarrow> ret ()
                   | Some st \<Rightarrow> execute (\<lambda>d. ((), set_post_status tenantId postId st d)))))
           (\<lambda>_. ret ())"

definition resetPostStatusToOpen :: "nat \<Rightarrow> nat \<Rightarrow> unit io" where
  "resetPostStatusToOpen tenantId postId =
     catch (if postId = 0 then ret ()
            else execute (\<lambda>d. ((), set_post_status tenantId postId StOpen d)))
           (\<lambda>_. ret ())"

definition move_item :: "nat \<Rightarrow> nat \<Rightarrow> nat \<Rightarrow> database \<Rightarrow> database" where
  "move_item tenantId postId columnId d =
     d\<lparr>roadmap_items := update_where (\<lambda>x. ri_post x = postId \<and> ri_tenant x = tenantId)
                          (\<lambda>x. x\<lparr>ri_column := columnId\<rparr>) (roadmap_items d)\<rparr>"

text \<open>\<open>status\<close> is always a member of the ENUM here; \<open>column_key\<close> is compared by the database.\<close>

definition syncRoadmapItemToStatus :: "nat \<Rightarrow> nat \<Rightarrow> post_status \<Rightarrow> unit io" where
  "syncRoadmapItemToStatus tenantId postId st =
     catch (bnd (select (\<lambda>d. find (\<lambda>c. enum_is (rc_key c) (status_text st) \<and> rc_tenant c = tenantId) (roadmap_columns d))) (\<lambda>row.
              case row of
                None \<Rightarrow> ret ()
              | Some c \<Rightarrow> execute (\<lambda>d. ((), move_item tenantId postId (rc_id c) d))))
           (\<lambda>_. ret ())"

end
