(* ===== verification/Promo.thy ===== *)
theory Promo
  imports Paddle_Billing Content
begin

text \<open>
  \<open>src/main/billing/redeemPromo.js\<close>: an owner redeems a promo code.  A redemption is claimed in
  a transaction of its own before anything is granted; a code for a free plan then comps the
  account, a percentage code hands out the provider's discount.
\<close>

section \<open>Codes and redemptions\<close>

definition promo_named :: "jstring \<Rightarrow> database \<Rightarrow> promo_code option" where
  "promo_named code d = find (\<lambda>p. sql_eq (pc_code p) code \<and> pc_active p) (promo_codes d)"

definition redeemed_by :: "nat \<Rightarrow> jstring \<Rightarrow> promo_redemption \<Rightarrow> bool" where
  "redeemed_by i email r \<longleftrightarrow>
     rd_code r = i \<and> (case rd_email r of None \<Rightarrow> False | Some e \<Rightarrow> sql_eq e email)"

text \<open>The WHERE of the conditional UPDATE that takes a slot.\<close>

definition slot_free :: "int \<Rightarrow> nat \<Rightarrow> promo_code \<Rightarrow> bool" where
  "slot_free now i p \<longleftrightarrow>
     pc_id p = i \<and> pc_active p
     \<and> (case pc_expires p of None \<Rightarrow> True | Some e \<Rightarrow> e > now)
     \<and> (case pc_max p of None \<Rightarrow> True | Some m \<Rightarrow> pc_redeemed p < m)"

definition take_slot :: "nat \<Rightarrow> database \<Rightarrow> nat \<times> database" where
  "take_slot i d =
     (length (filter (slot_free (clock d) i) (promo_codes d)),
      d\<lparr>promo_codes := update_where (slot_free (clock d) i)
          (\<lambda>p. p\<lparr>pc_redeemed := pc_redeemed p + 1\<rparr>) (promo_codes d)\<rparr>)"

text \<open>\<open>uq_promo_account\<close> and the two foreign keys.\<close>

definition insert_redemption ::
  "nat \<Rightarrow> auth \<Rightarrow> string option \<Rightarrow> int option \<Rightarrow> database \<Rightarrow> exn + (unit \<times> database)" where
  "insert_redemption i au granted expires d =
     (case au_tenant au of
        None \<Rightarrow> Inl DbError
      | Some t \<Rightarrow>
          if \<not> has_tenant d t \<or> \<not> list_ex (\<lambda>p. pc_id p = i) (promo_codes d) then Inl DbError
          else if list_ex (redeemed_by i (au_email au)) (promo_redemptions d)
          then Inl (DupEntry ''promo_redemptions.uq_promo_account'')
          else Inr ((), (bump_id ''promo_redemptions'' d)\<lparr>promo_redemptions := promo_redemptions d @
                 [\<lparr>rd_id = next_id ''promo_redemptions'' d, rd_code = i, rd_tenant = t,
                   rd_user = Some (au_id au), rd_email = Some (au_email au), rd_plan = granted,
                   rd_expires = expires\<rparr>]\<rparr>))"

text \<open>\<open>None\<close> is \<open>{ok: true}\<close>, \<open>Some reason\<close> is \<open>{ok: false, reason}\<close>.\<close>

definition claimRedemption :: "nat \<Rightarrow> auth \<Rightarrow> string option \<Rightarrow> int option \<Rightarrow> string option io" where
  "claimRedemption i au granted expires =
     catch
       (bnd (transaction
          (bnd (execute (take_slot i)) (\<lambda>n.
             if n = 0 then ret (Rollback ''promo_code_exhausted'')
             else bnd (sql (insert_redemption i au granted expires)) (\<lambda>_. ret (Commit ()))))) (\<lambda>end_of_tx.
          ret (case end_of_tx of Inl reason \<Rightarrow> Some reason | Inr _ \<Rightarrow> None)))
       (\<lambda>e. case e of DupEntry _ \<Rightarrow> ret (Some ''promo_already_redeemed'') | _ \<Rightarrow> raise e)"

definition drop_redemption :: "nat \<Rightarrow> jstring \<Rightarrow> database \<Rightarrow> database" where
  "drop_redemption i email d =
     d\<lparr>promo_redemptions := filter (\<lambda>r. \<not> redeemed_by i email r) (promo_redemptions d)\<rparr>"

definition return_slot :: "nat \<Rightarrow> database \<Rightarrow> database" where
  "return_slot i d =
     d\<lparr>promo_codes := update_where (\<lambda>p. pc_id p = i)
         (\<lambda>p. p\<lparr>pc_redeemed := max (pc_redeemed p - 1) 0\<rparr>) (promo_codes d)\<rparr>"

definition releaseRedemption :: "nat \<Rightarrow> jstring \<Rightarrow> unit io" where
  "releaseRedemption i email =
     catch
       (bnd (execute (\<lambda>d. ((), drop_redemption i email d))) (\<lambda>_.
        execute (\<lambda>d. ((), return_slot i d))))
       (\<lambda>_. ret ())"

section \<open>Redeeming\<close>

datatype redemption =
    FreePlanGranted string
  | PercentOffGranted "int option" "string option" "string option"  \<comment> \<open>percentage, plan, discount id\<close>

definition comp_fields :: "string \<Rightarrow> int option \<Rightarrow> billing_field list" where
  "comp_fields plan periodEnd =
     [PlanName plan, SubscriptionStatus (Some ''comped''), BillingInterval None, StripeSubscription None,
      PaddleSubscription None, PeriodEnd periodEnd, PendingPlan None, PendingInterval None,
      PendingEffectiveAt None]"

text \<open>\<open>plan_name\<close> is NOT NULL; a grant without a plan fails on the write.\<close>

definition comp_account :: "jstring \<Rightarrow> string option \<Rightarrow> int option \<Rightarrow> unit io" where
  "comp_account email granted periodEnd =
     bnd (cancelActiveSubscription email) (\<lambda>_.
       case granted of None \<Rightarrow> raise DbError | Some plan \<Rightarrow> setAccountPlan email (comp_fields plan periodEnd))"

definition comp_end :: "promo_code \<Rightarrow> int \<Rightarrow> int option" where
  "comp_end p now =
     (if pc_duration p = Forever then None
      else Some (now + (case pc_months p of None \<Rightarrow> 1 | Some m \<Rightarrow> if m = 0 then 1 else m) * days 30))"

definition grant_free_plan :: "promo_code \<Rightarrow> auth \<Rightarrow> redemption outcome io" where
  "grant_free_plan p au =
     bnd (asks (\<lambda>w. comp_end p (js_now w))) (\<lambda>periodEnd.
     bnd (claimRedemption (pc_id p) au (pc_grant p) periodEnd) (\<lambda>claim.
       case claim of
         Some reason \<Rightarrow> ret (Reject BAD_REQUEST reason)
       | None \<Rightarrow>
           bnd (catch (comp_account (au_email au) (pc_grant p) periodEnd)
                  (\<lambda>e. bnd (releaseRedemption (pc_id p) (au_email au)) (\<lambda>_. raise e))) (\<lambda>_.
             ret (Resolve OK ''promo_code_redeemed'' (FreePlanGranted (case pc_grant p of None \<Rightarrow> [] | Some s \<Rightarrow> s))))))"

definition grant_percent :: "promo_code \<Rightarrow> auth \<Rightarrow> redemption outcome io" where
  "grant_percent p au =
     bnd (claimRedemption (pc_id p) au None None) (\<lambda>claim.
       case claim of
         Some reason \<Rightarrow> ret (Reject BAD_REQUEST reason)
       | None \<Rightarrow>
           bnd (asks (\<lambda>w. isPaddleActive (svc w))) (\<lambda>paddleActive.
             ret (Resolve OK ''promo_code_valid''
               (PercentOffGranted (pc_percent p) (pc_applies_to p)
                 (if paddleActive then pc_paddle_discount p else pc_stripe_promo p)))))"

definition promo_exhausted :: "promo_code \<Rightarrow> bool" where
  "promo_exhausted p \<longleftrightarrow> (case pc_max p of None \<Rightarrow> False | Some m \<Rightarrow> m \<noteq> 0 \<and> pc_redeemed p \<ge> m)"

definition redeemPromo :: "jstring option \<Rightarrow> auth \<Rightarrow> redemption outcome io" where
  "redeemPromo code au =
     (let normalized = js_upper (js_trim (or_empty code))
      in if au_role au \<noteq> Owner then ret (Reject FORBIDDEN ''billing_forbidden'')
         else if normalized = [] then ret (Reject BAD_REQUEST ''promo_code_invalid'')
         else catch
           (bnd (select (promo_named normalized)) (\<lambda>found.
              case found of
                None \<Rightarrow> ret (Reject BAD_REQUEST ''promo_code_invalid'')
              | Some p \<Rightarrow>
                  bnd (asks (\<lambda>w. case pc_expires p of None \<Rightarrow> False | Some e \<Rightarrow> e < js_now w)) (\<lambda>expired.
                  if expired then ret (Reject BAD_REQUEST ''promo_code_expired'')
                  else if promo_exhausted p then ret (Reject BAD_REQUEST ''promo_code_exhausted'')
                  else bnd (select (\<lambda>d. list_ex (redeemed_by (pc_id p) (au_email au)) (promo_redemptions d))) (\<lambda>already.
                    if already then ret (Reject BAD_REQUEST ''promo_already_redeemed'')
                    else if pc_type p = FreePlan then grant_free_plan p au else grant_percent p au))))
           (\<lambda>_. ret (Reject INTERNAL_SERVER_ERROR ''internal_server_error'')))"

end
