(* ===== verification/Stripe_Billing.thy ===== *)
theory Stripe_Billing
  imports Promo
begin

text \<open>
  The Stripe half of billing, dormant unless \<open>BILLING_PROVIDER=stripe\<close>
  (\<open>src/main/billing/changePlan.js\<close>, \<open>cancelSubscription.js\<close>, \<open>createCheckoutSession.js\<close>,
  \<open>createPortalSession.js\<close>, \<open>handleStripeWebhook.js\<close>), and what the billing tab shows
  (\<open>getBillingStatus.js\<close>).  The Stripe SDK is the parameter \<open>stripe\<close> of the services.
\<close>

section \<open>The SDK\<close>

definition stripe_sub_get :: "string \<Rightarrow> stripe_sub io" where
  "stripe_sub_get i = call [] (\<lambda>w. st_sub_get (stripe (svc w)) (log w) (js_now w) i)"

definition stripe_swap :: "string \<Rightarrow> string \<Rightarrow> string \<Rightarrow> unit io" where
  "stripe_swap i item price =
     call [EvStripeSwap i item price] (\<lambda>w. st_sub_swap (stripe (svc w)) (log w) (js_now w) i item price)"

definition stripe_cancel_at_end :: "string \<Rightarrow> bool \<Rightarrow> stripe_sub io" where
  "stripe_cancel_at_end i b =
     call [EvStripeCancelAtEnd i b] (\<lambda>w. st_cancel_at_end (stripe (svc w)) (log w) (js_now w) i b)"

text \<open>\<open>subscriptionSchedules.release(\<dots>).catch(() => {})\<close>.\<close>

definition stripe_release :: "string \<Rightarrow> unit io" where
  "stripe_release i =
     catch (call [EvStripeRelease i] (\<lambda>w. st_sched_release (stripe (svc w)) (log w) (js_now w) i)) (\<lambda>_. ret ())"

definition scheduleIdOf :: "stripe_sub \<Rightarrow> string option" where
  "scheduleIdOf sub = text_or_null (ss_schedule sub)"

text \<open>\<open>current_period_end\<close> is in seconds; 0 and null are no date.\<close>

definition period_end_ms :: "stripe_sub \<Rightarrow> int option" where
  "period_end_ms sub =
     (case ss_period_end sub of None \<Rightarrow> None | Some s \<Rightarrow> if s = 0 then None else Some (s * 1000))"

section \<open>Changing the plan\<close>

record stripe_ctx =
  sx_email :: jstring
  sx_customer :: "string option"
  sx_sub :: stripe_sub
  sx_item :: string
  sx_new_price :: string
  sx_plan :: string
  sx_interval :: interval
  sx_direction :: direction

definition stripe_change_of ::
  "jstring \<Rightarrow> account \<Rightarrow> string \<Rightarrow> interval \<Rightarrow> string \<Rightarrow> stripe_sub \<Rightarrow> stripe_ctx io" where
  "stripe_change_of email acct plan iv newPrice sub =
     (case ss_item sub of
        None \<Rightarrow> raise (Thrown BAD_REQUEST ''no_active_subscription'')
      | Some item \<Rightarrow>
          let dir = directionOf (plan_or_free (Some (b_plan acct)))
                      (case b_interval acct of None \<Rightarrow> Month | Some x \<Rightarrow> x) plan iv
          in if dir = SamePlan then raise (Thrown BAD_REQUEST ''already_on_plan'')
             else ret \<lparr>sx_email = email, sx_customer = b_stripe_customer acct, sx_sub = sub, sx_item = item,
                       sx_new_price = newPrice, sx_plan = plan, sx_interval = iv, sx_direction = dir\<rparr>)"

definition stripe_loadForChange :: "string \<Rightarrow> string option \<Rightarrow> auth \<Rightarrow> stripe_ctx io" where
  "stripe_loadForChange plan interval au =
     (let iv = interval_of_string interval
      in bnd (asks svc) (\<lambda>sv.
         if au_role au \<noteq> Owner then raise (Thrown FORBIDDEN ''billing_forbidden'')
         else if \<not> isStripeConfigured sv then raise (Thrown INTERNAL_SERVER_ERROR ''stripe_not_configured'')
         else case text_or_null (priceIdFor (env sv) plan iv) of
           None \<Rightarrow> raise (Thrown BAD_REQUEST ''invalid_plan'')
         | Some newPrice \<Rightarrow>
             if plan = ''free'' then raise (Thrown BAD_REQUEST ''invalid_plan'')
             else bnd (getAccount (au_email au)) (\<lambda>acct.
               case text_or_null (b_stripe_sub acct) of
                 None \<Rightarrow> raise (Thrown BAD_REQUEST ''no_active_subscription'')
               | Some i \<Rightarrow>
                   if b_status acct = Some ''comped'' then raise (Thrown BAD_REQUEST ''no_active_subscription'')
                   else bnd (stripe_sub_get i) (stripe_change_of (au_email au) acct plan iv newPrice))))"

definition previewPlanChange :: "string \<Rightarrow> string option \<Rightarrow> auth \<Rightarrow> billing_result outcome io" where
  "previewPlanChange plan interval au =
     catch
       (bnd (stripe_loadForChange plan interval au) (\<lambda>c.
          if sx_direction c = Downgrade
          then ret (Resolve OK ''plan_change_previewed''
                 (Previewed Downgrade 0 (period_end_ms (sx_sub c)) False))
          else bnd (call [] (\<lambda>w. st_preview (stripe (svc w)) (log w) (js_now w)
                        (sx_customer c) (ss_id (sx_sub c)) (sx_item c) (sx_new_price c))) (\<lambda>(amount, currency).
            ret (Resolve OK ''plan_change_previewed'' (Previewed Upgrade (max 0 amount) None True)))))
       (reject_with ''plan_change_failed'')"

definition stripe_upgrade :: "stripe_ctx \<Rightarrow> billing_result outcome io" where
  "stripe_upgrade c =
     bnd (case scheduleIdOf (sx_sub c) of None \<Rightarrow> ret () | Some s \<Rightarrow> stripe_release s) (\<lambda>_.
     bnd (stripe_swap (ss_id (sx_sub c)) (sx_item c) (sx_new_price c)) (\<lambda>_.
     bnd (reconcileAccount (sx_email c)) (\<lambda>_.
     bnd (clear_pending (sx_email c)) (\<lambda>_.
       ret (Resolve OK ''plan_changed'' (Changed Upgrade (sx_plan c) (sx_interval c)))))))"

text \<open>The schedule keeps the current price until the period ends; its last phase must exist.\<close>

definition stripe_schedule :: "stripe_ctx \<Rightarrow> unit io" where
  "stripe_schedule c =
     bnd (case scheduleIdOf (sx_sub c) of
            Some s \<Rightarrow> ret s
          | None \<Rightarrow> call [EvStripeSchedule (ss_id (sx_sub c))]
                     (\<lambda>w. st_sched_create (stripe (svc w)) (log w) (js_now w) (ss_id (sx_sub c)))) (\<lambda>s.
     bnd (call [] (\<lambda>w. st_sched_get (stripe (svc w)) (log w) (js_now w) s)) (\<lambda>phases.
       if phases = [] then raise (JsError ''Cannot read properties of undefined'')
       else call [EvStripePhases s (ss_price (sx_sub c)) (last phases) (ss_period_end (sx_sub c)) (sx_new_price c)]
              (\<lambda>w. st_sched_update (stripe (svc w)) (log w) (js_now w) s (ss_price (sx_sub c)) (last phases)
                     (ss_period_end (sx_sub c)) (sx_new_price c))))"

definition stripe_downgrade :: "stripe_ctx \<Rightarrow> billing_result outcome io" where
  "stripe_downgrade c =
     bnd (stripe_schedule c) (\<lambda>_.
     bnd (setAccountPlan (sx_email c)
            (pending_fields (Some (sx_plan c)) (Some (sx_interval c)) (period_end_ms (sx_sub c)))) (\<lambda>_.
       ret (Resolve OK ''plan_change_scheduled''
              (Scheduled Downgrade (sx_plan c) (sx_interval c) (period_end_ms (sx_sub c))))))"

definition applyPlanChange :: "string \<Rightarrow> string option \<Rightarrow> auth \<Rightarrow> billing_result outcome io" where
  "applyPlanChange plan interval au =
     bnd (catch (bnd (stripe_loadForChange plan interval au) (\<lambda>c. ret (Inr c)))
                (\<lambda>e. bnd (reject_with ''plan_change_failed'' e) (\<lambda>r. ret (Inl r)))) (\<lambda>ctx.
       case ctx of
         Inl r \<Rightarrow> ret r
       | Inr c \<Rightarrow> catch (if sx_direction c = Upgrade then stripe_upgrade c else stripe_downgrade c)
                       (reject_with ''plan_change_failed''))"

definition stripe_cancelScheduledChange :: "auth \<Rightarrow> billing_result outcome io" where
  "stripe_cancelScheduledChange au =
     bnd (asks svc) (\<lambda>sv.
       if au_role au \<noteq> Owner then ret (Reject FORBIDDEN ''billing_forbidden'')
       else if \<not> isStripeConfigured sv then ret (Reject INTERNAL_SERVER_ERROR ''stripe_not_configured'')
       else catch
         (bnd (getAccount (au_email au)) (\<lambda>acct.
          bnd (case text_or_null (b_stripe_sub acct) of
                 None \<Rightarrow> ret ()
               | Some i \<Rightarrow>
                   bnd (stripe_sub_get i) (\<lambda>sub.
                     case scheduleIdOf sub of None \<Rightarrow> ret () | Some s \<Rightarrow> stripe_release s)) (\<lambda>_.
          bnd (clear_pending (au_email au)) (\<lambda>_.
            ret (Resolve OK ''plan_change_cancelled'' ChangeCancelled)))))
         (\<lambda>_. ret (Reject INTERNAL_SERVER_ERROR ''plan_change_failed'')))"

section \<open>Cancelling and resuming\<close>

definition stripe_loadSub :: "auth \<Rightarrow> string io" where
  "stripe_loadSub au =
     bnd (asks svc) (\<lambda>sv.
       if au_role au \<noteq> Owner then raise (Thrown FORBIDDEN ''billing_forbidden'')
       else if \<not> isStripeConfigured sv then raise (Thrown INTERNAL_SERVER_ERROR ''stripe_not_configured'')
       else bnd (getAccount (au_email au)) (\<lambda>acct.
         case text_or_null (b_stripe_sub acct) of
           None \<Rightarrow> raise (Thrown BAD_REQUEST ''no_active_subscription'')
         | Some i \<Rightarrow> if b_status acct = Some ''comped'' then raise (Thrown BAD_REQUEST ''no_active_subscription'')
                     else ret i))"

definition with_stripe_sub :: "auth \<Rightarrow> (string \<Rightarrow> billing_result outcome io) \<Rightarrow> billing_result outcome io" where
  "with_stripe_sub au body =
     bnd (catch (bnd (stripe_loadSub au) (\<lambda>i. ret (Inr i)))
                (\<lambda>e. bnd (reject_with ''internal_server_error'' e) (\<lambda>r. ret (Inl r)))) (\<lambda>ctx.
       case ctx of
         Inl r \<Rightarrow> ret r
       | Inr i \<Rightarrow> catch (body i) (\<lambda>_. ret (Reject INTERNAL_SERVER_ERROR ''internal_server_error'')))"

definition stripe_cancelSubscription :: "auth \<Rightarrow> billing_result outcome io" where
  "stripe_cancelSubscription au =
     with_stripe_sub au (\<lambda>i.
       bnd (stripe_sub_get i) (\<lambda>sub.
       bnd (case scheduleIdOf sub of
              None \<Rightarrow> ret ()
            | Some s \<Rightarrow> bnd (stripe_release s) (\<lambda>_. clear_pending (au_email au))) (\<lambda>_.
       bnd (stripe_cancel_at_end i True) (\<lambda>updated.
         ret (Resolve OK ''subscription_cancelled'' (CancelledAt (period_end_ms updated)))))))"

definition stripe_resumeSubscription :: "auth \<Rightarrow> billing_result outcome io" where
  "stripe_resumeSubscription au =
     with_stripe_sub au (\<lambda>i.
       bnd (stripe_cancel_at_end i False) (\<lambda>_. ret (Resolve OK ''subscription_resumed'' Resumed)))"

section \<open>Checkout and portal\<close>

definition promo_mismatch :: "string \<Rightarrow> string \<Rightarrow> database \<Rightarrow> bool" where
  "promo_mismatch code plan d =
     (case find (\<lambda>p. pc_stripe_promo p = Some code) (promo_codes d) of
        None \<Rightarrow> False
      | Some p \<Rightarrow> (case text_or_null (pc_applies_to p) of
                     None \<Rightarrow> False | Some a \<Rightarrow> a \<noteq> ''any'' \<and> a \<noteq> plan))"

definition ensureStripeCustomer :: "jstring \<Rightarrow> string io" where
  "ensureStripeCustomer email =
     bnd (ensureAccount email) (\<lambda>acct.
       case text_or_null (b_stripe_customer acct) of
         Some c \<Rightarrow> ret c
       | None \<Rightarrow>
           bnd (call [EvStripeCustomer email]
                  (\<lambda>w. st_customer_create (stripe (svc w)) (log w) (js_now w) email)) (\<lambda>c.
           bnd (execute (\<lambda>d. ((), update_account email [StripeCustomer (Some c)] d))) (\<lambda>_. ret c)))"

definition stripe_discount_for :: "string \<Rightarrow> interval \<Rightarrow> string option \<Rightarrow> stripe_discount io" where
  "stripe_discount_for plan iv promotion =
     (case promotion of
        Some code \<Rightarrow> ret (PromotionCode code)
      | None \<Rightarrow> bnd (getActiveOfferForPlanInterval plan iv) (\<lambda>off.
          ret (case off of
                 None \<Rightarrow> TypeACode
               | Some o1 \<Rightarrow> (case so_coupon o1 of None \<Rightarrow> TypeACode | Some c \<Rightarrow> Coupon c))))"

text \<open>The promo's plan restriction is checked outside the \<open>try\<close>.\<close>

definition createCheckoutSession ::
  "string \<Rightarrow> auth \<Rightarrow> string option \<Rightarrow> string option \<Rightarrow> billing_result outcome io" where
  "createCheckoutSession plan au promotion interval =
     (let iv = interval_of_string interval; email = au_email au; promo = text_or_null promotion
      in bnd (asks svc) (\<lambda>sv.
         if au_role au \<noteq> Owner then ret (Reject FORBIDDEN ''billing_forbidden'')
         else if \<not> isStripeConfigured sv then ret (Reject INTERNAL_SERVER_ERROR ''stripe_not_configured'')
         else case text_or_null (priceIdFor (env sv) plan iv) of
           None \<Rightarrow> ret (Reject BAD_REQUEST ''invalid_plan'')
         | Some priceId \<Rightarrow>
             if plan = ''free'' then ret (Reject BAD_REQUEST ''invalid_plan'')
             else bnd (case promo of None \<Rightarrow> ret False | Some code \<Rightarrow> select (promo_mismatch code plan)) (\<lambda>bad.
               if bad then ret (Reject BAD_REQUEST ''promo_plan_mismatch'')
               else if email = [] then ret (Reject BAD_REQUEST ''invalid_plan'')
               else catch
                 (bnd (ensureStripeCustomer email) (\<lambda>c.
                  bnd (stripe_discount_for plan iv promo) (\<lambda>disc.
                  bnd (call [EvStripeCheckout c priceId disc email]
                         (\<lambda>w. st_checkout (stripe (svc w)) (log w) (js_now w) c priceId disc email)) (\<lambda>url.
                    ret (Resolve OK ''checkout_session_created''
                      (CheckoutStarted (case url of None \<Rightarrow> [] | Some u \<Rightarrow> u)))))))
                 (\<lambda>_. ret (Reject INTERNAL_SERVER_ERROR ''failed_to_create_checkout'')))))"

definition stripe_createPortalSession :: "auth \<Rightarrow> billing_result outcome io" where
  "stripe_createPortalSession au =
     bnd (asks svc) (\<lambda>sv.
       if au_role au \<noteq> Owner then ret (Reject FORBIDDEN ''billing_forbidden'')
       else if \<not> isStripeConfigured sv then ret (Reject INTERNAL_SERVER_ERROR ''stripe_not_configured'')
       else catch
         (bnd (select (\<lambda>d. account_of d (au_email au))) (\<lambda>acct.
            case text_or_null (b_stripe_customer acct) of
              None \<Rightarrow> ret (Reject BAD_REQUEST ''no_active_subscription'')
            | Some c \<Rightarrow>
                bnd (call [] (\<lambda>w. st_portal (stripe (svc w)) (log w) (js_now w) c)) (\<lambda>url.
                  ret (Resolve OK ''portal_session_created'' (PortalUrl (case url of None \<Rightarrow> [] | Some u \<Rightarrow> u))))))
         (\<lambda>_. ret (Reject INTERNAL_SERVER_ERROR ''failed_to_create_portal'')))"

section \<open>The webhook\<close>

text \<open>
  A bad signature is a 400; every later failure is logged and acknowledged.  The route is
  mounted whichever provider is active.
\<close>

definition stripe_event_effect :: "stripe_event \<Rightarrow> unit io" where
  "stripe_event_effect ev =
     (case ev of
        SessionCompleted sub email \<Rightarrow>
          (case text_or_null sub of
             None \<Rightarrow> ret ()
           | Some i \<Rightarrow>
               bnd (stripe_sub_get i) (\<lambda>s.
                 applyAccountSubscription
                   (if or_empty (ss_email s) = [] \<and> or_empty email \<noteq> [] then s\<lparr>ss_email := email\<rparr> else s)))
      | SubscriptionEvent s \<Rightarrow> applyAccountSubscription s
      | OtherStripeEvent \<Rightarrow> ret ())"

text \<open>\<open>process.env.STRIPE_WEBHOOK_SECRET || ""\<close>.\<close>

definition WEBHOOK_SECRET :: "services \<Rightarrow> string" where
  "WEBHOOK_SECRET sv = (case env sv ''STRIPE_WEBHOOK_SECRET'' of None \<Rightarrow> [] | Some s \<Rightarrow> s)"

definition handleStripeWebhook :: "jstring \<Rightarrow> jstring \<Rightarrow> (int + unit) io" where
  "handleStripeWebhook body signature =
     bnd (asks svc) (\<lambda>sv.
       case st_construct (stripe sv) (WEBHOOK_SECRET sv) body signature of
         Inl _ \<Rightarrow> ret (Inl 400)
       | Inr ev \<Rightarrow> bnd (catch (stripe_event_effect ev) (\<lambda>_. ret ())) (\<lambda>_. ret (Inr ())))"

section \<open>The billing tab\<close>

record billing_status =
  bs_plan :: string
  bs_status :: "string option"
  bs_interval :: "interval option"
  bs_period_end :: "int option"
  bs_has_subscription :: bool
  bs_cancels :: bool
  bs_pending :: "string option \<times> interval option \<times> int option"
  bs_limits :: plan_limits
  bs_offers :: "shaped_offer list"

definition cancels_at_end :: "account \<Rightarrow> bool io" where
  "cancels_at_end acct =
     bnd (asks svc) (\<lambda>sv.
       if isPaddleActive sv then
         (case text_or_null (b_paddle_sub acct) of
            None \<Rightarrow> ret False
          | Some i \<Rightarrow> if \<not> isPaddleConfigured sv then ret False
              else catch (bnd (sub_get i) (\<lambda>sub. ret (map_option fst (ps_scheduled sub) = Some ''cancel'')))
                         (\<lambda>_. ret False))
       else
         (case text_or_null (b_stripe_sub acct) of
            None \<Rightarrow> ret False
          | Some i \<Rightarrow> if \<not> isStripeConfigured sv then ret False
              else catch (bnd (stripe_sub_get i) (\<lambda>sub. ret (ss_cancel_at_end sub))) (\<lambda>_. ret False)))"

definition getBillingStatus :: "auth \<Rightarrow> billing_status outcome io" where
  "getBillingStatus au =
     catch
       (bnd (catch (reconcileAccount (au_email au)) (\<lambda>_. ret ())) (\<lambda>_.
        bnd (select (\<lambda>d. account_of d (au_email au))) (\<lambda>t.
        bnd (cancels_at_end t) (\<lambda>cancels.
        bnd getActiveOffers (\<lambda>os.
        bnd (asks (\<lambda>w. isPaddleActive (svc w))) (\<lambda>paddleActive.
          let plan = plan_or_free (Some (b_plan t))
          in ret (Resolve OK ''billing_status_retrieved''
               \<lparr>bs_plan = plan, bs_status = text_or_null (b_status t), bs_interval = b_interval t,
                bs_period_end = b_period_end t,
                bs_has_subscription =
                  (text_or_null (if paddleActive then b_paddle_sub t else b_stripe_sub t) \<noteq> None),
                bs_cancels = cancels,
                bs_pending = (text_or_null (b_pending_plan t), b_pending_interval t, b_pending_at t),
                bs_limits = getPlanLimits plan, bs_offers = os\<rparr>)))))))
       (\<lambda>_. ret (Reject INTERNAL_SERVER_ERROR ''failed_to_get_billing_status''))"

section \<open>What every billing operation keeps\<close>

text \<open>
  A billing invariant is kept by the plan writes and does not look at the promo tables, nor at
  more of an account than its mirror shows.
\<close>

locale billing_invariant = plan_invariant +
  assumes codes_irrelevant: "inv (d\<lparr>promo_codes := cs\<rparr>) = inv d"
    and redemptions_irrelevant: "inv (d\<lparr>promo_redemptions := rs\<rparr>) = inv d"
    and redemption_ids_irrelevant: "inv (bump_id ''promo_redemptions'' d) = inv d"
    and same_mirror: "inv d \<Longrightarrow> (\<And>e. mirror_onto (account_of (d\<lparr>accounts := bs\<rparr>) e) = mirror_onto (account_of d e)) \<Longrightarrow>
      inv (d\<lparr>accounts := bs\<rparr>)"

lemma mirror_onto_insert: "mirror_onto (account_of (insert_account email d) e) = mirror_onto (account_of d e)"
  by (simp add: fun_eq_iff account_of_insert)

lemma find_update_same:
  "(\<And>x. Q (f x) = Q x) \<Longrightarrow> find Q (update_where P f xs) = map_option (\<lambda>x. if P x then f x else x) (find Q xs)"
  by (induction xs) (auto simp: update_where_def)

lemma mirror_onto_customer:
  "mirror_onto (account_of (update_account email [StripeCustomer c] d) e) = mirror_onto (account_of d e)"
proof -
  have "find (\<lambda>b. sql_eq (b_email b) e) (accounts (update_account email [StripeCustomer c] d)) =
      map_option (\<lambda>b. if sql_eq (b_email b) email then set_fields [StripeCustomer c] b else b)
        (find (\<lambda>b. sql_eq (b_email b) e) (accounts d))"
    by (simp add: update_account_def find_update_same)
  then show ?thesis
    by (auto simp: account_of_def mirror_onto_def fun_eq_iff split: option.splits)
qed

lemma case_keeps [keeps]:
  "(\<And>k. preserves P (f k)) \<Longrightarrow> preserves P m \<Longrightarrow> preserves P (case e of DupEntry k \<Rightarrow> f k | _ \<Rightarrow> m)"
  "(\<And>a b. preserves P (g a b)) \<Longrightarrow> (\<And>s. preserves P (h s)) \<Longrightarrow> preserves P m \<Longrightarrow>
   preserves P (case ev of SessionCompleted a b \<Rightarrow> g a b | SubscriptionEvent s \<Rightarrow> h s | OtherStripeEvent \<Rightarrow> m)"
  by (simp_all split: exn.splits stripe_event.splits)

context billing_invariant begin

lemma account_rows_keep [keeps]:
  "preserves inv (execute (\<lambda>d. ((), insert_account email d)))"
  "preserves inv (execute (\<lambda>d. ((), update_account email [StripeCustomer c] d)))"
proof -
  have "inv d \<Longrightarrow> inv (insert_account email d)" for d
    using same_mirror [of d "accounts (insert_account email d)"] mirror_onto_insert [of email d]
    by (cases "list_ex (\<lambda>b. sql_eq (b_email b) email) (accounts d)") (simp_all add: insert_account_def)
  then show "preserves inv (execute (\<lambda>d. ((), insert_account email d)))"
    by (intro preserves_execute) simp
  have "inv d \<Longrightarrow> inv (update_account email [StripeCustomer c] d)" for d
    using same_mirror [of d "accounts (update_account email [StripeCustomer c] d)"] mirror_onto_customer [of email c d]
    by (simp add: update_account_def)
  then show "preserves inv (execute (\<lambda>d. ((), update_account email [StripeCustomer c] d)))"
    by (intro preserves_execute) simp
qed

lemma stripe_handlers_keep:
  "preserves inv (createCheckoutSession plan au promo iv)"
  "preserves inv (previewPlanChange plan iv au)"
  "preserves inv (applyPlanChange plan iv au)"
  "preserves inv (stripe_cancelScheduledChange au)"
  "preserves inv (stripe_cancelSubscription au)"
  "preserves inv (stripe_resumeSubscription au)"
  "preserves inv (stripe_createPortalSession au)"
  "preserves inv (handleStripeWebhook body sig)"
  "preserves inv (getBillingStatus au)"
  unfolding createCheckoutSession_def ensureStripeCustomer_def ensureAccount_def stripe_discount_for_def
    previewPlanChange_def stripe_loadForChange_def stripe_change_of_def applyPlanChange_def stripe_upgrade_def
    stripe_downgrade_def stripe_schedule_def stripe_cancelScheduledChange_def stripe_cancelSubscription_def
    stripe_resumeSubscription_def with_stripe_sub_def stripe_loadSub_def stripe_createPortalSession_def
    handleStripeWebhook_def stripe_event_effect_def applyAccountSubscription_def attribute_sub_def
    getBillingStatus_def cancels_at_end_def stripe_sub_get_def stripe_swap_def stripe_cancel_at_end_def
    stripe_release_def clear_pending_def Let_def
  by (intro keeps)+

lemma redemption_writes_keep [keeps]:
  "preserves inv (execute (take_slot i))" "preserves inv (sql (insert_redemption i au g e))"
  "preserves inv (execute (\<lambda>d. ((), drop_redemption i email d)))"
  "preserves inv (execute (\<lambda>d. ((), return_slot i d)))"
  by (auto intro!: preserves_execute preserves_sql
      simp: take_slot_def drop_redemption_def return_slot_def insert_redemption_def codes_irrelevant
        redemptions_irrelevant redemption_ids_irrelevant
      split: option.splits if_splits)

lemma redeem_keeps: "preserves inv (redeemPromo code au)"
  unfolding redeemPromo_def grant_free_plan_def grant_percent_def claimRedemption_def releaseRedemption_def
    comp_account_def Let_def
  by (intro keeps)

end

interpretation billing_runs: billing_invariant billing_ok
  by unfold_locales
     (auto simp: billing_ok_def one_owner_def billing_consistent_def owned_workspaces_def owns_def account_of_def
        mirrors_def bump_id_def)

end
