(* ===== verification/Isolation.thy ===== *)
theory Isolation
  imports Content
begin

text \<open>
  What a workspace can rely on while others use the system: its own rows stay as they are, and
  what they refer to stays its own.  \<open>foreign t V d\<close> says that the rows of workspace \<open>t\<close> are
  exactly \<open>V\<close> and that every id they mention is no other workspace's row and is already used
  up; every write of another workspace keeps it.
\<close>

section \<open>The predicate\<close>

definition option_list :: "'a option \<Rightarrow> 'a list" where
  "option_list x = (case x of None \<Rightarrow> [] | Some y \<Rightarrow> [y])"

text \<open>The posts, comments, tags and columns that the rows of a view refer to.\<close>

definition post_refs :: "database \<Rightarrow> nat list" where
  "post_refs V =
     map p_id (posts V) @ map v_post (votes V) @ map c_post (comments V) @ map pt_post (post_tags V)
     @ map ri_post (roadmap_items V) @ concat (map (option_list \<circ> a_post) (attachments V))
     @ concat (map (option_list \<circ> p_duplicate_of) (posts V))"

definition comment_refs :: "database \<Rightarrow> nat list" where
  "comment_refs V = map c_id (comments V) @ concat (map (option_list \<circ> c_parent) (comments V))"

definition tag_refs :: "database \<Rightarrow> nat list" where
  "tag_refs V = map pt_tag (post_tags V)"

definition column_refs :: "database \<Rightarrow> nat list" where
  "column_refs V = map ri_column (roadmap_items V)"

definition vote_refs :: "database \<Rightarrow> nat list" where
  "vote_refs V = map v_id (votes V)"

definition own :: "('a \<Rightarrow> nat) \<Rightarrow> ('a \<Rightarrow> nat) \<Rightarrow> nat \<Rightarrow> nat \<Rightarrow> 'a list \<Rightarrow> nat list \<Rightarrow> bool" where
  "own idf tf nxt t rows refs \<longleftrightarrow>
     list_all (\<lambda>i. i < nxt) refs \<and> list_all (\<lambda>x. idf x \<in> set refs \<longrightarrow> tf x = t) rows"

definition refs_own :: "nat \<Rightarrow> database \<Rightarrow> database \<Rightarrow> bool" where
  "refs_own t V d \<longleftrightarrow>
     own p_id p_tenant (auto d ''posts'') t (posts d) (post_refs V)
     \<and> own c_id c_tenant (auto d ''comments'') t (comments d) (comment_refs V)
     \<and> own g_id g_tenant (auto d ''tags'') t (tags d) (tag_refs V)
     \<and> own rc_id rc_tenant (auto d ''roadmap_columns'') t (roadmap_columns d) (column_refs V)
     \<and> own v_id v_tenant (auto d ''votes'') t (votes d) (vote_refs V)"

definition foreign :: "nat \<Rightarrow> database \<Rightarrow> database \<Rightarrow> bool" where
  "foreign t V d \<longleftrightarrow> tenant_view t d = V \<and> refs_own t V d"

text \<open>A workspace whose rows refer only to its own rows.\<close>

definition self_contained :: "nat \<Rightarrow> database \<Rightarrow> bool" where
  "self_contained t d \<longleftrightarrow> refs_own t (tenant_view t d) d"

lemma foreign_self: "self_contained t d \<Longrightarrow> foreign t (tenant_view t d) d"
  by (simp add: foreign_def self_contained_def)

lemma foreign_view: "foreign t V d \<Longrightarrow> tenant_view t d = V"
  by (simp add: foreign_def)

section \<open>Writes that keep it\<close>

text \<open>What a write may do to a table with ids and tenants for \<open>own\<close> to survive.\<close>

lemma own_insert:
  "own idf tf n t xs refs \<Longrightarrow> idf x = n \<Longrightarrow> own idf tf (Suc n) t (xs @ [x]) refs"
  by (fastforce simp: own_def list_all_iff)

lemma own_filter: "own idf tf n t xs refs \<Longrightarrow> own idf tf n t (filter P xs) refs"
  by (auto simp: own_def list_all_iff)

lemma own_update:
  assumes "own idf tf n t xs refs" and "\<And>x. idf (f x) = idf x" and "\<And>x. tf (f x) = tf x"
  shows "own idf tf n t (update_where P f xs) refs"
  using assms by (auto simp: own_def list_all_iff set_update_where)

lemma filter_update_set:
  assumes "\<And>x. x \<in> set xs \<Longrightarrow> P x \<Longrightarrow> \<not> Q x \<and> \<not> Q (f x)"
  shows "filter Q (update_where P f xs) = filter Q xs"
  using assms by (induction xs) auto

lemma filter_comm_filter: "(\<And>x. x \<in> set xs \<Longrightarrow> Q x \<Longrightarrow> P x) \<Longrightarrow> filter Q (filter P xs) = filter Q xs"
  by (induction xs) auto

text \<open>Tables nobody refers to: only the view matters.\<close>

lemma foreign_frame:
  assumes "foreign t V d" and "tenant_view t d' = tenant_view t d"
    and "auto d' ''posts'' = auto d ''posts''" "posts d' = posts d"
    and "auto d' ''comments'' = auto d ''comments''" "comments d' = comments d"
    and "auto d' ''tags'' = auto d ''tags''" "tags d' = tags d"
    and "auto d' ''roadmap_columns'' = auto d ''roadmap_columns''" "roadmap_columns d' = roadmap_columns d"
    and "auto d' ''votes'' = auto d ''votes''" "votes d' = votes d"
  shows "foreign t V d'"
  using assms by (simp add: foreign_def refs_own_def)

text \<open>A table nobody refers to by id may change in the rows of other workspaces.\<close>

lemma foreign_table:
  "foreign t V d \<Longrightarrow> filter (\<lambda>x. t_id x = t) xs_tenants = filter (\<lambda>x. t_id x = t) (tenants d) \<Longrightarrow>
   foreign t V (d\<lparr>tenants := xs_tenants\<rparr>)"
  "foreign t V d \<Longrightarrow> filter (\<lambda>x. u_tenant x = Some t) xs_users = filter (\<lambda>x. u_tenant x = Some t) (users d) \<Longrightarrow>
   foreign t V (d\<lparr>users := xs_users\<rparr>)"
  "foreign t V d \<Longrightarrow> filter (\<lambda>x. pt_tenant x = t) xs_post_tags = filter (\<lambda>x. pt_tenant x = t) (post_tags d) \<Longrightarrow>
   foreign t V (d\<lparr>post_tags := xs_post_tags\<rparr>)"
  "foreign t V d \<Longrightarrow> filter (\<lambda>x. ri_tenant x = t) xs_roadmap_items = filter (\<lambda>x. ri_tenant x = t) (roadmap_items d) \<Longrightarrow>
   foreign t V (d\<lparr>roadmap_items := xs_roadmap_items\<rparr>)"
  "foreign t V d \<Longrightarrow> filter (\<lambda>x. cl_tenant x = t) xs_changelog = filter (\<lambda>x. cl_tenant x = t) (changelog d) \<Longrightarrow>
   foreign t V (d\<lparr>changelog := xs_changelog\<rparr>)"
  "foreign t V d \<Longrightarrow> filter (\<lambda>x. n_tenant x = t) xs_notifications = filter (\<lambda>x. n_tenant x = t) (notifications d) \<Longrightarrow>
   foreign t V (d\<lparr>notifications := xs_notifications\<rparr>)"
  "foreign t V d \<Longrightarrow> filter (\<lambda>x. k_tenant x = t) xs_api_keys = filter (\<lambda>x. k_tenant x = t) (api_keys d) \<Longrightarrow>
   foreign t V (d\<lparr>api_keys := xs_api_keys\<rparr>)"
  "foreign t V d \<Longrightarrow> filter (\<lambda>x. ig_tenant x = t) xs_integrations = filter (\<lambda>x. ig_tenant x = t) (integrations d) \<Longrightarrow>
   foreign t V (d\<lparr>integrations := xs_integrations\<rparr>)"
  "foreign t V d \<Longrightarrow> filter (\<lambda>x. a_tenant x = t) xs_attachments = filter (\<lambda>x. a_tenant x = t) (attachments d) \<Longrightarrow>
   foreign t V (d\<lparr>attachments := xs_attachments\<rparr>)"
  "foreign t V d \<Longrightarrow> filter (\<lambda>x. f_tenant x = t) xs_file_uploads = filter (\<lambda>x. f_tenant x = t) (file_uploads d) \<Longrightarrow>
   foreign t V (d\<lparr>file_uploads := xs_file_uploads\<rparr>)"
  "foreign t V d \<Longrightarrow> filter (\<lambda>x. i_tenant x = t) xs_invitations = filter (\<lambda>x. i_tenant x = t) (invitations d) \<Longrightarrow>
   foreign t V (d\<lparr>invitations := xs_invitations\<rparr>)"
  "foreign t V d \<Longrightarrow> filter (\<lambda>x. rd_tenant x = t) xs_promo_redemptions = filter (\<lambda>x. rd_tenant x = t) (promo_redemptions d) \<Longrightarrow>
   foreign t V (d\<lparr>promo_redemptions := xs_promo_redemptions\<rparr>)"
  by (simp_all add: foreign_def refs_own_def tenant_view_def)

lemma foreign_auto:
  "tbl \<notin> set [''posts'', ''comments'', ''tags'', ''roadmap_columns'', ''votes''] \<Longrightarrow> foreign t V d \<Longrightarrow>
   foreign t V (d\<lparr>auto := (auto d)(tbl := n)\<rparr>)"
  by (auto simp: foreign_def refs_own_def tenant_view_def)

lemma foreign_bump:
  "tbl \<notin> set [''posts'', ''comments'', ''tags'', ''roadmap_columns'', ''votes''] \<Longrightarrow> foreign t V d \<Longrightarrow>
   foreign t V (bump_id tbl d)"
  by (simp add: bump_id_def foreign_auto)

lemma foreign_unseen:
  "foreign t V (d\<lparr>write_counters := a\<rparr>) = foreign t V d"
  "foreign t V (d\<lparr>accounts := b\<rparr>) = foreign t V d"
  "foreign t V (d\<lparr>sessions := c\<rparr>) = foreign t V d"
  by (simp_all add: foreign_def refs_own_def tenant_view_def)

lemma filter_snoc_other: "\<not> P x \<Longrightarrow> filter P (xs @ [x]) = filter P xs"
  by simp

lemma filter_append_other: "(\<And>y. y \<in> set ys \<Longrightarrow> \<not> P y) \<Longrightarrow> filter P (xs @ ys) = filter P xs"
  by (simp add: filter_empty_conv)

lemma foreign_add_post:
  "foreign t V d \<Longrightarrow> p_tenant p \<noteq> t \<Longrightarrow> p_id p = auto d ''posts'' \<Longrightarrow>
   foreign t V ((bump_id ''posts'' d)\<lparr>posts := posts d @ [p]\<rparr>)"
  by (simp add: foreign_def refs_own_def tenant_view_def bump_id_def own_insert)

lemma foreign_add_comment:
  "foreign t V d \<Longrightarrow> c_tenant c \<noteq> t \<Longrightarrow> c_id c = auto d ''comments'' \<Longrightarrow>
   foreign t V ((bump_id ''comments'' d)\<lparr>comments := comments d @ [c]\<rparr>)"
  by (simp add: foreign_def refs_own_def tenant_view_def bump_id_def own_insert)

lemma foreign_add_vote:
  "foreign t V d \<Longrightarrow> v_tenant v \<noteq> t \<Longrightarrow> v_id v = auto d ''votes'' \<Longrightarrow>
   foreign t V ((bump_id ''votes'' d)\<lparr>votes := votes d @ [v]\<rparr>)"
  by (simp add: foreign_def refs_own_def tenant_view_def bump_id_def own_insert)

lemma foreign_filter_votes:
  assumes "foreign t V d" and "\<And>v. v \<in> set (votes d) \<Longrightarrow> v_tenant v = t \<Longrightarrow> P v"
  shows "foreign t V (d\<lparr>votes := filter P (votes d)\<rparr>)"
proof -
  have "filter (\<lambda>v. v_tenant v = t) (filter P (votes d)) = filter (\<lambda>v. v_tenant v = t) (votes d)"
    using assms(2) by (rule filter_comm_filter)
  then show ?thesis
    using assms(1) by (simp add: foreign_def refs_own_def tenant_view_def own_filter)
qed

lemma foreign_vote_id:
  assumes "foreign t V d" and "v \<in> set (votes d)" "x \<in> set (votes d)" "v_tenant x = t" "v_id v = v_id x"
  shows "v_tenant v = t"
proof -
  have "v_id x \<in> set (vote_refs V)"
    using assms by (auto simp: foreign_def tenant_view_def vote_refs_def)
  then show ?thesis using assms by (auto simp: foreign_def refs_own_def own_def list_all_iff)
qed

lemma foreign_insert_post:
  "foreign t V d \<Longrightarrow> p_tenant p \<noteq> t \<Longrightarrow> insert_post p d = Inr (i, d') \<Longrightarrow> foreign t V d'"
  by (clarsimp simp: insert_post_def Let_def next_id_def foreign_add_post split: if_splits)

lemma foreign_insert_comment:
  "foreign t V d \<Longrightarrow> c_tenant c \<noteq> t \<Longrightarrow> insert_comment c d = Inr (i, d') \<Longrightarrow> foreign t V d'"
  by (clarsimp simp: insert_comment_def Let_def next_id_def foreign_add_comment split: if_splits)

lemma foreign_update_posts:
  assumes "foreign t V d" and "\<And>p. P p \<Longrightarrow> p_tenant p \<noteq> t"
    and "\<And>p. p_id (f p) = p_id p" "\<And>p. p_tenant (f p) = p_tenant p"
  shows "foreign t V (d\<lparr>posts := update_where P f (posts d)\<rparr>)"
proof -
  have "filter (\<lambda>p. p_tenant p = t) (update_where P f (posts d)) = filter (\<lambda>p. p_tenant p = t) (posts d)"
    using assms by (intro filter_update_where_other) auto
  then show ?thesis
    using assms by (auto simp: foreign_def refs_own_def tenant_view_def intro: own_update)
qed

lemma foreign_update_comments:
  assumes "foreign t V d" and "\<And>c. P c \<Longrightarrow> c_tenant c \<noteq> t"
    and "\<And>c. c_id (f c) = c_id c" "\<And>c. c_tenant (f c) = c_tenant c"
  shows "foreign t V (d\<lparr>comments := update_where P f (comments d)\<rparr>)"
proof -
  have "filter (\<lambda>c. c_tenant c = t) (update_where P f (comments d)) = filter (\<lambda>c. c_tenant c = t) (comments d)"
    using assms by (intro filter_update_where_other) auto
  then show ?thesis
    using assms by (auto simp: foreign_def refs_own_def tenant_view_def intro: own_update)
qed

section \<open>Deletes\<close>

text \<open>Deleting comments reaches only replies, and a reply of a row of \<open>t\<close> is a row of \<open>t\<close>.\<close>

lemma thread_closure_keeps:
  assumes "\<And>c q. c \<in> set cs \<Longrightarrow> c_id c \<in> A \<Longrightarrow> c_parent c = Some q \<Longrightarrow> q \<in> A"
    and "set ids \<inter> A = {}"
  shows "set (thread_closure n ids cs) \<inter> A = {}"
  using assms(2)
proof (induction n arbitrary: ids)
  case (Suc n)
  have "set (replies_of ids cs) \<inter> A = {}"
    using Suc.prems assms(1) by (fastforce simp: replies_of_def split: option.splits)
  then show ?case using Suc.prems by (simp add: Suc.IH Int_Un_distrib2)
qed simp

lemma foreign_delete_comments:
  assumes f: "foreign t V d" and P: "\<And>c. c \<in> set (comments d) \<Longrightarrow> P c \<Longrightarrow> c_tenant c \<noteq> t"
  shows "foreign t V (delete_comments P d)"
proof -
  let ?cs = "comments d" and ?A = "set (comment_refs V)"
  let ?gone = "thread_closure (length ?cs) (map c_id (filter P ?cs)) ?cs"
  have V: "comments V = filter (\<lambda>c. c_tenant c = t) ?cs"
    using f by (auto simp: foreign_def tenant_view_def)
  have own: "\<And>c. c \<in> set ?cs \<Longrightarrow> c_id c \<in> ?A \<Longrightarrow> c_tenant c = t"
    using f by (auto simp: foreign_def refs_own_def own_def list_all_iff)
  have parents: "q \<in> ?A" if "c \<in> set ?cs" "c_tenant c = t" "c_parent c = Some q" for c q
    using that V by (auto simp: comment_refs_def option_list_def intro!: bexI [of _ c])
  have ids: "c_id c \<in> ?A" if "c \<in> set ?cs" "c_tenant c = t" for c
    using that V by (auto simp: comment_refs_def)
  have "set ?gone \<inter> ?A = {}"
  proof (rule thread_closure_keeps)
    show "q \<in> ?A" if "c \<in> set ?cs" "c_id c \<in> ?A" "c_parent c = Some q" for c q
      using that own parents by blast
    show "set (map c_id (filter P ?cs)) \<inter> ?A = {}" using P own by auto
  qed
  then have keep: "c_id c \<notin> set ?gone" if "c \<in> set ?cs" "c_tenant c = t" for c
    using ids that by auto
  have "filter (\<lambda>c. c_tenant c = t) (filter (\<lambda>c. c_id c \<notin> set ?gone) ?cs) = filter (\<lambda>c. c_tenant c = t) ?cs"
    using keep by (intro filter_comm_filter) auto
  then show ?thesis
    using f by (auto simp: delete_comments_def foreign_def refs_own_def tenant_view_def Let_def own_filter)
qed

lemma filter_refs_own:
  assumes "\<And>x. x \<in> set xs \<Longrightarrow> tf x = t \<Longrightarrow> rf x \<notin> set gone"
  shows "filter (\<lambda>x. tf x = t) (filter (\<lambda>x. rf x \<notin> set gone) xs) = filter (\<lambda>x. tf x = t) xs"
  using assms by (intro filter_comm_filter) auto

lemma view_replace:
  assumes "filter (\<lambda>p. p_tenant p = t) ps = filter (\<lambda>p. p_tenant p = t) (posts e)"
    and "filter (\<lambda>v. v_tenant v = t) vs = filter (\<lambda>v. v_tenant v = t) (votes e)"
    and "filter (\<lambda>x. pt_tenant x = t) ls = filter (\<lambda>x. pt_tenant x = t) (post_tags e)"
    and "filter (\<lambda>x. ri_tenant x = t) rs = filter (\<lambda>x. ri_tenant x = t) (roadmap_items e)"
    and "filter (\<lambda>a. a_tenant a = t) as = filter (\<lambda>a. a_tenant a = t) (attachments e)"
  shows "tenant_view t (e\<lparr>posts := ps, votes := vs, post_tags := ls, roadmap_items := rs, attachments := as\<rparr>)
    = tenant_view t e"
  using assms by (simp add: tenant_view_def)

lemma foreign_delete_posts:
  assumes f: "foreign t V d" and P: "\<And>p. P p \<Longrightarrow> p_tenant p \<noteq> t"
  shows "foreign t V (delete_posts P d)"
proof -
  let ?gone = "map p_id (filter P (posts d))"
  let ?d1 = "delete_comments (\<lambda>c. c_post c \<in> set ?gone) d"
  have view: "tenant_view t d = V" using f by (simp add: foreign_def)
  have own: "p_tenant p = t" if "p \<in> set (posts d)" "p_id p \<in> set (post_refs V)" for p
    using f that by (auto simp: foreign_def refs_own_def own_def list_all_iff)
  have ok: "i \<notin> set ?gone" if "i \<in> set (post_refs V)" for i
    using own P that by auto
  have refs: "v \<in> set (votes d) \<Longrightarrow> v_tenant v = t \<Longrightarrow> v_post v \<in> set (post_refs V)"
    "c \<in> set (comments d) \<Longrightarrow> c_tenant c = t \<Longrightarrow> c_post c \<in> set (post_refs V)"
    "x \<in> set (post_tags d) \<Longrightarrow> pt_tenant x = t \<Longrightarrow> pt_post x \<in> set (post_refs V)"
    "y \<in> set (roadmap_items d) \<Longrightarrow> ri_tenant y = t \<Longrightarrow> ri_post y \<in> set (post_refs V)"
    "a \<in> set (attachments d) \<Longrightarrow> a_tenant a = t \<Longrightarrow> a_post a = Some q \<Longrightarrow> q \<in> set (post_refs V)"
    "p \<in> set (posts d) \<Longrightarrow> p_tenant p = t \<Longrightarrow> p_duplicate_of p = Some q \<Longrightarrow> q \<in> set (post_refs V)"
    for v c x y a p q
    by (auto simp: view [symmetric] tenant_view_def post_refs_def option_list_def)
  have d1: "foreign t V ?d1"
    using ok refs(2) by (intro foreign_delete_comments [OF f]) auto
  have same: "votes ?d1 = votes d" "post_tags ?d1 = post_tags d" "roadmap_items ?d1 = roadmap_items d"
    "attachments ?d1 = attachments d" "posts ?d1 = posts d"
    by (simp_all add: delete_comments_def Let_def)
  have kept: "filter (\<lambda>p. p_tenant p = t) (update_where
        (\<lambda>p. case p_duplicate_of p of None \<Rightarrow> False | Some q \<Rightarrow> q \<in> set ?gone)
        (\<lambda>p. p\<lparr>p_duplicate_of := None\<rparr>) (filter (\<lambda>p. \<not> P p) (posts d)))
      = filter (\<lambda>p. p_tenant p = t) (posts d)"
  proof (rule trans)
    show "filter (\<lambda>p. p_tenant p = t) (filter (\<lambda>p. \<not> P p) (posts d)) = filter (\<lambda>p. p_tenant p = t) (posts d)"
      using P by (intro filter_comm_filter) auto
  qed (use ok refs(6) in \<open>intro filter_update_set, auto split: option.splits\<close>)
  have att: "filter (\<lambda>a. a_tenant a = t) (filter (\<lambda>a. case a_post a of None \<Rightarrow> True | Some q \<Rightarrow> q \<notin> set ?gone) (attachments d))
      = filter (\<lambda>a. a_tenant a = t) (attachments d)"
    using ok refs(5) by (intro filter_comm_filter) (auto split: option.splits)
  have rest: "filter (\<lambda>v. v_tenant v = t) (filter (\<lambda>v. v_post v \<notin> set ?gone) (votes d)) = filter (\<lambda>v. v_tenant v = t) (votes d)"
    "filter (\<lambda>x. pt_tenant x = t) (filter (\<lambda>x. pt_post x \<notin> set ?gone) (post_tags d)) = filter (\<lambda>x. pt_tenant x = t) (post_tags d)"
    "filter (\<lambda>x. ri_tenant x = t) (filter (\<lambda>x. ri_post x \<notin> set ?gone) (roadmap_items d)) = filter (\<lambda>x. ri_tenant x = t) (roadmap_items d)"
    by (intro filter_comm_filter, use ok refs(1,3,4) in blast)+
  have "tenant_view t (delete_posts P d) = tenant_view t ?d1"
    unfolding delete_posts_def Let_def
    by (rule view_replace) (simp_all only: same kept att rest)
  moreover have "own p_id p_tenant (auto d ''posts'') t (posts (delete_posts P d)) (post_refs V)"
    using f unfolding delete_posts_def Let_def
    by (simp add: foreign_def refs_own_def own_update own_filter)
  moreover have "auto ?d1 = auto d" "auto (delete_posts P d) = auto d"
    "comments (delete_posts P d) = comments ?d1" "tags (delete_posts P d) = tags ?d1"
    "roadmap_columns (delete_posts P d) = roadmap_columns ?d1"
    by (simp_all add: delete_posts_def delete_comments_def Let_def)
  moreover have "own v_id v_tenant (auto d ''votes'') t (votes (delete_posts P d)) (vote_refs V)"
    using f unfolding delete_posts_def Let_def
    by (simp add: foreign_def refs_own_def own_filter)
  ultimately show ?thesis using d1 by (simp add: foreign_def refs_own_def)
qed

section \<open>The shared operations\<close>

lemma set_post_status_foreign: "tid \<noteq> t \<Longrightarrow> foreign t V d \<Longrightarrow> foreign t V (set_post_status tid i st d)"
  unfolding set_post_status_def by (rule foreign_update_posts) auto

lemma move_item_foreign: "tid \<noteq> t \<Longrightarrow> foreign t V d \<Longrightarrow> foreign t V (move_item tid i c d)"
  unfolding move_item_def by (rule foreign_table) (auto intro: filter_update_where_other)

lemma claim_attachments_foreign: "tid \<noteq> t \<Longrightarrow> foreign t V d \<Longrightarrow> foreign t V (claim_attachments ids i tid d)"
  unfolding claim_attachments_def by (rule foreign_table) (auto intro: filter_update_where_other)

lemma insert_notifications_foreign:
  "tid \<noteq> t \<Longrightarrow> foreign t V d \<Longrightarrow> foreign t V (insert_notifications tid ty ti m r us d)"
proof -
  assume a: "tid \<noteq> t" "foreign t V d"
  define ns where "ns = map (\<lambda>(i, u). \<lparr>n_id = i, n_tenant = tid, n_user = u, n_type = ty, n_title = ti,
      n_message = m, n_ref = r, n_read = False, n_read_at = None, n_created = clock d\<rparr>)
    (number_from (auto d ''notifications'') us)"
  have "\<forall>n \<in> set ns. n_tenant n \<noteq> t" using a(1) by (auto simp: ns_def)
  then have "filter (\<lambda>x. n_tenant x = t) (notifications d @ ns) = filter (\<lambda>x. n_tenant x = t) (notifications d)"
    by (intro filter_append_other) auto
  then show ?thesis
    using a(2) unfolding insert_notifications_def ns_def [symmetric]
    by (intro foreign_table(6) foreign_auto) simp_all
qed

lemma insert_attachment_foreign:
  "foreign t V d \<Longrightarrow> insert_attachment a d = Inr (i, d') \<Longrightarrow> a_tenant a \<noteq> t \<Longrightarrow> foreign t V d'"
  unfolding insert_attachment_def Let_def
  by (clarsimp split: if_splits) (intro foreign_table(9) foreign_bump; simp add: bump_id_def)

lemma shared_foreign [keeps]:
  "tid \<noteq> t \<Longrightarrow> preserves (foreign t V) (storeAttachment f tid)"
  "tid \<noteq> t \<Longrightarrow> preserves (foreign t V) (attachToPost ids i tid)"
  "tid \<noteq> t \<Longrightarrow> preserves (foreign t V) (notifyTeam tid ty ti m r ex)"
  "tid \<noteq> t \<Longrightarrow> preserves (foreign t V) (syncPostStatusToColumn tid i c)"
  "tid \<noteq> t \<Longrightarrow> preserves (foreign t V) (resetPostStatusToOpen tid i)"
  "tid \<noteq> t \<Longrightarrow> preserves (foreign t V) (syncRoadmapItemToStatus tid i st)"
proof -
  assume t: "tid \<noteq> t"
  show "preserves (foreign t V) (storeAttachment f tid)"
    unfolding storeAttachment_def Let_def
    by (intro keeps preserves_sql) (erule (1) insert_attachment_foreign, simp add: t)
  show "preserves (foreign t V) (attachToPost ids i tid)"
    unfolding attachToPost_def Let_def using t
    by (intro keeps preserves_execute) (simp add: claim_attachments_foreign)
  show "preserves (foreign t V) (notifyTeam tid ty ti m r ex)"
    unfolding notifyTeam_def getTeamRecipients_def using t
    by (intro keeps preserves_execute) (simp add: insert_notifications_foreign)
  show "preserves (foreign t V) (syncPostStatusToColumn tid i c)"
    unfolding syncPostStatusToColumn_def using t
    by (intro keeps preserves_execute) (simp add: set_post_status_foreign)
  show "preserves (foreign t V) (resetPostStatusToOpen tid i)"
    unfolding resetPostStatusToOpen_def using t
    by (intro keeps preserves_execute) (simp add: set_post_status_foreign)
  show "preserves (foreign t V) (syncRoadmapItemToStatus tid i st)"
    unfolding syncRoadmapItemToStatus_def using t
    by (intro keeps preserves_execute) (simp add: move_item_foreign)
qed

end
