(* ===== verification/Write_Counters.thy ===== *)
theory Write_Counters
  imports Runtime
begin

text \<open>
  \<open>src/common/writeCounters.js\<close>: the burst caps of unauthenticated public writes, counted in the
  table \<open>public_write_counters\<close> in fixed windows.  The contract of a counter table is the
  locale \<open>counter_store\<close>; its lemmas carry the flood bound.
\<close>

section \<open>Counter tables\<close>

text \<open>
  A store that counts: an increment answers the new count of its key, and changes no count but
  that of the keys it identifies with its own.
\<close>

locale counter_store =
  fixes count :: "'k \<Rightarrow> 's \<Rightarrow> nat"
    and inc :: "'k \<Rightarrow> 's \<Rightarrow> nat \<times> 's"
    and same :: "'k \<Rightarrow> 'k \<Rightarrow> bool"
  assumes same_refl: "same k k"
    and inc_result: "fst (inc k s) = Suc (count k s)"
    and inc_count: "count k' (snd (inc k s)) = (if same k k' then Suc (count k' s) else count k' s)"
begin

primrec charge :: "'k list \<Rightarrow> 's \<Rightarrow> nat list \<times> 's" where
  "charge [] s = ([], s)"
| "charge (k # ks) s =
     (let (n, s') = inc k s; (ns, s'') = charge ks s' in (n # ns, s''))"

lemma length_charge [simp]: "length (fst (charge ks s)) = length ks"
  by (induction ks arbitrary: s) (auto simp: case_prod_beta Let_def)

lemma charge_count:
  "count k (snd (charge ks s)) = count k s + length (filter (\<lambda>k'. same k' k) ks)"
  by (induction ks arbitrary: s) (auto simp: case_prod_beta Let_def inc_count)

text \<open>Every answer counts its own increment and all earlier ones of the key.\<close>

lemma charge_result:
  "i < length ks \<Longrightarrow>
   count (ks ! i) s < fst (charge ks s) ! i \<and> fst (charge ks s) ! i \<le> count (ks ! i) (snd (charge ks s))"
proof (induction ks arbitrary: s i)
  case (Cons k ks)
  let ?s = "snd (inc k s)"
  show ?case
  proof (cases i)
    case 0
    have "count k ?s \<le> count k (snd (charge ks ?s))" by (simp add: charge_count)
    with 0 show ?thesis by (simp add: case_prod_beta Let_def inc_result inc_count same_refl)
  next
    case (Suc j)
    with Cons.prems Cons.IH [of j ?s] have
      "count (ks ! j) ?s < fst (charge ks ?s) ! j \<and>
       fst (charge ks ?s) ! j \<le> count (ks ! j) (snd (charge ks ?s))" by simp
    moreover have "count (ks ! j) s \<le> count (ks ! j) ?s" by (simp add: inc_count)
    ultimately show ?thesis using Suc by (simp add: case_prod_beta Let_def)
  qed
qed simp

end

section \<open>The table\<close>

type_synonym counter_key = "jstring \<times> int"

text \<open>\<open>scopeKey.slice(0, 100)\<close> and the start of the window are the primary key.\<close>

definition counter_row :: "counter_key \<Rightarrow> write_counter \<Rightarrow> bool" where
  "counter_row k r \<longleftrightarrow> sql_eq (w_scope r) (take 100 (fst k)) \<and> w_start r = snd k"

definition same_key :: "counter_key \<Rightarrow> counter_key \<Rightarrow> bool" where
  "same_key k k' \<longleftrightarrow> sql_eq (take 100 (fst k)) (take 100 (fst k')) \<and> snd k = snd k'"

definition counter_value :: "counter_key \<Rightarrow> write_counter list \<Rightarrow> nat" where
  "counter_value k rs = (case find (counter_row k) rs of None \<Rightarrow> 0 | Some r \<Rightarrow> w_count r)"

text \<open>\<open>INSERT \<dots> ON DUPLICATE KEY UPDATE count = LAST_INSERT_ID(count + 1)\<close>.\<close>

definition bump_row :: "counter_key \<Rightarrow> write_counter list \<Rightarrow> nat \<times> write_counter list" where
  "bump_row k rs =
     (case find (counter_row k) rs of
        None \<Rightarrow> (1, rs @ [\<lparr>w_scope = take 100 (fst k), w_start = snd k, w_count = 1\<rparr>])
      | Some r \<Rightarrow> (Suc (w_count r), update_where (counter_row k) (\<lambda>r. r\<lparr>w_count := Suc (w_count r)\<rparr>) rs))"

lemma counter_row_same: "same_key k k' \<Longrightarrow> counter_row k r \<longleftrightarrow> counter_row k' r"
  by (auto simp: same_key_def counter_row_def sql_eq_def)

lemma counter_row_both: "counter_row k r \<Longrightarrow> counter_row k' r \<Longrightarrow> same_key k k'"
  by (auto simp: same_key_def counter_row_def sql_eq_def)

lemma find_append: "find P (xs @ ys) = (case find P xs of None \<Rightarrow> find P ys | Some x \<Rightarrow> Some x)"
  by (induction xs) auto

lemma find_bumped_same:
  "find (counter_row k) (update_where (counter_row k) (\<lambda>r. r\<lparr>w_count := Suc (w_count r)\<rparr>) rs) =
   map_option (\<lambda>r. r\<lparr>w_count := Suc (w_count r)\<rparr>) (find (counter_row k) rs)"
  by (induction rs) (auto simp: counter_row_def)

lemma find_bumped_other:
  "\<not> same_key k k' \<Longrightarrow>
   find (counter_row k') (update_where (counter_row k) (\<lambda>r. r\<lparr>w_count := Suc (w_count r)\<rparr>) rs) =
   find (counter_row k') rs"
proof (induction rs)
  case (Cons r rs)
  have "counter_row k' (r\<lparr>w_count := n\<rparr>) = counter_row k' r" for n by (simp add: counter_row_def)
  with Cons show ?case by (auto dest: counter_row_both)
qed simp

interpretation counters: counter_store counter_value bump_row same_key
proof (unfold_locales, goal_cases)
  case (1 k) show ?case by (simp add: same_key_def)
next
  case (2 k s) show ?case by (simp add: bump_row_def counter_value_def split: option.splits)
next
  case (3 k' k s)
  show ?case
  proof (cases "same_key k k'")
    case True
    then have row: "counter_row k' = counter_row k" by (auto simp: counter_row_same)
    show ?thesis using True
      by (auto simp: bump_row_def counter_value_def row find_append find_bumped_same
               split: option.splits) (simp_all add: counter_row_def)
  next
    case False
    moreover have "\<not> counter_row k' \<lparr>w_scope = take 100 (fst k), w_start = snd k, w_count = 1\<rparr>"
      using False by (auto simp: counter_row_def same_key_def)
    ultimately show ?thesis
      by (auto simp: bump_row_def counter_value_def find_append find_bumped_other
               split: option.splits)
  qed
qed

section \<open>Charging a write\<close>

definition WINDOW_hour :: int where "WINDOW_hour = 60 * 60 * 1000"
definition WINDOW_day :: int where "WINDOW_day = 24 * 60 * 60 * 1000"

definition perVoterPerTenantHour :: "services \<Rightarrow> int" where
  "perVoterPerTenantHour sv = env_or sv ''SPAM_CAP_VOTER_HOUR'' 10"

definition perTenantHour :: "services \<Rightarrow> int" where
  "perTenantHour sv = env_or sv ''SPAM_CAP_TENANT_HOUR'' 60"

definition perEmailDomainDay :: "services \<Rightarrow> int" where
  "perEmailDomainDay sv = env_or sv ''SPAM_CAP_DOMAIN_DAY'' 30"

definition windowStart :: "int \<Rightarrow> int \<Rightarrow> int" where
  "windowStart sizeMs now = (now div sizeMs) * sizeMs"

record cap_check =
  ck_key :: jstring
  ck_size :: int
  ck_max :: int
  ck_scope :: string

definition bump :: "jstring \<Rightarrow> int \<Rightarrow> nat io" where
  "bump scopeKey sizeMs =
     bnd (asks js_now) (\<lambda>now.
       execute (\<lambda>d. let (n, rs) = bump_row (scopeKey, windowStart sizeMs now) (write_counters d)
                    in (n, d\<lparr>write_counters := rs\<rparr>)))"

definition cap_checks :: "services \<Rightarrow> nat \<Rightarrow> jstring option \<Rightarrow> jstring option \<Rightarrow> cap_check list" where
  "cap_checks sv tenantId hash dmn =
     (case hash of
        None \<Rightarrow> []
      | Some h \<Rightarrow> [\<lparr>ck_key = js ''v:'' @ h @ js '':'' @ js_of_nat tenantId, ck_size = WINDOW_hour,
                    ck_max = perVoterPerTenantHour sv, ck_scope = ''voter_hour''\<rparr>])
     @ [\<lparr>ck_key = js ''t:'' @ js_of_nat tenantId, ck_size = WINDOW_hour,
         ck_max = perTenantHour sv, ck_scope = ''tenant_hour''\<rparr>]
     @ (case dmn of
          None \<Rightarrow> []
        | Some x \<Rightarrow> [\<lparr>ck_key = js ''d:'' @ x @ js '':'' @ js_of_nat tenantId, ck_size = WINDOW_day,
                      ck_max = perEmailDomainDay sv, ck_scope = ''domain_day''\<rparr>])"

text \<open>
  \<open>Promise.all\<close> starts every increment; when one of them fails the whole charge fails open,
  but the others have still been sent.  The answer is the verdict and the cap that tripped.
\<close>

definition chargePublicWrite ::
  "nat \<Rightarrow> jstring option \<Rightarrow> jstring option \<Rightarrow> (bool \<times> string option) io" where
  "chargePublicWrite tenantId hash dmn =
     bnd (asks (\<lambda>w. cap_checks (svc w) tenantId hash dmn)) (\<lambda>checks.
     bnd (for_each checks (\<lambda>c. catch (bnd (bump (ck_key c) (ck_size c)) (\<lambda>n. ret (Some n)))
                                     (\<lambda>_. ret None))) (\<lambda>counts.
       if None \<in> set counts then ret (True, None)
       else case find (\<lambda>(c, n). int (the n) > ck_max c) (zip checks counts) of
              Some (c, n) \<Rightarrow> ret (False, Some (ck_scope c))
            | None \<Rightarrow> ret (True, None)))"

text \<open>Dropping the windows that have passed; failures are ignored.\<close>

definition pruneCounters :: "unit io" where
  "pruneCounters =
     catch (execute (\<lambda>d. ((), d\<lparr>write_counters :=
              filter (\<lambda>r. \<not> w_start r < clock d - days 2) (write_counters d)\<rparr>)))
           (\<lambda>_. ret ())"

definition draw_prune :: "bool io" where
  "draw_prune = (\<lambda>w. (Inr (prune_draw (svc w) (rn w)), w\<lparr>rn := Suc (rn w)\<rparr>))"

definition maybePrune :: "unit io" where
  "maybePrune = bnd draw_prune (\<lambda>b. if b then pruneCounters else ret ())"

lemma wp_draw_prune [simp]:
  "wp draw_prune Q w = Q (Inr (prune_draw (svc w) (rn w))) (w\<lparr>rn := Suc (rn w)\<rparr>)"
  by (simp add: wp_def draw_prune_def)

lemma draw_prune_keeps [keeps]: "preserves P draw_prune" "emits_only S draw_prune"
  by (rule preservesI emits_onlyI, simp)+

section \<open>The flood bound\<close>

definition check_keys :: "int \<Rightarrow> cap_check list \<Rightarrow> counter_key list" where
  "check_keys now cs = map (\<lambda>c. (ck_key c, windowStart (ck_size c) now)) cs"

lemma charge_checks_healthy:
  assumes "healthy w"
  shows "wp (for_each cs (\<lambda>c. catch (bnd (bump (ck_key c) (ck_size c)) (\<lambda>n. ret (Some n)))
                                 (\<lambda>_. ret None))) Q w =
         (let (ns, rs) = counters.charge (check_keys (js_now w) cs) (write_counters (db w))
          in Q (Inr (map Some ns))
               (w\<lparr>qn := qn w + length cs, db := (db w)\<lparr>write_counters := rs\<rparr>\<rparr>))"
  using assms
proof (induction cs arbitrary: w Q)
  case Nil
  then show ?case by (simp add: check_keys_def)
next
  case (Cons c cs)
  then show ?case
    by (simp add: check_keys_def bump_def Let_def case_prod_beta)
qed

lemma counts_no_None [simp]: "None \<notin> set (map Some ns)"
  by auto

lemma find_zip_Some:
  "length cs = length ns \<Longrightarrow>
   find (\<lambda>(c, n). int (the n) > ck_max c) (zip cs (map Some ns)) = None \<Longrightarrow>
   i < length cs \<Longrightarrow> int (ns ! i) \<le> ck_max (cs ! i)"
proof -
  assume a: "length cs = length ns" "i < length cs"
    "find (\<lambda>(c, n). int (the n) > ck_max c) (zip cs (map Some ns)) = None"
  then have "(cs ! i, map Some ns ! i) \<in> set (zip cs (map Some ns))"
    by (metis length_map length_zip min.idem nth_mem nth_zip)
  with a(3) have "\<not> int (the (map Some ns ! i)) > ck_max (cs ! i)"
    unfolding find_None_iff by blast
  with a show ?thesis by simp
qed

text \<open>The tenant-wide counter, and what a single admitted write does to it.\<close>

definition tenant_key :: "nat \<Rightarrow> int \<Rightarrow> counter_key" where
  "tenant_key t now = (js ''t:'' @ js_of_nat t, windowStart WINDOW_hour now)"

definition tenant_writes :: "nat \<Rightarrow> int \<Rightarrow> database \<Rightarrow> nat" where
  "tenant_writes t now d = counter_value (tenant_key t now) (write_counters d)"

lemma tenant_check_present:
  "\<exists>i < length (cap_checks sv t h dmn).
     cap_checks sv t h dmn ! i =
       \<lparr>ck_key = js ''t:'' @ js_of_nat t, ck_size = WINDOW_hour, ck_max = perTenantHour sv,
        ck_scope = ''tenant_hour''\<rparr>"
  by (cases h) (auto simp: cap_checks_def intro: exI [of _ 0] exI [of _ 1])

lemma charge_admits:
  assumes "healthy w"
  shows "wp (chargePublicWrite t h dmn)
    (\<lambda>r w'. (\<exists>ok sc. r = Inr (ok, sc)
            \<and> (ok \<longrightarrow> int (tenant_writes t (js_now w) (db w)) < perTenantHour (svc w)))
          \<and> healthy w' \<and> svc w' = svc w \<and> js_now w' = js_now w
          \<and> (\<forall>now. tenant_writes u now (db w) \<le> tenant_writes u now (db w'))
          \<and> tenant_writes t (js_now w) (db w) < tenant_writes t (js_now w) (db w')) w"
proof -
  let ?cs = "cap_checks (svc w) t h dmn"
  let ?ks = "check_keys (js_now w) ?cs"
  obtain ns rs where ch: "counters.charge ?ks (write_counters (db w)) = (ns, rs)" by fastforce
  then have len: "length ns = length ?cs"
    using counters.length_charge [of ?ks "write_counters (db w)"] by (simp add: check_keys_def)
  have mono: "counter_value k (write_counters (db w)) \<le> counter_value k rs" for k
    using counters.charge_count [of k ?ks "write_counters (db w)"] by (simp add: ch)
  obtain i where i: "i < length ?cs" "?cs ! i =
       \<lparr>ck_key = js ''t:'' @ js_of_nat t, ck_size = WINDOW_hour,
        ck_max = perTenantHour (svc w), ck_scope = ''tenant_hour''\<rparr>"
    using tenant_check_present by blast
  then have "?ks ! i = tenant_key t (js_now w)"
    by (simp add: check_keys_def tenant_key_def)
  then have t: "tenant_writes t (js_now w) (db w) < ns ! i" "ns ! i \<le> counter_value (tenant_key t (js_now w)) rs"
    using counters.charge_result [of i ?ks "write_counters (db w)"] i ch
    by (simp_all add: check_keys_def tenant_writes_def)
  have ok: "int (tenant_writes t (js_now w) (db w)) < perTenantHour (svc w)"
    if "find (\<lambda>(c, n). int (the n) > ck_max c) (zip ?cs (map Some ns)) = None"
    using find_zip_Some [OF len [symmetric] that i(1)] i(2) t(1) by simp
  show ?thesis
    using assms ok t mono
    by (auto simp: chargePublicWrite_def charge_checks_healthy ch tenant_writes_def
             split: option.splits prod.splits)
qed

type_synonym public_write = "int \<times> nat \<times> jstring option \<times> jstring option"

definition serve_writes :: "public_write list \<Rightarrow> (bool \<times> string option) list io" where
  "serve_writes reqs =
     for_each reqs (\<lambda>(now, t, h, x). bnd (at_time now) (\<lambda>_. chargePublicWrite t h x))"

definition admitted :: "nat \<Rightarrow> public_write list \<Rightarrow> (bool \<times> string option) list \<Rightarrow> nat" where
  "admitted t reqs rs =
     length (filter (\<lambda>((now, t', h, x), (ok, sc)). t' = t \<and> ok) (zip reqs rs))"

lemma admitted_simps [simp]:
  "admitted t [] rs = 0"
  "admitted t ((now, t', h, x) # reqs) ((ok, sc) # rs) =
     (if t' = t \<and> ok then Suc (admitted t reqs rs) else admitted t reqs rs)"
  by (simp_all add: admitted_def)

lemma tenant_writes_window:
  "windowStart WINDOW_hour n = windowStart WINDOW_hour m \<Longrightarrow> tenant_writes t n d = tenant_writes t m d"
  by (simp add: tenant_writes_def tenant_key_def)

lemma serve_writes_bound:
  assumes "healthy w" and "list_all (\<lambda>r. windowStart WINDOW_hour (fst r) = windowStart WINDOW_hour h0) reqs"
  shows "wp (serve_writes reqs)
    (\<lambda>r w'. \<exists>rs. r = Inr rs \<and> length rs = length reqs
        \<and> int (admitted t reqs rs)
            \<le> max 0 (perTenantHour (svc w) - int (tenant_writes t h0 (db w)))) w"
  using assms
proof (induction reqs arbitrary: w)
  case Nil
  then show ?case by (simp add: serve_writes_def)
next
  case (Cons req reqs)
  obtain now t' h x where req: "req = (now, t', h, x)" by (cases req) auto
  let ?w = "w\<lparr>js_now := now\<rparr>"
  have win: "windowStart WINDOW_hour now = windowStart WINDOW_hour h0"
    and rest: "list_all (\<lambda>r. windowStart WINDOW_hour (fst r) = windowStart WINDOW_hour h0) reqs"
    using Cons.prems(2) req by simp_all
  have "wp (chargePublicWrite t' h x) (\<lambda>r w1. case r of Inl e \<Rightarrow> False
          | Inr y \<Rightarrow> wp (serve_writes reqs) (\<lambda>r w2. \<exists>rs. r = Inr rs \<and> length rs = length reqs
                \<and> int (admitted t (req # reqs) (y # rs))
                    \<le> max 0 (perTenantHour (svc w) - int (tenant_writes t h0 (db w)))) w1) ?w"
  proof (rule wp_mono [OF charge_admits [where u = t]])
    show "healthy ?w" using Cons.prems(1) by simp
  next
    fix r :: "exn + bool \<times> string option" and w1
    assume a: "(\<exists>ok sc. r = Inr (ok, sc)
            \<and> (ok \<longrightarrow> int (tenant_writes t' (js_now ?w) (db ?w)) < perTenantHour (svc ?w)))
          \<and> healthy w1 \<and> svc w1 = svc ?w \<and> js_now w1 = js_now ?w
          \<and> (\<forall>now. tenant_writes t now (db ?w) \<le> tenant_writes t now (db w1))
          \<and> tenant_writes t' (js_now ?w) (db ?w) < tenant_writes t' (js_now ?w) (db w1)"
    then obtain ok and sc :: "string option" where r: "r = Inr (ok, sc)"
      and ok: "ok \<longrightarrow> int (tenant_writes t' now (db w)) < perTenantHour (svc w)"
      and w1: "healthy w1" "svc w1 = svc w"
      and le: "tenant_writes t h0 (db w) \<le> tenant_writes t h0 (db w1)"
      and lt: "tenant_writes t' now (db w) < tenant_writes t' now (db w1)" by auto
    have key: "tenant_writes t' now d = tenant_writes t' h0 d" for d
      using win by (rule tenant_writes_window)
    have "wp (serve_writes reqs) (\<lambda>r w2. \<exists>rs. r = Inr rs \<and> length rs = length reqs
        \<and> int (admitted t (req # reqs) ((ok, sc) # rs))
            \<le> max 0 (perTenantHour (svc w) - int (tenant_writes t h0 (db w)))) w1"
    proof (rule wp_mono [OF Cons.IH [OF w1(1) rest]])
      fix r' and w2 :: world
      assume "\<exists>rs. r' = Inr rs \<and> length rs = length reqs
        \<and> int (admitted t reqs rs) \<le> max 0 (perTenantHour (svc w1) - int (tenant_writes t h0 (db w1)))"
      then obtain rs where rs: "r' = Inr rs" "length rs = length reqs"
        and b: "int (admitted t reqs rs) \<le> max 0 (perTenantHour (svc w1) - int (tenant_writes t h0 (db w1)))"
        by blast
      have "int (admitted t (req # reqs) ((ok, sc) # rs))
              \<le> max 0 (perTenantHour (svc w) - int (tenant_writes t h0 (db w)))"
      proof (cases "t' = t \<and> ok")
        case True
        then have "t' = t" and ok by simp_all
        with b ok lt w1(2) key [of "db w"] key [of "db w1"] show ?thesis by (simp add: req)
      next
        case False
        then have "admitted t (req # reqs) ((ok, sc) # rs) = admitted t reqs rs" by (auto simp: req)
        with b le w1(2) show ?thesis by simp
      qed
      with rs show "\<exists>rs. r' = Inr rs \<and> length rs = length reqs
        \<and> int (admitted t (req # reqs) ((ok, sc) # rs))
            \<le> max 0 (perTenantHour (svc w) - int (tenant_writes t h0 (db w)))" by blast
    qed
    with r show "case r of Inl e \<Rightarrow> False
          | Inr y \<Rightarrow> wp (serve_writes reqs) (\<lambda>r w2. \<exists>rs. r = Inr rs \<and> length rs = length reqs
                \<and> int (admitted t (req # reqs) (y # rs))
                    \<le> max 0 (perTenantHour (svc w) - int (tenant_writes t h0 (db w)))) w1" by simp
  qed
  then show ?case
    unfolding serve_writes_def req
    by simp (erule wp_mono, auto split: sum.splits elim!: wp_mono)
qed


definition demo_reqs :: "public_write list" where
  "demo_reqs = [(5, 1, Some [97], None), (6, 1, None, None)]"


lemma wp_bump:
  "wp (bump k sz) Q w =
     (if fault (svc w) (qn w) then Q (Inl DbError) (w\<lparr>qn := Suc (qn w)\<rparr>)
      else let b = bump_row (k, windowStart sz (js_now w)) (write_counters (db w))
           in Q (Inr (fst b)) (w\<lparr>qn := Suc (qn w), db := (db w)\<lparr>write_counters := snd b\<rparr>\<rparr>))"
  by (simp add: bump_def Let_def case_prod_beta)

lemma charge_checks_any:
  "wp (for_each cs (\<lambda>c. catch (bnd (bump (ck_key c) (ck_size c)) (\<lambda>n. ret (Some n)))
                             (\<lambda>_. ret None)))
     (\<lambda>r w'. \<exists>ns. r = Inr ns \<and> svc w' = svc w \<and> js_now w' = js_now w \<and> qn w' = qn w + length cs
        \<and> (None \<notin> set ns \<longrightarrow> no_fault (svc w) (qn w) (qn w'))) w"
proof (induction cs arbitrary: w)
  case Nil
  show ?case by simp
next
  case (Cons c cs)
  show ?case
    by (simp add: wp_bump Let_def)
       ((intro conjI impI; rule wp_mono [OF Cons.IH]); auto intro: no_fault_step)
qed

lemma charge_total:
  "wp (chargePublicWrite t h x)
     (\<lambda>r w'. (r = Inr (True, None) \<or> (\<exists>sc. r = Inr (False, Some sc) \<and> no_fault (svc w) (qn w) (qn w')))
        \<and> svc w' = svc w \<and> js_now w' = js_now w) w"
proof -
  have "wp (bnd (for_each (cap_checks (svc w) t h x)
          (\<lambda>c. catch (bnd (bump (ck_key c) (ck_size c)) (\<lambda>n. ret (Some n))) (\<lambda>_. ret None)))
        (\<lambda>counts.
          if None \<in> set counts then ret (True, None)
          else case find (\<lambda>(c, n). int (the n) > ck_max c) (zip (cap_checks (svc w) t h x) counts) of
              Some (c, n) \<Rightarrow> ret (False, Some (ck_scope c))
            | None \<Rightarrow> ret (True, None)))
     (\<lambda>r w'. (r = Inr (True, None) \<or> (\<exists>sc. r = Inr (False, Some sc) \<and> no_fault (svc w) (qn w) (qn w')))
        \<and> svc w' = svc w \<and> js_now w' = js_now w) w"
    by (rule wp_seq [OF charge_checks_any]) (auto split: option.splits)
  then show ?thesis by (simp add: chargePublicWrite_def)
qed

text \<open>
  The charge fails open: a write is turned away only when every counter involved was
  really incremented, so a failing counter table never blocks a visitor, and no database
  failure turns a charge into an error.
\<close>

theorem charge_fails_open:
  "wp (chargePublicWrite t h x)
     (\<lambda>r w'. r = Inr (True, None)
        \<or> (\<exists>sc. r = Inr (False, Some sc) \<and> no_fault (svc w) (qn w) (qn w'))) w"
  by (rule wp_mono [OF charge_total]) blast

end
