(* ===== verification/Form_Token.thy ===== *)
theory Form_Token
  imports Runtime
begin

text \<open>
  \<open>src/common/formToken.js\<close> and \<open>src/common/guestIdentity.js\<close>: the signed page-view token of
  the public board and the hashed network identity of an anonymous visitor.  The keyed hash is
  the parameter \<open>hmac_hex\<close> of the services.
\<close>

section \<open>Form tokens\<close>

definition MIN_AGE_MS :: "services \<Rightarrow> int" where
  "MIN_AGE_MS sv = env_or sv ''FORM_TOKEN_MIN_AGE_MS'' 3000"

definition MAX_AGE_MS :: "services \<Rightarrow> int" where
  "MAX_AGE_MS sv = env_or sv ''FORM_TOKEN_MAX_AGE_MS'' (24 * 60 * 60 * 1000)"

definition issueFormToken :: "services \<Rightarrow> nat \<Rightarrow> jstring" where
  "issueFormToken sv now =
     (let issuedAt = js_of_nat now in issuedAt @ 46 # hmac_hex sv issuedAt)"

text \<open>The verdict: \<open>valid\<close> is \<open>tv_reason = None\<close>.\<close>

record token_verdict =
  tv_reason :: "string option"
  tv_age :: "int option"

definition verifyFormToken :: "services \<Rightarrow> jstring option \<Rightarrow> int \<Rightarrow> token_verdict" where
  "verifyFormToken sv token now =
     (let raw = js_trim (or_empty token);
          issuedAt = takeWhile (\<lambda>u. u \<noteq> 46) raw;
          sig = drop (Suc (length issuedAt)) raw
      in if raw = [] then \<lparr>tv_reason = Some ''missing'', tv_age = None\<rparr>
         else if issuedAt = raw \<or> issuedAt = []
         then \<lparr>tv_reason = Some ''malformed'', tv_age = None\<rparr>
         else if \<not> list_all is_digit issuedAt
         then \<lparr>tv_reason = Some ''malformed'', tv_age = None\<rparr>
         else if sig \<noteq> hmac_hex sv issuedAt
         then \<lparr>tv_reason = Some ''bad_signature'', tv_age = None\<rparr>
         else let ageMs = now - int (js_to_nat issuedAt)
              in if ageMs < MIN_AGE_MS sv then \<lparr>tv_reason = Some ''too_fast'', tv_age = Some ageMs\<rparr>
                 else if ageMs > MAX_AGE_MS sv
                 then \<lparr>tv_reason = Some ''expired'', tv_age = Some ageMs\<rparr>
                 else \<lparr>tv_reason = None, tv_age = Some ageMs\<rparr>)"

lemma digit_not_dot: "is_digit u \<Longrightarrow> u \<noteq> 46"
  by (auto simp: is_digit_def)

lemma digit_not_space: "is_digit u \<Longrightarrow> \<not> js_space u"
  by (auto simp: is_digit_def js_space_def)

lemma takeWhile_stops: "\<forall>u \<in> set a. P u \<Longrightarrow> \<not> P b \<Longrightarrow> takeWhile P (a @ b # s) = a"
  by (simp add: takeWhile_append)

lemma js_trim_no_space:
  "s \<noteq> [] \<Longrightarrow> \<not> js_space (hd s) \<Longrightarrow> \<not> js_space (last s) \<Longrightarrow> js_trim s = s"
  by (simp add: js_trim_def dropWhile_self hd_rev)

text \<open>Hexadecimal output of the keyed hash: never empty and free of white space.\<close>

definition hex_signatures :: "services \<Rightarrow> bool" where
  "hex_signatures sv \<longleftrightarrow> (\<forall>s. hmac_hex sv s \<noteq> [] \<and> \<not> js_space (last (hmac_hex sv s)))"

lemma issued_token_trim:
  assumes "hex_signatures sv"
  shows "js_trim (issueFormToken sv t) = issueFormToken sv t"
proof (rule js_trim_no_space)
  show "\<not> js_space (hd (issueFormToken sv t))"
    using js_of_nat_digits [of t] by (cases "js_of_nat t") (auto simp: issueFormToken_def digit_not_space)
  show "\<not> js_space (last (issueFormToken sv t))"
    using assms by (simp add: issueFormToken_def hex_signatures_def Let_def)
qed (simp add: issueFormToken_def Let_def)

text \<open>
  C39: A token the server issued at \<open>t\<close> and gets back at \<open>now\<close> is judged by its age alone:
  too fast below the minimum age, expired above the maximum, valid in between, and the age
  reported is the time that passed.
\<close>

theorem form_token_round_trip:
  assumes "hex_signatures sv"
  shows "verifyFormToken sv (Some (issueFormToken sv t)) now =
           \<lparr>tv_reason = (if now - int t < MIN_AGE_MS sv then Some ''too_fast''
                         else if now - int t > MAX_AGE_MS sv then Some ''expired'' else None),
            tv_age = Some (now - int t)\<rparr>"
proof -
  let ?tok = "issueFormToken sv t"
  have tw: "takeWhile (\<lambda>u. u \<noteq> 46) ?tok = js_of_nat t"
    unfolding issueFormToken_def Let_def
    using js_of_nat_digits [of t] by (intro takeWhile_stops) (auto dest: digit_not_dot)
  have "list_all is_digit (js_of_nat t)" using js_of_nat_digits by (simp add: list_all_iff)
  moreover have "js_of_nat t \<noteq> ?tok" and "?tok \<noteq> []"
    and "drop (Suc (length (js_of_nat t))) ?tok = hmac_hex sv (js_of_nat t)"
    by (simp_all add: issueFormToken_def Let_def)
  ultimately show ?thesis
    by (simp add: verifyFormToken_def issued_token_trim [OF assms] tw Let_def)
qed

lemma takeWhile_split:
  assumes "takeWhile P s \<noteq> s"
  shows "\<exists>c r. s = takeWhile P s @ c # r \<and> \<not> P c"
  by (metis assms append.right_neutral hd_Cons_tl hd_dropWhile takeWhile_dropWhile_id)

text \<open>
  Nothing but a correctly signed, recent token is accepted: a valid verdict means that the
  text is a decimal time stamp, a dot and the server's own signature of exactly that time
  stamp, and that the age of the time stamp lies within the configured window.
\<close>

theorem form_token_unforgeable:
  assumes "tv_reason (verifyFormToken sv token now) = None"
  shows "\<exists>issuedAt. js_trim (or_empty token) = issuedAt @ 46 # hmac_hex sv issuedAt
           \<and> issuedAt \<noteq> [] \<and> list_all is_digit issuedAt
           \<and> MIN_AGE_MS sv \<le> now - int (js_to_nat issuedAt)
           \<and> now - int (js_to_nat issuedAt) \<le> MAX_AGE_MS sv"
proof -
  let ?raw = "js_trim (or_empty token)"
  let ?iss = "takeWhile (\<lambda>u. u \<noteq> 46) ?raw"
  have ok: "?raw \<noteq> []" "?iss \<noteq> ?raw" "?iss \<noteq> []" "list_all is_digit ?iss"
    "drop (Suc (length ?iss)) ?raw = hmac_hex sv ?iss"
    "MIN_AGE_MS sv \<le> now - int (js_to_nat ?iss)" "now - int (js_to_nat ?iss) \<le> MAX_AGE_MS sv"
    using assms by (auto simp: verifyFormToken_def Let_def split: if_splits)
  obtain c r where s: "?raw = ?iss @ c # r" "c = 46"
    using takeWhile_split [OF ok(2)] by blast
  have "drop (Suc (length a)) (a @ c # r) = r" for a :: jstring by simp
  with s(1) have "drop (Suc (length ?iss)) ?raw = r" by metis
  with s ok show ?thesis by (metis)
qed

lemma hex_signatures_demo: "hex_signatures demo_services"
proof -
  have "48 + u mod 10 \<notin> set [9, 10, 11, 12, 13, 32, 160, 5760, 8232, 8233, 8239, 8287, 12288, 65279]
        \<and> 48 + u mod 10 < 8192" for u :: nat
    using mod_less_divisor [of 10 u] by auto
  then have "\<not> js_space (48 + u mod 10)" for u :: nat by (simp add: js_space_def)
  then have "\<not> js_space (last (49 # map (\<lambda>u. 48 + u mod 10) s))" for s :: jstring
    by (cases s rule: rev_cases) (auto simp: js_space_def)
  then show ?thesis by (simp add: hex_signatures_def demo_services_def)
qed

lemma form_token_round_trip_witness:
  "tv_reason (verifyFormToken demo_services (Some (issueFormToken demo_services 1000)) 2000) = Some ''too_fast''
   \<and> tv_reason (verifyFormToken demo_services (Some (issueFormToken demo_services 1000)) 5000) = None"
  using form_token_round_trip [OF hex_signatures_demo, of 1000 2000]
    form_token_round_trip [OF hex_signatures_demo, of 1000 5000]
  by (simp add: MIN_AGE_MS_def MAX_AGE_MS_def env_or_def demo_services_def)

lemma demo_token_valid:
  "verifyFormToken demo_services (Some (js ''1.19'')) 5000 = \<lparr>tv_reason = None, tv_age = Some 4999\<rparr>"
  by (simp add: verifyFormToken_def js_trim_def js_space_def is_digit_def demo_services_def
      js_to_nat_def MIN_AGE_MS_def MAX_AGE_MS_def env_or_def Let_def)

lemma form_token_unforgeable_witness:
  "\<exists>issuedAt. js ''1.19'' = issuedAt @ 46 # hmac_hex demo_services issuedAt"
proof -
  have "js_trim (js ''1.19'') = js ''1.19''" by (simp add: js_trim_def js_space_def)
  with form_token_unforgeable [of demo_services "Some (js ''1.19'')" 5000] demo_token_valid
  show ?thesis by (auto simp del: js_Cons)
qed

section \<open>The hashed network identity\<close>

text \<open>\<open>voterHash(req)\<close>: no identity without an address.\<close>

definition voterHash :: "services \<Rightarrow> jstring option \<Rightarrow> jstring option" where
  "voterHash sv ip =
     (let a = js_trim (or_empty ip) in if a = [] then None else Some (hmac_hex sv a))"

end
