(* ===== verification/Spam_Score.thy ===== *)
theory Spam_Score
  imports Runtime
begin

text \<open>
  \<open>src/common/spamScore.js\<close>: the content score of an anonymous submission and the two
  thresholds.  A pure function of the submission; the only thing it takes from outside is the
  URL parser (\<open>url_host\<close>) and, for the thresholds, the environment.
\<close>

section \<open>Finding links\<close>

definition ascii_lower :: "nat \<Rightarrow> nat" where
  "ascii_lower u = (if 65 \<le> u \<and> u \<le> 90 then u + 32 else u)"

text \<open>
  What follows \<open>https?://\<close> at the start of the text; \<open>cf\<close> is \<open>ascii_lower\<close> for a regular
  expression with the \<open>i\<close> flag and the identity without it.
\<close>

definition scheme_rest :: "(nat \<Rightarrow> nat) \<Rightarrow> jstring \<Rightarrow> jstring option" where
  "scheme_rest cf s =
     (if take 8 (map cf s) = js ''https://'' then Some (drop 8 s)
      else if take 7 (map cf s) = js ''http://'' then Some (drop 7 s) else None)"

text \<open>The length of the match of \<open>https?://body+\<close> at the start of the text.\<close>

definition url_at :: "(nat \<Rightarrow> nat) \<Rightarrow> (nat \<Rightarrow> bool) \<Rightarrow> jstring \<Rightarrow> nat option" where
  "url_at cf body s =
     (case scheme_rest cf s of
        None \<Rightarrow> None
      | Some r \<Rightarrow>
          let b = takeWhile body r
          in if b = [] then None else Some (length s - length r + length b))"

lemma scheme_rest_length: "scheme_rest cf s = Some r \<Longrightarrow> length r + 7 \<le> length s"
proof -
  assume a: "scheme_rest cf s = Some r"
  have 1: "take 8 (map cf s) = js ''https://'' \<Longrightarrow> 8 \<le> length s"
    by (drule arg_cong [where f = length]) simp
  have 2: "take 7 (map cf s) = js ''http://'' \<Longrightarrow> 7 \<le> length s"
    by (drule arg_cong [where f = length]) simp
  from a 1 2 show ?thesis by (auto simp: scheme_rest_def split: if_splits)
qed

lemma url_at_pos: "url_at cf body s = Some n \<Longrightarrow> 0 < n"
  by (auto simp: url_at_def Let_def dest!: scheme_rest_length split: option.splits if_splits)

text \<open>\<open>text.match(URL_RE)\<close>: the leftmost matches, each search starting where the last one ended.\<close>

function url_matches :: "(nat \<Rightarrow> nat) \<Rightarrow> (nat \<Rightarrow> bool) \<Rightarrow> jstring \<Rightarrow> jstring list" where
  "url_matches cf body [] = []"
| "url_matches cf body (c # cs) =
     (case url_at cf body (c # cs) of
        Some n \<Rightarrow> take n (c # cs) # url_matches cf body (drop n (c # cs))
      | None \<Rightarrow> url_matches cf body cs)"
  by pat_completeness auto
termination
  by (relation "measure (\<lambda>(cf, body, s). length s)") (auto dest: url_at_pos)

text \<open>\<open>s.replace(/https?:\/\/\S+/g, " ")\<close>.\<close>

function blank_urls :: "jstring \<Rightarrow> jstring" where
  "blank_urls [] = []"
| "blank_urls (c # cs) =
     (case url_at id (\<lambda>u. \<not> js_space u) (c # cs) of
        Some n \<Rightarrow> 32 # blank_urls (drop n (c # cs))
      | None \<Rightarrow> c # blank_urls cs)"
  by pat_completeness auto
termination
  by (relation "measure length") (auto dest: url_at_pos)

text \<open>\<open>[^\s<>"')]\<close>.\<close>

definition url_char :: "nat \<Rightarrow> bool" where
  "url_char u \<longleftrightarrow> \<not> js_space u \<and> u \<notin> set [60, 62, 34, 39, 41]"

definition URL_RE_matches :: "jstring \<Rightarrow> jstring list" where
  "URL_RE_matches s = url_matches ascii_lower url_char s"

definition URL_TEST_RE :: "jstring \<Rightarrow> bool" where
  "URL_TEST_RE s \<longleftrightarrow> URL_RE_matches s \<noteq> []"

section \<open>Textual measures\<close>

fun squash_spaces :: "jstring \<Rightarrow> jstring" where
  "squash_spaces [] = []"
| "squash_spaces (c # cs) =
     (if js_space c
      then (case squash_spaces cs of [] \<Rightarrow> [32] | d # ds \<Rightarrow> if d = 32 then d # ds else 32 # d # ds)
      else c # squash_spaces cs)"

definition is_alnum_lower :: "nat \<Rightarrow> bool" where
  "is_alnum_lower u \<longleftrightarrow> is_lower_ascii u \<or> is_digit u"

definition normalizeForCompare :: "jstring \<Rightarrow> jstring" where
  "normalizeForCompare text =
     js_trim (squash_spaces
       (map (\<lambda>u. if is_alnum_lower u \<or> js_space u then u else 32) (blank_urls (js_lower text))))"

text \<open>
  \<open>capsRatio(text) > 0.8\<close>: the quotient of two integers exceeds 0.8 in double precision
  exactly when it does as a rational, so the comparison is made without division.
\<close>

definition letters_of :: "jstring \<Rightarrow> jstring" where
  "letters_of s = filter (\<lambda>u. is_upper_ascii u \<or> is_lower_ascii u) s"

definition capsRatio_over :: "nat \<Rightarrow> nat \<Rightarrow> jstring \<Rightarrow> bool" where
  "capsRatio_over num den s =
     (let letters = letters_of s
      in if length letters < 12 then False
         else num * length letters < den * length (filter is_upper_ascii letters))"

fun repeat_run :: "nat \<Rightarrow> nat \<Rightarrow> jstring \<Rightarrow> nat" where
  "repeat_run best run (a # b # s) =
     (if b = a then repeat_run (if run + 1 > best then run + 1 else best) (run + 1) (b # s)
      else repeat_run best 1 (b # s))"
| "repeat_run best run s = best"

definition longestRepeatRun :: "jstring \<Rightarrow> nat" where
  "longestRepeatRun s = repeat_run 0 1 s"

definition LATIN_RANGE_RE :: "nat \<Rightarrow> bool" where
  "LATIN_RANGE_RE u \<longleftrightarrow> (32 \<le> u \<and> u \<le> 591) \<or> (8192 \<le> u \<and> u \<le> 8303)"

definition nonLatinRatio_over :: "nat \<Rightarrow> nat \<Rightarrow> jstring \<Rightarrow> bool" where
  "nonLatinRatio_over num den text =
     (let s = filter (\<lambda>u. \<not> js_space u) text
      in if length s < 20 then False
         else num * length s < den * length (filter (\<lambda>u. \<not> LATIN_RANGE_RE u) s))"

section \<open>The score\<close>

definition SPAM_PHRASES :: "string list" where
  "SPAM_PHRASES =
     [''buy now'', ''click here now'', ''make money fast'', ''work from home'', ''casino'',
      ''porn'', ''viagra'', ''cialis'', ''payday loan'', ''forex trading'', ''binary options'',
      ''crypto giveaway'', ''bitcoin doubler'', ''seo services'', ''backlinks'', ''cheap rolex'',
      ''replica watches'', ''escort service'', ''hot singles'', ''weight loss pills'',
      ''limited time offer'', ''act now'', ''100% free'', ''risk free'', ''no credit check'']"

record spam_input =
  si_title :: jstring
  si_body :: jstring
  si_disposable :: bool
  si_no_mx :: bool
  si_token_reason :: "string option"
  si_duplicates :: nat

type_synonym signal = "nat \<times> string"

definition link_signals :: "(jstring \<Rightarrow> jstring option) \<Rightarrow> spam_input \<Rightarrow> signal list" where
  "link_signals host i =
     (let urls = URL_RE_matches (si_title i @ 10 # si_body i);
          hosts = map (\<lambda>u. case host u of Some h \<Rightarrow> js_lower h | None \<Rightarrow> js_lower u) urls
      in (if length urls \<ge> 5 then [(8, ''many_links'')]
          else if length urls \<ge> 3 then [(5, ''several_links'')] else [])
       @ (if length urls \<ge> 2 \<and> length (remdups hosts) \<ge> 3
          then [(4, ''multiple_link_domains'')] else [])
       @ (if URL_TEST_RE (si_title i) then [(5, ''link_in_title'')] else []))"

definition sender_signals :: "spam_input \<Rightarrow> signal list" where
  "sender_signals i =
     (if si_duplicates i \<ge> 3 then [(9, ''repeat_duplicate'')]
      else if si_duplicates i \<ge> 1 then [(5, ''duplicate'')] else [])
     @ (if si_disposable i then [(5, ''disposable_email'')] else [])
     @ (if si_no_mx i then [(4, ''email_domain_no_mx'')] else [])"

definition token_signals :: "string option \<Rightarrow> signal list" where
  "token_signals r =
     (case r of
        None \<Rightarrow> []
      | Some x \<Rightarrow>
          if x = ''too_fast'' then [(6, ''submitted_too_fast'')]
          else if x = ''bad_signature'' \<or> x = ''malformed'' then [(6, ''invalid_form_token'')]
          else if x = ''expired'' then [(2, ''stale_form_token'')]
          else [(3, ''no_form_token'')])"

definition lexical_signals :: "spam_input \<Rightarrow> signal list" where
  "lexical_signals i =
     (let text = si_title i @ 10 # si_body i;
          haystack = js_lower text;
          hits = length (filter (\<lambda>p. js_includes haystack (js p)) SPAM_PHRASES);
          nt = normalizeForCompare (si_title i);
          nb = normalizeForCompare (si_body i)
      in (if hits \<ge> 3 then [(6, ''spam_phrases'')]
          else if hits = 2 then [(4, ''spam_phrases'')]
          else if hits = 1 then [(2, ''spam_phrase'')] else [])
       @ (if capsRatio_over 4 5 text then [(2, ''all_caps'')] else [])
       @ (if longestRepeatRun text \<ge> 15 then [(2, ''repeated_characters'')] else [])
       @ (if nonLatinRatio_over 3 5 text then [(2, ''mostly_non_latin'')] else [])
       @ (if nt \<noteq> [] \<and> nb \<noteq> [] \<and> nt = nb then [(2, ''body_repeats_title'')] else []))"

definition clamp255 :: "int \<Rightarrow> int" where
  "clamp255 n = max 0 (min 255 n)"

definition spam_signals :: "(jstring \<Rightarrow> jstring option) \<Rightarrow> spam_input \<Rightarrow> signal list" where
  "spam_signals host i =
     link_signals host i @ sender_signals i @ token_signals (si_token_reason i) @ lexical_signals i"

definition spamScore :: "(jstring \<Rightarrow> jstring option) \<Rightarrow> spam_input \<Rightarrow> int \<times> string list" where
  "spamScore host i =
     (let s = spam_signals host i in (clamp255 (int (sum_list (map fst s))), map snd s))"

definition HIDE_THRESHOLD :: "services \<Rightarrow> int" where
  "HIDE_THRESHOLD sv = env_or sv ''SPAM_SCORE_HIDE'' 12"

definition FLAG_THRESHOLD :: "services \<Rightarrow> int" where
  "FLAG_THRESHOLD sv = env_or sv ''SPAM_SCORE_FLAG'' 6"

definition moderationStateFor :: "services \<Rightarrow> int \<Rightarrow> moderation" where
  "moderationStateFor sv score = (if score \<ge> HIDE_THRESHOLD sv then Spam else Published)"

definition isFlagged :: "services \<Rightarrow> int \<Rightarrow> bool" where
  "isFlagged sv score \<longleftrightarrow> score \<ge> FLAG_THRESHOLD sv"

section \<open>Bounds of the score\<close>

abbreviation points :: "signal list \<Rightarrow> nat" where
  "points s \<equiv> sum_list (map fst s)"

text \<open>The two shapes a signal takes: one that may fire, and the stronger of two or three.\<close>

lemma points_if: "points xs \<le> k \<Longrightarrow> points (if b then [(n, r)] else xs) \<le> max n k"
  by auto

lemma points_append: "points xs \<le> k \<Longrightarrow> points ys \<le> l \<Longrightarrow> points (xs @ ys) \<le> k + l"
  by simp

lemma points_Nil: "points [] \<le> 0"
  by simp

lemmas points_rules = points_append points_if points_Nil

lemma link_signals_points: "points (link_signals host i) \<le> 17"
  unfolding link_signals_def Let_def
  by (rule order_trans, (rule points_rules)+, simp)

lemma sender_signals_points: "points (sender_signals i) \<le> 18"
  unfolding sender_signals_def
  by (rule order_trans, (rule points_rules)+, simp)

lemma token_signals_points: "points (token_signals r) \<le> 6"
  by (simp add: token_signals_def split: option.splits)

lemma lexical_signals_points: "points (lexical_signals i) \<le> 14"
  unfolding lexical_signals_def Let_def
  by (rule order_trans, (rule points_rules)+, simp)

lemma spam_signals_points: "points (spam_signals host i) \<le> 55"
  using link_signals_points [of host i] sender_signals_points [of i]
    token_signals_points [of "si_token_reason i"] lexical_signals_points [of i]
  by (simp add: spam_signals_def)

definition light :: "signal list \<Rightarrow> bool" where
  "light s \<longleftrightarrow> list_all (\<lambda>x. 0 < fst x \<and> fst x \<le> 9) s"

lemma light_Nil: "light []"
  by (simp add: light_def)

lemma light_append: "light s \<Longrightarrow> light r \<Longrightarrow> light (s @ r)"
  by (simp add: light_def)

lemma light_if: "light [x] \<Longrightarrow> light s \<Longrightarrow> light (if b then [x] else s)"
  by simp

lemma light_one: "0 < n \<Longrightarrow> n \<le> 9 \<Longrightarrow> light [(n, r)]"
  by (simp add: light_def)

lemma light_token: "light (token_signals r)"
  unfolding token_signals_def
  by (cases r) (simp_all only: option.case light_Nil, (rule light_if light_one | simp)+)

lemma spam_signals_light: "light (spam_signals host i)"
  unfolding spam_signals_def link_signals_def sender_signals_def lexical_signals_def Let_def
  by (rule light_append light_if light_Nil light_one light_token | simp)+

lemma spam_signals_weights: "x \<in> set (spam_signals host i) \<Longrightarrow> 0 < fst x \<and> fst x \<le> 9"
  using spam_signals_light [of host i] by (auto simp: light_def list_all_iff)

lemma spamScore_points: "fst (spamScore host i) = int (points (spam_signals host i))"
  using spam_signals_points [of host i] by (simp add: spamScore_def Let_def clamp255_def)

lemma spamScore_reasons: "snd (spamScore host i) = map snd (spam_signals host i)"
  by (simp add: spamScore_def Let_def)

lemma points_bound: "(\<And>x. x \<in> set s \<Longrightarrow> fst x \<le> k) \<Longrightarrow> points s \<le> k * length s"
  by (induction s) (auto simp: algebra_simps intro: add_mono)

lemma points_zero: "(\<And>x. x \<in> set s \<Longrightarrow> 0 < fst x) \<Longrightarrow> points s = 0 \<longleftrightarrow> s = []"
  by (cases s) auto

text \<open>
  The spam score is the plain sum of the weights of the signals that fired: it lies between
  0 and 55, so the clamp to a byte never changes it, and it is 0 exactly when no reason is
  recorded.
\<close>

theorem spamScore_bounds:
  "fst (spamScore host i) = int (points (spam_signals host i))
   \<and> 0 \<le> fst (spamScore host i) \<and> fst (spamScore host i) \<le> 55
   \<and> (fst (spamScore host i) = 0 \<longleftrightarrow> snd (spamScore host i) = [])"
proof -
  have "points (spam_signals host i) = 0 \<longleftrightarrow> spam_signals host i = []"
    by (rule points_zero) (simp add: spam_signals_weights)
  then show ?thesis
    using spam_signals_points [of host i]
    by (simp only: spamScore_points spamScore_reasons) simp
qed

text \<open>
  With the default thresholds no single signal hides a submission: whatever is quarantined
  as spam carries at least two distinct pieces of evidence, and whatever is hidden is also
  above the flag threshold.
\<close>

theorem hidden_needs_two_reasons:
  assumes "env_num sv ''SPAM_SCORE_HIDE'' = None" and "env_num sv ''SPAM_SCORE_FLAG'' = None"
    and "moderationStateFor sv (fst (spamScore host i)) = Spam"
  shows "2 \<le> length (snd (spamScore host i)) \<and> isFlagged sv (fst (spamScore host i))"
proof -
  have "12 \<le> points (spam_signals host i)"
    using assms by (simp add: moderationStateFor_def HIDE_THRESHOLD_def env_or_def
        spamScore_points split: if_splits)
  moreover have "points (spam_signals host i) \<le> 9 * length (spam_signals host i)"
    by (rule points_bound) (simp add: spam_signals_weights)
  ultimately show ?thesis
    using assms(2) by (simp add: spamScore_points spamScore_reasons isFlagged_def
        FLAG_THRESHOLD_def env_or_def)
qed

section \<open>The repetition detector\<close>

lemma sublist_replicate_self: "sublist (replicate k c) (replicate n a) \<Longrightarrow> k \<le> n"
  by (drule sublist_length_le) simp

lemma replicate_across_change:
  assumes "sublist (replicate k c) (replicate n a @ b # s)" and "a \<noteq> b"
  shows "k \<le> n \<or> sublist (replicate k c) (b # s)"
proof -
  from assms(1) consider "sublist (replicate k c) (replicate n a)" | "sublist (replicate k c) (b # s)"
    | xs ys where "replicate k c = xs @ ys" "suffix xs (replicate n a)" "prefix ys (b # s)"
    unfolding sublist_append by blast
  then show ?thesis
  proof cases
    case 1
    then show ?thesis by (simp add: sublist_replicate_self)
  next
    case 2
    then show ?thesis by simp
  next
    case 3
    show ?thesis
    proof (cases ys)
      case Nil
      with 3 have "sublist (replicate k c) (replicate n a)" by (simp add: suffix_imp_sublist)
      then show ?thesis by (simp add: sublist_replicate_self)
    next
      case (Cons y ys')
      with 3(3) have "y = b" by simp
      have "\<forall>x \<in> set (xs @ ys). x = c" using 3(1) by (metis in_set_replicate)
      then have "set xs \<subseteq> {c}" and "y = c" using Cons by auto
      moreover have "set xs \<subseteq> {a}" using 3(2) by (auto dest!: set_mono_suffix)
      ultimately have "xs = []" using \<open>y = b\<close> assms(2) by (cases xs) auto
      with 3 have "sublist (replicate k c) (b # s)" by (simp add: prefix_imp_sublist)
      then show ?thesis by simp
    qed
  qed
qed

lemma repeat_run_spec:
  assumes "2 \<le> k" and "run = 1 \<or> run \<le> best"
  shows "k \<le> repeat_run best run (a # s) \<longleftrightarrow>
         k \<le> best \<or> (\<exists>c. sublist (replicate k c) (replicate run a @ s))"
  using assms(2)
proof (induction s arbitrary: best run a)
  case Nil
  then show ?case using assms(1) by (auto dest: sublist_replicate_self)
next
  case (Cons b s)
  show ?case
  proof (cases "b = a")
    case True
    let ?best = "if run + 1 > best then run + 1 else best"
    have eq: "replicate run a @ a # s = replicate (run + 1) a @ s"
      by (simp add: replicate_app_Cons_same)
    have sub: "k \<le> run + 1 \<Longrightarrow> sublist (replicate k a) (replicate (run + 1) a @ s)"
    proof -
      assume "k \<le> run + 1"
      then have "prefix (replicate k a) (replicate (run + 1) a @ s)"
        by (metis le_add_diff_inverse prefixI replicate_add append.assoc)
      then show ?thesis by (rule prefix_imp_sublist)
    qed
    have "k \<le> repeat_run ?best (run + 1) (a # s) \<longleftrightarrow>
          k \<le> ?best \<or> (\<exists>c. sublist (replicate k c) (replicate (run + 1) a @ s))"
      by (rule Cons.IH) simp
    also have "\<dots> \<longleftrightarrow> k \<le> best \<or> (\<exists>c. sublist (replicate k c) (replicate run a @ a # s))"
      unfolding eq using sub by (auto split: if_splits)
    finally show ?thesis using True by simp
  next
    case False
    have "k \<le> repeat_run best 1 (b # s) \<longleftrightarrow>
          k \<le> best \<or> (\<exists>c. sublist (replicate k c) (replicate 1 b @ s))"
      by (rule Cons.IH) simp
    also have "\<dots> \<longleftrightarrow> k \<le> best \<or> (\<exists>c. sublist (replicate k c) (replicate run a @ b # s))"
    proof (cases "k \<le> best")
      case False
      then have "\<not> k \<le> run" using Cons.prems assms(1) by linarith
      then have "sublist (replicate k c) (replicate run a @ b # s) \<Longrightarrow>
                 sublist (replicate k c) (b # s)" for c
        using replicate_across_change \<open>b \<noteq> a\<close> by metis
      moreover have "sublist (replicate k c) (b # s) \<Longrightarrow>
                     sublist (replicate k c) (replicate run a @ b # s)" for c
        by (rule sublist_order.order.trans [OF _ sublist_append_leftI])
      ultimately show ?thesis using False by auto
    qed simp
    finally show ?thesis using False by simp
  qed
qed

text \<open>
  The single pass over the text finds exactly the runs: for any length of at least two, the
  measured longest run reaches it when and only when some character occurs that many times in
  a row, so the 15-character threshold means what it says.
\<close>

theorem longestRepeatRun_spec:
  assumes "2 \<le> k"
  shows "k \<le> longestRepeatRun s \<longleftrightarrow> (\<exists>c. sublist (replicate k c) s)"
proof (cases s)
  case Nil
  with assms show ?thesis by (auto simp: longestRepeatRun_def)
next
  case (Cons a s')
  with assms repeat_run_spec [of k 1 0 a s'] show ?thesis by (simp add: longestRepeatRun_def)
qed

section \<open>The comparison form\<close>

definition compare_form :: "jstring \<Rightarrow> bool" where
  "compare_form s \<longleftrightarrow>
     (\<forall>u \<in> set s. is_alnum_lower u \<or> u = 32) \<and> \<not> sublist [32, 32] s
     \<and> (s = [] \<or> hd s \<noteq> 32 \<and> last s \<noteq> 32)"

lemma alnum_not_space: "is_alnum_lower u \<Longrightarrow> \<not> js_space u"
  by (auto simp: is_alnum_lower_def is_lower_ascii_def is_digit_def js_space_def)

lemma squash_spaces_chars:
  "u \<in> set (squash_spaces s) \<Longrightarrow> u = 32 \<or> (u \<in> set s \<and> \<not> js_space u)"
  by (induction s) (auto split: list.splits if_splits)

lemma squash_spaces_hd_space: "js_space c \<Longrightarrow> squash_spaces (c # s) \<noteq> [] \<and> hd (squash_spaces (c # s)) = 32"
  by (auto split: list.splits)

lemma squash_spaces_no_double: "\<not> sublist [32, 32] (squash_spaces s)"
proof (induction s)
  case (Cons c s)
  have "js_space 32" by (simp add: js_space_def)
  with Cons show ?case
    by (auto simp: sublist_Cons_right split: list.splits)
qed simp

lemma js_trim_sublist: "sublist (js_trim s) s"
proof -
  have "suffix (dropWhile js_space s) s" by (rule suffix_dropWhile)
  moreover have "suffix (dropWhile js_space (rev (dropWhile js_space s)))
                        (rev (dropWhile js_space s))" by (rule suffix_dropWhile)
  then have "prefix (js_trim s) (dropWhile js_space s)"
    by (simp add: js_trim_def suffix_to_prefix)
  ultimately show ?thesis
    by (meson prefix_imp_sublist suffix_imp_sublist sublist_order.order.trans)
qed

lemma js_trim_ends:
  "js_trim s = [] \<or> \<not> js_space (hd (js_trim s)) \<and> \<not> js_space (last (js_trim s))"
proof -
  have "js_trim (js_trim s) = js_trim s" by simp
  have last: "js_trim s \<noteq> [] \<Longrightarrow> \<not> js_space (last (js_trim s))" for s
    unfolding js_trim_def by (metis hd_dropWhile last_rev rev_is_Nil_conv)
  moreover have "js_trim s \<noteq> [] \<Longrightarrow> \<not> js_space (hd (js_trim s))"
  proof -
    assume ne: "js_trim s \<noteq> []"
    have p: "prefix (js_trim s) (dropWhile js_space s)"
      using suffix_dropWhile [of js_space "rev (dropWhile js_space s)"]
      by (simp add: js_trim_def suffix_to_prefix)
    with ne have "hd (js_trim s) = hd (dropWhile js_space s)" by (auto simp: prefix_def)
    moreover from ne p have "dropWhile js_space s \<noteq> []" by (metis prefix_Nil)
    ultimately show ?thesis by (metis hd_dropWhile)
  qed
  ultimately show ?thesis by blast
qed

lemma compare_form_normalize: "compare_form (normalizeForCompare t)"
proof -
  let ?m = "map (\<lambda>u. if is_alnum_lower u \<or> js_space u then u else 32) (blank_urls (js_lower t))"
  let ?q = "squash_spaces ?m"
  have n: "normalizeForCompare t = js_trim ?q" by (simp add: normalizeForCompare_def)
  have chars: "is_alnum_lower u \<or> u = 32" if "u \<in> set ?q" for u
    using squash_spaces_chars [OF that] by auto
  have sub: "sublist (js_trim ?q) ?q" by (rule js_trim_sublist)
  have "js_space 32" by (simp add: js_space_def)
  with js_trim_ends [of ?q] have "js_trim ?q = [] \<or> hd (js_trim ?q) \<noteq> 32 \<and> last (js_trim ?q) \<noteq> 32"
    by auto
  then show ?thesis
    unfolding compare_form_def n
    using sub chars squash_spaces_no_double [of ?m] set_mono_sublist [OF sub]
    by (meson sublist_order.order.trans subsetD)
qed

lemma scheme_rest_plain: "58 \<notin> cf ` set s \<Longrightarrow> scheme_rest cf s = None"
proof -
  assume "58 \<notin> cf ` set s"
  then have no: "58 \<notin> set (take n (map cf s))" for n
    by (metis in_set_takeD set_map)
  have "58 \<in> set (js ''https://'')" and "58 \<in> set (js ''http://'')" by simp_all
  with no have "take 8 (map cf s) \<noteq> js ''https://''" and "take 7 (map cf s) \<noteq> js ''http://''"
    by metis+
  then show ?thesis by (simp add: scheme_rest_def)
qed

lemma url_at_plain: "58 \<notin> cf ` set s \<Longrightarrow> url_at cf body s = None"
  by (simp add: url_at_def scheme_rest_plain)

lemma blank_urls_plain: "58 \<notin> set s \<Longrightarrow> blank_urls s = s"
  by (induction s rule: blank_urls.induct) (simp_all add: url_at_plain)

lemma url_matches_plain: "58 \<notin> cf ` set s \<Longrightarrow> url_matches cf body s = []"
  by (induction cf body s rule: url_matches.induct) (simp_all add: url_at_plain)

lemma squash_spaces_fixed:
  assumes "\<forall>u \<in> set s. is_alnum_lower u \<or> u = 32" and "\<not> sublist [32, 32] s"
  shows "squash_spaces s = s"
  using assms
proof (induction s)
  case (Cons c s)
  have "squash_spaces s = s" using Cons by (auto simp: sublist_Cons_right)
  moreover have "js_space c \<Longrightarrow> c = 32" using Cons.prems(1) by (auto dest: alnum_not_space)
  ultimately show ?case using Cons.prems by (cases s) auto
qed simp

lemma js_trim_fixed:
  assumes "s = [] \<or> \<not> js_space (hd s) \<and> \<not> js_space (last s)"
  shows "js_trim s = s"
  using assms by (auto simp: js_trim_def dropWhile_self hd_rev)

lemma compare_form_fixed:
  assumes "compare_form s"
  shows "normalizeForCompare s = s"
proof -
  have c: "\<forall>u \<in> set s. is_alnum_lower u \<or> u = 32" using assms by (simp add: compare_form_def)
  have "js_lower s = s"
    unfolding js_lower_def using c
    by (intro map_idI) (auto simp: lower_unit_def is_alnum_lower_def is_lower_ascii_def is_digit_def)
  moreover have "58 \<notin> set s"
    using c by (auto simp: is_alnum_lower_def is_lower_ascii_def is_digit_def)
  moreover have "map (\<lambda>u. if is_alnum_lower u \<or> js_space u then u else 32) s = s"
    using c by (intro map_idI) (auto simp: js_space_def)
  moreover have "squash_spaces s = s"
    using assms by (intro squash_spaces_fixed) (simp_all add: compare_form_def)
  moreover have "js_trim s = s"
  proof (rule js_trim_fixed)
    have "js_space u \<Longrightarrow> u \<in> set s \<Longrightarrow> u = 32" for u using c by (auto dest: alnum_not_space)
    then show "s = [] \<or> \<not> js_space (hd s) \<and> \<not> js_space (last s)"
      using assms unfolding compare_form_def by (metis hd_in_set last_in_set)
  qed
  ultimately show ?thesis by (simp add: normalizeForCompare_def blank_urls_plain)
qed

text \<open>
  The comparison form of a text is canonical: it consists of lower-case ASCII letters and
  digits in words separated by single blanks, and normalising it again changes nothing.
\<close>

theorem normalizeForCompare_canonical:
  "compare_form (normalizeForCompare t)
   \<and> normalizeForCompare (normalizeForCompare t) = normalizeForCompare t"
  using compare_form_normalize compare_form_fixed by blast

section \<open>What wording alone can do\<close>

definition shouted_text :: jstring where
  "shouted_text = js ''CASINO PORN VIAGRA !!!!!!!!!!!!!!!''"

definition shouted_spam :: spam_input where
  "shouted_spam =
     \<lparr>si_title = shouted_text, si_body = shouted_text, si_disposable = False, si_no_mx = False,
      si_token_reason = None, si_duplicates = 0\<rparr>"

lemma shouted_no_links:
  "URL_RE_matches shouted_text = [] \<and> URL_RE_matches (shouted_text @ 10 # shouted_text) = []"
  by (simp add: URL_RE_matches_def url_matches_plain shouted_text_def ascii_lower_def
           del: url_matches.simps)

lemma shouted_hits:
  "3 \<le> length (filter (\<lambda>p. js_includes (js_lower (shouted_text @ 10 # shouted_text)) (js p)) SPAM_PHRASES)"
proof -
  let ?s = "js_lower (shouted_text @ 10 # shouted_text)"
  let ?hits = "filter (\<lambda>p. js_includes ?s (js p)) SPAM_PHRASES"
  have low: "js_lower shouted_text = js ''casino porn viagra !!!!!!!!!!!!!!!''"
    by (simp add: shouted_text_def js_lower_def lower_unit_def)
  have hit: "js_includes ?s (js p)" if "''casino porn viagra !!!!!!!!!!!!!!!'' = a @ p @ b" for a p b
    unfolding js_includes_iff js_lower_append low that
    by (simp add: js_def)
  have "set [''casino'', ''porn'', ''viagra''] \<subseteq> set ?hits"
    using hit [of "[]" "''casino''" "'' porn viagra !!!!!!!!!!!!!!!''"]
      hit [of "''casino ''" "''porn''" "'' viagra !!!!!!!!!!!!!!!''"]
      hit [of "''casino porn ''" "''viagra''" "'' !!!!!!!!!!!!!!!''"]
    by (simp add: SPAM_PHRASES_def)
  then have "card (set [''casino'', ''porn'', ''viagra'']) \<le> card (set ?hits)"
    by (intro card_mono) simp_all
  also have "\<dots> \<le> length ?hits" by (rule card_length)
  finally show ?thesis by simp
qed

lemma shouted_caps: "capsRatio_over 4 5 (shouted_text @ 10 # shouted_text)"
  by (simp add: shouted_text_def capsRatio_over_def letters_of_def is_upper_ascii_def is_lower_ascii_def)

lemma shouted_run: "longestRepeatRun (shouted_text @ 10 # shouted_text) = 15"
  by (simp add: shouted_text_def longestRepeatRun_def)

lemma shouted_normal: "normalizeForCompare shouted_text = js ''casino porn viagra''"
proof -
  have "58 \<notin> set (js_lower shouted_text)" by (simp add: shouted_text_def js_lower_def lower_unit_def)
  then show ?thesis
    by (simp add: normalizeForCompare_def blank_urls_plain)
       (simp add: shouted_text_def js_lower_def lower_unit_def is_alnum_lower_def
          is_lower_ascii_def is_digit_def js_space_def js_trim_def)
qed

lemma shouted_score: "12 \<le> fst (spamScore host shouted_spam)"
proof -
  have "12 \<le> points (lexical_signals shouted_spam)"
    using shouted_hits shouted_caps shouted_run
    by (simp add: lexical_signals_def shouted_spam_def shouted_normal Let_def)
  then show ?thesis by (simp add: spamScore_points spam_signals_def)
qed

lemma hidden_needs_two_reasons_witness:
  "2 \<le> length (snd (spamScore (\<lambda>_. None) shouted_spam))"
  using hidden_needs_two_reasons [of demo_services "\<lambda>_. None" shouted_spam]
    shouted_score [of "\<lambda>_. None"]
  by (simp add: demo_services_def moderationStateFor_def HIDE_THRESHOLD_def env_or_def)

lemma longestRepeatRun_spec_witness: "\<exists>c. sublist (replicate 15 c) shouted_text"
  using longestRepeatRun_spec [of 15 shouted_text]
  by (simp add: longestRepeatRun_def shouted_text_def)

text \<open>
  Wording alone can hide a submission: three stock phrases in capitals, a run of
  exclamation marks and a description repeating the title reach the hide threshold with no
  structural and no provenance signal, although the module's comment says that lexical
  signals \<open>can never alone reach the hide threshold\<close>.
\<close>

theorem wording_alone_can_hide:
  assumes "env_num sv ''SPAM_SCORE_HIDE'' = None"
  shows "link_signals host shouted_spam = [] \<and> sender_signals shouted_spam = []
         \<and> token_signals (si_token_reason shouted_spam) = []
         \<and> moderationStateFor sv (fst (spamScore host shouted_spam)) = Spam"
proof -
  have links: "link_signals host shouted_spam = []"
    by (simp add: shouted_spam_def link_signals_def URL_TEST_RE_def shouted_no_links Let_def)
  have sender: "sender_signals shouted_spam = []"
    by (simp add: shouted_spam_def sender_signals_def)
  have token: "token_signals (si_token_reason shouted_spam) = []"
    by (simp add: shouted_spam_def token_signals_def)
  have "12 \<le> fst (spamScore host shouted_spam)" by (rule shouted_score)
  with assms links sender token show ?thesis
    by (simp add: moderationStateFor_def HIDE_THRESHOLD_def env_or_def)
qed

lemma wording_alone_can_hide_witness:
  "moderationStateFor demo_services (fst (spamScore (\<lambda>_. None) shouted_spam)) = Spam"
  using wording_alone_can_hide [of demo_services "\<lambda>_. None"] by (simp add: demo_services_def)

end
