(* ===== verification/Ttl_Cache.thy ===== *)
theory Ttl_Cache
  imports Spam_Score
begin

text \<open>
  \<open>src/common/cache.js\<close> and the MX cache of \<open>src/common/emailQuality.js\<close>: JavaScript \<open>Map\<close>s as
  association lists in insertion order, the two bounded caches built on them, and the contract
  both fulfil (\<open>expiring_store\<close>), from which the absence of stale and foreign values follows.
\<close>

section \<open>JavaScript maps\<close>

type_synonym 'v js_map = "(jstring \<times> 'v) list"

definition map_has :: "jstring \<Rightarrow> 'v js_map \<Rightarrow> bool" where
  "map_has k m \<longleftrightarrow> k \<in> fst ` set m"

definition map_delete :: "jstring \<Rightarrow> 'v js_map \<Rightarrow> 'v js_map" where
  "map_delete k m = filter (\<lambda>e. fst e \<noteq> k) m"

text \<open>\<open>Map.set\<close> keeps the position of a key that is already there.\<close>

definition map_put :: "jstring \<Rightarrow> 'v \<Rightarrow> 'v js_map \<Rightarrow> 'v js_map" where
  "map_put k v m = (if map_has k m then update_where (\<lambda>e. fst e = k) (\<lambda>e. (k, v)) m else m @ [(k, v)])"

definition map_ok :: "'v js_map \<Rightarrow> bool" where
  "map_ok m \<longleftrightarrow> distinct (map fst m)"

lemma map_of_delete: "map_of (map_delete k m) k' = (if k' = k then None else map_of m k')"
  by (induction m) (auto simp: map_delete_def)

lemma map_of_put: "map_of (map_put k v m) k' = (if k' = k then Some v else map_of m k')"
proof -
  have other: "k' \<noteq> k \<Longrightarrow> map_of (update_where (\<lambda>e. fst e = k) (\<lambda>e. (k, v)) m) k' = map_of m k'"
    by (induction m) auto
  have same: "map_has k m \<Longrightarrow> map_of (update_where (\<lambda>e. fst e = k) (\<lambda>e. (k, v)) m) k = Some v"
    by (induction m) (auto simp: map_has_def)
  have "\<not> map_has k m \<Longrightarrow> map_of m k = None" by (simp add: map_has_def map_of_eq_None_iff)
  with other same show ?thesis by (auto simp: map_put_def map_add_def split: option.splits)
qed

lemma map_ok_delete: "map_ok m \<Longrightarrow> map_ok (map_delete k m)"
  by (auto simp: map_ok_def map_delete_def distinct_map_filter)

lemma map_ok_put: "map_ok m \<Longrightarrow> map_ok (map_put k v m)"
proof -
  have "map fst (update_where (\<lambda>e. fst e = k) (\<lambda>e. (k, v)) m) = map fst m"
    by (induction m) auto
  moreover assume "map_ok m"
  ultimately show ?thesis by (auto simp: map_ok_def map_put_def map_has_def)
qed

lemma map_has_delete [simp]: "map_has k' (map_delete k m) \<longleftrightarrow> k' \<noteq> k \<and> map_has k' m"
  by (auto simp: map_has_def map_delete_def)

lemma length_map_put: "length (map_put k v m) = (if map_has k m then length m else Suc (length m))"
  by (simp add: map_put_def)

lemma length_map_delete: "length (map_delete k m) \<le> length m"
  by (simp add: map_delete_def)

text \<open>\<open>store.delete(store.keys().next().value)\<close>: the first key is the oldest.\<close>

definition evictOne :: "'v js_map \<Rightarrow> 'v js_map" where
  "evictOne m = (case m of [] \<Rightarrow> [] | (k, v) # _ \<Rightarrow> map_delete k m)"

lemma map_delete_absent: "\<not> map_has k m \<Longrightarrow> map_delete k m = m"
  by (induction m) (auto simp: map_delete_def map_has_def)

lemma evictOne_tl: "map_ok m \<Longrightarrow> evictOne m = tl m"
proof (cases m)
  case (Cons e m')
  moreover assume "map_ok m"
  ultimately have "\<not> map_has (fst e) m'" by (auto simp: map_ok_def map_has_def)
  then have "map_delete (fst e) m' = m'" by (rule map_delete_absent)
  with Cons show ?thesis by (cases e) (simp add: evictOne_def map_delete_def)
qed (simp add: evictOne_def)

lemma map_of_evictOne: "map_of (evictOne m) k = Some v \<Longrightarrow> map_of m k = Some v"
  by (cases m) (auto simp: evictOne_def map_of_delete split: if_splits)

lemma map_ok_evictOne: "map_ok m \<Longrightarrow> map_ok (evictOne m)"
  by (cases m) (auto simp: evictOne_def map_ok_delete)

section \<open>The tenant cache\<close>

definition MAX_ENTRIES :: "services \<Rightarrow> int" where
  "MAX_ENTRIES sv = env_or sv ''CACHE_MAX_ENTRIES'' 5000"

definition TTL_TENANT :: "services \<Rightarrow> int" where
  "TTL_TENANT sv = env_or sv ''CACHE_TTL_TENANT_MS'' 10000"

definition cache_get :: "jstring \<Rightarrow> int \<Rightarrow> ('v \<times> int) js_map \<Rightarrow> 'v option \<times> ('v \<times> int) js_map" where
  "cache_get key now store =
     (case map_of store key of
        None \<Rightarrow> (None, store)
      | Some (v, expiresAt) \<Rightarrow>
          if expiresAt \<le> now then (None, map_delete key store) else (Some v, store))"

definition cache_set ::
  "int \<Rightarrow> jstring \<Rightarrow> 'v \<Rightarrow> int \<Rightarrow> int \<Rightarrow> ('v \<times> int) js_map \<Rightarrow> ('v \<times> int) js_map" where
  "cache_set maxEntries key value ttlMs now store =
     (if ttlMs \<le> 0 then store
      else let s1 = (if int (length store) \<ge> maxEntries \<and> \<not> map_has key store
                     then evictOne store else store)
           in map_put key (value, now + ttlMs) (map_delete key s1))"

definition cache_invalidate :: "jstring \<Rightarrow> ('v \<times> int) js_map \<Rightarrow> ('v \<times> int) js_map" where
  "cache_invalidate key store = map_delete key store"

definition cache_invalidatePrefix :: "jstring \<Rightarrow> ('v \<times> int) js_map \<Rightarrow> ('v \<times> int) js_map" where
  "cache_invalidatePrefix p store = filter (\<lambda>e. \<not> prefix p (fst e)) store"

text \<open>The same operations on the world's cache, and the cache-aside helper.\<close>

definition tenant_cache_get :: "jstring \<Rightarrow> tenant option io" where
  "tenant_cache_get key = (\<lambda>w.
     let (r, s) = cache_get key (js_now w) (tenant_cache w) in (Inr r, w\<lparr>tenant_cache := s\<rparr>))"

definition tenant_cache_set :: "jstring \<Rightarrow> tenant \<Rightarrow> int \<Rightarrow> unit io" where
  "tenant_cache_set key v ttl = (\<lambda>w.
     (Inr (), w\<lparr>tenant_cache := cache_set (MAX_ENTRIES (svc w)) key v ttl (js_now w) (tenant_cache w)\<rparr>))"

definition tenant_cache_invalidate :: "jstring \<Rightarrow> unit io" where
  "tenant_cache_invalidate key = (\<lambda>w.
     (Inr (), w\<lparr>tenant_cache := cache_invalidate key (tenant_cache w)\<rparr>))"

definition cache_wrap :: "jstring \<Rightarrow> int \<Rightarrow> tenant option io \<Rightarrow> tenant option io" where
  "cache_wrap key ttl loader =
     bnd (tenant_cache_get key) (\<lambda>cached.
       case cached of
         Some v \<Rightarrow> ret (Some v)
       | None \<Rightarrow> bnd loader (\<lambda>value.
           case value of
             None \<Rightarrow> ret None
           | Some v \<Rightarrow> bnd (tenant_cache_set key v ttl) (\<lambda>_. ret (Some v))))"

lemma wp_tenant_cache_get [simp]:
  "wp (tenant_cache_get key) Q w =
     Q (Inr (fst (cache_get key (js_now w) (tenant_cache w))))
       (w\<lparr>tenant_cache := snd (cache_get key (js_now w) (tenant_cache w))\<rparr>)"
  by (simp add: wp_def tenant_cache_get_def case_prod_beta Let_def)

lemma wp_tenant_cache_set [simp]:
  "wp (tenant_cache_set key v ttl) Q w =
     Q (Inr ()) (w\<lparr>tenant_cache := cache_set (MAX_ENTRIES (svc w)) key v ttl (js_now w) (tenant_cache w)\<rparr>)"
  by (simp add: wp_def tenant_cache_set_def)

lemma wp_tenant_cache_invalidate [simp]:
  "wp (tenant_cache_invalidate key) Q w =
     Q (Inr ()) (w\<lparr>tenant_cache := cache_invalidate key (tenant_cache w)\<rparr>)"
  by (simp add: wp_def tenant_cache_invalidate_def)

lemma preserves_tenant_cache [keeps]:
  "preserves P (tenant_cache_get key)" "preserves P (tenant_cache_set key v ttl)"
  "preserves P (tenant_cache_invalidate key)"
  by (rule preservesI, simp)+

lemma emits_only_tenant_cache [keeps]:
  "emits_only S (tenant_cache_get key)" "emits_only S (tenant_cache_set key v ttl)"
  "emits_only S (tenant_cache_invalidate key)"
  by (rule emits_onlyI, simp)+

lemma preserves_cache_wrap [keeps]: "preserves P loader \<Longrightarrow> preserves P (cache_wrap key ttl loader)"
  unfolding cache_wrap_def by (intro keeps)

lemma emits_only_cache_wrap [keeps]: "emits_only S loader \<Longrightarrow> emits_only S (cache_wrap key ttl loader)"
  unfolding cache_wrap_def by (intro keeps)

section \<open>The contract of a cache\<close>

datatype 'v cache_op = Put jstring 'v int | Get jstring int

text \<open>
  What a reader of a cache relies on: a lookup right after a store finds the value while it is
  fresh; a store or a read never makes another key answer something new; the size bound
  survives every operation.
\<close>

locale expiring_store =
  fixes inv :: "'s \<Rightarrow> bool"
    and bounded :: "'s \<Rightarrow> bool"
    and look :: "jstring \<Rightarrow> int \<Rightarrow> 's \<Rightarrow> 'v option"
    and read :: "jstring \<Rightarrow> int \<Rightarrow> 's \<Rightarrow> 's"
    and store :: "jstring \<Rightarrow> 'v \<Rightarrow> int \<Rightarrow> 's \<Rightarrow> 's"
    and fresh :: "'s \<Rightarrow> int \<Rightarrow> int \<Rightarrow> bool"
  assumes inv_store: "inv s \<Longrightarrow> inv (store k v n s)"
    and inv_read: "inv s \<Longrightarrow> inv (read k n s)"
    and bounded_store: "inv s \<Longrightarrow> bounded s \<Longrightarrow> bounded (store k v n s)"
    and bounded_read: "inv s \<Longrightarrow> bounded s \<Longrightarrow> bounded (read k n s)"
    and hit: "inv s \<Longrightarrow> look k t (store k v n s) = (if fresh s n t then Some v else None)"
    and other: "inv s \<Longrightarrow> k' \<noteq> k \<Longrightarrow> look k' t (store k v n s) = Some x \<Longrightarrow> look k' t s = Some x"
    and look_read: "inv s \<Longrightarrow> look k' t (read k n s) = Some x \<Longrightarrow> look k' t s = Some x"
    and fresh_store: "fresh (store k v n s) = fresh s"
    and fresh_read: "fresh (read k n s) = fresh s"
begin

definition step :: "'s \<Rightarrow> 'v cache_op \<Rightarrow> 's" where
  "step s c = (case c of Put k v n \<Rightarrow> store k v n s | Get k n \<Rightarrow> read k n s)"

definition run :: "'s \<Rightarrow> 'v cache_op list \<Rightarrow> 's" where
  "run s cs = foldl step s cs"

lemma run_snoc [simp]: "run s (cs @ [c]) = step (run s cs) c"
  by (simp add: run_def)

lemma run_Nil [simp]: "run s [] = s"
  by (simp add: run_def)

lemma run_inv: "inv s \<Longrightarrow> inv (run s cs)"
  by (induction cs rule: rev_induct) (auto simp: step_def inv_store inv_read split: cache_op.splits)

lemma run_bounded: "inv s \<Longrightarrow> bounded s \<Longrightarrow> bounded (run s cs)"
  by (induction cs rule: rev_induct)
     (auto simp: step_def bounded_store bounded_read run_inv split: cache_op.splits)

lemma run_fresh: "fresh (run s cs) = fresh s"
  by (induction cs rule: rev_induct) (auto simp: step_def fresh_store fresh_read split: cache_op.splits)

text \<open>A hit is always the most recent value stored under that very key, and still fresh.\<close>

lemma hit_is_latest:
  assumes "inv s" and "\<And>k t. look k t s = None" and "look k t (run s cs) = Some v"
  shows "\<exists>pre n post. cs = pre @ Put k v n # post \<and> fresh s n t
           \<and> (\<forall>x m. Put k x m \<notin> set post)"
  using assms(3)
proof (induction cs rule: rev_induct)
  case Nil
  with assms(2) show ?case by simp
next
  case (snoc c cs)
  have inv: "inv (run s cs)" using assms(1) by (rule run_inv)
  have old: ?case if hit: "look k t (run s cs) = Some v" and other: "\<forall>x m. c \<noteq> Put k x m"
  proof -
    from snoc.IH [OF hit] obtain pre n post where
      "cs = pre @ Put k v n # post" "fresh s n t" "\<forall>x m. Put k x m \<notin> set post" by blast
    with other show ?thesis
      by (intro exI [of _ pre] exI [of _ n] exI [of _ "post @ [c]"]) auto
  qed
  show ?case
  proof (cases c)
    case (Put k' v' n)
    show ?thesis
    proof (cases "k' = k")
      case True
      with snoc.prems Put have "v' = v" and "fresh s n t"
        using hit [OF inv, of k t v' n] by (auto simp: step_def run_fresh split: if_splits)
      with Put True show ?thesis by (intro exI [of _ cs] exI [of _ n] exI [of _ "[]"]) simp
    next
      case False
      from snoc.prems Put have "look k t (store k' v' n (run s cs)) = Some v" by (simp add: step_def)
      then have "look k t (run s cs) = Some v" using False by (intro other [OF inv]) auto
      with old Put False show ?thesis by simp
    qed
  next
    case (Get k' n)
    with snoc.prems have "look k t (read k' n (run s cs)) = Some v" by (simp add: step_def)
    then have "look k t (run s cs) = Some v" by (rule look_read [OF inv])
    with old Get show ?thesis by simp
  qed
qed

end

text \<open>\<open>cache.js\<close> under one configuration: the services and the map.\<close>

type_synonym 'v ttl_store = "services \<times> ('v \<times> int) js_map"

definition ttl_inv :: "'v ttl_store \<Rightarrow> bool" where
  "ttl_inv s \<longleftrightarrow> 0 < TTL_TENANT (fst s) \<and> map_ok (snd s)"

definition ttl_bounded :: "'v ttl_store \<Rightarrow> bool" where
  "ttl_bounded s \<longleftrightarrow> int (length (snd s)) \<le> max 1 (MAX_ENTRIES (fst s))"

definition ttl_look :: "jstring \<Rightarrow> int \<Rightarrow> 'v ttl_store \<Rightarrow> 'v option" where
  "ttl_look k t s = fst (cache_get k t (snd s))"

definition ttl_read :: "jstring \<Rightarrow> int \<Rightarrow> 'v ttl_store \<Rightarrow> 'v ttl_store" where
  "ttl_read k t s = (fst s, snd (cache_get k t (snd s)))"

definition ttl_store :: "jstring \<Rightarrow> 'v \<Rightarrow> int \<Rightarrow> 'v ttl_store \<Rightarrow> 'v ttl_store" where
  "ttl_store k v t s =
     (fst s, cache_set (MAX_ENTRIES (fst s)) k v (TTL_TENANT (fst s)) t (snd s))"

definition ttl_fresh :: "'v ttl_store \<Rightarrow> int \<Rightarrow> int \<Rightarrow> bool" where
  "ttl_fresh s n t \<longleftrightarrow> t < n + TTL_TENANT (fst s)"

definition ttl_step :: "'v ttl_store \<Rightarrow> 'v cache_op \<Rightarrow> 'v ttl_store" where
  "ttl_step s c = (case c of Put k v n \<Rightarrow> ttl_store k v n s | Get k n \<Rightarrow> ttl_read k n s)"

definition ttl_run :: "'v ttl_store \<Rightarrow> 'v cache_op list \<Rightarrow> 'v ttl_store" where
  "ttl_run s cs = foldl ttl_step s cs"

lemmas ttl_defs = ttl_inv_def ttl_bounded_def ttl_look_def ttl_read_def ttl_store_def ttl_fresh_def

lemma cache_get_look:
  "fst (cache_get k t m) =
     (case map_of m k of None \<Rightarrow> None | Some (v, e) \<Rightarrow> if e \<le> t then None else Some v)"
  by (simp add: cache_get_def split: option.splits)

lemma map_of_cache_set_same:
  "0 < ttl \<Longrightarrow> map_of (cache_set mx k v ttl n m) k = Some (v, n + ttl)"
  by (simp add: cache_set_def Let_def map_of_put)

lemma map_of_cache_set_other:
  "k' \<noteq> k \<Longrightarrow> map_of (cache_set mx k v ttl n m) k' = Some x \<Longrightarrow> map_of m k' = Some x"
  by (auto simp: cache_set_def Let_def map_of_put map_of_delete split: if_splits
           dest: map_of_evictOne)

lemma map_of_cache_get: "map_of (snd (cache_get k n m)) k' = Some x \<Longrightarrow> map_of m k' = Some x"
  by (auto simp: cache_get_def map_of_delete split: option.splits if_splits)

lemma map_ok_cache_set: "map_ok m \<Longrightarrow> map_ok (cache_set mx k v ttl n m)"
  by (simp add: cache_set_def Let_def map_ok_put map_ok_delete map_ok_evictOne)

lemma map_ok_cache_get: "map_ok m \<Longrightarrow> map_ok (snd (cache_get k n m))"
  by (auto simp: cache_get_def map_ok_delete split: option.splits)

lemma length_cache_get: "length (snd (cache_get k n m)) \<le> length m"
  by (auto simp: cache_get_def length_map_delete split: option.splits)

lemma length_delete_present:
  "map_has k m \<Longrightarrow> Suc (length (map_delete k m)) \<le> length m"
  by (induction m) (auto simp: map_has_def map_delete_def less_Suc_eq_le)

lemma length_cache_set:
  assumes "map_ok m" and "int (length m) \<le> max 1 mx"
  shows "int (length (cache_set mx k v ttl n m)) \<le> max 1 mx"
proof -
  have del: "length (map_delete k m) \<le> length m" by (rule length_map_delete)
  consider "ttl \<le> 0" | "0 < ttl" "map_has k m" | "0 < ttl" "\<not> map_has k m" "int (length m) < mx"
    | "0 < ttl" "\<not> map_has k m" "mx \<le> int (length m)" by linarith
  then show ?thesis
  proof cases
    case 2
    then show ?thesis using assms length_delete_present [of k m]
      by (simp add: cache_set_def length_map_put)
  next
    case 3
    then show ?thesis using assms by (simp add: cache_set_def length_map_put map_delete_absent)
  next
    case 4
    have "length (map_delete k (tl m)) \<le> length m - 1"
      using length_map_delete [of k "tl m"] by simp
    with 4 show ?thesis using assms
      by (cases m) (auto simp: cache_set_def length_map_put evictOne_tl)
  qed (use assms in \<open>simp add: cache_set_def\<close>)
qed

interpretation ttl: expiring_store ttl_inv ttl_bounded ttl_look ttl_read ttl_store ttl_fresh
proof (unfold_locales, goal_cases)
  case (1 s k v n) then show ?case by (simp add: ttl_defs map_ok_cache_set)
next
  case (2 s k n) then show ?case by (simp add: ttl_defs map_ok_cache_get)
next
  case (3 s k v n) then show ?case by (simp add: ttl_defs length_cache_set)
next
  case (4 s k n)
  then show ?case using length_cache_get [of k n "snd s"] by (simp add: ttl_defs)
next
  case (5 s k t v n) then show ?case by (simp add: ttl_defs cache_get_look map_of_cache_set_same)
next
  case (6 s k' k t v n x)
  then show ?case
    by (auto simp: ttl_defs cache_get_look split: option.splits dest!: map_of_cache_set_other)
next
  case (7 s k' t k n x)
  then show ?case
    by (auto simp: ttl_defs cache_get_look split: option.splits dest!: map_of_cache_get)
qed (simp_all add: ttl_defs fun_eq_iff)

lemma ttl_run_eq: "ttl.run s cs = ttl_run s cs"
  by (simp add: ttl.run_def ttl_run_def ttl.step_def [abs_def] ttl_step_def [abs_def])

lemma ttl_run_config: "fst (ttl_run s cs) = fst s"
proof (induction cs arbitrary: s)
  case (Cons c cs)
  have "fst (ttl_step s c) = fst s"
    by (cases c) (simp_all add: ttl_step_def ttl_store_def ttl_read_def)
  with Cons [of "ttl_step s c"] show ?case by (simp add: ttl_run_def)
qed (simp add: ttl_run_def)

text \<open>
  C40: However the tenant cache is used, a lookup that hits returns the value of the most recent
  store under exactly that key, made less than one TTL ago; no eviction, expiry or other key
  can make it answer anything else, and the cache never grows beyond its configured capacity.
\<close>

theorem tenant_cache_correct:
  assumes "0 < TTL_TENANT sv" and "ttl_look k t (ttl_run (sv, []) cs) = Some v"
  shows "(\<exists>pre n post. cs = pre @ Put k v n # post \<and> t < n + TTL_TENANT sv
            \<and> (\<forall>x m. Put k x m \<notin> set post))
         \<and> int (length (snd (ttl_run (sv, []) cs))) \<le> max 1 (MAX_ENTRIES sv)"
proof -
  have inv: "ttl_inv (sv, [])" using assms(1) by (simp add: ttl_inv_def map_ok_def)
  have none: "ttl_look k t (sv, []) = None" for k t by (simp add: ttl_look_def cache_get_def)
  have "ttl_bounded (ttl_run (sv, []) cs)"
    using ttl.run_bounded [OF inv, of cs] by (simp add: ttl_run_eq ttl_bounded_def)
  then have "int (length (snd (ttl_run (sv, []) cs))) \<le> max 1 (MAX_ENTRIES sv)"
    by (simp add: ttl_bounded_def ttl_run_config)
  with ttl.hit_is_latest [OF inv none assms(2) [folded ttl_run_eq]] show ?thesis
    by (simp add: ttl_fresh_def)
qed

lemma tenant_cache_correct_witness:
  "\<exists>pre n post. [Put [1] True 0, Get [1] 5] = pre @ Put [1] True n # post \<and> 6 < n + 10000"
proof -
  have ttl: "TTL_TENANT demo_services = 10000" "MAX_ENTRIES demo_services = 5000"
    by (simp_all add: TTL_TENANT_def MAX_ENTRIES_def env_or_def demo_services_def)
  have "ttl_look [1] 6 (ttl_run (demo_services, []) [Put [1] True 0, Get [1] 5]) = Some True"
    by (simp add: ttl_look_def ttl_run_def ttl_step_def ttl_store_def ttl_read_def ttl cache_set_def
        cache_get_def map_put_def map_has_def map_delete_def)
  from tenant_cache_correct [OF _ this] show ?thesis by (auto simp: ttl)
qed

end
