(* ===== verification/Email_Quality.thy ===== *)
theory Email_Quality
  imports Ttl_Cache
begin

text \<open>
  \<open>src/common/emailQuality.js\<close>: the address format, throw-away domains, and the best-effort
  MX lookup with its bounded cache.  \<open>dns.resolveMx\<close> is the parameter \<open>resolve_mx\<close>.
\<close>

section \<open>Addresses\<close>

text \<open>
  \<open>/^[^\s@]+@[^\s@]+\.[^\s@]+$/\<close>: one \<open>@\<close>, no white space, a non-empty local part and a
  domain with a dot that is neither its first nor its last character.
\<close>

definition EMAIL_RE :: "jstring \<Rightarrow> bool" where
  "EMAIL_RE s \<longleftrightarrow>
     (let l = takeWhile (\<lambda>u. u \<noteq> 64) s; d = drop (Suc (length l)) s
      in l \<noteq> [] \<and> l \<noteq> s \<and> 64 \<notin> set d \<and> list_all (\<lambda>u. \<not> js_space u) s
         \<and> 46 \<in> set (butlast (tl d)))"

lemma EMAIL_RE_iff:
  "EMAIL_RE s \<longleftrightarrow>
     (\<exists>l a b. s = l @ 64 # a @ 46 # b \<and> l \<noteq> [] \<and> a \<noteq> [] \<and> b \<noteq> []
        \<and> (\<forall>u \<in> set (l @ a @ b). u \<noteq> 64 \<and> \<not> js_space u))"
proof
  assume e: "EMAIL_RE s"
  define l where "l = takeWhile (\<lambda>u. u \<noteq> 64) s"
  define d where "d = drop (Suc (length l)) s"
  have f: "l \<noteq> []" "l \<noteq> s" "64 \<notin> set d" "list_all (\<lambda>u. \<not> js_space u) s" "46 \<in> set (butlast (tl d))"
    using e by (simp_all add: EMAIL_RE_def l_def d_def Let_def)
  have l64: "u \<noteq> 64" if "u \<in> set l" for u using that by (auto simp: l_def dest: set_takeWhileD)
  obtain c r where "s = l @ c # r" and "c = 64"
    using f(2) takeWhile_dropWhile_id [of "\<lambda>u. u \<noteq> 64" s] hd_dropWhile [of "\<lambda>u. u \<noteq> 64" s]
    unfolding l_def by (metis append.right_neutral list.collapse)
  then have s: "s = l @ 64 # d" by (simp add: d_def)
  from f(5) obtain x y where xy: "butlast (tl d) = x @ 46 # y" by (meson split_list)
  then have ne: "tl d \<noteq> []" "d \<noteq> []" by auto
  have "tl d = butlast (tl d) @ [last (tl d)]" using ne(1) by simp
  with xy ne have "d = (hd d # x) @ 46 # (y @ [last (tl d)])"
    by (metis append.assoc append_Cons list.collapse)
  then obtain a b where ab: "d = a @ 46 # b" "a \<noteq> []" "b \<noteq> []" by blast
  with s f l64 show "\<exists>l a b. s = l @ 64 # a @ 46 # b \<and> l \<noteq> [] \<and> a \<noteq> [] \<and> b \<noteq> []
        \<and> (\<forall>u \<in> set (l @ a @ b). u \<noteq> 64 \<and> \<not> js_space u)"
    by (intro exI [of _ l] exI [of _ a] exI [of _ b]) (auto simp: list_all_iff)
next
  assume "\<exists>l a b. s = l @ 64 # a @ 46 # b \<and> l \<noteq> [] \<and> a \<noteq> [] \<and> b \<noteq> []
        \<and> (\<forall>u \<in> set (l @ a @ b). u \<noteq> 64 \<and> \<not> js_space u)"
  then obtain l a b where s: "s = l @ 64 # a @ 46 # b" "l \<noteq> []" "a \<noteq> []" "b \<noteq> []"
    "\<forall>u \<in> set (l @ a @ b). u \<noteq> 64 \<and> \<not> js_space u" by blast
  then have "takeWhile (\<lambda>u. u \<noteq> 64) s = l" by (auto simp: takeWhile_append)
  moreover have "tl (a @ 46 # b) = tl a @ 46 # b" using s(3) by simp
  then have "46 \<in> set (butlast (tl (a @ 46 # b)))" using s(4) by (simp add: butlast_append)
  ultimately show "EMAIL_RE s" using s by (auto simp: EMAIL_RE_def list_all_iff js_space_def)
qed

definition isValidEmailFormat :: "jstring \<Rightarrow> bool" where
  "isValidEmailFormat email \<longleftrightarrow> EMAIL_RE (js_trim email)"

definition nth_or_empty :: "jstring list \<Rightarrow> nat \<Rightarrow> jstring" where
  "nth_or_empty xs i = (if i < length xs then xs ! i else [])"

definition emailDomain :: "jstring \<Rightarrow> jstring" where
  "emailDomain email = nth_or_empty (js_split 64 (js_lower (js_trim email))) 1"

definition DISPOSABLE_DOMAINS :: "string list" where
  "DISPOSABLE_DOMAINS =
     [''mailinator.com'', ''guerrillamail.com'', ''10minutemail.com'', ''tempmail.com'',
      ''temp-mail.org'', ''throwawaymail.com'', ''yopmail.com'', ''trashmail.com'',
      ''sharklasers.com'', ''getnada.com'', ''dispostable.com'', ''maildrop.cc'',
      ''fakeinbox.com'', ''mintemail.com'', ''spamgourmet.com'']"

definition isDisposableEmail :: "jstring \<Rightarrow> bool" where
  "isDisposableEmail email \<longleftrightarrow> emailDomain email \<in> js ` set DISPOSABLE_DOMAINS"

section \<open>The MX cache\<close>

definition MX_CACHE_TTL_MS :: int where "MX_CACHE_TTL_MS = 60 * 60 * 1000"
definition MX_CACHE_MAX :: nat where "MX_CACHE_MAX = 5000"

definition mx_cacheGet :: "jstring \<Rightarrow> int \<Rightarrow> (bool \<times> int) js_map \<Rightarrow> bool option \<times> (bool \<times> int) js_map" where
  "mx_cacheGet domain now m =
     (case map_of m domain of
        None \<Rightarrow> (None, m)
      | Some (v, at) \<Rightarrow>
          if now - at > MX_CACHE_TTL_MS then (None, map_delete domain m) else (Some v, m))"

definition mx_cacheSet :: "jstring \<Rightarrow> bool \<Rightarrow> int \<Rightarrow> (bool \<times> int) js_map \<Rightarrow> (bool \<times> int) js_map" where
  "mx_cacheSet domain value now m =
     map_put domain (value, now) (if length m \<ge> MX_CACHE_MAX then evictOne m else m)"

definition mx_look :: "jstring \<Rightarrow> int \<Rightarrow> (bool \<times> int) js_map \<Rightarrow> bool option" where
  "mx_look k t m = fst (mx_cacheGet k t m)"

definition mx_read :: "jstring \<Rightarrow> int \<Rightarrow> (bool \<times> int) js_map \<Rightarrow> (bool \<times> int) js_map" where
  "mx_read k t m = snd (mx_cacheGet k t m)"

definition mx_bounded :: "(bool \<times> int) js_map \<Rightarrow> bool" where
  "mx_bounded m \<longleftrightarrow> length m \<le> MX_CACHE_MAX"

definition mx_fresh :: "(bool \<times> int) js_map \<Rightarrow> int \<Rightarrow> int \<Rightarrow> bool" where
  "mx_fresh m n t \<longleftrightarrow> t - n \<le> MX_CACHE_TTL_MS"

lemma mx_look_eq:
  "mx_look k t m =
     (case map_of m k of None \<Rightarrow> None
      | Some (v, at) \<Rightarrow> if t - at > MX_CACHE_TTL_MS then None else Some v)"
  by (simp add: mx_look_def mx_cacheGet_def split: option.splits)

lemma map_of_mx_set:
  "map_of (mx_cacheSet d v n m) k = Some x \<Longrightarrow>
   (k = d \<and> x = (v, n)) \<or> (k \<noteq> d \<and> map_of m k = Some x)"
  by (auto simp: mx_cacheSet_def map_of_put split: if_splits dest: map_of_evictOne)

lemma map_of_mx_set_same: "map_of (mx_cacheSet d v n m) d = Some (v, n)"
  by (simp add: mx_cacheSet_def map_of_put)

lemma map_of_mx_read: "map_of (mx_read d n m) k = Some x \<Longrightarrow> map_of m k = Some x"
  by (auto simp: mx_read_def mx_cacheGet_def map_of_delete split: option.splits if_splits)

lemma length_mx_set: "map_ok m \<Longrightarrow> length m \<le> MX_CACHE_MAX \<Longrightarrow> length (mx_cacheSet d v n m) \<le> MX_CACHE_MAX"
  by (cases m) (auto simp: mx_cacheSet_def length_map_put evictOne_tl MX_CACHE_MAX_def)

interpretation mx: expiring_store map_ok mx_bounded mx_look mx_read mx_cacheSet mx_fresh
proof (unfold_locales, goal_cases)
  case (1 s k v n) then show ?case by (simp add: mx_cacheSet_def map_ok_put map_ok_evictOne)
next
  case (2 s k n) then show ?case
    by (auto simp: mx_read_def mx_cacheGet_def map_ok_delete split: option.splits)
next
  case (3 s k v n) then show ?case by (simp add: mx_bounded_def length_mx_set)
next
  case (4 s k n) then show ?case using length_map_delete [of k s]
    by (auto simp: mx_bounded_def mx_read_def mx_cacheGet_def split: option.splits)
next
  case (5 s k t v n) then show ?case
    by (auto simp: mx_look_eq map_of_mx_set_same mx_fresh_def)
next
  case (6 s k' k t v n x) then show ?case
    by (auto simp: mx_look_eq split: option.splits if_splits dest!: map_of_mx_set)
next
  case (7 s k' t k n x) then show ?case
    by (auto simp: mx_look_eq split: option.splits if_splits dest!: map_of_mx_read)
qed (simp_all add: mx_fresh_def fun_eq_iff)

section \<open>Deliverability\<close>

definition mx_verdict :: "dns_reply \<Rightarrow> bool" where
  "mx_verdict r = (case r of MxRecords n \<Rightarrow> n > 0 | NotFoundDomain \<Rightarrow> False | DnsFailure \<Rightarrow> True)"

definition mx_get_io :: "jstring \<Rightarrow> bool option io" where
  "mx_get_io domain = (\<lambda>w.
     let (r, m) = mx_cacheGet domain (js_now w) (mx_cache w) in (Inr r, w\<lparr>mx_cache := m\<rparr>))"

definition mx_set_io :: "jstring \<Rightarrow> bool \<Rightarrow> unit io" where
  "mx_set_io domain v = (\<lambda>w.
     (Inr (), w\<lparr>mx_cache := mx_cacheSet domain v (js_now w) (mx_cache w)\<rparr>))"

lemma wp_mx_get_io [simp]:
  "wp (mx_get_io d) Q w =
     Q (Inr (mx_look d (js_now w) (mx_cache w))) (w\<lparr>mx_cache := mx_read d (js_now w) (mx_cache w)\<rparr>)"
  by (simp add: wp_def mx_get_io_def mx_look_def mx_read_def case_prod_beta Let_def)

lemma wp_mx_set_io [simp]:
  "wp (mx_set_io d v) Q w = Q (Inr ()) (w\<lparr>mx_cache := mx_cacheSet d v (js_now w) (mx_cache w)\<rparr>)"
  by (simp add: wp_def mx_set_io_def)

lemma mx_io_keeps [keeps]:
  "preserves P (mx_get_io d)" "preserves P (mx_set_io d v)"
  "emits_only S (mx_get_io d)" "emits_only S (mx_set_io d v)"
  by (rule preservesI emits_onlyI, simp)+

definition isDeliverableEmail :: "jstring \<Rightarrow> bool io" where
  "isDeliverableEmail email =
     (let address = js_trim email
      in if \<not> EMAIL_RE address then ret False
         else let domain = nth_or_empty (js_split 64 address) 1
              in bnd (mx_get_io domain) (\<lambda>cached.
                   case cached of
                     Some v \<Rightarrow> ret v
                   | None \<Rightarrow>
                       bnd (asks (\<lambda>w. mx_verdict (resolve_mx (svc w) (js_now w) domain))) (\<lambda>result.
                       bnd (mx_set_io domain result) (\<lambda>_. ret result))))"

lemma isDeliverableEmail_keeps [keeps]:
  "preserves P (isDeliverableEmail e)" "emits_only S (isDeliverableEmail e)"
  unfolding isDeliverableEmail_def by (intro keeps)+

lemma isDeliverableEmail_total:
  "wp (isDeliverableEmail e)
     (\<lambda>r w'. \<exists>b. r = Inr b \<and> svc w' = svc w \<and> js_now w' = js_now w \<and> db w' = db w
        \<and> log w' = log w) w"
  by (auto simp: isDeliverableEmail_def Let_def split: option.splits)

text \<open>
  An address is rejected only for cause: when it is not an address at all, when DNS
  answers right now that the domain has no mail exchanger or does not exist, or when it said
  so within the last hour; an inconclusive lookup never rejects, and each verdict is remembered.
\<close>

theorem deliverable_verdict:
  "wp (isDeliverableEmail e)
     (\<lambda>r w'. let a = js_trim e; d = nth_or_empty (js_split 64 a) 1;
                 c = mx_look d (js_now w) (mx_cache w);
                 v = mx_verdict (resolve_mx (svc w) (js_now w) d)
             in r = Inr (EMAIL_RE a \<and> (case c of Some b \<Rightarrow> b | None \<Rightarrow> v))
                \<and> (if EMAIL_RE a
                   then mx_look d (js_now w) (mx_cache w') = Some (case c of Some b \<Rightarrow> b | None \<Rightarrow> v)
                   else mx_cache w' = mx_cache w)
                \<and> db w' = db w) w"
proof -
  have keep: "mx_look d t m = Some b \<Longrightarrow> mx_look d t (mx_read d t m) = Some b" for d t m b
    by (auto simp: mx_look_def mx_read_def mx_cacheGet_def split: option.splits if_splits)
  have set: "mx_look d t (mx_cacheSet d b t m) = Some b" for d t m b
    by (simp add: mx_look_eq map_of_mx_set_same MX_CACHE_TTL_MS_def)
  show ?thesis
    by (auto simp: isDeliverableEmail_def Let_def keep set split: option.splits)
qed

end
