(* ===== verification/Public_Write_Guard.thy ===== *)
theory Public_Write_Guard
  imports Write_Counters Form_Token Email_Quality
begin

text \<open>
  \<open>src/common/publicWriteGuard.js\<close>: the gate every public post and comment passes, cheapest
  check first: honeypot, form token, burst caps, email quality, content score.
\<close>

section \<open>The gate\<close>

record write_request =
  wr_ip :: "jstring option"
  wr_website :: "jstring option"
  wr_form_token :: "jstring option"

record guard_verdict =
  gv_discard :: bool
  gv_rate_limited :: bool
  gv_hash :: "jstring option"
  gv_score :: int
  gv_reasons :: "string list"
  gv_state :: moderation
  gv_flagged :: bool

definition clean_verdict :: "jstring option \<Rightarrow> guard_verdict" where
  "clean_verdict h =
     \<lparr>gv_discard = False, gv_rate_limited = False, gv_hash = h, gv_score = 0, gv_reasons = [],
      gv_state = Published, gv_flagged = False\<rparr>"

definition honeypot_filled :: "write_request \<Rightarrow> bool" where
  "honeypot_filled req \<longleftrightarrow> js_trim (or_empty (wr_website req)) \<noteq> []"

text \<open>Steps 2 to 5 of the gate, for an anonymous caller.\<close>

definition score_submission ::
  "jstring \<Rightarrow> jstring \<Rightarrow> bool \<Rightarrow> bool \<Rightarrow> string option \<Rightarrow> nat \<Rightarrow> jstring option \<Rightarrow> guard_verdict io" where
  "score_submission title body disposable noMx reason dups h =
     asks (\<lambda>w. let (score, reasons) = spamScore (url_host (svc w))
                       \<lparr>si_title = title, si_body = body, si_disposable = disposable,
                        si_no_mx = noMx, si_token_reason = reason, si_duplicates = dups\<rparr>
               in (clean_verdict h)\<lparr>gv_score := score, gv_reasons := reasons,
                    gv_state := moderationStateFor (svc w) score,
                    gv_flagged := isFlagged (svc w) score\<rparr>)"

definition evaluatePublicWrite ::
  "nat \<Rightarrow> write_request \<Rightarrow> jstring \<Rightarrow> jstring \<Rightarrow> jstring option \<Rightarrow> nat \<Rightarrow> bool \<Rightarrow> guard_verdict io" where
  "evaluatePublicWrite tenantId req title body email dups isAuthenticated =
     bnd (asks (\<lambda>w. voterHash (svc w) (wr_ip req))) (\<lambda>h.
       if honeypot_filled req then ret ((clean_verdict h)\<lparr>gv_discard := True\<rparr>)
       else if isAuthenticated then ret (clean_verdict h)
       else
         bnd (asks (\<lambda>w. tv_reason (verifyFormToken (svc w) (wr_form_token req) (js_now w)))) (\<lambda>reason.
         bnd (chargePublicWrite tenantId h
                (case email of None \<Rightarrow> None | Some e \<Rightarrow> or_null (emailDomain e))) (\<lambda>(ok, _).
         bnd maybePrune (\<lambda>_.
           if \<not> ok then ret ((clean_verdict h)\<lparr>gv_rate_limited := True\<rparr>)
           else
             case email of
               None \<Rightarrow> score_submission title body False False reason dups h
             | Some e \<Rightarrow>
                 if e \<noteq> [] \<and> isValidEmailFormat e
                 then bnd (isDeliverableEmail e) (\<lambda>deliverable.
                        score_submission title body (isDisposableEmail e) (\<not> deliverable) reason dups h)
                 else score_submission title body False False reason dups h))))"

section \<open>Structure\<close>

lemma bump_keeps [keeps]:
  "emits_only S (bump k s)" "emits_only S maybePrune"
  "emits_only S (chargePublicWrite t h x)"
  unfolding bump_def maybePrune_def pruneCounters_def chargePublicWrite_def
  by (intro keeps | (rule emits_onlyI, simp))+

lemma evaluatePublicWrite_silent [keeps]:
  "emits_only S (evaluatePublicWrite t req title body email dups auth)"
  unfolding evaluatePublicWrite_def score_submission_def by (intro keeps)+

text \<open>The gate touches the database only in the counter table.\<close>

definition ignores_counters :: "(database \<Rightarrow> bool) \<Rightarrow> bool" where
  "ignores_counters P \<longleftrightarrow> (\<forall>d rs. P (d\<lparr>write_counters := rs\<rparr>) = P d)"

lemma guard_preserves:
  assumes "ignores_counters P"
  shows "preserves P (evaluatePublicWrite t req title body email dups auth)"
proof -
  have bump: "preserves P (bump k s)" for k s
    using assms unfolding bump_def
    by (intro keeps preserves_execute) (simp add: ignores_counters_def case_prod_beta Let_def)
  have prune: "preserves P maybePrune"
    using assms unfolding maybePrune_def pruneCounters_def
    by (intro keeps preserves_execute; (rule preservesI)?) (simp_all add: ignores_counters_def)
  have charge: "preserves P (chargePublicWrite t h x)" for h x
    unfolding chargePublicWrite_def by (intro keeps bump)
  show ?thesis
    unfolding evaluatePublicWrite_def score_submission_def by (intro keeps charge prune)
qed

section \<open>The verdict\<close>

lemma maybePrune_total:
  "wp maybePrune (\<lambda>r w'. r = Inr () \<and> svc w' = svc w \<and> js_now w' = js_now w) w"
  by (simp add: maybePrune_def pruneCounters_def)

definition guard_outcome ::
  "services \<Rightarrow> int \<Rightarrow> write_request \<Rightarrow> jstring \<Rightarrow> jstring \<Rightarrow> jstring option \<Rightarrow> nat \<Rightarrow> guard_verdict \<Rightarrow> bool" where
  "guard_outcome sv now req title body email dups g \<longleftrightarrow>
     gv_rate_limited g \<and> g = (clean_verdict (voterHash sv (wr_ip req)))\<lparr>gv_rate_limited := True\<rparr>
     \<or> (\<exists>disposable noMx.
          g = (clean_verdict (voterHash sv (wr_ip req)))
                \<lparr>gv_score := gv_score g, gv_reasons := gv_reasons g,
                 gv_state := moderationStateFor sv (gv_score g),
                 gv_flagged := isFlagged sv (gv_score g)\<rparr>
          \<and> (gv_score g, gv_reasons g) = spamScore (url_host sv)
                \<lparr>si_title = title, si_body = body, si_disposable = disposable, si_no_mx = noMx,
                 si_token_reason = tv_reason (verifyFormToken sv (wr_form_token req) now),
                 si_duplicates = dups\<rparr>)"

lemma score_submission_outcome:
  assumes "sv = svc w" and "reason = tv_reason (verifyFormToken sv (wr_form_token req) now)"
    and "h = voterHash sv (wr_ip req)"
  shows "wp (score_submission title body dis nm reason dups h)
     (\<lambda>r w'. \<exists>g. r = Inr g \<and> \<not> gv_discard g \<and> gv_hash g = h
        \<and> guard_outcome sv now req title body email dups g) w"
  using assms unfolding score_submission_def
  by (simp add: guard_outcome_def clean_verdict_def case_prod_beta Let_def)
     (rule exI [of _ dis], rule exI [of _ nm], simp)

lemma guard_anonymous:
  assumes "\<not> honeypot_filled req"
  shows "wp (evaluatePublicWrite t req title body email dups False)
     (\<lambda>r w'. \<exists>g. r = Inr g \<and> \<not> gv_discard g \<and> gv_hash g = voterHash (svc w) (wr_ip req)
        \<and> guard_outcome (svc w) (js_now w) req title body email dups g) w"
proof -
  let ?reason = "tv_reason (verifyFormToken (svc w) (wr_form_token req) (js_now w))"
  let ?h = "voterHash (svc w) (wr_ip req)"
  let ?Q = "\<lambda>r w'. \<exists>g. r = Inr g \<and> \<not> gv_discard g \<and> gv_hash g = ?h
        \<and> guard_outcome (svc w) (js_now w) req title body email dups g"
  have score: "wp (score_submission title body dis nm ?reason dups ?h) ?Q w'" if "svc w' = svc w" for dis nm w'
    using that by (intro score_submission_outcome) simp_all
  have mail: "wp (bnd (isDeliverableEmail e) (\<lambda>deliverable.
      score_submission title body (isDisposableEmail e) (\<not> deliverable) ?reason dups ?h)) ?Q w'"
    if "svc w' = svc w" for e w'
    using that by (intro wp_seq [OF isDeliverableEmail_total]) (auto intro: score)
  have limited: "?Q (Inr ((clean_verdict ?h)\<lparr>gv_rate_limited := True\<rparr>)) w'" for w'
    by (auto simp: guard_outcome_def clean_verdict_def)
  let ?tail = "\<lambda>ok. bnd maybePrune (\<lambda>_.
           if \<not> ok then ret ((clean_verdict ?h)\<lparr>gv_rate_limited := True\<rparr>)
           else
             case email of
               None \<Rightarrow> score_submission title body False False ?reason dups ?h
             | Some e \<Rightarrow>
                 if e \<noteq> [] \<and> isValidEmailFormat e
                 then bnd (isDeliverableEmail e) (\<lambda>deliverable.
                        score_submission title body (isDisposableEmail e) (\<not> deliverable) ?reason dups ?h)
                 else score_submission title body False False ?reason dups ?h)"
  have tail: "wp (?tail ok) ?Q w'" if "svc w' = svc w" for ok w'
    by (rule wp_seq [OF maybePrune_total])
       (use that score mail limited in \<open>auto split: option.splits simp del: wp_bnd\<close>)
  have "wp (bnd (chargePublicWrite t ?h
                (case email of None \<Rightarrow> None | Some e \<Rightarrow> or_null (emailDomain e)))
              (\<lambda>(ok, _). ?tail ok)) ?Q w"
    by (rule wp_seq [OF charge_total]) (use tail in \<open>auto simp del: wp_bnd\<close>)
  with assms show ?thesis by (simp add: evaluatePublicWrite_def)
qed

lemma guard_spec:
  "wp (evaluatePublicWrite t req title body email dups isAuth)
     (\<lambda>r w'. \<exists>g. r = Inr g \<and> gv_hash g = voterHash (svc w) (wr_ip req)
        \<and> gv_discard g = honeypot_filled req
        \<and> (if honeypot_filled req \<or> isAuth
           then w' = w \<and> gv_state g = Published \<and> gv_score g = 0 \<and> gv_rate_limited g = False
           else guard_outcome (svc w) (js_now w) req title body email dups g)) w"
proof (cases "honeypot_filled req \<or> isAuth")
  case True
  then show ?thesis by (auto simp: evaluatePublicWrite_def clean_verdict_def)
next
  case False
  then show ?thesis by (auto intro!: wp_mono [OF guard_anonymous])
qed

text \<open>
  The gate never fails and its order is the documented one: a filled honeypot discards the
  submission and a signed-in author passes, in both cases without touching the database, the
  caches or the outside; for everyone else the verdict is either the rate limit alone or the
  score of exactly this text, token and duplicate count, with the state and the flag that the
  thresholds give to that score.
\<close>

theorem guard_verdict:
  "wp (evaluatePublicWrite t req title body email dups isAuth)
     (\<lambda>r w'. \<exists>g. r = Inr g \<and> gv_hash g = voterHash (svc w) (wr_ip req)
        \<and> gv_discard g = honeypot_filled req
        \<and> (if honeypot_filled req \<or> isAuth
           then w' = w \<and> gv_state g = Published \<and> gv_score g = 0 \<and> gv_rate_limited g = False
           else guard_outcome (svc w) (js_now w) req title body email dups g)) w"
  by (rule guard_spec)

end
