(* ===== verification/Sessions.thy ===== *)
theory Sessions
  imports Plan_Guard
begin

text \<open>
  \<open>src/common/sessions.js\<close> and the token middlewares \<open>src/middlewares/jwt/\<close>: device sessions,
  the one-device rule of the smaller plans, and who a request is authenticated as.
\<close>

section \<open>Device sessions\<close>

definition IDLE_MINUTES :: int where "IDLE_MINUTES = 15"

definition session_live :: "database \<Rightarrow> jstring \<Rightarrow> session \<Rightarrow> bool" where
  "session_live d email s \<longleftrightarrow>
     sql_eq (s_email s) email \<and> s_revoked s = None \<and> s_last_seen s > clock d - minutes IDLE_MINUTES"

definition live_sessions :: "database \<Rightarrow> jstring \<Rightarrow> session list" where
  "live_sessions d email =
     rev (sort_key s_last_seen (filter (session_live d email) (sessions d)))"

definition getLiveSessionForEmail :: "jstring \<Rightarrow> session option io" where
  "getLiveSessionForEmail email = select (\<lambda>d. first_row (live_sessions d email))"

definition revoke_where :: "(session \<Rightarrow> bool) \<Rightarrow> database \<Rightarrow> nat \<times> database" where
  "revoke_where P d =
     (length (filter (\<lambda>s. P s \<and> s_revoked s = None) (sessions d)),
      d\<lparr>sessions := update_where (\<lambda>s. P s \<and> s_revoked s = None)
                      (\<lambda>s. s\<lparr>s_revoked := Some (clock d)\<rparr>) (sessions d)\<rparr>)"

definition revokeSessionsForEmail :: "jstring \<Rightarrow> nat io" where
  "revokeSessionsForEmail email = execute (revoke_where (\<lambda>s. sql_eq (s_email s) email))"

definition revokeSession :: "jstring option \<Rightarrow> nat io" where
  "revokeSession sid =
     (if or_empty sid = [] then ret 0
      else execute (revoke_where (\<lambda>s. sql_eq (s_id s) (or_empty sid))))"

record device =
  dv_agent :: "jstring option"
  dv_ip :: "jstring option"

text \<open>\<open>v ? String(v).slice(0, n) : null\<close>.\<close>

definition clip :: "jstring option \<Rightarrow> nat \<Rightarrow> jstring option" where
  "clip v n = (case or_null (or_empty v) of None \<Rightarrow> None | Some s \<Rightarrow> Some (take n s))"

definition insert_session :: "jstring \<Rightarrow> jstring \<Rightarrow> device \<Rightarrow> database \<Rightarrow> exn + (unit \<times> database)" where
  "insert_session sid email dev d =
     (if list_ex (\<lambda>s. sql_eq (s_id s) sid) (sessions d) then Inl (DupEntry ''PRIMARY'')
      else Inr ((), d\<lparr>sessions := sessions d @
             [\<lparr>s_id = sid, s_email = email, s_agent = clip (dv_agent dev) 255,
               s_ip = clip (dv_ip dev) 64, s_last_seen = clock d, s_revoked = None\<rparr>]\<rparr>))"

definition createSession :: "jstring \<Rightarrow> device \<Rightarrow> jstring io" where
  "createSession email dev =
     bnd draw_hex (\<lambda>sid. bnd (sql (insert_session sid email dev)) (\<lambda>_. ret sid))"

definition session_active :: "database \<Rightarrow> jstring \<Rightarrow> bool" where
  "session_active d sid \<longleftrightarrow> list_ex (\<lambda>s. sql_eq (s_id s) sid \<and> s_revoked s = None) (sessions d)"

definition isSessionActive :: "jstring option \<Rightarrow> bool io" where
  "isSessionActive sid =
     (if or_empty sid = [] then ret False else select (\<lambda>d. session_active d (or_empty sid)))"

definition touchSession :: "jstring option \<Rightarrow> unit io" where
  "touchSession sid =
     (if or_empty sid = [] then ret ()
      else execute (\<lambda>d. ((), d\<lparr>sessions := update_where
             (\<lambda>s. sql_eq (s_id s) (or_empty sid) \<and> s_revoked s = None
                  \<and> s_last_seen s < clock d - minutes 1)
             (\<lambda>s. s\<lparr>s_last_seen := clock d\<rparr>) (sessions d)\<rparr>)))"

definition allowsMultiDevice :: "nat option \<Rightarrow> bool io" where
  "allowsMultiDevice tid =
     (if tid = None \<or> tid = Some 0 then ret False
      else bnd (getTenantPlan tid) (\<lambda>p. ret (multiDevice (getPlanLimits p))))"

datatype session_start = Blocked session | Started jstring

definition startSession :: "jstring \<Rightarrow> nat option \<Rightarrow> device \<Rightarrow> bool \<Rightarrow> session_start io" where
  "startSession email tid dev force =
     bnd (allowsMultiDevice tid) (\<lambda>multi.
     bnd (if multi then ret None
          else if force then bnd (revokeSessionsForEmail email) (\<lambda>_. ret None)
          else bnd (getLiveSessionForEmail email) (\<lambda>live.
                 case live of
                   Some s \<Rightarrow> ret (Some s)
                 | None \<Rightarrow> bnd (revokeSessionsForEmail email) (\<lambda>_. ret None))) (\<lambda>blocked.
       case blocked of
         Some s \<Rightarrow> ret (Blocked s)
       | None \<Rightarrow> bnd (createSession email dev) (\<lambda>sid. ret (Started sid))))"

section \<open>Who a request is\<close>

definition getActiveUser :: "nat \<Rightarrow> jstring \<Rightarrow> user option io" where
  "getActiveUser i email =
     select (\<lambda>d. find (\<lambda>u. u_id u = i \<and> sql_eq (u_email u) email \<and> u_active u) (users d))"

definition auth_of :: "user \<Rightarrow> jstring option \<Rightarrow> auth" where
  "auth_of u sid =
     \<lparr>au_id = u_id u, au_tenant = u_tenant u, au_role = u_role u, au_email = u_email u, au_sid = sid\<rparr>"

text \<open>The token in \<open>Authorization: Bearer <token>\<close>, or the reason it is refused.\<close>

definition bearer :: "jstring \<Rightarrow> jstring option" where
  "bearer header =
     (let parts = js_split 32 header
      in case parts of
           [] \<Rightarrow> None
         | p # ps \<Rightarrow>
             if p \<noteq> js ''Bearer'' then None
             else case ps of
                    [] \<Rightarrow> None
                  | t # _ \<Rightarrow> if t = [] \<or> t = js ''undefined'' \<or> t = js ''null'' then None else Some t)"

datatype auth_result = Passed auth | Refused int string

text \<open>\<open>authenticateToken\<close>; \<open>isSessionActive\<close> is awaited outside the \<open>try\<close> block.\<close>

definition authenticateToken :: "jstring option \<Rightarrow> auth_result io" where
  "authenticateToken header =
     (case or_null (or_empty header) of
        None \<Rightarrow> ret (Refused BAD_REQUEST ''Access denied'')
      | Some h \<Rightarrow>
          (case bearer h of
             None \<Rightarrow> ret (Refused BAD_REQUEST ''Invalid token'')
           | Some token \<Rightarrow>
               bnd (asks (\<lambda>w. jwt_verify (svc w) (js_now w) token)) (\<lambda>verdict.
                 case verdict of
                   JwtExpired \<Rightarrow> ret (Refused UNAUTHORIZED ''Session ended'')
                 | JwtInvalid \<Rightarrow> ret (Refused BAD_REQUEST ''Invalid token'')
                 | JwtValid c \<Rightarrow>
                     (case (jc_id c, or_null (or_empty (jc_email c))) of
                        (Some i, Some email) \<Rightarrow>
                          if i = 0 then ret (Refused BAD_REQUEST ''Invalid token'')
                          else bnd (isSessionActive (jc_sid c)) (\<lambda>active.
                            if \<not> active then ret (Refused UNAUTHORIZED ''Session ended'')
                            else catch (bnd (getActiveUser i email) (\<lambda>u.
                                   case u of
                                     None \<Rightarrow> ret (Refused BAD_REQUEST ''Invalid user'')
                                   | Some x \<Rightarrow>
                                       bnd (catch (touchSession (jc_sid c)) (\<lambda>_. ret ())) (\<lambda>_.
                                         ret (Passed (auth_of x (jc_sid c))))))
                                 (\<lambda>_. ret (Refused BAD_REQUEST ''Invalid user'')))
                      | _ \<Rightarrow> ret (Refused BAD_REQUEST ''Invalid token'')))))"

text \<open>\<open>optionalAuth\<close>: never refuses; \<open>None\<close> is a guest.\<close>

definition optionalAuth :: "jstring option \<Rightarrow> user option io" where
  "optionalAuth header =
     (case bearer (or_empty header) of
        None \<Rightarrow> ret None
      | Some token \<Rightarrow>
          bnd (asks (\<lambda>w. jwt_verify (svc w) (js_now w) token)) (\<lambda>verdict.
            case verdict of
              JwtValid c \<Rightarrow>
                (case (jc_id c, or_null (or_empty (jc_email c))) of
                   (Some i, Some email) \<Rightarrow>
                     if i = 0 then ret None
                     else catch (bnd (isSessionActive (jc_sid c)) (\<lambda>active.
                            if active then getActiveUser i email else ret None))
                          (\<lambda>_. ret None)
                 | _ \<Rightarrow> ret None)
            | _ \<Rightarrow> ret None))"

definition authenticateAdmin :: "jstring option \<Rightarrow> (string + user) io" where
  "authenticateAdmin header =
     (case or_null (or_empty header) of
        None \<Rightarrow> ret (Inl ''Access denied'')
      | Some h \<Rightarrow>
          (case bearer h of
             None \<Rightarrow> ret (Inl ''Invalid token'')
           | Some token \<Rightarrow>
               bnd (asks (\<lambda>w. jwt_verify (svc w) (js_now w) token)) (\<lambda>verdict.
                 case verdict of
                   JwtValid c \<Rightarrow>
                     (case or_null (or_empty (jc_email c)) of
                        None \<Rightarrow> ret (Inl ''Access denied'')
                      | Some email \<Rightarrow>
                          if jc_scope c \<noteq> Some ''admin'' then ret (Inl ''Access denied'')
                          else catch
                            (bnd (select (\<lambda>d. first_row (sort_key u_id
                                    (filter (\<lambda>u. sql_eq (u_email u) email \<and> u_admin u \<and> u_active u)
                                       (users d))))) (\<lambda>u.
                               case u of None \<Rightarrow> ret (Inl ''Access denied'') | Some x \<Rightarrow> ret (Inr x)))
                            (\<lambda>_. ret (Inl ''Access denied'')))
                 | _ \<Rightarrow> ret (Inl ''Access denied''))))"

section \<open>One device at a time\<close>

definition open_sessions :: "database \<Rightarrow> jstring \<Rightarrow> session list" where
  "open_sessions d email = filter (\<lambda>s. sql_eq (s_email s) email \<and> s_revoked s = None) (sessions d)"

definition other_sessions :: "database \<Rightarrow> jstring \<Rightarrow> session list" where
  "other_sessions d email = filter (\<lambda>s. \<not> sql_eq (s_email s) email) (sessions d)"

definition multi_device :: "database \<Rightarrow> nat option \<Rightarrow> bool" where
  "multi_device d tid \<longleftrightarrow>
     tid \<noteq> None \<and> tid \<noteq> Some 0 \<and> multiDevice (getPlanLimits (tenant_plan d tid))"

lemma open_after_revoke:
  "open_sessions (snd (revoke_where (\<lambda>s. sql_eq (s_email s) email) d)) email = []"
  by (auto simp: open_sessions_def revoke_where_def filter_empty_conv set_update_where)

lemma other_after_revoke:
  "other_sessions (snd (revoke_where (\<lambda>s. sql_eq (s_email s) email) d)) email = other_sessions d email"
  unfolding other_sessions_def revoke_where_def by (auto intro: filter_update_where_other)

lemma sessions_insert:
  assumes "insert_session sid email dev d = Inr (x, d')"
  shows "open_sessions d' email = open_sessions d email @ [last (sessions d')]
         \<and> s_id (last (sessions d')) = sid \<and> other_sessions d' email = other_sessions d email"
  using assms by (auto simp: insert_session_def open_sessions_def other_sessions_def split: if_splits)

lemma live_is_open: "first_row (live_sessions d email) = Some s \<Longrightarrow> s \<in> set (open_sessions d email)"
  by (drule first_row_SomeD) (auto simp: live_sessions_def session_live_def open_sessions_def)

lemma createSession_spec:
  "wp (createSession email dev)
     (\<lambda>r w'. (case r of
          Inl e \<Rightarrow> db w' = db w
        | Inr sid \<Rightarrow> map s_id (open_sessions (db w') email) = map s_id (open_sessions (db w) email) @ [sid])
        \<and> other_sessions (db w') email = other_sessions (db w) email) w"
  by (auto simp: createSession_def dest: sessions_insert split: sum.splits prod.splits)

lemma single_device_step:
  assumes "open_sessions (db w) email = []"
  shows "wp (bnd (createSession email dev) (\<lambda>sid. ret (Started sid)))
     (\<lambda>r w'. (case r of
          Inl e \<Rightarrow> open_sessions (db w') email = []
        | Inr (Blocked s) \<Rightarrow> False
        | Inr (Started sid) \<Rightarrow> map s_id (open_sessions (db w') email) = [sid])
        \<and> other_sessions (db w') email = other_sessions (db w) email) w"
  by (rule wp_seq [OF createSession_spec]) (use assms in auto)

lemma allowsMultiDevice_single:
  "\<not> multi_device (db w) tid \<Longrightarrow>
   wp (allowsMultiDevice tid) (\<lambda>r w'. (r = Inr False \<or> (\<exists>e. r = Inl e)) \<and> db w' = db w) w"
  by (auto simp: allowsMultiDevice_def multi_device_def)

definition single_device_result :: "database \<Rightarrow> jstring \<Rightarrow> bool \<Rightarrow> exn + session_start \<Rightarrow> database \<Rightarrow> bool" where
  "single_device_result d email force r d' \<longleftrightarrow>
     (case r of
        Inl e \<Rightarrow> length (open_sessions d' email) \<le> length (open_sessions d email)
      | Inr (Blocked s) \<Rightarrow> \<not> force \<and> session_live d email s \<and> sessions d' = sessions d
      | Inr (Started sid) \<Rightarrow> map s_id (open_sessions d' email) = [sid])
     \<and> other_sessions d' email = other_sessions d email"

lemma takeover_then_create:
  assumes "db w = d"
  shows "wp (bnd (bnd (revokeSessionsForEmail email) (\<lambda>_. ret None)) (\<lambda>blocked.
          case blocked of
            Some s \<Rightarrow> ret (Blocked s)
          | None \<Rightarrow> bnd (createSession email dev) (\<lambda>sid. ret (Started sid))))
     (\<lambda>r w'. single_device_result d email force r (db w')) w"
proof -
  have "wp (bnd (createSession email dev) (\<lambda>sid. ret (Started sid)))
          (\<lambda>r w'. single_device_result d email force r (db w')) w'"
    if "db w' = snd (revoke_where (\<lambda>s. sql_eq (s_email s) email) d)" for w'
    by (rule wp_mono [OF single_device_step])
       (auto simp: that open_after_revoke other_after_revoke single_device_result_def
             split: sum.splits session_start.splits)
  then show ?thesis using assms
    by (simp add: revokeSessionsForEmail_def) (simp add: single_device_result_def)
qed

lemma startSession_single:
  assumes "\<not> multi_device (db w) tid"
  shows "wp (startSession email tid dev force)
           (\<lambda>r w'. single_device_result (db w) email force r (db w')) w"
  unfolding startSession_def
proof (rule wp_seq [OF allowsMultiDevice_single [OF assms]], goal_cases)
  case (1 multi w')
  then have m: "\<not> multi" and w': "db w' = db w" by auto
  show ?case
  proof (cases force)
    case True
    then show ?thesis using m takeover_then_create [OF w'] by (simp only: if_False if_True)
  next
    case False
    let ?K = "\<lambda>blocked. case blocked of Some s \<Rightarrow> ret (Blocked s)
                   | None \<Rightarrow> bnd (createSession email dev) (\<lambda>sid. ret (Started sid))"
    let ?Q = "\<lambda>r v. single_device_result (db w) email force r (db v)"
    have none: "wp (bnd (revokeSessionsForEmail email) (\<lambda>_. ret None))
        (\<lambda>r v. case r of Inl e \<Rightarrow> ?Q (Inl e) v | Inr x \<Rightarrow> wp (?K x) ?Q v) (w'\<lparr>qn := n\<rparr>)" for n
      using takeover_then_create [of "w'\<lparr>qn := n\<rparr>" "db w"] w' by (subst (asm) wp_bnd) simp
    have some: "?Q (Inr (Blocked s)) (w'\<lparr>qn := n\<rparr>)" if "first_row (live_sessions (db w) email) = Some s" for s n
      using first_row_SomeD [OF that] False w'
      by (simp add: single_device_result_def live_sessions_def)
    have "wp (bnd (getLiveSessionForEmail email) (\<lambda>live.
              case live of Some s \<Rightarrow> ret (Some s)
              | None \<Rightarrow> bnd (revokeSessionsForEmail email) (\<lambda>_. ret None)))
        (\<lambda>r v. case r of Inl e \<Rightarrow> ?Q (Inl e) v | Inr x \<Rightarrow> wp (?K x) ?Q v) w'"
    proof (cases "fault (svc w') (qn w')")
      case True
      then show ?thesis using w' by (simp add: getLiveSessionForEmail_def single_device_result_def)
    next
      case False
      show ?thesis
      proof (cases "first_row (live_sessions (db w) email)")
        case None
        then show ?thesis using False none w' by (simp add: getLiveSessionForEmail_def del: wp_bnd) (simp add: wp_bnd)
      next
        case (Some s)
        then show ?thesis using False some w' by (simp add: getLiveSessionForEmail_def)
      qed
    qed
    then show ?thesis using m False by (simp only: if_False wp_bnd [of _ ?K])
  qed
next
  case (2 e w')
  then show ?case by (auto simp: single_device_result_def)
qed



lemma isSessionActive_spec:
  "wp (isSessionActive sid)
     (\<lambda>r w'. db w' = db w \<and> svc w' = svc w \<and> js_now w' = js_now w
        \<and> (r = Inr True \<longrightarrow> (\<exists>s. sid = Some s \<and> session_active (db w) s))) w"
  by (cases sid) (auto simp: isSessionActive_def)

definition authenticated :: "world \<Rightarrow> jstring \<Rightarrow> auth \<Rightarrow> bool" where
  "authenticated w token a \<longleftrightarrow>
     (\<exists>c sid u. jwt_verify (svc w) (js_now w) token = JwtValid c \<and> jc_sid c = Some sid
        \<and> session_active (db w) sid \<and> u \<in> set (users (db w)) \<and> u_active u
        \<and> jc_id c = Some (u_id u) \<and> sql_eq (u_email u) (or_empty (jc_email c))
        \<and> a = auth_of u (Some sid))"

lemma getActiveUser_spec:
  "wp (getActiveUser i email)
     (\<lambda>r w'. db w' = db w \<and> (\<forall>u. r = Inr (Some u) \<longrightarrow>
        u \<in> set (users (db w)) \<and> u_id u = i \<and> sql_eq (u_email u) email \<and> u_active u)) w"
  by (auto simp: getActiveUser_def find_Some_iff)

lemma authenticateToken_spec:
  "wp (authenticateToken header)
     (\<lambda>r w'. case r of
        Inr (Passed a) \<Rightarrow> (\<exists>token. bearer (or_empty header) = Some token \<and> authenticated w token a)
      | _ \<Rightarrow> True) w"
proof -
  let ?Q = "\<lambda>token r w'. case r of Inr (Passed a) \<Rightarrow> authenticated w token a | _ \<Rightarrow> True"
  have user: "wp (catch (bnd (getActiveUser i email) (\<lambda>u.
                 case u of
                   None \<Rightarrow> ret (Refused BAD_REQUEST ''Invalid user'')
                 | Some x \<Rightarrow>
                     bnd (catch (touchSession (jc_sid c)) (\<lambda>_. ret ())) (\<lambda>_.
                       ret (Passed (auth_of x (jc_sid c))))))
               (\<lambda>_. ret (Refused BAD_REQUEST ''Invalid user''))) (?Q token) w'"
    if "db w' = db w" and "jwt_verify (svc w) (js_now w) token = JwtValid c" and "jc_id c = Some i"
      and "or_null (or_empty (jc_email c)) = Some email" and "jc_sid c = Some sid"
      and "session_active (db w) sid" for token c i email sid w'
  proof -
    have pass: "authenticated w token (auth_of x (jc_sid c))"
      if "x \<in> set (users (db w))" "u_id x = i" "sql_eq (u_email x) email" "u_active x" for x
      using that \<open>jwt_verify _ _ _ = _\<close> \<open>jc_id c = _\<close> \<open>or_null _ = _\<close> \<open>jc_sid c = _\<close> \<open>session_active _ _\<close>
      by (auto simp: authenticated_def intro!: exI [of _ c] exI [of _ x])
    show ?thesis
      unfolding wp_catch
      by (rule wp_seq [OF getActiveUser_spec])
         (use pass that(1) in \<open>auto split: option.splits sum.splits intro!: wp_any\<close>)
  qed
  have sess: "wp (bnd (isSessionActive (jc_sid c)) (\<lambda>active.
        if \<not> active then ret (Refused UNAUTHORIZED ''Session ended'')
        else catch (bnd (getActiveUser i email) (\<lambda>u.
                 case u of
                   None \<Rightarrow> ret (Refused BAD_REQUEST ''Invalid user'')
                 | Some x \<Rightarrow>
                     bnd (catch (touchSession (jc_sid c)) (\<lambda>_. ret ())) (\<lambda>_.
                       ret (Passed (auth_of x (jc_sid c))))))
               (\<lambda>_. ret (Refused BAD_REQUEST ''Invalid user'')))) (?Q token) w"
    if "jwt_verify (svc w) (js_now w) token = JwtValid c" and "jc_id c = Some i"
      and "or_null (or_empty (jc_email c)) = Some email" for token c i email
    by (rule wp_seq [OF isSessionActive_spec])
       (use that user in \<open>auto simp del: wp_bnd wp_catch\<close>)
  show ?thesis
    by (auto simp: authenticateToken_def simp del: wp_bnd wp_catch
             simp add: wp_bnd [of "asks f" for f]
             split: option.splits jwt_result.splits sum.splits auth_result.splits
             intro!: wp_mono [OF sess])
qed

end
