(* ===== verification/Public_Board.thy ===== *)
theory Public_Board
  imports Isolation Public_Write_Guard Sessions Ttl_Cache
begin

text \<open>
  The public portal of a workspace (\<open>src/main/public/\<close>): resolving the board, posting,
  commenting, voting, and editing one's own content.  The reads are in \<open>Board_Reads\<close>.
\<close>

section \<open>Resolving the board\<close>

record public_tenant =
  pu_tenant :: tenant
  pu_attachments :: bool
  pu_owner_badge :: bool
  pu_owner_privacy :: bool
  pu_signin_to_post :: bool

definition board_named :: "jstring \<Rightarrow> database \<Rightarrow> tenant option" where
  "board_named sub d = find (\<lambda>t. t_active t \<and> sql_eq (t_subdomain t) sub) (tenants d)"

definition portal_key :: "jstring \<Rightarrow> jstring" where
  "portal_key value = js ''tenant:'' @ value"

definition resolvePublicTenant :: "jstring option \<Rightarrow> public_tenant outcome io" where
  "resolvePublicTenant identifier =
     (let value = js_lower (js_trim (or_empty identifier))
      in if value = [] then ret (Reject BAD_REQUEST ''tenant_not_found'')
         else catch
           (bnd (asks (\<lambda>w. TTL_TENANT (svc w))) (\<lambda>ttl.
            bnd (cache_wrap (portal_key value) ttl (select (board_named value))) (\<lambda>row.
              case row of
                None \<Rightarrow> ret (Reject NOT_FOUND ''tenant_not_found'')
              | Some t \<Rightarrow>
                  let l = getPlanLimits (t_plan t)
                  in ret (Resolve OK ''tenant_retrieved_successfully''
                       \<lparr>pu_tenant = t, pu_attachments = allowAttachments l, pu_owner_badge = ownerBadge l,
                        pu_owner_privacy = ownerPrivacy l,
                        pu_signin_to_post = (t_require_auth t \<and> restrictAnonymousPosting l)\<rparr>))))
           (\<lambda>_. ret (Reject INTERNAL_SERVER_ERROR ''failed_to_get_tenant'')))"

definition invalidateTenantCache :: "jstring list \<Rightarrow> unit io" where
  "invalidateTenantCache subdomains =
     bnd (for_each (filter (\<lambda>s. s \<noteq> []) subdomains)
            (\<lambda>s. tenant_cache_invalidate (portal_key (js_lower (js_trim s))))) (\<lambda>_. ret ())"

text \<open>The middleware in front of every other portal route; \<open>Inl\<close> is the response it sends.\<close>

definition attachPublicTenant :: "jstring \<Rightarrow> ((int \<times> string) + tenant) io" where
  "attachPublicTenant subdomain =
     catch (bnd (select (board_named (js_lower (js_trim subdomain)))) (\<lambda>row.
              case row of
                None \<Rightarrow> ret (Inl (NOT_FOUND, ''tenant_not_found''))
              | Some t \<Rightarrow> ret (Inr t)))
           (\<lambda>_. ret (Inl (INTERNAL_SERVER_ERROR, ''failed_to_get_tenant'')))"

section \<open>Posting\<close>

record post_form =
  pf_title :: "jstring option"
  pf_description :: "jstring option"
  pf_type :: "string option"
  pf_name :: "jstring option"
  pf_email :: "jstring option"
  pf_guest :: "jstring option"
  pf_attachments :: "int list"

text \<open>\<open>(x || "").trim().slice(0, n) || null\<close>.\<close>

definition guest_field :: "nat \<Rightarrow> jstring option \<Rightarrow> jstring option" where
  "guest_field n x = or_null (take n (js_trim (or_empty x)))"

text \<open>\<open>POST_TYPES.includes(t) ? t : "feedback"\<close>.\<close>

definition submitted_type :: "string option \<Rightarrow> post_type" where
  "submitted_type t = (case t of None \<Rightarrow> Feedback
     | Some x \<Rightarrow> (case parse_post_type x of None \<Rightarrow> Feedback | Some y \<Rightarrow> y))"

definition TYPE_LABEL :: "post_type \<Rightarrow> string" where
  "TYPE_LABEL t = (case t of Feedback \<Rightarrow> ''feedback'' | FeatureRequest \<Rightarrow> ''a feature request''
                   | BugReport \<Rightarrow> ''a bug report'')"

definition duplicate_pattern :: "jstring \<Rightarrow> jstring" where
  "duplicate_pattern normalized = 37 # take 80 normalized @ [37]"

definition recent_duplicates :: "nat \<Rightarrow> jstring \<Rightarrow> database \<Rightarrow> nat" where
  "recent_duplicates tenantId normalized d =
     length (filter (\<lambda>p. p_tenant p = tenantId \<and> p_author p = None
                       \<and> p_created p > clock d - hours 24
                       \<and> sql_like (duplicate_pattern normalized) (js_lower (p_title p @ 32 # p_description p)))
               (posts d))"

definition count_post_duplicates :: "nat \<Rightarrow> jstring \<Rightarrow> jstring \<Rightarrow> nat io" where
  "count_post_duplicates tenantId title description =
     (let normalized = normalizeForCompare (title @ 32 # description)
      in if normalized = [] then ret 0
         else catch (select (recent_duplicates tenantId normalized)) (\<lambda>_. ret 0))"

text \<open>\<open>notifyOwnerOfNewPost\<close>: fire-and-forget, swallows its errors.\<close>

definition notifyOwnerOfNewPost :: "nat \<Rightarrow> user option \<Rightarrow> unit io" where
  "notifyOwnerOfNewPost tenantId authUser =
     catch (bnd (select (\<lambda>d. find (\<lambda>t. t_id t = tenantId) (tenants d))) (\<lambda>_.
            bnd (select (\<lambda>d. find (\<lambda>u. u_tenant u = Some tenantId \<and> u_role u = Owner \<and> u_active u) (users d))) (\<lambda>owner.
              case owner of
                None \<Rightarrow> ret ()
              | Some o1 \<Rightarrow>
                  if u_email o1 = [] then ret ()
                  else if (case authUser of None \<Rightarrow> False | Some a \<Rightarrow> u_id a = u_id o1) then ret ()
                  else bnd (send_email (u_email o1) ''new_feedback'') (\<lambda>_. ret ()))))
           (\<lambda>_. ret ())"

definition display_name :: "user option \<Rightarrow> jstring option \<Rightarrow> jstring" where
  "display_name authUser submitterName =
     (case (case authUser of None \<Rightarrow> None | Some u \<Rightarrow> or_null (u_name u)) of
        Some n \<Rightarrow> n
      | None \<Rightarrow> (case submitterName of Some n \<Rightarrow> n | None \<Rightarrow> js ''Someone''))"

definition new_post :: "nat \<Rightarrow> user option \<Rightarrow> post_form \<Rightarrow> guard_verdict \<Rightarrow> post" where
  "new_post tenantId authUser f g =
     \<lparr>p_id = 0, p_tenant = tenantId, p_author = map_option u_id authUser,
      p_submitter_name = (if authUser \<noteq> None then None else guest_field 120 (pf_name f)),
      p_submitter_email = (if authUser \<noteq> None then None else guest_field 255 (pf_email f)),
      p_guest = (if authUser \<noteq> None then None else guest_field 64 (pf_guest f)),
      p_voter_hash = gv_hash g, p_title = js_trim (or_empty (pf_title f)),
      p_description = js_trim (or_empty (pf_description f)), p_type = submitted_type (pf_type f),
      p_status = StOpen, p_notified_at = None, p_priority = 3, p_pinned = False, p_duplicate_of = None,
      p_moderation = gv_state g, p_score = gv_score g, p_reasons = gv_reasons g,
      p_reviewed_at = None, p_reviewed_score = None, p_created = 0\<rparr>"

text \<open>The insert and what follows it; quarantined content notifies nobody.\<close>

definition announce_post :: "nat \<Rightarrow> nat \<Rightarrow> user option \<Rightarrow> post \<Rightarrow> unit io" where
  "announce_post tenantId postId authUser p =
     bnd (notifyOwnerOfNewPost tenantId authUser) (\<lambda>_.
       notifyTeam tenantId ''new_feedback''
         (js ''New feedback: '' @ truncate_text 80 (p_title p))
         (Some (display_name authUser (p_submitter_name p) @ js '' submitted '' @ js (TYPE_LABEL (p_type p)) @ js ''.''))
         (Some postId) (map_option u_id authUser))"

definition store_post :: "nat \<Rightarrow> user option \<Rightarrow> post_form \<Rightarrow> guard_verdict \<Rightarrow> nat option outcome io" where
  "store_post tenantId authUser f g =
     (let p = new_post tenantId authUser f g
      in catch
        (bnd (sql (insert_post p)) (\<lambda>i.
         bnd (attachToPost (pf_attachments f) i tenantId) (\<lambda>_.
         bnd (if gv_state g = Spam then ret () else announce_post tenantId i authUser p) (\<lambda>_.
           ret (Resolve CREATED ''post_created_successfully'' (Some i))))))
        (\<lambda>_. ret (Reject INTERNAL_SERVER_ERROR ''failed_to_create_post'')))"

text \<open>\<open>board\<close> is the row \<open>attachPublicTenant\<close> found; \<open>getTenantPlan\<close> reads the plan again.\<close>

definition signin_required :: "tenant \<Rightarrow> user option \<Rightarrow> bool io" where
  "signin_required board authUser =
     (if authUser = None \<and> t_require_auth board
      then bnd (getTenantPlan (Some (t_id board))) (\<lambda>p. ret (restrictAnonymousPosting (getPlanLimits p)))
      else ret False)"

definition createPublicPost ::
  "tenant \<Rightarrow> post_form \<Rightarrow> user option \<Rightarrow> write_request \<Rightarrow> nat option outcome io" where
  "createPublicPost board f authUser req =
     (let title = js_trim (or_empty (pf_title f));
          description = js_trim (or_empty (pf_description f));
          submitterEmail = (if authUser \<noteq> None then None else guest_field 255 (pf_email f));
          tenantId = t_id board
      in bnd (signin_required board authUser) (\<lambda>refused.
         if refused then ret (Reject UNAUTHORIZED ''signin_required_to_post'')
         else if title = [] then ret (Reject BAD_REQUEST ''title_required'')
         else if length title > 200 then ret (Reject BAD_REQUEST ''title_too_long'')
         else if authUser = None \<and> submitterEmail = None then ret (Reject BAD_REQUEST ''email_required'')
         else if (case submitterEmail of None \<Rightarrow> False | Some e \<Rightarrow> \<not> EMAIL_RE e)
         then ret (Reject BAD_REQUEST ''invalid_email'')
         else
           bnd (if authUser = None then count_post_duplicates tenantId title description else ret 0) (\<lambda>dups.
           bnd (evaluatePublicWrite tenantId req title description submitterEmail dups (authUser \<noteq> None)) (\<lambda>g.
             if gv_discard g then ret (Resolve CREATED ''post_created_successfully'' None)
             else if gv_rate_limited g then ret (Reject TOO_MANY_REQUESTS ''too_many_requests'')
             else store_post tenantId authUser f g))))"

section \<open>Commenting\<close>

text \<open>\<open>resolveOwner\<close>: the identity an owner's comment is shown under.\<close>

definition resolveOwner :: "string option \<Rightarrow> user option \<Rightarrow> nat \<Rightarrow> nat io" where
  "resolveOwner mode authUser tenantId =
     (if \<not> (case authUser of None \<Rightarrow> False | Some u \<Rightarrow> u_role u = Owner \<and> u_tenant u = Some tenantId)
         \<or> (mode \<noteq> Some ''named'' \<and> mode \<noteq> Some ''hidden'') then ret 0
      else bnd (getTenantPlan (Some tenantId)) (\<lambda>p.
        let l = getPlanLimits p
        in ret (if mode = Some ''hidden'' \<and> ownerPrivacy l then 2 else if ownerBadge l then 1 else 0)))"

text \<open>
  The walk from a comment to the root of its thread: \<open>seen\<close> holds the ids already left behind.
  \<open>None\<close> means the fuel ran out, which \<open>climb_enough_fuel\<close> excludes.
\<close>

primrec climb :: "nat \<Rightarrow> nat list \<Rightarrow> nat \<Rightarrow> board_comment \<Rightarrow> board_comment option io" where
  "climb 0 seen tenantId current = ret None"
| "climb (Suc n) seen tenantId current =
     (case c_parent current of
        None \<Rightarrow> ret (Some current)
      | Some p \<Rightarrow>
          if c_id current \<in> set seen then ret (Some current)
          else bnd (select (\<lambda>d. find (\<lambda>c. c_id c = p \<and> c_tenant c = tenantId) (comments d))) (\<lambda>up.
                 case up of
                   None \<Rightarrow> ret (Some current)
                 | Some u \<Rightarrow> climb n (c_id current # seen) tenantId u))"

definition thread_root :: "nat \<Rightarrow> board_comment \<Rightarrow> nat io" where
  "thread_root tenantId parent =
     bnd (asks (\<lambda>w. length (comments (db w)) + 2)) (\<lambda>fuel.
     bnd (climb fuel [] tenantId parent) (\<lambda>r.
       case r of None \<Rightarrow> raise (JsError ''no fuel'') | Some c \<Rightarrow> ret (c_id c)))"

text \<open>\<open>Inl\<close> is the 400 for a parent that is not a comment of this post.\<close>

definition root_parent :: "nat \<Rightarrow> nat \<Rightarrow> nat option \<Rightarrow> (unit + nat option) io" where
  "root_parent tenantId postId parentId =
     (case parentId of
        None \<Rightarrow> ret (Inr None)
      | Some q \<Rightarrow>
          if q = 0 then ret (Inr None)
          else bnd (select (\<lambda>d. find (\<lambda>c. c_id c = q \<and> c_post c = postId \<and> c_tenant c = tenantId) (comments d))) (\<lambda>row.
            case row of
              None \<Rightarrow> ret (Inl ())
            | Some c \<Rightarrow> bnd (thread_root tenantId c) (\<lambda>i. ret (Inr (Some i)))))"

record comment_form =
  cf_body :: "jstring option"
  cf_parent :: "nat option"
  cf_name :: "jstring option"
  cf_email :: "jstring option"
  cf_guest :: "jstring option"
  cf_owner_mode :: "string option"

definition recent_comment_duplicates :: "nat \<Rightarrow> jstring \<Rightarrow> database \<Rightarrow> nat" where
  "recent_comment_duplicates tenantId normalized d =
     length (filter (\<lambda>c. c_tenant c = tenantId \<and> c_author c = None
                       \<and> c_created c > clock d - hours 24
                       \<and> sql_like (duplicate_pattern normalized) (js_lower (c_body c)))
               (comments d))"

definition count_comment_duplicates :: "nat \<Rightarrow> jstring \<Rightarrow> nat io" where
  "count_comment_duplicates tenantId body =
     (let normalized = normalizeForCompare body
      in if normalized = [] then ret 0
         else catch (select (recent_comment_duplicates tenantId normalized)) (\<lambda>_. ret 0))"

definition new_comment ::
  "nat \<Rightarrow> nat \<Rightarrow> user option \<Rightarrow> comment_form \<Rightarrow> nat \<Rightarrow> nat option \<Rightarrow> guard_verdict \<Rightarrow> board_comment" where
  "new_comment tenantId postId authUser f asOwner parent g =
     \<lparr>c_id = 0, c_tenant = tenantId, c_post = postId, c_author = map_option u_id authUser,
      c_submitter_name = (if authUser \<noteq> None then None else guest_field 120 (cf_name f)),
      c_submitter_email = (if authUser \<noteq> None then None else guest_field 255 (cf_email f)),
      c_guest = (if authUser \<noteq> None then None else guest_field 64 (cf_guest f)),
      c_voter_hash = gv_hash g, c_as_owner = asOwner, c_parent = parent,
      c_body = js_trim (or_empty (cf_body f)), c_edited = False, c_moderation = gv_state g,
      c_score = gv_score g, c_reasons = gv_reasons g, c_reviewed_at = None, c_reviewed_score = None,
      c_created = 0\<rparr>"

definition announce_comment :: "nat \<Rightarrow> nat \<Rightarrow> user option \<Rightarrow> jstring \<Rightarrow> board_comment \<Rightarrow> unit io" where
  "announce_comment tenantId postId authUser postTitle c =
     notifyTeam tenantId ''comment_reply''
       (js ''New comment on '' @ 8220 # truncate_text 70 postTitle @ [8221])
       (Some (display_name authUser (c_submitter_name c) @ js '': '' @ 8220 # truncate_text 140 (c_body c) @ [8221]))
       (Some postId) (map_option u_id authUser)"

definition store_comment ::
  "nat \<Rightarrow> post \<Rightarrow> user option \<Rightarrow> comment_form \<Rightarrow> nat \<Rightarrow> nat option \<Rightarrow> guard_verdict \<Rightarrow> nat option outcome io" where
  "store_comment tenantId p authUser f asOwner parent g =
     (let c = new_comment tenantId (p_id p) authUser f asOwner parent g
      in bnd (sql (insert_comment c)) (\<lambda>i.
         bnd (if gv_state g = Spam then ret () else announce_comment tenantId (p_id p) authUser (p_title p) c) (\<lambda>_.
           ret (Resolve CREATED ''comment_created_successfully'' (Some i)))))"

definition createPublicComment ::
  "nat \<Rightarrow> nat \<Rightarrow> comment_form \<Rightarrow> user option \<Rightarrow> write_request \<Rightarrow> nat option outcome io" where
  "createPublicComment tenantId postId f authUser req =
     (let body = js_trim (or_empty (cf_body f));
          submitterEmail = (if authUser \<noteq> None then None else guest_field 255 (cf_email f))
      in if body = [] then ret (Reject BAD_REQUEST ''comment_body_required'')
         else if (case submitterEmail of None \<Rightarrow> False | Some e \<Rightarrow> \<not> EMAIL_RE e)
         then ret (Reject BAD_REQUEST ''invalid_email'')
         else catch
           (bnd (select (\<lambda>d. find (\<lambda>p. p_id p = postId \<and> p_tenant p = tenantId) (posts d))) (\<lambda>row.
              case row of
                None \<Rightarrow> ret (Reject NOT_FOUND ''post_not_found'')
              | Some p \<Rightarrow>
                  if p_moderation p = Spam then ret (Reject NOT_FOUND ''post_not_found'')
                  else
                    bnd (root_parent tenantId postId (cf_parent f)) (\<lambda>root.
                      case root of
                        Inl _ \<Rightarrow> ret (Reject BAD_REQUEST ''comment_not_found'')
                      | Inr parent \<Rightarrow>
                          bnd (resolveOwner (cf_owner_mode f) authUser tenantId) (\<lambda>asOwner.
                          bnd (if authUser = None then count_comment_duplicates tenantId body else ret 0) (\<lambda>dups.
                          bnd (evaluatePublicWrite tenantId req [] body submitterEmail dups (authUser \<noteq> None)) (\<lambda>g.
                            if gv_discard g then ret (Resolve CREATED ''comment_created_successfully'' None)
                            else if gv_rate_limited g then ret (Reject TOO_MANY_REQUESTS ''too_many_requests'')
                            else store_comment tenantId p authUser f asOwner parent g))))))
           (\<lambda>_. ret (Reject INTERNAL_SERVER_ERROR ''failed_to_create_comment'')))"

section \<open>Voting\<close>

text \<open>
  The unique keys of \<open>votes\<close>: per post, one vote of a guest id and one of a voter hash; NULL
  is not compared.
\<close>

definition same_opt :: "jstring option \<Rightarrow> jstring option \<Rightarrow> bool" where
  "same_opt a b \<longleftrightarrow> (case a of None \<Rightarrow> False | Some x \<Rightarrow> sql_eq_null b x)"

definition vote_conflict :: "vote \<Rightarrow> vote \<Rightarrow> bool" where
  "vote_conflict v x \<longleftrightarrow>
     v_tenant v = v_tenant x \<and> v_post v = v_post x
     \<and> ((v_user v \<noteq> None \<and> v_user v = v_user x) \<or> same_opt (v_guest v) (v_guest x)
        \<or> same_opt (v_hash v) (v_hash x))"

text \<open>\<open>INSERT IGNORE\<close>: the number of rows inserted.\<close>

definition insert_vote :: "vote \<Rightarrow> database \<Rightarrow> nat \<times> database" where
  "insert_vote v d =
     (if list_ex (vote_conflict v) (votes d) \<or> \<not> has_tenant d (v_tenant v) \<or> \<not> has_post d (v_post v)
      then (0, d)
      else (1, (bump_id ''votes'' d)\<lparr>votes := votes d @ [v\<lparr>v_id := next_id ''votes'' d\<rparr>]\<rparr>))"

definition delete_vote :: "nat \<Rightarrow> database \<Rightarrow> database" where
  "delete_vote i d = d\<lparr>votes := filter (\<lambda>v. v_id v \<noteq> i) (votes d)\<rparr>"

text \<open>The vote of this visitor: by the voter hash, or by the guest id when there is none.\<close>

definition cast_by :: "nat \<Rightarrow> nat \<Rightarrow> jstring option \<Rightarrow> jstring \<Rightarrow> vote \<Rightarrow> bool" where
  "cast_by tenantId postId hash guest v \<longleftrightarrow>
     v_tenant v = tenantId \<and> v_post v = postId
     \<and> (case hash of Some h \<Rightarrow> sql_eq_null (v_hash v) h | None \<Rightarrow> sql_eq_null (v_guest v) guest)"

definition vote_count :: "nat \<Rightarrow> database \<Rightarrow> nat" where
  "vote_count postId d = length (filter (\<lambda>v. v_post v = postId) (votes d))"

definition togglePublicVote ::
  "nat \<Rightarrow> nat \<Rightarrow> jstring option \<Rightarrow> write_request \<Rightarrow> (bool \<times> nat) outcome io" where
  "togglePublicVote tenantId postId guestId req =
     (let guest = js_trim (or_empty guestId)
      in if guest = [] \<or> length guest > 64 then ret (Reject BAD_REQUEST ''guest_id_required'')
         else bnd (asks (\<lambda>w. voterHash (svc w) (wr_ip req))) (\<lambda>hash. catch
           (bnd (select (\<lambda>d. find (\<lambda>p. p_id p = postId \<and> p_tenant p = tenantId) (posts d))) (\<lambda>row.
              if (case row of None \<Rightarrow> True | Some p \<Rightarrow> p_moderation p = Spam)
              then ret (Reject NOT_FOUND ''post_not_found'')
              else
                bnd (select (\<lambda>d. find (cast_by tenantId postId hash guest) (votes d))) (\<lambda>existing.
                bnd (case existing of
                       Some v \<Rightarrow> bnd (execute (\<lambda>d. ((), delete_vote (v_id v) d))) (\<lambda>_. ret False)
                     | None \<Rightarrow> bnd (execute (insert_vote \<lparr>v_id = 0, v_tenant = tenantId, v_post = postId,
                                   v_user = None, v_guest = Some guest, v_hash = hash\<rparr>)) (\<lambda>n. ret (n > 0))) (\<lambda>voted.
                bnd (select (vote_count postId)) (\<lambda>n.
                  ret (Resolve OK ''vote_updated_successfully'' (voted, n)))))))
           (\<lambda>_. ret (Reject INTERNAL_SERVER_ERROR ''failed_to_update_vote''))))"

section \<open>One's own content\<close>

definition ownedPost :: "nat \<Rightarrow> nat \<Rightarrow> post option io" where
  "ownedPost postId tenantId = select (\<lambda>d. find (\<lambda>p. p_id p = postId \<and> p_tenant p = tenantId) (posts d))"

definition ownedComment :: "nat \<Rightarrow> nat \<Rightarrow> board_comment option io" where
  "ownedComment commentId tenantId =
     select (\<lambda>d. find (\<lambda>c. c_id c = commentId \<and> c_tenant c = tenantId) (comments d))"

text \<open>
  Unlike the other handlers these have no \<open>try\<close>: a failing round trip rejects with the raw
  error, here the exception of the monad.
\<close>

definition updatePublicPost :: "nat \<Rightarrow> nat \<Rightarrow> post_form \<Rightarrow> auth \<Rightarrow> unit outcome io" where
  "updatePublicPost tenantId postId f au =
     bnd (ownedPost postId tenantId) (\<lambda>row.
       case row of
         None \<Rightarrow> ret (Reject NOT_FOUND ''post_not_found'')
       | Some p \<Rightarrow>
           if p_author p \<noteq> Some (au_id au) then ret (Reject FORBIDDEN ''not_your_content'')
           else let title = js_trim (or_empty (pf_title f)); description = js_trim (or_empty (pf_description f))
             in if title = [] then ret (Reject BAD_REQUEST ''title_required'')
                else bnd (sql (\<lambda>d. if length title \<le> 200 \<and> text_fits description
                       then Inr ((), d\<lparr>posts := update_where (\<lambda>x. p_id x = postId \<and> p_tenant x = tenantId)
                              (\<lambda>x. x\<lparr>p_title := title, p_description := description,
                                     p_type := (case pf_type f of None \<Rightarrow> p_type x
                                       | Some y \<Rightarrow> (case parse_post_type y of None \<Rightarrow> p_type x | Some z \<Rightarrow> z))\<rparr>)
                              (posts d)\<rparr>)
                       else Inl DbError)) (\<lambda>_.
                     ret (Resolve OK ''post_updated_successfully'' ())))"

definition deletePublicPost :: "nat \<Rightarrow> nat \<Rightarrow> auth \<Rightarrow> unit outcome io" where
  "deletePublicPost tenantId postId au =
     bnd (ownedPost postId tenantId) (\<lambda>row.
       case row of
         None \<Rightarrow> ret (Reject NOT_FOUND ''post_not_found'')
       | Some p \<Rightarrow>
           if p_author p \<noteq> Some (au_id au) then ret (Reject FORBIDDEN ''not_your_content'')
           else bnd (execute (\<lambda>d. ((), delete_posts (\<lambda>x. p_id x = postId \<and> p_tenant x = tenantId) d))) (\<lambda>_.
                  ret (Resolve OK ''post_deleted_successfully'' ())))"

definition updatePublicComment :: "nat \<Rightarrow> nat \<Rightarrow> jstring option \<Rightarrow> auth \<Rightarrow> unit outcome io" where
  "updatePublicComment tenantId commentId text au =
     bnd (ownedComment commentId tenantId) (\<lambda>row.
       case row of
         None \<Rightarrow> ret (Reject NOT_FOUND ''comment_not_found'')
       | Some c \<Rightarrow>
           if c_author c \<noteq> Some (au_id au) then ret (Reject FORBIDDEN ''not_your_content'')
           else let body = js_trim (or_empty text)
             in if body = [] then ret (Reject BAD_REQUEST ''comment_body_required'')
                else bnd (sql (\<lambda>d. if text_fits body
                       then Inr ((), d\<lparr>comments := update_where (\<lambda>x. c_id x = commentId \<and> c_tenant x = tenantId)
                              (\<lambda>x. x\<lparr>c_body := body, c_edited := True\<rparr>) (comments d)\<rparr>)
                       else Inl DbError)) (\<lambda>_.
                     ret (Resolve OK ''comment_updated_successfully'' ())))"

definition deletePublicComment :: "nat \<Rightarrow> nat \<Rightarrow> auth \<Rightarrow> unit outcome io" where
  "deletePublicComment tenantId commentId au =
     bnd (ownedComment commentId tenantId) (\<lambda>row.
       case row of
         None \<Rightarrow> ret (Reject NOT_FOUND ''comment_not_found'')
       | Some c \<Rightarrow>
           if c_author c \<noteq> Some (au_id au) then ret (Reject FORBIDDEN ''not_your_content'')
           else bnd (execute (\<lambda>d. ((), delete_comments (\<lambda>x. c_id x = commentId \<and> c_tenant x = tenantId) d))) (\<lambda>_.
                  ret (Resolve OK ''comment_deleted_successfully'' ())))"

end
