(* ===== verification/Dashboard_Content.thy ===== *)
theory Dashboard_Content
  imports Isolation Public_Board
begin

text \<open>
  What the members of a workspace do with its content (\<open>src/main/post/\<close>, \<open>src/main/comment/\<close>,
  \<open>src/main/tag/\<close>, \<open>src/main/roadmap/\<close>, \<open>src/common/spamRetention.js\<close>): the handlers that
  write.  The caller is the \<open>auth\<close> record that \<open>authenticateToken\<close> built; a caller whose
  \<open>tenant_id\<close> is NULL matches no row and inserts into none.
\<close>

section \<open>Rows of the caller's workspace\<close>

text \<open>\<open>WHERE id = ? AND tenant_id = ?\<close>.\<close>

definition my_post :: "auth \<Rightarrow> nat \<Rightarrow> post \<Rightarrow> bool" where
  "my_post au i p \<longleftrightarrow> p_id p = i \<and> Some (p_tenant p) = au_tenant au"

definition my_comment :: "auth \<Rightarrow> nat \<Rightarrow> board_comment \<Rightarrow> bool" where
  "my_comment au i c \<longleftrightarrow> c_id c = i \<and> Some (c_tenant c) = au_tenant au"

text \<open>\<open>UPDATE posts SET \<dots> WHERE id = ? AND tenant_id = ?\<close>: the number of rows matched.\<close>

definition update_my_posts :: "auth \<Rightarrow> nat \<Rightarrow> (post \<Rightarrow> post) \<Rightarrow> database \<Rightarrow> nat \<times> database" where
  "update_my_posts au i f d =
     (length (filter (my_post au i) (posts d)), d\<lparr>posts := update_where (my_post au i) f (posts d)\<rparr>)"

definition update_my_comments :: "auth \<Rightarrow> (board_comment \<Rightarrow> bool) \<Rightarrow> (board_comment \<Rightarrow> board_comment) \<Rightarrow> database \<Rightarrow> nat \<times> database" where
  "update_my_comments au P f d =
     (length (filter (\<lambda>c. P c \<and> Some (c_tenant c) = au_tenant au) (comments d)),
      d\<lparr>comments := update_where (\<lambda>c. P c \<and> Some (c_tenant c) = au_tenant au) f (comments d)\<rparr>)"

text \<open>The usual ending: no row matched, or done; a failing round trip is answered with 500.\<close>

definition answer_rows :: "int \<Rightarrow> string \<Rightarrow> string \<Rightarrow> string \<Rightarrow> nat io \<Rightarrow> unit outcome io" where
  "answer_rows code missing done_key failed m =
     catch (bnd m (\<lambda>n. if n = 0 then ret (Reject code missing) else ret (Resolve OK done_key ())))
           (\<lambda>_. ret (Reject INTERNAL_SERVER_ERROR failed))"

section \<open>Posts\<close>

record dash_post =
  dp_title :: "jstring option"
  dp_description :: "jstring option"
  dp_type :: "string option"
  dp_status :: "string option"
  dp_priority :: "int option"
  dp_attachments :: "int list"

text \<open>\<open>x || d\<close> on a string and on a number.\<close>

definition text_or :: "string \<Rightarrow> string option \<Rightarrow> string" where
  "text_or dflt x = (case x of None \<Rightarrow> dflt | Some s \<Rightarrow> if s = [] then dflt else s)"

definition int_or :: "int \<Rightarrow> int option \<Rightarrow> int" where
  "int_or dflt x = (case x of None \<Rightarrow> dflt | Some n \<Rightarrow> if n = 0 then dflt else n)"

text \<open>A missing NOT NULL column and text that is no member of the ENUM fail the insert.\<close>

definition dashboard_row :: "auth \<Rightarrow> dash_post \<Rightarrow> post option" where
  "dashboard_row au f =
     (case (au_tenant au, dp_title f, dp_description f) of
        (Some t, Some title, Some description) \<Rightarrow>
          (case (enum_post_type (text_or ''feedback'' (dp_type f)), enum_status (text_or ''open'' (dp_status f))) of
             (Some ty, Some st) \<Rightarrow>
               Some \<lparr>p_id = 0, p_tenant = t, p_author = Some (au_id au), p_submitter_name = None,
                     p_submitter_email = None, p_guest = None, p_voter_hash = None, p_title = title,
                     p_description = description, p_type = ty, p_status = st, p_notified_at = None,
                     p_priority = int_or 3 (dp_priority f), p_pinned = False, p_duplicate_of = None,
                     p_moderation = Published, p_score = 0, p_reasons = [], p_reviewed_at = None,
                     p_reviewed_score = None, p_created = 0\<rparr>
           | _ \<Rightarrow> None)
      | _ \<Rightarrow> None)"

definition insert_dashboard_post :: "auth \<Rightarrow> dash_post \<Rightarrow> database \<Rightarrow> exn + (nat \<times> database)" where
  "insert_dashboard_post au f d =
     (case dashboard_row au f of None \<Rightarrow> Inl DbError | Some p \<Rightarrow> insert_post p d)"

definition createPost :: "dash_post \<Rightarrow> auth \<Rightarrow> nat outcome io" where
  "createPost f au =
     catch (bnd (sql (insert_dashboard_post au f)) (\<lambda>i.
            bnd (case au_tenant au of None \<Rightarrow> ret 0 | Some t \<Rightarrow> attachToPost (dp_attachments f) i t) (\<lambda>_.
              ret (Resolve CREATED ''post_created_successfully'' i))))
           (\<lambda>_. ret (Reject INTERNAL_SERVER_ERROR ''failed_to_create_post''))"

text \<open>An UPDATE of columns that must not be NULL fails only when a row matches.\<close>

definition rewrite_post :: "dash_post \<Rightarrow> post \<Rightarrow> post option" where
  "rewrite_post f p =
     (case (dp_title f, dp_description f, dp_type f, dp_priority f) of
        (Some title, Some description, Some type, Some priority) \<Rightarrow>
          (case enum_post_type type of
             Some ty \<Rightarrow>
               if length title \<le> 200 \<and> text_fits description \<and> 0 \<le> priority \<and> priority \<le> 255
               then Some (p\<lparr>p_title := title, p_description := description, p_type := ty, p_priority := priority\<rparr>)
               else None
           | None \<Rightarrow> None)
      | _ \<Rightarrow> None)"

definition rewrite_my_post :: "auth \<Rightarrow> nat \<Rightarrow> dash_post \<Rightarrow> database \<Rightarrow> exn + (nat \<times> database)" where
  "rewrite_my_post au i f d =
     (if list_ex (\<lambda>p. my_post au i p \<and> rewrite_post f p = None) (posts d) then Inl DbError
      else Inr (update_my_posts au i (\<lambda>p. case rewrite_post f p of None \<Rightarrow> p | Some q \<Rightarrow> q) d))"

definition updatePost :: "nat \<Rightarrow> dash_post \<Rightarrow> auth \<Rightarrow> unit outcome io" where
  "updatePost i f au =
     answer_rows NOT_FOUND ''post_not_found'' ''post_updated_successfully'' ''failed_to_update_post''
       (sql (rewrite_my_post au i f))"

text \<open>\<open>planAllows\<close> is awaited outside the \<open>try\<close>, so its failure is the raw error.\<close>

definition deletePost :: "nat \<Rightarrow> auth \<Rightarrow> unit outcome io" where
  "deletePost i au =
     (if au_role au \<noteq> Owner then ret (Reject FORBIDDEN ''delete_feedback_owner_only'')
      else bnd (planAllows (au_tenant au) deleteFeedback) (\<lambda>allowed.
        if \<not> allowed then ret (Reject PAYMENT_REQUIRED ''plan_limit_delete_feedback'')
        else answer_rows NOT_FOUND ''post_not_found'' ''post_deleted_successfully'' ''failed_to_delete_post''
               (execute (\<lambda>d. (length (filter (my_post au i) (posts d)), delete_posts (my_post au i) d)))))"

definition updatePostStatus :: "nat \<Rightarrow> string \<Rightarrow> auth \<Rightarrow> unit outcome io" where
  "updatePostStatus i newStatus au =
     (case parse_status newStatus of
        None \<Rightarrow> ret (Reject BAD_REQUEST ''invalid_status'')
      | Some st \<Rightarrow>
          catch (bnd (execute (update_my_posts au i (\<lambda>p. p\<lparr>p_status := st\<rparr>))) (\<lambda>n.
                   if n = 0 then ret (Reject NOT_FOUND ''post_not_found'')
                   else bnd (case au_tenant au of None \<Rightarrow> ret () | Some t \<Rightarrow> syncRoadmapItemToStatus t i st) (\<lambda>_.
                          ret (Resolve OK ''post_status_updated_successfully'' ()))))
                (\<lambda>_. ret (Reject INTERNAL_SERVER_ERROR ''failed_to_update_post_status'')))"

text \<open>
  \<open>updatePostModeration\<close>: publishing remembers the score the classifier gave, once, and clears
  it; the database evaluates the assignments from left to right.
\<close>

definition review_post :: "int \<Rightarrow> moderation \<Rightarrow> post \<Rightarrow> post" where
  "review_post now st p =
     (if st = Published
      then p\<lparr>p_moderation := Published, p_reviewed_at := Some now,
             p_reviewed_score := (case p_reviewed_score p of None \<Rightarrow> Some (p_score p) | Some s \<Rightarrow> Some s),
             p_score := 0, p_reasons := []\<rparr>
      else p\<lparr>p_moderation := st\<rparr>)"

definition updatePostModeration :: "nat \<Rightarrow> string \<Rightarrow> auth \<Rightarrow> unit outcome io" where
  "updatePostModeration i state au =
     (case parse_moderation state of
        None \<Rightarrow> ret (Reject BAD_REQUEST ''invalid_status'')
      | Some st \<Rightarrow>
          answer_rows NOT_FOUND ''post_not_found'' ''post_status_updated_successfully'' ''failed_to_update_post_status''
            (execute (\<lambda>d. update_my_posts au i (review_post (clock d) st) d)))"

definition updatePostPin :: "nat \<Rightarrow> bool option \<Rightarrow> auth \<Rightarrow> bool outcome io" where
  "updatePostPin i isPinned au =
     catch (bnd (select (\<lambda>d. find (my_post au i) (posts d))) (\<lambda>row.
              case row of
                None \<Rightarrow> ret (Reject NOT_FOUND ''post_not_found'')
              | Some p \<Rightarrow>
                  let nxt = (case isPinned of None \<Rightarrow> \<not> p_pinned p | Some b \<Rightarrow> b)
                  in bnd (execute (update_my_posts au i (\<lambda>x. x\<lparr>p_pinned := nxt\<rparr>))) (\<lambda>_.
                       ret (Resolve OK (if nxt then ''post_pinned_successfully'' else ''post_unpinned_successfully'') nxt))))
           (\<lambda>_. ret (Reject INTERNAL_SERVER_ERROR ''failed_to_update_pin''))"

definition setPostDuplicate :: "nat \<Rightarrow> nat option \<Rightarrow> auth \<Rightarrow> unit outcome io" where
  "setPostDuplicate i target au =
     catch (bnd (select (\<lambda>d. find (my_post au i) (posts d))) (\<lambda>row.
              if row = None then ret (Reject NOT_FOUND ''post_not_found'')
              else bnd (case target of
                          None \<Rightarrow> ret True
                        | Some j \<Rightarrow>
                            if j = i then ret False
                            else bnd (select (\<lambda>d. find (my_post au j) (posts d))) (\<lambda>x. ret (x \<noteq> None))) (\<lambda>ok.
                if \<not> ok then ret (Reject BAD_REQUEST ''invalid_duplicate_target'')
                else bnd (execute (update_my_posts au i (\<lambda>p. p\<lparr>p_duplicate_of := target\<rparr>))) (\<lambda>_.
                       ret (Resolve OK (if target = None then ''duplicate_cleared_successfully''
                                        else ''post_marked_as_duplicate'') ())))))
           (\<lambda>_. ret (Reject INTERNAL_SERVER_ERROR ''failed_to_update_duplicate''))"

text \<open>
  \<open>purgeSpamPosts\<close>: \<open>ids\<close> are the integers of the request's list, if it sent one; the days are
  its integer, if it sent one.
\<close>

definition quarantined_of :: "auth \<Rightarrow> post \<Rightarrow> bool" where
  "quarantined_of au p \<longleftrightarrow> Some (p_tenant p) = au_tenant au \<and> p_moderation p = Spam"

definition purge_where :: "auth \<Rightarrow> (database \<Rightarrow> post \<Rightarrow> bool) \<Rightarrow> nat outcome io" where
  "purge_where au P =
     catch (bnd (execute (\<lambda>d. (length (filter (\<lambda>p. quarantined_of au p \<and> P d p) (posts d)),
                               delete_posts (\<lambda>p. quarantined_of au p \<and> P d p) d))) (\<lambda>n.
              ret (Resolve OK ''post_deleted_successfully'' n)))
           (\<lambda>_. ret (Reject INTERNAL_SERVER_ERROR ''failed_to_delete_post''))"

definition purgeSpamPosts :: "auth \<Rightarrow> int list option \<Rightarrow> int option \<Rightarrow> nat outcome io" where
  "purgeSpamPosts au ids olderThanDays =
     (if au_role au \<noteq> Owner then ret (Reject FORBIDDEN ''delete_feedback_owner_only'')
      else case ids of
        Some xs \<Rightarrow>
          let list = map nat (filter (\<lambda>n. n > 0) xs)
          in if list = [] then ret (Reject BAD_REQUEST ''invalid_request'')
             else purge_where au (\<lambda>d p. p_id p \<in> set list)
      | None \<Rightarrow>
          (case olderThanDays of
             None \<Rightarrow> ret (Reject BAD_REQUEST ''invalid_request'')
           | Some n \<Rightarrow>
               if n < 1 \<or> n > 3650 then ret (Reject BAD_REQUEST ''invalid_request'')
               else purge_where au (\<lambda>d p. p_created p < clock d - days n)))"

text \<open>\<open>notifyFeedbackImplemented\<close>; the plan is again read outside the \<open>try\<close>.\<close>

definition submitter_address :: "database \<Rightarrow> post \<Rightarrow> jstring option" where
  "submitter_address d p =
     (case p_author p of
        None \<Rightarrow> p_submitter_email p
      | Some a \<Rightarrow> (case find (\<lambda>u. u_id u = a) (users d) of
                    None \<Rightarrow> p_submitter_email p
                  | Some u \<Rightarrow> Some (u_email u)))"

definition notifyFeedbackImplemented :: "nat \<Rightarrow> auth \<Rightarrow> bool outcome io" where
  "notifyFeedbackImplemented i au =
     (if au_role au \<noteq> Owner then ret (Reject FORBIDDEN ''billing_forbidden'')
      else bnd (planAllows (au_tenant au) contactSubmitter) (\<lambda>allowed.
        if \<not> allowed then ret (Reject PAYMENT_REQUIRED ''plan_limit_contact_submitter'')
        else catch
          (bnd (select (\<lambda>d. map_option (\<lambda>p. (p, submitter_address d p)) (find (my_post au i) (posts d)))) (\<lambda>row.
             case row of
               None \<Rightarrow> ret (Reject NOT_FOUND ''post_not_found'')
             | Some (p, address) \<Rightarrow>
                 if p_status p \<noteq> StCompleted then ret (Reject BAD_REQUEST ''feedback_not_completed'')
                 else (case or_null (or_empty address) of
                         None \<Rightarrow> ret (Reject BAD_REQUEST ''no_submitter_email'')
                       | Some to \<Rightarrow>
                           bnd (send_email to ''feedback_implemented'') (\<lambda>sent.
                           bnd (execute (\<lambda>d. update_my_posts au i (\<lambda>x. x\<lparr>p_notified_at := Some (clock d)\<rparr>) d)) (\<lambda>_.
                             ret (Resolve OK ''submitter_notified'' sent))))))
          (\<lambda>_. ret (Reject INTERNAL_SERVER_ERROR ''failed_to_notify_submitter''))))"

section \<open>Comments\<close>

record dash_comment =
  dc_post :: "nat option"
  dc_body :: "jstring option"
  dc_parent :: "nat option"
  dc_mode :: "string option"

definition owner_mode :: "string option \<Rightarrow> auth \<Rightarrow> nat io" where
  "owner_mode mode au =
     (if au_role au = Owner \<and> (mode = Some ''named'' \<or> mode = Some ''hidden'')
      then bnd (getTenantPlan (au_tenant au)) (\<lambda>plan.
             let l = getPlanLimits plan
             in ret (if mode = Some ''hidden'' \<and> ownerPrivacy l then 2 else if ownerBadge l then 1 else 0))
      else ret 0)"

text \<open>\<open>parentCommentId || null\<close>; no check that post and parent are the workspace's own.\<close>

definition dashboard_comment :: "auth \<Rightarrow> nat \<Rightarrow> dash_comment \<Rightarrow> board_comment option" where
  "dashboard_comment au asOwner f =
     (case (au_tenant au, dc_post f, dc_body f) of
        (Some t, Some i, Some body) \<Rightarrow>
          Some \<lparr>c_id = 0, c_tenant = t, c_post = i, c_author = Some (au_id au), c_submitter_name = None,
                c_submitter_email = None, c_guest = None, c_voter_hash = None, c_as_owner = asOwner,
                c_parent = (if dc_parent f = Some 0 then None else dc_parent f), c_body = body,
                c_edited = False, c_moderation = Published, c_score = 0, c_reasons = [],
                c_reviewed_at = None, c_reviewed_score = None, c_created = 0\<rparr>
      | _ \<Rightarrow> None)"

definition insert_dashboard_comment :: "auth \<Rightarrow> nat \<Rightarrow> dash_comment \<Rightarrow> database \<Rightarrow> exn + (nat \<times> database)" where
  "insert_dashboard_comment au asOwner f d =
     (case dashboard_comment au asOwner f of None \<Rightarrow> Inl DbError | Some c \<Rightarrow> insert_comment c d)"

definition createComment :: "dash_comment \<Rightarrow> auth \<Rightarrow> nat outcome io" where
  "createComment f au =
     bnd (owner_mode (dc_mode f) au) (\<lambda>asOwner.
       catch (bnd (sql (insert_dashboard_comment au asOwner f)) (\<lambda>i.
                ret (Resolve CREATED ''comment_created_successfully'' i)))
             (\<lambda>_. ret (Reject INTERNAL_SERVER_ERROR ''failed_to_create_comment'')))"

definition updateComment :: "nat \<Rightarrow> jstring option \<Rightarrow> auth \<Rightarrow> unit outcome io" where
  "updateComment i body au =
     answer_rows FORBIDDEN ''not_your_content'' ''comment_updated_successfully'' ''failed_to_update_comment''
       (sql (\<lambda>d. let r = update_my_comments au (\<lambda>c. c_id c = i \<and> c_author c = Some (au_id au))
                            (\<lambda>c. c\<lparr>c_body := or_empty body, c_edited := True\<rparr>) d
                 in if fst r \<noteq> 0 \<and> (case body of None \<Rightarrow> True | Some b \<Rightarrow> \<not> text_fits b) then Inl DbError else Inr r))"

definition deleteComment :: "nat \<Rightarrow> auth \<Rightarrow> unit outcome io" where
  "deleteComment i au =
     answer_rows FORBIDDEN ''not_your_content'' ''comment_deleted_successfully'' ''failed_to_delete_comment''
       (execute (\<lambda>d. let P = (\<lambda>c. my_comment au i c \<and> (au_role au = Owner \<or> c_author c = Some (au_id au)))
                     in (length (filter P (comments d)), delete_comments P d)))"

definition review_comment :: "int \<Rightarrow> moderation \<Rightarrow> board_comment \<Rightarrow> board_comment" where
  "review_comment now st c =
     (if st = Published
      then c\<lparr>c_moderation := Published, c_reviewed_at := Some now,
             c_reviewed_score := (case c_reviewed_score c of None \<Rightarrow> Some (c_score c) | Some s \<Rightarrow> Some s),
             c_score := 0, c_reasons := []\<rparr>
      else c\<lparr>c_moderation := st\<rparr>)"

definition updateCommentModeration :: "nat \<Rightarrow> string \<Rightarrow> auth \<Rightarrow> unit outcome io" where
  "updateCommentModeration i state au =
     (if au_role au \<noteq> Owner then ret (Reject FORBIDDEN ''insufficient_permissions'')
      else case parse_moderation state of
        None \<Rightarrow> ret (Reject BAD_REQUEST ''invalid_status'')
      | Some st \<Rightarrow>
          answer_rows NOT_FOUND ''comment_not_found'' ''comment_updated_successfully'' ''failed_to_update_comment''
            (execute (\<lambda>d. update_my_comments au (\<lambda>c. c_id c = i) (review_comment (clock d) st) d)))"

end
