(* ===== verification/Workspace_Board.thy ===== *)
theory Workspace_Board
  imports Dashboard_Content
begin

text \<open>
  The tags and the roadmap of a workspace (\<open>src/main/tag/\<close>, \<open>src/main/roadmap/\<close>) and the
  retention of quarantined content (\<open>src/common/spamRetention.js\<close>).
\<close>

section \<open>Tags\<close>

definition has_tag :: "database \<Rightarrow> nat \<Rightarrow> bool" where
  "has_tag d i \<longleftrightarrow> list_ex (\<lambda>g. g_id g = i) (tags d)"

definition tag_name_taken :: "nat \<Rightarrow> nat option \<Rightarrow> jstring \<Rightarrow> database \<Rightarrow> bool" where
  "tag_name_taken t except name d \<longleftrightarrow>
     list_ex (\<lambda>g. g_tenant g = t \<and> sql_eq (g_name g) name \<and> Some (g_id g) \<noteq> except) (tags d)"

definition tag_fits :: "jstring \<Rightarrow> jstring option \<Rightarrow> bool" where
  "tag_fits name color \<longleftrightarrow> length name \<le> 60 \<and> (case color of None \<Rightarrow> True | Some c \<Rightarrow> length c \<le> 7)"

definition insert_tag :: "nat option \<Rightarrow> jstring option \<Rightarrow> jstring option \<Rightarrow> database \<Rightarrow> exn + (nat \<times> database)" where
  "insert_tag tenant name color d =
     (case (tenant, name) of
        (Some t, Some n) \<Rightarrow>
          if \<not> has_tenant d t \<or> \<not> tag_fits n color then Inl DbError
          else if tag_name_taken t None n d then Inl (DupEntry ''uq_tags_tenant_name'')
          else let i = next_id ''tags'' d
               in Inr (i, (bump_id ''tags'' d)\<lparr>tags := tags d @ [\<lparr>g_id = i, g_tenant = t, g_name = n, g_color = color\<rparr>]\<rparr>)
      | _ \<Rightarrow> Inl DbError)"

text \<open>\<open>colorHex || null\<close>.\<close>

definition createTag :: "jstring option \<Rightarrow> jstring option \<Rightarrow> auth \<Rightarrow> nat outcome io" where
  "createTag name colorHex au =
     catch (bnd (sql (insert_tag (au_tenant au) name (or_null (or_empty colorHex)))) (\<lambda>i.
              ret (Resolve CREATED ''tag_created_successfully'' i)))
           (\<lambda>_. ret (Reject INTERNAL_SERVER_ERROR ''failed_to_create_tag''))"

definition my_tag :: "auth \<Rightarrow> nat \<Rightarrow> tag \<Rightarrow> bool" where
  "my_tag au i g \<longleftrightarrow> g_id g = i \<and> Some (g_tenant g) = au_tenant au"

definition rename_tag :: "auth \<Rightarrow> nat \<Rightarrow> jstring option \<Rightarrow> jstring option \<Rightarrow> database \<Rightarrow> exn + (nat \<times> database)" where
  "rename_tag au i name color d =
     (let n = length (filter (my_tag au i) (tags d))
      in if n = 0 then Inr (0, d)
         else case (au_tenant au, name) of
           (Some t, Some nm) \<Rightarrow>
             if \<not> tag_fits nm color then Inl DbError
             else if tag_name_taken t (Some i) nm d then Inl (DupEntry ''uq_tags_tenant_name'')
             else Inr (n, d\<lparr>tags := update_where (my_tag au i) (\<lambda>g. g\<lparr>g_name := nm, g_color := color\<rparr>) (tags d)\<rparr>)
         | _ \<Rightarrow> Inl DbError)"

definition updateTag :: "nat \<Rightarrow> jstring option \<Rightarrow> jstring option \<Rightarrow> auth \<Rightarrow> unit outcome io" where
  "updateTag i name colorHex au =
     answer_rows NOT_FOUND ''tag_not_found'' ''tag_updated_successfully'' ''failed_to_update_tag''
       (sql (rename_tag au i name colorHex))"

definition deleteTag :: "nat \<Rightarrow> auth \<Rightarrow> unit outcome io" where
  "deleteTag i au =
     answer_rows NOT_FOUND ''tag_not_found'' ''tag_deleted_successfully'' ''failed_to_delete_tag''
       (execute (\<lambda>d. (length (filter (my_tag au i) (tags d)), delete_tags (my_tag au i) d)))"

text \<open>The link is stored under the caller's workspace; post and tag need only exist.\<close>

definition insert_post_tag :: "nat option \<Rightarrow> nat \<Rightarrow> nat \<Rightarrow> database \<Rightarrow> exn + (nat \<times> database)" where
  "insert_post_tag tenant postId tagId d =
     (case tenant of
        None \<Rightarrow> Inl DbError
      | Some t \<Rightarrow>
          if \<not> has_tenant d t \<or> \<not> has_post d postId \<or> \<not> has_tag d tagId then Inl DbError
          else if list_ex (\<lambda>x. pt_tenant x = t \<and> pt_post x = postId \<and> pt_tag x = tagId) (post_tags d)
          then Inl (DupEntry ''uq_post_tags_unique'')
          else let i = next_id ''post_tags'' d
               in Inr (i, (bump_id ''post_tags'' d)\<lparr>post_tags := post_tags d @
                            [\<lparr>pt_id = i, pt_tenant = t, pt_post = postId, pt_tag = tagId\<rparr>]\<rparr>))"

definition addTagToPost :: "nat \<Rightarrow> nat \<Rightarrow> auth \<Rightarrow> unit outcome io" where
  "addTagToPost postId tagId au =
     catch (bnd (sql (insert_post_tag (au_tenant au) postId tagId)) (\<lambda>_.
              ret (Resolve CREATED ''tag_added_to_post_successfully'' ())))
           (\<lambda>e. case e of
              DupEntry _ \<Rightarrow> ret (Reject BAD_REQUEST ''tag_already_added'')
            | _ \<Rightarrow> ret (Reject INTERNAL_SERVER_ERROR ''failed_to_add_tag_to_post''))"

definition my_link :: "auth \<Rightarrow> nat \<Rightarrow> nat \<Rightarrow> post_tag \<Rightarrow> bool" where
  "my_link au postId tagId x \<longleftrightarrow> Some (pt_tenant x) = au_tenant au \<and> pt_post x = postId \<and> pt_tag x = tagId"

definition removeTagFromPost :: "nat \<Rightarrow> nat \<Rightarrow> auth \<Rightarrow> unit outcome io" where
  "removeTagFromPost postId tagId au =
     answer_rows NOT_FOUND ''tag_not_found_on_post'' ''tag_removed_from_post_successfully''
       ''failed_to_remove_tag_from_post''
       (execute (\<lambda>d. (length (filter (my_link au postId tagId) (post_tags d)),
                      d\<lparr>post_tags := filter (\<lambda>x. \<not> my_link au postId tagId x) (post_tags d)\<rparr>)))"

section \<open>The roadmap\<close>

definition int32 :: "int \<Rightarrow> bool" where
  "int32 n \<longleftrightarrow> - 2147483648 \<le> n \<and> n \<le> 2147483647"

definition has_column :: "database \<Rightarrow> nat \<Rightarrow> bool" where
  "has_column d i \<longleftrightarrow> list_ex (\<lambda>c. rc_id c = i) (roadmap_columns d)"

definition insert_column ::
  "nat option \<Rightarrow> jstring option \<Rightarrow> string option \<Rightarrow> int \<Rightarrow> database \<Rightarrow> exn + (nat \<times> database)" where
  "insert_column tenant name key order d =
     (case (tenant, name, key) of
        (Some t, Some n, Some k) \<Rightarrow>
          if \<not> has_tenant d t \<or> length n > 80 \<or> length k > 40 \<or> \<not> int32 order then Inl DbError
          else if list_ex (\<lambda>c. rc_tenant c = t \<and> enum_is (rc_key c) k) (roadmap_columns d)
          then Inl (DupEntry ''uq_roadmap_column_key'')
          else let i = next_id ''roadmap_columns'' d
               in Inr (i, (bump_id ''roadmap_columns'' d)\<lparr>roadmap_columns := roadmap_columns d @
                            [\<lparr>rc_id = i, rc_tenant = t, rc_name = n, rc_key = k, rc_order = order\<rparr>]\<rparr>)
      | _ \<Rightarrow> Inl DbError)"

definition createRoadmapColumn :: "jstring option \<Rightarrow> string option \<Rightarrow> int option \<Rightarrow> auth \<Rightarrow> nat outcome io" where
  "createRoadmapColumn name columnKey sortOrder au =
     catch (bnd (sql (insert_column (au_tenant au) name columnKey (int_or 0 sortOrder))) (\<lambda>i.
              ret (Resolve CREATED ''roadmap_column_created_successfully'' i)))
           (\<lambda>_. ret (Reject INTERNAL_SERVER_ERROR ''failed_to_create_roadmap_column''))"

definition my_column :: "auth \<Rightarrow> nat \<Rightarrow> roadmap_column \<Rightarrow> bool" where
  "my_column au i c \<longleftrightarrow> rc_id c = i \<and> Some (rc_tenant c) = au_tenant au"

definition rename_column :: "auth \<Rightarrow> nat \<Rightarrow> jstring option \<Rightarrow> int option \<Rightarrow> database \<Rightarrow> exn + (nat \<times> database)" where
  "rename_column au i name order d =
     (let n = length (filter (my_column au i) (roadmap_columns d))
      in if n = 0 then Inr (0, d)
         else case (name, order) of
           (Some nm, Some k) \<Rightarrow>
             if length nm > 80 \<or> \<not> int32 k then Inl DbError
             else Inr (n, d\<lparr>roadmap_columns :=
                    update_where (my_column au i) (\<lambda>c. c\<lparr>rc_name := nm, rc_order := k\<rparr>) (roadmap_columns d)\<rparr>)
         | _ \<Rightarrow> Inl DbError)"

definition updateRoadmapColumn :: "nat \<Rightarrow> jstring option \<Rightarrow> int option \<Rightarrow> auth \<Rightarrow> unit outcome io" where
  "updateRoadmapColumn i name sortOrder au =
     answer_rows NOT_FOUND ''roadmap_column_not_found'' ''roadmap_column_updated_successfully''
       ''failed_to_update_roadmap_column'' (sql (rename_column au i name sortOrder))"

definition deleteRoadmapColumn :: "nat \<Rightarrow> auth \<Rightarrow> unit outcome io" where
  "deleteRoadmapColumn i au =
     answer_rows NOT_FOUND ''roadmap_column_not_found'' ''roadmap_column_deleted_successfully''
       ''failed_to_delete_roadmap_column''
       (execute (\<lambda>d. (length (filter (my_column au i) (roadmap_columns d)), delete_columns (my_column au i) d)))"

definition insert_item ::
  "nat option \<Rightarrow> nat option \<Rightarrow> nat option \<Rightarrow> int \<Rightarrow> int option \<Rightarrow> database \<Rightarrow> exn + (nat \<times> database)" where
  "insert_item tenant postId columnId order release d =
     (case (tenant, postId, columnId) of
        (Some t, Some p, Some c) \<Rightarrow>
          if \<not> has_tenant d t \<or> \<not> has_post d p \<or> \<not> has_column d c \<or> \<not> int32 order then Inl DbError
          else if list_ex (\<lambda>x. ri_tenant x = t \<and> ri_post x = p) (roadmap_items d)
          then Inl (DupEntry ''uq_roadmap_post_unique'')
          else let i = next_id ''roadmap_items'' d
               in Inr (i, (bump_id ''roadmap_items'' d)\<lparr>roadmap_items := roadmap_items d @
                            [\<lparr>ri_id = i, ri_tenant = t, ri_post = p, ri_column = c, ri_order = order, ri_release = release\<rparr>]\<rparr>)
      | _ \<Rightarrow> Inl DbError)"

definition id_or_zero :: "nat option \<Rightarrow> nat" where
  "id_or_zero x = (case x of None \<Rightarrow> 0 | Some i \<Rightarrow> i)"

definition addItemToRoadmap :: "nat option \<Rightarrow> nat option \<Rightarrow> int option \<Rightarrow> int option \<Rightarrow> auth \<Rightarrow> nat outcome io" where
  "addItemToRoadmap postId columnId sortOrder release au =
     catch (bnd (sql (insert_item (au_tenant au) postId columnId (int_or 0 sortOrder) release)) (\<lambda>i.
            bnd (case au_tenant au of None \<Rightarrow> ret ()
                 | Some t \<Rightarrow> syncPostStatusToColumn t (id_or_zero postId) (id_or_zero columnId)) (\<lambda>_.
              ret (Resolve CREATED ''roadmap_item_added_successfully'' i))))
           (\<lambda>_. ret (Reject INTERNAL_SERVER_ERROR ''failed_to_add_roadmap_item''))"

definition my_item :: "auth \<Rightarrow> nat \<Rightarrow> roadmap_item \<Rightarrow> bool" where
  "my_item au i x \<longleftrightarrow> ri_id x = i \<and> Some (ri_tenant x) = au_tenant au"

text \<open>\<open>None\<close> is a field the request left out, \<open>Some None\<close> an explicit null.\<close>

record item_patch =
  ip_column :: "nat option option"
  ip_order :: "int option option"
  ip_release :: "int option option"

definition patch_item :: "item_patch \<Rightarrow> roadmap_item \<Rightarrow> roadmap_item" where
  "patch_item q x = x\<lparr>
     ri_column := (case ip_column q of Some (Some c) \<Rightarrow> c | _ \<Rightarrow> ri_column x),
     ri_order := (case ip_order q of Some (Some n) \<Rightarrow> n | _ \<Rightarrow> ri_order x),
     ri_release := (case ip_release q of Some r \<Rightarrow> r | None \<Rightarrow> ri_release x)\<rparr>"

definition patch_fails :: "item_patch \<Rightarrow> database \<Rightarrow> bool" where
  "patch_fails q d \<longleftrightarrow>
     (case ip_column q of None \<Rightarrow> False | Some None \<Rightarrow> True | Some (Some c) \<Rightarrow> \<not> has_column d c)
     \<or> (case ip_order q of None \<Rightarrow> False | Some None \<Rightarrow> True | Some (Some n) \<Rightarrow> \<not> int32 n)"

definition update_item :: "auth \<Rightarrow> nat \<Rightarrow> item_patch \<Rightarrow> database \<Rightarrow> exn + (nat \<times> database)" where
  "update_item au i q d =
     (let n = length (filter (my_item au i) (roadmap_items d))
      in if n \<noteq> 0 \<and> patch_fails q d then Inl DbError
         else Inr (n, d\<lparr>roadmap_items := update_where (my_item au i) (patch_item q) (roadmap_items d)\<rparr>))"

definition updateRoadmapItem :: "nat \<Rightarrow> item_patch \<Rightarrow> auth \<Rightarrow> unit outcome io" where
  "updateRoadmapItem i q au =
     (if ip_column q = None \<and> ip_order q = None \<and> ip_release q = None
      then ret (Reject BAD_REQUEST ''failed_to_update_roadmap_item'')
      else catch
        (bnd (sql (update_item au i q)) (\<lambda>n.
           if n = 0 then ret (Reject NOT_FOUND ''roadmap_item_not_found'')
           else bnd (if ip_column q = None then ret ()
                     else bnd (select (\<lambda>d. find (my_item au i) (roadmap_items d))) (\<lambda>row.
                       case (au_tenant au, row) of
                         (Some t, Some x) \<Rightarrow> syncPostStatusToColumn t (ri_post x)
                                    (id_or_zero (case ip_column q of Some c \<Rightarrow> c | None \<Rightarrow> None))
                       | _ \<Rightarrow> ret ())) (\<lambda>_.
                  ret (Resolve OK ''roadmap_item_updated_successfully'' ()))))
        (\<lambda>_. ret (Reject INTERNAL_SERVER_ERROR ''failed_to_update_roadmap_item'')))"

definition removeItemFromRoadmap :: "nat \<Rightarrow> auth \<Rightarrow> unit outcome io" where
  "removeItemFromRoadmap i au =
     catch
       (bnd (select (\<lambda>d. find (my_item au i) (roadmap_items d))) (\<lambda>row.
        bnd (execute (\<lambda>d. (length (filter (my_item au i) (roadmap_items d)),
               d\<lparr>roadmap_items := filter (\<lambda>x. \<not> my_item au i x) (roadmap_items d)\<rparr>))) (\<lambda>n.
          if n = 0 then ret (Reject NOT_FOUND ''roadmap_item_not_found'')
          else bnd (case (au_tenant au, row) of
                      (Some t, Some x) \<Rightarrow> resetPostStatusToOpen t (ri_post x)
                    | _ \<Rightarrow> ret ()) (\<lambda>_.
                 ret (Resolve OK ''roadmap_item_removed_successfully'' ())))))
       (\<lambda>_. ret (Reject INTERNAL_SERVER_ERROR ''failed_to_remove_roadmap_item''))"

section \<open>Retention of quarantined content\<close>

definition RETENTION_DAYS :: "services \<Rightarrow> int" where
  "RETENTION_DAYS s = env_or s ''SPAM_RETENTION_DAYS'' 30"

definition isEnabled :: "services \<Rightarrow> bool" where
  "isEnabled s \<longleftrightarrow> RETENTION_DAYS s > 0"

definition expired_post :: "int \<Rightarrow> database \<Rightarrow> post \<Rightarrow> bool" where
  "expired_post n d p \<longleftrightarrow> p_moderation p = Spam \<and> p_created p < clock d - days n"

definition expired_comment :: "int \<Rightarrow> database \<Rightarrow> board_comment \<Rightarrow> bool" where
  "expired_comment n d c \<longleftrightarrow> c_moderation c = Spam \<and> c_created c < clock d - days n"

text \<open>The two deletes run over every workspace; a failure of the second keeps the first.\<close>

definition purgeExpiredSpam :: "(nat \<times> nat) io" where
  "purgeExpiredSpam =
     bnd (asks (\<lambda>w. (isEnabled (svc w), RETENTION_DAYS (svc w)))) (\<lambda>(enabled, n).
       if \<not> enabled then ret (0, 0)
       else catch
         (bnd (execute (\<lambda>d. (length (filter (expired_post n d) (posts d)), delete_posts (expired_post n d) d))) (\<lambda>ps.
          bnd (execute (\<lambda>d. (length (filter (expired_comment n d) (comments d)), delete_comments (expired_comment n d) d))) (\<lambda>cs.
            ret (ps, cs))))
         (\<lambda>_. ret (0, 0)))"

definition MIN_INTERVAL_MS :: int where "MIN_INTERVAL_MS = 60 * 60 * 1000"

text \<open>\<open>lastRun\<close> is a variable of the module: it is passed in and its new value returned.\<close>

definition maybePurgeExpiredSpam :: "int \<Rightarrow> int io" where
  "maybePurgeExpiredSpam lastRun =
     bnd (asks (\<lambda>w. (isEnabled (svc w), js_now w))) (\<lambda>(enabled, now).
       if \<not> enabled \<or> now - lastRun < MIN_INTERVAL_MS then ret lastRun
       else bnd (catch (bnd purgeExpiredSpam (\<lambda>_. ret ())) (\<lambda>_. ret ())) (\<lambda>_. ret now))"

end
