(* ===== verification/Membership.thy ===== *)
theory Membership
  imports Workspace_Board Account_Billing Sessions "HOL-Library.List_Lexorder"
begin

text \<open>
  The memberships of accounts in workspaces: the rows of \<open>users\<close> and \<open>tenants\<close>, the workspace
  operations of \<open>src/main/users/workspaces.js\<close> and the roles of
  \<open>src/main/users/updateUserRole.js\<close>.  An account is an email with one row per workspace; a row
  without a workspace is an account before its onboarding.
\<close>

section \<open>Rows\<close>

definition fits :: "nat \<Rightarrow> jstring option \<Rightarrow> bool" where
  "fits n x \<longleftrightarrow> (case x of None \<Rightarrow> True | Some s \<Rightarrow> length s \<le> n)"

text \<open>\<open>uq_users_tenant_email\<close>; rows without a workspace never collide.\<close>

definition member_row :: "nat option \<Rightarrow> jstring \<Rightarrow> user \<Rightarrow> bool" where
  "member_row t email u \<longleftrightarrow> t \<noteq> None \<and> u_tenant u = t \<and> sql_eq (u_email u) email"

definition user_fits :: "user \<Rightarrow> bool" where
  "user_fits u \<longleftrightarrow> length (u_email u) \<le> 190 \<and> length (u_name u) \<le> 150 \<and> fits 255 (u_password u)
     \<and> fits 20 (u_contact u) \<and> fits 500 (u_avatar u)"

definition insert_user :: "user \<Rightarrow> database \<Rightarrow> exn + (nat \<times> database)" where
  "insert_user u d =
     (if \<not> user_fits u then Inl DbError
      else if list_ex (member_row (u_tenant u) (u_email u)) (users d) then Inl (DupEntry ''uq_users_tenant_email'')
      else if \<not> fk_opt (has_tenant d) (u_tenant u) then Inl DbError
      else let i = next_id ''users'' d
           in Inr (i, (bump_id ''users'' d)\<lparr>users := users d @ [u\<lparr>u_id := i\<rparr>]\<rparr>))"

definition new_user :: "nat option \<Rightarrow> jstring \<Rightarrow> jstring option \<Rightarrow> jstring \<Rightarrow> role \<Rightarrow> jstring option \<Rightarrow> user" where
  "new_user t email pw name r avatar =
     \<lparr>u_id = 0, u_tenant = t, u_email = email, u_password = pw, u_name = name, u_contact = None,
      u_role = r, u_admin = False, u_avatar = avatar, u_active = True, u_last_login = None\<rparr>"

definition subdomain_used :: "jstring \<Rightarrow> tenant \<Rightarrow> bool" where
  "subdomain_used sub t \<longleftrightarrow> sql_eq (t_subdomain t) sub \<or> sql_eq (t_slug t) sub"

definition tenant_fits :: "tenant \<Rightarrow> bool" where
  "tenant_fits t \<longleftrightarrow> length (t_name t) \<le> 120 \<and> length (t_slug t) \<le> 120 \<and> length (t_subdomain t) \<le> 120
     \<and> fits 255 (t_custom_domain t) \<and> fits 255 (t_website t) \<and> fits 500 (t_logo t) \<and> fits 20 (t_color t)"

definition insert_tenant :: "tenant \<Rightarrow> database \<Rightarrow> exn + (nat \<times> database)" where
  "insert_tenant t d =
     (if \<not> tenant_fits t then Inl DbError
      else if list_ex (\<lambda>x. sql_eq (t_slug x) (t_slug t)) (tenants d) then Inl (DupEntry ''uq_tenants_slug'')
      else if list_ex (\<lambda>x. sql_eq (t_subdomain x) (t_subdomain t)) (tenants d) then Inl (DupEntry ''uq_tenants_subdomain'')
      else if (case t_custom_domain t of None \<Rightarrow> False
               | Some c \<Rightarrow> list_ex (\<lambda>x. sql_eq_null (t_custom_domain x) c) (tenants d))
      then Inl (DupEntry ''uq_tenants_custom_domain'')
      else let i = next_id ''tenants'' d
           in Inr (i, (bump_id ''tenants'' d)\<lparr>tenants := tenants d @ [t\<lparr>t_id := i\<rparr>]\<rparr>))"

section \<open>Subdomains\<close>

definition RESERVED_SUBDOMAINS :: "string list" where
  "RESERVED_SUBDOMAINS = [''www'', ''app'', ''admin'', ''dashboard'', ''api'', ''public'']"

definition alnum_unit :: "nat \<Rightarrow> bool" where
  "alnum_unit u \<longleftrightarrow> is_digit u \<or> is_lower_ascii u"

text \<open>\<open>/^[a-z0-9](?:[a-z0-9-]{1,38}[a-z0-9])?$/\<close>: one character, or three to forty.\<close>

definition SUBDOMAIN_RE :: "jstring \<Rightarrow> bool" where
  "SUBDOMAIN_RE s \<longleftrightarrow>
     (case s of
        [] \<Rightarrow> False
      | c # cs \<Rightarrow> alnum_unit c
          \<and> (cs = [] \<or> 2 \<le> length cs \<and> length cs \<le> 39 \<and> alnum_unit (last cs)
               \<and> list_all (\<lambda>u. alnum_unit u \<or> u = 45) (butlast cs)))"

definition valid_subdomain :: "jstring \<Rightarrow> bool" where
  "valid_subdomain s \<longleftrightarrow> SUBDOMAIN_RE s \<and> s \<notin> js ` set RESERVED_SUBDOMAINS"

text \<open>The answer is whether the subdomain is valid and whether it is free.\<close>

definition checkSubdomain :: "jstring option \<Rightarrow> (bool \<times> bool) outcome io" where
  "checkSubdomain rawSubdomain =
     (let subdomain = js_lower (js_trim (or_empty rawSubdomain))
      in if \<not> valid_subdomain subdomain then ret (Resolve OK ''data_fetched_successfully'' (False, False))
         else catch
           (bnd (select (\<lambda>d. \<not> list_ex (subdomain_used subdomain) (tenants d))) (\<lambda>available.
              ret (Resolve OK ''data_fetched_successfully'' (True, available))))
           (\<lambda>_. ret (Reject INTERNAL_SERVER_ERROR ''internal_server_error'')))"

section \<open>Workspaces\<close>

definition signToken :: "nat \<Rightarrow> jstring \<Rightarrow> nat option \<Rightarrow> role \<Rightarrow> jstring option \<Rightarrow> jstring io" where
  "signToken i email t r sid =
     asks (\<lambda>w. jwt_sign (svc w) (js_now w)
       \<lparr>jc_id = Some i, jc_email = Some email, jc_tenant = t, jc_role = Some r, jc_sid = sid, jc_scope = None\<rparr>)"

text \<open>The token and the user a sign-in, a switch or a join answers with.\<close>

record signed_in =
  si_token :: jstring
  si_id :: nat
  si_tenant :: "nat option"
  si_role :: role
  si_name :: jstring
  si_email :: jstring
  si_image :: "jstring option"

record workspace_row =
  wr_user :: nat
  wr_role :: role
  wr_tenant :: nat
  wr_name :: jstring
  wr_subdomain :: jstring
  wr_color :: "jstring option"
  wr_logo :: "jstring option"
  wr_current :: bool

definition workspace_row_of :: "nat option \<Rightarrow> user \<times> tenant \<Rightarrow> workspace_row" where
  "workspace_row_of current = (\<lambda>(u, t).
     \<lparr>wr_user = u_id u, wr_role = u_role u, wr_tenant = t_id t, wr_name = t_name t,
      wr_subdomain = t_subdomain t, wr_color = t_color t, wr_logo = t_logo t,
      wr_current = (Some (t_id t) = current)\<rparr>)"

definition getWorkspaces :: "auth \<Rightarrow> (workspace_row list \<times> workspace_usage) outcome io" where
  "getWorkspaces au =
     catch
       (bnd (select (\<lambda>d. map (workspace_row_of (au_tenant au))
               (sort_key (\<lambda>(u, t). js_lower (t_name t)) (active_memberships d (au_email au))))) (\<lambda>workspaces.
        bnd (getAccountWorkspaceUsage (au_email au)) (\<lambda>usage.
          ret (Resolve OK ''data_fetched_successfully'' (workspaces, usage)))))
       (\<lambda>_. ret (Reject INTERNAL_SERVER_ERROR ''internal_server_error''))"

record workspace_data =
  wd_name :: "jstring option"
  wd_subdomain :: "jstring option"
  wd_website :: "jstring option"

definition fresh_tenant :: "jstring \<Rightarrow> jstring \<Rightarrow> jstring option \<Rightarrow> tenant" where
  "fresh_tenant name subdomain website =
     \<lparr>t_id = 0, t_name = name, t_slug = subdomain, t_subdomain = subdomain, t_custom_domain = None,
      t_website = website, t_plan = ''free'', t_stripe_customer = None, t_stripe_sub = None,
      t_status = None, t_interval = None, t_period_end = None, t_pending_plan = None,
      t_pending_interval = None, t_pending_at = None, t_logo = None, t_color = Some (js ''#c74959''),
      t_active = True, t_require_auth = False\<rparr>"

text \<open>\<open>UPDATE users SET tenant_id = ?, role = 'owner' WHERE id = ?\<close>.\<close>

definition claim_row :: "nat \<Rightarrow> nat \<Rightarrow> database \<Rightarrow> database" where
  "claim_row tid i d =
     d\<lparr>users := update_where (\<lambda>u. u_id u = i) (\<lambda>u. u\<lparr>u_tenant := Some tid, u_role := Owner\<rparr>) (users d)\<rparr>"

text \<open>The three status columns of the roadmap, in one statement.\<close>

definition seed_columns :: "nat \<Rightarrow> database \<Rightarrow> exn + (unit \<times> database)" where
  "seed_columns t d =
     (case insert_column (Some t) (Some (js ''Planned'')) (Some ''planned'') 1 d of
        Inl e \<Rightarrow> Inl e
      | Inr (_, d1) \<Rightarrow>
          (case insert_column (Some t) (Some (js ''In Progress'')) (Some ''in_progress'') 2 d1 of
             Inl e \<Rightarrow> Inl e
           | Inr (_, d2) \<Rightarrow>
               (case insert_column (Some t) (Some (js ''Completed'')) (Some ''completed'') 3 d2 of
                  Inl e \<Rightarrow> Inl e
                | Inr (_, d3) \<Rightarrow> Inr ((), d3))))"

text \<open>The owner row of the new workspace: the pending row itself, or a copy of the caller's.\<close>

definition own_workspace :: "nat \<Rightarrow> user \<Rightarrow> nat io" where
  "own_workspace tid me =
     (if u_tenant me = None
      then bnd (execute (\<lambda>d. ((), claim_row tid (u_id me) d))) (\<lambda>_. ret (u_id me))
      else sql (insert_user (new_user (Some tid) (u_email me) (u_password me) (u_name me) Owner (u_avatar me))))"

definition create_workspace_tx ::
  "jstring \<Rightarrow> jstring \<Rightarrow> jstring option \<Rightarrow> nat \<Rightarrow> (int \<times> string, nat \<times> nat \<times> user) tx_end io" where
  "create_workspace_tx name subdomain website userId =
     bnd (select (\<lambda>d. list_ex (subdomain_used subdomain) (tenants d))) (\<lambda>dupe.
     if dupe then ret (Rollback (CONFLICT, ''subdomain_taken''))
     else bnd (select (\<lambda>d. find (\<lambda>u. u_id u = userId) (users d))) (\<lambda>row.
       case row of
         None \<Rightarrow> ret (Rollback (BAD_REQUEST, ''user_not_found''))
       | Some me \<Rightarrow>
           bnd (sql (insert_tenant (fresh_tenant name subdomain website))) (\<lambda>tid.
           bnd (own_workspace tid me) (\<lambda>ownerId.
           bnd (ensureAccount (u_email me)) (\<lambda>_.
           bnd (mirrorAccountToTenants (u_email me)) (\<lambda>_.
           bnd (sql (seed_columns tid)) (\<lambda>_.
             ret (Commit (tid, ownerId, me)))))))))"

definition workspace_conflict :: "exn \<Rightarrow> signed_in outcome" where
  "workspace_conflict e =
     (case e of
        DupEntry k \<Rightarrow> Reject CONFLICT (if js_includes (js k) (js ''custom_domain'')
                                     then ''custom_domain_taken'' else ''subdomain_taken'')
      | _ \<Rightarrow> Reject INTERNAL_SERVER_ERROR ''failed_to_create_tenant'')"

definition createWorkspace :: "workspace_data \<Rightarrow> auth \<Rightarrow> signed_in outcome io" where
  "createWorkspace data au =
     (let name = js_trim (or_empty (wd_name data));
          subdomain = js_lower (js_trim (or_empty (wd_subdomain data)));
          website = or_null (js_trim (or_empty (wd_website data)))
      in if name = [] then ret (Reject BAD_REQUEST ''workspace_name_required'')
         else if \<not> valid_subdomain subdomain then ret (Reject BAD_REQUEST ''invalid_subdomain'')
         else bnd (getAccountWorkspaceUsage (au_email au)) (\<lambda>usage.
           if \<not> wu_can_create usage then ret (Reject PAYMENT_REQUIRED ''plan_limit_workspaces_own'')
           else catch
             (bnd (transaction (create_workspace_tx name subdomain website (au_id au))) (\<lambda>end_of_tx.
                case end_of_tx of
                  Inl (code, key) \<Rightarrow> ret (Reject code key)
                | Inr (tid, ownerId, me) \<Rightarrow>
                    bnd (signToken ownerId (u_email me) (Some tid) Owner (au_sid au)) (\<lambda>token.
                      ret (Resolve CREATED ''workspace_created_successfully''
                        \<lparr>si_token = token, si_id = ownerId, si_tenant = Some tid, si_role = Owner,
                         si_name = u_name me, si_email = u_email me, si_image = u_avatar me\<rparr>))))
             (\<lambda>e. ret (workspace_conflict e))))"

definition switchWorkspace :: "nat option \<Rightarrow> auth \<Rightarrow> signed_in outcome io" where
  "switchWorkspace target au =
     catch
       (bnd (select (\<lambda>d. find (\<lambda>(u, t). Some (t_id t) = target) (active_memberships d (au_email au)))) (\<lambda>row.
          case row of
            None \<Rightarrow> ret (Reject FORBIDDEN ''workspace_not_found'')
          | Some (u, t) \<Rightarrow>
              bnd (signToken (u_id u) (u_email u) (u_tenant u) (u_role u) (au_sid au)) (\<lambda>token.
                ret (Resolve OK ''workspace_switched_successfully''
                  \<lparr>si_token = token, si_id = u_id u, si_tenant = u_tenant u, si_role = u_role u,
                   si_name = u_name u, si_email = u_email u, si_image = u_avatar u\<rparr>))))
       (\<lambda>_. ret (Reject INTERNAL_SERVER_ERROR ''internal_server_error''))"

section \<open>Roles\<close>

definition TENANT_ROLES :: "string list" where
  "TENANT_ROLES = [''owner'', ''user'']"

definition parse_role :: "string \<Rightarrow> role" where
  "parse_role s = (if s = ''owner'' then Owner else Member)"

definition owners_of :: "nat option \<Rightarrow> database \<Rightarrow> nat list" where
  "owners_of tid d = map u_id (filter (\<lambda>u. tid \<noteq> None \<and> u_tenant u = tid \<and> u_role u = Owner) (users d))"

definition my_colleague :: "auth \<Rightarrow> nat \<Rightarrow> user \<Rightarrow> bool" where
  "my_colleague au i u \<longleftrightarrow> u_id u = i \<and> au_tenant au \<noteq> None \<and> u_tenant u = au_tenant au"

definition set_role :: "auth \<Rightarrow> nat \<Rightarrow> role \<Rightarrow> database \<Rightarrow> nat \<times> database" where
  "set_role au i r d =
     (length (filter (my_colleague au i) (users d)),
      d\<lparr>users := update_where (my_colleague au i) (\<lambda>u. u\<lparr>u_role := r\<rparr>) (users d)\<rparr>)"

definition updateUserRole :: "nat \<Rightarrow> string \<Rightarrow> auth \<Rightarrow> unit outcome io" where
  "updateUserRole userId r au =
     (if au_role au \<noteq> Owner then ret (Reject FORBIDDEN ''insufficient_permissions'')
      else if r \<notin> set TENANT_ROLES then ret (Reject BAD_REQUEST ''invalid_role'')
      else catch
        (bnd (select (owners_of (au_tenant au))) (\<lambda>owners.
           let otherOwner = list_ex (\<lambda>i. i \<noteq> userId) owners
           in if r = ''owner'' \<and> otherOwner then ret (Reject BAD_REQUEST ''workspace_already_has_owner'')
              else if r = ''user'' \<and> \<not> otherOwner \<and> userId \<in> set owners
              then ret (Reject BAD_REQUEST ''workspace_needs_an_owner'')
              else bnd (execute (set_role au userId (parse_role r))) (\<lambda>n.
                if n = 0 then ret (Reject NOT_FOUND ''user_not_found'')
                else ret (Resolve OK ''user_role_updated_successfully'' ()))))
        (\<lambda>_. ret (Reject INTERNAL_SERVER_ERROR ''failed_to_update_user_role'')))"

end
