(* ===== verification/Identity.thy ===== *)
theory Identity
  imports Membership Email_Quality
begin

text \<open>
  Who an account is and how it is reached: password and social sign-in, registration, the
  password reset, the profile and the sign-out (\<open>src/main/users/userLogin.js\<close>,
  \<open>oauthLogin.js\<close>, \<open>registerNewUser.js\<close>, \<open>passwordReset.js\<close>, \<open>changeUserPassword.js\<close>,
  \<open>updateUserData.js\<close>, and the logout of \<open>src/routes/users/usersRoute.js\<close>).
\<close>

section \<open>Passwords\<close>

definition placeholderImagePath :: jstring where
  "placeholderImagePath = js ''uploads/placeholder/placeholder-image.png''"

text \<open>\<open>bcrypt.compare\<close> and \<open>bcrypt.hash\<close> reject when an argument is missing.\<close>

definition compare_password :: "jstring option \<Rightarrow> jstring option \<Rightarrow> bool io" where
  "compare_password password hash =
     (case (password, hash) of
        (Some p, Some h) \<Rightarrow> asks (\<lambda>w. bcrypt_compare (svc w) p h)
      | _ \<Rightarrow> raise (JsError ''data and hash arguments required''))"

definition hash_given :: "jstring option \<Rightarrow> jstring io" where
  "hash_given password =
     (case password of None \<Rightarrow> raise (JsError ''data and salt arguments required'') | Some p \<Rightarrow> hash_password p)"

text \<open>A password change writes every row of the account.\<close>

definition set_password :: "jstring \<Rightarrow> jstring \<Rightarrow> database \<Rightarrow> nat \<times> database" where
  "set_password email hash d =
     (length (filter (\<lambda>u. sql_eq (u_email u) email) (users d)),
      d\<lparr>users := update_where (\<lambda>u. sql_eq (u_email u) email) (\<lambda>u. u\<lparr>u_password := Some hash\<rparr>) (users d)\<rparr>)"

section \<open>Signing in\<close>

text \<open>\<open>Number(tenantId)\<close> when it is an integer above zero.\<close>

definition parseTenantId :: "int option \<Rightarrow> nat option" where
  "parseTenantId t = (case t of None \<Rightarrow> None | Some n \<Rightarrow> if n \<le> 0 then None else Some (nat n))"

record login_data =
  ld_email :: "jstring option"
  ld_password :: "jstring option"
  ld_tenant :: "int option"
  ld_force :: bool

definition login_row :: "jstring option \<Rightarrow> nat option \<Rightarrow> user \<Rightarrow> bool" where
  "login_row email t u \<longleftrightarrow>
     (case email of None \<Rightarrow> False | Some e \<Rightarrow> sql_eq (u_email u) e)
     \<and> (t = None \<or> u_tenant u = t) \<and> u_active u"

definition userLoginQuery :: "jstring option \<Rightarrow> nat option \<Rightarrow> user option io" where
  "userLoginQuery email t = select (\<lambda>d. find (login_row email t) (users d))"

definition signed_in_as :: "jstring \<Rightarrow> user \<Rightarrow> signed_in \<times> bool" where
  "signed_in_as token u =
     (\<lparr>si_token = token, si_id = u_id u, si_tenant = u_tenant u, si_role = u_role u,
       si_name = u_name u, si_email = u_email u, si_image = u_avatar u\<rparr>, u_admin u)"

text \<open>The one-device gate, and what follows once the device has its session.\<close>

definition open_device ::
  "user \<Rightarrow> device \<Rightarrow> bool \<Rightarrow> (jstring \<Rightarrow> (signed_in \<times> bool) outcome io) \<Rightarrow> (signed_in \<times> bool) outcome io" where
  "open_device u dev force k =
     bnd (startSession (u_email u) (u_tenant u) dev force) (\<lambda>started.
       case started of
         Blocked s \<Rightarrow> ret (Reject CONFLICT ''already_logged_in_elsewhere'')
       | Started sid \<Rightarrow> k sid)"

definition token_for :: "user \<Rightarrow> string \<Rightarrow> jstring \<Rightarrow> (signed_in \<times> bool) outcome io" where
  "token_for u key sid =
     bnd (signToken (u_id u) (u_email u) (u_tenant u) (u_role u) (Some sid)) (\<lambda>token.
       ret (Resolve OK key (signed_in_as token u)))"

definition userLogin :: "login_data \<Rightarrow> device \<Rightarrow> (signed_in \<times> bool) outcome io" where
  "userLogin data dev =
     bnd (catch (userLoginQuery (ld_email data) (parseTenantId (ld_tenant data))) (\<lambda>_. ret None)) (\<lambda>row.
       case row of
         None \<Rightarrow> ret (Reject BAD_REQUEST ''invalid_email_or_password'')
       | Some u \<Rightarrow>
           bnd (catch (compare_password (ld_password data) (u_password u)) (\<lambda>_. ret False)) (\<lambda>correct.
             if \<not> correct then ret (Reject BAD_REQUEST ''invalid_email_or_password'')
             else open_device u dev (ld_force data) (token_for u ''user_logged_in_successfully'')))"

definition logout :: "jstring option \<Rightarrow> unit outcome io" where
  "logout header =
     catch
       (bnd (case bearer (or_empty header) of
               None \<Rightarrow> ret None
             | Some token \<Rightarrow>
                 bnd (asks (\<lambda>w. jwt_verify (svc w) (js_now w) token)) (\<lambda>verdict.
                   ret (case verdict of JwtValid c \<Rightarrow> jc_sid c | _ \<Rightarrow> None))) (\<lambda>sid.
        bnd (revokeSession sid) (\<lambda>_.
          ret (Resolve OK ''logged_out_successfully'' ()))))
       (\<lambda>_. ret (Resolve OK ''logged_out_successfully'' ()))"

section \<open>Registration\<close>

record register_data =
  rg_email :: "jstring option"
  rg_password :: "jstring option"
  rg_name :: "jstring option"
  rg_contact :: "jstring option"

definition email_known :: "jstring option \<Rightarrow> database \<Rightarrow> bool" where
  "email_known email d \<longleftrightarrow>
     (case email of None \<Rightarrow> False | Some e \<Rightarrow> list_ex (\<lambda>u. sql_eq (u_email u) e) (users d))"

definition insert_registration :: "register_data \<Rightarrow> jstring \<Rightarrow> database \<Rightarrow> exn + (nat \<times> database)" where
  "insert_registration data hash d =
     (case (rg_name data, rg_email data) of
        (Some name, Some email) \<Rightarrow>
          insert_user ((new_user None email (Some hash) name Member (Some placeholderImagePath))
            \<lparr>u_contact := or_null (or_empty (rg_contact data))\<rparr>) d
      | _ \<Rightarrow> Inl DbError)"

definition registerNewUser :: "register_data \<Rightarrow> unit outcome io" where
  "registerNewUser data =
     catch
       (bnd (select (email_known (rg_email data))) (\<lambda>dup.
          if dup then ret (Reject BAD_REQUEST ''email_has_already_exist'')
          else bnd (hash_given (rg_password data)) (\<lambda>hash.
               bnd (sql (insert_registration data hash)) (\<lambda>_.
                 ret (Resolve OK ''sign_up_is_successful'' ())))))
       (\<lambda>_. ret (Reject INTERNAL_SERVER_ERROR ''internal_server_error''))"

section \<open>Social sign-in\<close>

definition VALID_PROVIDERS :: "string list" where
  "VALID_PROVIDERS = [''google'', ''facebook'', ''github'', ''microsoft'']"

record oauth_data =
  oa_provider :: "jstring option"
  oa_subject :: "jstring option"
  oa_email :: "jstring option"
  oa_name :: "jstring option"
  oa_avatar :: "jstring option"
  oa_verified :: bool
  oa_force :: bool

definition account_row :: "jstring \<Rightarrow> database \<Rightarrow> user option" where
  "account_row email d =
     (case find (\<lambda>u. login_row (Some email) None u \<and> u_tenant u \<noteq> None) (users d) of
        Some u \<Rightarrow> Some u
      | None \<Rightarrow> find (login_row (Some email) None) (users d))"

definition findAccountRow :: "jstring \<Rightarrow> user option io" where
  "findAccountRow email = select (account_row email)"

definition getUserById :: "nat \<Rightarrow> user option io" where
  "getUserById i = select (\<lambda>d. find (\<lambda>u. u_id u = i \<and> u_active u) (users d))"

definition linked_email :: "string \<Rightarrow> jstring \<Rightarrow> database \<Rightarrow> jstring option" where
  "linked_email provider subject d =
     map_option o_email
       (find (\<lambda>l. o_provider l = provider \<and> sql_eq (o_subject l) subject) (oauth_accounts d))"

text \<open>\<open>INSERT IGNORE\<close>: a known link is left alone, and text that is too long is cut.\<close>

definition insert_link :: "jstring \<Rightarrow> string \<Rightarrow> jstring \<Rightarrow> database \<Rightarrow> database" where
  "insert_link email provider subject d =
     (if linked_email provider (take 191 subject) d \<noteq> None then d
      else d\<lparr>oauth_accounts := oauth_accounts d @
             [\<lparr>o_email = take 190 email, o_provider = provider, o_subject = take 191 subject\<rparr>]\<rparr>)"

definition touch_login :: "nat \<Rightarrow> database \<Rightarrow> database" where
  "touch_login i d =
     d\<lparr>users := update_where (\<lambda>u. u_id u = i) (\<lambda>u. u\<lparr>u_last_login := Some (clock d)\<rparr>) (users d)\<rparr>"

text \<open>The account a verified identity signs in to, created without a workspace when new.\<close>

definition oauth_account_user :: "jstring \<Rightarrow> jstring \<Rightarrow> jstring \<Rightarrow> user option io" where
  "oauth_account_user email name avatar =
     bnd (findAccountRow email) (\<lambda>row.
       case row of
         Some u \<Rightarrow> ret (Some u)
       | None \<Rightarrow>
           bnd (sql (insert_user (new_user None email None name Member (Some avatar)))) getUserById)"

definition provider_of :: "jstring \<Rightarrow> string option" where
  "provider_of p = find (\<lambda>v. js v = js_lower p) VALID_PROVIDERS"

text \<open>Steps 1 to 4 of the handler, after its checks.\<close>

definition oauth_sign_in :: "string \<Rightarrow> jstring \<Rightarrow> jstring \<Rightarrow> oauth_data \<Rightarrow> device \<Rightarrow> (signed_in \<times> bool) outcome io" where
  "oauth_sign_in provider subject email data dev =
     bnd (select (linked_email provider subject)) (\<lambda>link.
     let accountEmail = (case or_null (or_empty link) of None \<Rightarrow> email | Some e \<Rightarrow> e);
         fullName = (case or_null (js_trim (or_empty (oa_name data))) of None \<Rightarrow> email | Some n \<Rightarrow> n);
         avatar = (case or_null (or_empty (oa_avatar data)) of None \<Rightarrow> placeholderImagePath | Some a \<Rightarrow> a)
     in bnd (oauth_account_user accountEmail fullName avatar) (\<lambda>row.
        case row of
          None \<Rightarrow> ret (Reject BAD_REQUEST ''failed_to_process_oauth_login'')
        | Some u \<Rightarrow>
            bnd (if link = None then execute (\<lambda>d. ((), insert_link accountEmail provider subject d)) else ret ()) (\<lambda>_.
              open_device u dev (oa_force data) (\<lambda>sid.
                bnd (execute (\<lambda>d. ((), touch_login (u_id u) d))) (\<lambda>_.
                  token_for u ''oauth_login_successful'' sid)))))"

definition oauthLogin :: "oauth_data \<Rightarrow> device \<Rightarrow> (signed_in \<times> bool) outcome io" where
  "oauthLogin data dev =
     (let email = js_lower (js_trim (or_empty (oa_email data)))
      in case provider_of (or_empty (oa_provider data)) of
           None \<Rightarrow> ret (Reject BAD_REQUEST ''invalid_oauth_provider'')
         | Some provider \<Rightarrow>
             if or_empty (oa_subject data) = [] \<or> email = []
             then ret (Reject BAD_REQUEST ''oauth_provider_is_required'')
             else if \<not> oa_verified data then ret (Reject BAD_REQUEST ''oauth_email_unverified'')
             else catch (oauth_sign_in provider (or_empty (oa_subject data)) email data dev)
                    (\<lambda>_. ret (Reject INTERNAL_SERVER_ERROR ''failed_to_process_oauth_login'')))"

section \<open>Password reset\<close>

definition RESET_TTL_MINUTES :: int where "RESET_TTL_MINUTES = 60"

definition hashToken :: "jstring \<Rightarrow> jstring io" where
  "hashToken raw = asks (\<lambda>w. sha256_hex (svc w) raw)"

definition maskEmail :: "jstring \<Rightarrow> jstring" where
  "maskEmail email =
     (let parts = js_split 64 email; user = nth_or_empty parts 0; domain = nth_or_empty parts 1
      in if domain = [] then []
         else take 2 user @ replicate (max 1 (length user - 2)) 42 @ 64 # domain)"

definition live_reset :: "database \<Rightarrow> jstring \<Rightarrow> password_reset \<Rightarrow> bool" where
  "live_reset d hash r \<longleftrightarrow> sql_eq (pr_hash r) hash \<and> pr_status r = ResPending \<and> pr_expires r > clock d"

definition insert_reset :: "jstring \<Rightarrow> jstring \<Rightarrow> int \<Rightarrow> database \<Rightarrow> exn + (nat \<times> database)" where
  "insert_reset email hash expires d =
     (if length email > 190 \<or> length hash > 64 then Inl DbError
      else if list_ex (\<lambda>r. sql_eq (pr_hash r) hash) (password_resets d) then Inl (DupEntry ''uq_password_resets_token'')
      else let i = next_id ''password_resets'' d
           in Inr (i, (bump_id ''password_resets'' d)\<lparr>password_resets := password_resets d @
                [\<lparr>pr_id = i, pr_email = email, pr_hash = hash, pr_status = ResPending, pr_expires = expires\<rparr>]\<rparr>))"

definition use_resets :: "(password_reset \<Rightarrow> bool) \<Rightarrow> database \<Rightarrow> database" where
  "use_resets P d =
     d\<lparr>password_resets := update_where P (\<lambda>r. r\<lparr>pr_status := ResUsed\<rparr>) (password_resets d)\<rparr>"

text \<open>The answer carries whether a mail was sent and whether the mailer is configured.\<close>

definition reset_answer :: "bool \<Rightarrow> (bool \<times> bool) outcome io" where
  "reset_answer sent =
     bnd (asks (\<lambda>w. mail_configured (svc w))) (\<lambda>configured.
       ret (Resolve OK ''reset_email_sent'' (sent, configured)))"

definition issue_reset :: "jstring \<Rightarrow> bool io" where
  "issue_reset email =
     bnd (execute (\<lambda>d. ((), use_resets (\<lambda>r. sql_eq (pr_email r) email \<and> pr_status r = ResPending) d))) (\<lambda>_.
     bnd draw_hex (\<lambda>rawToken.
     bnd (asks (\<lambda>w. js_now w + minutes RESET_TTL_MINUTES)) (\<lambda>expiresAt.
     bnd (hashToken rawToken) (\<lambda>hash.
     bnd (sql (insert_reset email hash expiresAt)) (\<lambda>_.
       send_email email ''password_reset'')))))"

definition requestPasswordReset :: "jstring option \<Rightarrow> (bool \<times> bool) outcome io" where
  "requestPasswordReset address =
     (let normalized = js_lower (js_trim (or_empty address))
      in if \<not> EMAIL_RE normalized then reset_answer False
         else catch
           (bnd (select (\<lambda>d. list_ex (login_row (Some normalized) None) (users d))) (\<lambda>known.
            bnd (if known then issue_reset normalized else ret False) reset_answer))
           (\<lambda>_. ret (Reject INTERNAL_SERVER_ERROR ''something_went_wrong'')))"

definition findLiveReset :: "jstring \<Rightarrow> password_reset option io" where
  "findLiveReset rawToken =
     bnd (hashToken rawToken) (\<lambda>hash. select (\<lambda>d. find (live_reset d hash) (password_resets d)))"

text \<open>\<open>findLiveReset\<close> is awaited outside any \<open>try\<close>.\<close>

definition validateResetToken :: "jstring \<Rightarrow> jstring outcome io" where
  "validateResetToken token =
     bnd (findLiveReset token) (\<lambda>row.
       case row of
         None \<Rightarrow> ret (Reject NOT_FOUND ''invalid_or_expired_reset_token'')
       | Some r \<Rightarrow> ret (Resolve OK ''success'' (maskEmail (pr_email r))))"

definition reset_tx :: "jstring \<Rightarrow> jstring \<Rightarrow> (unit, jstring) tx_end io" where
  "reset_tx token password =
     bnd (findLiveReset token) (\<lambda>row.
       case row of
         None \<Rightarrow> ret (Rollback ())
       | Some r \<Rightarrow>
           bnd (hash_password password) (\<lambda>hash.
           bnd (execute (set_password (pr_email r) hash)) (\<lambda>_.
           bnd (execute (\<lambda>d. ((), use_resets (\<lambda>x. pr_id x = pr_id r) d))) (\<lambda>_.
             ret (Commit (pr_email r))))))"

definition resetPassword :: "jstring \<Rightarrow> jstring option \<Rightarrow> unit outcome io" where
  "resetPassword token newPassword =
     (let password = or_empty newPassword
      in if length password < 8 then ret (Reject BAD_REQUEST ''password_too_short'')
         else catch
           (bnd (transaction (reset_tx token password)) (\<lambda>end_of_tx.
              case end_of_tx of
                Inl _ \<Rightarrow> ret (Reject NOT_FOUND ''invalid_or_expired_reset_token'')
              | Inr email \<Rightarrow>
                  bnd (catch (revokeSessionsForEmail email) (\<lambda>_. ret 0)) (\<lambda>_.
                    ret (Resolve OK ''password_reset_successful'' ()))))
           (\<lambda>_. ret (Reject INTERNAL_SERVER_ERROR ''failed_to_change_password'')))"

section \<open>The profile\<close>

definition changeUserPassword :: "jstring option \<Rightarrow> jstring option \<Rightarrow> auth \<Rightarrow> unit outcome io" where
  "changeUserPassword oldPassword newPassword au =
     catch
       (if or_empty newPassword = [] then ret (Reject BAD_REQUEST ''old_password_and_new_password_is_required'')
        else bnd (getUserById (au_id au)) (\<lambda>row.
          case row of
            None \<Rightarrow> ret (Reject BAD_REQUEST ''user_not_found'')
          | Some u \<Rightarrow>
              bnd (case or_null (or_empty (u_password u)) of
                     None \<Rightarrow> ret None
                   | Some h \<Rightarrow>
                       if or_empty oldPassword = [] then ret (Some ''old_password_and_new_password_is_required'')
                       else bnd (compare_password oldPassword (Some h)) (\<lambda>correct.
                              ret (if correct then None else Some ''password_mismatched''))) (\<lambda>refusal.
                case refusal of
                  Some key \<Rightarrow> ret (Reject BAD_REQUEST key)
                | None \<Rightarrow>
                    bnd (hash_password (or_empty newPassword)) (\<lambda>hash.
                    bnd (execute (set_password (au_email au) hash)) (\<lambda>n.
                      if n > 0 then ret (Resolve OK ''password_updated_successfully'' ())
                      else ret (Reject BAD_REQUEST ''failed_to_change_password''))))))
       (\<lambda>_. ret (Reject INTERNAL_SERVER_ERROR ''internal_server_error''))"

record profile_data =
  pf_name :: "jstring option"
  pf_contact :: "jstring option"
  pf_image :: "jstring option"

text \<open>\<open>imageUrl || avatarUrl\<close> is one field here; empty text counts as absent.\<close>

definition patch_user :: "profile_data \<Rightarrow> user \<Rightarrow> user" where
  "patch_user data u =
     u\<lparr>u_name := (case or_null (or_empty (pf_name data)) of None \<Rightarrow> u_name u | Some n \<Rightarrow> n),
       u_contact := (case or_null (or_empty (pf_contact data)) of None \<Rightarrow> u_contact u | Some c \<Rightarrow> Some c),
       u_avatar := (case or_null (or_empty (pf_image data)) of None \<Rightarrow> u_avatar u | Some a \<Rightarrow> Some a)\<rparr>"

definition update_profile :: "profile_data \<Rightarrow> nat \<Rightarrow> database \<Rightarrow> exn + (nat \<times> database)" where
  "update_profile data i d =
     (let rows = filter (\<lambda>u. u_id u = i) (users d)
      in if list_ex (\<lambda>u. \<not> user_fits (patch_user data u)) rows then Inl DbError
         else Inr (length rows, d\<lparr>users := update_where (\<lambda>u. u_id u = i) (patch_user data) (users d)\<rparr>))"

text \<open>A missing user is answered by a \<open>resolve\<close> with status 400.\<close>

definition updatePersonalInfo :: "profile_data \<Rightarrow> auth \<Rightarrow> unit outcome io" where
  "updatePersonalInfo data au =
     (if or_empty (pf_name data) = [] \<and> or_empty (pf_contact data) = [] \<and> or_empty (pf_image data) = []
      then ret (Reject BAD_REQUEST ''string_data_is_required'')
      else catch
        (bnd (getUserById (au_id au)) (\<lambda>row.
           if row = None then ret (Resolve BAD_REQUEST ''user_not_found'' ())
           else bnd (sql (update_profile data (au_id au))) (\<lambda>n.
             if n > 0 then ret (Resolve OK ''profile_updated_successfully'' ())
             else ret (Reject BAD_REQUEST ''user_not_found''))))
        (\<lambda>_. ret (Reject INTERNAL_SERVER_ERROR ''internal_server_error'')))"

end
