(* ===== verification/Account_Deletion.thy ===== *)
theory Account_Deletion
  imports Identity Paddle_Billing
begin

text \<open>
  Erasing an account (\<open>src/common/accountDeletion.js\<close>, \<open>src/main/users/deleteAccount.js\<close>): its
  subscription is cancelled, the workspaces it owns go with everything in them, the ones it
  joined keep their content, and every row keyed by the email goes.
\<close>

section \<open>The cascades of users and tenants\<close>

text \<open>
  Deleting users takes their votes, comments and notifications along; a post, a changelog
  entry, an API key or an upload of a deleted user is refused (\<open>ON DELETE RESTRICT\<close>).
\<close>

definition restricts :: "nat list \<Rightarrow> database \<Rightarrow> bool" where
  "restricts gone d \<longleftrightarrow>
     list_ex (\<lambda>p. case p_author p of None \<Rightarrow> False | Some a \<Rightarrow> a \<in> set gone) (posts d)
     \<or> list_ex (\<lambda>x. cl_created_by x \<in> set gone) (changelog d)
     \<or> list_ex (\<lambda>x. k_created_by x \<in> set gone) (api_keys d)
     \<or> list_ex (\<lambda>x. f_uploader x \<in> set gone) (file_uploads d)"

definition written_by :: "nat list \<Rightarrow> board_comment \<Rightarrow> bool" where
  "written_by gone c \<longleftrightarrow> (case c_author c of None \<Rightarrow> False | Some a \<Rightarrow> a \<in> set gone)"

text \<open>What refers to a user with \<open>ON DELETE SET NULL\<close> stays without the reference.\<close>

definition unless_gone :: "nat list \<Rightarrow> nat option \<Rightarrow> nat option" where
  "unless_gone gone x = (case x of None \<Rightarrow> None | Some i \<Rightarrow> if i \<in> set gone then None else Some i)"

definition unlink_users :: "nat list \<Rightarrow> database \<Rightarrow> database" where
  "unlink_users gone d =
     d\<lparr>audit_logs := map (\<lambda>x. x\<lparr>al_actor := unless_gone gone (al_actor x)\<rparr>) (audit_logs d),
       support_sessions := map (\<lambda>x. x\<lparr>su_user := unless_gone gone (su_user x),
         su_closed_by := unless_gone gone (su_closed_by x)\<rparr>) (support_sessions d),
       support_messages := map (\<lambda>x. x\<lparr>ms_user := unless_gone gone (ms_user x),
         ms_admin := unless_gone gone (ms_admin x)\<rparr>) (support_messages d)\<rparr>"

definition delete_users :: "(user \<Rightarrow> bool) \<Rightarrow> database \<Rightarrow> exn + (unit \<times> database)" where
  "delete_users P d =
     (let gone = map u_id (filter P (users d))
      in if restricts gone d then Inl DbError
         else let d1 = delete_comments (written_by gone) d
              in Inr ((), (unlink_users gone d1)\<lparr>users := filter (\<lambda>u. \<not> P u) (users d),
                   votes := filter (\<lambda>v. case v_user v of None \<Rightarrow> True | Some a \<Rightarrow> a \<notin> set gone) (votes d),
                   notifications := filter (\<lambda>n. n_user n \<notin> set gone) (notifications d)\<rparr>))"

text \<open>
  Deleting workspaces: every row under their ids.  The tables are cleared in the order of the
  constraint names, \<open>fk_users_tenant\<close> after the tables that refer to users, so that only a row
  of another workspace can refuse the deletion of a member.
\<close>

definition clear_workspaces :: "nat list \<Rightarrow> database \<Rightarrow> database" where
  "clear_workspaces gone d =
     (let d1 = delete_posts (\<lambda>p. p_tenant p \<in> set gone) d;
          d2 = delete_comments (\<lambda>c. c_tenant c \<in> set gone) d1;
          d3 = delete_columns (\<lambda>c. rc_tenant c \<in> set gone) d2;
          d4 = delete_tags (\<lambda>g. g_tenant g \<in> set gone) d3
      in d4\<lparr>tenants := filter (\<lambda>x. t_id x \<notin> set gone) (tenants d4),
            votes := filter (\<lambda>x. v_tenant x \<notin> set gone) (votes d4),
            post_tags := filter (\<lambda>x. pt_tenant x \<notin> set gone) (post_tags d4),
            roadmap_items := filter (\<lambda>x. ri_tenant x \<notin> set gone) (roadmap_items d4),
            changelog := filter (\<lambda>x. cl_tenant x \<notin> set gone) (changelog d4),
            notifications := filter (\<lambda>x. n_tenant x \<notin> set gone) (notifications d4),
            api_keys := filter (\<lambda>x. k_tenant x \<notin> set gone) (api_keys d4),
            integrations := filter (\<lambda>x. ig_tenant x \<notin> set gone) (integrations d4),
            attachments := filter (\<lambda>x. a_tenant x \<notin> set gone) (attachments d4),
            file_uploads := filter (\<lambda>x. f_tenant x \<notin> set gone) (file_uploads d4),
            invitations := filter (\<lambda>x. i_tenant x \<notin> set gone) (invitations d4),
            promo_redemptions := filter (\<lambda>x. rd_tenant x \<notin> set gone) (promo_redemptions d4),
            audit_logs := filter (\<lambda>x. al_tenant x \<notin> set gone) (audit_logs d4),
            support_sessions := map (\<lambda>x. x\<lparr>su_tenant := unless_gone gone (su_tenant x)\<rparr>) (support_sessions d4)\<rparr>)"

definition in_workspaces :: "nat list \<Rightarrow> user \<Rightarrow> bool" where
  "in_workspaces gone u \<longleftrightarrow> (case u_tenant u of None \<Rightarrow> False | Some t \<Rightarrow> t \<in> set gone)"

definition delete_tenants :: "nat list \<Rightarrow> database \<Rightarrow> exn + (unit \<times> database)" where
  "delete_tenants gone d = delete_users (in_workspaces gone) (clear_workspaces gone d)"

section \<open>Purging\<close>

definition isPlatformAdminEmail :: "jstring \<Rightarrow> bool io" where
  "isPlatformAdminEmail email =
     select (\<lambda>d. list_ex (\<lambda>u. sql_eq (u_email u) email \<and> u_admin u) (users d))"

definition rows_of :: "jstring \<Rightarrow> database \<Rightarrow> user list" where
  "rows_of email d = filter (\<lambda>u. sql_eq (u_email u) email) (users d)"

text \<open>\<open>tenant_id\<close> is truthy.\<close>

definition tenant_of :: "user \<Rightarrow> nat option" where
  "tenant_of u = (case u_tenant u of None \<Rightarrow> None | Some t \<Rightarrow> if t = 0 then None else Some t)"

definition owned_ids :: "user list \<Rightarrow> nat list" where
  "owned_ids rows = List.map_filter (\<lambda>u. if u_role u = Owner then tenant_of u else None) rows"

definition member_rows :: "user list \<Rightarrow> user list" where
  "member_rows rows = filter (\<lambda>u. u_role u \<noteq> Owner \<and> tenant_of u \<noteq> None) rows"

definition anonymise_posts :: "nat \<Rightarrow> database \<Rightarrow> database" where
  "anonymise_posts i d =
     d\<lparr>posts := update_where (\<lambda>p. p_author p = Some i) (\<lambda>p. p\<lparr>p_author := None\<rparr>) (posts d)\<rparr>"

definition anonymise_comments :: "nat \<Rightarrow> database \<Rightarrow> database" where
  "anonymise_comments i d =
     d\<lparr>comments := update_where (\<lambda>c. c_author c = Some i) (\<lambda>c. c\<lparr>c_author := None\<rparr>) (comments d)\<rparr>"

definition hand_over_changelog :: "nat \<Rightarrow> nat \<Rightarrow> database \<Rightarrow> database" where
  "hand_over_changelog i heir d =
     d\<lparr>changelog := update_where (\<lambda>x. cl_created_by x = i) (\<lambda>x. x\<lparr>cl_created_by := heir\<rparr>) (changelog d)\<rparr>"

definition hand_over_keys :: "nat \<Rightarrow> nat \<Rightarrow> database \<Rightarrow> database" where
  "hand_over_keys i heir d =
     d\<lparr>api_keys := update_where (\<lambda>x. k_created_by x = i) (\<lambda>x. x\<lparr>k_created_by := heir\<rparr>) (api_keys d)\<rparr>"

definition hand_over_uploads :: "nat \<Rightarrow> nat \<Rightarrow> database \<Rightarrow> database" where
  "hand_over_uploads i heir d =
     d\<lparr>file_uploads := update_where (\<lambda>x. f_uploader x = i) (\<lambda>x. x\<lparr>f_uploader := heir\<rparr>) (file_uploads d)\<rparr>"

text \<open>One statement without a result.\<close>

definition run :: "(database \<Rightarrow> database) \<Rightarrow> unit io" where
  "run f = execute (\<lambda>d. ((), f d))"

definition owner_of :: "nat option \<Rightarrow> database \<Rightarrow> nat option" where
  "owner_of t d = first_row (owners_of t d)"

definition leave_workspace :: "user \<Rightarrow> unit io" where
  "leave_workspace m =
     bnd (select (owner_of (u_tenant m))) (\<lambda>ownerId.
     bnd (run (anonymise_posts (u_id m))) (\<lambda>_.
     bnd (run (anonymise_comments (u_id m))) (\<lambda>_.
     bnd (case ownerId of
            None \<Rightarrow> ret ()
          | Some heir \<Rightarrow>
              if heir = 0 then ret ()
              else bnd (run (hand_over_changelog (u_id m) heir)) (\<lambda>_.
                   bnd (run (hand_over_keys (u_id m) heir)) (\<lambda>_.
                   run (hand_over_uploads (u_id m) heir)))) (\<lambda>_.
     sql (delete_users (\<lambda>u. u_id u = u_id m))))))"

definition forget_account :: "jstring \<Rightarrow> unit io" where
  "forget_account email =
     bnd (sql (delete_users (\<lambda>u. sql_eq (u_email u) email))) (\<lambda>_.
     bnd (run (\<lambda>d. d\<lparr>accounts := filter (\<lambda>b. \<not> sql_eq (b_email b) email) (accounts d)\<rparr>)) (\<lambda>_.
     bnd (run (\<lambda>d. d\<lparr>sessions := filter (\<lambda>s. \<not> sql_eq (s_email s) email) (sessions d)\<rparr>)) (\<lambda>_.
     bnd (run (\<lambda>d. d\<lparr>password_resets := filter (\<lambda>r. \<not> sql_eq (pr_email r) email) (password_resets d)\<rparr>)) (\<lambda>_.
     bnd (run (\<lambda>d. d\<lparr>invitations := filter (\<lambda>v. \<not> sql_eq (i_email v) email) (invitations d)\<rparr>)) (\<lambda>_.
     run (\<lambda>d. d\<lparr>oauth_accounts := filter (\<lambda>l. \<not> sql_eq (o_email l) email) (oauth_accounts d)\<rparr>))))))"

definition purge_tx :: "jstring \<Rightarrow> user list \<Rightarrow> (unit, unit) tx_end io" where
  "purge_tx email rows =
     bnd (for_each (member_rows rows) leave_workspace) (\<lambda>_.
     bnd (if owned_ids rows = [] then ret () else sql (delete_tenants (owned_ids rows))) (\<lambda>_.
     bnd (forget_account email) (\<lambda>_.
       ret (Commit ()))))"

text \<open>The numbers of deleted and of left workspaces.\<close>

definition purgeAccount :: "jstring \<Rightarrow> bool \<Rightarrow> (nat \<times> nat) io" where
  "purgeAccount email allowPlatformAdmin =
     bnd (if allowPlatformAdmin then ret False else isPlatformAdminEmail email) (\<lambda>admin.
     if admin then raise (Coded ''platform_admin_undeletable'')
     else bnd (select (rows_of email)) (\<lambda>rows.
       if rows = [] then raise (Coded ''user_not_found'')
       else bnd (cancelActiveSubscription email) (\<lambda>_.
            bnd (transaction (purge_tx email rows)) (\<lambda>_.
              ret (length (owned_ids rows), length (member_rows rows))))))"

section \<open>The handlers\<close>

definition deleteAccount :: "jstring option \<Rightarrow> auth \<Rightarrow> (nat \<times> nat) outcome io" where
  "deleteAccount password au =
     catch
       (bnd (select (\<lambda>d. find (\<lambda>u. u_id u = au_id au) (users d))) (\<lambda>me.
          case me of
            None \<Rightarrow> ret (Reject NOT_FOUND ''user_not_found'')
          | Some u \<Rightarrow>
              bnd (case or_null (or_empty (u_password u)) of
                     None \<Rightarrow> ret None
                   | Some h \<Rightarrow>
                       if or_empty password = [] then ret (Some ''password_required'')
                       else bnd (compare_password password (Some h)) (\<lambda>correct.
                              ret (if correct then None else Some ''incorrect_password''))) (\<lambda>refusal.
                case refusal of
                  Some key \<Rightarrow> ret (Reject BAD_REQUEST key)
                | None \<Rightarrow>
                    bnd (purgeAccount (au_email au) False) (\<lambda>counts.
                      ret (Resolve OK ''account_deleted'' counts)))))
       (\<lambda>e. if e = Coded ''platform_admin_undeletable''
            then ret (Reject BAD_REQUEST ''platform_admin_undeletable'')
            else ret (Reject INTERNAL_SERVER_ERROR ''failed_to_delete_account''))"

text \<open>What the confirmation shows of an owned workspace: id, name, members and posts.\<close>

record purge_summary =
  sm_admin :: bool
  sm_owned :: "(nat \<times> jstring \<times> nat \<times> nat) list"
  sm_joined :: "(nat \<times> jstring) list"
  sm_workspaceless :: nat
  sm_billing :: "(string \<times> string option \<times> bool) option"

definition rows_with_tenant :: "jstring \<Rightarrow> database \<Rightarrow> (user \<times> tenant) list" where
  "rows_with_tenant email d =
     filter (\<lambda>(u, t). u_tenant u = Some (t_id t) \<and> sql_eq (u_email u) email)
       (List.product (users d) (tenants d))"

definition owned_summary :: "jstring \<Rightarrow> database \<Rightarrow> (nat \<times> jstring \<times> nat \<times> nat) list" where
  "owned_summary email d =
     map (\<lambda>(u, t). (t_id t, t_name t,
            length (filter (\<lambda>x. u_tenant x = Some (t_id t)) (users d)),
            length (filter (\<lambda>p. p_tenant p = t_id t) (posts d))))
       (filter (\<lambda>(u, t). u_role u = Owner) (rows_with_tenant email d))"

definition joined_summary :: "jstring \<Rightarrow> database \<Rightarrow> (nat \<times> jstring) list" where
  "joined_summary email d =
     map (\<lambda>(u, t). (t_id t, t_name t)) (filter (\<lambda>(u, t). u_role u \<noteq> Owner) (rows_with_tenant email d))"

definition has_password :: "jstring \<Rightarrow> database \<Rightarrow> bool" where
  "has_password email d \<longleftrightarrow> list_ex (\<lambda>u. sql_eq (u_email u) email \<and> u_password u \<noteq> None) (users d)"

definition getAccountDeletionSummary ::
  "auth \<Rightarrow> (bool \<times> (nat \<times> jstring \<times> nat \<times> nat) list \<times> (nat \<times> jstring) list) outcome io" where
  "getAccountDeletionSummary au =
     catch
       (bnd (select (\<lambda>d. (owned_summary (au_email au) d, joined_summary (au_email au) d))) (\<lambda>(owned, joined).
        bnd (select (has_password (au_email au))) (\<lambda>pw.
          ret (Resolve OK ''data_fetched_successfully'' (pw, owned, joined)))))
       (\<lambda>_. ret (Reject INTERNAL_SERVER_ERROR ''internal_server_error''))"

text \<open>The admin panel's version: the flag, the rows without a workspace and the billing row.\<close>

definition getAccountPurgeSummary :: "jstring \<Rightarrow> purge_summary io" where
  "getAccountPurgeSummary email =
     bnd (select (\<lambda>d. \<lparr>sm_admin = list_ex u_admin (rows_of email d),  sm_owned = owned_summary email d, sm_joined = joined_summary email d,
            sm_workspaceless = length (filter (\<lambda>u. tenant_of u = None) (rows_of email d)),
            sm_billing = None\<rparr>)) (\<lambda>summary.
     bnd (select (\<lambda>d. find (\<lambda>b. sql_eq (b_email b) email) (accounts d))) (\<lambda>acct.
       ret (summary\<lparr>sm_billing := map_option (\<lambda>b. (b_plan b, b_status b,
              text_or_null (b_paddle_sub b) \<noteq> None \<or> text_or_null (b_stripe_sub b) \<noteq> None)) acct\<rparr>)))"

end
