(* ===== verification/Admin_Panel.thy ===== *)
theory Admin_Panel
  imports Account_Deletion Promo
begin

text \<open>
  What a platform admin can change (\<open>src/main/admin/adminLogin.js\<close>, \<open>accounts.js\<close>,
  \<open>workspaces.js\<close>, \<open>adminUsers.js\<close>, \<open>manageAdmins.js\<close>, \<open>adminPosts.js\<close>, \<open>adminComments.js\<close>,
  \<open>clearWorkspaceFeedback.js\<close>).  The caller is the row of \<open>users\<close> that \<open>authenticateAdmin\<close> found.
\<close>

section \<open>The admin's own door\<close>

definition admin_row :: "jstring \<Rightarrow> user \<Rightarrow> bool" where
  "admin_row email u \<longleftrightarrow> sql_eq (u_email u) email \<and> u_admin u \<and> u_active u"

definition first_admin :: "jstring \<Rightarrow> database \<Rightarrow> user option" where
  "first_admin email d = first_row (sort_key u_id (filter (admin_row email) (users d)))"

definition generateAdminToken :: "user \<Rightarrow> jstring io" where
  "generateAdminToken u =
     asks (\<lambda>w. jwt_sign (svc w) (js_now w)
       \<lparr>jc_id = None, jc_email = Some (u_email u), jc_tenant = None, jc_role = None, jc_sid = None,
        jc_scope = Some ''admin''\<rparr>)"

definition stamp_login :: "jstring \<Rightarrow> database \<Rightarrow> database" where
  "stamp_login email d =
     d\<lparr>users := update_where (\<lambda>u. sql_eq (u_email u) email) (\<lambda>u. u\<lparr>u_last_login := Some (clock d)\<rparr>) (users d)\<rparr>"

definition adminLogin :: "jstring option \<Rightarrow> jstring option \<Rightarrow> (jstring \<times> user) outcome io" where
  "adminLogin address secret =
     (let email = js_trim (js_lower (or_empty address)); password = or_empty secret
      in if email = [] \<or> password = [] then ret (Reject BAD_REQUEST ''invalid_email_or_password'')
         else catch
           (bnd (select (first_admin email)) (\<lambda>row.
              case row of
                None \<Rightarrow> ret (Reject BAD_REQUEST ''invalid_email_or_password'')
              | Some account \<Rightarrow>
                  bnd (compare_password (Some password) (u_password account)) (\<lambda>correct.
                  if \<not> correct then ret (Reject BAD_REQUEST ''invalid_email_or_password'')
                  else bnd (run (stamp_login email)) (\<lambda>_.
                       bnd (generateAdminToken account) (\<lambda>token.
                         ret (Resolve OK ''user_logged_in_successfully'' (token, account)))))))
           (\<lambda>_. ret (Reject BAD_REQUEST ''invalid_email_or_password'')))"

section \<open>Plans of accounts\<close>

text \<open>The names of the workspaces the address owns, as \<open>GROUP_CONCAT(DISTINCT \<dots>)\<close> joins them.\<close>

definition owned_names :: "jstring \<Rightarrow> database \<Rightarrow> jstring list" where
  "owned_names email d =
     map t_name (filter (\<lambda>t. t_active t \<and> owns d email (t_id t)) (tenants d))"

definition notifyOwnerOfPlanChange :: "jstring \<Rightarrow> unit io" where
  "notifyOwnerOfPlanChange email =
     catch
       (bnd (select (owned_names email)) (\<lambda>names.
          if list_all (\<lambda>n. n = []) names then ret ()
          else bnd (send_email email ''plan_changed'') (\<lambda>_. ret ())))
       (\<lambda>_. ret ())"

text \<open>\<open>date.setMonth(date.getMonth() + n)\<close>: a day the month lacks runs over into the next one.\<close>

definition days_of_civil :: "int \<Rightarrow> int \<Rightarrow> int \<Rightarrow> int" where
  "days_of_civil y0 m d =
     (let y = (if m \<le> 2 then y0 - 1 else y0);
          era = y div 400;
          yoe = y - era * 400;
          doy = (153 * (if m > 2 then m - 3 else m + 9) + 2) div 5 + d - 1;
          doe = yoe * 365 + yoe div 4 - yoe div 100 + doy
      in era * 146097 + doe - 719468)"

definition add_months :: "int \<Rightarrow> int \<Rightarrow> int" where
  "add_months ms n =
     (let (y, m, d) = civil ms; k = y * 12 + (m - 1) + n
      in (days_of_civil (k div 12) (k mod 12 + 1) 1 + d - 1) * 86400000 + ms mod 86400000)"

text \<open>31 January 2024 plus one month, 15 December 1999 plus two, and no month at all.\<close>

lemma add_months_examples:
  "civil (add_months 1706659200000 1) = (2024, 3, 2)" "civil (add_months 945216000000 2) = (2000, 2, 15)"
  "add_months 1706659200123 0 = 1706659200123"
  by code_simp+

definition PLAN_KEYS :: "string list" where "PLAN_KEYS = [''free'', ''pro'', ''business'']"

definition setAccountPlanAdmin :: "jstring \<Rightarrow> string \<Rightarrow> int option \<Rightarrow> unit outcome io" where
  "setAccountPlanAdmin email plan months =
     (if email = [] \<or> plan \<notin> set PLAN_KEYS then ret (Reject BAD_REQUEST ''invalid_plan'')
      else catch
        (bnd (getAccount email) (\<lambda>before.
         bnd (cancelActiveSubscription email) (\<lambda>_.
         bnd (asks (\<lambda>w. case months of
                None \<Rightarrow> None | Some n \<Rightarrow> if n > 0 then Some (add_months (js_now w) n) else None)) (\<lambda>periodEnd.
         bnd (if plan = ''free'' then resetAccountToFree email None
              else setAccountPlan email (comp_fields plan periodEnd)) (\<lambda>_.
         bnd (if plan_or_free (Some (b_plan before)) \<noteq> plan then notifyOwnerOfPlanChange email else ret ()) (\<lambda>_.
           ret (Resolve OK ''plan_updated'' ())))))))
        (\<lambda>_. ret (Reject INTERNAL_SERVER_ERROR ''internal_server_error'')))"

section \<open>Workspaces\<close>

record workspace_patch =
  wp_name :: "jstring option"
  wp_active :: "bool option"

definition patch_tenant :: "workspace_patch \<Rightarrow> tenant \<Rightarrow> tenant" where
  "patch_tenant wd t =
     t\<lparr>t_name := (case wp_name wd of None \<Rightarrow> t_name t | Some n \<Rightarrow> js_trim n),
       t_active := (case wp_active wd of None \<Rightarrow> t_active t | Some b \<Rightarrow> b)\<rparr>"

definition update_tenant_row :: "nat \<Rightarrow> (tenant \<Rightarrow> tenant) \<Rightarrow> database \<Rightarrow> exn + (nat \<times> database)" where
  "update_tenant_row i f d =
     (let rows = filter (\<lambda>t. t_id t = i) (tenants d)
      in if \<not> list_all (\<lambda>t. tenant_fits (f t)) rows then Inl DbError
         else Inr (length rows, d\<lparr>tenants := update_where (\<lambda>t. t_id t = i) f (tenants d)\<rparr>))"

definition updateWorkspace :: "nat \<Rightarrow> workspace_patch \<Rightarrow> unit outcome io" where
  "updateWorkspace i wd =
     (if wp_name wd = None \<and> wp_active wd = None then ret (Reject BAD_REQUEST ''nothing_to_update'')
      else catch
        (bnd (sql (update_tenant_row i (patch_tenant wd))) (\<lambda>n.
           if n = 0 then ret (Reject NOT_FOUND ''tenant_not_found'')
           else ret (Resolve OK ''workspace_updated'' ())))
        (\<lambda>_. ret (Reject INTERNAL_SERVER_ERROR ''internal_server_error'')))"

definition drop_tenant :: "nat \<Rightarrow> database \<Rightarrow> exn + (nat \<times> database)" where
  "drop_tenant i d =
     (case delete_tenants [i] d of
        Inl e \<Rightarrow> Inl e | Inr (x, d') \<Rightarrow> Inr (length (filter (\<lambda>t. t_id t = i) (tenants d)), d'))"

definition deleteWorkspace :: "nat \<Rightarrow> unit outcome io" where
  "deleteWorkspace i =
     catch
       (bnd (sql (drop_tenant i)) (\<lambda>n.
          if n = 0 then ret (Reject NOT_FOUND ''tenant_not_found'')
          else ret (Resolve OK ''workspace_deleted'' ())))
       (\<lambda>_. ret (Reject INTERNAL_SERVER_ERROR ''internal_server_error''))"

definition own_row_in :: "jstring \<Rightarrow> nat \<Rightarrow> database \<Rightarrow> user option" where
  "own_row_in email i d =
     find (\<lambda>u. sql_eq (u_email u) email \<and> u_tenant u = Some i \<and> u_active u
             \<and> list_ex (\<lambda>t. t_id t = i \<and> t_active t) (tenants d)) (users d)"

definition enterWorkspace :: "nat \<Rightarrow> user \<Rightarrow> device \<Rightarrow> signed_in outcome io" where
  "enterWorkspace i admin dev =
     catch
       (bnd (select (own_row_in (u_email admin) i)) (\<lambda>row.
          case row of
            None \<Rightarrow> ret (Reject FORBIDDEN ''admin_not_member'')
          | Some u \<Rightarrow>
              bnd (startSession (u_email u) (u_tenant u) dev False) (\<lambda>st.
                case st of
                  Blocked s \<Rightarrow> ret (Reject CONFLICT ''already_logged_in_elsewhere'')
                | Started sid \<Rightarrow>
                    bnd (signToken (u_id u) (u_email u) (u_tenant u) (u_role u) (Some sid)) (\<lambda>token.
                      ret (Resolve OK ''workspace_switched_successfully''
                        \<lparr>si_token = token, si_id = u_id u, si_tenant = u_tenant u, si_role = u_role u,
                         si_name = u_name u, si_email = u_email u, si_image = u_avatar u\<rparr>)))))
       (\<lambda>_. ret (Reject INTERNAL_SERVER_ERROR ''internal_server_error''))"

section \<open>Users\<close>

record user_patch =
  up_name :: "jstring option"
  up_role :: "string option"
  up_active :: "bool option"

definition patch_row :: "user_patch \<Rightarrow> user \<Rightarrow> user" where
  "patch_row p u =
     u\<lparr>u_name := (case up_name p of None \<Rightarrow> u_name u | Some n \<Rightarrow> js_trim n),
       u_role := (case up_role p of None \<Rightarrow> u_role u | Some r \<Rightarrow> parse_role r),
       u_active := (case up_active p of None \<Rightarrow> u_active u | Some b \<Rightarrow> b)\<rparr>"

definition update_user_row :: "nat \<Rightarrow> (user \<Rightarrow> user) \<Rightarrow> database \<Rightarrow> exn + (nat \<times> database)" where
  "update_user_row i f d =
     (let rows = filter (\<lambda>u. u_id u = i) (users d)
      in if \<not> list_all (\<lambda>u. user_fits (f u)) rows then Inl DbError
         else Inr (length rows, d\<lparr>users := update_where (\<lambda>u. u_id u = i) f (users d)\<rparr>))"

definition updateUser :: "nat \<Rightarrow> user_patch \<Rightarrow> unit outcome io" where
  "updateUser i p =
     (if (case up_role p of None \<Rightarrow> False | Some r \<Rightarrow> r \<notin> set TENANT_ROLES)
      then ret (Reject BAD_REQUEST ''invalid_role'')
      else if up_name p = None \<and> up_role p = None \<and> up_active p = None
      then ret (Reject BAD_REQUEST ''nothing_to_update'')
      else catch
        (bnd (sql (update_user_row i (patch_row p))) (\<lambda>n.
           if n = 0 then ret (Reject NOT_FOUND ''user_not_found'')
           else ret (Resolve OK ''user_updated'' ())))
        (\<lambda>_. ret (Reject INTERNAL_SERVER_ERROR ''internal_server_error'')))"

definition emailOfUserId :: "nat \<Rightarrow> jstring option io" where
  "emailOfUserId i =
     select (\<lambda>d. case find (\<lambda>u. u_id u = i) (users d) of None \<Rightarrow> None | Some u \<Rightarrow> or_null (u_email u))"

definition drop_sessions :: "jstring \<Rightarrow> database \<Rightarrow> database" where
  "drop_sessions email d = d\<lparr>sessions := filter (\<lambda>s. \<not> sql_eq (s_email s) email) (sessions d)\<rparr>"

definition resetUserPassword :: "nat \<Rightarrow> jstring option \<Rightarrow> unit outcome io" where
  "resetUserPassword i newPassword =
     (let pwd = or_empty newPassword
      in if length pwd < 8 then ret (Reject BAD_REQUEST ''password_too_short'')
         else catch
           (bnd (emailOfUserId i) (\<lambda>found.
              case found of
                None \<Rightarrow> ret (Reject NOT_FOUND ''user_not_found'')
              | Some email \<Rightarrow>
                  bnd (hash_password pwd) (\<lambda>hash.
                  bnd (execute (set_password email hash)) (\<lambda>_.
                  bnd (run (drop_sessions email)) (\<lambda>_.
                    ret (Resolve OK ''password_reset'' ()))))))
           (\<lambda>_. ret (Reject INTERNAL_SERVER_ERROR ''internal_server_error'')))"

definition getUserDeletionSummary :: "nat \<Rightarrow> purge_summary outcome io" where
  "getUserDeletionSummary i =
     catch
       (bnd (emailOfUserId i) (\<lambda>found.
          case found of
            None \<Rightarrow> ret (Reject NOT_FOUND ''user_not_found'')
          | Some email \<Rightarrow>
              bnd (getAccountPurgeSummary email) (\<lambda>summary.
                ret (Resolve OK ''data_fetched_successfully'' summary))))
       (\<lambda>_. ret (Reject INTERNAL_SERVER_ERROR ''internal_server_error''))"

definition deleteUser :: "nat \<Rightarrow> (nat \<times> nat) outcome io" where
  "deleteUser i =
     catch
       (bnd (emailOfUserId i) (\<lambda>found.
          case found of
            None \<Rightarrow> ret (Reject NOT_FOUND ''user_not_found'')
          | Some email \<Rightarrow>
              bnd (purgeAccount email False) (\<lambda>counts. ret (Resolve OK ''user_deleted'' counts))))
       (\<lambda>e. if e = Coded ''platform_admin_undeletable''
            then ret (Reject BAD_REQUEST ''platform_admin_undeletable'')
            else if e = Coded ''user_not_found'' then ret (Reject NOT_FOUND ''user_not_found'')
            else ret (Reject INTERNAL_SERVER_ERROR ''internal_server_error''))"

section \<open>Admins\<close>

definition set_admin :: "jstring \<Rightarrow> bool \<Rightarrow> database \<Rightarrow> database" where
  "set_admin email b d =
     d\<lparr>users := update_where (\<lambda>u. sql_eq (u_email u) email) (\<lambda>u. u\<lparr>u_admin := b\<rparr>) (users d)\<rparr>"

text \<open>The result is the id of the new row, or none when an existing account got the role.\<close>

definition createAdmin :: "jstring option \<Rightarrow> jstring option \<Rightarrow> jstring option \<Rightarrow> nat option outcome io" where
  "createAdmin address name secret =
     (let email = js_trim (js_lower (or_empty address)); fullName = js_trim (or_empty name);
          password = or_empty secret
      in if \<not> EMAIL_RE email then ret (Reject BAD_REQUEST ''invalid_email'')
         else if fullName = [] then ret (Reject BAD_REQUEST ''nothing_to_update'')
         else catch
           (bnd (select (rows_of email)) (\<lambda>rows.
              if rows \<noteq> [] then
                (if list_ex u_admin rows then ret (Reject BAD_REQUEST ''admin_email_taken'')
                 else bnd (run (set_admin email True)) (\<lambda>_. ret (Resolve OK ''admin_created'' None)))
              else if length password < 8 then ret (Reject BAD_REQUEST ''password_too_short'')
              else bnd (hash_password password) (\<lambda>hash.
                   bnd (sql (insert_user ((new_user None email (Some hash) fullName Member None)\<lparr>u_admin := True\<rparr>))) (\<lambda>i.
                     ret (Resolve CREATED ''admin_created'' (Some i))))))
           (\<lambda>_. ret (Reject INTERNAL_SERVER_ERROR ''internal_server_error'')))"

definition setAdminActive :: "nat \<Rightarrow> bool \<Rightarrow> user \<Rightarrow> unit outcome io" where
  "setAdminActive i isActive acting =
     catch
       (bnd (emailOfUserId i) (\<lambda>found.
          case found of
            None \<Rightarrow> ret (Reject NOT_FOUND ''admin_not_found'')
          | Some email \<Rightarrow>
              if email = u_email acting \<and> \<not> isActive then ret (Reject BAD_REQUEST ''cannot_modify_self'')
              else bnd (run (set_admin email isActive)) (\<lambda>_. ret (Resolve OK ''admin_updated'' ()))))
       (\<lambda>_. ret (Reject INTERNAL_SERVER_ERROR ''internal_server_error''))"

definition deleteAdmin :: "nat \<Rightarrow> user \<Rightarrow> unit outcome io" where
  "deleteAdmin i acting =
     catch
       (bnd (emailOfUserId i) (\<lambda>found.
          case found of
            None \<Rightarrow> ret (Reject NOT_FOUND ''admin_not_found'')
          | Some email \<Rightarrow>
              if email = u_email acting then ret (Reject BAD_REQUEST ''cannot_modify_self'')
              else bnd (run (set_admin email False)) (\<lambda>_. ret (Resolve OK ''admin_deleted'' ()))))
       (\<lambda>_. ret (Reject INTERNAL_SERVER_ERROR ''internal_server_error''))"

section \<open>Moderation\<close>

definition post_in :: "nat \<Rightarrow> nat \<Rightarrow> post \<Rightarrow> bool" where
  "post_in t i p \<longleftrightarrow> p_id p = i \<and> p_tenant p = t"

definition update_posts_in :: "nat \<Rightarrow> nat \<Rightarrow> (post \<Rightarrow> post) \<Rightarrow> database \<Rightarrow> nat \<times> database" where
  "update_posts_in t i f d =
     (length (filter (post_in t i) (posts d)), d\<lparr>posts := update_where (post_in t i) f (posts d)\<rparr>)"

definition setPostStatus :: "nat \<Rightarrow> nat \<Rightarrow> string \<Rightarrow> unit outcome io" where
  "setPostStatus t i newStatus =
     (case parse_status newStatus of
        None \<Rightarrow> ret (Reject BAD_REQUEST ''invalid_status'')
      | Some st \<Rightarrow> catch
          (bnd (execute (update_posts_in t i (\<lambda>p. p\<lparr>p_status := st\<rparr>))) (\<lambda>n.
             if n = 0 then ret (Reject NOT_FOUND ''post_not_found'')
             else bnd (syncRoadmapItemToStatus t i st) (\<lambda>_. ret (Resolve OK ''post_updated'' ()))))
          (\<lambda>_. ret (Reject INTERNAL_SERVER_ERROR ''internal_server_error'')))"

definition setPostPin :: "nat \<Rightarrow> nat \<Rightarrow> bool \<Rightarrow> unit outcome io" where
  "setPostPin t i isPinned =
     catch
       (bnd (execute (update_posts_in t i (\<lambda>p. p\<lparr>p_pinned := isPinned\<rparr>))) (\<lambda>n.
          if n = 0 then ret (Reject NOT_FOUND ''post_not_found'')
          else ret (Resolve OK ''post_updated'' ())))
       (\<lambda>_. ret (Reject INTERNAL_SERVER_ERROR ''internal_server_error''))"

definition deleteWorkspacePost :: "nat \<Rightarrow> nat \<Rightarrow> unit outcome io" where
  "deleteWorkspacePost t i =
     catch
       (bnd (execute (\<lambda>d. (length (filter (post_in t i) (posts d)), delete_posts (post_in t i) d))) (\<lambda>n.
          if n = 0 then ret (Reject NOT_FOUND ''post_not_found'')
          else ret (Resolve OK ''post_deleted'' ())))
       (\<lambda>_. ret (Reject INTERNAL_SERVER_ERROR ''internal_server_error''))"

text \<open>The number of removed rows in the answer is left out.\<close>

definition thread_in :: "nat \<Rightarrow> nat \<Rightarrow> board_comment \<Rightarrow> bool" where
  "thread_in t i c \<longleftrightarrow> c_tenant c = t \<and> (c_id c = i \<or> c_parent c = Some i)"

definition admin_deleteComment :: "nat \<Rightarrow> nat \<Rightarrow> unit outcome io" where
  "admin_deleteComment t i =
     catch
       (bnd (execute (\<lambda>d. (list_ex (thread_in t i) (comments d), delete_comments (thread_in t i) d))) (\<lambda>found.
          if \<not> found then ret (Reject NOT_FOUND ''comment_not_found'')
          else ret (Resolve OK ''comment_deleted'' ())))
       (\<lambda>_. ret (Reject INTERNAL_SERVER_ERROR ''internal_server_error''))"

text \<open>The files of the attachments are unlinked afterwards; only the rows are modelled.\<close>

definition clearWorkspaceFeedback :: "nat \<Rightarrow> jstring option \<Rightarrow> nat outcome io" where
  "clearWorkspaceFeedback t confirm =
     catch
       (bnd (select (\<lambda>d. find (\<lambda>x. t_id x = t) (tenants d))) (\<lambda>found.
          case found of
            None \<Rightarrow> ret (Reject NOT_FOUND ''workspace_not_found'')
          | Some tenant \<Rightarrow>
              if js_trim (or_empty confirm) \<noteq> t_subdomain tenant
              then ret (Reject BAD_REQUEST ''clear_confirm_mismatch'')
              else bnd (select (\<lambda>_. ())) (\<lambda>_. \<comment> \<open>the paths of the files\<close>
                   bnd (execute (\<lambda>d. (length (filter (\<lambda>p. p_tenant p = t) (posts d)),
                          delete_posts (\<lambda>p. p_tenant p = t) d))) (\<lambda>n.
                     ret (Resolve OK ''feedback_cleared'' n)))))
       (\<lambda>_. ret (Reject INTERNAL_SERVER_ERROR ''internal_server_error''))"

end
