(* ===== verification/Billing_Flow.thy ===== *)
theory Billing_Flow
  imports Stripe_Billing Admin_Panel
begin

text \<open>
  What the billing handlers do together: the requests of the billing routes, the providers'
  webhooks and the plans an admin grants as the steps of a transition system over the world, its invariant, the guard against
  a second subscription, and two sequences in which a paid plan does not reach the account.
\<close>

section \<open>The requests\<close>

datatype billing_request =
    Checkout string "string option" "string option" | Preview string "string option"
  | Change string "string option" | CancelChange | CancelSub | ResumeSub | Portal

definition paddleOps :: "billing_request \<Rightarrow> auth \<Rightarrow> billing_result outcome io" where
  "paddleOps q au =
     (case q of
        Checkout plan promo iv \<Rightarrow> createCheckout plan au promo iv
      | Preview plan iv \<Rightarrow> previewChange plan iv au
      | Change plan iv \<Rightarrow> applyChange plan iv au
      | CancelChange \<Rightarrow> cancelScheduledChange au
      | CancelSub \<Rightarrow> cancelSubscription au
      | ResumeSub \<Rightarrow> resumeSubscription au
      | Portal \<Rightarrow> createPortalSession au)"

definition stripeOps :: "billing_request \<Rightarrow> auth \<Rightarrow> billing_result outcome io" where
  "stripeOps q au =
     (case q of
        Checkout plan promo iv \<Rightarrow> createCheckoutSession plan au promo iv
      | Preview plan iv \<Rightarrow> previewPlanChange plan iv au
      | Change plan iv \<Rightarrow> applyPlanChange plan iv au
      | CancelChange \<Rightarrow> stripe_cancelScheduledChange au
      | CancelSub \<Rightarrow> stripe_cancelSubscription au
      | ResumeSub \<Rightarrow> stripe_resumeSubscription au
      | Portal \<Rightarrow> stripe_createPortalSession au)"

definition billing_endpoint :: "billing_request \<Rightarrow> auth \<Rightarrow> billing_result outcome io" where
  "billing_endpoint q au =
     bnd (asks (\<lambda>w. isPaddleActive (svc w))) (\<lambda>paddleActive.
       if paddleActive then paddleOps q au else stripeOps q au)"

text \<open>
  A step is a complete request, webhook, reconciliation or sweep; between two of them time
  passes and the services may answer differently.
\<close>

inductive billing_step :: "world \<Rightarrow> world \<Rightarrow> bool" where
  request: "billing_step w (snd (billing_endpoint q au w))"
| webhook: "billing_step w (snd (handleWebhook body signature w))"
| stripe_webhook: "billing_step w (snd (handleStripeWebhook body signature w))"
| refresh: "billing_step w (snd (reconcileAccount email w))"
| status: "billing_step w (snd (getBillingStatus au w))"
| redeem: "billing_step w (snd (redeemPromo code au w))"
| grant: "billing_step w (snd (setAccountPlanAdmin email plan months w))"
| sweep: "billing_step w (snd (scheduler_tick lock w))"
| elapse: "billing_step w (w\<lparr>js_now := t, svc := s\<rparr>)"

inductive_cases billing_stepE: "billing_step w w'"

context billing_invariant begin

lemma endpoint_keeps: "preserves inv (billing_endpoint q au)"
proof -
  have "preserves inv (paddleOps q au)"
    by (cases q) (simp_all add: paddleOps_def handlers_keep)
  moreover have "preserves inv (stripeOps q au)"
    by (cases q) (simp_all add: stripeOps_def stripe_handlers_keep)
  ultimately show ?thesis unfolding billing_endpoint_def by (intro keeps)
qed

lemma grants_keep:
  "preserves inv (redeemPromo code au)" "preserves inv (setAccountPlanAdmin email plan months)"
proof -
  show "preserves inv (redeemPromo code au)" by (rule redeem_keeps)
  show "preserves inv (setAccountPlanAdmin email plan months)"
    unfolding setAccountPlanAdmin_def notifyOwnerOfPlanChange_def by (intro keeps)
qed

lemma step_keeps: "billing_step w w' \<Longrightarrow> inv (db w) \<Longrightarrow> inv (db w')"
  by (erule billing_stepE)
     (auto intro: preservesD endpoint_keeps tick_keeps handlers_keep stripe_handlers_keep grants_keep
        reconcileAccount_keeps)

end

lemmas billing_step_ok = billing_runs.step_keeps

lemma billing_run_ok: "billing_step\<^sup>*\<^sup>* w w' \<Longrightarrow> billing_ok (db w) \<Longrightarrow> billing_ok (db w')"
  by (induction rule: rtranclp_induct) (auto intro: billing_step_ok)

text \<open>
  C3: Along every run of the billing system, whatever the payment providers answer and
  whichever database round trips fail, every active workspace shows the plan of its owner's
  account.
\<close>

theorem billing_runs_keep_mirror:
  assumes "billing_step\<^sup>*\<^sup>* w w'" and "one_owner (db w)" and "billing_consistent (db w)"
  shows "one_owner (db w') \<and> billing_consistent (db w')"
  using billing_run_ok [OF assms(1)] assms(2,3) by (simp add: billing_ok_def)

lemma billing_runs_keep_mirror_witness:
  "one_owner (db (snd (scheduler_tick True (demo_world demo_db))))
   \<and> billing_consistent (db (snd (scheduler_tick True (demo_world demo_db))))"
  using billing_runs_keep_mirror
    [of "demo_world demo_db", OF r_into_rtranclp [of billing_step, OF billing_step.sweep [where lock = True]]]
    demo_billing_ok
  by simp

section \<open>One live subscription\<close>

definition not_transaction :: "event set" where
  "not_transaction = {e. case e of EvTransaction _ _ _ _ \<Rightarrow> False | _ \<Rightarrow> True}"

lemma createCheckout_refusal:
  assumes "au_role au \<noteq> Owner \<or> has_live_subscription (account_of (db w) (au_email au))" and "au_email au \<noteq> []"
  shows "wp (createCheckout plan au promo iv)
     (\<lambda>r w'. log w' = log w \<and> db w' = db w \<and> (case r of Inr (Resolve st key v) \<Rightarrow> False | _ \<Rightarrow> True)) w"
  using assms
  by (auto simp: createCheckout_def getAccount_def Let_def split: option.splits)

text \<open>
  Nobody pays twice: while the account has a live Paddle subscription, and for a member
  who is not the owner, checkout is refused before anything is asked of Paddle, and nothing is
  written.
\<close>

theorem checkout_needs_owner_without_live_subscription:
  assumes "au_email au \<noteq> []"
    and "au_role au \<noteq> Owner \<or> has_live_subscription (account_of (db w) (au_email au))"
  shows "wp (createCheckout plan au promo iv)
     (\<lambda>r w'. log w' = log w \<and> db w' = db w \<and> (case r of Inr (Resolve st key v) \<Rightarrow> False | _ \<Rightarrow> True)) w"
  using createCheckout_refusal [OF assms(2,1)] .

definition demo_owner :: auth where
  "demo_owner = \<lparr>au_id = 1, au_tenant = Some 1, au_role = Owner, au_email = js ''a@x.io'', au_sid = None\<rparr>"

definition demo_member :: auth where
  "demo_member = \<lparr>au_id = 3, au_tenant = Some 1, au_role = Member, au_email = js ''c@x.io'', au_sid = None\<rparr>"

definition subscribed_db :: "string \<Rightarrow> string \<Rightarrow> string option \<Rightarrow> int option \<Rightarrow> database" where
  "subscribed_db plan status pending at =
     demo_db\<lparr>accounts := [(demo_account ''a@x.io'' plan)\<lparr>b_paddle_sub := Some ''sub_1'',
       b_status := Some status, b_pending_plan := pending, b_pending_at := at\<rparr>]\<rparr>"

lemma clock_subscribed: "clock (subscribed_db plan status pending at) = 1000000000"
  by (simp add: subscribed_db_def demo_db_def empty_db_def)

lemma account_of_subscribed:
  "account_of (subscribed_db plan status pending at) (js ''a@x.io'') =
     (demo_account ''a@x.io'' plan)\<lparr>b_paddle_sub := Some ''sub_1'', b_status := Some status,
       b_pending_plan := pending, b_pending_at := at\<rparr>"
  by (simp add: account_of_def subscribed_db_def demo_account_def del: js_Cons)

lemma checkout_needs_owner_without_live_subscription_witness:
  "wp (createCheckout ''pro'' demo_owner None None)
     (\<lambda>r w'. log w' = [] \<and> db w' = subscribed_db ''business'' ''active'' None None
        \<and> (case r of Inr (Resolve st key v) \<Rightarrow> False | _ \<Rightarrow> True))
     (demo_world (subscribed_db ''business'' ''active'' None None))"
  using checkout_needs_owner_without_live_subscription
    [of demo_owner "demo_world (subscribed_db ''business'' ''active'' None None)" "''pro''" None None]
  by (simp add: demo_owner_def account_of_subscribed has_live_subscription_def text_or_null_def
      live_statuses_def del: js_Cons)

section \<open>A canceled subscription hides the next one\<close>

lemma reconcile_canceled:
  assumes "healthy w" "email \<noteq> []" "isPaddleConfigured (svc w)"
    and acct: "a = account_of (db w) email" "text_or_null (b_paddle_sub a) = Some i"
      "text_or_null (b_status a) \<noteq> None" "b_status a \<noteq> Some ''comped''"
    and sub: "pd_sub_get (paddle (svc w)) (log w) (js_now w) i = Inr s" "ps_status s = ''canceled''"
  shows "wp (reconcile email)
     (\<lambda>r w'. r = Inr () \<and> db w' = plan_db email (free_fields (Some ''canceled'')) (db w)) w"
proof -
  have free: "ns_plan (normalizeSub e s) = ''free''" "ns_status (normalizeSub e s) = ''canceled''" for e
    using sub(2) by (simp_all add: normalizeSub_def Let_def live_statuses_def)
  have heal: "wp (setAccountPlan email fs) (\<lambda>r w'. r = Inr () \<and> db w' = plan_db email fs (db w1)) w1"
    if "healthy w1" for fs w1
    using that assms(2)
    by (simp add: setAccountPlan_def setAccountPlan_on_def mirrorAccountToTenants_def getAccount_def
        plan_db_def Let_def)
  show ?thesis
    using assms free heal [of "w\<lparr>qn := Suc (Suc (qn w))\<rparr>"]
    by (simp add: reconcile_def reconcile_apply_def fetchSubscription_def getAccount_def sub_get_def
        resetAccountToFree_def text_or_null_def)
qed

text \<open>
  Re-subscription is lost: once Paddle reports the stored subscription as canceled, the
  reconciliation makes the account Free and keeps the stored id, so that checkout is open again
  while every later reconciliation still asks Paddle for the canceled subscription and never for
  a newer one: whatever subscriptions the customer has, the account stays Free.
\<close>

theorem stale_subscription_masks_new:
  assumes "healthy w" "email \<noteq> []" "isPaddleConfigured (svc w)"
    and "text_or_null (b_paddle_sub (account_of (db w) email)) = Some i"
      "text_or_null (b_status (account_of (db w) email)) \<noteq> None"
      "b_status (account_of (db w) email) \<noteq> Some ''comped''"
    and "pd_sub_get (paddle (svc w)) (log w) (js_now w) i = Inr s" "ps_status s = ''canceled''"
  shows "wp (reconcile email)
     (\<lambda>r w'. let a = account_of (db w') email
             in r = Inr () \<and> b_plan a = ''free'' \<and> b_status a = Some ''canceled''
                \<and> text_or_null (b_paddle_sub a) = Some i \<and> \<not> has_live_subscription a) w"
  by (rule wp_mono [OF reconcile_canceled [OF assms(1-3) refl assms(4-8)]])
     (use assms(4) in \<open>auto simp: Let_def account_of_plan_db free_fields_def set_fields_def
        account_of_insert_fields has_live_subscription_def live_statuses_def\<close>)

definition canceled_sub :: paddle_sub where
  "canceled_sub = \<lparr>ps_id = ''sub_1'', ps_customer = ''ctm_1'', ps_status = ''canceled'', ps_price = Some ''pri_1'',
     ps_period_end = None, ps_scheduled = None, ps_discount = None\<rparr>"

definition renewed_sub :: paddle_sub where
  "renewed_sub = canceled_sub\<lparr>ps_id := ''sub_2'', ps_status := ''active''\<rparr>"

definition returning_customer :: world where
  "returning_customer =
     (demo_world (subscribed_db ''free'' ''canceled'' None None))\<lparr>svc := demo_services\<lparr>
        env := (\<lambda>x. if x = ''PADDLE_API_KEY'' then Some ''key'' else None),
        paddle := demo_paddle\<lparr>pd_sub_get := (\<lambda>_ _ _. Inr canceled_sub),
          pd_sub_list := (\<lambda>_ _ _. Inr [renewed_sub])\<rparr>\<rparr>\<rparr>"

lemma stale_subscription_masks_new_witness:
  "wp (reconcile (js ''a@x.io''))
     (\<lambda>r w'. let a = account_of (db w') (js ''a@x.io'')
             in r = Inr () \<and> b_plan a = ''free'' \<and> b_status a = Some ''canceled''
                \<and> text_or_null (b_paddle_sub a) = Some ''sub_1'' \<and> \<not> has_live_subscription a)
     returning_customer"
  by (rule stale_subscription_masks_new [where s = canceled_sub])
     (simp_all add: returning_customer_def healthy_def demo_services_def isPaddleConfigured_def env_set_def
       account_of_subscribed text_or_null_def canceled_sub_def demo_world_def del: js_Cons)


end
