(* ===== verification/Promo_Admin.thy ===== *)
theory Promo_Admin
  imports Admin_Panel
begin

text \<open>
  Making promo codes and offers (\<open>src/main/admin/promo.js\<close>, \<open>src/main/admin/offers.js\<close>,
  \<open>src/common/discounts.js\<close>).  Percentages are whole numbers and offer prices are in cents; the
  descriptions that go to the providers are left out.
\<close>

section \<open>The provider's discounts\<close>

definition paddle_discount :: "discount_terms \<Rightarrow> string io" where
  "paddle_discount terms =
     call [EvDiscount terms] (\<lambda>w. pd_discount_create (paddle (svc w)) (log w) (js_now w) terms)"

definition createPaddleOfferDiscount :: "string \<Rightarrow> interval \<Rightarrow> int \<Rightarrow> int \<Rightarrow> int option \<Rightarrow> string option io" where
  "createPaddleOfferDiscount plan iv original cents periods =
     bnd (asks svc) (\<lambda>sv.
       if \<not> isPaddleConfigured sv then ret None
       else bnd (paddle_discount
                  \<lparr>dt_kind = Flat (original * 100 - cents), dt_recur = True,
                   dt_periods = (if periods = Some 0 then None else periods), dt_limit = None, dt_expires = None,
                   dt_prices = (case text_or_null (paddlePriceIdFor (env sv) plan iv) of
                                  None \<Rightarrow> None | Some p \<Rightarrow> Some [p])\<rparr>) (\<lambda>i. ret (Some i)))"

definition restricted_to :: "services \<Rightarrow> string \<Rightarrow> string list option" where
  "restricted_to sv applies =
     (if applies = [] \<or> applies = ''any'' then None
      else Some (List.map_filter (\<lambda>iv. text_or_null (paddlePriceIdFor (env sv) applies iv)) [Month, Year]))"

definition createPaddlePromoDiscount ::
  "int \<Rightarrow> promo_duration \<Rightarrow> int option \<Rightarrow> int option \<Rightarrow> int option \<Rightarrow> string \<Rightarrow> string io" where
  "createPaddlePromoDiscount percent duration months limit expires applies =
     bnd (asks svc) (\<lambda>sv.
       if \<not> isPaddleConfigured sv then raise (JsError ''paddle_not_configured'')
       else paddle_discount
              \<lparr>dt_kind = Percentage percent, dt_recur = (duration \<noteq> Once),
               dt_periods = (if duration = Repeating \<and> months \<noteq> Some 0 then months else None),
               dt_limit = (if limit = Some 0 then None else limit), dt_expires = expires,
               dt_prices = restricted_to sv applies\<rparr>)"

definition archivePaddleDiscount :: "string option \<Rightarrow> unit io" where
  "archivePaddleDiscount discount =
     bnd (asks svc) (\<lambda>sv.
       case text_or_null discount of
         None \<Rightarrow> ret ()
       | Some i \<Rightarrow>
           if \<not> isPaddleConfigured sv then ret ()
           else catch (call [EvDiscountArchive i] (\<lambda>w. pd_discount_archive (paddle (svc w)) (log w) (js_now w) i))
                  (\<lambda>_. catch (call [EvDiscountArchive i] (\<lambda>w. pd_discount_update (paddle (svc w)) (log w) (js_now w) i))
                          (\<lambda>_. ret ())))"

section \<open>The smallest charge\<close>

definition CODE_RE :: "jstring \<Rightarrow> bool" where
  "CODE_RE s \<longleftrightarrow>
     3 \<le> length s \<and> length s \<le> 64 \<and> list_all (\<lambda>u. is_upper_ascii u \<or> is_digit u \<or> u = 95 \<or> u = 45) s"

definition parse_duration :: "string option \<Rightarrow> promo_duration option" where
  "parse_duration s =
     (if s = Some ''once'' then Some Once else if s = Some ''repeating'' then Some Repeating
      else if s = Some ''forever'' then Some Forever else None)"

text \<open>70 cents.\<close>

definition MIN_CHARGE_CENTS :: int where "MIN_CHARGE_CENTS = 70"

definition applicable_prices :: "string \<Rightarrow> int list" where
  "applicable_prices applies =
     filter (\<lambda>v. v > 0)
       (concat (map (\<lambda>p. map (listPrice p) [Month, Year])
          (if applies \<noteq> [] \<and> applies \<noteq> ''any'' then [applies] else [''pro'', ''business''])))"

definition lowestApplicablePrice :: "string \<Rightarrow> int option" where
  "lowestApplicablePrice applies =
     (case applicable_prices applies of [] \<Rightarrow> None | v # vs \<Rightarrow> Some (fold min vs v))"

text \<open>
  What is left of a price in dollars is a whole number of cents, so the comparison of the
  rounded dollar amount is the comparison of the cents.
\<close>

definition belowMinimumCharge :: "int \<Rightarrow> string \<Rightarrow> bool" where
  "belowMinimumCharge percent applies \<longleftrightarrow>
     (case lowestApplicablePrice applies of
        None \<Rightarrow> False | Some lowest \<Rightarrow> lowest * (100 - percent) < MIN_CHARGE_CENTS)"

definition maxUsablePercent :: "string \<Rightarrow> int" where
  "maxUsablePercent applies =
     (case lowestApplicablePrice applies of
        None \<Rightarrow> 100 | Some lowest \<Rightarrow> max 1 ((100 * lowest - MIN_CHARGE_CENTS) div lowest))"

section \<open>Promo codes\<close>

definition listPromoCodes :: "promo_code list outcome io" where
  "listPromoCodes =
     catch (bnd (select (\<lambda>d. sort_key (\<lambda>p. - pc_created p) (promo_codes d))) (\<lambda>rows.
              ret (Resolve OK ''admin_data_retrieved'' rows)))
       (\<lambda>_. ret (Reject INTERNAL_SERVER_ERROR ''internal_server_error''))"

text \<open>The body of a request; a field that is not a number is as good as absent.\<close>

record promo_input =
  pi_code :: "jstring option"
  pi_type :: "string option"
  pi_percent :: "int option"
  pi_applies :: "string option"
  pi_grant :: "string option"
  pi_duration :: "string option"
  pi_months :: "int option"
  pi_max :: "int option"
  pi_expires :: "int option"

definition num_or :: "int \<Rightarrow> int option \<Rightarrow> int" where
  "num_or z n = (case n of None \<Rightarrow> z | Some v \<Rightarrow> if v = 0 then z else v)"

definition clamp_percent :: "int option \<Rightarrow> int" where
  "clamp_percent n = max 1 (min 100 (num_or 0 n))"

definition one_of :: "string list \<Rightarrow> string option \<Rightarrow> string option" where
  "one_of xs s = (case s of None \<Rightarrow> None | Some x \<Rightarrow> if x \<in> set xs then Some x else None)"

text \<open>The ids at the provider: coupon and promotion code of Stripe, discount of Paddle.\<close>

type_synonym backing = "string option \<times> string option \<times> string option"

definition stripe_promo_terms :: "int \<Rightarrow> promo_duration \<Rightarrow> int option \<Rightarrow> discount_terms" where
  "stripe_promo_terms percent duration months =
     \<lparr>dt_kind = Percentage percent, dt_recur = (duration \<noteq> Once),
      dt_periods = (if duration = Repeating then months else None), dt_limit = None, dt_expires = None,
      dt_prices = None\<rparr>"

text \<open>\<open>None\<close> when Stripe is to be used and not configured.\<close>

definition back_promo ::
  "jstring \<Rightarrow> int \<Rightarrow> promo_duration \<Rightarrow> int option \<Rightarrow> int option \<Rightarrow> int option \<Rightarrow> string \<Rightarrow> backing option io" where
  "back_promo code percent duration months limit expires applies =
     bnd (asks svc) (\<lambda>sv.
       if isPaddleActive sv then
         bnd (createPaddlePromoDiscount percent duration months limit expires applies) (\<lambda>i.
           ret (Some (None, None, Some i)))
       else if \<not> isStripeConfigured sv then ret None
       else bnd (let terms = stripe_promo_terms percent duration months
                 in call [EvStripeCoupon terms]
                      (\<lambda>w. st_coupon_create (stripe (svc w)) (log w) (js_now w) terms)) (\<lambda>coupon.
            bnd (call [EvStripePromotion coupon code]
                   (\<lambda>w. st_promotion_create (stripe (svc w)) (log w) (js_now w) coupon code
                          (if limit = Some 0 then None else limit) (map_option (\<lambda>e. e div 1000) expires))) (\<lambda>promo.
              ret (Some (Some coupon, Some promo, None)))))"

text \<open>\<open>INT UNSIGNED\<close> and \<open>VARCHAR(255)\<close>.\<close>

definition promo_fits :: "promo_code \<Rightarrow> bool" where
  "promo_fits p \<longleftrightarrow>
     list_all (\<lambda>n. case n of None \<Rightarrow> True | Some v \<Rightarrow> 0 \<le> v \<and> v < 2 ^ 32) [pc_months p, pc_max p]
     \<and> list_all (\<lambda>s. case s of None \<Rightarrow> True | Some i \<Rightarrow> length i \<le> 255)
         [pc_stripe_coupon p, pc_stripe_promo p, pc_paddle_discount p]"

definition insert_promo :: "promo_code \<Rightarrow> database \<Rightarrow> exn + (nat \<times> database)" where
  "insert_promo p d =
     (let i = next_id ''promo_codes'' d
      in if \<not> promo_fits p then Inl DbError
         else if list_ex (\<lambda>q. sql_eq (pc_code q) (pc_code p)) (promo_codes d)
         then Inl (DupEntry ''promo_codes.uq_promo_code'')
         else Inr (i, (bump_id ''promo_codes'' d)\<lparr>promo_codes := promo_codes d @ [p\<lparr>pc_id := i, pc_created := clock d\<rparr>]\<rparr>))"

definition new_promo ::
  "jstring \<Rightarrow> promo_type \<Rightarrow> promo_duration \<Rightarrow> int option \<Rightarrow> int option \<Rightarrow> int option \<Rightarrow> nat \<Rightarrow> promo_code" where
  "new_promo code type duration months limit expires admin =
     \<lparr>pc_id = 0, pc_code = code, pc_type = type, pc_applies_to = None, pc_percent = None, pc_grant = None,
      pc_duration = duration, pc_months = months, pc_stripe_coupon = None, pc_stripe_promo = None,
      pc_paddle_discount = None, pc_max = limit, pc_redeemed = 0, pc_expires = expires, pc_active = True,
      pc_created_by = Some admin, pc_created = 0\<rparr>"

definition save_promo :: "promo_code \<Rightarrow> nat outcome io" where
  "save_promo p = bnd (sql (insert_promo p)) (\<lambda>i. ret (Resolve CREATED ''promo_created'' i))"

definition create_percent :: "promo_input \<Rightarrow> promo_code \<Rightarrow> nat outcome io" where
  "create_percent inp p =
     (let percent = clamp_percent (pi_percent inp);
          applies = (case one_of [''any'', ''pro'', ''business''] (pi_applies inp) of None \<Rightarrow> ''any'' | Some a \<Rightarrow> a)
      in if percent = 0 then ret (Reject BAD_REQUEST ''invalid_percent'')
         else if belowMinimumCharge percent applies then ret (Reject BAD_REQUEST ''promo_percent_below_minimum'')
         else bnd (back_promo (pc_code p) percent (pc_duration p) (pc_months p) (pc_max p) (pc_expires p) applies) (\<lambda>b.
           case b of
             None \<Rightarrow> ret (Reject INTERNAL_SERVER_ERROR ''stripe_not_configured'')
           | Some (coupon, promo, discount) \<Rightarrow>
               save_promo (p\<lparr>pc_applies_to := Some applies, pc_percent := Some percent, pc_stripe_coupon := coupon,
                             pc_stripe_promo := promo, pc_paddle_discount := discount\<rparr>)))"

definition create_free :: "promo_input \<Rightarrow> promo_code \<Rightarrow> nat outcome io" where
  "create_free inp p =
     (case one_of [''pro'', ''business''] (pi_grant inp) of
        None \<Rightarrow> ret (Reject BAD_REQUEST ''invalid_plan'')
      | Some plan \<Rightarrow> save_promo (p\<lparr>pc_grant := Some plan\<rparr>))"

definition createPromoCode :: "promo_input \<Rightarrow> nat \<Rightarrow> nat outcome io" where
  "createPromoCode inp admin =
     (let code = js_upper (js_trim (or_empty (pi_code inp)));
          duration = (case parse_duration (pi_duration inp) of None \<Rightarrow> Once | Some x \<Rightarrow> x);
          months = (if duration = Repeating then Some (max 1 (num_or 1 (pi_months inp))) else None);
          limit = (case pi_max inp of None \<Rightarrow> None | Some m \<Rightarrow> if m = 0 then None else Some (max 1 m));
          row = (\<lambda>type. new_promo code type duration months limit (pi_expires inp) admin)
      in if \<not> CODE_RE code then ret (Reject BAD_REQUEST ''invalid_promo_code'')
         else if pi_type inp \<noteq> Some ''percent_off'' \<and> pi_type inp \<noteq> Some ''free_plan''
         then ret (Reject BAD_REQUEST ''invalid_promo_type'')
         else catch
           (bnd (select (\<lambda>d. list_ex (\<lambda>p. sql_eq (pc_code p) code) (promo_codes d))) (\<lambda>taken.
              if taken then ret (Reject BAD_REQUEST ''promo_code_taken'')
              else if pi_type inp = Some ''percent_off'' then create_percent inp (row PercentOff)
              else create_free inp (row FreePlan)))
           (\<lambda>_. ret (Reject INTERNAL_SERVER_ERROR ''failed_to_create_promo'')))"

definition promo_by_id :: "nat \<Rightarrow> database \<Rightarrow> promo_code option" where
  "promo_by_id i d = find (\<lambda>p. pc_id p = i) (promo_codes d)"

definition retire_promo :: "promo_code \<Rightarrow> unit io" where
  "retire_promo p =
     bnd (archivePaddleDiscount (pc_paddle_discount p)) (\<lambda>_.
     bnd (asks (\<lambda>w. isStripeConfigured (svc w))) (\<lambda>configured.
       case text_or_null (pc_stripe_promo p) of
         None \<Rightarrow> ret ()
       | Some s \<Rightarrow>
           if configured
           then catch (call [EvStripePromotionOff s] (\<lambda>w. st_promotion_off (stripe (svc w)) (log w) (js_now w) s))
                  (\<lambda>_. ret ())
           else ret ()))"

definition revokePromoCode :: "nat \<Rightarrow> unit outcome io" where
  "revokePromoCode i =
     catch
       (bnd (select (promo_by_id i)) (\<lambda>found.
          case found of
            None \<Rightarrow> ret (Reject NOT_FOUND ''promo_not_found'')
          | Some p \<Rightarrow>
              bnd (retire_promo p) (\<lambda>_.
              bnd (run (\<lambda>d. d\<lparr>promo_codes :=
                     update_where (\<lambda>q. pc_id q = i) (\<lambda>q. q\<lparr>pc_active := False\<rparr>) (promo_codes d)\<rparr>)) (\<lambda>_.
                ret (Resolve OK ''promo_revoked'' ())))))
       (\<lambda>_. ret (Reject INTERNAL_SERVER_ERROR ''internal_server_error''))"

text \<open>A field of a reactivation is absent, \<open>null\<close> or empty, or a value.\<close>

datatype 'a field = Omitted | Cleared | Given 'a

record promo_terms =
  pt_percent :: "int field"
  pt_applies :: "string option"
  pt_grant :: "string option"
  pt_duration :: "string option"
  pt_months :: "int field"
  pt_max :: "int field"
  pt_expires :: "int field"
  pt_reset :: bool

definition pick :: "'a field \<Rightarrow> 'a option \<Rightarrow> 'a option" where
  "pick f fallback = (case f of Given v \<Rightarrow> Some v | _ \<Rightarrow> fallback)"

definition amend :: "'a field \<Rightarrow> 'a option \<Rightarrow> 'a option" where
  "amend f old = (case f of Omitted \<Rightarrow> old | Cleared \<Rightarrow> None | Given v \<Rightarrow> Some v)"

definition clear_usage :: "nat \<Rightarrow> database \<Rightarrow> database" where
  "clear_usage i d = d\<lparr>promo_redemptions := filter (\<lambda>r. rd_code r \<noteq> i) (promo_redemptions d)\<rparr>"

definition revive :: "promo_terms \<Rightarrow> nat \<Rightarrow> promo_code \<Rightarrow> promo_code \<Rightarrow> promo_code" where
  "revive t admin new q =
     q\<lparr>pc_active := True, pc_applies_to := pc_applies_to new, pc_percent := pc_percent new,
       pc_grant := pc_grant new, pc_duration := pc_duration new, pc_months := pc_months new, pc_max := pc_max new,
       pc_expires := pc_expires new, pc_paddle_discount := pc_paddle_discount new,
       pc_stripe_coupon := pc_stripe_coupon new, pc_stripe_promo := pc_stripe_promo new,
       pc_redeemed := (if pt_reset t then 0 else pc_redeemed q),
       pc_created_by := (if admin = 0 then pc_created_by q else Some admin)\<rparr>"

definition restart_promo :: "promo_terms \<Rightarrow> nat \<Rightarrow> promo_code \<Rightarrow> nat outcome io" where
  "restart_promo t admin new =
     (let i = pc_id new
      in bnd (if pt_reset t then run (clear_usage i) else ret ()) (\<lambda>_.
         bnd (sql (\<lambda>d. if \<not> promo_fits new then Inl DbError
                else Inr ((), d\<lparr>promo_codes := update_where (\<lambda>q. pc_id q = i) (revive t admin new) (promo_codes d)\<rparr>))) (\<lambda>_.
           ret (Resolve OK ''promo_reactivated'' i))))"

definition amended :: "promo_terms \<Rightarrow> promo_code \<Rightarrow> promo_code" where
  "amended t p =
     (let duration = (case parse_duration (pt_duration t) of None \<Rightarrow> pc_duration p | Some x \<Rightarrow> x)
      in p\<lparr>pc_duration := duration,
           pc_months := (if duration = Repeating then Some (max 1 (num_or 1 (pick (pt_months t) (pc_months p)))) else None),
           pc_max := (case pt_max t of Given m \<Rightarrow> Some (max 1 m) | f \<Rightarrow> amend f (pc_max p)),
           pc_expires := amend (pt_expires t) (pc_expires p),
           pc_stripe_coupon := None, pc_stripe_promo := None, pc_paddle_discount := None\<rparr>)"

definition reactivate_percent :: "promo_terms \<Rightarrow> nat \<Rightarrow> promo_code \<Rightarrow> nat outcome io" where
  "reactivate_percent t admin p =
     (let percent = clamp_percent (pick (pt_percent t) (pc_percent p));
          applies = (case one_of [''any'', ''pro'', ''business''] (pt_applies t) of
                       Some a \<Rightarrow> a
                     | None \<Rightarrow> (case text_or_null (pc_applies_to p) of None \<Rightarrow> ''any'' | Some a \<Rightarrow> a));
          new = amended t p
      in if percent = 0 then ret (Reject BAD_REQUEST ''invalid_percent'')
         else if belowMinimumCharge percent applies then ret (Reject BAD_REQUEST ''promo_percent_below_minimum'')
         else bnd (back_promo (pc_code p) percent (pc_duration new) (pc_months new) (pc_max new) (pc_expires new)
                     applies) (\<lambda>b.
           case b of
             None \<Rightarrow> ret (Reject INTERNAL_SERVER_ERROR ''stripe_not_configured'')
           | Some (coupon, promo, discount) \<Rightarrow>
               restart_promo t admin (new\<lparr>pc_applies_to := Some applies, pc_percent := Some percent,
                 pc_stripe_coupon := coupon, pc_stripe_promo := promo, pc_paddle_discount := discount\<rparr>)))"

definition reactivate_free :: "promo_terms \<Rightarrow> nat \<Rightarrow> promo_code \<Rightarrow> nat outcome io" where
  "reactivate_free t admin p =
     (case text_or_null (case one_of [''pro'', ''business''] (pt_grant t) of Some g \<Rightarrow> Some g | None \<Rightarrow> pc_grant p) of
        None \<Rightarrow> ret (Reject BAD_REQUEST ''invalid_plan'')
      | Some plan \<Rightarrow> restart_promo t admin ((amended t p)\<lparr>pc_grant := Some plan\<rparr>))"

definition reactivatePromoCode :: "nat \<Rightarrow> promo_terms \<Rightarrow> nat \<Rightarrow> nat outcome io" where
  "reactivatePromoCode i t admin =
     catch
       (bnd (select (promo_by_id i)) (\<lambda>found.
          case found of
            None \<Rightarrow> ret (Reject NOT_FOUND ''promo_not_found'')
          | Some p \<Rightarrow>
              if pc_active p then ret (Reject BAD_REQUEST ''promo_already_active'')
              else if pc_type p = PercentOff then reactivate_percent t admin p
              else reactivate_free t admin p))
       (\<lambda>_. ret (Reject INTERNAL_SERVER_ERROR ''failed_to_create_promo''))"

text \<open>\<open>ON DELETE CASCADE\<close> takes the redemptions along.\<close>

definition drop_promo :: "nat \<Rightarrow> database \<Rightarrow> database" where
  "drop_promo i d =
     (clear_usage i d)\<lparr>promo_codes := filter (\<lambda>p. pc_id p \<noteq> i) (promo_codes d)\<rparr>"

definition deletePromoCode :: "nat \<Rightarrow> (nat \<times> nat) outcome io" where
  "deletePromoCode i =
     catch
       (bnd (select (promo_by_id i)) (\<lambda>found.
          case found of
            None \<Rightarrow> ret (Reject NOT_FOUND ''promo_not_found'')
          | Some p \<Rightarrow>
              bnd (select (\<lambda>d. length (filter (\<lambda>r. rd_code r = i) (promo_redemptions d)))) (\<lambda>n.
              bnd (retire_promo p) (\<lambda>_.
              bnd (run (drop_promo i)) (\<lambda>_.
                ret (Resolve OK ''promo_deleted'' (i, n)))))))
       (\<lambda>_. ret (Reject INTERNAL_SERVER_ERROR ''internal_server_error''))"

section \<open>Times an admin types\<close>

text \<open>
  A zoned value is an instant, anything else wall-clock text in the zone of the server, taken
  as UTC.  Only the ISO 8601 forms of \<open>Date\<close> and the canonical form of a MySQL datetime are read.
\<close>

datatype stamp = Instant int | Naive jstring

definition digits :: "jstring \<Rightarrow> int option" where
  "digits s = (if s \<noteq> [] \<and> list_all is_digit s then Some (int (js_to_nat s)) else None)"

definition slice :: "nat \<Rightarrow> nat \<Rightarrow> jstring \<Rightarrow> jstring" where "slice a b s = take (b - a) (drop a s)"

definition day_ms :: "jstring \<Rightarrow> int option" where
  "day_ms s =
     (case (digits (slice 0 4 s), digits (slice 5 7 s), digits (slice 8 10 s)) of
        (Some y, Some m, Some d) \<Rightarrow>
          if length s = 10 \<and> s ! 4 = 45 \<and> s ! 7 = 45 \<and> 1 \<le> m \<and> m \<le> 12 \<and> 1 \<le> d \<and> d \<le> 31
          then Some ((days_of_civil y m 1 + d - 1) * 86400000) else None
      | _ \<Rightarrow> None)"

text \<open>\<open>HH:mm\<close>, \<open>HH:mm:ss\<close> or \<open>HH:mm:ss.f\<dots>\<close>.\<close>

definition time_ms :: "jstring \<Rightarrow> int option" where
  "time_ms s =
     (let full = (if length s = 5 then s @ js '':00'' else s); frac = drop 9 full
      in case (digits (slice 0 2 full), digits (slice 3 5 full), digits (slice 6 8 full)) of
           (Some h, Some m, Some sec) \<Rightarrow>
             if length full \<ge> 8 \<and> full ! 2 = 58 \<and> full ! 5 = 58 \<and> h \<le> 23 \<and> m \<le> 59 \<and> sec \<le> 59
             then (if length full = 8 then Some (h * 3600000 + m * 60000 + sec * 1000)
                   else case digits (take 3 (frac @ js ''00'')) of
                     None \<Rightarrow> None
                   | Some f \<Rightarrow> if full ! 8 = 46 \<and> list_all is_digit frac
                               then Some (h * 3600000 + m * 60000 + sec * 1000 + f) else None)
             else None
         | _ \<Rightarrow> None)"

text \<open>The length of the zone at the end, \<open>/(Z|[+-]\d{2}:\d{2})$/\<close>, and its offset.\<close>

definition zone_length :: "jstring \<Rightarrow> nat option" where
  "zone_length s =
     (let z = drop (length s - 6) s
      in if s \<noteq> [] \<and> last s = 90 then Some 1
         else if length s \<ge> 6 \<and> (z ! 0 = 43 \<or> z ! 0 = 45) \<and> list_all is_digit [z ! 1, z ! 2, z ! 4, z ! 5] \<and> z ! 3 = 58
         then Some 6 else None)"

definition zone_ms :: "jstring \<Rightarrow> int" where
  "zone_ms z =
     (if length z = 1 then 0
      else (if z ! 0 = 43 then 1 else - 1)
           * (int (js_to_nat (slice 1 3 z)) * 3600000 + int (js_to_nat (slice 4 6 z)) * 60000))"

definition parse_zoned :: "jstring \<Rightarrow> int option" where
  "parse_zoned s =
     (case zone_length s of
        None \<Rightarrow> None
      | Some n \<Rightarrow>
          let body = take (length s - n) s
          in case (day_ms (take 10 body), time_ms (drop 11 body)) of
               (Some d, Some t) \<Rightarrow>
                 if length body > 10 \<and> body ! 10 = 84 then Some (d + t - zone_ms (drop (length s - n) s)) else None
             | _ \<Rightarrow> None)"

definition parse_datetime :: "jstring \<Rightarrow> int option" where
  "parse_datetime s =
     (case (day_ms (take 10 s), time_ms (drop 11 s)) of
        (Some d, Some t) \<Rightarrow> if length s = 19 \<and> s ! 10 = 32 then Some (d + t) else None
      | _ \<Rightarrow> None)"

fun replace_T :: "jstring \<Rightarrow> jstring" where
  "replace_T [] = []"
| "replace_T (u # s) = (if u = 84 then 32 # s else u # replace_T s)"

definition toLocalDateTime :: "jstring option \<Rightarrow> bool \<Rightarrow> stamp option" where
  "toLocalDateTime v endOfDay =
     (case or_null (or_empty v) of
        None \<Rightarrow> None
      | Some raw \<Rightarrow>
          let s = js_trim raw
          in case parse_zoned s of
               Some ms \<Rightarrow> Some (Instant ms)
             | None \<Rightarrow>
                 if 84 \<in> set s then
                   (let dt = replace_T s in Some (Naive (take 19 (if length dt = 16 then dt @ js '':00'' else dt))))
                 else Some (Naive (take 10 s @ (if endOfDay then js '' 23:59:59'' else js '' 00:00:00''))))"

definition stamp_ms :: "stamp \<Rightarrow> int option" where
  "stamp_ms t = (case t of Instant ms \<Rightarrow> Some ms | Naive s \<Rightarrow> parse_datetime s)"

lemma toLocalDateTime_examples:
  "toLocalDateTime (Some (js ''2024-02-29T12:30:00.000+06:00'')) False = Some (Instant 1709188200000)"
  "map_option stamp_ms (toLocalDateTime (Some (js ''2024-02-29T06:30'')) False) = Some (Some 1709188200000)"
  "map_option stamp_ms (toLocalDateTime (Some (js ''2024-02-29'')) True) = Some (Some 1709251199000)"
  by (simp_all add: toLocalDateTime_def parse_zoned_def parse_datetime_def zone_length_def zone_ms_def day_ms_def
      time_ms_def digits_def slice_def stamp_ms_def or_empty_def or_null_def js_trim_def js_space_def is_digit_def
      js_to_nat_def days_of_civil_def Let_def)

section \<open>Offers\<close>

definition listOffers :: "offer list outcome io" where
  "listOffers =
     catch (bnd (select (\<lambda>d. newest_first (offers d))) (\<lambda>rows. ret (Resolve OK ''admin_data_retrieved'' rows)))
       (\<lambda>_. ret (Reject INTERNAL_SERVER_ERROR ''internal_server_error''))"

record offer_input =
  oi_plan :: "string option"
  oi_interval :: "string option"
  oi_cents :: "int option"
  oi_label :: "jstring option"
  oi_starts :: "jstring option"
  oi_ends :: "jstring option"

text \<open>\<open>offerDurationPeriods\<close> on the typed bounds: a bound that is no date makes it unlimited.\<close>

definition periods_between :: "int \<Rightarrow> interval \<Rightarrow> stamp option \<Rightarrow> stamp option \<Rightarrow> int option" where
  "periods_between now iv starts ends =
     (let valid = (\<lambda>t. case t of None \<Rightarrow> True | Some x \<Rightarrow> stamp_ms x \<noteq> None);
          ms = (\<lambda>t. case t of None \<Rightarrow> None | Some x \<Rightarrow> stamp_ms x)
      in if iv \<noteq> Year \<and> (ends = None \<or> \<not> valid starts \<or> \<not> valid ends) then None
         else offerDurationPeriods now iv (ms starts) (ms ends))"

definition offer_slot :: "string \<Rightarrow> interval \<Rightarrow> offer \<Rightarrow> bool" where
  "offer_slot plan iv o1 \<longleftrightarrow> of_plan o1 = plan \<and> of_interval o1 = iv \<and> of_active o1"

definition end_offers :: "string \<Rightarrow> interval \<Rightarrow> database \<Rightarrow> database" where
  "end_offers plan iv d =
     d\<lparr>offers := update_where (offer_slot plan iv) (\<lambda>o1. o1\<lparr>of_active := False\<rparr>) (offers d)\<rparr>"

text \<open>\<open>VARCHAR\<close> widths, \<open>DECIMAL(10,2)\<close>, and a datetime MySQL can read.\<close>

definition insert_offer ::
  "string \<Rightarrow> interval \<Rightarrow> int \<Rightarrow> jstring option \<Rightarrow> stamp option \<Rightarrow> stamp option \<Rightarrow> string option \<Rightarrow> string option \<Rightarrow> nat
   \<Rightarrow> database \<Rightarrow> exn + (nat \<times> database)" where
  "insert_offer plan iv cents label starts ends coupon discount admin d =
     (let i = next_id ''offers'' d;
          bad = (\<lambda>t. case t of None \<Rightarrow> False | Some x \<Rightarrow> stamp_ms x = None);
          ms = (\<lambda>t. case t of None \<Rightarrow> None | Some x \<Rightarrow> stamp_ms x);
          long = (\<lambda>s. case s of None \<Rightarrow> False | Some x \<Rightarrow> length x > 255)
      in if bad starts \<or> bad ends \<or> long coupon \<or> long discount \<or> cents \<ge> 10 ^ 10 then Inl DbError
         else Inr (i, (bump_id ''offers'' d)\<lparr>offers := offers d @
                [\<lparr>of_id = i, of_plan = plan, of_interval = iv, of_price_cents = cents, of_label = label,
                  of_starts = ms starts, of_ends = ms ends, of_stripe_coupon = coupon, of_paddle_discount = discount,
                  of_active = True, of_created_by = Some admin, of_created = clock d\<rparr>]\<rparr>))"

text \<open>The discount behind an offer, coupon and Paddle discount; a failure leaves it without one.\<close>

definition back_offer ::
  "string \<Rightarrow> interval \<Rightarrow> int \<Rightarrow> int \<Rightarrow> stamp option \<Rightarrow> stamp option \<Rightarrow> (string option \<times> string option) io" where
  "back_offer plan iv original cents starts ends =
     bnd (asks (\<lambda>w. (svc w, js_now w))) (\<lambda>(sv, now).
       if isPaddleActive sv then
         catch (bnd (createPaddleOfferDiscount plan iv original cents (periods_between now iv starts ends)) (\<lambda>i.
                  ret (None, i)))
           (\<lambda>_. ret (None, None))
       else if isStripeConfigured sv then
         catch (bnd (let terms = \<lparr>dt_kind = Flat (original * 100 - cents), dt_recur = True, dt_periods = None,
                                   dt_limit = None, dt_expires = None, dt_prices = None\<rparr>
                     in call [EvStripeCoupon terms]
                          (\<lambda>w. st_coupon_create (stripe (svc w)) (log w) (js_now w) terms)) (\<lambda>i.
                  ret (Some i, None)))
           (\<lambda>_. ret (None, None))
       else ret (None, None))"

definition createOffer :: "offer_input \<Rightarrow> nat \<Rightarrow> nat outcome io" where
  "createOffer inp admin =
     (case one_of [''pro'', ''business''] (oi_plan inp) of
        None \<Rightarrow> ret (Reject BAD_REQUEST ''invalid_plan'')
      | Some plan \<Rightarrow>
          let iv = interval_of_string (oi_interval inp);
              original = listPrice plan iv;
              label = or_null (take 120 (js_trim (or_empty (oi_label inp))));
              starts = toLocalDateTime (oi_starts inp) False;
              ends = toLocalDateTime (oi_ends inp) True
          in case oi_cents inp of
               None \<Rightarrow> ret (Reject BAD_REQUEST ''invalid_offer_price'')
             | Some cents \<Rightarrow>
                 let percentOff = math_round (100 * (original * 100 - cents)) (original * 100)
                 in if \<not> cents > 0 \<or> cents \<ge> original * 100 then ret (Reject BAD_REQUEST ''invalid_offer_price'')
                    else if percentOff < 1 \<or> percentOff > 100 then ret (Reject BAD_REQUEST ''invalid_offer_price'')
                    else catch
                      (bnd (back_offer plan iv original cents starts ends) (\<lambda>(coupon, discount).
                       bnd (run (end_offers plan iv)) (\<lambda>_.
                       bnd (sql (insert_offer plan iv cents label starts ends coupon discount admin)) (\<lambda>i.
                         ret (Resolve CREATED ''offer_created'' i)))))
                      (\<lambda>_. ret (Reject INTERNAL_SERVER_ERROR ''internal_server_error'')))"

definition deactivateOffer :: "nat \<Rightarrow> unit outcome io" where
  "deactivateOffer i =
     catch
       (bnd (select (\<lambda>d. find (\<lambda>o1. of_id o1 = i) (offers d))) (\<lambda>found.
          case found of
            None \<Rightarrow> ret (Reject NOT_FOUND ''offer_not_found'')
          | Some o1 \<Rightarrow>
              bnd (archivePaddleDiscount (of_paddle_discount o1)) (\<lambda>_.
              bnd (asks (\<lambda>w. isStripeConfigured (svc w))) (\<lambda>configured.
              bnd (case text_or_null (of_stripe_coupon o1) of
                     None \<Rightarrow> ret ()
                   | Some c \<Rightarrow>
                       if configured
                       then catch (call [EvStripeCouponDelete c]
                                    (\<lambda>w. st_coupon_delete (stripe (svc w)) (log w) (js_now w) c)) (\<lambda>_. ret ())
                       else ret ()) (\<lambda>_.
              bnd (run (\<lambda>d. d\<lparr>offers := update_where (\<lambda>o1. of_id o1 = i) (\<lambda>o1. o1\<lparr>of_active := False\<rparr>) (offers d)\<rparr>)) (\<lambda>_.
                ret (Resolve OK ''offer_deactivated'' ())))))))
       (\<lambda>_. ret (Reject INTERNAL_SERVER_ERROR ''internal_server_error''))"

end
