(* ===== verification/Promo_Facts.thy ===== *)
theory Promo_Facts
  imports Billing_Flow Promo_Admin
begin

text \<open>
  What redeeming a promo code guarantees: no code is used beyond its cap or twice by one
  account, a plan is granted completely or not at all; and a way around the second rule.
\<close>

section \<open>The promo tables\<close>

definition uses :: "database \<Rightarrow> nat \<Rightarrow> nat" where
  "uses d i = length (filter (\<lambda>r. rd_code r = i) (promo_redemptions d))"

definition within_cap :: "promo_code \<Rightarrow> bool" where
  "within_cap p \<longleftrightarrow> (case pc_max p of None \<Rightarrow> True | Some m \<Rightarrow> pc_redeemed p \<le> m)"

definition same_redemption :: "promo_redemption \<Rightarrow> promo_redemption \<Rightarrow> bool" where
  "same_redemption a b \<longleftrightarrow>
     rd_code a = rd_code b
     \<and> (case (rd_email a, rd_email b) of (Some e, Some e') \<Rightarrow> sql_eq e e' | _ \<Rightarrow> False)"

text \<open>A new code gets an id that no code or redemption has.\<close>

definition code_ids :: "database \<Rightarrow> nat set" where
  "code_ids d = pc_id ` set (promo_codes d) \<union> rd_code ` set (promo_redemptions d)"

definition codes_known :: "database \<Rightarrow> bool" where
  "codes_known d \<longleftrightarrow> (\<forall>i \<in> code_ids d. i < next_id ''promo_codes'' d)"

definition promo_ok :: "database \<Rightarrow> bool" where
  "promo_ok d \<longleftrightarrow>
     distinct (map pc_id (promo_codes d))
     \<and> (\<forall>p \<in> set (promo_codes d). int (uses d (pc_id p)) \<le> pc_redeemed p \<and> within_cap p)
     \<and> codes_known d
     \<and> sorted_wrt (\<lambda>a b. \<not> same_redemption a b) (promo_redemptions d)"

definition promo_tables :: "database \<Rightarrow> promo_code list \<times> promo_redemption list \<times> nat" where
  "promo_tables d = (promo_codes d, promo_redemptions d, next_id ''promo_codes'' d)"

lemma promo_ok_cong: "promo_tables d = promo_tables d' \<Longrightarrow> promo_ok d = promo_ok d'"
  by (simp add: promo_tables_def promo_ok_def uses_def codes_known_def code_ids_def)

lemma codes_known_mono:
  "codes_known d \<Longrightarrow> code_ids d' \<subseteq> code_ids d \<Longrightarrow> next_id ''promo_codes'' d \<le> next_id ''promo_codes'' d' \<Longrightarrow>
   codes_known d'"
  by (auto simp: codes_known_def dest!: subsetD order_less_le_trans)

lemma fewer_code_ids:
  "map pc_id (promo_codes d') = map pc_id (promo_codes d) \<Longrightarrow> set (promo_redemptions d') \<subseteq> set (promo_redemptions d) \<Longrightarrow>
   code_ids d' \<subseteq> code_ids d"
  unfolding code_ids_def by (metis Un_mono image_mono list.set_map order_refl)

text \<open>No billing handler touches them.\<close>

lemma promo_tables_plan: "promo_tables (plan_db email fs d) = promo_tables d"
  by (simp add: promo_tables_def plan_db_def Let_def mirror_db_def update_account_def insert_account_def next_id_def)

interpretation promo_blind: plan_invariant "\<lambda>d. promo_tables d = T"
proof (unfold_locales, goal_cases)
  case (1 email fs)
  show ?case
  proof (cases "email = []")
    case True
    then show ?thesis by (simp add: setAccountPlan_def preserves_raise)
  next
    case False
    show ?thesis
      by (rule preservesI, rule wp_mono [OF setAccountPlan_spec [OF False]]) (auto simp: promo_tables_plan)
  qed
next
  case (2 email)
  show ?case
    unfolding mirrorAccountToTenants_def
    by (intro keeps preserves_execute) (simp add: promo_tables_def mirror_db_def next_id_def)
qed

lemma comp_account_tables [keeps]: "preserves (\<lambda>d. promo_tables d = T) (comp_account email g e)"
  unfolding comp_account_def by (intro keeps promo_blind.plan_write)

section \<open>Claiming and releasing\<close>

lemma uses_simps [simp]:
  "uses (d\<lparr>promo_codes := cs\<rparr>) i = uses d i" "uses (bump_id t d) i = uses d i"
  by (simp_all add: uses_def bump_id_def)

definition claimed :: "database \<Rightarrow> nat \<Rightarrow> auth \<Rightarrow> string option \<Rightarrow> int option \<Rightarrow> database \<Rightarrow> bool" where
  "claimed d i au g e d' \<longleftrightarrow>
     (\<exists>t r. au_tenant au = Some t \<and> rd_code r = i \<and> rd_tenant r = t \<and> rd_email r = Some (au_email au)
        \<and> rd_plan r = g \<and> rd_expires r = e
        \<and> \<not> list_ex (redeemed_by i (au_email au)) (promo_redemptions d)
        \<and> promo_redemptions d' = promo_redemptions d @ [r]
        \<and> (\<exists>p \<in> set (promo_codes d). slot_free (clock d) i p)
        \<and> promo_codes d' = promo_codes (snd (take_slot i d))
        \<and> next_id ''promo_codes'' d' = next_id ''promo_codes'' d
        \<and> accounts d' = accounts d \<and> tenants d' = tenants d \<and> users d' = users d)"

lemma claim_spec:
  "wp (claimRedemption i au g e)
     (\<lambda>r w'. if r = Inr None then claimed (db w) i au g e (db w') else db w' = db w) w"
  by (auto simp: claimRedemption_def claimed_def take_slot_def insert_redemption_def filter_empty_conv
      bump_id_def next_id_def Let_def split: option.splits exn.splits if_splits)

lemma take_slot_codes:
  "promo_codes (snd (take_slot i d)) =
     update_where (slot_free (clock d) i) (\<lambda>p. p\<lparr>pc_redeemed := pc_redeemed p + 1\<rparr>) (promo_codes d)"
  by (simp add: take_slot_def)

lemma map_id_take_slot [simp]: "map pc_id (promo_codes (snd (take_slot i d))) = map pc_id (promo_codes d)"
  by (simp add: take_slot_codes update_where_def)

lemma claimed_uses: "claimed d i au g e d' \<Longrightarrow> uses d' j = uses d j + (if j = i then 1 else 0)"
  by (auto simp: claimed_def uses_def)

lemma claimed_code:
  assumes ok: "promo_ok d" and cl: "claimed d i au g e d'" and p: "p' \<in> set (promo_codes d')"
  obtains p where "p \<in> set (promo_codes d)" "pc_id p' = pc_id p" "pc_max p' = pc_max p"
    "pc_redeemed p' = pc_redeemed p + (if pc_id p = i then 1 else 0)" "pc_id p = i \<longrightarrow> slot_free (clock d) i p"
proof -
  obtain q where q: "q \<in> set (promo_codes d)" "slot_free (clock d) i q" using cl by (auto simp: claimed_def)
  from p cl obtain p where "p \<in> set (promo_codes d)"
    and p': "p' = (if slot_free (clock d) i p then p\<lparr>pc_redeemed := pc_redeemed p + 1\<rparr> else p)"
    by (auto simp: claimed_def take_slot_codes set_update_where)
  moreover have "p = q" if "pc_id p = i"
    using ok q that calculation(1) by (auto simp: promo_ok_def slot_free_def distinct_map inj_on_def)
  ultimately show ?thesis using q(2) by (intro that [of p]) (auto simp: slot_free_def split: if_splits)
qed

lemma claimed_ok:
  assumes ok: "promo_ok d" and cl: "claimed d i au g e d'"
  shows "promo_ok d'"
proof -
  have "int (uses d' (pc_id p')) \<le> pc_redeemed p' \<and> within_cap p'" if "p' \<in> set (promo_codes d')" for p'
    using claimed_code [OF ok cl that]
  proof cases
    case (1 p)
    with ok have "int (uses d (pc_id p)) \<le> pc_redeemed p" "within_cap p" by (auto simp: promo_ok_def)
    with 1 show ?thesis
      by (auto simp: claimed_uses [OF cl] within_cap_def slot_free_def split: option.splits if_splits)
  qed
  moreover have "sorted_wrt (\<lambda>a b. \<not> same_redemption a b) (promo_redemptions d')"
  proof -
    obtain r where r: "promo_redemptions d' = promo_redemptions d @ [r]" "rd_code r = i" "rd_email r = Some (au_email au)"
      and none: "\<not> list_ex (redeemed_by i (au_email au)) (promo_redemptions d)"
      using cl by (auto simp: claimed_def)
    have "\<forall>a \<in> set (promo_redemptions d). \<not> same_redemption a r"
      using none by (auto simp: r same_redemption_def redeemed_by_def list_ex_iff split: option.splits)
    then show ?thesis using ok by (simp add: r promo_ok_def sorted_wrt_append)
  qed
  moreover have ids: "map pc_id (promo_codes d') = map pc_id (promo_codes d)" using cl by (auto simp: claimed_def)
  then have "distinct (map pc_id (promo_codes d'))" using ok by (simp add: promo_ok_def)
  moreover have "codes_known d'"
  proof -
    obtain r q where r: "promo_redemptions d' = promo_redemptions d @ [r]" "rd_code r = i"
      and q: "q \<in> set (promo_codes d)" "pc_id q = i"
      and "next_id ''promo_codes'' d' = next_id ''promo_codes'' d"
      using cl by (auto simp: claimed_def slot_free_def)
    moreover have "codes_known d" using ok by (simp add: promo_ok_def)
    moreover have "code_ids d' = insert i (code_ids d)"
      using r arg_cong [OF ids, of set] by (simp add: code_ids_def)
    moreover have "i \<in> code_ids d" using q by (auto simp: code_ids_def)
    ultimately show ?thesis by (simp add: codes_known_def insert_absorb)
  qed
  ultimately show ?thesis by (simp add: promo_ok_def)
qed

text \<open>Giving a claim back, in whichever of its two statements it fails.\<close>

lemma redeemed_by_claimed:
  assumes "claimed d i au g e d'"
  shows "filter (\<lambda>r. \<not> redeemed_by i (au_email au) r) (promo_redemptions d') = promo_redemptions d"
proof -
  obtain r where "promo_redemptions d' = promo_redemptions d @ [r]" "redeemed_by i (au_email au) r"
    and none: "\<not> list_ex (redeemed_by i (au_email au)) (promo_redemptions d)"
    using assms by (auto simp: claimed_def redeemed_by_def sql_eq_refl)
  moreover have "filter (\<lambda>r. \<not> redeemed_by i (au_email au) r) (promo_redemptions d) = promo_redemptions d"
    using none by (auto simp: filter_id_conv list_ex_iff)
  ultimately show ?thesis by simp
qed

lemma dropped_ok:
  assumes ok: "promo_ok d" and cl: "claimed d i au g e d'" and t: "promo_tables d2 = promo_tables d'"
  shows "promo_ok (drop_redemption i (au_email au) d2)"
    and "promo_ok (return_slot i (drop_redemption i (au_email au) d2))"
proof -
  let ?d = "drop_redemption i (au_email au) d2"
  have red: "promo_redemptions ?d = promo_redemptions d" and cod: "promo_codes ?d = promo_codes d'"
    using t redeemed_by_claimed [OF cl] by (simp_all add: drop_redemption_def promo_tables_def)
  have nxt: "next_id ''promo_codes'' ?d = next_id ''promo_codes'' d"
    "next_id ''promo_codes'' (return_slot i ?d) = next_id ''promo_codes'' d"
  proof -
    have "next_id ''promo_codes'' d' = next_id ''promo_codes'' d" using cl by (auto simp: claimed_def)
    then show "next_id ''promo_codes'' ?d = next_id ''promo_codes'' d"
      "next_id ''promo_codes'' (return_slot i ?d) = next_id ''promo_codes'' d"
      using t by (simp_all add: drop_redemption_def return_slot_def promo_tables_def next_id_def)
  qed
  have id: "map pc_id (promo_codes d') = map pc_id (promo_codes d)" using cl by (auto simp: claimed_def)
  have u: "uses ?d = uses d" by (simp add: uses_def fun_eq_iff red)
  have bound: "int (uses d (pc_id p')) + (if pc_id p' = i then 1 else 0) \<le> pc_redeemed p' \<and> within_cap p'"
    if "p' \<in> set (promo_codes d')" for p'
    using claimed_ok [OF ok cl] that claimed_uses [OF cl, of "pc_id p'"] by (auto simp: promo_ok_def)
  have sorted: "sorted_wrt (\<lambda>a b. \<not> same_redemption a b) (promo_redemptions ?d)"
    using ok by (simp add: red promo_ok_def)
  have "int (uses ?d (pc_id q)) \<le> pc_redeemed q \<and> within_cap q" if "q \<in> set (promo_codes ?d)" for q
    using bound [of q] that by (auto simp: u cod split: if_splits)
  moreover have "codes_known ?d"
    using ok id by - (rule codes_known_mono [OF _ fewer_code_ids, of d], simp_all add: promo_ok_def cod red nxt)
  ultimately show "promo_ok ?d"
    using ok sorted unfolding promo_ok_def by (simp add: cod id)
  have rs: "promo_redemptions (return_slot i ?d) = promo_redemptions ?d"
    "promo_codes (return_slot i ?d) = update_where (\<lambda>p. pc_id p = i) (\<lambda>p. p\<lparr>pc_redeemed := max (pc_redeemed p - 1) 0\<rparr>) (promo_codes d')"
    by (simp_all add: return_slot_def cod)
  have "map pc_id (promo_codes (return_slot i ?d)) = map pc_id (promo_codes d)"
    by (simp add: rs update_where_def id [symmetric])
  moreover from this have "codes_known (return_slot i ?d)"
    using ok by - (rule codes_known_mono [OF _ fewer_code_ids, of d], simp_all add: promo_ok_def rs(1) red nxt)
  moreover have "uses (return_slot i ?d) = uses d" by (simp add: uses_def fun_eq_iff rs red)
  moreover have "int (uses d (pc_id q)) \<le> pc_redeemed q \<and> within_cap q"
    if q: "q \<in> set (promo_codes (return_slot i ?d))" for q
  proof -
    obtain p' where "p' \<in> set (promo_codes d')"
      and "q = (if pc_id p' = i then p'\<lparr>pc_redeemed := max (pc_redeemed p' - 1) 0\<rparr> else p')"
      using q by (auto simp: rs set_update_where)
    with bound [of p'] show ?thesis by (auto simp: within_cap_def split: option.splits if_splits)
  qed
  ultimately show "promo_ok (return_slot i ?d)"
    using ok sorted by (simp add: promo_ok_def rs)
qed

lemma release_spec:
  assumes "promo_ok d" and "claimed d i au g e d'" and "promo_tables (db w) = promo_tables d'"
  shows "wp (releaseRedemption i (au_email au))
     (\<lambda>r w'. r = Inr () \<and> promo_ok (db w') \<and> accounts (db w') = accounts (db w) \<and> tenants (db w') = tenants (db w)) w"
proof -
  have "promo_ok (db w)" using claimed_ok [OF assms(1,2)] assms(3) promo_ok_cong by blast
  then show ?thesis
    using dropped_ok [OF assms]
    by (auto simp: releaseRedemption_def drop_redemption_def return_slot_def)
qed

section \<open>Redeeming\<close>

text \<open>What a successful answer has done.\<close>

definition redeemed_as :: "database \<Rightarrow> auth \<Rightarrow> redemption \<Rightarrow> database \<Rightarrow> bool" where
  "redeemed_as d au x d' \<longleftrightarrow>
     (\<exists>p r. pc_active p \<and> p \<in> set (promo_codes d) \<and> redeemed_by (pc_id p) (au_email au) r
        \<and> promo_redemptions d' = promo_redemptions d @ [r] \<and> uses d' (pc_id p) = Suc (uses d (pc_id p))
        \<and> (case x of
              FreePlanGranted plan \<Rightarrow>
                pc_type p = FreePlan \<and> pc_grant p = Some plan
                \<and> b_plan (account_of d' (au_email au)) = plan
                \<and> b_status (account_of d' (au_email au)) = Some ''comped''
                \<and> Ball (owned_workspaces d' (au_email au)) (mirrors (account_of d' (au_email au)))
            | PercentOffGranted percent plan disc \<Rightarrow>
                pc_type p = PercentOff \<and> pc_percent p = percent \<and> pc_applies_to p = plan
                \<and> accounts d' = accounts d \<and> tenants d' = tenants d))"

definition promo_post :: "database \<Rightarrow> auth \<Rightarrow> exn + redemption outcome \<Rightarrow> database \<Rightarrow> bool" where
  "promo_post d au r d' \<longleftrightarrow>
     promo_ok d'
     \<and> (case r of Inr (Resolve c k x) \<Rightarrow> redeemed_as d au x d'
        | _ \<Rightarrow> accounts d' = accounts d \<and> tenants d' = tenants d)"

lemma promo_post_refusal [simp]:
  "promo_ok d \<Longrightarrow> promo_post d au (Inr (Reject c k)) d" "promo_ok d \<Longrightarrow> promo_post d au (Inl e) d"
  by (simp_all add: promo_post_def)

lemma promo_named_in: "promo_named code d = Some p \<Longrightarrow> p \<in> set (promo_codes d) \<and> pc_active p"
  by (auto simp: promo_named_def find_Some_iff)

lemma comp_fields_set:
  "b_plan (set_fields (comp_fields plan e) b) = plan" "b_status (set_fields (comp_fields plan e) b) = Some ''comped''"
  by (simp_all add: comp_fields_def)

lemma comp_account_spec:
  "wp (comp_account email g e)
     (\<lambda>r w'. promo_tables (db w') = promo_tables (db w)
        \<and> (case r of
              Inl x \<Rightarrow> accounts (db w') = accounts (db w) \<and> tenants (db w') = tenants (db w)
            | Inr _ \<Rightarrow> \<exists>plan. g = Some plan \<and> b_plan (account_of (db w') email) = plan
                \<and> b_status (account_of (db w') email) = Some ''comped''
                \<and> Ball (owned_workspaces (db w') email) (mirrors (account_of (db w') email)))) w"
proof -
  have c: "wp (cancelActiveSubscription email) (\<lambda>r w'. db w' = db w) w"
    using preserves_wp [OF cancelActive_keeps(1), of "\<lambda>d. d = db w" w email] by simp
  have "wp (setAccountPlan email (comp_fields pl e))
      (\<lambda>r w'. promo_tables (db w') = promo_tables (db w)
         \<and> (case r of
              Inl x \<Rightarrow> accounts (db w') = accounts (db w) \<and> tenants (db w') = tenants (db w)
            | Inr _ \<Rightarrow> \<exists>plan. Some pl = Some plan \<and> b_plan (account_of (db w') email) = plan
                \<and> b_status (account_of (db w') email) = Some ''comped''
                \<and> Ball (owned_workspaces (db w') email) (mirrors (account_of (db w') email)))) w1"
    if "db w1 = db w" for w1 pl
  proof (cases "email = []")
    case True
    then show ?thesis using that by (simp add: setAccountPlan_def)
  next
    case False
    show ?thesis
      by (rule wp_mono [OF setAccountPlan_spec [OF False]])
         (auto simp: that promo_tables_plan account_of_plan_db comp_fields_set plan_db_mirrors
           split: sum.splits)
  qed
  then show ?thesis
    unfolding comp_account_def by (intro wp_seq [OF c]) (auto split: option.splits)
qed

lemma claimed_row:
  assumes "claimed d i au g e d'"
  obtains r where "redeemed_by i (au_email au) r" "promo_redemptions d' = promo_redemptions d @ [r]"
    "uses d' i = Suc (uses d i)"
proof -
  obtain r where "rd_code r = i" "rd_email r = Some (au_email au)" "promo_redemptions d' = promo_redemptions d @ [r]"
    using assms by (auto simp: claimed_def)
  with claimed_uses [OF assms, of i] show ?thesis by (intro that [of r]) (simp_all add: redeemed_by_def sql_eq_refl)
qed

lemma grant_percent_spec:
  assumes "promo_ok (db w)" and "p \<in> set (promo_codes (db w))" "pc_active p" "pc_type p = PercentOff"
  shows "wp (grant_percent p au) (\<lambda>r w'. promo_post (db w) au r (db w')) w"
proof -
  have "promo_post (db w) au (Inr (Resolve OK k (PercentOffGranted (pc_percent p) (pc_applies_to p) x))) d'"
    if cl: "claimed (db w) (pc_id p) au None None d'" for k x d'
  proof -
    have "accounts d' = accounts (db w)" "tenants d' = tenants (db w)" using cl by (auto simp: claimed_def)
    moreover obtain r where "redeemed_by (pc_id p) (au_email au) r"
      "promo_redemptions d' = promo_redemptions (db w) @ [r]" "uses d' (pc_id p) = Suc (uses (db w) (pc_id p))"
      using claimed_row [OF cl] by metis
    ultimately show ?thesis
      using assms claimed_ok [OF assms(1) cl] by (auto simp: promo_post_def redeemed_as_def)
  qed
  then show ?thesis
    using assms(1) unfolding grant_percent_def
    by (intro wp_seq [OF claim_spec]) (auto split: option.splits if_splits)
qed

lemma grant_free_spec:
  assumes "promo_ok (db w)" and "p \<in> set (promo_codes (db w))" "pc_active p" "pc_type p = FreePlan"
  shows "wp (grant_free_plan p au) (\<lambda>r w'. promo_post (db w) au r (db w')) w"
proof -
  have step: "wp (bnd (catch (comp_account (au_email au) (pc_grant p) e)
                  (\<lambda>x. bnd (releaseRedemption (pc_id p) (au_email au)) (\<lambda>_. raise x))) (\<lambda>_.
             ret (Resolve OK ''promo_code_redeemed'' (FreePlanGranted (case pc_grant p of None \<Rightarrow> [] | Some s \<Rightarrow> s)))))
          (\<lambda>r w'. promo_post (db w) au r (db w')) w1"
    if cl: "claimed (db w) (pc_id p) au (pc_grant p) e (db w1)" for e w1
  proof -
    obtain row where row: "redeemed_by (pc_id p) (au_email au) row" "uses (db w1) (pc_id p) = Suc (uses (db w) (pc_id p))"
      "promo_redemptions (db w1) = promo_redemptions (db w) @ [row]"
      using claimed_row [OF cl] by metis
    have same: "accounts (db w1) = accounts (db w)" "tenants (db w1) = tenants (db w)" "promo_ok (db w1)"
      using cl claimed_ok [OF assms(1) cl] by (auto simp: claimed_def)
    have release: "wp (bnd (releaseRedemption (pc_id p) (au_email au)) (\<lambda>_. raise x)) 
        (\<lambda>r w'. r = Inl x \<and> promo_post (db w) au (Inl x) (db w')) w2"
      if "promo_tables (db w2) = promo_tables (db w1)" "accounts (db w2) = accounts (db w1)"
        "tenants (db w2) = tenants (db w1)" for x :: exn and w2
      by (intro wp_seq [OF release_spec [OF assms(1) cl that(1)]]) (auto simp: promo_post_def that same)
    have tables: "promo_redemptions (db w2) = promo_redemptions (db w1) \<and> promo_ok (db w2) \<and> uses (db w2) = uses (db w1)"
      if "promo_tables (db w2) = promo_tables (db w1)" for w2
      using that same(3) promo_ok_cong [OF that] by (simp add: promo_tables_def uses_def fun_eq_iff)
    show ?thesis
      unfolding wp_bnd [of "catch m h" for m h] wp_catch
    proof (rule wp_mono [OF comp_account_spec], goal_cases)
      case (1 r w2)
      then show ?case
      proof (cases r)
        case (Inl a)
        then show ?thesis
          using 1 release [of w2 a] by (auto simp del: wp_bnd intro: wp_mono)
      next
        case (Inr a)
        then show ?thesis
          using 1 tables [of w2] row assms(2-4) by (auto simp: promo_post_def redeemed_as_def)
      qed
    qed
  qed
  show ?thesis
    using assms(1) step unfolding grant_free_plan_def
    unfolding wp_bnd [of "asks f" for f] wp_asks
    by (auto intro!: wp_seq [OF claim_spec] split: option.splits if_splits simp del: wp_bnd wp_catch)
qed

lemma redeem_spec:
  assumes "promo_ok (db w)"
  shows "wp (redeemPromo code au) (\<lambda>r w'. promo_post (db w) au r (db w')) w"
proof -
  have free: "promo_named c (db w) = Some p \<Longrightarrow> pc_type p = FreePlan \<Longrightarrow>
      wp (grant_free_plan p au) (\<lambda>r w'. promo_post (db w) au r (db w')) (w\<lparr>qn := n\<rparr>)" for c p n
    using grant_free_spec [of "w\<lparr>qn := n\<rparr>" p au] assms promo_named_in by simp
  have type: "pc_type p \<noteq> FreePlan \<longleftrightarrow> pc_type p = PercentOff" for p by (cases "pc_type p") simp_all
  have percent: "promo_named c (db w) = Some p \<Longrightarrow> pc_type p \<noteq> FreePlan \<Longrightarrow>
      wp (grant_percent p au) (\<lambda>r w'. promo_post (db w) au r (db w')) (w\<lparr>qn := n\<rparr>)" for c p n
    unfolding type using grant_percent_spec [of "w\<lparr>qn := n\<rparr>" p au] assms promo_named_in by simp
  have "promo_post (db w) au (Inl e) d' \<Longrightarrow> promo_post (db w) au (Inr (Reject c k)) d'" for e c k d'
    by (simp add: promo_post_def)
  then show ?thesis
    using assms unfolding redeemPromo_def Let_def
    by (auto intro: wp_mono [OF free] wp_mono [OF percent] split: option.splits sum.splits)
qed

section \<open>Rows that go\<close>

lemma delete_tenants_promo:
  assumes "delete_tenants gone d = Inr (x, d')"
  shows "promo_codes d' = promo_codes d
     \<and> promo_redemptions d' = filter (\<lambda>r. rd_tenant r \<notin> set gone) (promo_redemptions d)
     \<and> next_id ''promo_codes'' d' = next_id ''promo_codes'' d"
proof -
  have cleared: "promo_codes (clear_workspaces gone d) = promo_codes d"
    "promo_redemptions (clear_workspaces gone d) = filter (\<lambda>r. rd_tenant r \<notin> set gone) (promo_redemptions d)"
    "next_id ''promo_codes'' (clear_workspaces gone d) = next_id ''promo_codes'' d"
    by (simp_all add: next_id_def clear_workspaces_def delete_posts_def delete_comments_def delete_columns_def delete_tags_def Let_def)
  have users: "promo_codes e' = promo_codes e \<and> promo_redemptions e' = promo_redemptions e
      \<and> next_id ''promo_codes'' e' = next_id ''promo_codes'' e"
    if "delete_users P e = Inr (x, e')" for P e e'
    using that by (auto simp: next_id_def delete_users_def unlink_users_def delete_comments_def Let_def split: if_splits)
  from users [OF assms [unfolded delete_tenants_def]] show ?thesis by (simp add: cleared)
qed

lemma fewer_redemptions_ok:
  assumes ok: "promo_ok d" and "promo_codes d' = promo_codes d"
    and "promo_redemptions d' = filter P (promo_redemptions d)"
    and "next_id ''promo_codes'' d' = next_id ''promo_codes'' d"
  shows "promo_ok d'"
proof -
  have "codes_known d'" using ok by - (rule codes_known_mono [OF _ fewer_code_ids, of d], auto simp: promo_ok_def assms(2-4))
  have "uses d' i \<le> uses d i" for i
    unfolding uses_def assms(3) by (rule length_filter_filter_le)
  then have "int (uses d' i) \<le> z" if "int (uses d i) \<le> z" for i z
    using that order_trans [of "int (uses d' i)" "int (uses d i)"] by simp
  with \<open>codes_known d'\<close> show ?thesis
    using ok by (auto simp: promo_ok_def assms(2,3) sorted_wrt_filter)
qed

section \<open>The admin's codes\<close>

lemma fits_cap: "promo_fits p \<Longrightarrow> pc_redeemed p = 0 \<Longrightarrow> within_cap p"
  by (auto simp: promo_fits_def within_cap_def split: option.splits)

lemma insert_promo_ok:
  assumes ok: "promo_ok d" and new: "insert_promo p d = Inr (i, d')" and "pc_redeemed p = 0"
  shows "promo_ok d'"
proof -
  let ?p = "p\<lparr>pc_id := next_id ''promo_codes'' d, pc_created := clock d\<rparr>"
  have d': "d' = (bump_id ''promo_codes'' d)\<lparr>promo_codes := promo_codes d @ [?p]\<rparr>" and fits: "promo_fits p"
    using new by (auto simp: insert_promo_def Let_def split: if_splits)
  have known: "\<forall>j \<in> code_ids d. j < next_id ''promo_codes'' d" using ok by (simp add: promo_ok_def codes_known_def)
  then have fresh: "next_id ''promo_codes'' d \<notin> pc_id ` set (promo_codes d)"
    and unused: "uses d (next_id ''promo_codes'' d) = 0"
    by (force simp: code_ids_def uses_def filter_empty_conv)+
  have "within_cap ?p" using fits_cap [OF fits assms(3)] by (simp add: within_cap_def split: option.splits)
  moreover have "codes_known d'"
    using known by (auto simp: codes_known_def code_ids_def d' bump_id_def next_id_def less_Suc_eq)
  moreover have "uses d' = uses d" by (simp add: fun_eq_iff uses_def d' bump_id_def)
  ultimately show ?thesis
    using ok fresh unused assms(3) by (auto simp: promo_ok_def d' bump_id_def)
qed

lemma create_keeps: "preserves promo_ok (createPromoCode inp admin)"
proof -
  have save: "preserves promo_ok (save_promo p)" if "pc_redeemed p = 0" for p
    unfolding save_promo_def using insert_promo_ok [OF _ _ that] by (intro keeps preserves_sql) auto
  show ?thesis
    unfolding createPromoCode_def create_percent_def create_free_def back_promo_def createPaddlePromoDiscount_def
      paddle_discount_def Let_def
    by (intro keeps save) (simp_all add: new_promo_def)
qed

lemma retire_keeps: "preserves P (retire_promo p)"
  unfolding retire_promo_def archivePaddleDiscount_def by (intro keeps)

lemma clear_usage_ok: "promo_ok d \<Longrightarrow> promo_ok (clear_usage i d)"
  by (rule fewer_redemptions_ok) (simp_all add: clear_usage_def next_id_def)

lemma drop_promo_ok:
  assumes "promo_ok d"
  shows "promo_ok (drop_promo i d)"
proof -
  have ok: "promo_ok (clear_usage i d)" using assms by (rule clear_usage_ok)
  have "code_ids (drop_promo i d) \<subseteq> code_ids (clear_usage i d)"
    by (auto simp: code_ids_def drop_promo_def clear_usage_def)
  then have "codes_known (drop_promo i d)"
    using ok by - (rule codes_known_mono [of "clear_usage i d"], simp_all add: promo_ok_def drop_promo_def next_id_def)
  moreover have "uses (drop_promo i d) = uses (clear_usage i d)" by (simp add: fun_eq_iff uses_def drop_promo_def)
  moreover have "distinct (map pc_id (filter (\<lambda>p. pc_id p \<noteq> i) (promo_codes d)))"
    using assms by (simp add: promo_ok_def distinct_map_filter)
  ultimately show ?thesis
    using ok by (auto simp: promo_ok_def drop_promo_def) (simp_all add: clear_usage_def)
qed

lemma same_ids_ok:
  assumes ok: "promo_ok d" and id: "\<And>q. pc_id (f q) = pc_id q"
    and "\<And>q. q \<in> set (promo_codes d) \<Longrightarrow> P q \<Longrightarrow> int (uses d (pc_id q)) \<le> pc_redeemed (f q) \<and> within_cap (f q)"
  shows "promo_ok (d\<lparr>promo_codes := update_where P f (promo_codes d)\<rparr>)"
proof -
  let ?d = "d\<lparr>promo_codes := update_where P f (promo_codes d)\<rparr>"
  have ids: "map pc_id (update_where P f (promo_codes d)) = map pc_id (promo_codes d)"
    by (rule map_update_where_same) (rule id)
  have "codes_known ?d"
    using ok by - (rule codes_known_mono [OF _ fewer_code_ids, of d], simp_all add: promo_ok_def ids next_id_def)
  moreover have "int (uses d (pc_id q)) \<le> pc_redeemed q \<and> within_cap q" if "q \<in> set (promo_codes ?d)" for q
    using that ok assms(3) id by (auto simp: set_update_where promo_ok_def split: if_splits)
  ultimately show ?thesis using ok ids by (simp add: promo_ok_def)
qed

lemma revoke_keeps: "preserves promo_ok (revokePromoCode i)" "preserves promo_ok (deletePromoCode i)"
proof -
  have "preserves promo_ok (run (drop_promo i))"
    unfolding run_def by (intro preserves_execute) (simp add: drop_promo_ok)
  then show "preserves promo_ok (deletePromoCode i)"
    unfolding deletePromoCode_def by (intro keeps retire_keeps)
  have "promo_ok (d\<lparr>promo_codes := update_where (\<lambda>q. pc_id q = i) (\<lambda>q. q\<lparr>pc_active := False\<rparr>) (promo_codes d)\<rparr>)"
    if "promo_ok d" for d
    using that by (intro same_ids_ok) (auto simp: promo_ok_def within_cap_def split: option.splits)
  then have "preserves promo_ok (run (\<lambda>d. d\<lparr>promo_codes := update_where (\<lambda>q. pc_id q = i) (\<lambda>q. q\<lparr>pc_active := False\<rparr>) (promo_codes d)\<rparr>))"
    unfolding run_def by (intro preserves_execute) simp
  then show "preserves promo_ok (revokePromoCode i)"
    unfolding revokePromoCode_def by (intro keeps retire_keeps)
qed

text \<open>A reactivation that keeps the history does not put the cap below the uses.\<close>

definition leaves_room :: "promo_terms \<Rightarrow> nat \<Rightarrow> database \<Rightarrow> bool" where
  "leaves_room t i d \<longleftrightarrow>
     pt_reset t
     \<or> (case pt_max t of
           Given m \<Rightarrow> list_all (\<lambda>q. pc_id q = i \<longrightarrow> pc_redeemed q \<le> max 1 m) (promo_codes d) | _ \<Rightarrow> True)"

lemma restart_ok:
  assumes ok: "promo_ok (db w)"
    and room: "\<And>q. q \<in> set (promo_codes (db w)) \<Longrightarrow> pc_id q = pc_id new \<Longrightarrow> \<not> pt_reset t \<Longrightarrow>
                 within_cap (q\<lparr>pc_max := pc_max new\<rparr>)"
  shows "wp (restart_promo t admin new) (\<lambda>r w'. promo_ok (db w')) w"
proof -
  let ?d = "if pt_reset t then clear_usage (pc_id new) (db w) else db w"
  have ok': "promo_ok ?d" using ok clear_usage_ok by simp
  have none: "uses (clear_usage i d) i = 0" for i d by (simp add: uses_def clear_usage_def)
  have "within_cap (revive t admin new q)" if "q \<in> set (promo_codes ?d)" "pc_id q = pc_id new" "promo_fits new" for q
    using that room fits_cap [of "new\<lparr>pc_redeemed := 0\<rparr>"]
    by (auto simp: within_cap_def revive_def promo_fits_def split: option.splits if_splits)
  moreover have "int (uses ?d (pc_id q)) \<le> pc_redeemed (revive t admin new q)"
    if "q \<in> set (promo_codes ?d)" "pc_id q = pc_id new" for q
    using that ok' none by (auto simp: promo_ok_def revive_def split: if_splits)
  ultimately have "promo_fits new \<Longrightarrow>
      promo_ok (?d\<lparr>promo_codes := update_where (\<lambda>q. pc_id q = pc_id new) (revive t admin new) (promo_codes ?d)\<rparr>)"
    using ok' by (intro same_ids_ok) (simp_all add: revive_def)
  then show ?thesis
    using ok ok' by (auto simp: restart_promo_def run_def Let_def)
qed

lemma back_promo_db: "wp (back_promo code percent duration months limit expires applies) (\<lambda>r w'. db w' = db w) w"
proof -
  have "preserves (\<lambda>d. d = db w) (back_promo code percent duration months limit expires applies)"
    unfolding back_promo_def createPaddlePromoDiscount_def paddle_discount_def Let_def by (intro keeps)
  then show ?thesis using preserves_wp [where P = "\<lambda>d. d = db w"] by blast
qed

lemma reactivate_ok:
  assumes ok: "promo_ok (db w)" and room: "leaves_room t i (db w)"
  shows "wp (reactivatePromoCode i t admin) (\<lambda>r w'. promo_ok (db w')) w"
proof -
  have cap: "within_cap (q\<lparr>pc_max := pc_max new\<rparr>)"
    if "q \<in> set (promo_codes (db w))" "pc_id q = i" "\<not> pt_reset t" "promo_by_id i (db w) = Some p"
      "pc_max new = pc_max (amended t p)" for q p new
  proof -
    have "p \<in> set (promo_codes (db w))" "pc_id p = i" using findD [of _ "promo_codes (db w)" p] that(4) by (auto simp: promo_by_id_def)
    then have "q = p" using that(1,2) ok by (auto simp: promo_ok_def distinct_map inj_on_def)
    then show ?thesis
      using that ok room
      by (auto simp: leaves_room_def amended_def amend_def Let_def list_all_iff within_cap_def promo_ok_def
          split: field.splits option.splits)
  qed
  have restart: "wp (restart_promo t admin new) (\<lambda>r w'. promo_ok (db w')) w1"
    if "promo_by_id i (db w) = Some p" "pc_id new = pc_id p" "pc_max new = pc_max (amended t p)" "db w1 = db w" for p new w1
  proof (rule restart_ok)
    show "promo_ok (db w1)" using ok that(4) by simp
    have "pc_id p = i" using that(1) findD [of _ "promo_codes (db w)" p] by (auto simp: promo_by_id_def)
    then show "within_cap (q\<lparr>pc_max := pc_max new\<rparr>)"
      if "q \<in> set (promo_codes (db w1))" "pc_id q = pc_id new" "\<not> pt_reset t" for q
      using that \<open>db w1 = db w\<close> \<open>pc_id new = pc_id p\<close> \<open>pc_max new = _\<close> 
        cap [OF _ _ _ \<open>promo_by_id i (db w) = Some p\<close> \<open>pc_max new = _\<close>] by simp
  qed
  have id: "pc_id (amended t p) = pc_id p" for p by (simp add: amended_def Let_def)
  have free: "wp (reactivate_free t admin p) (\<lambda>r w'. promo_ok (db w')) w1"
    if p: "promo_by_id i (db w) = Some p" and w1: "db w1 = db w" for p w1
    using ok w1 unfolding reactivate_free_def by (auto intro!: restart [OF p] simp: id split: option.splits)
  have percent: "wp (reactivate_percent t admin p) (\<lambda>r w'. promo_ok (db w')) w1"
    if p: "promo_by_id i (db w) = Some p" and w1: "db w1 = db w" for p w1
    using ok w1 unfolding reactivate_percent_def Let_def
    by (auto intro!: wp_seq [OF back_promo_db] restart [OF p] simp: id split: option.splits simp del: wp_bnd)
  show ?thesis
    using ok unfolding reactivatePromoCode_def
    by (auto intro!: wp_mono [OF free] wp_mono [OF percent] split: option.splits sum.splits)
qed

section \<open>Caps\<close>

text \<open>
  A step: anybody redeems, an admin makes, revokes, reactivates or deletes a code, a workspace
  is deleted with the redemptions made from it, or something happens that does not touch the
  promo tables.
\<close>

inductive promo_step :: "world \<Rightarrow> world \<Rightarrow> bool" where
  redeem: "promo_step w (snd (redeemPromo code au w))"
| create: "promo_step w (snd (createPromoCode inp admin w))"
| revoke: "promo_step w (snd (revokePromoCode i w))"
| reactivate: "leaves_room t i (db w) \<Longrightarrow> promo_step w (snd (reactivatePromoCode i t admin w))"
| delete: "promo_step w (snd (deletePromoCode i w))"
| workspace_gone: "promo_step w (snd (deleteWorkspace i w))"
| unrelated: "promo_tables (db w') = promo_tables (db w) \<Longrightarrow> promo_step w w'"

inductive_cases promo_stepE: "promo_step w w'"

lemma workspace_gone_keeps: "preserves promo_ok (deleteWorkspace i)"
proof -
  have "preserves promo_ok (sql (drop_tenant i))"
    by (rule preserves_sql)
       (auto simp: drop_tenant_def dest!: delete_tenants_promo intro: fewer_redemptions_ok split: sum.splits)
  then show ?thesis unfolding deleteWorkspace_def by (intro keeps)
qed

lemma promo_step_ok: "promo_step w w' \<Longrightarrow> promo_ok (db w) \<Longrightarrow> promo_ok (db w')"
proof (erule promo_stepE, goal_cases)
  case (1 code au)
  then show ?case using redeem_spec [of w code au] by (simp add: wp_iff promo_post_def)
next
  case (4 t i admin)
  then show ?case using reactivate_ok [of w t i admin] by (simp add: wp_iff)
next
  case 7
  then show ?case using promo_ok_cong by blast
qed (auto intro: preservesD create_keeps revoke_keeps workspace_gone_keeps)

lemma promo_run_ok: "promo_step\<^sup>*\<^sup>* w w' \<Longrightarrow> promo_ok (db w) \<Longrightarrow> promo_ok (db w')"
  by (induction rule: rtranclp_induct) (auto intro: promo_step_ok)


definition demo_code :: promo_code where
  "demo_code =
     \<lparr>pc_id = 1, pc_code = js ''SAVE'', pc_type = PercentOff, pc_applies_to = Some ''any'', pc_percent = Some 20,
      pc_grant = None, pc_duration = Once, pc_months = None, pc_stripe_coupon = None, pc_stripe_promo = None,
      pc_paddle_discount = Some ''dsc_1'', pc_max = Some 5, pc_redeemed = 1, pc_expires = None, pc_active = True,
      pc_created_by = None, pc_created = 0\<rparr>"

definition demo_redemption :: promo_redemption where
  "demo_redemption =
     \<lparr>rd_id = 1, rd_code = 1, rd_tenant = 3, rd_user = Some 4, rd_email = Some (js ''a@x.io''), rd_plan = None,
      rd_expires = None\<rparr>"

text \<open>The owner of workspace 1 has a second workspace and redeemed the code there.\<close>

definition promo_db :: database where
  "promo_db = demo_db\<lparr>tenants := tenants demo_db @ [demo_tenant 3 ''gamma'' ''business''],
     users := users demo_db @ [demo_user 4 3 ''a@x.io'' Owner],
     promo_codes := [demo_code], promo_redemptions := [demo_redemption]\<rparr>"

lemma promo_db_ok: "promo_ok promo_db"
  by (simp add: promo_ok_def promo_db_def uses_def within_cap_def demo_code_def demo_redemption_def codes_known_def code_ids_def
      next_id_def demo_db_def)

definition other_owner :: auth where
  "other_owner = \<lparr>au_id = 2, au_tenant = Some 2, au_role = Owner, au_email = js ''b@x.io'', au_sid = None\<rparr>"

lemma SAVE_code: "js_upper (js_trim (js ''save'')) = js ''SAVE''"
  by (simp add: js_trim_def js_upper_def js_space_def upper_unit_def)

lemma SAVE_named: "promo_named (js ''SAVE'') promo_db = Some demo_code"
  by (simp add: promo_named_def promo_db_def demo_code_def sql_eq_refl del: js_Cons)

lemma other_redeems:
  "promo_codes (db (snd (redeemPromo (Some (js ''save'')) other_owner (demo_world promo_db)))) =
     [demo_code\<lparr>pc_redeemed := 2\<rparr>]"
proof -
  have new: "\<not> redeemed_by 1 (js ''b@x.io'') demo_redemption"
    by (simp add: redeemed_by_def demo_redemption_def sql_eq_def js_lower_def lower_unit_def)
  have tables: "promo_redemptions promo_db = [demo_redemption]" "promo_codes promo_db = [demo_code]"
    "has_tenant promo_db 2" "clock promo_db = 1000000000"
    "list_ex (\<lambda>t. t_id t = 2) (tenants promo_db)"
    by (simp_all add: promo_db_def demo_defs has_tenant_def)
  have ok: "\<not> fault demo_services n" for n by (simp add: demo_services_def)
  have "wp (redeemPromo (Some (js ''save'')) other_owner)
          (\<lambda>r w'. promo_codes (db w') = [demo_code\<lparr>pc_redeemed := 2\<rparr>]) (demo_world promo_db)"
    using new
    by (simp add: redeemPromo_def SAVE_code SAVE_named other_owner_def promo_exhausted_def grant_percent_def
        claimRedemption_def take_slot_def slot_free_def insert_redemption_def tables has_tenant_def demo_code_def
        ok bump_id_def del: js_Cons)
  then show ?thesis by (simp add: wp_iff)
qed

lemma code_id: "pc_id demo_code = 1" by (simp add: demo_code_def)


text \<open>
  C30: A redemption is all or nothing: a success has recorded one new use for the account and,
  for a free plan, has put the account and every workspace it owns on that plan as a comp; any
  other answer, whatever failed, has left every account and every workspace as it was.
\<close>

theorem redemption_all_or_nothing:
  assumes "promo_ok (db w)"
  shows "wp (redeemPromo code au)
     (\<lambda>r w'. case r of
        Inr (Resolve c k x) \<Rightarrow> redeemed_as (db w) au x (db w')
      | _ \<Rightarrow> accounts (db w') = accounts (db w) \<and> tenants (db w') = tenants (db w)) w"
  by (rule wp_mono [OF redeem_spec [OF assms]]) (auto simp: promo_post_def split: sum.splits outcome.splits)

lemma redemption_all_or_nothing_witness:
  "wp (redeemPromo (Some (js ''save'')) demo_owner)
     (\<lambda>r w'. case r of
        Inr (Resolve c k x) \<Rightarrow> redeemed_as promo_db demo_owner x (db w')
      | _ \<Rightarrow> accounts (db w') = accounts promo_db \<and> tenants (db w') = tenants promo_db) (demo_world promo_db)"
  using redemption_all_or_nothing [of "demo_world promo_db"] promo_db_ok by (simp only: demo_world_simps)

section \<open>A way around the once-per-account rule\<close>

text \<open>
  Deleting the workspace it was redeemed from makes a code redeemable again by the same
  account: a redemption is stored under its workspace and goes with it.  Before the deletion
  the account is refused as one that has redeemed already; right after it, it is given the
  discount a second time.
\<close>

theorem redeemed_again:
  assumes "healthy w" and "promo_named (js_upper (js_trim (or_empty code))) (db w) = Some p"
    and "js_upper (js_trim (or_empty code)) \<noteq> []"
    and "pc_type p = PercentOff" "pc_expires p = None" "\<not> promo_exhausted p" "within_cap (p\<lparr>pc_redeemed := pc_redeemed p + 1\<rparr>)"
    and "au_role au = Owner" "au_tenant au = Some t'" "t' \<noteq> t"
    and "list_ex (redeemed_by (pc_id p) (au_email au)) (promo_redemptions (db w))"
    and "\<forall>r \<in> set (promo_redemptions (db w)). redeemed_by (pc_id p) (au_email au) r \<longrightarrow> rd_tenant r = t"
    and "delete_tenants [t] (db w) = Inr (x, d')" "has_tenant d' t'" "\<exists>y \<in> set (tenants (db w)). t_id y = t"
  shows "wp (redeemPromo code au) (\<lambda>r w'. r = Inr (Reject BAD_REQUEST ''promo_already_redeemed'')) w
    \<and> wp (bnd (deleteWorkspace t) (\<lambda>_. redeemPromo code au))
        (\<lambda>r w'. \<exists>y. r = Inr (Resolve OK ''promo_code_valid'' y)) w"
proof -
  have d': "promo_codes d' = promo_codes (db w)"
    "promo_redemptions d' = filter (\<lambda>r. rd_tenant r \<notin> set [t]) (promo_redemptions (db w))"
    using delete_tenants_promo [OF assms(13)] by simp_all
  have p: "p \<in> set (promo_codes (db w)) \<and> pc_active p" using assms(2) by (rule promo_named_in)
  have none: "\<not> list_ex (redeemed_by (pc_id p) (au_email au)) (promo_redemptions d')"
    using assms(12) by (auto simp: d' list_ex_iff)
  have named: "promo_named (js_upper (js_trim (or_empty code))) d' = Some p" using assms(2) by (simp add: promo_named_def d')
  have slot: "slot_free (clock d') (pc_id p) p"
    using p assms(5,7) by (auto simp: slot_free_def within_cap_def split: option.splits)
  have known: "list_ex (\<lambda>q. pc_id q = pc_id p) (promo_codes d')" using p by (auto simp: d' list_ex_iff)
  have slots: "filter (slot_free (clock d') (pc_id p)) (promo_codes d') \<noteq> []"
    using slot p by (auto simp: filter_empty_conv d')
  have "drop_tenant t (db w) = Inr (length (filter (\<lambda>y. t_id y = t) (tenants (db w))), d')"
    by (simp add: drop_tenant_def assms(13))
  moreover have "filter (\<lambda>y. t_id y = t) (tenants (db w)) \<noteq> []" using assms(15) by (auto simp: filter_empty_conv)
  moreover have ids: "list_ex (\<lambda>q. pc_id q = i) qs \<longleftrightarrow> i \<in> set (map pc_id qs)" for i qs by (auto simp: list_ex_iff)
  have "list_ex (\<lambda>q. pc_id q = pc_id p) (update_where (slot_free (clock d') (pc_id p)) (\<lambda>q. q\<lparr>pc_redeemed := pc_redeemed q + 1\<rparr>) (promo_codes d'))"
    using known unfolding ids by (subst map_update_where_same) simp_all
  ultimately show ?thesis
    using assms(1-11) assms(14) none named slots
    by (simp add: redeemPromo_def deleteWorkspace_def grant_percent_def claimRedemption_def take_slot_def
        insert_redemption_def has_tenant_def)
qed

lemma redeemed_again_witness:
  "wp (redeemPromo (Some (js ''save'')) demo_owner)
       (\<lambda>r w'. r = Inr (Reject BAD_REQUEST ''promo_already_redeemed'')) (demo_world promo_db)
    \<and> wp (bnd (deleteWorkspace 3) (\<lambda>_. redeemPromo (Some (js ''save'')) demo_owner))
         (\<lambda>r w'. \<exists>y. r = Inr (Resolve OK ''promo_code_valid'' y)) (demo_world promo_db)"
proof -
  have gone: "\<exists>x d'. delete_tenants [3] promo_db = Inr (x, d') \<and> has_tenant d' 1"
    by (simp add: delete_tenants_def delete_users_def clear_workspaces_def restricts_def Let_def has_tenant_def
        delete_posts_def delete_comments_def delete_columns_def delete_tags_def unlink_users_def promo_db_def demo_defs)
  then obtain x d' where g: "delete_tenants [3] promo_db = Inr (x, d')" "has_tenant d' 1" by blast
  have tables: "promo_redemptions promo_db = [demo_redemption]" "\<exists>y \<in> set (tenants promo_db). t_id y = 3"
    by (simp_all add: promo_db_def demo_tenant_def)
  show ?thesis
    by (rule redeemed_again [where w = "demo_world promo_db" and p = demo_code and t = 3 and t' = 1 and x = x
          and d' = d', unfolded demo_world_simps])
       (simp_all add: SAVE_code SAVE_named [unfolded demo_code_def] g(1) g(2) [simplified] tables demo_owner_def demo_code_def promo_exhausted_def within_cap_def
          demo_redemption_def redeemed_by_def sql_eq_refl del: js_Cons)
qed

end
