(* ===== verification/Promo_Admin_Facts.thy ===== *)
theory Promo_Admin_Facts
  imports Promo_Facts
begin

text \<open>
  What making and revoking codes and offers guarantees: a code never discounts below what the
  provider can charge, a revoked code is dead, and a plan has at most one running offer.
\<close>

section \<open>The smallest charge\<close>

lemma scopes: "lowestApplicablePrice ''any'' = Some 10" "lowestApplicablePrice ''pro'' = Some 10"
  "lowestApplicablePrice ''business'' = Some 15"
  by code_simp+

definition code_scopes :: "string list" where "code_scopes = [''any'', ''pro'', ''business'']"

lemma one_of_in: "one_of xs s = Some x \<Longrightarrow> x \<in> set xs"
  by (auto simp: one_of_def split: option.splits if_splits)

lemma boundary:
  assumes "a \<in> set code_scopes"
  shows "belowMinimumCharge p a \<longleftrightarrow> p > maxUsablePercent a"
  using assms by (auto simp: code_scopes_def belowMinimumCharge_def maxUsablePercent_def scopes MIN_CHARGE_CENTS_def)

lemma applicable: "applicable_prices ''any'' = [10, 96, 15, 144]" "applicable_prices ''pro'' = [10, 96]"
  "applicable_prices ''business'' = [15, 144]"
  by code_simp+

lemma chargeable:
  assumes "a \<in> set code_scopes" and "\<not> belowMinimumCharge p a" and "p \<le> 100"
  shows "list_all (\<lambda>v. v * (100 - p) \<ge> 70) (applicable_prices a)"
  using assms by (auto simp: code_scopes_def belowMinimumCharge_def scopes MIN_CHARGE_CENTS_def applicable)

text \<open>What a stored code is.\<close>

definition sound_code :: "promo_code \<Rightarrow> bool" where
  "sound_code p \<longleftrightarrow>
     pc_active p \<and> pc_redeemed p = 0 \<and> CODE_RE (pc_code p)
     \<and> (case (pc_type p, pc_percent p, pc_applies_to p) of
           (PercentOff, Some percent, Some a) \<Rightarrow>
             1 \<le> percent \<and> percent \<le> 100 \<and> list_all (\<lambda>v. v * (100 - percent) \<ge> 70) (applicable_prices a)
         | (FreePlan, None, None) \<Rightarrow> pc_grant p \<in> {Some ''pro'', Some ''business''}
         | _ \<Rightarrow> False)"

definition stored_code :: "database \<Rightarrow> exn + nat outcome \<Rightarrow> database \<Rightarrow> bool" where
  "stored_code d r d' \<longleftrightarrow>
     (case r of
        Inr (Resolve c k i) \<Rightarrow> (\<exists>p. pc_id p = i \<and> sound_code p \<and> promo_codes d' = promo_codes d @ [p])
      | _ \<Rightarrow> promo_codes d' = promo_codes d)"

lemma stored_refused [simp]:
  "stored_code d (Inr (Reject c k)) d' = (promo_codes d' = promo_codes d)"
  "stored_code d (Inl e) d' = (promo_codes d' = promo_codes d)"
  by (simp_all add: stored_code_def)

lemma save_spec:
  assumes "\<And>i t. sound_code (p\<lparr>pc_id := i, pc_created := t\<rparr>)" and "db w1 = d"
  shows "wp (save_promo p) (\<lambda>r w'. stored_code d r (db w')) w1"
  using assms by (auto simp: save_promo_def insert_promo_def stored_code_def bump_id_def Let_def)

lemma clamp_bounds: "1 \<le> clamp_percent n" "clamp_percent n \<le> 100"
  by (simp_all add: clamp_percent_def)

lemma create_percent_spec:
  assumes new: "pc_type p = PercentOff" "pc_active p" "pc_redeemed p = 0" "CODE_RE (pc_code p)" and "db w1 = d"
  shows "wp (create_percent inp p) (\<lambda>r w'. stored_code d r (db w')) w1"
proof -
  let ?n = "clamp_percent (pi_percent inp)"
  let ?a = "case one_of [''any'', ''pro'', ''business''] (pi_applies inp) of None \<Rightarrow> ''any'' | Some a \<Rightarrow> a"
  have a: "?a \<in> set code_scopes" by (auto simp: code_scopes_def dest!: one_of_in split: option.splits)
  have "sound_code (p\<lparr>pc_applies_to := Some ?a, pc_percent := Some ?n, pc_stripe_coupon := x, pc_stripe_promo := y,
      pc_paddle_discount := z, pc_id := i, pc_created := t\<rparr>)" if "\<not> belowMinimumCharge ?n ?a" for x y z i t
    using chargeable [OF a that clamp_bounds(2)] clamp_bounds new by (simp add: sound_code_def)
  then have "wp (save_promo (p\<lparr>pc_applies_to := Some ?a, pc_percent := Some ?n, pc_stripe_coupon := x, pc_stripe_promo := y,
      pc_paddle_discount := z\<rparr>)) (\<lambda>r w'. stored_code d r (db w')) w2"
    if "\<not> belowMinimumCharge ?n ?a" "db w2 = d" for x y z w2
    using that by (intro save_spec) simp_all
  then show ?thesis
    using assms(5) unfolding create_percent_def Let_def
    by (auto intro!: wp_seq [OF back_promo_db] split: option.splits simp del: wp_bnd)
qed

lemma create_free_spec:
  assumes "pc_type p = FreePlan" "pc_active p" "pc_redeemed p = 0" "CODE_RE (pc_code p)"
    "pc_percent p = None" "pc_applies_to p = None" and "db w1 = d"
  shows "wp (create_free inp p) (\<lambda>r w'. stored_code d r (db w')) w1"
  using assms unfolding create_free_def
  by (auto intro!: save_spec dest!: one_of_in simp: sound_code_def split: option.splits)

text \<open>
  C31: A code that is made can be charged: whatever an admin sends and whatever fails, either no
  code is stored, or exactly one, active and unused, whose percentage leaves at least the
  provider's minimum of 70 cents on every price it applies to, or which grants a paid plan.
\<close>

theorem created_code_is_chargeable:
  "wp (createPromoCode inp admin)
     (\<lambda>r w'. case r of
        Inr (Resolve c k i) \<Rightarrow> \<exists>p. pc_id p = i \<and> sound_code p \<and> promo_codes (db w') = promo_codes (db w) @ [p]
      | _ \<Rightarrow> promo_codes (db w') = promo_codes (db w)) w"
proof -
  have "wp (createPromoCode inp admin) (\<lambda>r w'. stored_code (db w) r (db w')) w"
    unfolding createPromoCode_def Let_def
    by (auto intro!: wp_mono [OF create_percent_spec] wp_mono [OF create_free_spec]
        simp: new_promo_def split: sum.splits)
  then show ?thesis by (simp add: stored_code_def)
qed

section \<open>Revoking\<close>

definition dead_code :: "jstring \<Rightarrow> database \<Rightarrow> bool" where
  "dead_code code d \<longleftrightarrow> (\<forall>p \<in> set (promo_codes d). sql_eq (pc_code p) code \<longrightarrow> \<not> pc_active p)"

lemma dead_refused:
  assumes "dead_code (js_upper (js_trim (or_empty code))) (db w)"
  shows "wp (redeemPromo code au) (\<lambda>r w'. (\<exists>c k. r = Inr (Reject c k)) \<and> db w' = db w) w"
proof -
  have "promo_named (js_upper (js_trim (or_empty code))) (db w) = None"
    using assms by (auto simp: promo_named_def dead_code_def find_None_iff)
  then show ?thesis by (simp add: redeemPromo_def Let_def)
qed

lemma retire_db: "wp (retire_promo p) (\<lambda>r w'. db w' = db w) w"
  using preserves_wp [OF retire_keeps [where P = "\<lambda>d. d = db w"]] by simp

lemma revoke_spec:
  "wp (revokePromoCode i)
     (\<lambda>r w'. r = Inr (Resolve OK ''promo_revoked'' ())
          \<and> db w' = (db w)\<lparr>promo_codes := update_where (\<lambda>q. pc_id q = i) (\<lambda>q. q\<lparr>pc_active := False\<rparr>) (promo_codes (db w))\<rparr>
        \<or> (\<exists>c k. r = Inr (Reject c k)) \<and> db w' = db w) w"
  unfolding revokePromoCode_def run_def
  by (auto intro!: wp_mono [OF retire_db] split: option.splits sum.splits)

text \<open>
  Revoking works at once: after a revocation that is answered with success nobody can redeem
  the code in any spelling, and no attempt changes anything.
\<close>

theorem revoked_code_is_dead:
  assumes "p \<in> set (promo_codes (db w))"
    and "\<forall>q \<in> set (promo_codes (db w)). sql_eq (pc_code q) (pc_code p) \<longrightarrow> q = p"
    and "sql_eq (pc_code p) (js_upper (js_trim (or_empty code)))"
  shows "wp (revokePromoCode (pc_id p))
     (\<lambda>r w'. case r of
        Inr (Resolve c k x) \<Rightarrow>
          wp (redeemPromo code au) (\<lambda>r' w2. (\<exists>c k. r' = Inr (Reject c k)) \<and> db w2 = db w') w'
      | _ \<Rightarrow> db w' = db w) w"
proof -
  let ?d = "(db w)\<lparr>promo_codes := update_where (\<lambda>q. pc_id q = pc_id p) (\<lambda>q. q\<lparr>pc_active := False\<rparr>) (promo_codes (db w))\<rparr>"
  have same: "q = p" if "q \<in> set (promo_codes (db w))" "sql_eq (pc_code q) (js_upper (js_trim (or_empty code)))" for q
    using that assms(2,3) by (auto simp: sql_eq_def)
  have "dead_code (js_upper (js_trim (or_empty code))) ?d"
    using same by (auto simp: dead_code_def set_update_where split: if_splits)
  then have dead: "wp (redeemPromo code au) (\<lambda>r' w2. (\<exists>c k. r' = Inr (Reject c k)) \<and> db w2 = ?d) w'" if "db w' = ?d" for w'
    using dead_refused [of code w' au] that by simp
  show ?thesis
    by (rule wp_mono [OF revoke_spec]) (auto intro: dead)
qed

section \<open>One running offer\<close>

text \<open>Whatever fails, a plan and interval never have two offers switched on.\<close>

definition one_offer :: "database \<Rightarrow> bool" where
  "one_offer d \<longleftrightarrow> (\<forall>plan iv. length (filter (offer_slot plan iv) (offers d)) \<le> 1)"

inductive offer_step :: "world \<Rightarrow> world \<Rightarrow> bool" where
  create: "offer_step w (snd (createOffer inp admin w))"
| deactivate: "offer_step w (snd (deactivateOffer i w))"
| unrelated: "offers (db w') = offers (db w) \<Longrightarrow> offer_step w w'"

inductive_cases offer_stepE: "offer_step w w'"

lemma fewer_offers:
  assumes "one_offer d" and "\<And>o1 plan iv. offer_slot plan iv (f o1) \<Longrightarrow> offer_slot plan iv o1"
  shows "one_offer (d\<lparr>offers := update_where P f (offers d)\<rparr>)"
proof -
  have "length (filter Q (update_where P f xs)) \<le> length (filter Q xs)" if "\<And>o1. Q (f o1) \<Longrightarrow> Q o1" for Q xs
    using that by (induction xs) auto
  note fewer = this
  show ?thesis
    unfolding one_offer_def
  proof (intro allI)
    fix plan iv
    have "length (filter (offer_slot plan iv) (update_where P f (offers d))) \<le> length (filter (offer_slot plan iv) (offers d))"
      by (rule fewer) (rule assms(2))
    also have "\<dots> \<le> 1" using assms(1) by (simp add: one_offer_def)
    finally show "length (filter (offer_slot plan iv) (offers (d\<lparr>offers := update_where P f (offers d)\<rparr>))) \<le> 1" by simp
  qed
qed

lemma ended: "filter (offer_slot plan iv) (offers (end_offers plan iv d)) = []"
  by (auto simp: end_offers_def set_update_where filter_empty_conv) (auto simp: offer_slot_def)

lemma end_offers_ok: "one_offer d \<Longrightarrow> one_offer (end_offers plan iv d)"
  unfolding end_offers_def by (rule fewer_offers) (auto simp: offer_slot_def)

lemma insert_offer_ok:
  assumes "one_offer d" and "filter (offer_slot plan iv) (offers d) = []"
    and "insert_offer plan iv cents label starts ends coupon discount admin d = Inr (i, d')"
  shows "one_offer d'"
  using assms by (auto simp: one_offer_def insert_offer_def offer_slot_def bump_id_def Let_def split: if_splits)

lemma back_offer_db: "wp (back_offer plan iv original cents starts ends) (\<lambda>r w'. db w' = db w) w"
proof -
  have "preserves (\<lambda>d. d = db w) (back_offer plan iv original cents starts ends)"
    unfolding back_offer_def createPaddleOfferDiscount_def paddle_discount_def Let_def by (intro keeps)
  then show ?thesis using preserves_wp [where P = "\<lambda>d. d = db w"] by blast
qed

lemma create_offer_ok:
  assumes "one_offer (db w)"
  shows "wp (createOffer inp admin) (\<lambda>r w'. one_offer (db w')) w"
proof -
  have store: "wp (bnd (run (end_offers plan iv)) (\<lambda>_.
       bnd (sql (insert_offer plan iv cents label starts ends coupon discount admin)) (\<lambda>i.
         ret (Resolve CREATED ''offer_created'' i)))) (\<lambda>r w'. one_offer (db w')) w1"
    if "db w1 = db w" for plan iv cents label starts ends coupon discount w1
    using assms that end_offers_ok insert_offer_ok [OF end_offers_ok [OF assms] ended]
    by (auto simp: run_def split: sum.splits)
  show ?thesis
    using assms unfolding createOffer_def Let_def
    by (auto intro!: wp_seq [OF back_offer_db] wp_mono [OF store] split: option.splits sum.splits simp del: wp_bnd)
qed

lemma deactivate_ok: "preserves one_offer (deactivateOffer i)"
proof -
  have "preserves one_offer (run (\<lambda>d. d\<lparr>offers := update_where (\<lambda>o1. of_id o1 = i) (\<lambda>o1. o1\<lparr>of_active := False\<rparr>) (offers d)\<rparr>))"
    unfolding run_def by (intro preserves_execute) (auto simp: offer_slot_def intro: fewer_offers)
  then show ?thesis unfolding deactivateOffer_def archivePaddleDiscount_def by (intro keeps)
qed

lemma offer_step_ok: "offer_step w w' \<Longrightarrow> one_offer (db w) \<Longrightarrow> one_offer (db w')"
proof (erule offer_stepE, goal_cases)
  case (1 inp admin)
  then show ?case using create_offer_ok [of w inp admin] by (simp add: wp_iff)
next
  case (2 i)
  then show ?case by (auto intro: preservesD [OF deactivate_ok])
next
  case 3
  then show ?case by (simp add: one_offer_def)
qed

text \<open>
  C32: A plan and interval never have two offers switched on: along every run of admins making
  and ending offers, whatever fails at the payment provider or in the database.
\<close>

theorem one_running_offer:
  assumes "offer_step\<^sup>*\<^sup>* w w'" and "one_offer (db w)"
  shows "length (filter (offer_slot plan iv) (offers (db w'))) \<le> 1"
proof -
  have "one_offer (db w')" using assms by (induction rule: rtranclp_induct) (auto intro: offer_step_ok)
  then show ?thesis by (simp add: one_offer_def)
qed

section \<open>Examples\<close>

definition half_off :: offer_input where
  "half_off = \<lparr>oi_plan = Some ''pro'', oi_interval = Some ''month'', oi_cents = Some 500, oi_label = None,
     oi_starts = None, oi_ends = None\<rparr>"

lemma one_running_offer_witness:
  "length (filter (offer_slot ''pro'' Month) (offers (db (snd (createOffer half_off 1 (demo_world demo_db)))))) \<le> 1"
proof (rule one_running_offer)
  show "one_offer (db (demo_world demo_db))" by (simp add: one_offer_def demo_db_def empty_db_def)
qed (intro r_into_rtranclp offer_step.create)

lemma revoked_code_is_dead_witness:
  "wp (revokePromoCode 1)
     (\<lambda>r w'. case r of
        Inr (Resolve c k x) \<Rightarrow>
          wp (redeemPromo (Some (js ''save'')) other_owner)
            (\<lambda>r' w2. (\<exists>c k. r' = Inr (Reject c k)) \<and> db w2 = db w') w'
      | _ \<Rightarrow> db w' = promo_db) (demo_world promo_db)"
proof -
  have code: "promo_codes promo_db = [demo_code]" "pc_code demo_code = js ''SAVE''"
    by (simp_all add: promo_db_def demo_code_def)
  show ?thesis
    using revoked_code_is_dead [of demo_code "demo_world promo_db" "Some (js ''save'')" other_owner]
    by (simp add: code code_id SAVE_code sql_eq_refl del: js_Cons cong: sum.case_cong outcome.case_cong)
qed

end
