(* ===== verification/Billing_Gaps.thy ===== *)
theory Billing_Gaps
  imports Billing_Flow
begin

text \<open>
  Two ways in which what an account paid for and what its workspaces show drift apart: an event
  of the provider that is not the active one, and a workspace that was inactive during a plan
  change.
\<close>

lemma setAccountPlan_healthy:
  assumes "healthy w" "email \<noteq> []"
  shows "wp (setAccountPlan email fs)
     (\<lambda>r w'. r = Inr () \<and> db w' = plan_db email fs (db w) \<and> svc w' = svc w \<and> healthy w') w"
  using assms
  by (simp add: setAccountPlan_def setAccountPlan_on_def mirrorAccountToTenants_def getAccount_def plan_db_def Let_def)

section \<open>The other provider's webhook\<close>

lemma stripe_fields_ended:
  "ss_status s \<notin> set stripe_active_statuses \<Longrightarrow>
   set_fields (stripe_fields e s) b =
     b\<lparr>b_plan := ''free'', b_stripe_customer := ss_customer s, b_stripe_sub := Some (ss_id s),
       b_status := Some (ss_status s), b_interval := None, b_period_end := None\<rparr>"
  by (simp add: stripe_fields_def Let_def)

lemma account_of_insert_paddle:
  "b_paddle_sub (account_of (insert_account email d) email) = b_paddle_sub (account_of d email)"
  by (auto simp: account_of_def insert_account_def find_none_append free_account_def split: option.splits)

lemma t_plan_mirror: "mirrors b t \<Longrightarrow> t_plan t = plan_or_free (Some (b_plan b))"
proof -
  have "t_plan (mirror_onto b t) = plan_or_free (Some (b_plan b))" by (simp add: mirror_onto_def)
  moreover assume "mirrors b t"
  ultimately show ?thesis by (simp add: mirrors_def)
qed

text \<open>
  The Stripe webhook is mounted and obeyed whichever provider is active.  While the account
  is billed through Paddle, the event that its former Stripe subscription has ended puts the
  account, and every workspace it owns, on Free; the Paddle subscription it pays for stays on
  record untouched.
\<close>

theorem dormant_provider_ends_paid_plan:
  assumes "healthy w" and "isPaddleActive (svc w)"
    and "st_construct (stripe (svc w)) (WEBHOOK_SECRET (svc w)) body signature = Inr (SubscriptionEvent s)"
    and "ss_status s = ''canceled''" and "ss_email s = Some email" and "email \<noteq> []"
    and "b_plan (account_of (db w) email) = ''business''"
  shows "wp (handleStripeWebhook body signature)
     (\<lambda>r w'. r = Inr (Inr ()) \<and> isPaddleActive (svc w')
        \<and> b_plan (account_of (db w') email) = ''free''
        \<and> b_paddle_sub (account_of (db w') email) = b_paddle_sub (account_of (db w) email)
        \<and> (\<forall>t. t \<in> owned_workspaces (db w') email \<longrightarrow> t_plan t = ''free'')) w"
proof -
  have ended: "ss_status s \<notin> set stripe_active_statuses" by (simp add: assms(4) stripe_active_statuses_def)
  have shown: "t_plan t = ''free''"
    if "t \<in> owned_workspaces (plan_db email (stripe_fields (env (svc w)) s) (db w)) email" for t
    using plan_db_mirrors [OF that] t_plan_mirror [of _ t] by (simp add: stripe_fields_ended [OF ended] plan_or_free_def)
  have plan: "b_plan (account_of (plan_db email (stripe_fields (env (svc w)) s) (db w)) email) = ''free''"
    "b_paddle_sub (account_of (plan_db email (stripe_fields (env (svc w)) s) (db w)) email) = b_paddle_sub (account_of (db w) email)"
    by (simp_all add: account_of_plan_db stripe_fields_ended [OF ended] account_of_insert_paddle)
  have "wp (applyAccountSubscription s)
     (\<lambda>r w'. r = Inr () \<and> db w' = plan_db email (stripe_fields (env (svc w)) s) (db w) \<and> svc w' = svc w) w"
    using assms(1,5,6) wp_mono [OF setAccountPlan_healthy [OF assms(1,6)]]
    by (simp add: applyAccountSubscription_def attribute_sub_def or_empty_def or_null_def)
  then show ?thesis
    using assms(2,3) shown plan
    by (auto simp: handleStripeWebhook_def stripe_event_effect_def elim!: wp_mono)
qed

section \<open>A workspace that was inactive\<close>

lemma update_where_hit: "y \<in> set xs \<Longrightarrow> P y \<Longrightarrow> f y \<in> set (update_where P f xs)"
  by (force simp: set_update_where)

lemma account_of_tenants: "account_of (d\<lparr>tenants := ts\<rparr>) = account_of d"
  by (simp add: account_of_def fun_eq_iff)

lemma not_consistent:
  assumes "x \<in> owned_workspaces d email" and "b_plan (account_of d email) = ''free''" and "t_plan x \<noteq> ''free''"
  shows "\<not> billing_consistent d"
proof
  assume "billing_consistent d"
  with assms(1) have "mirrors (account_of d email) x" by (simp add: billing_consistent_def)
  from t_plan_mirror [OF this] assms(2,3) show False by (simp add: plan_or_free_def)
qed

lemma patch_same: "patch_tenant \<lparr>wp_name = None, wp_active = Some b\<rparr> = (\<lambda>x. x\<lparr>t_active := b\<rparr>)"
  by (simp add: fun_eq_iff patch_tenant_def)

lemma tenant_fits_active [simp]: "tenant_fits (x\<lparr>t_active := b\<rparr>) = tenant_fits x"
  by (simp add: tenant_fits_def)

lemma toggle_workspace:
  assumes "healthy w" and "\<forall>y \<in> set (tenants (db w)). t_id y = i \<longrightarrow> tenant_fits y"
    and "\<exists>y \<in> set (tenants (db w)). t_id y = i"
  shows "wp (updateWorkspace i \<lparr>wp_name = None, wp_active = Some b\<rparr>)
     (\<lambda>r w'. r = Inr (Resolve OK ''workspace_updated'' ()) \<and> healthy w'
        \<and> db w' = (db w)\<lparr>tenants := update_where (\<lambda>y. t_id y = i) (\<lambda>y. y\<lparr>t_active := b\<rparr>) (tenants (db w))\<rparr>) w"
proof -
  have "list_all tenant_fits (filter (\<lambda>y. t_id y = i) (tenants (db w)))"
    and "filter (\<lambda>y. t_id y = i) (tenants (db w)) \<noteq> []"
    using assms(2,3) by (auto simp: list_all_iff filter_empty_conv)
  then show ?thesis
    using assms(1) by (simp add: updateWorkspace_def update_tenant_row_def patch_same Let_def)
qed

text \<open>
  A workspace that an admin deactivates before and reactivates after its owner loses the
  paid plan keeps that plan: the mirror writes active workspaces only and the reactivation does
  not write it, so the features of the plan stay open to a Free account.
\<close>

theorem reactivated_workspace_keeps_plan:
  assumes "healthy w" and "email \<noteq> []" and "distinct (map t_id (tenants (db w)))"
    and "x \<in> owned_workspaces (db w) email" and "tenant_fits x" and "t_plan x \<noteq> ''free''"
  shows "wp (bnd (updateWorkspace (t_id x) \<lparr>wp_name = None, wp_active = Some False\<rparr>) (\<lambda>_.
             bnd (resetAccountToFree email None) (\<lambda>_.
                  updateWorkspace (t_id x) \<lparr>wp_name = None, wp_active = Some True\<rparr>)))
     (\<lambda>r w'. b_plan (account_of (db w') email) = ''free'' \<and> x \<in> owned_workspaces (db w') email
        \<and> \<not> billing_consistent (db w')) w"
proof -
  let ?off = "\<lambda>d. d\<lparr>tenants := update_where (\<lambda>y. t_id y = t_id x) (\<lambda>y. y\<lparr>t_active := False\<rparr>) (tenants d)\<rparr>"
  let ?on = "\<lambda>d. d\<lparr>tenants := update_where (\<lambda>y. t_id y = t_id x) (\<lambda>y. y\<lparr>t_active := True\<rparr>) (tenants d)\<rparr>"
  let ?d2 = "plan_db email (free_fields None) (?off (db w))"
  have x: "x \<in> set (tenants (db w))" "t_active x" "owns (db w) email (t_id x)"
    using assms(4) by (simp_all add: owned_workspaces_def)
  have only: "y = x" if "y \<in> set (tenants (db w))" "t_id y = t_id x" for y
    using that x(1) assms(3) by (auto simp: distinct_map inj_on_def)
  have off: "x\<lparr>t_active := False\<rparr> \<in> set (tenants (?off (db w)))" using x(1) by (auto simp: set_update_where)
  have only_off: "y = x\<lparr>t_active := False\<rparr>" if "y \<in> set (tenants ?d2)" "t_id y = t_id x" for y
    using that only by (auto simp: tenants_plan_db set_update_where)
  have kept: "x\<lparr>t_active := False\<rparr> \<in> set (tenants ?d2)"
    using off by (auto simp: tenants_plan_db set_update_where)
  have again: "x \<in> owned_workspaces (?on ?d2) email"
  proof -
    have same: "(x\<lparr>t_active := False\<rparr>)\<lparr>t_active := True\<rparr> = x" using x(2) by (cases x) simp
    have "x \<in> set (tenants (?on ?d2))"
      using update_where_hit [OF kept, of "\<lambda>y. t_id y = t_id x" "\<lambda>y. y\<lparr>t_active := True\<rparr>", unfolded same] by simp
    then show ?thesis using x(2,3) by (simp add: owned_workspaces_def owns_def)
  qed
  have free: "b_plan (account_of (?on ?d2) email) = ''free''"
    by (simp add: account_of_tenants account_of_plan_db) (simp add: free_fields_def)
  have "\<not> billing_consistent (?on ?d2)"
    by (rule not_consistent [OF again free assms(6)])
  moreover have "\<forall>y \<in> set (tenants ?d2). t_id y = t_id x \<longrightarrow> tenant_fits y"
  proof (intro ballI impI)
    fix y assume "y \<in> set (tenants ?d2)" "t_id y = t_id x"
    then have "y = x\<lparr>t_active := False\<rparr>" by (rule only_off)
    then show "tenant_fits y" using assms(5) by simp
  qed
  moreover have "\<exists>y \<in> set (tenants ?d2). t_id y = t_id x" using kept by (intro bexI [OF _ kept]) simp
  ultimately have last: "wp (updateWorkspace (t_id x) \<lparr>wp_name = None, wp_active = Some True\<rparr>)
     (\<lambda>r w'. b_plan (account_of (db w') email) = ''free'' \<and> x \<in> owned_workspaces (db w') email
        \<and> \<not> billing_consistent (db w')) w2" if "healthy w2" "db w2 = ?d2" for w2
    using again free by (intro wp_mono [OF toggle_workspace [OF that(1), unfolded that(2)]]) simp_all
  have middle: "wp (resetAccountToFree email None) (\<lambda>r w'. r = Inr () \<and> db w' = ?d2 \<and> healthy w') w1"
    if "healthy w1" "db w1 = ?off (db w)" for w1
    unfolding resetAccountToFree_def
    by (rule wp_mono [OF setAccountPlan_healthy [OF that(1) assms(2)]]) (simp add: that(2))
  show ?thesis
    by (rule wp_seq [OF toggle_workspace], use assms(1,5) x(1) only in \<open>auto simp del: wp_bnd\<close>)
       (rule wp_seq [OF middle], auto intro: last)
qed

definition legacy_sub :: stripe_sub where
  "legacy_sub = \<lparr>ss_id = ''sub_old'', ss_customer = Some ''cus_1'', ss_status = ''canceled'', ss_price = None,
     ss_yearly = False, ss_period_end = None, ss_email = Some (js ''a@x.io''), ss_tenant = None, ss_item = None,
     ss_schedule = None, ss_cancel_at_end = False, ss_currency = None, ss_created = 0\<rparr>"

definition switched_provider :: world where
  "switched_provider =
     (demo_world demo_db)\<lparr>svc := demo_services\<lparr>stripe := demo_stripe\<lparr>
        st_construct := (\<lambda>_ _ _. Inr (SubscriptionEvent legacy_sub))\<rparr>\<rparr>\<rparr>"

lemma dormant_provider_ends_paid_plan_witness:
  "wp (handleStripeWebhook [] [])
     (\<lambda>r w'. r = Inr (Inr ()) \<and> isPaddleActive (svc w')
        \<and> b_plan (account_of (db w') (js ''a@x.io'')) = ''free''
        \<and> b_paddle_sub (account_of (db w') (js ''a@x.io'')) = b_paddle_sub (account_of (db switched_provider) (js ''a@x.io''))
        \<and> (\<forall>t. t \<in> owned_workspaces (db w') (js ''a@x.io'') \<longrightarrow> t_plan t = ''free'')) switched_provider"
  by (rule dormant_provider_ends_paid_plan [where s = legacy_sub])
     (simp_all add: switched_provider_def healthy_def demo_services_def isPaddleActive_def legacy_sub_def demo_world_def
        account_of_def demo_defs sql_eq_refl del: js_Cons)

lemma reactivated_workspace_keeps_plan_witness:
  "wp (bnd (updateWorkspace 1 \<lparr>wp_name = None, wp_active = Some False\<rparr>) (\<lambda>_.
       bnd (resetAccountToFree (js ''a@x.io'') None) (\<lambda>_.
            updateWorkspace 1 \<lparr>wp_name = None, wp_active = Some True\<rparr>)))
     (\<lambda>r w'. b_plan (account_of (db w') (js ''a@x.io'')) = ''free''
        \<and> demo_tenant 1 ''acme'' ''business'' \<in> owned_workspaces (db w') (js ''a@x.io'')
        \<and> \<not> billing_consistent (db w')) (demo_world demo_db)"
proof -
  have "demo_tenant 1 ''acme'' ''business'' \<in> owned_workspaces demo_db (js ''a@x.io'')"
    by (simp add: owned_workspaces_def demo_owns sql_eq_refl) (simp add: demo_defs)
  then show ?thesis
    using reactivated_workspace_keeps_plan [of "demo_world demo_db" "js ''a@x.io''" "demo_tenant 1 ''acme'' ''business''"]
    by (simp add: demo_tenant_def tenant_fits_def fits_def demo_db_def del: js_Cons)
qed

end
