(* ===== verification/Admin_Facts.thy ===== *)
theory Admin_Facts
  imports Billing_Flow
begin

text \<open>
  What the admin panel guarantees about the admins themselves, and two of its endpoints that
  step around the rules the rest of the program keeps.
\<close>

section \<open>Without an admin\<close>

definition no_admin :: "database \<Rightarrow> bool" where
  "no_admin d \<longleftrightarrow> \<not> list_ex (\<lambda>u. u_admin u \<and> u_active u) (users d)"

lemma no_admin_rows: "no_admin d \<Longrightarrow> filter (\<lambda>u. P u \<and> u_admin u \<and> u_active u) (users d) = []"
  by (auto simp: no_admin_def list_ex_iff filter_empty_conv)

lemma no_admin_login: "no_admin (db w) \<Longrightarrow> wp (adminLogin a p) (\<lambda>r w'. \<exists>c k. r = Inr (Reject c k)) w"
  by (auto simp: adminLogin_def first_admin_def admin_row_def [abs_def] no_admin_rows first_row_def Let_def)

lemma no_admin_token: "no_admin (db w) \<Longrightarrow> wp (authenticateAdmin h) (\<lambda>r w'. \<exists>k. r = Inr (Inl k)) w"
  by (auto simp: authenticateAdmin_def no_admin_rows first_row_def split: option.splits jwt_result.splits)

lemma find_by_id: "distinct (map u_id us) \<Longrightarrow> u \<in> set us \<Longrightarrow> find (\<lambda>v. u_id v = u_id u) us = Some u"
  by (induction us) auto

lemma update_user_spec:
  assumes "healthy w" and "\<forall>u \<in> set (users (db w)). u_id u = i \<longrightarrow> user_fits (patch_row p u)"
    and "\<exists>u \<in> set (users (db w)). u_id u = i"
    and "up_role p = None \<or> (\<exists>r. up_role p = Some r \<and> r \<in> set TENANT_ROLES)"
    and "up_name p \<noteq> None \<or> up_role p \<noteq> None \<or> up_active p \<noteq> None"
  shows "wp (updateUser i p)
     (\<lambda>r w'. r = Inr (Resolve OK ''user_updated'' ()) \<and> svc w' = svc w
        \<and> db w' = (db w)\<lparr>users := update_where (\<lambda>u. u_id u = i) (patch_row p) (users (db w))\<rparr>) w"
proof -
  have "list_all (\<lambda>u. user_fits (patch_row p u)) (filter (\<lambda>u. u_id u = i) (users (db w)))"
    and "filter (\<lambda>u. u_id u = i) (users (db w)) \<noteq> []"
    using assms(2,3) by (auto simp: list_all_iff filter_empty_conv)
  then show ?thesis
    using assms(1,4,5) by (auto simp: updateUser_def update_user_row_def Let_def)
qed

lemma user_fits_patch_active: "user_fits u \<Longrightarrow> user_fits (patch_row \<lparr>up_name = None, up_role = r, up_active = a\<rparr> u)"
  by (simp add: user_fits_def patch_row_def)

text \<open>
  C26: The only platform admin can be locked out for good.  Deleting the account is refused
  because nobody could sign in to the panel afterwards; deactivating its row through the users
  page is accepted, and then no address with any password signs in and no token is accepted.
\<close>

theorem last_admin_locked_out:
  assumes "healthy w" and u: "u \<in> set (users (db w))" "u_admin u" "u_email u \<noteq> []" "user_fits u"
    and "distinct (map u_id (users (db w)))"
    and "\<forall>v \<in> set (users (db w)). u_admin v \<longrightarrow> v = u"
  shows "wp (deleteUser (u_id u)) (\<lambda>r w'. r = Inr (Reject BAD_REQUEST ''platform_admin_undeletable'')) w
    \<and> wp (updateUser (u_id u) \<lparr>up_name = None, up_role = None, up_active = Some False\<rparr>)
        (\<lambda>r w'. r = Inr (Resolve OK ''user_updated'' ())
           \<and> (\<forall>a p. wp (adminLogin a p) (\<lambda>r _. \<exists>c k. r = Inr (Reject c k)) w')
           \<and> (\<forall>h. wp (authenticateAdmin h) (\<lambda>r _. \<exists>k. r = Inr (Inl k)) w')) w"
proof
  have only: "v = u" if "v \<in> set (users (db w))" "u_id v = u_id u" for v
    using that u(1) assms(6) by (auto simp: distinct_map inj_on_def)
  have "find (\<lambda>v. u_id v = u_id u) (users (db w)) = Some u"
    using assms(6) u(1) by (rule find_by_id)
  moreover have "list_ex (\<lambda>v. sql_eq (u_email v) (u_email u) \<and> u_admin v) (users (db w))"
    using u by (auto simp: list_ex_iff sql_eq_refl intro!: bexI [of _ u])
  ultimately show "wp (deleteUser (u_id u)) (\<lambda>r w'. r = Inr (Reject BAD_REQUEST ''platform_admin_undeletable'')) w"
    using assms(1) u(3) by (simp add: deleteUser_def emailOfUserId_def purgeAccount_def isPlatformAdminEmail_def or_null_def)
  have "no_admin ((db w)\<lparr>users := update_where (\<lambda>v. u_id v = u_id u)
          (patch_row \<lparr>up_name = None, up_role = None, up_active = Some False\<rparr>) (users (db w))\<rparr>)"
    using assms(7) by (auto simp: no_admin_def list_ex_iff set_update_where patch_row_def split: if_splits)
  then show "wp (updateUser (u_id u) \<lparr>up_name = None, up_role = None, up_active = Some False\<rparr>)
        (\<lambda>r w'. r = Inr (Resolve OK ''user_updated'' ())
           \<and> (\<forall>a p. wp (adminLogin a p) (\<lambda>r _. \<exists>c k. r = Inr (Reject c k)) w')
           \<and> (\<forall>h. wp (authenticateAdmin h) (\<lambda>r _. \<exists>k. r = Inr (Inl k)) w')) w"
    using assms(1) u(1,4) only
    by (intro wp_mono [OF update_user_spec])
       (auto intro: user_fits_patch_active no_admin_login no_admin_token)
qed

lemma update_where_in: "x \<in> set xs \<Longrightarrow> (if P x then f x else x) \<in> set (update_where P f xs)"
  by (auto simp: set_update_where)

section \<open>Admins keep themselves\<close>

text \<open>
  Whatever an admin does to admins, and whatever fails, the acting admin stays one: revoking
  or deleting one's own role is refused (given that an address has one spelling).
\<close>

theorem acting_admin_survives:
  assumes "u \<in> set (users (db w))" "u_admin u" "u_email u \<noteq> []"
    and "\<forall>v \<in> set (users (db w)). sql_eq (u_email v) (u_email u) \<longrightarrow> u_email v = u_email u"
  shows "wp (setAdminActive i on u) (\<lambda>r w'. u \<in> set (users (db w'))) w
    \<and> wp (deleteAdmin i u) (\<lambda>r w'. u \<in> set (users (db w'))) w"
proof -
  have keep: "u \<in> set (users (set_admin (u_email v) b (db w)))"
    if v: "find (\<lambda>v. u_id v = i) (users (db w)) = Some v" and other: "u_email v \<noteq> u_email u \<or> b" for v b
  proof (cases "sql_eq (u_email u) (u_email v)")
    case True
    have "v \<in> set (users (db w))" using findD [OF v] by simp
    moreover have "sql_eq (u_email v) (u_email u)" using True by (simp add: sql_eq_def)
    ultimately have "b" using assms(4) other by blast
    moreover have "u\<lparr>u_admin := True\<rparr> = u" using assms(2) by (cases u) simp
    ultimately show ?thesis
      using update_where_in [OF assms(1), of "\<lambda>u. sql_eq (u_email u) (u_email v)" "\<lambda>u. u\<lparr>u_admin := b\<rparr>"] True
      by (simp add: set_admin_def)
  next
    case False
    then show ?thesis
      using update_where_in [OF assms(1), of "\<lambda>u. sql_eq (u_email u) (u_email v)" "\<lambda>u. u\<lparr>u_admin := b\<rparr>"]
      by (simp add: set_admin_def)
  qed
  show ?thesis
    using assms(1) keep
    by (auto simp: setAdminActive_def deleteAdmin_def emailOfUserId_def run_def or_null_def split: option.splits if_splits)
qed

section \<open>A second owner\<close>

text \<open>
  The users page of the admin makes a second owner: giving the role of owner to a member of
  a workspace that has one is accepted and leaves the workspace with two, which no account,
  invitation or role request can bring about.
\<close>

theorem admin_makes_second_owner:
  assumes "healthy w" and "distinct (map u_id (users (db w)))"
    and "owns (db w) email t" and "u \<in> set (users (db w))" "u_tenant u = Some t" "u_active u" "user_fits u"
    and "\<not> sql_eq email (u_email u)"
  shows "wp (updateUser (u_id u) \<lparr>up_name = None, up_role = Some ''owner'', up_active = None\<rparr>)
     (\<lambda>r w'. r = Inr (Resolve OK ''user_updated'' ()) \<and> \<not> one_owner (db w')) w"
proof -
  let ?p = "\<lparr>up_name = None, up_role = Some ''owner'', up_active = None\<rparr>"
  let ?d = "(db w)\<lparr>users := update_where (\<lambda>v. u_id v = u_id u) (patch_row ?p) (users (db w))\<rparr>"
  have only: "v = u" if "v \<in> set (users (db w))" "u_id v = u_id u" for v
    using that assms(2,4) by (auto simp: distinct_map inj_on_def)
  obtain o' where o': "o' \<in> set (users (db w))" "is_owner_of email t o'"
    using assms(3) by (auto simp: owns_def list_ex_iff)
  have "is_owner_of email t (if u_id o' = u_id u then patch_row ?p o' else o')"
    using o'(2) by (simp add: is_owner_of_def patch_row_def parse_role_def)
  then have "owns ?d email t"
    using update_where_in [OF o'(1), of "\<lambda>v. u_id v = u_id u" "patch_row ?p"] by (auto simp: owns_def list_ex_iff)
  moreover have "is_owner_of (u_email u) t (patch_row ?p u)"
    using assms(5,6) by (simp add: is_owner_of_def patch_row_def parse_role_def sql_eq_refl)
  then have "owns ?d (u_email u) t"
    using update_where_in [OF assms(4), of "\<lambda>v. u_id v = u_id u" "patch_row ?p"] by (auto simp: owns_def list_ex_iff)
  ultimately have two: "\<not> one_owner ?d" using assms(8) by (auto simp: one_owner_def)
  show ?thesis
    by (rule wp_mono [OF update_user_spec [OF assms(1)]])
       (use two assms(4,7) only in \<open>auto simp: TENANT_ROLES_def intro: user_fits_patch_active\<close>)
qed

section \<open>A password set by an admin\<close>

text \<open>
  A password an admin sets is the password of every workspace row of that account and of no
  other row, and every device of the account is signed out, before the answer is a success.
\<close>

theorem admin_reset_covers_account:
  "wp (resetUserPassword i pwd)
     (\<lambda>r w'. case r of
        Inr (Resolve c k x) \<Rightarrow>
          \<exists>u h. u \<in> set (users (db w)) \<and> u_id u = i \<and> 8 \<le> length (or_empty pwd)
            \<and> h = bcrypt_hash (svc w) (rn w) (or_empty pwd)
            \<and> users (db w') = map (\<lambda>v. if sql_eq (u_email v) (u_email u) then v\<lparr>u_password := Some h\<rparr> else v) (users (db w))
            \<and> sessions (db w') = filter (\<lambda>s. \<not> sql_eq (s_email s) (u_email u)) (sessions (db w))
      | _ \<Rightarrow> True) w"
  by (auto simp: resetUserPassword_def emailOfUserId_def set_password_def run_def drop_sessions_def
      or_null_def update_where_def Let_def dest!: findD split: option.splits if_splits)

section \<open>Examples\<close>

definition lone_admin :: user where "lone_admin = (demo_user 9 1 ''r@x.io'' Member)\<lparr>u_admin := True\<rparr>"

definition admin_db :: database where "admin_db = demo_db\<lparr>users := users demo_db @ [lone_admin]\<rparr>"

lemma admin_users: "users admin_db = users demo_db @ [lone_admin]" by (simp add: admin_db_def)

lemma lone_admin_row: "u_id lone_admin = 9" "u_admin lone_admin" "u_email lone_admin = js ''r@x.io''" "user_fits lone_admin"
  by (simp_all add: lone_admin_def demo_user_def user_fits_def fits_def del: js_Cons)

lemma last_admin_locked_out_witness:
  "wp (deleteUser 9) (\<lambda>r w'. r = Inr (Reject BAD_REQUEST ''platform_admin_undeletable'')) (demo_world admin_db)
    \<and> wp (updateUser 9 \<lparr>up_name = None, up_role = None, up_active = Some False\<rparr>)
        (\<lambda>r w'. r = Inr (Resolve OK ''user_updated'' ())
           \<and> (\<forall>a p. wp (adminLogin a p) (\<lambda>r _. \<exists>c k. r = Inr (Reject c k)) w')
           \<and> (\<forall>h. wp (authenticateAdmin h) (\<lambda>r _. \<exists>k. r = Inr (Inl k)) w')) (demo_world admin_db)"
  by (rule last_admin_locked_out [of "demo_world admin_db" lone_admin, unfolded demo_world_simps lone_admin_row(1)])
     (auto simp: admin_users lone_admin_row demo_db_def demo_user_def simp del: js_Cons)

lemma acting_admin_survives_witness:
  "wp (setAdminActive 9 False lone_admin) (\<lambda>r w'. lone_admin \<in> set (users (db w'))) (demo_world admin_db)
    \<and> wp (deleteAdmin 9 lone_admin) (\<lambda>r w'. lone_admin \<in> set (users (db w'))) (demo_world admin_db)"
  by (rule acting_admin_survives)
     (auto simp: admin_users lone_admin_row demo_db_def demo_user_def sql_eq_def js_lower_def lower_unit_def)

lemma admin_makes_second_owner_witness:
  "wp (updateUser 3 \<lparr>up_name = None, up_role = Some ''owner'', up_active = None\<rparr>)
     (\<lambda>r w'. r = Inr (Resolve OK ''user_updated'' ()) \<and> \<not> one_owner (db w')) (demo_world demo_db)"
proof -
  have "owns demo_db (js ''a@x.io'') 1" by (simp add: demo_owns sql_eq_refl)
  moreover have "\<not> sql_eq (js ''a@x.io'') (js ''c@x.io'')" by (simp add: sql_eq_def js_lower_def lower_unit_def)
  ultimately show ?thesis
    using admin_makes_second_owner [of "demo_world demo_db" "js ''a@x.io''" 1 "demo_user 3 1 ''c@x.io'' Member"]
    by (simp add: demo_db_def demo_user_def user_fits_def fits_def del: js_Cons)
qed

end
