(* ===== verification/Support_Chat.thy ===== *)
theory Support_Chat
  imports Content
begin

text \<open>
  The support chat (\<open>src/main/support/userSupport.js\<close>, \<open>src/main/admin/support.js\<close>): a user and
  the platform admin talk in a session, which the admin closes; a closed session is out of the
  user's reach.
\<close>

section \<open>Sessions\<close>

definition MAX_BODY :: nat where "MAX_BODY = 4000"

definition open_of :: "nat \<Rightarrow> support_session \<Rightarrow> bool" where
  "open_of u s \<longleftrightarrow> su_user s = Some u \<and> su_open s"

text \<open>\<open>ORDER BY id DESC LIMIT 1\<close>.\<close>

definition open_session_of :: "nat \<Rightarrow> database \<Rightarrow> support_session option" where
  "open_session_of u d = first_row (sort_key (\<lambda>s. - int (su_id s)) (filter (open_of u) (support_sessions d)))"

definition findOpenSession :: "nat \<Rightarrow> support_session option io" where
  "findOpenSession u = select (open_session_of u)"

definition insert_support_session ::
  "nat option \<Rightarrow> nat \<Rightarrow> jstring \<Rightarrow> jstring option \<Rightarrow> database \<Rightarrow> exn + (nat \<times> database)" where
  "insert_support_session t u email name d =
     (if \<not> fk_opt (has_tenant d) t \<or> \<not> has_user d u \<or> length email > 255
         \<or> (case name of None \<Rightarrow> False | Some n \<Rightarrow> length n > 160) then Inl DbError
      else let i = next_id ''support_sessions'' d
           in Inr (i, (bump_id ''support_sessions'' d)\<lparr>support_sessions := support_sessions d @
                [\<lparr>su_id = i, su_tenant = t, su_user = Some u, su_email = email, su_name = name, su_open = True,
                  su_created = clock d, su_last_message = None, su_user_read = None, su_admin_read = None,
                  su_closed_at = None, su_closed_by = None\<rparr>]\<rparr>))"

definition openSession :: "auth \<Rightarrow> support_session option outcome io" where
  "openSession au =
     catch
       (bnd (findOpenSession (au_id au)) (\<lambda>existing.
          case existing of
            Some s \<Rightarrow> ret (Resolve OK ''support_session_ready'' (Some s))
          | None \<Rightarrow>
              bnd (select (\<lambda>d. find (\<lambda>u. u_id u = au_id au) (users d))) (\<lambda>u.
              bnd (sql (insert_support_session (au_tenant au) (au_id au) (au_email au)
                     (case u of None \<Rightarrow> None | Some x \<Rightarrow> or_null (u_name x)))) (\<lambda>i.
              bnd (select (\<lambda>d. find (\<lambda>s. su_id s = i) (support_sessions d))) (\<lambda>s.
                ret (Resolve CREATED ''support_session_ready'' s))))))
       (\<lambda>_. ret (Reject INTERNAL_SERVER_ERROR ''internal_server_error''))"

definition ownOpenSession :: "nat \<Rightarrow> nat \<Rightarrow> support_session option io" where
  "ownOpenSession i u = select (\<lambda>d. find (\<lambda>s. su_id s = i \<and> open_of u s) (support_sessions d))"

definition update_session :: "nat \<Rightarrow> (int \<Rightarrow> support_session \<Rightarrow> support_session) \<Rightarrow> database \<Rightarrow> database" where
  "update_session i f d =
     d\<lparr>support_sessions := update_where (\<lambda>s. su_id s = i) (f (clock d)) (support_sessions d)\<rparr>"

section \<open>The user's side\<close>

definition messages_of :: "nat \<Rightarrow> database \<Rightarrow> support_message list" where
  "messages_of i d = sort_key ms_id (filter (\<lambda>m. ms_session m = i) (support_messages d))"

definition getMessages :: "nat \<Rightarrow> auth \<Rightarrow> support_message list outcome io" where
  "getMessages i au =
     catch
       (bnd (ownOpenSession i (au_id au)) (\<lambda>s.
          if s = None then ret (Reject FORBIDDEN ''support_session_unavailable'')
          else bnd (select (messages_of i)) (\<lambda>ms.
               bnd (execute (\<lambda>d. ((), update_session i (\<lambda>now s. s\<lparr>su_user_read := Some now\<rparr>) d))) (\<lambda>_.
                 ret (Resolve OK ''support_messages_retrieved'' ms)))))
       (\<lambda>_. ret (Reject INTERNAL_SERVER_ERROR ''internal_server_error''))"

definition insert_message ::
  "nat \<Rightarrow> support_sender \<Rightarrow> nat \<Rightarrow> jstring \<Rightarrow> database \<Rightarrow> exn + (unit \<times> database)" where
  "insert_message i sender who body d =
     (if \<not> list_ex (\<lambda>s. su_id s = i) (support_sessions d) \<or> \<not> has_user d who \<or> \<not> text_fits body then Inl DbError
      else Inr ((), (bump_id ''support_messages'' d)\<lparr>support_messages := support_messages d @
             [\<lparr>ms_id = next_id ''support_messages'' d, ms_session = i, ms_sender = sender,
               ms_user = (if sender = FromUser then Some who else None),
               ms_admin = (if sender = FromAdmin then Some who else None),
               ms_body = body, ms_created = clock d\<rparr>]\<rparr>))"

definition sendMessage :: "nat \<Rightarrow> jstring option \<Rightarrow> auth \<Rightarrow> unit outcome io" where
  "sendMessage i body au =
     (let msg = js_trim (or_empty body)
      in if msg = [] then ret (Reject BAD_REQUEST ''message_body_required'')
         else catch
           (bnd (ownOpenSession i (au_id au)) (\<lambda>s.
              if s = None then ret (Reject FORBIDDEN ''support_session_unavailable'')
              else bnd (sql (insert_message i FromUser (au_id au) (take MAX_BODY msg))) (\<lambda>_.
                   bnd (execute (\<lambda>d. ((), update_session i
                          (\<lambda>now s. s\<lparr>su_last_message := Some now, su_user_read := Some now\<rparr>) d))) (\<lambda>_.
                     ret (Resolve CREATED ''support_message_sent'' ())))))
           (\<lambda>_. ret (Reject INTERNAL_SERVER_ERROR ''internal_server_error'')))"

text \<open>Messages of one side the other has not read.\<close>

definition unread :: "support_sender \<Rightarrow> int option \<Rightarrow> support_message \<Rightarrow> bool" where
  "unread sender seen m \<longleftrightarrow>
     ms_sender m = sender \<and> (case seen of None \<Rightarrow> True | Some t \<Rightarrow> ms_created m > t)"

definition unread_count :: "support_sender \<Rightarrow> (support_session \<Rightarrow> int option) \<Rightarrow> nat \<Rightarrow> database \<Rightarrow> nat" where
  "unread_count sender seen i d =
     length (filter (\<lambda>(m, s). ms_session m = i \<and> su_id s = ms_session m \<and> unread sender (seen s) m)
               (List.product (support_messages d) (support_sessions d)))"

definition getUnread :: "auth \<Rightarrow> (nat option \<times> nat) outcome io" where
  "getUnread au =
     catch
       (bnd (findOpenSession (au_id au)) (\<lambda>s.
          case s of
            None \<Rightarrow> ret (Resolve OK ''support_unread_retrieved'' (None, 0))
          | Some x \<Rightarrow> bnd (select (unread_count FromAdmin su_user_read (su_id x))) (\<lambda>n.
                        ret (Resolve OK ''support_unread_retrieved'' (Some (su_id x), n)))))
       (\<lambda>_. ret (Reject INTERNAL_SERVER_ERROR ''internal_server_error''))"

section \<open>The admin's side\<close>

definition admin_sendMessage :: "nat \<Rightarrow> jstring option \<Rightarrow> nat \<Rightarrow> unit outcome io" where
  "admin_sendMessage i body admin =
     (let msg = js_trim (or_empty body)
      in if msg = [] then ret (Reject BAD_REQUEST ''message_body_required'')
         else catch
           (bnd (select (\<lambda>d. find (\<lambda>s. su_id s = i) (support_sessions d))) (\<lambda>s.
              case s of
                None \<Rightarrow> ret (Reject NOT_FOUND ''support_session_not_found'')
              | Some x \<Rightarrow>
                  if \<not> su_open x then ret (Reject BAD_REQUEST ''support_session_closed'')
                  else bnd (sql (insert_message i FromAdmin admin (take MAX_BODY msg))) (\<lambda>_.
                       bnd (execute (\<lambda>d. ((), update_session i
                              (\<lambda>now s. s\<lparr>su_last_message := Some now, su_admin_read := Some now\<rparr>) d))) (\<lambda>_.
                         ret (Resolve CREATED ''support_message_sent'' ())))))
           (\<lambda>_. ret (Reject INTERNAL_SERVER_ERROR ''internal_server_error'')))"

definition close_sessions :: "nat \<Rightarrow> nat \<Rightarrow> database \<Rightarrow> exn + (nat \<times> database)" where
  "close_sessions i admin d =
     (let P = (\<lambda>s. su_id s = i \<and> su_open s); n = length (filter P (support_sessions d))
      in if n \<noteq> 0 \<and> \<not> has_user d admin then Inl DbError
         else Inr (n, d\<lparr>support_sessions := update_where P
                (\<lambda>s. s\<lparr>su_open := False, su_closed_at := Some (clock d), su_closed_by := Some admin\<rparr>)
                (support_sessions d)\<rparr>))"

definition closeSession :: "nat \<Rightarrow> nat \<Rightarrow> unit outcome io" where
  "closeSession i admin =
     catch
       (bnd (sql (close_sessions i admin)) (\<lambda>n.
        bnd (if n = 0 then select (\<lambda>d. list_ex (\<lambda>s. su_id s = i) (support_sessions d)) else ret True) (\<lambda>known.
          if known then ret (Resolve OK ''support_session_closed_success'' ())
          else ret (Reject NOT_FOUND ''support_session_not_found''))))
       (\<lambda>_. ret (Reject INTERNAL_SERVER_ERROR ''internal_server_error''))"

definition getSession :: "nat \<Rightarrow> (support_session \<times> jstring option \<times> support_message list) outcome io" where
  "getSession i =
     catch
       (bnd (select (\<lambda>d. map_option (\<lambda>s. (s, map_option t_name (find (\<lambda>t. Some (t_id t) = su_tenant s) (tenants d))))
               (find (\<lambda>s. su_id s = i) (support_sessions d)))) (\<lambda>row.
          case row of
            None \<Rightarrow> ret (Reject NOT_FOUND ''support_session_not_found'')
          | Some (s, workspace) \<Rightarrow>
              bnd (select (messages_of i)) (\<lambda>ms.
              bnd (execute (\<lambda>d. ((), update_session i (\<lambda>now s. s\<lparr>su_admin_read := Some now\<rparr>) d))) (\<lambda>_.
                ret (Resolve OK ''admin_data_retrieved'' (s, workspace, ms))))))
       (\<lambda>_. ret (Reject INTERNAL_SERVER_ERROR ''internal_server_error''))"

text \<open>The queue: sessions with a message, open ones first, then by their last message.\<close>

record support_row =
  sr_session :: support_session
  sr_workspace :: "jstring option"
  sr_unread :: nat
  sr_last :: "jstring option"

definition support_row_of :: "database \<Rightarrow> support_session \<Rightarrow> support_row" where
  "support_row_of d s =
     \<lparr>sr_session = s, sr_workspace = map_option t_name (find (\<lambda>t. Some (t_id t) = su_tenant s) (tenants d)),
      sr_unread = length (filter (unread FromUser (su_admin_read s)) (messages_of (su_id s) d)),
      sr_last = map_option ms_body (first_row (rev (messages_of (su_id s) d)))\<rparr>"

definition queue_order :: "support_session list \<Rightarrow> support_session list" where
  "queue_order ss =
     sort_key (\<lambda>s. if su_open s then 0 else 1 :: nat)
       (sort_key (\<lambda>s. if su_last_message s = None then 1 else 0 :: nat)
          (sort_key (\<lambda>s. case su_last_message s of None \<Rightarrow> 0 | Some t \<Rightarrow> - t)
             (sort_key (\<lambda>s. - int (su_id s)) ss)))"

definition listSessions :: "string option \<Rightarrow> support_row list outcome io" where
  "listSessions status =
     catch
       (bnd (select (\<lambda>d. map (support_row_of d) (queue_order
               (filter (\<lambda>s. messages_of (su_id s) d \<noteq> []
                          \<and> (status = Some ''open'' \<longrightarrow> su_open s) \<and> (status = Some ''closed'' \<longrightarrow> \<not> su_open s))
                  (support_sessions d))))) (\<lambda>rows.
          ret (Resolve OK ''admin_data_retrieved'' rows)))
       (\<lambda>_. ret (Reject INTERNAL_SERVER_ERROR ''internal_server_error''))"

definition getInboxUnread :: "nat outcome io" where
  "getInboxUnread =
     catch
       (bnd (select (\<lambda>d. length (filter (\<lambda>s. su_open s \<and>
               list_ex (unread FromUser (su_admin_read s)) (messages_of (su_id s) d)) (support_sessions d)))) (\<lambda>n.
          ret (Resolve OK ''admin_data_retrieved'' n)))
       (\<lambda>_. ret (Reject INTERNAL_SERVER_ERROR ''internal_server_error''))"

end
