(* ===== verification/Support_Facts.thy ===== *)
theory Support_Facts
  imports Support_Chat
begin

text \<open>
  What the support chat promises: a user has at most one open session, and a closed one is
  final, out of the user's reach and complete in the archive.
\<close>

section \<open>Runs of the chat\<close>

datatype chat_request =
    UserOpens auth | UserReads nat auth | UserWrites nat "jstring option" auth | UserBadge auth
  | AdminLists "string option" | AdminReads nat | AdminWrites nat "jstring option" nat | AdminCloses nat nat | AdminBadge

fun chat_endpoint :: "chat_request \<Rightarrow> unit io" where
  "chat_endpoint (UserOpens au) = bnd (openSession au) (\<lambda>_. ret ())"
| "chat_endpoint (UserReads i au) = bnd (getMessages i au) (\<lambda>_. ret ())"
| "chat_endpoint (UserWrites i body au) = bnd (sendMessage i body au) (\<lambda>_. ret ())"
| "chat_endpoint (UserBadge au) = bnd (getUnread au) (\<lambda>_. ret ())"
| "chat_endpoint (AdminLists status) = bnd (listSessions status) (\<lambda>_. ret ())"
| "chat_endpoint (AdminReads i) = bnd (getSession i) (\<lambda>_. ret ())"
| "chat_endpoint (AdminWrites i body a) = bnd (admin_sendMessage i body a) (\<lambda>_. ret ())"
| "chat_endpoint (AdminCloses i a) = bnd (closeSession i a) (\<lambda>_. ret ())"
| "chat_endpoint AdminBadge = bnd getInboxUnread (\<lambda>_. ret ())"

definition chat_tables :: "database \<Rightarrow> support_session list \<times> support_message list \<times> nat" where
  "chat_tables d = (support_sessions d, support_messages d, next_id ''support_sessions'' d)"

inductive chat_step :: "world \<Rightarrow> world \<Rightarrow> bool" where
  request: "chat_step w (snd (chat_endpoint q w))"
| elsewhere: "chat_tables (db w') = chat_tables (db w) \<Longrightarrow> chat_step w w'"

inductive_cases chat_stepE: "chat_step w w'"

text \<open>
  A condition on the database is a chat invariant if it depends on the tables of the chat only
  and the statements of the handlers keep it.
\<close>

locale chat_invariant =
  fixes inv :: "database \<Rightarrow> bool"
  assumes tables: "chat_tables d = chat_tables d' \<Longrightarrow> inv d \<Longrightarrow> inv d'"
    and new_session: "inv d \<Longrightarrow> open_session_of u d = None \<Longrightarrow> insert_support_session t u e name d = Inr (i, d') \<Longrightarrow> inv d'"
    and new_message: "inv d \<Longrightarrow> s \<in> set (support_sessions d) \<Longrightarrow> su_id s = i \<Longrightarrow> su_open s \<Longrightarrow>
          insert_message i sender who body d = Inr (x, d') \<Longrightarrow> inv d'"
    and touched: "inv d \<Longrightarrow> (\<And>now s. su_id (f now s) = su_id s \<and> su_open (f now s) = su_open s \<and> su_user (f now s) = su_user s) \<Longrightarrow>
          inv (update_session i f d)"
    and closed: "inv d \<Longrightarrow> close_sessions i a d = Inr (n, d') \<Longrightarrow> inv d'"
begin

lemma touch_keeps [keeps]:
  assumes "\<And>now s. su_id (f now s) = su_id s \<and> su_open (f now s) = su_open s \<and> su_user (f now s) = su_user s"
  shows "preserves inv (execute (\<lambda>d. ((), update_session i f d)))"
  using touched [OF _ assms] by (intro preserves_execute) simp

lemma close_keeps [keeps]: "preserves inv (sql (close_sessions i a))"
  using closed by (intro preserves_sql) auto

lemma opens: "preserves inv (openSession au)"
  unfolding openSession_def findOpenSession_def
  by (rule preservesI) (auto simp: new_session split: option.splits sum.splits)

lemma reads: "preserves inv (getMessages i au)" "preserves inv (getSession i)"
  unfolding getMessages_def getSession_def ownOpenSession_def by (intro keeps; simp)+

lemma writes: "preserves inv (sendMessage i body au)" "preserves inv (admin_sendMessage i body a)"
  unfolding sendMessage_def admin_sendMessage_def ownOpenSession_def Let_def
  by (rule preservesI, auto dest!: findD simp: open_of_def intro!: touched intro: new_message split: option.splits sum.splits)+

lemma closes: "preserves inv (closeSession i a)"
  unfolding closeSession_def by (intro keeps)

lemma looks: "preserves inv (getUnread au)" "preserves inv (listSessions status)" "preserves inv getInboxUnread"
  unfolding getUnread_def listSessions_def getInboxUnread_def findOpenSession_def by (intro keeps)+

lemma endpoint_keeps: "preserves inv (chat_endpoint q)"
  by (cases q) (auto intro!: keeps opens reads writes closes looks)

lemma step_keeps: "chat_step w w' \<Longrightarrow> inv (db w) \<Longrightarrow> inv (db w')"
  by (erule chat_stepE) (auto intro: preservesD [OF endpoint_keeps] tables)

lemma chat_run_keeps: "chat_step\<^sup>*\<^sup>* w w' \<Longrightarrow> inv (db w) \<Longrightarrow> inv (db w')"
  by (induction rule: rtranclp_induct) (auto intro: step_keeps)

end

section \<open>One open session\<close>

definition one_open :: "database \<Rightarrow> bool" where
  "one_open d \<longleftrightarrow> (\<forall>u. length (filter (open_of u) (support_sessions d)) \<le> 1)"

lemma filter_update_same:
  "(\<And>x. Q (f x) = Q x) \<Longrightarrow> filter Q (update_where P f xs) = update_where P f (filter Q xs)"
  by (induction xs) (auto simp: update_where_def)

lemma filter_update_fewer:
  "(\<And>x. Q (f x) \<Longrightarrow> Q x) \<Longrightarrow> length (filter Q (update_where P f xs)) \<le> length (filter Q xs)"
  by (induction xs) (auto simp: update_where_def)

lemma open_session_None: "open_session_of u d = None \<longleftrightarrow> filter (open_of u) (support_sessions d) = []"
proof -
  have "sort_key f xs = [] \<longleftrightarrow> xs = []" for f :: "support_session \<Rightarrow> int" and xs
    by (metis length_0_conv length_sort)
  then show ?thesis by (auto simp: open_session_of_def first_row_def split: list.splits)
qed

interpretation one_open: chat_invariant one_open
proof (unfold_locales, goal_cases)
  case (1 d d')
  then show ?case by (simp add: one_open_def chat_tables_def)
next
  case (2 d u t e name i d')
  then show ?case
    by (auto simp: one_open_def open_session_None insert_support_session_def bump_id_def open_of_def Let_def split: if_splits)
next
  case (3 d s i sender who body x d')
  then show ?case by (auto simp: one_open_def insert_message_def bump_id_def split: if_splits)
next
  case (4 d f i)
  then have "filter (open_of u) (support_sessions (update_session i f d)) =
      update_where (\<lambda>s. su_id s = i) (f (clock d)) (filter (open_of u) (support_sessions d))" for u
    unfolding update_session_def by (simp add: filter_update_same open_of_def)
  with 4 show ?case by (simp add: one_open_def)
next
  case (5 d i a n d')
  let ?f = "\<lambda>s. s\<lparr>su_open := False, su_closed_at := Some (clock d), su_closed_by := Some a\<rparr>"
  have "length (filter (open_of u) (update_where (\<lambda>s. su_id s = i \<and> su_open s) ?f (support_sessions d))) \<le> 1" for u
    using 5(1) by (intro order_trans [OF filter_update_fewer]) (auto simp: one_open_def open_of_def)
  with 5(2) show ?case by (auto simp: one_open_def close_sessions_def Let_def split: if_splits)
qed

text \<open>
  A user never has two open support sessions: along every run of the chat, whatever its
  users and admins send and whatever fails, opening the chat resumes the open session if there
  is one.
\<close>

theorem one_open_session:
  assumes "chat_step\<^sup>*\<^sup>* w w'" and "one_open (db w)"
  shows "length (filter (open_of u) (support_sessions (db w'))) \<le> 1"
  using one_open.chat_run_keeps [OF assms] by (simp add: one_open_def)

section \<open>A closed session is final\<close>

definition closed_with :: "nat \<Rightarrow> support_message list \<Rightarrow> database \<Rightarrow> bool" where
  "closed_with i ms d \<longleftrightarrow>
     i < next_id ''support_sessions'' d
     \<and> (\<forall>s \<in> set (support_sessions d). su_id s = i \<longrightarrow> \<not> su_open s)
     \<and> messages_of i d = ms"

interpretation closed: chat_invariant "closed_with i ms"
proof (unfold_locales, goal_cases)
  case (1 d d')
  then show ?case by (simp add: closed_with_def chat_tables_def messages_of_def)
next
  case (2 d u t e name j d')
  then show ?case
    by (auto simp: closed_with_def insert_support_session_def bump_id_def next_id_def messages_of_def Let_def
        split: if_splits)
next
  case (3 d s j sender who body x d')
  then show ?case
    by (auto simp: closed_with_def insert_message_def bump_id_def next_id_def messages_of_def split: if_splits)
next
  case (4 d f j)
  then show ?case
    by (auto simp: closed_with_def update_session_def messages_of_def next_id_def set_update_where)
next
  case (5 d j a n d')
  then show ?case
    by (auto simp: closed_with_def close_sessions_def messages_of_def next_id_def set_update_where Let_def split: if_splits)
qed

lemma closed_refuses:
  assumes "closed_with i ms (db w)"
  shows "wp (getMessages i au) (\<lambda>r _. \<exists>c k. r = Inr (Reject c k)) w"
    and "wp (sendMessage i body au) (\<lambda>r _. \<exists>c k. r = Inr (Reject c k)) w"
    and "wp (admin_sendMessage i body a) (\<lambda>r _. \<exists>c k. r = Inr (Reject c k)) w"
proof -
  have none: "find (\<lambda>s. su_id s = i \<and> open_of u s) (support_sessions (db w)) = None" for u
    using assms by (auto simp: closed_with_def find_None_iff open_of_def)
  have shut: "find (\<lambda>s. su_id s = i) (support_sessions (db w)) = Some s \<Longrightarrow> \<not> su_open s" for s
    using assms by (auto simp: closed_with_def dest!: findD)
  show "wp (getMessages i au) (\<lambda>r _. \<exists>c k. r = Inr (Reject c k)) w"
    "wp (sendMessage i body au) (\<lambda>r _. \<exists>c k. r = Inr (Reject c k)) w"
    "wp (admin_sendMessage i body a) (\<lambda>r _. \<exists>c k. r = Inr (Reject c k)) w"
    using none shut
    by (auto simp: getMessages_def sendMessage_def admin_sendMessage_def ownOpenSession_def Let_def split: option.splits)
qed

text \<open>
  C27: Closing is final: in every later run of the chat the closed session stays closed with
  exactly the messages it had, its user can neither read it nor write to it, and no admin can
  write to it.
\<close>

theorem closed_session_is_final:
  assumes "chat_step\<^sup>*\<^sup>* w w'" and "closed_with i ms (db w)"
  shows "closed_with i ms (db w')
    \<and> wp (getMessages i au) (\<lambda>r _. \<exists>c k. r = Inr (Reject c k)) w'
    \<and> wp (sendMessage i body au) (\<lambda>r _. \<exists>c k. r = Inr (Reject c k)) w'
    \<and> wp (admin_sendMessage i body a) (\<lambda>r _. \<exists>c k. r = Inr (Reject c k)) w'"
  using closed.chat_run_keeps [OF assms] closed_refuses by blast

definition chat_user :: auth where
  "chat_user = \<lparr>au_id = 1, au_tenant = Some 1, au_role = Owner, au_email = js ''a@x.io'', au_sid = None\<rparr>"

definition closed_chat :: database where
  "closed_chat = demo_db\<lparr>support_sessions :=
     [\<lparr>su_id = 4, su_tenant = Some 1, su_user = Some 1, su_email = js ''a@x.io'', su_name = None, su_open = False,
       su_created = 0, su_last_message = None, su_user_read = None, su_admin_read = None, su_closed_at = Some 5,
       su_closed_by = Some 3\<rparr>]\<rparr>"

lemma one_open_session_witness:
  "length (filter (open_of 1) (support_sessions
     (db (snd (chat_endpoint (UserOpens chat_user) (demo_world demo_db)))))) \<le> 1"
proof (rule one_open_session)
  show "one_open (db (demo_world demo_db))" by (simp add: one_open_def demo_db_def empty_db_def)
qed (intro r_into_rtranclp chat_step.request)

lemma closed_session_is_final_witness:
  "let w' = snd (chat_endpoint (UserWrites 4 (Some (js ''hello'')) chat_user) (demo_world closed_chat))
   in closed_with 4 [] (db w')
    \<and> wp (getMessages 4 chat_user) (\<lambda>r _. \<exists>c k. r = Inr (Reject c k)) w'
    \<and> wp (sendMessage 4 None chat_user) (\<lambda>r _. \<exists>c k. r = Inr (Reject c k)) w'
    \<and> wp (admin_sendMessage 4 None 3) (\<lambda>r _. \<exists>c k. r = Inr (Reject c k)) w'"
  unfolding Let_def
proof (rule closed_session_is_final)
  show "closed_with 4 [] (db (demo_world closed_chat))"
    by (simp add: closed_with_def closed_chat_def messages_of_def next_id_def demo_db_def empty_db_def)
qed (intro r_into_rtranclp chat_step.request)

end
