(* ===== verification/Board_Reads.thy ===== *)
theory Board_Reads
  imports Workspace_Board "HOL-Library.List_Lexorder"
begin

text \<open>
  What a board shows: the public listing, the post with its thread, the roadmap and the
  changelog (\<open>src/main/public/\<close>), and the listings of the dashboard
  (\<open>src/main/post/getPostList.js\<close>, \<open>getPostById.js\<close>, \<open>getDuplicateSuggestions.js\<close>,
  \<open>src/main/comment/getPostComments.js\<close> and the lists of tags and roadmap).
  Rows that compare equal under an ORDER BY come in the order of their primary key.
\<close>

section \<open>Orders and pages\<close>

datatype board_sort = SortNewest | SortOldest | SortMost | SortLeast

definition SORTS :: "string \<Rightarrow> board_sort option" where
  "SORTS s = (if s = ''newest'' then Some SortNewest else if s = ''oldest'' then Some SortOldest
     else if s = ''most_voted'' then Some SortMost else if s = ''least_voted'' then Some SortLeast else None)"

text \<open>\<open>ORDER BY p.is_pinned DESC, \<dots>\<close>; the keys are applied from the least significant on.\<close>

definition order_posts :: "(post \<Rightarrow> nat) \<Rightarrow> board_sort \<Rightarrow> post list \<Rightarrow> post list" where
  "order_posts count s ps =
     sort_key (\<lambda>p. if p_pinned p then 0 else (1 :: int))
       (case s of
          SortNewest \<Rightarrow> sort_key (\<lambda>p. - p_created p) ps
        | SortOldest \<Rightarrow> sort_key p_created ps
        | SortMost \<Rightarrow> sort_key (\<lambda>p. - int (count p)) (sort_key (\<lambda>p. - p_created p) ps)
        | SortLeast \<Rightarrow> sort_key (\<lambda>p. int (count p)) (sort_key (\<lambda>p. - p_created p) ps))"

text \<open>\<open>LIMIT n OFFSET k\<close>; a negative number is a syntax error for the database.\<close>

definition limit_rows :: "int \<Rightarrow> int \<Rightarrow> 'a list \<Rightarrow> 'a list" where
  "limit_rows n k xs = take (nat n) (drop (nat k) xs)"

definition select_page :: "int \<Rightarrow> int \<Rightarrow> (database \<Rightarrow> 'a list) \<Rightarrow> 'a list io" where
  "select_page n k f = sql (\<lambda>d. if n < 0 \<or> k < 0 then Inl DbError else Inr (limit_rows n k (f d), d))"

section \<open>Joined columns\<close>

definition user_by_id :: "database \<Rightarrow> nat option \<Rightarrow> user option" where
  "user_by_id d a = (case a of None \<Rightarrow> None | Some i \<Rightarrow> find (\<lambda>u. u_id u = i) (users d))"

text \<open>\<open>COALESCE(u.full_name, submitter_name, 'Anonymous')\<close>.\<close>

definition shown_name :: "user option \<Rightarrow> jstring option \<Rightarrow> jstring" where
  "shown_name u submitter =
     (case u of Some x \<Rightarrow> u_name x | None \<Rightarrow> (case submitter of Some n \<Rightarrow> n | None \<Rightarrow> js ''Anonymous''))"

text \<open>\<open>EXISTS (SELECT 1 FROM users a WHERE a.email = u.email AND a.is_platform_admin = 1 \<dots>)\<close>.\<close>

definition shown_admin :: "database \<Rightarrow> user option \<Rightarrow> bool" where
  "shown_admin d u \<longleftrightarrow>
     (case u of None \<Rightarrow> False
      | Some x \<Rightarrow> list_ex (\<lambda>a. sql_eq (u_email a) (u_email x) \<and> u_admin a \<and> u_active a) (users d))"

definition tenant_votes :: "nat \<Rightarrow> nat \<Rightarrow> database \<Rightarrow> nat" where
  "tenant_votes t i d = length (filter (\<lambda>v. v_tenant v = t \<and> v_post v = i) (votes d))"

text \<open>The tag of a link is looked up by its id alone.\<close>

definition tags_of :: "nat \<Rightarrow> nat \<Rightarrow> database \<Rightarrow> tag list" where
  "tags_of t i d =
     concat (map (\<lambda>x. filter (\<lambda>g. g_id g = pt_tag x) (tags d))
       (filter (\<lambda>x. pt_tenant x = t \<and> pt_post x = i) (post_tags d)))"

definition comments_of :: "nat \<Rightarrow> nat \<Rightarrow> database \<Rightarrow> board_comment list" where
  "comments_of t i d = filter (\<lambda>c. c_tenant c = t \<and> c_post c = i) (comments d)"

section \<open>The public listing\<close>

record board_page =
  pg_sort :: "string option"
  pg_order :: "string option"
  pg_items :: "int option"
  pg_offset :: "int option"
  pg_filter :: "jstring option"

record board_filter =
  bf_status :: "string option"
  bf_type :: "string option"
  bf_tag :: "nat option"
  bf_pinned :: "bool option"
  bf_moderation :: "string option"
  bf_search :: "jstring option"

definition MAX_ITEMS_PER_PAGE :: "services \<Rightarrow> int" where
  "MAX_ITEMS_PER_PAGE s = env_or s ''PUBLIC_MAX_ITEMS_PER_PAGE'' 50"

definition MAX_OFFSET :: "services \<Rightarrow> int" where
  "MAX_OFFSET s = env_or s ''PUBLIC_MAX_OFFSET'' 100000"

definition MAX_SEARCH_LENGTH :: nat where "MAX_SEARCH_LENGTH = 100"

text \<open>\<open>filters?.search || paginationData?.filterBy || ""\<close>, trimmed.\<close>

definition search_text :: "board_filter \<Rightarrow> board_page \<Rightarrow> jstring" where
  "search_text f pg =
     js_trim (case or_null (or_empty (bf_search f)) of Some s \<Rightarrow> s | None \<Rightarrow> or_empty (pg_filter pg))"

text \<open>The conditions both listings build from the request.\<close>

definition filter_where :: "nat \<Rightarrow> board_filter \<Rightarrow> jstring \<Rightarrow> database \<Rightarrow> post \<Rightarrow> bool" where
  "filter_where t f search d p \<longleftrightarrow>
     (case bf_status f of None \<Rightarrow> True | Some s \<Rightarrow> s = [] \<or> enum_is (status_text (p_status p)) s)
     \<and> (case bf_type f of None \<Rightarrow> True | Some s \<Rightarrow> s = [] \<or> enum_is (post_type_text (p_type p)) s)
     \<and> (case bf_tag f of None \<Rightarrow> True
        | Some g \<Rightarrow> g = 0 \<or> list_ex (\<lambda>x. pt_tag x = g \<and> pt_tenant x = t \<and> pt_post x = p_id p) (post_tags d))
     \<and> (search = [] \<or> sql_like (37 # search @ [37]) (p_title p) \<or> sql_like (37 # search @ [37]) (p_description p))"

definition public_where :: "nat \<Rightarrow> board_filter \<Rightarrow> jstring \<Rightarrow> database \<Rightarrow> post \<Rightarrow> bool" where
  "public_where t f search d p \<longleftrightarrow>
     p_tenant p = t \<and> p_moderation p \<noteq> Spam \<and> filter_where t f search d p"

text \<open>The columns of the card; no email, guest id or hash is among them.\<close>

record board_card =
  bc_id :: nat
  bc_title :: jstring
  bc_description :: jstring
  bc_type :: post_type
  bc_status :: post_status
  bc_priority :: int
  bc_pinned :: bool
  bc_created :: int
  bc_author :: jstring
  bc_votes :: nat
  bc_tags :: "tag list"
  bc_comments :: nat
  bc_attachments :: nat
  bc_thumbnail :: "jstring option"

definition public_row :: "nat \<Rightarrow> database \<Rightarrow> post \<Rightarrow> board_card" where
  "public_row t d p =
     \<lparr>bc_id = p_id p, bc_title = p_title p, bc_description = p_description p, bc_type = p_type p,
      bc_status = p_status p, bc_priority = p_priority p, bc_pinned = p_pinned p, bc_created = p_created p,
      bc_author = shown_name (user_by_id d (p_author p)) (p_submitter_name p),
      bc_votes = tenant_votes t (p_id p) d, bc_tags = [], bc_comments = 0, bc_attachments = 0,
      bc_thumbnail = None\<rparr>"

definition public_listing :: "nat \<Rightarrow> board_filter \<Rightarrow> jstring \<Rightarrow> board_sort \<Rightarrow> database \<Rightarrow> post list" where
  "public_listing t f search s d =
     order_posts (\<lambda>p. tenant_votes t (p_id p) d) s (filter (public_where t f search d) (posts d))"

text \<open>The first image of a post, in the order of the ids.\<close>

definition thumbnail :: "attachment list \<Rightarrow> jstring option" where
  "thumbnail xs = map_option a_path (find (\<lambda>a. a_kind a = ImageFile) xs)"

definition visible_comments :: "nat \<Rightarrow> nat \<Rightarrow> database \<Rightarrow> board_comment list" where
  "visible_comments t i d = filter (\<lambda>c. c_moderation c \<noteq> Spam) (comments_of t i d)"

text \<open>What the handler reads off the request.\<close>

definition board_order :: "board_page \<Rightarrow> board_sort" where
  "board_order pg = (case pg_sort pg of None \<Rightarrow> SortNewest | Some x \<Rightarrow> (case SORTS x of None \<Rightarrow> SortNewest | Some y \<Rightarrow> y))"

definition page_size :: "services \<Rightarrow> board_page \<Rightarrow> int" where
  "page_size s pg = min (max 1 (int_or 20 (pg_items pg))) (MAX_ITEMS_PER_PAGE s)"

definition page_offset :: "services \<Rightarrow> board_page \<Rightarrow> int" where
  "page_offset s pg = min (max 0 (int_or 0 (pg_offset pg))) (MAX_OFFSET s)"

definition board_search :: "board_page \<Rightarrow> board_filter \<Rightarrow> jstring" where
  "board_search pg f = take MAX_SEARCH_LENGTH (search_text f pg)"

text \<open>The three batched lookups over the ids of the page, as functions of the post id.\<close>

definition complete_card :: "(nat \<Rightarrow> tag list) \<Rightarrow> (nat \<Rightarrow> nat) \<Rightarrow> (nat \<Rightarrow> attachment list) \<Rightarrow> board_card \<Rightarrow> board_card" where
  "complete_card tagsByPost commentsByPost attachmentsByPost r =
     r\<lparr>bc_tags := tagsByPost (bc_id r), bc_comments := commentsByPost (bc_id r),
       bc_attachments := length (attachmentsByPost (bc_id r)),
       bc_thumbnail := thumbnail (attachmentsByPost (bc_id r))\<rparr>"

definition getPublicBoard :: "nat \<Rightarrow> board_page \<Rightarrow> board_filter \<Rightarrow> (board_card list \<times> nat) outcome io" where
  "getPublicBoard tenantId pg f =
     bnd (asks svc) (\<lambda>s.
       catch
         (bnd (select_page (page_size s pg) (page_offset s pg) (\<lambda>d.
                 map (public_row tenantId d) (public_listing tenantId f (board_search pg f) (board_order pg) d))) (\<lambda>rows.
          bnd (select (\<lambda>d. length (filter (public_where tenantId f (board_search pg f) d) (posts d)))) (\<lambda>matching.
            if rows = [] then ret (Resolve OK ''posts_retrieved_successfully'' ([], matching))
            else bnd (select (\<lambda>d i. tags_of tenantId i d)) (\<lambda>tagsByPost.
                 bnd (select (\<lambda>d i. length (visible_comments tenantId i d))) (\<lambda>commentsByPost.
                 bnd (select (\<lambda>d i. attachments_of i tenantId d)) (\<lambda>attachmentsByPost.
                   ret (Resolve OK ''posts_retrieved_successfully''
                     (map (complete_card tagsByPost commentsByPost attachmentsByPost) rows, matching))))))))
         (\<lambda>_. ret (Reject INTERNAL_SERVER_ERROR ''failed_to_get_posts'')))"

section \<open>One post and its thread\<close>

record thread_comment =
  tc_id :: nat
  tc_parent :: "nat option"
  tc_body :: jstring
  tc_edited :: bool
  tc_created :: int
  tc_author_id :: "nat option"
  tc_guest :: "jstring option"
  tc_as_owner :: nat
  tc_name :: "jstring option"
  tc_avatar :: "jstring option"
  tc_admin :: bool

text \<open>The owner's identity shows only while the author is still the owner of this workspace.\<close>

definition as_owner_of :: "user option \<Rightarrow> board_comment \<Rightarrow> nat" where
  "as_owner_of u c =
     (case u of Some x \<Rightarrow> if u_role x = Owner \<and> u_tenant x = Some (c_tenant c) then c_as_owner c else 0
      | None \<Rightarrow> 0)"

definition thread_row :: "database \<Rightarrow> board_comment \<Rightarrow> thread_comment" where
  "thread_row d c =
     (let u = user_by_id d (c_author c); withheld = (as_owner_of u c = 2)
      in \<lparr>tc_id = c_id c, tc_parent = c_parent c, tc_body = c_body c, tc_edited = c_edited c,
          tc_created = c_created c, tc_author_id = c_author c, tc_guest = c_guest c,
          tc_as_owner = as_owner_of u c,
          tc_name = (if withheld then None else Some (shown_name u (c_submitter_name c))),
          tc_avatar = (if withheld then (case find (\<lambda>t. t_id t = c_tenant c) (tenants d) of
                                           None \<Rightarrow> None | Some t \<Rightarrow> t_logo t)
                       else (case u of None \<Rightarrow> None | Some x \<Rightarrow> u_avatar x)),
          tc_admin = shown_admin d u\<rparr>)"

record public_post =
  pp_card :: board_card
  pp_duplicate_of :: "nat option"
  pp_author_id :: "nat option"
  pp_guest :: "jstring option"
  pp_avatar :: "jstring option"
  pp_admin :: bool
  pp_thread :: "thread_comment list"
  pp_files :: "attachment list"

text \<open>The counts of the detail are by post id alone, over every workspace's rows.\<close>

definition public_detail :: "database \<Rightarrow> post \<Rightarrow> public_post" where
  "public_detail d p =
     (let u = user_by_id d (p_author p)
      in \<lparr>pp_card = (public_row (p_tenant p) d p)
            \<lparr>bc_votes := vote_count (p_id p) d,
             bc_comments := length (filter (\<lambda>c. c_post c = p_id p \<and> c_moderation c \<noteq> Spam) (comments d))\<rparr>,
          pp_duplicate_of = p_duplicate_of p, pp_author_id = p_author p, pp_guest = p_guest p,
          pp_avatar = (case u of None \<Rightarrow> None | Some x \<Rightarrow> u_avatar x), pp_admin = shown_admin d u,
          pp_thread = [], pp_files = []\<rparr>)"

definition getPublicPostDetail :: "nat \<Rightarrow> nat \<Rightarrow> public_post outcome io" where
  "getPublicPostDetail tenantId postId =
     catch
       (bnd (select (\<lambda>d. map_option (public_detail d)
               (find (\<lambda>p. p_id p = postId \<and> p_tenant p = tenantId \<and> p_moderation p \<noteq> Spam) (posts d)))) (\<lambda>row.
          case row of
            None \<Rightarrow> ret (Reject NOT_FOUND ''post_not_found'')
          | Some pd \<Rightarrow>
              bnd (select (tags_of tenantId postId)) (\<lambda>tgs.
              bnd (select (\<lambda>d. map (thread_row d) (sort_key c_created (visible_comments tenantId postId d)))) (\<lambda>thread.
              bnd (getAttachmentsForPost postId tenantId) (\<lambda>files.
                ret (Resolve OK ''post_retrieved_successfully''
                  (pd\<lparr>pp_card := (pp_card pd)\<lparr>bc_tags := tgs\<rparr>, pp_thread := thread, pp_files := files\<rparr>)))))))
       (\<lambda>_. ret (Reject INTERNAL_SERVER_ERROR ''failed_to_get_post''))"

section \<open>The roadmap\<close>

record roadmap_card =
  rm_item :: roadmap_item
  rm_title :: "jstring option"
  rm_description :: "jstring option"
  rm_status :: "post_status option"
  rm_type :: "post_type option"
  rm_column :: "jstring option"
  rm_votes :: nat

text \<open>\<open>LEFT JOIN posts p ON ri.post_id = p.id LEFT JOIN roadmap_columns rc ON \<dots>\<close>.\<close>

definition roadmap_row :: "database \<Rightarrow> roadmap_item \<Rightarrow> roadmap_card" where
  "roadmap_row d x =
     (let p = find (\<lambda>p. p_id p = ri_post x) (posts d)
      in \<lparr>rm_item = x, rm_title = map_option p_title p, rm_description = map_option p_description p,
          rm_status = map_option p_status p, rm_type = map_option p_type p,
          rm_column = map_option rc_name (find (\<lambda>c. rc_id c = ri_column x) (roadmap_columns d)),
          rm_votes = vote_count (ri_post x) d\<rparr>)"

definition columns_of :: "nat option \<Rightarrow> database \<Rightarrow> roadmap_column list" where
  "columns_of tenant d = sort_key rc_order (filter (\<lambda>c. Some (rc_tenant c) = tenant) (roadmap_columns d))"

definition items_of :: "nat option \<Rightarrow> database \<Rightarrow> roadmap_card list" where
  "items_of tenant d = map (roadmap_row d) (sort_key ri_order (filter (\<lambda>x. Some (ri_tenant x) = tenant) (roadmap_items d)))"

text \<open>The public rows leave the description out.\<close>

definition getPublicRoadmap :: "nat \<Rightarrow> (roadmap_column list \<times> roadmap_card list) outcome io" where
  "getPublicRoadmap tenantId =
     catch (bnd (select (columns_of (Some tenantId))) (\<lambda>cols.
            bnd (select (\<lambda>d. map (\<lambda>r. r\<lparr>rm_description := None\<rparr>) (items_of (Some tenantId) d))) (\<lambda>items.
              ret (Resolve OK ''roadmap_items_retrieved_successfully'' (cols, items)))))
           (\<lambda>_. ret (Reject INTERNAL_SERVER_ERROR ''failed_to_get_roadmap_items''))"

definition getRoadmapColumns :: "auth \<Rightarrow> roadmap_column list outcome io" where
  "getRoadmapColumns au =
     catch (bnd (select (columns_of (au_tenant au))) (\<lambda>rows.
              ret (Resolve OK ''roadmap_columns_retrieved_successfully'' rows)))
           (\<lambda>_. ret (Reject INTERNAL_SERVER_ERROR ''failed_to_get_roadmap_columns''))"

definition getRoadmapItems :: "auth \<Rightarrow> roadmap_card list outcome io" where
  "getRoadmapItems au =
     catch (bnd (select (items_of (au_tenant au))) (\<lambda>rows.
              ret (Resolve OK ''roadmap_items_retrieved_successfully'' rows)))
           (\<lambda>_. ret (Reject INTERNAL_SERVER_ERROR ''failed_to_get_roadmap_items''))"

section \<open>The changelog\<close>

definition published_entries :: "nat \<Rightarrow> database \<Rightarrow> changelog_entry list" where
  "published_entries t d = filter (\<lambda>e. cl_tenant e = t \<and> cl_published e) (changelog d)"

definition entry_time :: "changelog_entry \<Rightarrow> int" where
  "entry_time e = (case cl_published_at e of Some n \<Rightarrow> n | None \<Rightarrow> cl_created e)"

text \<open>Rows with the creator's name; there is no cap on the page size here.\<close>

definition getPublicChangelogList :: "nat \<Rightarrow> board_page \<Rightarrow> ((changelog_entry \<times> jstring option) list \<times> nat) outcome io" where
  "getPublicChangelogList tenantId pg =
     catch
       (bnd (select_page (int_or 20 (pg_items pg)) (int_or 0 (pg_offset pg)) (\<lambda>d.
               map (\<lambda>e. (e, map_option u_name (user_by_id d (Some (cl_created_by e)))))
                 (sort_key (\<lambda>e. if pg_order pg = Some ''asc'' then entry_time e else - entry_time e)
                   (published_entries tenantId d)))) (\<lambda>rows.
        bnd (select (\<lambda>d. length (published_entries tenantId d))) (\<lambda>total.
          ret (Resolve OK ''changelogs_retrieved_successfully'' (rows, total)))))
       (\<lambda>_. ret (Reject INTERNAL_SERVER_ERROR ''failed_to_get_changelogs''))"

definition getPublicChangelogDetail :: "nat \<Rightarrow> nat \<Rightarrow> (changelog_entry \<times> jstring option) outcome io" where
  "getPublicChangelogDetail tenantId i =
     catch
       (bnd (select (\<lambda>d. map_option (\<lambda>e. (e, map_option u_name (user_by_id d (Some (cl_created_by e)))))
               (find (\<lambda>e. cl_id e = i) (published_entries tenantId d)))) (\<lambda>row.
          case row of
            None \<Rightarrow> ret (Reject NOT_FOUND ''changelog_not_found'')
          | Some e \<Rightarrow> ret (Resolve OK ''changelog_retrieved_successfully'' e)))
       (\<lambda>_. ret (Reject INTERNAL_SERVER_ERROR ''failed_to_get_changelog''))"

section \<open>The dashboard's listings\<close>

record dash_card =
  dk_post :: post
  dk_author :: jstring
  dk_email :: "jstring option"
  dk_votes :: nat
  dk_voted :: bool
  dk_tags :: "tag list"
  dk_comments :: nat
  dk_files :: nat

definition user_voted :: "nat \<Rightarrow> nat \<Rightarrow> database \<Rightarrow> bool" where
  "user_voted u i d \<longleftrightarrow> list_ex (\<lambda>v. v_post v = i \<and> v_user v = Some u) (votes d)"

definition dash_row :: "auth \<Rightarrow> database \<Rightarrow> post \<Rightarrow> dash_card" where
  "dash_row au d p =
     \<lparr>dk_post = p, dk_author = shown_name (user_by_id d (p_author p)) (p_submitter_name p), dk_email = None,
      dk_votes = vote_count (p_id p) d, dk_voted = user_voted (au_id au) (p_id p) d, dk_tags = [], dk_comments = 0,
      dk_files = length (filter (\<lambda>a. a_post a = Some (p_id p)) (attachments d))\<rparr>"

text \<open>The review queue holds what is quarantined and what is only flagged.\<close>

definition dash_where :: "int \<Rightarrow> auth \<Rightarrow> board_filter \<Rightarrow> jstring \<Rightarrow> database \<Rightarrow> post \<Rightarrow> bool" where
  "dash_where flag au f search d p \<longleftrightarrow>
     Some (p_tenant p) = au_tenant au
     \<and> (if bf_moderation f = Some ''spam'' then p_moderation p = Spam \<or> p_score p \<ge> flag
        else p_moderation p \<noteq> Spam)
     \<and> (case bf_pinned f of None \<Rightarrow> True | Some b \<Rightarrow> p_pinned p = b)
     \<and> filter_where (p_tenant p) f search d p"

definition dash_sort :: "board_page \<Rightarrow> board_sort" where
  "dash_sort pg =
     (let legacy = (if pg_order pg = Some ''asc'' then SortOldest else SortNewest)
      in case pg_sort pg of None \<Rightarrow> legacy | Some x \<Rightarrow> (case SORTS x of None \<Rightarrow> legacy | Some y \<Rightarrow> y))"

text \<open>
  \<open>getPostList\<close>, with the module variable of \<open>maybePurgeExpiredSpam\<close> passed through: opening the
  queue starts the retention job, which is not awaited.
\<close>

definition getPostList :: "int \<Rightarrow> board_page \<Rightarrow> board_filter \<Rightarrow> auth \<Rightarrow> ((dash_card list \<times> nat) outcome \<times> int) io" where
  "getPostList lastRun pg f au =
     bnd (asks (\<lambda>w. FLAG_THRESHOLD (svc w))) (\<lambda>flag.
      let itemsPerPage = int_or 10 (pg_items pg); offset = int_or 0 (pg_offset pg); search = search_text f pg
      in bnd (if bf_moderation f = Some ''spam'' then maybePurgeExpiredSpam lastRun else ret lastRun) (\<lambda>last.
         bnd (catch
           (bnd (select_page itemsPerPage offset (\<lambda>d. map (dash_row au d)
                   (order_posts (\<lambda>p. vote_count (p_id p) d) (dash_sort pg) (filter (dash_where flag au f search d) (posts d))))) (\<lambda>rows.
            bnd (select (\<lambda>d. length (filter (dash_where flag au f search d) (posts d)))) (\<lambda>total.
              if rows = [] then ret (Resolve OK ''posts_retrieved_successfully'' ([], total))
              else bnd (select (\<lambda>d i. case au_tenant au of None \<Rightarrow> [] | Some t \<Rightarrow> tags_of t i d)) (\<lambda>tagsByPost.
                   bnd (select (\<lambda>d i. case au_tenant au of None \<Rightarrow> 0 | Some t \<Rightarrow> length (comments_of t i d))) (\<lambda>commentsByPost.
                     ret (Resolve OK ''posts_retrieved_successfully''
                       (map (\<lambda>r. r\<lparr>dk_tags := tagsByPost (p_id (dk_post r)),
                                   dk_comments := commentsByPost (p_id (dk_post r))\<rparr>) rows, total)))))))
           (\<lambda>_. ret (Reject INTERNAL_SERVER_ERROR ''failed_to_get_posts''))) (\<lambda>r. ret (r, last))))"

text \<open>The submitter's address is a paid capability and is cut off on Free.\<close>

definition getPostById :: "nat \<Rightarrow> auth \<Rightarrow> (dash_card \<times> attachment list) outcome io" where
  "getPostById i au =
     catch
       (bnd (select (\<lambda>d. map_option (\<lambda>p. (dash_row au d p)
               \<lparr>dk_email := submitter_address d p, dk_comments := length (filter (\<lambda>c. c_post c = i) (comments d))\<rparr>)
               (find (my_post au i) (posts d)))) (\<lambda>row.
          case row of
            None \<Rightarrow> ret (Reject NOT_FOUND ''post_not_found'')
          | Some r \<Rightarrow>
              let t = id_or_zero (au_tenant au)
              in bnd (select (tags_of t i)) (\<lambda>tgs.
                 bnd (getAttachmentsForPost i t) (\<lambda>files.
                 bnd (planAllows (au_tenant au) contactSubmitter) (\<lambda>canContact.
                   ret (Resolve OK ''post_retrieved_successfully''
                     (r\<lparr>dk_tags := tgs, dk_email := (if canContact then dk_email r else None)\<rparr>, files)))))))
       (\<lambda>_. ret (Reject INTERNAL_SERVER_ERROR ''failed_to_get_post''))"

definition getPostComments :: "nat \<Rightarrow> auth \<Rightarrow> (board_comment \<times> thread_comment) list outcome io" where
  "getPostComments postId au =
     catch (bnd (select (\<lambda>d. map (\<lambda>c. (c, thread_row d c))
                (sort_key c_created (filter (\<lambda>c. Some (c_tenant c) = au_tenant au \<and> c_post c = postId) (comments d))))) (\<lambda>rows.
              ret (Resolve OK ''comments_retrieved_successfully'' rows)))
           (\<lambda>_. ret (Reject INTERNAL_SERVER_ERROR ''failed_to_get_comments''))"

definition getPostVotes :: "nat \<Rightarrow> auth \<Rightarrow> (vote \<times> user option) list outcome io" where
  "getPostVotes postId au =
     catch (bnd (select (\<lambda>d. map (\<lambda>v. (v, user_by_id d (v_user v)))
                (filter (\<lambda>v. Some (v_tenant v) = au_tenant au \<and> v_post v = postId) (votes d)))) (\<lambda>rows.
              ret (Resolve OK ''votes_retrieved_successfully'' rows)))
           (\<lambda>_. ret (Reject INTERNAL_SERVER_ERROR ''failed_to_get_votes''))"

text \<open>\<open>ORDER BY name\<close> under a collation that ignores case.\<close>

definition getTagList :: "auth \<Rightarrow> tag list outcome io" where
  "getTagList au =
     catch (bnd (select (\<lambda>d. sort_key (\<lambda>g. js_lower (g_name g)) (filter (\<lambda>g. Some (g_tenant g) = au_tenant au) (tags d)))) (\<lambda>rows.
              ret (Resolve OK ''tags_retrieved_successfully'' rows)))
           (\<lambda>_. ret (Reject INTERNAL_SERVER_ERROR ''failed_to_get_tags''))"

section \<open>Suggested duplicates\<close>

definition STOP_WORDS :: "string list" where
  "STOP_WORDS = [''the'', ''and'', ''for'', ''with'', ''this'', ''that'', ''from'', ''add'', ''please'',
     ''need'', ''want'', ''when'', ''have'', ''are'', ''not'', ''but'', ''can'', ''how'', ''all'']"

text \<open>\<open>split(/[^a-z0-9]+/)\<close> without the empty pieces, which the length test drops.\<close>

definition keyword_char :: "nat \<Rightarrow> bool" where
  "keyword_char u \<longleftrightarrow> is_lower_ascii u \<or> is_digit u"

fun words_of :: "jstring \<Rightarrow> jstring list" where
  "words_of [] = []"
| "words_of (u # us) =
     (if keyword_char u
      then (case words_of us of
              [] \<Rightarrow> [[u]]
            | w # ws \<Rightarrow> if us \<noteq> [] \<and> keyword_char (hd us) then (u # w) # ws else [u] # w # ws)
      else words_of us)"

definition title_keywords :: "jstring \<Rightarrow> jstring list" where
  "title_keywords title = filter (\<lambda>w. length w \<ge> 3 \<and> w \<notin> set (map js STOP_WORDS)) (words_of (js_lower title))"

definition suggested :: "auth \<Rightarrow> nat \<Rightarrow> jstring list \<Rightarrow> database \<Rightarrow> post list" where
  "suggested au i keywords d =
     take 10 (sort_key (\<lambda>p. - int (vote_count (p_id p) d)) (sort_key (\<lambda>p. - p_created p)
       (filter (\<lambda>p. Some (p_tenant p) = au_tenant au \<and> p_id p \<noteq> i \<and> p_duplicate_of p = None
                  \<and> list_ex (\<lambda>k. sql_like (37 # k @ [37]) (p_title p)) keywords) (posts d))))"

definition getDuplicateSuggestions :: "nat \<Rightarrow> auth \<Rightarrow> (post \<times> nat) list outcome io" where
  "getDuplicateSuggestions i au =
     catch
       (bnd (select (\<lambda>d. find (my_post au i) (posts d))) (\<lambda>row.
          case row of
            None \<Rightarrow> ret (Reject NOT_FOUND ''post_not_found'')
          | Some p \<Rightarrow>
              let keywords = title_keywords (p_title p)
              in if keywords = [] then ret (Resolve OK ''duplicate_suggestions_retrieved_successfully'' [])
                 else bnd (select (\<lambda>d. map (\<lambda>p. (p, vote_count (p_id p) d)) (suggested au i keywords d))) (\<lambda>rows.
                        ret (Resolve OK ''duplicate_suggestions_retrieved_successfully'' rows))))
       (\<lambda>_. ret (Reject INTERNAL_SERVER_ERROR ''failed_to_get_duplicate_suggestions''))"

end
