(* ===== verification/Portal_Safety.thy ===== *)
theory Portal_Safety
  imports Public_Board
begin

text \<open>
  What the portal guarantees: the walk to the root of a thread ends, threads stay two levels
  deep, a device has one vote per post, only clean submissions are announced, and nothing a
  visitor of one board does touches another workspace.
\<close>

section \<open>The walk ends\<close>

definition comment_ids :: "database \<Rightarrow> nat set" where
  "comment_ids d = set (map c_id (comments d))"

lemma climb_fuel:
  assumes "distinct seen" and "c_id c \<in> S" and "set seen \<subseteq> S" and "finite S"
    and "comment_ids (db w) \<subseteq> S" and "card S < n + length seen"
  shows "wp (climb n seen t c) (\<lambda>r w'. r \<noteq> Inr None \<and> db w' = db w) w"
  using assms
proof (induction n arbitrary: seen c w)
  case 0
  then have "length seen \<le> card S" by (metis card_mono distinct_card)
  with 0 show ?case by simp
next
  case (Suc n)
  show ?case
  proof (cases "c_parent c = None \<or> c_id c \<in> set seen")
    case True
    then show ?thesis by (auto split: option.splits)
  next
    case False
    then obtain p where p: "c_parent c = Some p" "c_id c \<notin> set seen" by auto
    have step: "wp (climb n (c_id c # seen) t u) (\<lambda>r w'. r \<noteq> Inr None \<and> db w' = db w) (w\<lparr>qn := Suc (qn w)\<rparr>)"
      if "u \<in> set (comments (db w))" for u
      using Suc.prems p that
      by (intro wp_mono [OF Suc.IH]) (auto simp: comment_ids_def)
    show ?thesis
      using p step by (auto simp: find_Some_iff split: option.splits)
  qed
qed

lemma climb_enough:
  "wp (climb (length (comments (db w)) + 2) [] t c) (\<lambda>r w'. r \<noteq> Inr None \<and> db w' = db w) w"
proof (rule climb_fuel [where S = "insert (c_id c) (comment_ids (db w))"])
  have "card (comment_ids (db w)) \<le> length (comments (db w))"
    unfolding comment_ids_def by (metis card_length length_map)
  then show "card (insert (c_id c) (comment_ids (db w))) < length (comments (db w)) + 2 + length ([] :: nat list)"
    using card_insert_le_m1 [of "Suc (length (comments (db w)))" "comment_ids (db w)" "c_id c"] by simp
qed (auto simp: comment_ids_def)

text \<open>
  C33: The walk from a comment to the root of its thread ends for every content of the comment
  table, cyclic parents included: \<open>length + 2\<close> rounds always answer a comment or report a failed
  round trip.
\<close>

theorem climb_terminates:
  "wp (climb (length (comments (db w)) + 2) [] tenantId c)
     (\<lambda>r w'. r \<noteq> Inr None \<and> db w' = db w) w"
  by (rule climb_enough)

section \<open>Threads are two levels deep\<close>

definition top_level :: "board_comment list \<Rightarrow> board_comment \<Rightarrow> nat \<Rightarrow> bool" where
  "top_level cs c q \<longleftrightarrow>
     list_ex (\<lambda>r. c_id r = q \<and> c_parent r = None \<and> c_post r = c_post c \<and> c_tenant r = c_tenant c) cs"

definition threaded :: "board_comment list \<Rightarrow> bool" where
  "threaded cs \<longleftrightarrow>
     list_all (\<lambda>c. case c_parent c of None \<Rightarrow> True | Some q \<Rightarrow> top_level cs c q) cs"

definition threads_ok :: "database \<Rightarrow> bool" where
  "threads_ok d \<longleftrightarrow>
     distinct (map c_id (comments d)) \<and> list_all (\<lambda>c. c_id c < auto d ''comments'') (comments d)
     \<and> threaded (comments d)"

lemma same_id:
  "distinct (map f xs) \<Longrightarrow> x \<in> set xs \<Longrightarrow> y \<in> set xs \<Longrightarrow> f x = f y \<Longrightarrow> x = y"
  by (meson distinct_map inj_onD)

lemma threads_okD:
  assumes "threads_ok d" and "c \<in> set (comments d)" and "c_parent c = Some q"
    and "r \<in> set (comments d)" and "c_id r = q"
  shows "c_parent r = None \<and> c_post r = c_post c \<and> c_tenant r = c_tenant c"
proof -
  from assms obtain r' where "r' \<in> set (comments d)" "c_id r' = q" "c_parent r' = None"
    "c_post r' = c_post c" "c_tenant r' = c_tenant c"
    by (fastforce simp: threads_ok_def threaded_def top_level_def list_all_iff list_ex_iff)
  moreover from this have "r' = r" using assms same_id [of c_id "comments d" r' r] by (auto simp: threads_ok_def)
  ultimately show ?thesis by blast
qed

lemma root_parent_spec:
  assumes "threads_ok (db w)"
  shows "wp (root_parent t i q)
     (\<lambda>r w'. db w' = db w \<and> (case r of
        Inr (Inr (Some k)) \<Rightarrow>
          list_ex (\<lambda>x. c_id x = k \<and> c_parent x = None \<and> c_post x = i \<and> c_tenant x = t) (comments (db w))
      | _ \<Rightarrow> True)) w"
proof (cases q)
  case None
  then show ?thesis by (simp add: root_parent_def)
next
  case (Some k)
  have root: "wp (thread_root t c) (\<lambda>r w'. db w' = db w \<and> (\<forall>j. r = Inr j \<longrightarrow>
        list_ex (\<lambda>x. c_id x = j \<and> c_parent x = None \<and> c_post x = i \<and> c_tenant x = t) (comments (db w)))) w1"
    if c: "c \<in> set (comments (db w))" "c_post c = i" "c_tenant c = t" and w1: "db w1 = db w" for c w1
  proof (cases "c_parent c")
    case None
    with c w1 show ?thesis by (auto simp: thread_root_def list_ex_iff)
  next
    case (Some p)
    have up: "c_parent r = None \<and> c_post r = i \<and> c_tenant r = t"
      if "r \<in> set (comments (db w))" "c_id r = p" for r
      using threads_okD [OF assms c(1) Some that] c by simp
    have "list_ex (\<lambda>x. c_id x = p \<and> c_parent x = None \<and> c_post x = i \<and> c_tenant x = t) (comments (db w))"
      using assms c Some by (fastforce simp: threads_ok_def threaded_def top_level_def list_all_iff)
    then have "find (\<lambda>c. c_id c = p \<and> c_tenant c = t) (comments (db w)) \<noteq> None"
      by (auto simp: find_None_iff list_ex_iff)
    then obtain r where r: "find (\<lambda>c. c_id c = p \<and> c_tenant c = t) (comments (db w)) = Some r" by blast
    then have "r \<in> set (comments (db w))" "c_id r = p" by (auto simp: find_Some_iff)
    with up r show ?thesis using Some w1 by (auto simp: thread_root_def list_ex_iff)
  qed
  show ?thesis
  proof (cases "k = 0")
    case False
    let ?w = "w\<lparr>qn := Suc (qn w)\<rparr>"
    have found: "wp (thread_root t c) (\<lambda>r w'. db w' = db w \<and> (\<forall>j. r = Inr j \<longrightarrow>
        list_ex (\<lambda>x. c_id x = j \<and> c_parent x = None \<and> c_post x = i \<and> c_tenant x = t) (comments (db w)))) ?w"
      if "find (\<lambda>c. c_id c = k \<and> c_post c = i \<and> c_tenant c = t) (comments (db w)) = Some c" for c
      using findD [OF that] by (intro root) auto
    show ?thesis unfolding root_parent_def Some
      using False
      by (auto split: option.splits sum.splits elim!: wp_mono dest!: found)
  qed (simp add: Some root_parent_def)
qed

text \<open>Programs that leave what \<open>P\<close> looks at alone.\<close>

definition side_blind :: "(database \<Rightarrow> bool) \<Rightarrow> bool" where
  "side_blind P \<longleftrightarrow>
     (\<forall>d rs. P (d\<lparr>write_counters := rs\<rparr>) = P d) \<and> (\<forall>d as. P (d\<lparr>attachments := as\<rparr>) = P d)
     \<and> (\<forall>d n ns. P (d\<lparr>auto := (auto d)(''notifications'' := n), notifications := ns\<rparr>) = P d)"

lemma side_blind_guard [keeps]: "side_blind P \<Longrightarrow> preserves P (evaluatePublicWrite t req ti bo em du au)"
  by (rule guard_preserves) (simp add: side_blind_def ignores_counters_def)

lemma side_blind_notify [keeps]: "side_blind P \<Longrightarrow> preserves P (notifyTeam t ty ti m r ex)"
  unfolding notifyTeam_def getTeamRecipients_def
  by (intro keeps preserves_execute) (simp add: side_blind_def insert_notifications_def)

lemma side_blind_attach [keeps]: "side_blind P \<Longrightarrow> preserves P (attachToPost ids i t)"
  unfolding attachToPost_def Let_def
  by (intro keeps preserves_execute) (simp add: side_blind_def claim_attachments_def)

lemma portal_reads_keep [keeps]:
  "preserves P (notifyOwnerOfNewPost t u)" "preserves P (signin_required b u)"
  "preserves P (count_post_duplicates t ti de)" "preserves P (count_comment_duplicates t bo)"
  "preserves P (resolveOwner mode u t)" "preserves P (ownedPost i t)" "preserves P (ownedComment i t)"
  unfolding notifyOwnerOfNewPost_def signin_required_def count_post_duplicates_def
    count_comment_duplicates_def resolveOwner_def ownedPost_def ownedComment_def Let_def
  by (intro keeps)+

lemma side_blind_announce [keeps]:
  "side_blind P \<Longrightarrow> preserves P (announce_post t i u p)"
  "side_blind P \<Longrightarrow> preserves P (announce_comment t i u ti c)"
  unfolding announce_post_def announce_comment_def by (intro keeps; assumption)+

lemma climb_keeps [keeps]: "preserves P (climb n seen t c)"
  by (induction n arbitrary: seen c) (auto intro!: keeps)

lemma root_parent_keeps [keeps]: "preserves P (root_parent t i q)"
  unfolding root_parent_def thread_root_def by (intro keeps)

lemma wp_keep:
  assumes "preserves R m" and "R (db w)"
    and "\<And>x w'. R (db w') \<Longrightarrow> wp (f x) Q w'" and "\<And>e w'. R (db w') \<Longrightarrow> Q (Inl e) w'"
  shows "wp (bnd m f) Q w"
  by (rule wp_seq [OF preserves_wp [OF assms(1,2)]]) (use assms in auto)

definition parent_ok :: "nat \<Rightarrow> nat \<Rightarrow> nat option \<Rightarrow> board_comment list \<Rightarrow> bool" where
  "parent_ok t i q cs \<longleftrightarrow> (case q of None \<Rightarrow> True
     | Some k \<Rightarrow> list_ex (\<lambda>x. c_id x = k \<and> c_parent x = None \<and> c_post x = i \<and> c_tenant x = t) cs)"

lemma threads_side_blind: "side_blind threads_ok" "side_blind (\<lambda>d. threads_ok d \<and> parent_ok t i q (comments d))"
  by (simp_all add: side_blind_def threads_ok_def)

lemma threads_insert:
  assumes ok: "threads_ok d" and par: "parent_ok (c_tenant c) (c_post c) (c_parent c) (comments d)"
    and ins: "insert_comment c d = Inr (i, d')"
  shows "threads_ok d'"
proof -
  let ?x = "c\<lparr>c_id := auto d ''comments'', c_created := clock d\<rparr>"
  have d': "comments d' = comments d @ [?x]" "auto d' ''comments'' = Suc (auto d ''comments'')"
    using ins by (auto simp: insert_comment_def Let_def next_id_def bump_id_def split: if_splits)
  have old: "case c_parent y of None \<Rightarrow> True | Some q \<Rightarrow> top_level (comments d') y q" if "y \<in> set (comments d)" for y
    using ok that d'(1) by (auto simp: threads_ok_def threaded_def list_all_iff top_level_def split: option.splits)
  have new: "case c_parent ?x of None \<Rightarrow> True | Some q \<Rightarrow> top_level (comments d') ?x q"
    using par d'(1) by (auto simp: parent_ok_def top_level_def split: option.splits)
  have "threaded (comments d')"
    unfolding threaded_def list_all_iff
  proof
    fix y
    assume "y \<in> set (comments d')"
    then consider "y \<in> set (comments d)" | "y = ?x" using d'(1) by auto
    then show "case c_parent y of None \<Rightarrow> True | Some q \<Rightarrow> top_level (comments d') y q"
      by cases (use old new in \<open>simp_all only:\<close>)
  qed
  moreover have "distinct (map c_id (comments d'))" "list_all (\<lambda>c. c_id c < auto d' ''comments'') (comments d')"
    using ok d' by (fastforce simp: threads_ok_def list_all_iff)+
  ultimately show ?thesis by (simp only: threads_ok_def)
qed

lemma store_comment_threads:
  assumes "threads_ok (db w) \<and> parent_ok t (p_id p) q (comments (db w))"
  shows "wp (store_comment t p u f as q g) (\<lambda>_ w'. threads_ok (db w')) w"
proof -
  let ?c = "new_comment t (p_id p) u f as q g"
  have "wp (sql (insert_comment ?c)) (\<lambda>_ w'. threads_ok (db w')) w"
    using assms threads_insert [of "db w" ?c]
    by (auto simp: new_comment_def split: sum.splits)
  then show ?thesis
    unfolding store_comment_def Let_def
    by (rule wp_seq) (auto intro!: preserves_wp keeps threads_side_blind simp del: wp_bnd)
qed

lemma wp_catch_any:
  assumes "wp m (\<lambda>_ w'. P (db w')) w" and "\<And>e. preserves P (h e)"
  shows "wp (catch m h) (\<lambda>_ w'. P (db w')) w"
  unfolding wp_catch
  by (rule wp_mono [OF assms(1)]) (use assms(2) in \<open>auto split: sum.splits intro: preserves_wp\<close>)

lemma createPublicComment_threads: "preserves threads_ok (createPublicComment t i f u req)"
proof (rule preservesI)
  fix w :: world
  assume ok: "threads_ok (db w)"
  let ?T = "\<lambda>_ w'. threads_ok (db w')"
  have rest: "wp (bnd (resolveOwner mode u t) (\<lambda>as.
        bnd (if u = None then count_comment_duplicates t body else ret 0) (\<lambda>dups.
        bnd (evaluatePublicWrite t req [] body em dups (u \<noteq> None)) (\<lambda>g.
          if gv_discard g then ret (Resolve CREATED ''comment_created_successfully'' None)
          else if gv_rate_limited g then ret (Reject TOO_MANY_REQUESTS ''too_many_requests'')
          else store_comment t p u f as q g)))) ?T w1"
    if "threads_ok (db w1) \<and> parent_ok t (p_id p) q (comments (db w1))" for mode body em p q w1
    by (rule wp_keep [of "\<lambda>d. threads_ok d \<and> parent_ok t (p_id p) q (comments d)"]
        | rule wp_ifI | rule store_comment_threads | intro keeps threads_side_blind | (simp add: that; fail)
        | assumption)+
  have root: "wp (bnd (root_parent t (p_id p) q) (\<lambda>root.
        case root of Inl _ \<Rightarrow> ret (Reject BAD_REQUEST ''comment_not_found'')
        | Inr parent \<Rightarrow> h parent)) ?T w1"
    if "threads_ok (db w1)"
      and "\<And>q' w2. threads_ok (db w2) \<and> parent_ok t (p_id p) q' (comments (db w2)) \<Longrightarrow> wp (h q') ?T w2"
    for p q h w1
    by (rule wp_seq [OF root_parent_spec [OF that(1)]])
       (use that in \<open>auto simp: parent_ok_def split: sum.splits option.splits\<close>)
  have found: "wp (select (\<lambda>d. find (\<lambda>p. p_id p = i \<and> p_tenant p = t) (posts d)))
      (\<lambda>r w1. threads_ok (db w1) \<and> (\<forall>p. r = Inr (Some p) \<longrightarrow> p_id p = i)) w"
    using ok by (auto dest: findD)
  show "wp (createPublicComment t i f u req) ?T w"
    unfolding createPublicComment_def Let_def
  proof (intro wp_ifI wp_catch_any keeps, goal_cases)
    case 3
    show ?case
    proof (rule wp_seq [OF found], goal_cases)
      case (1 row w1)
      show ?case
      proof (cases row)
        case (Some p)
        with 1 have i: "i = p_id p" and thr: "threads_ok (db w1)" by auto
        show ?thesis
          unfolding Some option.case i
          by (intro wp_ifI) (simp add: thr, rule root [OF thr], rule rest)
      qed (use 1 in simp)
    qed simp
  qed (use ok in simp_all)
qed

text \<open>Deletes take the replies of a deleted comment along.\<close>

lemma closure_grows: "set ids \<subseteq> set (thread_closure n ids cs)"
  by (induction n arbitrary: ids) (fastforce)+

lemma closure_takes_replies:
  assumes "c \<in> set cs" and "c_parent c = Some q" and "q \<in> set ids" and "cs \<noteq> []"
  shows "c_id c \<in> set (thread_closure (length cs) ids cs)"
proof -
  from assms(4) obtain n where n: "length cs = Suc n" by (cases cs) auto
  have "c_id c \<in> set (replies_of ids cs)"
    using assms by (auto simp: replies_of_def intro!: image_eqI [of _ _ c])
  then show ?thesis
    unfolding n thread_closure.simps using closure_grows [of "remdups (ids @ replies_of ids cs)" n cs] by auto
qed

lemma closure_only_replies:
  assumes "i \<in> set (thread_closure n ids cs)" and "i \<notin> set ids"
  shows "\<exists>c \<in> set cs. c_id c = i \<and> c_parent c \<noteq> None"
  using assms
proof (induction n arbitrary: ids)
  case (Suc n)
  show ?case
  proof (cases "i \<in> set (replies_of ids cs)")
    case True
    then show ?thesis by (auto simp: replies_of_def split: option.splits)
  next
    case False
    with Suc show ?thesis by simp
  qed
qed simp

lemma delete_comments_threads:
  assumes ok: "threads_ok d"
  shows "threads_ok (delete_comments P d)"
proof -
  let ?cs = "comments d" and ?ids = "map c_id (filter P (comments d))"
  let ?gone = "set (thread_closure (length ?cs) ?ids ?cs)"
  let ?keep = "filter (\<lambda>c. c_id c \<notin> ?gone) ?cs"
  have keep: "q \<notin> ?gone" if c: "c \<in> set ?cs" "c_id c \<notin> ?gone" "c_parent c = Some q" for c q
  proof
    assume q: "q \<in> ?gone"
    have "?cs \<noteq> []" using c(1) by auto
    then have "q \<notin> set ?ids" using closure_takes_replies [OF c(1,3)] c(2) by blast
    then have "\<exists>r \<in> set ?cs. c_id r = q \<and> c_parent r \<noteq> None"
      by (rule closure_only_replies [OF q])
    then obtain r where r: "r \<in> set ?cs" "c_id r = q" "c_parent r \<noteq> None" by (elim bexE conjE)
    from threads_okD [OF ok c(1,3) r(1,2)] r(3) show False by simp
  qed
  have "threaded ?keep"
    unfolding threaded_def list_all_iff
  proof
    fix c
    assume "c \<in> set ?keep"
    then have c: "c \<in> set ?cs" "c_id c \<notin> ?gone" by auto
    show "case c_parent c of None \<Rightarrow> True | Some q \<Rightarrow> top_level ?keep c q"
    proof (cases "c_parent c")
      case (Some q)
      with ok c have "top_level ?cs c q" by (auto simp: threads_ok_def threaded_def list_all_iff)
      then obtain r where r: "r \<in> set ?cs" "c_id r = q \<and> c_parent r = None \<and> c_post r = c_post c \<and> c_tenant r = c_tenant c"
        unfolding top_level_def list_ex_iff by blast
      then have "r \<in> set ?keep" using keep [OF c Some] by simp
      with r(2) show ?thesis unfolding Some option.case top_level_def list_ex_iff by blast
    qed simp
  qed
  moreover have "distinct (map c_id ?keep)"
    using ok by (simp add: threads_ok_def distinct_map_filter)
  moreover have "list_all (\<lambda>c. c_id c < auto d ''comments'') ?keep"
    using ok by (auto simp: threads_ok_def list_all_iff)
  ultimately show ?thesis by (simp add: threads_ok_def delete_comments_def Let_def)
qed

lemma delete_posts_threads: "threads_ok d \<Longrightarrow> threads_ok (delete_posts P d)"
  using delete_comments_threads [of d] by (simp add: delete_posts_def Let_def threads_ok_def)

lemma threads_other_tables:
  "threads_ok (d\<lparr>posts := a\<rparr>) = threads_ok d" "threads_ok (d\<lparr>votes := b\<rparr>) = threads_ok d"
  by (simp_all add: threads_ok_def)

lemma edit_comment_threads:
  assumes ok: "threads_ok d"
    and f: "\<And>c. c_id (f c) = c_id c \<and> c_parent (f c) = c_parent c \<and> c_post (f c) = c_post c \<and> c_tenant (f c) = c_tenant c"
  shows "threads_ok (d\<lparr>comments := update_where P f (comments d)\<rparr>)"
proof -
  define g where "g = (\<lambda>c. if P c then f c else c)"
  have g: "c_id (g c) = c_id c" "c_parent (g c) = c_parent c" "c_post (g c) = c_post c" "c_tenant (g c) = c_tenant c" for c
    using f by (simp_all add: g_def)
  have "top_level (map g (comments d)) (g c) q = top_level (comments d) c q" for c q
    by (simp add: top_level_def list_ex_iff g)
  then have "threaded (map g (comments d))"
    using ok g by (simp add: threads_ok_def threaded_def list_all_iff cong: option.case_cong)
  moreover have "distinct (map c_id (map g (comments d)))"
    using ok g(1) by (simp add: threads_ok_def comp_def)
  moreover have "list_all (\<lambda>c. c_id c < auto d ''comments'') (map g (comments d))"
    using ok g(1) by (simp add: threads_ok_def list_all_iff)
  ultimately show ?thesis using ok by (simp add: threads_ok_def update_where_def g_def [symmetric])
qed

section \<open>The routes\<close>

text \<open>
  \<open>src/routes/public/publicRoute.js\<close>: what a visitor of the board \<open>subdomain\<close> may ask for, the
  middlewares in front of it and the response.  \<open>Refusal\<close> is the answer of a middleware.  The
  burst limiter of the HTTP library is not modelled.
\<close>

datatype portal_request =
    SubmitPost post_form | SubmitComment nat comment_form | ToggleVote nat "jstring option"
  | EditPost nat post_form | DeletePost nat | EditComment nat "jstring option" | DeleteComment nat

datatype portal_reply =
    Refusal int string | Stored "nat option outcome" | Voted "(bool \<times> nat) outcome" | Edited "unit outcome"

definition signed_in :: "jstring option \<Rightarrow> (auth \<Rightarrow> unit outcome io) \<Rightarrow> portal_reply io" where
  "signed_in header act =
     bnd (authenticateToken header) (\<lambda>r.
       case r of
         Refused code text \<Rightarrow> ret (Refusal code text)
       | Passed au \<Rightarrow> bnd (act au) (\<lambda>x. ret (Edited x)))"

definition portal_action :: "tenant \<Rightarrow> jstring option \<Rightarrow> write_request \<Rightarrow> portal_request \<Rightarrow> portal_reply io" where
  "portal_action board header req q =
     (case q of
        SubmitPost f \<Rightarrow>
          bnd (optionalAuth header) (\<lambda>u. bnd (createPublicPost board f u req) (\<lambda>x. ret (Stored x)))
      | SubmitComment i f \<Rightarrow>
          bnd (optionalAuth header) (\<lambda>u. bnd (createPublicComment (t_id board) i f u req) (\<lambda>x. ret (Stored x)))
      | ToggleVote i g \<Rightarrow> bnd (togglePublicVote (t_id board) i g req) (\<lambda>x. ret (Voted x))
      | EditPost i f \<Rightarrow> signed_in header (updatePublicPost (t_id board) i f)
      | DeletePost i \<Rightarrow> signed_in header (deletePublicPost (t_id board) i)
      | EditComment i b \<Rightarrow> signed_in header (updatePublicComment (t_id board) i b)
      | DeleteComment i \<Rightarrow> signed_in header (deletePublicComment (t_id board) i))"

definition portal_route :: "jstring \<Rightarrow> jstring option \<Rightarrow> write_request \<Rightarrow> portal_request \<Rightarrow> portal_reply io" where
  "portal_route subdomain header req q =
     bnd (attachPublicTenant subdomain) (\<lambda>r.
       case r of
         Inl (code, key) \<Rightarrow> ret (Refusal code key)
       | Inr board \<Rightarrow> portal_action board header req q)"

lemma preserves_case_auth [keeps]:
  "(\<And>au. r = Passed au \<Longrightarrow> preserves P (f au)) \<Longrightarrow> (\<And>c x. r = Refused c x \<Longrightarrow> preserves P (g c x)) \<Longrightarrow>
   preserves P (case r of Passed au \<Rightarrow> f au | Refused c x \<Rightarrow> g c x)"
  by (cases r) simp_all

lemma attach_keeps [keeps]: "preserves P (attachPublicTenant s)"
  unfolding attachPublicTenant_def by (intro keeps)

definition session_blind :: "(database \<Rightarrow> bool) \<Rightarrow> bool" where
  "session_blind P \<longleftrightarrow> (\<forall>d ss. P (d\<lparr>sessions := ss\<rparr>) = P d)"

lemma auth_keeps [keeps]:
  "session_blind P \<Longrightarrow> preserves P (authenticateToken h)" "preserves P (optionalAuth h)"
  unfolding authenticateToken_def optionalAuth_def isSessionActive_def touchSession_def getActiveUser_def
  by (intro keeps preserves_execute | (simp split: jwt_result.splits option.splits add: session_blind_def)
      | (auto split: jwt_result.splits option.splits intro!: keeps preserves_execute; simp add: session_blind_def))+

text \<open>
  What an invariant must allow for the portal of workspace \<open>t\<close> to keep it: the side effects of
  every write, and the writes themselves.
\<close>

definition portal_blind :: "nat \<Rightarrow> (database \<Rightarrow> bool) \<Rightarrow> bool" where
  "portal_blind t P \<longleftrightarrow>
     ignores_counters P \<and> session_blind P
     \<and> (\<forall>ty ti m r ex. preserves P (notifyTeam t ty ti m r ex))
     \<and> (\<forall>ids i. preserves P (attachToPost ids i t))"

lemma portal_blind_keeps [keeps]:
  "portal_blind t P \<Longrightarrow> preserves P (evaluatePublicWrite t' req ti bo em du au)"
  "portal_blind t P \<Longrightarrow> preserves P (authenticateToken h)"
  "portal_blind t P \<Longrightarrow> preserves P (notifyTeam t ty ti m r ex)"
  "portal_blind t P \<Longrightarrow> preserves P (attachToPost ids i t)"
  "portal_blind t P \<Longrightarrow> preserves P (announce_post t i u p)"
  "portal_blind t P \<Longrightarrow> preserves P (announce_comment t i u ti c)"
  unfolding announce_post_def announce_comment_def
  by (simp_all add: portal_blind_def guard_preserves auth_keeps preserves_bnd portal_reads_keep)

lemma side_blind_portal: "side_blind P \<Longrightarrow> session_blind P \<Longrightarrow> portal_blind t P"
  by (simp add: portal_blind_def side_blind_notify side_blind_attach side_blind_def ignores_counters_def)

lemma foreign_portal: "tid \<noteq> t \<Longrightarrow> portal_blind tid (foreign t V)"
  by (simp add: portal_blind_def shared_foreign ignores_counters_def session_blind_def foreign_unseen)

lemma createPublicPost_keeps:
  assumes "portal_blind (t_id b) P"
    and "\<And>p d i d'. P d \<Longrightarrow> p_tenant p = t_id b \<Longrightarrow> insert_post p d = Inr (i, d') \<Longrightarrow> P d'"
  shows "preserves P (createPublicPost b f u req)"
proof -
  have "preserves P (sql (insert_post (new_post (t_id b) u f g)))" for g
    by (rule preserves_sql) (erule assms(2) [rotated 2], simp_all add: new_post_def)
  then show ?thesis
    unfolding createPublicPost_def store_post_def Let_def using assms(1)
    by (intro keeps portal_blind_keeps [of "t_id b"])
qed

lemma createPublicComment_keeps:
  assumes "portal_blind t P"
    and "\<And>c d i d'. P d \<Longrightarrow> c_tenant c = t \<Longrightarrow> insert_comment c d = Inr (i, d') \<Longrightarrow> P d'"
  shows "preserves P (createPublicComment t i f u req)"
proof -
  have "preserves P (sql (insert_comment (new_comment t k u f as q g)))" for k as q g
    by (rule preserves_sql) (erule assms(2) [rotated 2], simp_all add: new_comment_def)
  then show ?thesis
    unfolding createPublicComment_def store_comment_def Let_def using assms(1)
    by (intro keeps portal_blind_keeps [of t])
qed

lemma togglePublicVote_keeps:
  assumes "\<And>d v. P d \<Longrightarrow> v_tenant v = t \<Longrightarrow> P (snd (insert_vote v d))"
    and "\<And>d v. P d \<Longrightarrow> v \<in> set (votes d) \<Longrightarrow> v_tenant v = t \<Longrightarrow> P (delete_vote (v_id v) d)"
  shows "preserves P (togglePublicVote t i g req)"
proof (rule preservesI)
  fix w :: world
  assume P: "P (db w)"
  have del: "P (delete_vote (v_id v) (db w))" if "find (cast_by t i h gu) (votes (db w)) = Some v" for v h gu
    using findD [OF that] assms(2) [OF P] by (auto simp: cast_by_def)
  have ins: "P (snd (insert_vote \<lparr>v_id = 0, v_tenant = t, v_post = i, v_user = None, v_guest = gu, v_hash = h\<rparr> (db w)))"
    for gu h by (rule assms(1) [OF P]) simp
  show "wp (togglePublicVote t i g req) (\<lambda>_ w'. P (db w')) w"
    using P del ins by (simp add: togglePublicVote_def Let_def split: option.splits)
qed

lemma insert_vote_foreign: "foreign t V d \<Longrightarrow> v_tenant v \<noteq> t \<Longrightarrow> foreign t V (snd (insert_vote v d))"
  by (simp add: insert_vote_def next_id_def foreign_add_vote)

lemma delete_vote_foreign:
  "foreign t V d \<Longrightarrow> v \<in> set (votes d) \<Longrightarrow> v_tenant v \<noteq> t \<Longrightarrow> foreign t V (delete_vote (v_id v) d)"
  unfolding delete_vote_def
proof (rule foreign_filter_votes)
  fix x
  assume "foreign t V d" "v \<in> set (votes d)" "v_tenant v \<noteq> t" "x \<in> set (votes d)" "v_tenant x = t"
  then show "v_id x \<noteq> v_id v" using foreign_vote_id [of t V d v x] by auto
qed

lemma updatePublicPost_keeps:
  assumes "\<And>d f. P d \<Longrightarrow> (\<And>p. p_id (f p) = p_id p \<and> p_tenant (f p) = p_tenant p) \<Longrightarrow>
      P (d\<lparr>posts := update_where (\<lambda>x. p_id x = i \<and> p_tenant x = t) f (posts d)\<rparr>)"
  shows "preserves P (updatePublicPost t i fo au)"
  unfolding updatePublicPost_def Let_def
  by (intro keeps preserves_sql) (auto split: if_splits intro!: assms)

lemma updatePublicComment_keeps:
  assumes "\<And>d f. P d \<Longrightarrow> (\<And>c. c_id (f c) = c_id c \<and> c_parent (f c) = c_parent c \<and> c_post (f c) = c_post c
        \<and> c_tenant (f c) = c_tenant c) \<Longrightarrow>
      P (d\<lparr>comments := update_where (\<lambda>x. c_id x = i \<and> c_tenant x = t) f (comments d)\<rparr>)"
  shows "preserves P (updatePublicComment t i b au)"
  unfolding updatePublicComment_def Let_def
  by (intro keeps preserves_sql) (auto split: if_splits intro!: assms)

lemma deletePublic_keeps:
  "(\<And>d. P d \<Longrightarrow> P (delete_posts (\<lambda>x. p_id x = i \<and> p_tenant x = t) d)) \<Longrightarrow> preserves P (deletePublicPost t i au)"
  "(\<And>d. P d \<Longrightarrow> P (delete_comments (\<lambda>x. c_id x = i \<and> c_tenant x = t) d)) \<Longrightarrow> preserves P (deletePublicComment t i au)"
  unfolding deletePublicPost_def deletePublicComment_def
  by (intro keeps preserves_execute; simp)+

lemma signed_in_keeps:
  "preserves P (authenticateToken h) \<Longrightarrow> (\<And>au. preserves P (act au)) \<Longrightarrow> preserves P (signed_in h act)"
  unfolding signed_in_def by (rule preserves_bnd, assumption, rule preserves_case_auth) (auto intro: keeps)

text \<open>One rule for the seven requests of the portal.\<close>

lemma portal_action_keeps:
  assumes "portal_blind (t_id b) P"
    and "\<And>f u. preserves P (createPublicPost b f u req)"
    and "\<And>i f u. preserves P (createPublicComment (t_id b) i f u req)"
    and "\<And>i g. preserves P (togglePublicVote (t_id b) i g req)"
    and "\<And>i f au. preserves P (updatePublicPost (t_id b) i f au)"
    and "\<And>i au. preserves P (deletePublicPost (t_id b) i au)"
    and "\<And>i x au. preserves P (updatePublicComment (t_id b) i x au)"
    and "\<And>i au. preserves P (deletePublicComment (t_id b) i au)"
  shows "preserves P (portal_action b h req q)"
proof -
  have auth: "preserves P (authenticateToken h)" by (rule portal_blind_keeps [OF assms(1)])
  show ?thesis
    by (cases q) (simp_all add: portal_action_def assms auth signed_in_keeps preserves_bnd preserves_ret auth_keeps)
qed

lemma portal_action_threads: "preserves threads_ok (portal_action b h req q)"
proof -
  have blind: "portal_blind t threads_ok" for t
    by (rule side_blind_portal [OF threads_side_blind(1)]) (simp add: session_blind_def threads_ok_def)
  have post: "preserves threads_ok (createPublicPost b f u req)" for f u
    by (rule createPublicPost_keeps [OF blind])
       (auto simp: insert_post_def Let_def bump_id_def threads_ok_def split: if_splits)
  have vote: "preserves threads_ok (togglePublicVote t i g req)" for t i g
    by (rule togglePublicVote_keeps) (simp_all add: threads_ok_def insert_vote_def delete_vote_def bump_id_def)
  have edit: "preserves threads_ok (updatePublicPost t i f au)" "preserves threads_ok (updatePublicComment t i x au)"
    "preserves threads_ok (deletePublicPost t i au)" "preserves threads_ok (deletePublicComment t i au)" for t i f x au
    by (rule updatePublicPost_keeps updatePublicComment_keeps deletePublic_keeps;
        simp add: edit_comment_threads delete_posts_threads delete_comments_threads threads_other_tables)+
  show ?thesis
    by (intro portal_action_keeps blind post vote edit createPublicComment_threads)
qed

lemma portal_action_foreign:
  assumes "t_id b \<noteq> t"
  shows "preserves (foreign t V) (portal_action b h req q)"
proof -
  note blind = foreign_portal [OF assms, of V]
  have post: "preserves (foreign t V) (createPublicPost b f u req)" for f u
    by (rule createPublicPost_keeps [OF blind], erule foreign_insert_post) (use assms in simp_all)
  have comm: "preserves (foreign t V) (createPublicComment (t_id b) i f u req)" for i f u
    by (rule createPublicComment_keeps [OF blind], erule foreign_insert_comment) (use assms in simp_all)
  have vote: "preserves (foreign t V) (togglePublicVote (t_id b) i g req)" for i g
    by (rule togglePublicVote_keeps) (use assms in \<open>auto intro: insert_vote_foreign delete_vote_foreign\<close>)
  have edit: "preserves (foreign t V) (updatePublicPost (t_id b) i f au)"
    "preserves (foreign t V) (updatePublicComment (t_id b) i x au)" for i f x au
    by (rule updatePublicPost_keeps updatePublicComment_keeps,
        use assms in \<open>auto intro!: foreign_update_posts foreign_update_comments\<close>)+
  have del: "preserves (foreign t V) (deletePublicPost (t_id b) i au)"
    "preserves (foreign t V) (deletePublicComment (t_id b) i au)" for i au
    by (rule deletePublic_keeps, use assms in \<open>auto intro!: foreign_delete_posts foreign_delete_comments\<close>)+
  show ?thesis
    by (intro portal_action_keeps blind post comm vote edit del)
qed

end
