(* ===== verification/Portal_Facts.thy ===== *)
theory Portal_Facts
  imports Portal_Safety
begin

text \<open>
  What a vote and a submission do: one vote per device and post, what is stored and announced
  for a submission, what the honeypot hides, and the identity of an owner's comment.
\<close>

section \<open>Votes\<close>

definition votes_ok :: "database \<Rightarrow> bool" where
  "votes_ok d \<longleftrightarrow>
     sorted_wrt (\<lambda>a b. \<not> vote_conflict a b) (votes d) \<and> distinct (map v_id (votes d))
     \<and> list_all (\<lambda>v. v_id v < auto d ''votes'') (votes d)"

lemma same_opt_sym: "same_opt x y \<Longrightarrow> same_opt y x"
  by (cases x; cases y) (simp_all add: same_opt_def sql_eq_sym)

lemma vote_conflict_sym: "vote_conflict a b \<Longrightarrow> vote_conflict b a"
  unfolding vote_conflict_def using same_opt_sym by metis

lemma no_two:
  assumes "sorted_wrt (\<lambda>a b. \<not> C a b) xs" and "\<And>a b. a \<in> set xs \<Longrightarrow> b \<in> set xs \<Longrightarrow> C a b"
  shows "length xs \<le> 1"
  using assms by (cases xs; cases "tl xs") auto

lemma sorted_wrt_filter: "sorted_wrt R xs \<Longrightarrow> sorted_wrt R (filter P xs)"
  by (induction xs) auto

lemma cast_by_conflict:
  "cast_by t i (Some h) g a \<Longrightarrow> cast_by t i (Some h) g b \<Longrightarrow> vote_conflict a b"
  by (auto simp: cast_by_def vote_conflict_def same_opt_def sql_eq_null_def sql_eq_def split: option.splits)

lemma one_vote:
  assumes "votes_ok d"
  shows "length (filter (cast_by t i (Some h) g) (votes d)) \<le> 1"
  using assms cast_by_conflict [of t i h g]
  by (intro no_two [where C = vote_conflict] sorted_wrt_filter) (auto simp: votes_ok_def)

lemma votes_insert: "votes_ok d \<Longrightarrow> votes_ok (snd (insert_vote v d))"
proof -
  assume ok: "votes_ok d"
  show ?thesis
  proof (cases "list_ex (vote_conflict v) (votes d)")
    case True
    with ok show ?thesis by (simp add: insert_vote_def)
  next
    case False
    have c: "\<not> vote_conflict a (v\<lparr>v_id := n\<rparr>)" if "a \<in> set (votes d)" for a n
      using False that vote_conflict_sym [of a "v\<lparr>v_id := n\<rparr>"]
      by (auto simp: list_ex_iff vote_conflict_def)
    from ok have "sorted_wrt (\<lambda>a b. \<not> vote_conflict a b) (votes d @ [v\<lparr>v_id := auto d ''votes''\<rparr>])"
      using c by (simp add: votes_ok_def sorted_wrt_append)
    moreover from ok have "distinct (map v_id (votes d @ [v\<lparr>v_id := auto d ''votes''\<rparr>]))"
      by (auto simp: votes_ok_def list_all_iff)
    moreover from ok have "list_all (\<lambda>x. v_id x < Suc (auto d ''votes'')) (votes d @ [v\<lparr>v_id := auto d ''votes''\<rparr>])"
      by (auto simp: votes_ok_def list_all_iff)
    ultimately show ?thesis using ok
      by (simp add: insert_vote_def votes_ok_def bump_id_def next_id_def)
  qed
qed

lemma votes_filter: "votes_ok d \<Longrightarrow> votes_ok (d\<lparr>votes := filter P (votes d)\<rparr>)"
  by (auto simp: votes_ok_def sorted_wrt_filter distinct_map_filter list_all_iff)

lemma votes_delete_posts: "votes_ok d \<Longrightarrow> votes_ok (delete_posts P d)"
  by (auto simp: delete_posts_def delete_comments_def Let_def votes_ok_def sorted_wrt_filter
      distinct_map_filter list_all_iff)

lemma votes_other_tables:
  "votes_ok (d\<lparr>posts := a\<rparr>) = votes_ok d" "votes_ok (d\<lparr>comments := b\<rparr>) = votes_ok d"
  "votes_ok (delete_comments P d) = votes_ok d"
  by (simp_all add: votes_ok_def delete_comments_def Let_def)

lemma portal_action_votes: "preserves votes_ok (portal_action b h req q)"
proof -
  have blind: "portal_blind t votes_ok" for t
    by (rule side_blind_portal) (simp_all add: side_blind_def session_blind_def votes_ok_def)
  have post: "preserves votes_ok (createPublicPost b f u req)" for f u
    by (rule createPublicPost_keeps [OF blind])
       (auto simp: insert_post_def Let_def bump_id_def votes_ok_def split: if_splits)
  have comm: "preserves votes_ok (createPublicComment t i f u req)" for t i f u
    by (rule createPublicComment_keeps [OF blind])
       (auto simp: insert_comment_def Let_def bump_id_def votes_ok_def split: if_splits)
  have vote: "preserves votes_ok (togglePublicVote t i g req)" for t i g
    by (rule togglePublicVote_keeps) (simp_all add: votes_insert delete_vote_def votes_filter)
  have edit: "preserves votes_ok (updatePublicPost t i f au)" "preserves votes_ok (updatePublicComment t i x au)"
    "preserves votes_ok (deletePublicPost t i au)" "preserves votes_ok (deletePublicComment t i au)" for t i f x au
    by (rule updatePublicPost_keeps updatePublicComment_keeps deletePublic_keeps;
        simp add: votes_other_tables votes_delete_posts)+
  show ?thesis by (intro portal_action_keeps blind post comm vote edit)
qed

lemma portal_route_keeps:
  "(\<And>b. preserves P (portal_action b h req q)) \<Longrightarrow> preserves P (portal_route s h req q)"
  unfolding portal_route_def by (intro keeps) (auto split: sum.splits prod.splits intro!: keeps)

text \<open>A run of the portal: any visitors, any boards, any interleaving of complete requests.\<close>

type_synonym portal_visit = "jstring \<times> jstring option \<times> write_request \<times> portal_request"

definition serve_portal :: "portal_visit list \<Rightarrow> unit io" where
  "serve_portal visits =
     bnd (for_each visits (\<lambda>(sub, header, req, q).
            catch (bnd (portal_route sub header req q) (\<lambda>_. ret ())) (\<lambda>_. ret ()))) (\<lambda>_. ret ())"

lemma serve_portal_keeps:
  "(\<And>b h req q. preserves P (portal_action b h req q)) \<Longrightarrow> preserves P (serve_portal visits)"
  unfolding serve_portal_def by (intro keeps portal_route_keeps)

text \<open>
  C6: One device, one vote: along every run of the portal no post has two votes with the same
  voter hash, whatever guest ids, tokens and boards the requests name.
\<close>

theorem one_vote_per_device:
  assumes "votes_ok (db w)"
  shows "wp (serve_portal visits)
     (\<lambda>r w'. length (filter (cast_by tenantId postId (Some hash) guest) (votes (db w'))) \<le> 1) w"
proof -
  have "preserves votes_ok (serve_portal visits)"
    by (intro serve_portal_keeps portal_action_votes)
  then have "wp (serve_portal visits) (\<lambda>r w'. votes_ok (db w')) w"
    using assms by (rule preserves_wp)
  then show ?thesis by (rule wp_mono) (rule one_vote)
qed

text \<open>
  C7: Threads stay two levels deep: along every run of the portal every reply hangs under a
  top-level comment of the same post and board, and no reply outlives its parent.
\<close>

theorem threads_stay_flat:
  assumes "threads_ok (db w)"
  shows "wp (serve_portal visits) (\<lambda>r w'. threads_ok (db w')) w"
  by (rule preserves_wp [OF serve_portal_keeps [OF portal_action_threads] assms])

definition demo_request :: write_request where
  "demo_request = \<lparr>wr_ip = Some (js ''1.2.3.4''), wr_website = None, wr_form_token = None\<rparr>"

definition demo_visits :: "portal_visit list" where
  "demo_visits = [(js ''acme'', None, demo_request, ToggleVote 5 (Some (js ''g1''))),
                  (js ''acme'', None, demo_request, ToggleVote 5 (Some (js ''g2'')))]"

lemma one_vote_per_device_witness:
  "wp (serve_portal demo_visits)
     (\<lambda>r w'. length (filter (cast_by 1 5 (Some (js ''h'')) (js ''g1'')) (votes (db w'))) \<le> 1)
     (demo_world demo_db)"
  by (rule one_vote_per_device) (simp add: votes_ok_def demo_db_def empty_db_def)

lemma threads_stay_flat_witness:
  "wp (serve_portal demo_visits) (\<lambda>r w'. threads_ok (db w')) (demo_world demo_db)"
  by (rule threads_stay_flat) (simp add: threads_ok_def threaded_def demo_db_def empty_db_def)

section \<open>What one vote request does\<close>

lemma filter_without:
  assumes "distinct (map f xs)" and "x \<in> set xs" and "P x"
  shows "Suc (length (filter P (filter (\<lambda>y. f y \<noteq> f x) xs))) = length (filter P xs)"
  using assms
proof (induction xs)
  case (Cons y ys)
  show ?case
  proof (cases "y = x")
    case True
    with Cons.prems have "filter (\<lambda>z. f z \<noteq> f x) ys = ys" by (auto simp: filter_id_conv image_iff)
    with True Cons.prems show ?thesis by simp
  next
    case False
    with Cons.prems have "f y \<noteq> f x" "x \<in> set ys" "distinct (map f ys)" by (auto simp: image_iff)
    with Cons show ?thesis by simp
  qed
qed simp

text \<open>
  A vote request answers the truth about the count: it withdraws the visitor's vote if there
  is one and otherwise adds one or reports that none was added; the count it returns is the
  number of votes of the post afterwards.  Quarantined and foreign posts cannot be voted on.
\<close>

theorem toggle_vote_spec:
  assumes "votes_ok (db w)"
  shows "wp (togglePublicVote tenantId postId guestId req)
     (\<lambda>r w'. case r of
        Inl e \<Rightarrow> False
      | Inr (Reject code key) \<Rightarrow> code \<noteq> INTERNAL_SERVER_ERROR \<longrightarrow> db w' = db w
      | Inr (Resolve code key (voted, n)) \<Rightarrow>
          list_ex (\<lambda>p. p_id p = postId \<and> p_tenant p = tenantId \<and> p_moderation p \<noteq> Spam) (posts (db w))
          \<and> n = vote_count postId (db w')
          \<and> (if list_ex (cast_by tenantId postId (voterHash (svc w) (wr_ip req)) (js_trim (or_empty guestId))) (votes (db w))
             then \<not> voted \<and> Suc n = vote_count postId (db w)
             else if voted then n = Suc (vote_count postId (db w)) else votes (db w') = votes (db w))) w"
proof -
  let ?h = "voterHash (svc w) (wr_ip req)" and ?g = "js_trim (or_empty guestId)"
  have del: "Suc (vote_count postId (delete_vote (v_id v) (db w))) = vote_count postId (db w)"
    if "find (cast_by tenantId postId ?h ?g) (votes (db w)) = Some v" for v
    using findD [OF that] assms filter_without [of v_id "votes (db w)" v "\<lambda>x. v_post x = postId"]
    by (simp add: vote_count_def delete_vote_def votes_ok_def cast_by_def)
  have ex: "list_ex (cast_by tenantId postId ?h ?g) (votes (db w))"
    if "find (cast_by tenantId postId ?h ?g) (votes (db w)) = Some v" for v
    using findD [OF that] by (auto simp: list_ex_iff)
  have post: "list_ex (\<lambda>p. p_id p = postId \<and> p_tenant p = tenantId \<and> p_moderation p \<noteq> Spam) (posts (db w))"
    if "find (\<lambda>p. p_id p = postId \<and> p_tenant p = tenantId) (posts (db w)) = Some p" "p_moderation p \<noteq> Spam" for p
    using findD [OF that(1)] that(2) by (auto simp: list_ex_iff)
  have none: "\<not> list_ex (cast_by tenantId postId ?h ?g) (votes (db w))"
    if "find (cast_by tenantId postId ?h ?g) (votes (db w)) = None"
    using that by (simp add: find_None_iff list_ex_iff)
  have ins: "fst (insert_vote v (db w)) > 0 \<Longrightarrow> v_post v = postId \<Longrightarrow>
      vote_count postId (snd (insert_vote v (db w))) = Suc (vote_count postId (db w))"
    "fst (insert_vote v (db w)) = 0 \<Longrightarrow> snd (insert_vote v (db w)) = db w" for v
    by (auto simp: insert_vote_def vote_count_def bump_id_def split: if_splits)
  show ?thesis
    by (auto simp: togglePublicVote_def Let_def status_defs ins split: option.splits
             dest: del ex none post)
qed

definition voted_db :: database where
  "voted_db = demo_db\<lparr>votes := [\<lparr>v_id = 1, v_tenant = 1, v_post = 5, v_user = None,
      v_guest = Some (js ''g1''), v_hash = Some (js ''another'')\<rparr>]\<rparr>"

lemma voted_db_ok: "votes_ok voted_db"
  by (simp add: votes_ok_def voted_db_def demo_db_def empty_db_def)

lemma toggle_vote_spec_witness:
  "wp (togglePublicVote 1 5 (Some (js ''g2'')) demo_request)
     (\<lambda>r w'. case r of
        Inl e \<Rightarrow> False
      | Inr (Reject code key) \<Rightarrow> code \<noteq> INTERNAL_SERVER_ERROR \<longrightarrow> db w' = db (demo_world voted_db)
      | Inr (Resolve code key (voted, n)) \<Rightarrow>
          list_ex (\<lambda>p. p_id p = 5 \<and> p_tenant p = 1 \<and> p_moderation p \<noteq> Spam) (posts (db (demo_world voted_db)))
          \<and> n = vote_count 5 (db w')
          \<and> (if list_ex (cast_by 1 5 (voterHash (svc (demo_world voted_db)) (wr_ip demo_request))
                  (js_trim (or_empty (Some (js ''g2''))))) (votes (db (demo_world voted_db)))
             then \<not> voted \<and> Suc n = vote_count 5 (db (demo_world voted_db))
             else if voted then n = Suc (vote_count 5 (db (demo_world voted_db)))
             else votes (db w') = votes (db (demo_world voted_db))))
     (demo_world voted_db)"
  by (rule toggle_vote_spec) (simp add: voted_db_ok)

text \<open>
  A vote can outlive its visitor's power over it: when the network address of a visitor has
  changed, the vote cast under the old address is not found by the new voter hash, and its guest
  id keeps a new one out; every further request answers \<open>voted: false\<close> and leaves the old vote
  counted.
\<close>

theorem moved_visitor_cannot_withdraw:
  assumes "healthy w"
    and "voterHash (svc w) (wr_ip req) = Some hash"
    and "js_trim (or_empty guestId) = guest" "guest \<noteq> []" "length guest \<le> 64"
    and "find (\<lambda>p. p_id p = postId \<and> p_tenant p = tenantId) (posts (db w)) = Some p" "p_moderation p \<noteq> Spam"
    and "\<not> list_ex (cast_by tenantId postId (Some hash) guest) (votes (db w))"
    and "list_ex (cast_by tenantId postId None guest) (votes (db w))"
  shows "wp (togglePublicVote tenantId postId guestId req)
     (\<lambda>r w'. r = Inr (Resolve OK ''vote_updated_successfully'' (False, vote_count postId (db w)))
        \<and> db w' = db w) w"
proof -
  have "find (cast_by tenantId postId (Some hash) guest) (votes (db w)) = None"
    using assms(8) by (simp add: find_None_iff list_ex_iff)
  moreover have "list_ex (vote_conflict \<lparr>v_id = 0, v_tenant = tenantId, v_post = postId, v_user = None,
      v_guest = Some guest, v_hash = Some hash\<rparr>) (votes (db w))"
    using assms(9) by (fastforce simp: list_ex_iff cast_by_def vote_conflict_def same_opt_def)
  ultimately show ?thesis
    using assms by (simp add: togglePublicVote_def insert_vote_def)
qed

lemma moved_visitor_cannot_withdraw_witness:
  "wp (togglePublicVote 1 5 (Some (js ''g1'')) demo_request)
     (\<lambda>r w'. r = Inr (Resolve OK ''vote_updated_successfully'' (False, vote_count 5 (db (demo_world voted_db))))
        \<and> db w' = db (demo_world voted_db)) (demo_world voted_db)"
proof (rule moved_visitor_cannot_withdraw [where guest = "js ''g1''" and p = "demo_post 5 1 ''dark mode''"])
  show "voterHash (svc (demo_world voted_db)) (wr_ip demo_request) =
      Some (the (voterHash demo_services (Some (js ''1.2.3.4''))))"
    by (simp add: demo_request_def voterHash_def demo_services_def js_trim_def js_space_def)
qed (simp_all add: voted_db_def demo_db_def demo_post_def empty_db_def cast_by_def sql_eq_def js_lower_def
      lower_unit_def js_trim_def js_space_def voterHash_def demo_services_def)

section \<open>Submissions\<close>

text \<open>Programs that store no post, notify nobody in the database and send nothing.\<close>

definition board_is :: "post list \<Rightarrow> notification list \<Rightarrow> database \<Rightarrow> bool" where
  "board_is ps ns d \<longleftrightarrow> posts d = ps \<and> notifications d = ns"

definition quiet :: "'a io \<Rightarrow> bool" where
  "quiet m \<longleftrightarrow> (\<forall>ps ns. preserves (board_is ps ns) m) \<and> emits_only {} m \<and> steady m"

definition unchanged_board :: "world \<Rightarrow> world \<Rightarrow> bool" where
  "unchanged_board w w' \<longleftrightarrow>
     posts (db w') = posts (db w) \<and> notifications (db w') = notifications (db w) \<and> log w' = log w
     \<and> svc w' = svc w \<and> js_now w' = js_now w"

lemma quiet_wp: "quiet m \<Longrightarrow> wp m (\<lambda>_ w'. unchanged_board w w') w"
proof -
  assume q: "quiet m"
  then have "wp m (\<lambda>_ w'. board_is (posts (db w)) (notifications (db w)) (db w')) w"
    by (intro preserves_wp [of "board_is (posts (db w)) (notifications (db w))"]) (simp_all add: quiet_def board_is_def)
  moreover from q have "log (snd (m w)) = log w" unfolding quiet_def emits_only_def by force
  moreover from q have "wp m (\<lambda>_ w'. js_now w' = js_now w \<and> svc w' = svc w) w"
    by (intro steady_wp) (simp add: quiet_def)
  ultimately show ?thesis by (simp add: wp_iff board_is_def unchanged_board_def)
qed

lemma steady_guard_parts [keeps]:
  "steady draw_prune" "steady (mx_get_io k)" "steady (mx_set_io k v)" "steady (getTenantPlan x)"
  by (rule steadyI, simp add: draw_prune_def mx_get_io_def mx_set_io_def wp_def getTenantPlan_def
      select_def sql_def Let_def case_prod_beta)+

lemma steady_for_each [keeps]: "(\<And>x. steady (f x)) \<Longrightarrow> steady (for_each xs f)"
  by (induction xs) (auto intro!: keeps)

lemma steady_portal [keeps]:
  "steady (isDeliverableEmail e)" "steady (evaluatePublicWrite t req ti bo em du au)"
  "steady (signin_required b u)" "steady (count_post_duplicates t x y)"
  "steady (attachToPost ids i t)"
  unfolding isDeliverableEmail_def evaluatePublicWrite_def maybePrune_def pruneCounters_def chargePublicWrite_def
    bump_def score_submission_def signin_required_def count_post_duplicates_def attachToPost_def Let_def
  by (intro keeps | (rule steadyI, simp split: dns_reply.splits))+

lemma silent_portal [keeps]:
  "emits_only S (signin_required b u)" "emits_only S (count_post_duplicates t x y)"
  "emits_only S (attachToPost ids i t)"
  unfolding signin_required_def count_post_duplicates_def attachToPost_def Let_def
  by (intro keeps)+

lemma quiet_portal:
  "quiet (signin_required b u)" "quiet (count_post_duplicates t x y)" "quiet (ret n)"
  "quiet (evaluatePublicWrite t req ti bo em du au)" "quiet (attachToPost ids i t)"
proof -
  have g: "preserves (board_is ps ns) (evaluatePublicWrite t req ti bo em du au)" for ps ns
    by (rule guard_preserves) (simp add: ignores_counters_def board_is_def)
  have a: "preserves (board_is ps ns) (attachToPost ids i t)" for ps ns
    unfolding attachToPost_def Let_def
    by (intro keeps preserves_execute) (simp add: board_is_def claim_attachments_def)
  show "quiet (signin_required b u)" "quiet (count_post_duplicates t x y)" "quiet (ret n)"
    unfolding quiet_def by (intro conjI allI; intro keeps)+
  show "quiet (evaluatePublicWrite t req ti bo em du au)" "quiet (attachToPost ids i t)"
    using g a by (simp_all add: quiet_def evaluatePublicWrite_silent silent_portal steady_portal)
qed

lemma notifyTeam_total:
  "wp (notifyTeam t ty ti m r ex) (\<lambda>x w'. x = Inr () \<and> posts (db w') = posts (db w) \<and> log w' = log w) w"
  by (simp add: notifyTeam_def getTeamRecipients_def insert_notifications_def)

lemma notifyOwner_total:
  "wp (notifyOwnerOfNewPost t u) (\<lambda>x w'. x = Inr () \<and> posts (db w') = posts (db w)) w"
  by (simp add: notifyOwnerOfNewPost_def split: option.splits)

lemma announce_post_total:
  "wp (announce_post t i u p) (\<lambda>x w'. x = Inr () \<and> posts (db w') = posts (db w)) w"
  unfolding announce_post_def
  by (rule wp_seq [OF notifyOwner_total]) (auto intro: wp_mono [OF notifyTeam_total])

lemma attachToPost_total:
  "wp (attachToPost ids i t) (\<lambda>x w'. (\<exists>n. x = Inr n) \<and> unchanged_board w w') w"
proof -
  have "wp (attachToPost ids i t) (\<lambda>x w'. \<exists>n. x = Inr n) w"
    by (simp add: attachToPost_def Let_def)
  from wp_conj [OF this quiet_wp [OF quiet_portal(5)]] show ?thesis .
qed

definition stored_post ::
  "nat \<Rightarrow> user option \<Rightarrow> post_form \<Rightarrow> guard_verdict \<Rightarrow> world \<Rightarrow> nat \<Rightarrow> world \<Rightarrow> bool" where
  "stored_post t u f g w i w' \<longleftrightarrow>
     (\<exists>c. posts (db w') = posts (db w) @ [(new_post t u f g)\<lparr>p_id := i, p_created := c\<rparr>])
     \<and> (gv_state g = Spam \<longrightarrow> log w' = log w \<and> notifications (db w') = notifications (db w))"

lemma store_post_spec:
  "wp (store_post t u f g)
     (\<lambda>r w'. case r of
        Inr (Resolve code key (Some i)) \<Rightarrow> (code, key) = (CREATED, ''post_created_successfully'') \<and> stored_post t u f g w i w'
      | Inr (Reject code key) \<Rightarrow> unchanged_board w w'
      | _ \<Rightarrow> False) w"
proof -
  let ?p = "new_post t u f g"
  let ?Q = "\<lambda>r w'. case r of
        Inr (Resolve code key (Some i)) \<Rightarrow> (code, key) = (CREATED, ''post_created_successfully'') \<and> stored_post t u f g w i w'
      | Inr (Reject code key) \<Rightarrow> unchanged_board w w'
      | Inl e \<Rightarrow> unchanged_board w w'
      | _ \<Rightarrow> False"
  have ins: "wp (sql (insert_post ?p)) (\<lambda>r w1. case r of
        Inl e \<Rightarrow> unchanged_board w w1
      | Inr i \<Rightarrow> (\<exists>c. posts (db w1) = posts (db w) @ [?p\<lparr>p_id := i, p_created := c\<rparr>])
          \<and> log w1 = log w \<and> notifications (db w1) = notifications (db w)) w"
    by (auto simp: unchanged_board_def insert_post_def Let_def bump_id_def split: sum.splits)
  have "wp (bnd (sql (insert_post ?p)) (\<lambda>i.
         bnd (attachToPost (pf_attachments f) i t) (\<lambda>_.
         bnd (if gv_state g = Spam then ret () else announce_post t i u ?p) (\<lambda>_.
           ret (Resolve CREATED ''post_created_successfully'' (Some i)))))) ?Q w"
  proof (rule wp_seq [OF ins], goal_cases)
    case (1 i w1)
    show ?case
      by (rule wp_seq [OF attachToPost_total], cases "gv_state g = Spam")
         (use 1 in \<open>auto simp: unchanged_board_def stored_post_def
            intro!: wp_mono [OF announce_post_total]\<close>)
  qed simp
  then show ?thesis
    unfolding store_post_def Let_def wp_catch
    by (rule wp_mono) (auto split: sum.splits outcome.splits option.splits)
qed

lemma unchanged_board_trans: "unchanged_board a b \<Longrightarrow> unchanged_board b c \<Longrightarrow> unchanged_board a c"
  by (simp add: unchanged_board_def)

lemma unchanged_stored: "unchanged_board a b \<Longrightarrow> stored_post t u f g b i c \<Longrightarrow> stored_post t u f g a i c"
  by (simp add: unchanged_board_def stored_post_def)

definition submission_outcome ::
  "tenant \<Rightarrow> post_form \<Rightarrow> user option \<Rightarrow> write_request \<Rightarrow> world \<Rightarrow> exn + nat option outcome \<Rightarrow> world \<Rightarrow> bool" where
  "submission_outcome b f u req w r w' \<longleftrightarrow>
     (case r of
        Inl e \<Rightarrow> unchanged_board w w'
      | Inr (Reject code key) \<Rightarrow> unchanged_board w w'
      | Inr (Resolve code key None) \<Rightarrow>
          (code, key) = (CREATED, ''post_created_successfully'') \<and> honeypot_filled req \<and> unchanged_board w w'
      | Inr (Resolve code key (Some i)) \<Rightarrow>
          (code, key) = (CREATED, ''post_created_successfully'') \<and> \<not> honeypot_filled req
          \<and> (\<exists>g dups. stored_post (t_id b) u f g w i w' \<and> gv_hash g = voterHash (svc w) (wr_ip req)
               \<and> (if u \<noteq> None then gv_state g = Published \<and> gv_score g = 0
                  else guard_outcome (svc w) (js_now w) req (js_trim (or_empty (pf_title f)))
                         (js_trim (or_empty (pf_description f))) (guest_field 255 (pf_email f)) dups g)))"

lemma stored_is_outcome:
  assumes "case r of
      Inr (Resolve code key (Some i)) \<Rightarrow>
        (code, key) = (CREATED, ''post_created_successfully'') \<and> stored_post (t_id b) u f g w1 i w'
    | Inr (Reject code key) \<Rightarrow> unchanged_board w1 w'
    | _ \<Rightarrow> False"
    and w1: "unchanged_board w w1" and g: "gv_hash g = voterHash (svc w) (wr_ip req)" "\<not> honeypot_filled req"
    "if u \<noteq> None then gv_state g = Published \<and> gv_score g = 0
     else guard_outcome (svc w) (js_now w) req (js_trim (or_empty (pf_title f)))
           (js_trim (or_empty (pf_description f))) (guest_field 255 (pf_email f)) dups g"
  shows "submission_outcome b f u req w r w'"
proof -
  consider (stored) i where "r = Inr (Resolve CREATED ''post_created_successfully'' (Some i))"
      "stored_post (t_id b) u f g w1 i w'"
    | (refused) code key where "r = Inr (Reject code key)" "unchanged_board w1 w'"
    using assms(1) by (auto split: sum.splits outcome.splits option.splits)
  then show ?thesis
  proof cases
    case stored
    then show ?thesis using unchanged_stored [OF w1 stored(2)] g unfolding submission_outcome_def
      by (simp only: sum.case outcome.case option.case) blast
  qed (use w1 in \<open>simp add: submission_outcome_def unchanged_board_trans [of w w1]\<close>)
qed

lemma createPublicPost_outcome: "wp (createPublicPost b f u req) (submission_outcome b f u req w) w"
proof -
  let ?ti = "js_trim (or_empty (pf_title f))" and ?de = "js_trim (or_empty (pf_description f))"
  let ?em = "if u \<noteq> None then None else guest_field 255 (pf_email f)"
  let ?Q = "submission_outcome b f u req w"
  have rejected: "unchanged_board w w1 \<Longrightarrow> ?Q (Inr (Reject c k)) w1" "unchanged_board w w1 \<Longrightarrow> ?Q (Inl e) w1"
    for c k e w1 by (simp_all add: submission_outcome_def)
  have refuse: "unchanged_board w w1 \<Longrightarrow> wp (ret (Reject c k)) ?Q w1" for c k w1
    by (simp add: rejected)
  have guard: "wp (evaluatePublicWrite (t_id b) req ?ti ?de ?em dups (u \<noteq> None))
      (\<lambda>r w1. unchanged_board w w1 \<and> (\<exists>g. r = Inr g \<and> gv_hash g = voterHash (svc w) (wr_ip req)
        \<and> gv_discard g = honeypot_filled req
        \<and> (\<not> honeypot_filled req \<longrightarrow> \<not> gv_rate_limited g \<longrightarrow>
             (if u \<noteq> None then gv_state g = Published \<and> gv_score g = 0
              else guard_outcome (svc w) (js_now w) req ?ti ?de (guest_field 255 (pf_email f)) dups g)))) w0"
    if "unchanged_board w w0" for dups w0
    by (rule wp_mono [OF wp_conj [OF quiet_wp [OF quiet_portal(4)] guard_spec]])
       (use that in \<open>auto simp: unchanged_board_def\<close>)
  have rest: "wp (bnd (evaluatePublicWrite (t_id b) req ?ti ?de ?em dups (u \<noteq> None)) (\<lambda>g.
             if gv_discard g then ret (Resolve CREATED ''post_created_successfully'' None)
             else if gv_rate_limited g then ret (Reject TOO_MANY_REQUESTS ''too_many_requests'')
             else store_post (t_id b) u f g)) ?Q w0"
    if w0: "unchanged_board w w0" for dups w0
  proof (rule wp_seq [OF guard [OF w0]], goal_cases)
    case (1 g w1)
    show ?case
    proof (intro wp_ifI)
      show "wp (ret (Resolve CREATED ''post_created_successfully'' None)) ?Q w1" if "gv_discard g"
        using 1 that by (simp add: submission_outcome_def)
      show "wp (ret (Reject TOO_MANY_REQUESTS ''too_many_requests'')) ?Q w1"
        using 1 by (simp add: rejected)
      show "wp (store_post (t_id b) u f g) ?Q w1" if "\<not> gv_discard g" "\<not> gv_rate_limited g"
        by (rule wp_mono [OF store_post_spec]) (erule stored_is_outcome, use 1 that in auto)
    qed
  qed (use rejected in auto)
  have count: "wp (bnd (if u = None then count_post_duplicates (t_id b) ?ti ?de else ret 0) (\<lambda>dups.
        bnd (evaluatePublicWrite (t_id b) req ?ti ?de ?em dups (u \<noteq> None)) (\<lambda>g.
             if gv_discard g then ret (Resolve CREATED ''post_created_successfully'' None)
             else if gv_rate_limited g then ret (Reject TOO_MANY_REQUESTS ''too_many_requests'')
             else store_post (t_id b) u f g))) ?Q w0"
    if "unchanged_board w w0" for w0
  proof (rule wp_seq [where R = "\<lambda>_ w1. unchanged_board w w1"])
    show "wp (if u = None then count_post_duplicates (t_id b) ?ti ?de else ret 0) (\<lambda>_ w1. unchanged_board w w1) w0"
      by (intro wp_ifI; rule wp_mono [OF quiet_wp [OF quiet_portal(2)]] wp_mono [OF quiet_wp [OF quiet_portal(3)]])
         (use that in \<open>auto intro: unchanged_board_trans\<close>)
  qed (use rest rejected in auto)
  show ?thesis
    unfolding createPublicPost_def Let_def
    by (rule wp_seq [OF quiet_wp [OF quiet_portal(1)]], (rule wp_ifI | erule count | erule refuse | erule rejected(2))+)
qed


section \<open>The identity of an owner's comment\<close>

text \<open>
  C34: The right to be shown as the owner is the workspace's plan: only the active owner of this
  very board is ever shown under a badge, a name is withheld only on Business, a badge needs Pro
  or Business, and asking for more than the plan has still posts the comment.
\<close>

theorem owner_identity_follows_plan:
  "wp (resolveOwner mode authUser tenantId)
     (\<lambda>r w'. case r of
        Inl e \<Rightarrow> e = DbError
      | Inr 0 \<Rightarrow> True
      | Inr k \<Rightarrow> (case authUser of None \<Rightarrow> False
            | Some u \<Rightarrow> u_role u = Owner \<and> u_tenant u = Some tenantId)
          \<and> (if k = 2 then mode = Some ''hidden'' \<and> tenant_plan (db w) (Some tenantId) = ''business''
             else k = 1 \<and> tenant_plan (db w) (Some tenantId) \<in> {''pro'', ''business''})) w"
  by (auto simp: resolveOwner_def Let_def getPlanLimits_def limit_defs split: option.splits nat.splits)

end
