(* ===== verification/Dashboard_Safety.thy ===== *)
theory Dashboard_Safety
  imports Workspace_Board Portal_Facts
begin

text \<open>
  The requests of the dashboard as one interface, and what all of them keep: another
  workspace's rows, and one vote per device.
\<close>

section \<open>The requests\<close>

text \<open>The writing routes of \<open>src/routes/post\<close>, \<open>comment\<close>, \<open>tag\<close> and \<open>roadmap\<close>.\<close>

datatype dash_request =
    NewPost dash_post | RewritePost nat dash_post | DropPost nat | SetStatus nat string
  | ModeratePost nat string | PinPost nat "bool option" | MarkDuplicate nat "nat option"
  | PurgeSpam "int list option" "int option" | NotifyImplemented nat | UploadFile "upload option"
  | NewComment dash_comment | RewriteComment nat "jstring option" | DropComment nat | ModerateComment nat string
  | NewTag "jstring option" "jstring option" | RenameTag nat "jstring option" "jstring option" | DropTag nat
  | LinkTag nat nat | UnlinkTag nat nat
  | NewColumn "jstring option" "string option" "int option" | RenameColumn nat "jstring option" "int option"
  | DropColumn nat | NewItem "nat option" "nat option" "int option" "int option"
  | PatchItem nat item_patch | DropItem nat

datatype dash_reply = Refused_by int string | Made "nat outcome" | Finished "unit outcome" | Flagged "bool outcome"

definition upload_authed :: "upload option \<Rightarrow> auth \<Rightarrow> nat outcome io" where
  "upload_authed file au =
     bnd (requireAttachments (au_tenant au)) (\<lambda>allowed.
       case au_tenant au of
         None \<Rightarrow> ret (Reject PAYMENT_REQUIRED ''plan_limit_attachments'')
       | Some t \<Rightarrow>
           if \<not> allowed then ret (Reject PAYMENT_REQUIRED ''plan_limit_attachments'')
           else bnd (storeAttachment file t) (\<lambda>r. ret (case r of
               Resolve c k x \<Rightarrow> Resolve c k (fst x) | Reject c k \<Rightarrow> Reject c k)))"

definition made :: "nat outcome io \<Rightarrow> dash_reply io" where
  "made m = bnd m (\<lambda>r. ret (Made r))"

definition finished :: "unit outcome io \<Rightarrow> dash_reply io" where
  "finished m = bnd m (\<lambda>r. ret (Finished r))"

definition flagged :: "bool outcome io \<Rightarrow> dash_reply io" where
  "flagged m = bnd m (\<lambda>r. ret (Flagged r))"

definition dash_action :: "dash_request \<Rightarrow> auth \<Rightarrow> dash_reply io" where
  "dash_action q au =
     (case q of
        NewPost f \<Rightarrow> made (createPost f au)
      | RewritePost i f \<Rightarrow> finished (updatePost i f au)
      | DropPost i \<Rightarrow> finished (deletePost i au)
      | SetStatus i s \<Rightarrow> finished (updatePostStatus i s au)
      | ModeratePost i s \<Rightarrow> finished (updatePostModeration i s au)
      | PinPost i b \<Rightarrow> flagged (updatePostPin i b au)
      | MarkDuplicate i j \<Rightarrow> finished (setPostDuplicate i j au)
      | PurgeSpam ids n \<Rightarrow> made (purgeSpamPosts au ids n)
      | NotifyImplemented i \<Rightarrow> flagged (notifyFeedbackImplemented i au)
      | UploadFile f \<Rightarrow> made (upload_authed f au)
      | NewComment f \<Rightarrow> made (createComment f au)
      | RewriteComment i b \<Rightarrow> finished (updateComment i b au)
      | DropComment i \<Rightarrow> finished (deleteComment i au)
      | ModerateComment i s \<Rightarrow> finished (updateCommentModeration i s au)
      | NewTag n c \<Rightarrow> made (createTag n c au)
      | RenameTag i n c \<Rightarrow> finished (updateTag i n c au)
      | DropTag i \<Rightarrow> finished (deleteTag i au)
      | LinkTag p g \<Rightarrow> finished (addTagToPost p g au)
      | UnlinkTag p g \<Rightarrow> finished (removeTagFromPost p g au)
      | NewColumn n k s \<Rightarrow> made (createRoadmapColumn n k s au)
      | RenameColumn i n s \<Rightarrow> finished (updateRoadmapColumn i n s au)
      | DropColumn i \<Rightarrow> finished (deleteRoadmapColumn i au)
      | NewItem p c s r \<Rightarrow> made (addItemToRoadmap p c s r au)
      | PatchItem i x \<Rightarrow> finished (updateRoadmapItem i x au)
      | DropItem i \<Rightarrow> finished (removeItemFromRoadmap i au))"

definition dash_route :: "jstring option \<Rightarrow> dash_request \<Rightarrow> dash_reply io" where
  "dash_route header q =
     bnd (authenticateToken header) (\<lambda>r.
       case r of Refused code text \<Rightarrow> ret (Refused_by code text) | Passed au \<Rightarrow> dash_action q au)"

section \<open>Other workspaces\<close>

lemma keeps_reply [keeps]:
  "preserves P m \<Longrightarrow> preserves P (made m)" "preserves P n \<Longrightarrow> preserves P (finished n)"
  "preserves P k \<Longrightarrow> preserves P (flagged k)" "preserves P rows \<Longrightarrow> preserves P (answer_rows c a b e rows)"
  unfolding made_def finished_def flagged_def answer_rows_def by (intro keeps; assumption)+

lemma foreign_update_my_posts:
  assumes "au_tenant au \<noteq> Some t" and "foreign t V d"
    and "\<And>p. p_id (f p) = p_id p" "\<And>p. p_tenant (f p) = p_tenant p"
  shows "foreign t V (snd (update_my_posts au i f d))"
  using assms by (auto simp: update_my_posts_def my_post_def intro: foreign_update_posts)

lemma foreign_update_my_comments:
  assumes "au_tenant au \<noteq> Some t" and "foreign t V d"
    and "\<And>c. c_id (f c) = c_id c" "\<And>c. c_tenant (f c) = c_tenant c"
  shows "foreign t V (snd (update_my_comments au P f d))"
  using assms by (auto simp: update_my_comments_def intro: foreign_update_comments)

lemma foreign_tags:
  assumes "foreign t V d" and "filter (\<lambda>g. g_tenant g = t) gs = filter (\<lambda>g. g_tenant g = t) (tags d)"
    and "own g_id g_tenant n t gs (tag_refs V)"
  shows "foreign t V (d\<lparr>auto := (auto d)(''tags'' := n), tags := gs\<rparr>)"
  using assms by (simp add: foreign_def refs_own_def tenant_view_def)

lemma foreign_columns:
  assumes "foreign t V d" and "filter (\<lambda>c. rc_tenant c = t) cs = filter (\<lambda>c. rc_tenant c = t) (roadmap_columns d)"
    and "own rc_id rc_tenant n t cs (column_refs V)"
  shows "foreign t V (d\<lparr>auto := (auto d)(''roadmap_columns'' := n), roadmap_columns := cs\<rparr>)"
  using assms by (simp add: foreign_def refs_own_def tenant_view_def)

lemma foreign_own:
  "foreign t V d \<Longrightarrow> own g_id g_tenant (auto d ''tags'') t (tags d) (tag_refs V)"
  "foreign t V d \<Longrightarrow> own rc_id rc_tenant (auto d ''roadmap_columns'') t (roadmap_columns d) (column_refs V)"
  by (simp_all add: foreign_def refs_own_def)

text \<open>Without advancing the counter.\<close>

lemma foreign_tags_same:
  assumes "foreign t V d" and "filter (\<lambda>g. g_tenant g = t) gs = filter (\<lambda>g. g_tenant g = t) (tags d)"
    and "own g_id g_tenant (auto d ''tags'') t gs (tag_refs V)"
  shows "foreign t V (d\<lparr>tags := gs\<rparr>)"
  using assms by (simp add: foreign_def refs_own_def tenant_view_def)

lemma foreign_columns_same:
  assumes "foreign t V d" and "filter (\<lambda>c. rc_tenant c = t) cs = filter (\<lambda>c. rc_tenant c = t) (roadmap_columns d)"
    and "own rc_id rc_tenant (auto d ''roadmap_columns'') t cs (column_refs V)"
  shows "foreign t V (d\<lparr>roadmap_columns := cs\<rparr>)"
  using assms by (simp add: foreign_def refs_own_def tenant_view_def)

lemma foreign_insert_tag:
  "foreign t V d \<Longrightarrow> insert_tag tn nm co d = Inr (i, d') \<Longrightarrow> tn \<noteq> Some t \<Longrightarrow> foreign t V d'"
  unfolding insert_tag_def Let_def next_id_def bump_id_def
  by (clarsimp split: option.splits if_splits) (intro foreign_tags own_insert foreign_own; simp)

lemma foreign_rename_tag:
  assumes "foreign t V d" "rename_tag au i nm co d = Inr (n, d')" "au_tenant au \<noteq> Some t"
  shows "foreign t V d'"
proof -
  have "foreign t V (d\<lparr>tags := update_where (my_tag au i) (\<lambda>g. g\<lparr>g_name := x, g_color := co\<rparr>) (tags d)\<rparr>)" for x
    using assms(1,3)
    by (intro foreign_tags_same own_update foreign_own filter_update_where_other) (auto simp: my_tag_def)
  then show ?thesis
    using assms(1,2) by (auto simp: rename_tag_def Let_def split: if_splits option.splits)
qed

lemma foreign_delete_tags:
  assumes f: "foreign t V d" and P: "\<And>g. P g \<Longrightarrow> g_tenant g \<noteq> t"
  shows "foreign t V (delete_tags P d)"
proof -
  have refs: "pt_tag x \<in> set (tag_refs V)" if "x \<in> set (post_tags d)" "pt_tenant x = t" for x
    using f that by (auto simp: foreign_def tenant_view_def tag_refs_def)
  have "foreign t V (d\<lparr>tags := filter (\<lambda>x. \<not> P x) (tags d)\<rparr>)"
    using P by (intro foreign_tags_same [OF f] filter_comm_filter own_filter foreign_own [OF f]) auto
  moreover have "filter (\<lambda>x. pt_tenant x = t) (filter (\<lambda>x. pt_tag x \<notin> set (map g_id (filter P (tags d)))) (post_tags d))
      = filter (\<lambda>x. pt_tenant x = t) (post_tags d)"
  proof (rule filter_comm_filter)
    fix x
    assume "x \<in> set (post_tags d)" "pt_tenant x = t"
    then have "g_tenant g = t" if "g \<in> set (tags d)" "g_id g = pt_tag x" for g
      using refs foreign_own(1) [OF f] that by (auto simp: own_def list_all_iff)
    then show "pt_tag x \<notin> set (map g_id (filter P (tags d)))" using P by fastforce
  qed
  ultimately show ?thesis
    unfolding delete_tags_def Let_def by (simp add: foreign_table(3))
qed

lemma foreign_insert_column:
  "foreign t V d \<Longrightarrow> insert_column tn nm k o1 d = Inr (i, d') \<Longrightarrow> tn \<noteq> Some t \<Longrightarrow> foreign t V d'"
  unfolding insert_column_def Let_def next_id_def bump_id_def
  by (clarsimp split: option.splits if_splits) (intro foreign_columns own_insert foreign_own; simp)

lemma foreign_rename_column:
  assumes "foreign t V d" "rename_column au i nm k d = Inr (n, d')" "au_tenant au \<noteq> Some t"
  shows "foreign t V d'"
proof -
  have "foreign t V (d\<lparr>roadmap_columns :=
      update_where (my_column au i) (\<lambda>c. c\<lparr>rc_name := x, rc_order := y\<rparr>) (roadmap_columns d)\<rparr>)" for x y
    using assms(1,3)
    by (intro foreign_columns_same own_update foreign_own filter_update_where_other) (auto simp: my_column_def)
  then show ?thesis
    using assms(1,2) by (auto simp: rename_column_def Let_def split: if_splits option.splits)
qed

lemma foreign_delete_columns:
  assumes f: "foreign t V d" and P: "\<And>c. P c \<Longrightarrow> rc_tenant c \<noteq> t"
  shows "foreign t V (delete_columns P d)"
proof -
  have refs: "ri_column x \<in> set (column_refs V)" if "x \<in> set (roadmap_items d)" "ri_tenant x = t" for x
    using f that by (auto simp: foreign_def tenant_view_def column_refs_def)
  have "foreign t V (d\<lparr>roadmap_columns := filter (\<lambda>x. \<not> P x) (roadmap_columns d)\<rparr>)"
    using P by (intro foreign_columns_same [OF f] filter_comm_filter own_filter foreign_own [OF f]) auto
  moreover have "filter (\<lambda>x. ri_tenant x = t)
        (filter (\<lambda>x. ri_column x \<notin> set (map rc_id (filter P (roadmap_columns d)))) (roadmap_items d))
      = filter (\<lambda>x. ri_tenant x = t) (roadmap_items d)"
  proof (rule filter_comm_filter)
    fix x
    assume "x \<in> set (roadmap_items d)" "ri_tenant x = t"
    then have "rc_tenant c = t" if "c \<in> set (roadmap_columns d)" "rc_id c = ri_column x" for c
      using refs foreign_own(2) [OF f] that by (auto simp: own_def list_all_iff)
    then show "ri_column x \<notin> set (map rc_id (filter P (roadmap_columns d)))" using P by fastforce
  qed
  ultimately show ?thesis
    unfolding delete_columns_def Let_def by (simp add: foreign_table(4))
qed

lemma foreign_insert_post_tag:
  "foreign t V d \<Longrightarrow> insert_post_tag tn p g d = Inr (i, d') \<Longrightarrow> tn \<noteq> Some t \<Longrightarrow> foreign t V d'"
  unfolding insert_post_tag_def Let_def
  by (clarsimp split: option.splits if_splits) (intro foreign_table(3) foreign_bump; simp add: bump_id_def)

lemma foreign_insert_item:
  "foreign t V d \<Longrightarrow> insert_item tn p c k r d = Inr (i, d') \<Longrightarrow> tn \<noteq> Some t \<Longrightarrow> foreign t V d'"
  unfolding insert_item_def Let_def
  by (clarsimp split: option.splits if_splits) (intro foreign_table(4) foreign_bump; simp add: bump_id_def)

lemma foreign_update_item:
  "foreign t V d \<Longrightarrow> update_item au i q d = Inr (n, d') \<Longrightarrow> au_tenant au \<noteq> Some t \<Longrightarrow> foreign t V d'"
  unfolding update_item_def Let_def
  by (clarsimp split: if_splits; intro foreign_table(4) filter_update_where_other)
     (auto simp: my_item_def patch_item_def)

lemma post_handlers_foreign:
  assumes "au_tenant au \<noteq> Some t"
  shows "preserves (foreign t V) (createPost f au)" "preserves (foreign t V) (updatePost i f au)"
    "preserves (foreign t V) (deletePost i au)" "preserves (foreign t V) (updatePostStatus i s au)"
    "preserves (foreign t V) (updatePostModeration i s au)" "preserves (foreign t V) (updatePostPin i b au)"
    "preserves (foreign t V) (setPostDuplicate i j au)" "preserves (foreign t V) (purgeSpamPosts au ids n)"
    "preserves (foreign t V) (notifyFeedbackImplemented i au)" "preserves (foreign t V) (upload_authed u au)"
proof -
  note [keeps] = preserves_execute preserves_sql
  have t: "tid \<noteq> t" if "au_tenant au = Some tid" for tid using that assms by simp
  have new: "foreign t V d'" if "foreign t V d" "insert_dashboard_post au f d = Inr (x, d')" for d x d'
  proof -
    note h = that
    obtain p where row: "dashboard_row au f = Some p" and p: "insert_post p d = Inr (x, d')"
      using h(2) unfolding insert_dashboard_post_def by (cases "dashboard_row au f") simp_all
    have "Some (p_tenant p) = au_tenant au"
      using row by (auto simp: dashboard_row_def split: option.splits prod.splits)
    then have "p_tenant p \<noteq> t" using assms by auto
    then show ?thesis by (rule foreign_insert_post [OF h(1) _ p])
  qed
  have rewrite: "foreign t V d'" if "foreign t V d" "rewrite_my_post au i f d = Inr (x, d')" for d x d'
  proof -
    have keep: "p_id q = p_id p \<and> p_tenant q = p_tenant p" if "rewrite_post f p = Some q" for p q
      using that by (auto simp: rewrite_post_def split: option.splits if_splits)
    have "foreign t V (snd (update_my_posts au i (\<lambda>p. case rewrite_post f p of None \<Rightarrow> p | Some q \<Rightarrow> q) d))"
      by (rule foreign_update_my_posts [OF assms that(1)]) (auto dest: keep split: option.splits)
    then show ?thesis
      using that(2) unfolding rewrite_my_post_def by (simp split: if_splits)
  qed
  have del: "foreign t V (delete_posts (my_post au i) d)"
    "foreign t V (delete_posts (\<lambda>p. quarantined_of au p \<and> P d p) d)" if "foreign t V d" for d P
    using that assms by (auto intro!: foreign_delete_posts simp: my_post_def quarantined_of_def)
  show "preserves (foreign t V) (createPost f au)"
    unfolding createPost_def by (intro keeps) (use new t in auto)
  show "preserves (foreign t V) (updatePost i f au)"
    unfolding updatePost_def by (intro keeps) (use rewrite in auto)
  show "preserves (foreign t V) (deletePost i au)"
    unfolding deletePost_def by (intro keeps) (use del in auto)
  show "preserves (foreign t V) (updatePostStatus i s au)"
    unfolding updatePostStatus_def
    by (intro keeps) (use t assms in \<open>auto intro: foreign_update_my_posts\<close>)
  show "preserves (foreign t V) (updatePostModeration i s au)"
    unfolding updatePostModeration_def
    by (intro keeps) (use assms in \<open>auto intro!: foreign_update_my_posts simp: review_post_def\<close>)
  show "preserves (foreign t V) (updatePostPin i b au)"
    unfolding updatePostPin_def Let_def by (intro keeps) (use assms in \<open>auto intro: foreign_update_my_posts\<close>)
  show "preserves (foreign t V) (setPostDuplicate i j au)"
    unfolding setPostDuplicate_def by (intro keeps) (use assms in \<open>auto intro: foreign_update_my_posts\<close>)
  show "preserves (foreign t V) (purgeSpamPosts au ids n)"
    unfolding purgeSpamPosts_def purge_where_def Let_def by (intro keeps) (use del in auto)
  show "preserves (foreign t V) (notifyFeedbackImplemented i au)"
    unfolding notifyFeedbackImplemented_def
    by (intro keeps) (use assms in \<open>auto intro: foreign_update_my_posts\<close>)
  show "preserves (foreign t V) (upload_authed u au)"
    unfolding upload_authed_def by (intro keeps) (use t in auto)
qed

lemma comment_handlers_foreign:
  assumes "au_tenant au \<noteq> Some t"
  shows "preserves (foreign t V) (createComment cf au)" "preserves (foreign t V) (updateComment i b au)"
    "preserves (foreign t V) (deleteComment i au)" "preserves (foreign t V) (updateCommentModeration i s au)"
proof -
  note [keeps] = preserves_execute preserves_sql
  have new: "foreign t V d'" if "foreign t V d" "insert_dashboard_comment au k cf d = Inr (x, d')" for d x d' k
  proof -
    note h = that
    obtain c where row: "dashboard_comment au k cf = Some c" and c: "insert_comment c d = Inr (x, d')"
      using h(2) unfolding insert_dashboard_comment_def by (cases "dashboard_comment au k cf") simp_all
    have "Some (c_tenant c) = au_tenant au"
      using row by (auto simp: dashboard_comment_def split: option.splits)
    then have "c_tenant c \<noteq> t" using assms by auto
    then show ?thesis by (rule foreign_insert_comment [OF h(1) _ c])
  qed
  show "preserves (foreign t V) (createComment cf au)"
    unfolding createComment_def owner_mode_def Let_def by (intro keeps) (use new in auto)
  show "preserves (foreign t V) (updateComment i b au)"
    unfolding updateComment_def Let_def
  proof (intro keeps)
    fix d x d'
    let ?r = "update_my_comments au (\<lambda>c. c_id c = i \<and> c_author c = Some (au_id au))
        (\<lambda>c. c\<lparr>c_body := or_empty b, c_edited := True\<rparr>) d"
    assume "foreign t V d" and r: "(if fst ?r \<noteq> 0 \<and> (case b of None \<Rightarrow> True | Some b \<Rightarrow> \<not> text_fits b)
        then Inl DbError else Inr ?r) = Inr (x, d')"
    then have "foreign t V (snd ?r)" by (intro foreign_update_my_comments [OF assms]) simp_all
    then show "foreign t V d'" using r by (simp split: if_splits)
  qed
  show "preserves (foreign t V) (deleteComment i au)"
    unfolding deleteComment_def Let_def
    by (intro keeps) (use assms in \<open>auto intro!: foreign_delete_comments simp: my_comment_def\<close>)
  show "preserves (foreign t V) (updateCommentModeration i s au)"
    unfolding updateCommentModeration_def
    by (intro keeps) (use assms in \<open>auto intro!: foreign_update_my_comments simp: review_comment_def\<close>)
qed

lemma board_handlers_foreign:
  assumes "au_tenant au \<noteq> Some t"
  shows "preserves (foreign t V) (createTag nm co au)" "preserves (foreign t V) (updateTag i nm co au)"
    "preserves (foreign t V) (deleteTag i au)" "preserves (foreign t V) (addTagToPost p g au)"
    "preserves (foreign t V) (removeTagFromPost p g au)" "preserves (foreign t V) (createRoadmapColumn nm k so au)"
    "preserves (foreign t V) (updateRoadmapColumn i nm so au)" "preserves (foreign t V) (deleteRoadmapColumn i au)"
    "preserves (foreign t V) (addItemToRoadmap po cl so re au)" "preserves (foreign t V) (updateRoadmapItem i q au)"
    "preserves (foreign t V) (removeItemFromRoadmap i au)"
proof -
  note [keeps] = preserves_execute preserves_sql
  show "preserves (foreign t V) (createTag nm co au)"
    unfolding createTag_def by (intro keeps) (erule (1) foreign_insert_tag, rule assms)
  show "preserves (foreign t V) (updateTag i nm co au)"
    unfolding updateTag_def by (intro keeps) (erule (1) foreign_rename_tag, rule assms)
  show "preserves (foreign t V) (deleteTag i au)"
    unfolding deleteTag_def by (intro keeps) (use assms in \<open>auto intro!: foreign_delete_tags simp: my_tag_def\<close>)
  show "preserves (foreign t V) (addTagToPost p g au)"
    unfolding addTagToPost_def
    by (intro keeps) (erule (1) foreign_insert_post_tag, rule assms, simp split: exn.split add: preserves_ret)
  show "preserves (foreign t V) (removeTagFromPost p g au)"
    unfolding removeTagFromPost_def
    by (intro keeps) (use assms in \<open>auto intro!: foreign_table(3) filter_comm_filter simp: my_link_def\<close>)
  show "preserves (foreign t V) (createRoadmapColumn nm k so au)"
    unfolding createRoadmapColumn_def by (intro keeps) (erule (1) foreign_insert_column, rule assms)
  show "preserves (foreign t V) (updateRoadmapColumn i nm so au)"
    unfolding updateRoadmapColumn_def by (intro keeps) (erule (1) foreign_rename_column, rule assms)
  show "preserves (foreign t V) (deleteRoadmapColumn i au)"
    unfolding deleteRoadmapColumn_def
    by (intro keeps) (use assms in \<open>auto intro!: foreign_delete_columns simp: my_column_def\<close>)
  have t: "tid \<noteq> t" if "au_tenant au = Some tid" for tid using that assms by simp
  show "preserves (foreign t V) (removeItemFromRoadmap i au)"
    unfolding removeItemFromRoadmap_def
    by (intro keeps)
       (use assms t in \<open>auto intro!: foreign_table(4) filter_comm_filter shared_foreign simp: my_item_def\<close>)
  show "preserves (foreign t V) (addItemToRoadmap po cl so re au)"
    unfolding addItemToRoadmap_def
    by (intro keeps) (erule (1) foreign_insert_item, rule assms, use t in auto)
  show "preserves (foreign t V) (updateRoadmapItem i q au)"
    unfolding updateRoadmapItem_def
    by (intro keeps) (erule (1) foreign_update_item, rule assms, use t in auto)
qed

text \<open>No request of a caller outside workspace \<open>t\<close> touches its rows.\<close>

lemma dash_action_foreign:
  assumes "au_tenant au \<noteq> Some t"
  shows "preserves (foreign t V) (dash_action q au)"
  using post_handlers_foreign [OF assms] comment_handlers_foreign [OF assms] board_handlers_foreign [OF assms]
  by (cases q) (simp_all add: dash_action_def keeps_reply)

end
