(* ===== verification/Dashboard_Facts.thy ===== *)
theory Dashboard_Facts
  imports Dashboard_Safety
begin

text \<open>
  What the dashboard guarantees: workspaces do not reach into each other, clearing spam clears
  only spam, a review keeps the first score, and the roadmap follows the status of a post; and
  two places where it does less than its comments say.
\<close>

section \<open>Isolation\<close>

text \<open>
  One step of the system that is not workspace \<open>t\<close>'s own: a portal request to another board, a
  dashboard request of a caller who is not a member of \<open>t\<close>, or time passing and the outside
  services changing.
\<close>

inductive outside_step :: "nat \<Rightarrow> world \<Rightarrow> world \<Rightarrow> bool" for t where
  portal: "t_id board \<noteq> t \<Longrightarrow> outside_step t w (snd (portal_action board header req q w))"
| dashboard: "au_tenant au \<noteq> Some t \<Longrightarrow> outside_step t w (snd (dash_action q' au w))"
| elsewhere: "db w' = db w \<Longrightarrow> outside_step t w w'"

inductive_cases outside_stepE: "outside_step t w w'"

lemma outside_step_foreign: "outside_step t w w' \<Longrightarrow> foreign t V (db w) \<Longrightarrow> foreign t V (db w')"
  by (induction rule: outside_step.induct)
     (simp_all add: preservesD [OF portal_action_foreign] preservesD [OF dash_action_foreign])

lemma outside_run_foreign: "(outside_step t)\<^sup>*\<^sup>* w w' \<Longrightarrow> foreign t V (db w) \<Longrightarrow> foreign t V (db w')"
  by (induction rule: rtranclp_induct) (auto intro: outside_step_foreign)


definition attacker :: auth where
  "attacker = \<lparr>au_id = 9, au_tenant = Some 2, au_role = Owner, au_email = js ''eve@other.test'', au_sid = None\<rparr>"

definition shared_db :: database where
  "shared_db = demo_db\<lparr>posts := [demo_post 1 1 ''Dark mode''], auto := (\<lambda>_. 50)\<rparr>"


section \<open>Clearing spam\<close>

text \<open>A post without its duplicate mark, which the deletion of the other post may clear.\<close>

definition unmarked :: "post \<Rightarrow> post" where
  "unmarked p = p\<lparr>p_duplicate_of := None\<rparr>"

lemma posts_delete_posts:
  "map unmarked (posts (delete_posts P d)) = map unmarked (filter (\<lambda>p. \<not> P p) (posts d))"
  by (simp add: delete_posts_def Let_def update_where_def unmarked_def)

text \<open>What the request selected: the ids it lists, or everything older than a number of days.\<close>

definition purge_selects :: "int list option \<Rightarrow> int option \<Rightarrow> int \<Rightarrow> post \<Rightarrow> bool" where
  "purge_selects ids olderThanDays now p =
     (case ids of
        Some xs \<Rightarrow> p_id p \<noteq> 0 \<and> int (p_id p) \<in> set xs
      | None \<Rightarrow> (case olderThanDays of None \<Rightarrow> False | Some n \<Rightarrow> 1 \<le> n \<and> p_created p < now - days n))"

lemma listed_ids: "i \<in> set (map nat (filter (\<lambda>n. n > 0) xs)) \<longleftrightarrow> i \<noteq> 0 \<and> int i \<in> set xs"
  by (auto simp: image_iff intro!: bexI [of _ "int i"])

text \<open>
  Clearing spam deletes only what the filter quarantined: a successful purge comes from an
  owner and deletes exactly the selected posts of the owner's own workspace in state
  \<open>spam\<close>, and reports their number; flagged but published feedback and every other workspace's
  posts stay.  Anything else leaves all posts as they were.
\<close>

theorem purge_takes_only_spam:
  "wp (purgeSpamPosts au ids olderThanDays)
     (\<lambda>r w'. case r of
        Inr (Resolve code key n) \<Rightarrow>
          au_role au = Owner
          \<and> map unmarked (posts (db w')) =
              map unmarked (filter (\<lambda>p. \<not> (Some (p_tenant p) = au_tenant au \<and> p_moderation p = Spam
                \<and> purge_selects ids olderThanDays (clock (db w)) p)) (posts (db w)))
          \<and> n = length (filter (\<lambda>p. Some (p_tenant p) = au_tenant au \<and> p_moderation p = Spam
                \<and> purge_selects ids olderThanDays (clock (db w)) p) (posts (db w)))
      | _ \<Rightarrow> posts (db w') = posts (db w)) w"
  by (cases ids; cases olderThanDays)
     (auto simp: purgeSpamPosts_def purge_where_def Let_def posts_delete_posts quarantined_of_def
        purge_selects_def listed_ids simp del: set_map set_filter)

section \<open>Retention\<close>

lemma replies_of_Nil [simp]: "replies_of [] cs = []"
  by (auto simp: replies_of_def filter_empty_conv split: option.splits)

lemma thread_closure_Nil [simp]: "thread_closure n [] cs = []"
  by (induction n) simp_all

lemma delete_no_posts: "filter P (posts d) = [] \<Longrightarrow> comments (delete_posts P d) = comments d \<and> clock (delete_posts P d) = clock d"
  by (simp add: delete_posts_def delete_comments_def Let_def)

lemma deleted_with_parent:
  assumes "q \<in> set (comments d)" "P q" "c \<in> set (comments d)" "c_parent c = Some (c_id q)"
  shows "c \<notin> set (comments (delete_comments P d))"
proof -
  have "c_id c \<in> set (thread_closure (length (comments d)) (map c_id (filter P (comments d))) (comments d))"
    using assms by (intro closure_takes_replies [of c _ "c_id q"]) auto
  then show ?thesis by (simp add: delete_comments_def Let_def)
qed

text \<open>
  The retention job removes no feedback the filter did not quarantine: whatever it does, every
  post that is not in state \<open>spam\<close> is still there.
\<close>

theorem retention_keeps_feedback:
  "wp purgeExpiredSpam
     (\<lambda>r w'. unmarked ` {p \<in> set (posts (db w)). p_moderation p \<noteq> Spam} \<subseteq> unmarked ` set (posts (db w'))) w"
proof -
  have "unmarked ` {p \<in> set (posts d). p_moderation p \<noteq> Spam} \<subseteq> unmarked ` set (posts (delete_posts (expired_post n d) d))"
    for d n
  proof -
    have "unmarked ` set (posts (delete_posts (expired_post n d) d))
        = unmarked ` {p \<in> set (posts d). \<not> expired_post n d p}"
      using arg_cong [OF posts_delete_posts [of "expired_post n d" d], of set] by simp
    then show ?thesis by (auto simp: expired_post_def)
  qed
  then show ?thesis by (auto simp: purgeExpiredSpam_def delete_comments_def Let_def)
qed

text \<open>
  Comments fare worse: \<open>spamRetention.js\<close> promises to touch only quarantined rows, but the
  database deletes the replies of a comment with it, so a published reply to an expired
  quarantined comment goes too.
\<close>

theorem retention_takes_published_replies:
  assumes "healthy w" and "RETENTION_DAYS (svc w) = n" and "0 < n"
    and "filter (expired_post n (db w)) (posts (db w)) = []"
    and "q \<in> set (comments (db w))" "c_moderation q = Spam" "c_created q < clock (db w) - days n"
    and "c \<in> set (comments (db w))" "c_parent c = Some (c_id q)" "c_moderation c = Published"
  shows "wp purgeExpiredSpam (\<lambda>r w'. c \<notin> set (comments (db w'))) w"
proof -
  let ?d = "delete_posts (expired_post n (db w)) (db w)"
  have d: "comments ?d = comments (db w)" "clock ?d = clock (db w)"
    using delete_no_posts [OF assms(4)] by auto
  have "c \<notin> set (comments (delete_comments (expired_comment n ?d) ?d))"
    by (rule deleted_with_parent [of q]) (use assms d in \<open>auto simp: expired_comment_def\<close>)
  then show ?thesis
    using assms(1-3) by (simp add: purgeExpiredSpam_def isEnabled_def)
qed

definition demo_comment :: "nat \<Rightarrow> nat option \<Rightarrow> moderation \<Rightarrow> board_comment" where
  "demo_comment i parent st =
     \<lparr>c_id = i, c_tenant = 1, c_post = 5, c_author = None, c_submitter_name = None, c_submitter_email = None,
      c_guest = None, c_voter_hash = None, c_as_owner = 0, c_parent = parent, c_body = js ''text'',
      c_edited = False, c_moderation = st, c_score = 0, c_reasons = [], c_reviewed_at = None,
      c_reviewed_score = None, c_created = 0\<rparr>"

definition moderated_db :: database where
  "moderated_db = demo_db\<lparr>clock := days 40, comments := [demo_comment 1 None Spam, demo_comment 2 (Some 1) Published]\<rparr>"

theorem retention_takes_published_replies_witness:
  "wp purgeExpiredSpam (\<lambda>r w'. demo_comment 2 (Some 1) Published \<notin> set (comments (db w'))) (demo_world moderated_db)"
  by (rule retention_takes_published_replies [where n = 30 and q = "demo_comment 1 None Spam"])
     (simp_all add: RETENTION_DAYS_def env_or_def demo_services_def moderated_db_def demo_comment_def
        demo_db_def expired_post_def demo_post_def days_def)

section \<open>Reviewing\<close>

text \<open>Several reviews of one post, as states with the time each was made.\<close>

definition reviewed :: "int \<Rightarrow> moderation list \<Rightarrow> post \<Rightarrow> post" where
  "reviewed now sts p = fold (review_post now) sts p"

lemma reviewed_simps [simp]:
  "reviewed now [] p = p" "reviewed now (st # sts) p = reviewed now sts (review_post now st p)"
  by (simp_all add: reviewed_def)

lemma reviewed_step: "reviewed now (st # sts) = (\<lambda>p. reviewed now sts (review_post now st p))"
  by (rule ext) simp

lemma reviewed_score:
  "p_reviewed_score (reviewed now sts p) =
     (case p_reviewed_score p of Some s \<Rightarrow> Some s
      | None \<Rightarrow> if Published \<in> set sts then Some (p_score p) else None)"
  "p_score (reviewed now sts p) = (if Published \<in> set sts then 0 else p_score p)"
  "p_moderation (reviewed now sts p) = (if sts = [] then p_moderation p else last sts)"
  by (induction sts arbitrary: p) (auto simp: review_post_def split: option.splits)

lemma reviewed_key: "my_post au i (review_post now st p) = my_post au i p"
  by (simp add: my_post_def review_post_def)

definition moderation_text :: "moderation \<Rightarrow> string" where
  "moderation_text st = (case st of Published \<Rightarrow> ''published'' | PendingReview \<Rightarrow> ''pending'' | Spam \<Rightarrow> ''spam'')"

lemma parse_moderation_text [simp]: "parse_moderation (moderation_text st) = Some st"
  by (cases st) (simp_all add: moderation_text_def)

lemma update_where_compose:
  "(\<And>x. P (f x) = P x) \<Longrightarrow> update_where P g (update_where P f xs) = update_where P (\<lambda>x. g (f x)) xs"
  by (induction xs) auto

lemma review_one:
  assumes "healthy w"
  shows "wp (updatePostModeration i (moderation_text st) au)
     (\<lambda>r w'. (\<exists>x. r = Inr x)
        \<and> w' = w\<lparr>qn := Suc (qn w), db := snd (update_my_posts au i (review_post (clock (db w)) st) (db w))\<rparr>) w"
  using assms by (simp add: updatePostModeration_def answer_rows_def del: parse_moderation.simps)

lemma reviews_run:
  assumes "healthy w"
  shows "wp (for_each sts (\<lambda>st. updatePostModeration i (moderation_text st) au))
     (\<lambda>r w'. posts (db w') = update_where (my_post au i) (reviewed (clock (db w)) sts) (posts (db w))) w"
  using assms
proof (induction sts arbitrary: w)
  case Nil
  then show ?case by (simp add: update_where_def)
next
  case (Cons st sts)
  let ?d = "snd (update_my_posts au i (review_post (clock (db w)) st) (db w))"
  have d: "clock ?d = clock (db w)"
    "update_where (my_post au i) (reviewed (clock (db w)) sts) (posts ?d) =
     update_where (my_post au i) (reviewed (clock (db w)) (st # sts)) (posts (db w))"
    by (simp_all add: update_my_posts_def update_where_compose reviewed_key reviewed_step)
  have "wp (for_each sts (\<lambda>st. updatePostModeration i (moderation_text st) au))
     (\<lambda>r w'. posts (db w') = update_where (my_post au i) (reviewed (clock (db w)) (st # sts)) (posts (db w)))
     (w\<lparr>qn := Suc (qn w), db := ?d\<rparr>)"
    using Cons.IH [of "w\<lparr>qn := Suc (qn w), db := ?d\<rparr>"] Cons.prems d by simp
  then have rest: "wp (bnd (for_each sts (\<lambda>st. updatePostModeration i (moderation_text st) au)) (\<lambda>ys. ret (y # ys)))
     (\<lambda>r w'. posts (db w') = update_where (my_post au i) (reviewed (clock (db w)) (st # sts)) (posts (db w)))
     (w\<lparr>qn := Suc (qn w), db := ?d\<rparr>)" for y
    by (rule wp_seq) simp_all
  show ?case
    unfolding for_each.simps by (rule wp_seq [OF review_one [OF Cons.prems]]) (use rest in \<open>auto simp del: wp_bnd reviewed_simps\<close>)
qed

text \<open>
  A human's verdict keeps the evidence: after any number of reviews of a post, in any order,
  the post is in the state of the last one, a review that published it has taken it out of the
  queue (score 0), and the remembered score is the one the classifier gave, not the 0 of a
  later review; no other post changes.
\<close>

theorem review_keeps_first_score:
  assumes "healthy w" and "my_post au i p" and "p_reviewed_score p = None"
    and "posts (db w) = before @ p # after" and "list_all (\<lambda>q. \<not> my_post au i q) (before @ after)"
    and "sts \<noteq> []"
  shows "wp (for_each sts (\<lambda>st. updatePostModeration i (moderation_text st) au))
     (\<lambda>r w'. \<exists>p'. posts (db w') = before @ p' # after
        \<and> p_moderation p' = last sts \<and> p_title p' = p_title p
        \<and> p_score p' = (if Published \<in> set sts then 0 else p_score p)
        \<and> p_reviewed_score p' = (if Published \<in> set sts then Some (p_score p) else None)) w"
proof (rule wp_mono [OF reviews_run [OF assms(1)]])
  fix r w'
  let ?p = "reviewed (clock (db w)) sts p"
  assume "posts (db w') = update_where (my_post au i) (reviewed (clock (db w)) sts) (posts (db w))"
  moreover have "update_where (my_post au i) f before = before" "update_where (my_post au i) f after = after" for f
    using assms(5) by (auto simp: list_all_iff intro!: update_where_no_match)
  ultimately have "posts (db w') = before @ ?p # after"
    using assms(2,4) by (simp add: update_where_def)
  moreover have "p_title ?p = p_title p"
    by (induction sts arbitrary: p) (simp_all add: review_post_def)
  ultimately show "\<exists>p'. posts (db w') = before @ p' # after
        \<and> p_moderation p' = last sts \<and> p_title p' = p_title p
        \<and> p_score p' = (if Published \<in> set sts then 0 else p_score p)
        \<and> p_reviewed_score p' = (if Published \<in> set sts then Some (p_score p) else None)"
    using assms(3,6) by (auto simp: reviewed_score)
qed

definition queued :: post where
  "queued = (demo_post 5 1 ''dark mode'')\<lparr>p_moderation := Spam, p_score := 70\<rparr>"

theorem review_keeps_first_score_witness:
  "wp (for_each [Published, Spam, Published] (\<lambda>st. updatePostModeration 5 (moderation_text st)
        \<lparr>au_id = 1, au_tenant = Some 1, au_role = Owner, au_email = [], au_sid = None\<rparr>))
     (\<lambda>r w'. \<exists>p'. posts (db w') = [] @ p' # []
        \<and> p_moderation p' = last [Published, Spam, Published] \<and> p_title p' = p_title queued
        \<and> p_score p' = (if Published \<in> set [Published, Spam, Published] then 0 else p_score queued)
        \<and> p_reviewed_score p' = (if Published \<in> set [Published, Spam, Published] then Some (p_score queued) else None))
     (demo_world (demo_db\<lparr>posts := [queued]\<rparr>))"
  by (rule review_keeps_first_score) (simp_all add: my_post_def queued_def demo_post_def)

section \<open>The roadmap and the status\<close>

text \<open>
  Changing a post's status moves its roadmap item into the column of that status, and
  nothing else: the item of this post in this workspace, and no other item or post.
\<close>

theorem roadmap_follows_status:
  assumes "healthy w" and "au_tenant au = Some t" and "list_ex (my_post au i) (posts (db w))"
    and "find (\<lambda>c. enum_is (rc_key c) (status_text st) \<and> rc_tenant c = t) (roadmap_columns (db w)) = Some c"
  shows "wp (updatePostStatus i (status_text st) au)
     (\<lambda>r w'. r = Inr (Resolve OK ''post_status_updated_successfully'' ())
        \<and> posts (db w') = update_where (my_post au i) (\<lambda>p. p\<lparr>p_status := st\<rparr>) (posts (db w))
        \<and> roadmap_items (db w') = update_where (\<lambda>x. ri_post x = i \<and> ri_tenant x = t)
             (\<lambda>x. x\<lparr>ri_column := rc_id c\<rparr>) (roadmap_items (db w))) w"
proof -
  have "filter (my_post au i) (posts (db w)) \<noteq> []"
    using assms(3) by (auto simp: list_ex_iff filter_empty_conv)
  then show ?thesis
    using assms(1,2,4)
    by (simp add: updatePostStatus_def update_my_posts_def syncRoadmapItemToStatus_def move_item_def
        del: parse_status.simps)
qed

theorem roadmap_follows_status_witness:
  "wp (updatePostStatus 5 (status_text StPlanned)
        \<lparr>au_id = 1, au_tenant = Some 1, au_role = Member, au_email = [], au_sid = None\<rparr>)
     (\<lambda>r w'. r = Inr (Resolve OK ''post_status_updated_successfully'' ())) 
     (demo_world (demo_db\<lparr>roadmap_columns := [\<lparr>rc_id = 4, rc_tenant = 1, rc_name = js ''Next'', rc_key = ''planned'', rc_order = 0\<rparr>]\<rparr>))"
  by (rule wp_mono [OF roadmap_follows_status [where t = 1
        and c = "\<lparr>rc_id = 4, rc_tenant = 1, rc_name = js ''Next'', rc_key = ''planned'', rc_order = 0\<rparr>"]])
     (simp_all add: my_post_def demo_db_def demo_post_def enum_is_def status_text_def)

lemma find_update_where:
  "(\<And>x. P x \<Longrightarrow> P (f x)) \<Longrightarrow> find P (update_where P f xs) = map_option f (find P xs)"
  by (induction xs) auto

text \<open>
  Dragging a roadmap item into a column that stands for a status sets the status of its post
  to it, in this workspace only.
\<close>

theorem status_follows_roadmap:
  assumes "healthy w" and "au_tenant au = Some t" and "ip_column q = Some (Some k)" and "k \<noteq> 0"
    and "\<not> patch_fails q (db w)" and "find (my_item au i) (roadmap_items (db w)) = Some x" and "ri_post x \<noteq> 0"
    and "find (\<lambda>c. rc_id c = k \<and> rc_tenant c = t) (roadmap_columns (db w)) = Some c"
    and "parse_status (rc_key c) = Some st"
  shows "wp (updateRoadmapItem i q au)
     (\<lambda>r w'. r = Inr (Resolve OK ''roadmap_item_updated_successfully'' ())
        \<and> posts (db w') = update_where (\<lambda>p. p_id p = ri_post x \<and> p_tenant p = t) (\<lambda>p. p\<lparr>p_status := st\<rparr>) (posts (db w))) w"
proof -
  have found: "find (my_item au i) (update_where (my_item au i) (patch_item q) (roadmap_items (db w))) = Some (patch_item q x)"
    using assms(6) by (subst find_update_where) (simp_all add: my_item_def patch_item_def)
  have "filter (my_item au i) (roadmap_items (db w)) \<noteq> []"
    using findD [OF assms(6)] by (auto simp: filter_empty_conv)
  then show ?thesis
    using assms found
    by (simp add: updateRoadmapItem_def update_item_def Let_def syncPostStatusToColumn_def id_or_zero_def
        set_post_status_def statusFromColumnKey_def patch_item_def del: parse_status.simps)
qed

definition planned_column :: roadmap_column where
  "planned_column = \<lparr>rc_id = 4, rc_tenant = 1, rc_name = js ''Next'', rc_key = ''planned'', rc_order = 0\<rparr>"

theorem status_follows_roadmap_witness:
  "wp (updateRoadmapItem 7 \<lparr>ip_column = Some (Some 4), ip_order = None, ip_release = None\<rparr>
        \<lparr>au_id = 1, au_tenant = Some 1, au_role = Member, au_email = [], au_sid = None\<rparr>)
     (\<lambda>r w'. map p_status (posts (db w')) = [StPlanned, StOpen])
     (demo_world (demo_db\<lparr>roadmap_columns := [planned_column],
        roadmap_items := [\<lparr>ri_id = 7, ri_tenant = 1, ri_post = 5, ri_column = 3, ri_order = 0, ri_release = None\<rparr>]\<rparr>))"
  by (rule wp_mono [OF status_follows_roadmap [where t = 1 and k = 4 and st = StPlanned and c = planned_column
        and x = "\<lparr>ri_id = 7, ri_tenant = 1, ri_post = 5, ri_column = 3, ri_order = 0, ri_release = None\<rparr>"]])
     (simp_all add: my_item_def demo_db_def demo_post_def planned_column_def patch_fails_def has_column_def)

section \<open>Threads\<close>

text \<open>
  The portal keeps threads two levels deep, the dashboard does not: a successful dashboard
  reply to a comment that is itself a reply leaves a thread deeper than that.
\<close>

theorem dashboard_reply_nests:
  assumes "q \<in> set (comments (db w))" and "c_parent q = Some root" and "dc_parent f = Some (c_id q)" and "c_id q \<noteq> 0"
  shows "wp (createComment f au) (\<lambda>r w'. case r of Inr (Resolve code key i) \<Rightarrow> \<not> threads_ok (db w') | _ \<Rightarrow> True) w"
proof -
  have deep: "\<not> threads_ok d'" if "insert_dashboard_comment au k f d = Inr (i, d')" "comments d = comments (db w)" for k d i d'
  proof
    assume ok: "threads_ok d'"
    from that(1) obtain c where row: "dashboard_comment au k f = Some c" and ins: "insert_comment c d = Inr (i, d')"
      unfolding insert_dashboard_comment_def by (cases "dashboard_comment au k f") simp_all
    from row have c: "c_parent c = Some (c_id q)"
      using assms by (auto simp: dashboard_comment_def split: option.splits)
    from ins obtain j where new: "comments d' = comments d @ [c\<lparr>c_id := j, c_created := clock d\<rparr>]"
      by (auto simp: insert_comment_def Let_def split: if_splits)
    have "c_parent q = None"
      using threads_okD [OF ok, of "c\<lparr>c_id := j, c_created := clock d\<rparr>" "c_id q" q] c new that(2) assms(1)
      by simp
    with assms(2) show False by simp
  qed
  have mode: "wp (owner_mode (dc_mode f) au) (\<lambda>r w'. db w' = db w) w"
    by (rule preserves_wp [of "\<lambda>d. d = db w"]) (auto simp: owner_mode_def Let_def intro!: keeps)
  show ?thesis
    unfolding createComment_def
    by (rule wp_seq [OF mode]) (use deep in \<open>auto split: sum.splits prod.splits\<close>)
qed

definition team_member :: auth where
  "team_member = \<lparr>au_id = 1, au_tenant = Some 1, au_role = Member, au_email = [], au_sid = None\<rparr>"

theorem dashboard_reply_nests_witness:
  "wp (createComment \<lparr>dc_post = Some 5, dc_body = Some [65], dc_parent = Some 2, dc_mode = None\<rparr> team_member)
     (\<lambda>r w'. (case r of Inr (Resolve code key i) \<Rightarrow> \<not> threads_ok (db w') | _ \<Rightarrow> True) \<and> (\<exists>c k i. r = Inr (Resolve c k i)))
     (demo_world moderated_db)"
proof (rule wp_conj [OF dashboard_reply_nests [where q = "demo_comment 2 (Some 1) Published" and root = 1]])
  show "wp (createComment \<lparr>dc_post = Some 5, dc_body = Some [65], dc_parent = Some 2, dc_mode = None\<rparr> team_member)
     (\<lambda>r w'. \<exists>c k i. r = Inr (Resolve c k i)) (demo_world moderated_db)"
    by (simp add: createComment_def owner_mode_def team_member_def insert_dashboard_comment_def dashboard_comment_def
        insert_comment_def has_tenant_def has_post_def has_comment_def has_user_def fk_opt_def text_fits_def
        utf8_bytes_def moderated_db_def demo_defs demo_comment_def demo_services_def Let_def)
qed (simp_all add: moderated_db_def demo_comment_def)

end
