(* ===== verification/Read_Facts.thy ===== *)
theory Read_Facts
  imports Board_Reads Dashboard_Facts "HOL-Library.Multiset"
begin

text \<open>
  What the readers of a board can rely on: pages that tile the listing, nothing quarantined,
  and addresses only on a paid plan; and two places where the scope of a query is too wide.
\<close>

section \<open>The listing\<close>

lemma mset_order_posts [simp]: "mset (order_posts k s ps) = mset ps"
  by (simp add: order_posts_def split: board_sort.split)

lemma set_order_posts [simp]: "set (order_posts k s ps) = set ps"
  by (rule mset_eq_setD) simp

lemma length_order_posts [simp]: "length (order_posts k s ps) = length ps"
  by (rule mset_eq_length) simp

lemma set_limit_rows: "set (limit_rows n k xs) \<subseteq> set xs"
  by (auto simp: limit_rows_def dest: in_set_takeD in_set_dropD)

lemma length_limit_rows: "length (limit_rows n k xs) \<le> nat n"
  by (simp add: limit_rows_def)

lemma limit_rows_map: "limit_rows n k (map f xs) = map f (limit_rows n k xs)"
  by (simp add: limit_rows_def take_map drop_map)

lemma limit_rows_Nil [simp]: "limit_rows n k [] = []"
  by (simp add: limit_rows_def)

text \<open>Everything the request asks for, before paging.\<close>

definition board_listing :: "nat \<Rightarrow> board_page \<Rightarrow> board_filter \<Rightarrow> database \<Rightarrow> post list" where
  "board_listing t pg f d = public_listing t f (board_search pg f) (board_order pg) d"

lemma set_board_listing:
  "set (board_listing t pg f d) = {p \<in> set (posts d). public_where t f (board_search pg f) d p}"
  by (simp add: board_listing_def public_listing_def)

lemma length_board_listing:
  "length (filter (public_where t f (board_search pg f) d) (posts d)) = length (board_listing t pg f d)"
  by (simp add: board_listing_def public_listing_def)

lemma bc_id_complete [simp]: "bc_id (complete_card a b c r) = bc_id r"
  by (simp add: complete_card_def)

lemma ids_public_rows: "map bc_id (limit_rows n k (map (public_row t d) ps)) = map p_id (limit_rows n k ps)"
  by (simp add: limit_rows_map public_row_def comp_def)

lemma ids_complete: "map bc_id (map (complete_card a b c) rs) = map bc_id rs"
  by (simp add: comp_def)

definition board_reply :: "nat \<Rightarrow> board_page \<Rightarrow> board_filter \<Rightarrow> world \<Rightarrow> exn + (board_card list \<times> nat) outcome \<Rightarrow> bool" where
  "board_reply t pg f w r =
     (case r of
        Inr (Resolve code key (cards, matching)) \<Rightarrow>
          map bc_id cards = map p_id (limit_rows (page_size (svc w) pg) (page_offset (svc w) pg) (board_listing t pg f (db w)))
          \<and> matching = length (board_listing t pg f (db w))
      | Inr (Reject code key) \<Rightarrow> (code, key) = (INTERNAL_SERVER_ERROR, ''failed_to_get_posts'')
      | Inl e \<Rightarrow> False)"

lemma getPublicBoard_spec:
  "wp (getPublicBoard t pg f) (\<lambda>r w'. db w' = db w \<and> svc w' = svc w \<and> board_reply t pg f w r) w"
proof -
  let ?rows = "limit_rows (page_size (svc w) pg) (page_offset (svc w) pg)
     (map (public_row t (db w)) (public_listing t f (board_search pg f) (board_order pg) (db w)))"
  have rows: "map bc_id ?rows = map p_id (limit_rows (page_size (svc w) pg) (page_offset (svc w) pg) (board_listing t pg f (db w)))"
    by (simp only: ids_public_rows board_listing_def)
  have empty: "board_reply t pg f w (Inr (Resolve c k ([], length (board_listing t pg f (db w)))))" if "?rows = []" for c k
    using rows that by (simp add: board_reply_def)
  have full: "board_reply t pg f w (Inr (Resolve c k (map (complete_card x y z) ?rows, length (board_listing t pg f (db w)))))"
    for c k x y z
    unfolding board_reply_def using rows by (simp only: outcome.case sum.case prod.case ids_complete)
  have bad: "board_reply t pg f w (Inr (Reject INTERNAL_SERVER_ERROR ''failed_to_get_posts''))"
    by (simp add: board_reply_def)
  show ?thesis
    unfolding getPublicBoard_def select_page_def
    by (simp add: length_board_listing bad full empty del: map_map)
qed

text \<open>
  C36: A page of the public board: a successful answer holds at most the capped number of
  cards, whatever the request asks for; they are that slice of the ordered listing; every one
  of them is a post of this board that is not quarantined; the total is the number of all
  matching posts; and nothing is written.
\<close>

theorem public_board_page:
  "wp (getPublicBoard t pg f)
     (\<lambda>r w'. db w' = db w \<and> (case r of
        Inr (Resolve code key (cards, matching)) \<Rightarrow>
          int (length cards) \<le> max 0 (MAX_ITEMS_PER_PAGE (svc w))
          \<and> map bc_id cards = map p_id (limit_rows (page_size (svc w) pg) (page_offset (svc w) pg)
               (public_listing t f (board_search pg f) (board_order pg) (db w)))
          \<and> set (map bc_id cards) \<subseteq> p_id ` {p \<in> set (posts (db w)). p_tenant p = t \<and> p_moderation p \<noteq> Spam}
          \<and> matching = length (filter (public_where t f (board_search pg f) (db w)) (posts (db w)))
      | Inr (Reject code key) \<Rightarrow> (code, key) = (INTERNAL_SERVER_ERROR, ''failed_to_get_posts'')
      | Inl e \<Rightarrow> False)) w"
proof (rule wp_mono [OF getPublicBoard_spec], elim conjE, goal_cases)
  case (1 r w')
  let ?page = "limit_rows (page_size (svc w) pg) (page_offset (svc w) pg) (board_listing t pg f (db w))"
  have len: "length cards = length ?page" if "map bc_id cards = map p_id ?page" for cards
    using arg_cong [OF that, of length] by simp
  have "int (length ?page) \<le> max 0 (MAX_ITEMS_PER_PAGE (svc w))"
    using length_limit_rows [of "page_size (svc w) pg" "page_offset (svc w) pg" "board_listing t pg f (db w)"]
    by (simp add: page_size_def)
  moreover have "set (map p_id ?page) \<subseteq> p_id ` {p \<in> set (posts (db w)). p_tenant p = t \<and> p_moderation p \<noteq> Spam}"
    using set_limit_rows [of _ _ "board_listing t pg f (db w)"]
    by (auto simp: set_board_listing public_where_def)
  ultimately show ?case
  proof (cases r)
    case (Inr x)
    note r = this
    show ?thesis
    proof (cases x)
      case (Resolve code key y)
      then obtain cards matching where "r = Inr (Resolve code key (cards, matching))"
        using r by (cases y) simp
      moreover from this have "length cards = length ?page"
        using 1 by (intro len) (simp add: board_reply_def)
      moreover note 1 \<open>int (length ?page) \<le> max 0 (MAX_ITEMS_PER_PAGE (svc w))\<close>
        \<open>set (map p_id ?page) \<subseteq> p_id ` {p \<in> set (posts (db w)). p_tenant p = t \<and> p_moderation p \<noteq> Spam}\<close>
      ultimately show ?thesis
        by (simp only: board_reply_def sum.case outcome.case prod.case length_board_listing board_listing_def simp_thms)
    qed (use 1 r in \<open>simp add: board_reply_def\<close>)
  qed (use 1 in \<open>simp add: board_reply_def\<close>)
qed

text \<open>Asking for page after page.\<close>

definition nth_page :: "board_page \<Rightarrow> nat \<Rightarrow> nat \<Rightarrow> board_page" where
  "nth_page pg n k = pg\<lparr>pg_items := Some (int n), pg_offset := Some (int (k * n))\<rparr>"

definition page_ids :: "nat \<Rightarrow> board_page \<Rightarrow> board_filter \<Rightarrow> nat \<Rightarrow> nat \<Rightarrow> nat list io" where
  "page_ids t pg f n k =
     bnd (getPublicBoard t (nth_page pg n k) f) (\<lambda>r.
       case r of Resolve code key (cards, matching) \<Rightarrow> ret (map bc_id cards) | Reject code key \<Rightarrow> raise (Coded key))"

definition read_pages :: "nat \<Rightarrow> board_page \<Rightarrow> board_filter \<Rightarrow> nat \<Rightarrow> nat \<Rightarrow> nat list io" where
  "read_pages t pg f n m = bnd (for_each [0..<m] (page_ids t pg f n)) (\<lambda>ids. ret (concat ids))"

lemma nth_page_simps:
  "0 < n \<Longrightarrow> int n \<le> MAX_ITEMS_PER_PAGE s \<Longrightarrow> page_size s (nth_page pg n k) = int n"
  "int (k * n) \<le> MAX_OFFSET s \<Longrightarrow> page_offset s (nth_page pg n k) = int (k * n)"
  "board_listing t (nth_page pg n k) f d = board_listing t pg f d"
  by (auto simp: page_size_def page_offset_def nth_page_def int_or_def board_listing_def board_search_def
      search_text_def board_order_def split: option.split)

lemma take_pages: "concat (map (\<lambda>k. take n (drop (k * n) xs)) [0..<m]) = take (m * n) xs"
proof (induction m)
  case (Suc m)
  have "take (m * n) xs @ take n (drop (m * n) xs) = take (m * n + n) xs"
    by (simp add: take_add)
  with Suc show ?case by (simp add: add.commute)
qed simp

lemma read_some_pages:
  assumes "0 < n" and "int n \<le> MAX_ITEMS_PER_PAGE (svc w)" and "\<And>k. k \<in> set ks \<Longrightarrow> int (k * n) \<le> MAX_OFFSET (svc w)"
  shows "wp (for_each ks (page_ids t pg f n))
     (\<lambda>r w'. case r of Inr ids \<Rightarrow> ids = map (\<lambda>k. map p_id (take n (drop (k * n) (board_listing t pg f (db w))))) ks
        | Inl e \<Rightarrow> True) w"
  using assms
proof (induction ks arbitrary: w)
  case (Cons k ks)
  note size = nth_page_simps(1) [OF Cons.prems(1,2), of pg k]
    and offset = nth_page_simps(2) [OF Cons.prems(3) [of k], simplified, of pg]
  have one: "wp (page_ids t pg f n k)
     (\<lambda>r w1. db w1 = db w \<and> svc w1 = svc w \<and> (case r of
         Inr ids \<Rightarrow> ids = map p_id (take n (drop (k * n) (board_listing t pg f (db w)))) | Inl e \<Rightarrow> True)) w"
    unfolding page_ids_def
    by (rule wp_seq [OF getPublicBoard_spec])
       (auto simp: board_reply_def size offset nth_page_simps(3) limit_rows_def nat_mult_distrib split: outcome.splits)
  show ?case
    unfolding for_each.simps
  proof (rule wp_seq [OF one], goal_cases)
    case (1 x w1)
    then have same: "db w1 = db w" "svc w1 = svc w" by auto
    have "wp (for_each ks (page_ids t pg f n))
     (\<lambda>r w'. case r of Inr ids \<Rightarrow> ids = map (\<lambda>k. map p_id (take n (drop (k * n) (board_listing t pg f (db w))))) ks
        | Inl e \<Rightarrow> True) w1"
      using Cons.IH [of w1] Cons.prems unfolding same by simp
    then show ?case by (rule wp_seq) (use 1 in auto)
  qed simp
qed simp


definition any_page :: board_page where
  "any_page = \<lparr>pg_sort = Some ''most_voted'', pg_order = None, pg_items = None, pg_offset = None, pg_filter = None\<rparr>"

definition any_post :: board_filter where
  "any_post = \<lparr>bf_status = None, bf_type = None, bf_tag = None, bf_pinned = None, bf_moderation = None, bf_search = None\<rparr>"

lemma any_request: "board_search any_page any_post = []"
  "public_where t any_post [] d p \<longleftrightarrow> p_tenant p = t \<and> p_moderation p \<noteq> Spam"
  by (code_simp, simp add: public_where_def filter_where_def any_post_def)


section \<open>A post and its thread\<close>

lemma set_sort_key_filter: "set (sort_key k (filter P xs)) = {x \<in> set xs. P x}"
  by simp


section \<open>Addresses\<close>

text \<open>
  The submitter's address reaches the dashboard only from a workspace whose plan includes
  contacting submitters, and only for a post of the caller's own workspace.
\<close>

theorem submitter_email_is_paid:
  "wp (getPostById i au)
     (\<lambda>r w'. case r of
        Inr (Resolve code key (shown, files)) \<Rightarrow>
          list_ex (\<lambda>p. my_post au i p \<and> dk_post shown = p
             \<and> dk_email shown = (if contactSubmitter (getPlanLimits (tenant_plan (db w) (au_tenant au)))
                                then submitter_address (db w) p else None)) (posts (db w))
      | Inr (Reject code key) \<Rightarrow> (code, key) \<in> {(NOT_FOUND, ''post_not_found''), (INTERNAL_SERVER_ERROR, ''failed_to_get_post'')}
      | Inl e \<Rightarrow> False) w"
proof -
  show ?thesis
    unfolding getPostById_def getAttachmentsForPost_def planAllows_def getTenantPlan_def Let_def
    by (auto simp: dash_row_def list_ex_iff dest!: findD split: option.splits)
qed

section \<open>Two queries that reach too far\<close>

text \<open>
  The public roadmap joins posts by id alone: a quarantined post that is on the roadmap is
  hidden from the board, but its title is on the public roadmap.
\<close>

theorem quarantined_title_on_roadmap:
  assumes "healthy w" and "x \<in> set (roadmap_items (db w))" and "ri_tenant x = t"
    and "find (\<lambda>q. p_id q = ri_post x) (posts (db w)) = Some p" and "p_moderation p = Spam"
  shows "wp (getPublicRoadmap t)
     (\<lambda>r w'. \<exists>cols items. r = Inr (Resolve OK ''roadmap_items_retrieved_successfully'' (cols, items))
        \<and> Some (p_title p) \<in> set (map rm_title items)) w"
proof -
  have "Some (p_title p) = rm_title ((roadmap_row (db w) x)\<lparr>rm_description := None\<rparr>)"
    using assms(4) by (simp add: roadmap_row_def Let_def)
  moreover have "x \<in> set (sort_key ri_order (filter (\<lambda>x. Some (ri_tenant x) = Some t) (roadmap_items (db w))))"
    using assms(2,3) by simp
  ultimately have "Some (p_title p) \<in> set (map rm_title (map (\<lambda>r. r\<lparr>rm_description := None\<rparr>) (items_of (Some t) (db w))))"
    unfolding items_of_def set_map by blast
  then show ?thesis
    using assms(1) by (simp add: getPublicRoadmap_def del: map_map set_map)
qed

definition spam_on_roadmap :: database where
  "spam_on_roadmap = demo_db\<lparr>posts := [queued],
     roadmap_items := [\<lparr>ri_id = 7, ri_tenant = 1, ri_post = 5, ri_column = 3, ri_order = 0, ri_release = None\<rparr>]\<rparr>"

theorem quarantined_title_on_roadmap_witness:
  "wp (getPublicRoadmap 1)
     (\<lambda>r w'. \<exists>cols items. r = Inr (Resolve OK ''roadmap_items_retrieved_successfully'' (cols, items))
        \<and> Some (p_title queued) \<in> set (map rm_title items)) (demo_world spam_on_roadmap)
   \<and> public_listing 1 any_post [] SortNewest spam_on_roadmap = []"
  by (intro conjI quarantined_title_on_roadmap
        [where x = "\<lparr>ri_id = 7, ri_tenant = 1, ri_post = 5, ri_column = 3, ri_order = 0, ri_release = None\<rparr>"])
     (simp_all add: spam_on_roadmap_def queued_def demo_post_def public_listing_def any_request order_posts_def)

text \<open>
  A member of another workspace can raise the comment count of a post: the comment is stored
  under that member's workspace, so the thread does not show it, but the public page counts
  comments by post id alone.
\<close>

theorem foreign_comment_is_counted:
  "wp (bnd (getPublicPostDetail 1 5) (\<lambda>before.
       bnd (createComment \<lparr>dc_post = Some 5, dc_body = Some [65], dc_parent = None, dc_mode = None\<rparr>
              \<lparr>au_id = 2, au_tenant = Some 2, au_role = Owner, au_email = [], au_sid = None\<rparr>) (\<lambda>_.
       bnd (getPublicPostDetail 1 5) (\<lambda>after. ret (before, after)))))
     (\<lambda>r w'. \<exists>c k a b. r = Inr (Resolve c k a, Resolve c k b)
        \<and> bc_comments (pp_card a) = 0 \<and> bc_comments (pp_card b) = 1 \<and> pp_thread a = [] \<and> pp_thread b = [])
     (demo_world demo_db)"
  by (simp add: getPublicPostDetail_def getAttachmentsForPost_def createComment_def owner_mode_def
      insert_dashboard_comment_def dashboard_comment_def insert_comment_def has_tenant_def has_post_def
      has_user_def has_comment_def fk_opt_def text_fits_def utf8_bytes_def demo_defs demo_services_def
      public_detail_def public_row_def visible_comments_def comments_of_def Let_def bump_id_def next_id_def)

end
