(* ===== verification/Invitation_Flow.thy ===== *)
theory Invitation_Flow
  imports Membership Email_Quality
begin

text \<open>
  \<open>src/main/invitations/invitations.js\<close>: an owner invites an address, the link is looked up,
  revoked, or accepted, by a new account or by the account it was sent to.
\<close>

section \<open>Rows\<close>

definition INVITE_TTL_DAYS :: int where "INVITE_TTL_DAYS = 7"

text \<open>\<open>status = 'pending' AND expires_at > NOW()\<close>.\<close>

definition live_invite :: "database \<Rightarrow> invitation \<Rightarrow> bool" where
  "live_invite d v \<longleftrightarrow> i_status v = InvPending \<and> i_expires v > clock d"

definition insert_invitation ::
  "nat option \<Rightarrow> jstring \<Rightarrow> jstring \<Rightarrow> nat \<Rightarrow> int \<Rightarrow> database \<Rightarrow> exn + (nat \<times> database)" where
  "insert_invitation tenant email token inviter expires d =
     (case tenant of
        None \<Rightarrow> Inl DbError
      | Some t \<Rightarrow>
          if length email > 190 \<or> length token > 128 then Inl DbError
          else if list_ex (\<lambda>v. sql_eq (i_token v) token) (invitations d) then Inl (DupEntry ''uq_invitations_token'')
          else if \<not> has_tenant d t then Inl DbError
          else let i = next_id ''invitations'' d
               in Inr (i, (bump_id ''invitations'' d)\<lparr>invitations := invitations d @
                    [\<lparr>i_id = i, i_tenant = t, i_email = email, i_token = token, i_invited_by = Some inviter,
                      i_status = InvPending, i_expires = expires, i_accepted_by = None,
                      i_created = clock d\<rparr>]\<rparr>))"

definition is_member :: "nat option \<Rightarrow> jstring \<Rightarrow> database \<Rightarrow> bool" where
  "is_member t email d \<longleftrightarrow> list_ex (member_row t email) (users d)"

definition already_invited :: "nat option \<Rightarrow> jstring \<Rightarrow> database \<Rightarrow> bool" where
  "already_invited t email d \<longleftrightarrow>
     list_ex (\<lambda>v. Some (i_tenant v) = t \<and> sql_eq (i_email v) email \<and> live_invite d v) (invitations d)"

text \<open>The team besides its owner, and the invitations that may still be accepted.\<close>

definition team_size :: "nat option \<Rightarrow> database \<Rightarrow> nat" where
  "team_size t d =
     length (filter (\<lambda>u. t \<noteq> None \<and> u_tenant u = t \<and> u_active u \<and> u_role u \<noteq> Owner) (users d))"

definition open_invites :: "nat option \<Rightarrow> database \<Rightarrow> nat" where
  "open_invites t d = length (filter (\<lambda>v. Some (i_tenant v) = t \<and> live_invite d v) (invitations d))"

section \<open>Inviting\<close>

record invite_sent =
  is_id :: nat
  is_email :: jstring
  is_expires :: int
  is_mailed :: bool
  is_configured :: bool

text \<open>Whether the plan has a seat left; on unlimited plans nothing is counted.\<close>

definition seat_left :: "nat option \<Rightarrow> bool io" where
  "seat_left t =
     bnd (getTenantPlan t) (\<lambda>plan.
       case seats (getPlanLimits plan) of
         None \<Rightarrow> ret True
       | Some n \<Rightarrow>
           bnd (select (team_size t)) (\<lambda>members.
           bnd (select (open_invites t)) (\<lambda>pending.
             ret (members + pending < n))))"

definition send_invitation :: "jstring \<Rightarrow> auth \<Rightarrow> invite_sent outcome io" where
  "send_invitation email au =
     bnd (select (\<lambda>_. ())) (\<lambda>_. \<comment> \<open>the workspace name\<close>
     bnd (select (\<lambda>_. ())) (\<lambda>_. \<comment> \<open>the inviter's name\<close>
     bnd draw_hex (\<lambda>token.
     bnd (asks (\<lambda>w. js_now w + days INVITE_TTL_DAYS)) (\<lambda>expiresAt.
     bnd (sql (insert_invitation (au_tenant au) email token (au_id au) expiresAt)) (\<lambda>i.
     bnd (send_email email ''invitation'') (\<lambda>sent.
     bnd (asks (\<lambda>w. mail_configured (svc w))) (\<lambda>configured.
       ret (Resolve CREATED ''invitation_sent''
         \<lparr>is_id = i, is_email = email, is_expires = expiresAt, is_mailed = sent,
          is_configured = configured\<rparr>))))))))"

definition createInvitation :: "jstring option \<Rightarrow> auth \<Rightarrow> invite_sent outcome io" where
  "createInvitation address au =
     (let email = js_lower (js_trim (or_empty address))
      in if au_role au \<noteq> Owner then ret (Reject FORBIDDEN ''insufficient_permissions'')
         else bnd (isDeliverableEmail email) (\<lambda>deliverable.
           if \<not> deliverable then ret (Reject BAD_REQUEST ''invalid_email'')
           else catch
             (bnd (select (is_member (au_tenant au) email)) (\<lambda>member.
              if member then ret (Reject BAD_REQUEST ''already_a_member'')
              else bnd (select (already_invited (au_tenant au) email)) (\<lambda>invited.
                if invited then ret (Reject BAD_REQUEST ''invitation_already_sent'')
                else bnd (seat_left (au_tenant au)) (\<lambda>seat.
                  if \<not> seat then ret (Reject PAYMENT_REQUIRED ''plan_limit_seats'')
                  else send_invitation email au))))
             (\<lambda>_. ret (Reject INTERNAL_SERVER_ERROR ''failed_to_send_invitation''))))"

text \<open>The pending invitations, newest first, with whether each has expired.\<close>

definition listInvitations :: "auth \<Rightarrow> (invitation \<times> bool) list outcome io" where
  "listInvitations au =
     catch
       (bnd (select (\<lambda>d. map (\<lambda>v. (v, i_expires v \<le> clock d))
               (sort_key (\<lambda>v. - i_created v)
                 (filter (\<lambda>v. Some (i_tenant v) = au_tenant au \<and> i_status v = InvPending) (invitations d))))) (\<lambda>rows.
          ret (Resolve OK ''data_fetched_successfully'' rows)))
       (\<lambda>_. ret (Reject INTERNAL_SERVER_ERROR ''internal_server_error''))"

definition my_pending :: "auth \<Rightarrow> nat \<Rightarrow> invitation \<Rightarrow> bool" where
  "my_pending au i v \<longleftrightarrow> i_id v = i \<and> Some (i_tenant v) = au_tenant au \<and> i_status v = InvPending"

definition revoke_invites :: "auth \<Rightarrow> nat \<Rightarrow> database \<Rightarrow> nat \<times> database" where
  "revoke_invites au i d =
     (length (filter (my_pending au i) (invitations d)),
      d\<lparr>invitations := update_where (my_pending au i) (\<lambda>v. v\<lparr>i_status := InvRevoked\<rparr>) (invitations d)\<rparr>)"

definition revokeInvitation :: "nat \<Rightarrow> auth \<Rightarrow> unit outcome io" where
  "revokeInvitation i au =
     (if au_role au \<noteq> Owner then ret (Reject FORBIDDEN ''insufficient_permissions'')
      else catch
        (bnd (execute (revoke_invites au i)) (\<lambda>n.
           if n = 0 then ret (Reject NOT_FOUND ''invitation_not_found'')
           else ret (Resolve OK ''invitation_revoked'' ())))
        (\<lambda>_. ret (Reject INTERNAL_SERVER_ERROR ''internal_server_error'')))"

section \<open>Looking up the link\<close>

definition findByToken :: "jstring \<Rightarrow> (invitation \<times> tenant) option io" where
  "findByToken token =
     select (\<lambda>d. find (\<lambda>(v, t). i_tenant v = t_id t \<and> sql_eq (i_token v) token)
                  (List.product (invitations d) (tenants d)))"

datatype invite_view =
    NoSuchInvite
  | Invite "string option" jstring jstring bool  \<comment> \<open>reason it is unusable, email, workspace, has account\<close>

definition getInvitation :: "jstring \<Rightarrow> invite_view outcome io" where
  "getInvitation token =
     catch
       (bnd (findByToken token) (\<lambda>found.
          case found of
            None \<Rightarrow> ret (Resolve OK ''data_fetched_successfully'' NoSuchInvite)
          | Some (v, t) \<Rightarrow>
              bnd (asks (\<lambda>w. i_expires v \<le> js_now w)) (\<lambda>expired.
              bnd (select (\<lambda>d. list_ex (\<lambda>u. sql_eq (u_email u) (i_email v)) (users d))) (\<lambda>hasAccount.
                ret (Resolve OK ''data_fetched_successfully''
                  (Invite
                    (case i_status v of
                       InvPending \<Rightarrow> if expired then Some ''expired'' else None
                     | InvAccepted \<Rightarrow> Some ''already_accepted''
                     | InvRevoked \<Rightarrow> Some ''revoked'')
                    (i_email v) (t_name t) hasAccount))))))
       (\<lambda>_. ret (Reject INTERNAL_SERVER_ERROR ''internal_server_error''))"

section \<open>Accepting\<close>

text \<open>The row that is still open, locked until the transaction ends.\<close>

definition redeemable :: "jstring \<Rightarrow> database \<Rightarrow> (invitation \<times> tenant) option" where
  "redeemable token d =
     find (\<lambda>(v, t). i_tenant v = t_id t \<and> sql_eq (i_token v) token \<and> live_invite d v)
       (List.product (invitations d) (tenants d))"

definition mark_accepted :: "nat \<Rightarrow> nat \<Rightarrow> database \<Rightarrow> database" where
  "mark_accepted i member d =
     d\<lparr>invitations := update_where (\<lambda>v. i_id v = i \<and> i_status v = InvPending)
         (\<lambda>v. v\<lparr>i_status := InvAccepted, i_accepted_by := Some member\<rparr>) (invitations d)\<rparr>"

definition joinWorkspace :: "invitation \<Rightarrow> jstring \<Rightarrow> jstring option \<Rightarrow> jstring option \<Rightarrow> nat io" where
  "joinWorkspace v fullName passwordHash avatarUrl =
     bnd (sql (insert_user (new_user (Some (i_tenant v)) (i_email v) passwordHash fullName Member
                 (or_null (or_empty avatarUrl))))) (\<lambda>memberId.
     bnd (execute (\<lambda>d. ((), mark_accepted (i_id v) memberId d))) (\<lambda>_.
       ret memberId))"

definition joined :: "jstring \<Rightarrow> nat \<Rightarrow> invitation \<Rightarrow> jstring \<Rightarrow> jstring option \<Rightarrow> signed_in" where
  "joined token memberId v name avatar =
     \<lparr>si_token = token, si_id = memberId, si_tenant = Some (i_tenant v), si_role = Member,
      si_name = name, si_email = i_email v, si_image = avatar\<rparr>"

definition accept_new_tx :: "jstring \<Rightarrow> jstring \<Rightarrow> jstring \<Rightarrow> (int \<times> string, nat \<times> invitation) tx_end io" where
  "accept_new_tx token fullName password =
     bnd (select (redeemable token)) (\<lambda>row.
       case row of
         None \<Rightarrow> ret (Rollback (BAD_REQUEST, ''invitation_invalid''))
       | Some (v, t) \<Rightarrow>
           bnd (select (\<lambda>d. list_ex (\<lambda>u. sql_eq (u_email u) (i_email v)) (users d))) (\<lambda>existing.
           if existing then ret (Rollback (BAD_REQUEST, ''account_exists_please_login''))
           else bnd (hash_password password) (\<lambda>passwordHash.
                bnd (joinWorkspace v fullName (Some passwordHash) None) (\<lambda>memberId.
                  ret (Commit (memberId, v))))))"

text \<open>The session is opened after the commit, inside the same \<open>try\<close>.\<close>

definition acceptInvitationAsNewUser ::
  "jstring \<Rightarrow> jstring option \<Rightarrow> jstring option \<Rightarrow> device \<Rightarrow> signed_in outcome io" where
  "acceptInvitationAsNewUser token fullName0 password0 dev =
     (let fullName = js_trim (or_empty fullName0); password = or_empty password0
      in if fullName = [] then ret (Reject BAD_REQUEST ''full_name_required'')
         else if length password < 8 then ret (Reject BAD_REQUEST ''password_too_short'')
         else catch
           (bnd (transaction (accept_new_tx token fullName password)) (\<lambda>end_of_tx.
              case end_of_tx of
                Inl (code, key) \<Rightarrow> ret (Reject code key)
              | Inr (memberId, v) \<Rightarrow>
                  bnd (createSession (i_email v) dev) (\<lambda>sid.
                  bnd (signToken memberId (i_email v) (Some (i_tenant v)) Member (Some sid)) (\<lambda>authToken.
                    ret (Resolve CREATED ''invitation_accepted'' (joined authToken memberId v fullName None))))))
           (\<lambda>_. ret (Reject INTERNAL_SERVER_ERROR ''failed_to_accept_invitation'')))"

definition accept_existing_tx ::
  "jstring \<Rightarrow> auth \<Rightarrow> (int \<times> string, nat \<times> invitation \<times> user) tx_end io" where
  "accept_existing_tx token au =
     bnd (select (redeemable token)) (\<lambda>row.
       case row of
         None \<Rightarrow> ret (Rollback (BAD_REQUEST, ''invitation_invalid''))
       | Some (v, t) \<Rightarrow>
           if js_lower (au_email au) \<noteq> js_lower (i_email v)
           then ret (Rollback (FORBIDDEN, ''invitation_wrong_account''))
           else bnd (select (is_member (Some (i_tenant v)) (i_email v))) (\<lambda>already.
             if already then ret (Rollback (BAD_REQUEST, ''already_a_member''))
             else bnd (getAccountWorkspaceUsage (i_email v)) (\<lambda>usage.
               if \<not> wu_can_join usage then ret (Rollback (PAYMENT_REQUIRED, ''plan_limit_workspaces_join''))
               else bnd (select (\<lambda>d. find (\<lambda>u. u_id u = au_id au) (users d))) (\<lambda>me.
                 case me of
                   None \<Rightarrow> raise (JsError ''Cannot read properties of undefined'')
                 | Some account \<Rightarrow>
                     bnd (joinWorkspace v (u_name account) (u_password account) (u_avatar account)) (\<lambda>memberId.
                       ret (Commit (memberId, v, account)))))))"

definition acceptInvitationAsExistingUser :: "jstring \<Rightarrow> auth \<Rightarrow> signed_in outcome io" where
  "acceptInvitationAsExistingUser token au =
     catch
       (bnd (transaction (accept_existing_tx token au)) (\<lambda>end_of_tx.
          case end_of_tx of
            Inl (code, key) \<Rightarrow> ret (Reject code key)
          | Inr (memberId, v, account) \<Rightarrow>
              bnd (signToken memberId (i_email v) (Some (i_tenant v)) Member (au_sid au)) (\<lambda>authToken.
                ret (Resolve OK ''invitation_accepted''
                  (joined authToken memberId v (u_name account) (u_avatar account))))))
       (\<lambda>_. ret (Reject INTERNAL_SERVER_ERROR ''failed_to_accept_invitation''))"

end
