(* ===== verification/Account_Safety.thy ===== *)
theory Account_Safety
  imports Identity
begin

text \<open>
  The interface between the account operations and the predicates that survive them: what signs
  accounts up and in writes sessions, reset tokens, provider links, the columns of a user that
  say nothing about membership, and new rows without a workspace.  A predicate indifferent to
  these is kept by every operation of \<open>Identity\<close>.
\<close>

text \<open>The columns that make a row a seat in a workspace.\<close>

definition same_seat :: "user \<Rightarrow> user \<Rightarrow> bool" where
  "same_seat u v \<longleftrightarrow> u_id u = u_id v \<and> u_tenant u = u_tenant v \<and> u_email u = u_email v
     \<and> u_role u = u_role v \<and> u_active u = u_active v"

lemma new_user_fields [simp]:
  "u_role (new_user t e pw n r a) = r" "u_tenant (new_user t e pw n r a) = t"
  "u_email (new_user t e pw n r a) = e" "u_active (new_user t e pw n r a) = True"
  by (simp_all add: new_user_def)

lemma session_start_case [keeps]:
  "(\<And>s. preserves P (f s)) \<Longrightarrow> (\<And>sid. preserves P (g sid)) \<Longrightarrow>
   preserves P (case x of Blocked s \<Rightarrow> f s | Started sid \<Rightarrow> g sid)"
  by (simp split: session_start.splits)

lemma signToken_keeps [keeps]: "preserves P (signToken i e t r sid)"
  unfolding signToken_def by (intro keeps)

lemma identity_reads [keeps]:
  "preserves P (compare_password p h)" "preserves P (hash_given p)" "preserves P (hashToken raw)"
  "preserves P (findLiveReset raw)" "preserves P (getUserById i)" "preserves P (findAccountRow email)"
  "preserves P (userLoginQuery e t)" "preserves P (reset_answer b)" "preserves P (token_for u key sid)"
  "preserves P (allowsMultiDevice t)" "preserves P (getLiveSessionForEmail email)"
  unfolding compare_password_def hash_given_def findLiveReset_def hashToken_def getUserById_def
    findAccountRow_def userLoginQuery_def reset_answer_def token_for_def allowsMultiDevice_def
    getLiveSessionForEmail_def
  by (intro keeps)+

locale account_invariant =
  fixes inv :: "database \<Rightarrow> bool"
  assumes sessions_irrelevant: "inv (d\<lparr>sessions := s\<rparr>) = inv d"
    and links_irrelevant: "inv (d\<lparr>oauth_accounts := l\<rparr>) = inv d"
    and resets_irrelevant: "inv (d\<lparr>password_resets := r\<rparr>) = inv d"
    and reset_ids_irrelevant: "inv (bump_id ''password_resets'' d) = inv d"
    and profile_irrelevant: "inv d \<Longrightarrow> (\<And>u. same_seat (f u) u) \<Longrightarrow> inv (d\<lparr>users := update_where Q f (users d)\<rparr>)"
    and sign_up: "inv d \<Longrightarrow> insert_user u d = Inr (i, d') \<Longrightarrow> u_role u = Member \<Longrightarrow> u_tenant u = None \<Longrightarrow> inv d'"
begin

lemma session_writes [keeps]:
  "preserves inv (revokeSessionsForEmail email)" "preserves inv (revokeSession sid)"
  "preserves inv (createSession email dev)"
proof -
  show "preserves inv (createSession email dev)"
    unfolding createSession_def
    by (intro keeps preserves_sql) (auto simp: insert_session_def sessions_irrelevant split: if_splits)
  show "preserves inv (revokeSessionsForEmail email)"
    unfolding revokeSessionsForEmail_def by (intro preserves_execute) (simp add: revoke_where_def sessions_irrelevant)
  show "preserves inv (revokeSession sid)"
    unfolding revokeSession_def by (intro keeps preserves_execute) (simp add: revoke_where_def sessions_irrelevant)
qed

lemma startSession_keeps [keeps]: "preserves inv (startSession email t dev force)"
  unfolding startSession_def by (intro keeps)

lemma open_device_keeps [keeps]:
  "(\<And>sid. preserves inv (k sid)) \<Longrightarrow> preserves inv (open_device u dev force k)"
  unfolding open_device_def by (intro keeps)

lemma profile_writes [keeps]:
  "preserves inv (execute (set_password email hash))"
  "preserves inv (execute (\<lambda>d. ((), touch_login i d)))"
  "preserves inv (sql (update_profile pf i))"
proof -
  show "preserves inv (execute (set_password email hash))"
    by (rule preserves_execute) (auto simp: set_password_def same_seat_def intro!: profile_irrelevant)
  show "preserves inv (execute (\<lambda>d. ((), touch_login i d)))"
    by (rule preserves_execute) (auto simp: touch_login_def same_seat_def intro!: profile_irrelevant)
  show "preserves inv (sql (update_profile pf i))"
    by (rule preserves_sql)
       (auto simp: update_profile_def Let_def patch_user_def same_seat_def split: if_splits intro!: profile_irrelevant)
qed

lemma account_writes [keeps]:
  "preserves inv (execute (\<lambda>d. ((), insert_link email provider subject d)))"
  "preserves inv (execute (\<lambda>d. ((), use_resets P d)))"
  "preserves inv (sql (insert_reset email hash expires))"
  "preserves inv (sql (insert_registration data hash))"
  "preserves inv (sql (insert_user (new_user None email pw name Member avatar)))"
proof -
  show "preserves inv (execute (\<lambda>d. ((), insert_link email provider subject d)))"
    by (rule preserves_execute) (simp add: insert_link_def links_irrelevant)
  show "preserves inv (execute (\<lambda>d. ((), use_resets P d)))"
    by (rule preserves_execute) (simp add: use_resets_def resets_irrelevant)
  show "preserves inv (sql (insert_reset email hash expires))"
    by (rule preserves_sql)
       (auto simp: insert_reset_def Let_def resets_irrelevant reset_ids_irrelevant split: if_splits)
  show "preserves inv (sql (insert_registration data hash))"
    by (rule preserves_sql) (auto simp: insert_registration_def split: option.splits intro: sign_up)
  show "preserves inv (sql (insert_user (new_user None email pw name Member avatar)))"
    by (rule preserves_sql) (auto intro: sign_up)
qed

lemma identity_handlers:
  "preserves inv (userLogin ld dev)" "preserves inv (logout header)"
  "preserves inv (registerNewUser rd)" "preserves inv (oauthLogin oa dev)"
  "preserves inv (requestPasswordReset address)" "preserves inv (resetPassword token pw)"
  "preserves inv (changeUserPassword old new au)" "preserves inv (updatePersonalInfo pf au)"
  unfolding userLogin_def logout_def registerNewUser_def oauthLogin_def oauth_sign_in_def
    oauth_account_user_def requestPasswordReset_def issue_reset_def resetPassword_def reset_tx_def
    changeUserPassword_def updatePersonalInfo_def Let_def
  by (intro keeps; simp)+

end

end
