(* ===== verification/Org_Invariant.thy ===== *)
theory Org_Invariant
  imports Invitation_Flow Account_Deletion Billing_Flow Account_Safety
begin

text \<open>
  The invariant of the organisation: every workspace has at most one owner and shows the plan
  of that owner's account, row ids are unique, and no row refers to a workspace that has never
  existed.  Each operation of the previous theories keeps it; a run is any sequence of
  sign-ups, sign-ins, invitations, joins, new workspaces, role changes, account deletions and
  billing steps.
\<close>

section \<open>The invariant\<close>

definition ids_ok :: "database \<Rightarrow> bool" where
  "ids_ok d \<longleftrightarrow>
     distinct (map u_id (users d))
     \<and> (\<forall>u \<in> set (users d). u_id u < auto d ''users''
          \<and> (\<forall>t. u_tenant u = Some t \<longrightarrow> t < auto d ''tenants''))
     \<and> (\<forall>t \<in> set (tenants d). t_id t < auto d ''tenants'')"

definition owner_row :: "nat \<Rightarrow> user \<Rightarrow> bool" where
  "owner_row t u \<longleftrightarrow> u_tenant u = Some t \<and> u_role u = Owner"

definition sole_owner :: "database \<Rightarrow> bool" where
  "sole_owner d \<longleftrightarrow> (\<forall>t. length (filter (owner_row t) (users d)) \<le> 1)"

definition org_ok :: "database \<Rightarrow> bool" where
  "org_ok d \<longleftrightarrow> ids_ok d \<and> sole_owner d \<and> billing_consistent d"

lemma length_le_1_eq: "length xs \<le> 1 \<Longrightarrow> x \<in> set xs \<Longrightarrow> y \<in> set xs \<Longrightarrow> x = y"
  by (cases xs) auto

lemma sole_owner_unique:
  "sole_owner d \<Longrightarrow> u \<in> set (users d) \<Longrightarrow> v \<in> set (users d) \<Longrightarrow> owner_row t u \<Longrightarrow> owner_row t v \<Longrightarrow> u = v"
  unfolding sole_owner_def by (rule length_le_1_eq [of "filter (owner_row t) (users d)"]) auto

lemma sole_owner_one_owner: "sole_owner d \<Longrightarrow> one_owner d"
  unfolding one_owner_def owns_def list_ex_iff
  by (auto simp: is_owner_of_def sql_eq_def) (metis owner_row_def sole_owner_unique)

lemma org_ok_billing: "org_ok d \<Longrightarrow> billing_ok d"
  by (simp add: org_ok_def billing_ok_def sole_owner_one_owner)

subsection \<open>Writes that keep it\<close>

lemma billing_consistent_frame:
  "users d' = users d \<Longrightarrow> tenants d' = tenants d \<Longrightarrow> accounts d' = accounts d \<Longrightarrow>
   billing_consistent d' = billing_consistent d"
  by (simp add: billing_consistent_def owned_workspaces_def owns_def account_of_def)

lemma org_ok_frame:
  assumes "org_ok d" and "users d' = users d" "tenants d' = tenants d" "accounts d' = accounts d"
    and "auto d' ''users'' = auto d ''users''" "auto d' ''tenants'' = auto d ''tenants''"
  shows "org_ok d'"
  using assms billing_consistent_frame [of d' d]
  by (simp add: org_ok_def ids_ok_def sole_owner_def)

lemma owns_subset:
  assumes "set (users d') \<subseteq> set (users d)" and "owns d' e t"
  shows "owns d e t"
  using assms by (auto simp: owns_def list_ex_iff)

text \<open>Rows may go.\<close>

lemma org_ok_delete:
  assumes "org_ok d" and "users d' = filter P (users d)" "tenants d' = filter Q (tenants d)"
    and "accounts d' = accounts d"
    and "auto d' ''users'' = auto d ''users''" "auto d' ''tenants'' = auto d ''tenants''"
  shows "org_ok d'"
proof -
  have "owns d e t" if "owns d' e t" for e t
    using owns_subset [of d' d] assms(2) that by auto
  moreover have "account_of d' = account_of d"
    using assms(4) by (simp add: account_of_def fun_eq_iff)
  ultimately have "billing_consistent d'"
    using assms(1,3) by (auto simp: org_ok_def billing_consistent_def owned_workspaces_def)
  moreover have "sole_owner d'"
    using assms(1,2) unfolding org_ok_def sole_owner_def by (metis length_filter_filter_le le_trans)
  moreover have "ids_ok d'"
    using assms by (auto simp: org_ok_def ids_ok_def distinct_map_filter)
  ultimately show ?thesis by (simp add: org_ok_def)
qed

text \<open>The columns the invariant does not look at may change.\<close>

lemma org_ok_rewrite:
  assumes "org_ok d" and "\<And>u. same_seat (f u) u"
  shows "org_ok (d\<lparr>users := update_where P f (users d)\<rparr>)"
proof -
  let ?d = "d\<lparr>users := update_where P f (users d)\<rparr>"
  have eq: "u_id (f u) = u_id u" "u_tenant (f u) = u_tenant u" "u_email (f u) = u_email u"
    "u_role (f u) = u_role u" "u_active (f u) = u_active u" for u
    using assms(2) [of u] by (simp_all add: same_seat_def)
  have "list_ex (is_owner_of e t) (update_where P f us) = list_ex (is_owner_of e t) us" for e t us
    by (induction us) (simp_all add: is_owner_of_def eq)
  then have "owns ?d = owns d" by (simp add: owns_def fun_eq_iff)
  then have "billing_consistent ?d"
    using assms(1) by (simp add: org_ok_def billing_consistent_def owned_workspaces_def account_of_def)
  moreover have "length (filter (owner_row t) (update_where P f us)) = length (filter (owner_row t) us)" for t us
    by (induction us) (simp_all add: owner_row_def eq)
  then have "sole_owner ?d" using assms(1) by (simp add: org_ok_def sole_owner_def)
  moreover have "ids_ok ?d"
    using assms(1) by (auto simp: org_ok_def ids_ok_def set_update_where eq map_update_where_same)
  ultimately show ?thesis by (simp add: org_ok_def)
qed

text \<open>A member may join.\<close>

lemma owns_member: "u_role u \<noteq> Owner \<Longrightarrow> users d' = users d @ [u] \<Longrightarrow> owns d' = owns d"
  by (auto simp: owns_def fun_eq_iff is_owner_of_def)

lemma org_ok_join:
  assumes "org_ok d" and "insert_user u d = Inr (i, d')" and "u_role u = Member"
  shows "org_ok d'"
proof -
  have d': "d' = (bump_id ''users'' d)\<lparr>users := users d @ [u\<lparr>u_id := auto d ''users''\<rparr>]\<rparr>"
    and fk: "fk_opt (has_tenant d) (u_tenant u)"
    using assms(2) by (auto simp: insert_user_def next_id_def Let_def split: if_splits)
  have "users d' = users d @ [u\<lparr>u_id := auto d ''users''\<rparr>]" by (simp add: d')
  then have "owns d' = owns d" using assms(3) by (intro owns_member) simp_all
  then have "billing_consistent d'"
    using assms(1) by (simp add: org_ok_def billing_consistent_def owned_workspaces_def account_of_def d' bump_id_def)
  moreover have "sole_owner d'" using assms(1,3) by (simp add: org_ok_def sole_owner_def d' owner_row_def)
  moreover have "t < auto d ''tenants''" if "u_tenant u = Some t" for t
    using fk that assms(1) by (auto simp: fk_opt_def has_tenant_def list_ex_iff org_ok_def ids_ok_def)
  then have "ids_ok d'"
    using assms(1) by (auto simp: org_ok_def ids_ok_def d' bump_id_def less_Suc_eq)
  ultimately show ?thesis by (simp add: org_ok_def)
qed

lemma insert_user_keeps [keeps]: "u_role u = Member \<Longrightarrow> preserves org_ok (sql (insert_user u))"
  by (rule preserves_sql) (rule org_ok_join)

subsection \<open>Billing\<close>

lemma auto_plan_db [simp]: "auto (plan_db email fs d) = auto d"
  by (simp add: plan_db_def Let_def mirror_db_def update_account_def insert_account_def)

lemma org_ok_plan: "org_ok d \<Longrightarrow> org_ok (plan_db email fs d)"
proof -
  assume ok: "org_ok d"
  then have "billing_consistent (plan_db email fs d)"
    by (intro plan_db_consistent) (simp_all add: org_ok_def sole_owner_one_owner)
  moreover have "ids_ok (plan_db email fs d)"
    using ok by (auto simp: org_ok_def ids_ok_def tenants_plan_db set_update_where)
  moreover have "sole_owner (plan_db email fs d)" using ok by (simp add: org_ok_def sole_owner_def)
  ultimately show ?thesis by (simp add: org_ok_def)
qed

lemma setAccountPlan_org: "preserves org_ok (setAccountPlan email fs)"
proof (cases "email = []")
  case True
  then show ?thesis by (simp add: setAccountPlan_def preserves_raise)
next
  case False
  show ?thesis
    by (rule preservesI, rule wp_mono [OF setAccountPlan_spec [OF False]]) (auto simp: org_ok_plan)
qed

lemma mirror_org: "email \<noteq> [] \<Longrightarrow> preserves org_ok (mirrorAccountToTenants email)"
  by (rule preservesI)
     (simp add: mirrorAccountToTenants_def getAccount_def org_ok_def mirror_db_consistent)

lemma org_ok_same_mirror:
  assumes "org_ok d" and "\<And>e. mirror_onto (account_of (d\<lparr>accounts := bs\<rparr>) e) = mirror_onto (account_of d e)"
  shows "org_ok (d\<lparr>accounts := bs\<rparr>)"
proof -
  have "owns (d\<lparr>accounts := bs\<rparr>) = owns d" by (simp add: owns_def fun_eq_iff)
  then show ?thesis
    using assms by (simp add: org_ok_def ids_ok_def sole_owner_def billing_consistent_def owned_workspaces_def
        mirrors_def)
qed

lemma org_ok_unrelated:
  "org_ok (d\<lparr>promo_codes := cs\<rparr>) = org_ok d" "org_ok (d\<lparr>promo_redemptions := rs\<rparr>) = org_ok d"
  "org_ok (bump_id ''promo_redemptions'' d) = org_ok d"
  by (simp_all add: org_ok_def ids_ok_def sole_owner_def billing_consistent_def owned_workspaces_def
      owns_def [abs_def] account_of_def bump_id_def)

interpretation org_inv: billing_invariant org_ok
  by unfold_locales
     (rule setAccountPlan_org, erule mirror_org, (rule org_ok_unrelated)+, erule org_ok_same_mirror)

section \<open>A new workspace\<close>

lemma sole_ownerI:
  assumes "distinct (map u_id (users d))"
    and "\<And>t u v. u \<in> set (users d) \<Longrightarrow> v \<in> set (users d) \<Longrightarrow> owner_row t u \<Longrightarrow> owner_row t v \<Longrightarrow> u_id u = u_id v"
  shows "sole_owner d"
  unfolding sole_owner_def
proof
  fix t
  let ?o = "filter (owner_row t) (users d)"
  have "distinct (map u_id ?o)" using assms(1) by (rule distinct_map_filter)
  then have len: "card (u_id ` set ?o) = length ?o"
    by (metis distinct_card length_map set_map)
  obtain i where i: "u_id ` set ?o \<subseteq> {i}"
  proof (cases ?o)
    case Nil
    then have "u_id ` set ?o \<subseteq> {0}" by simp
    then show ?thesis by (rule that)
  next
    case (Cons x xs)
    then have "x \<in> set ?o" by simp
    then have x: "x \<in> set (users d)" "owner_row t x" by auto
    have "u_id u = u_id x" if "u \<in> set ?o" for u
      using assms(2) [of u x t] x that by simp
    then have "u_id ` set ?o \<subseteq> {u_id x}" by blast
    then show ?thesis by (rule that)
  qed
  have "card (u_id ` set ?o) \<le> card {i}" by (rule card_mono [OF _ i]) simp
  with len show "length ?o \<le> 1" by simp
qed

text \<open>The state in which the new workspace has its owner and not yet its plan.\<close>

definition handed_over :: "database \<Rightarrow> nat \<Rightarrow> jstring \<Rightarrow> database \<Rightarrow> bool" where
  "handed_over d tid e d2 \<longleftrightarrow>
     ids_ok d2 \<and> sole_owner d2 \<and> accounts d2 = accounts d
     \<and> (\<exists>t. tenants d2 = tenants d @ [t] \<and> t_id t = tid)
     \<and> (\<forall>e' t. owns d2 e' t \<longrightarrow> owns d e' t \<or> t = tid \<and> sql_eq e e')"

lemma unborn: "org_ok d \<Longrightarrow> \<not> owns d e (auto d ''tenants'')"
  by (auto simp: org_ok_def ids_ok_def owns_def list_ex_iff is_owner_of_def)

lemma auto_insert_account [simp]: "auto (insert_account e d) = auto d"
  by (simp add: insert_account_def)

lemma auto_mirror [simp]: "auto (mirror_db b e d) = auto d"
  by (simp add: mirror_db_def)

lemma ids_ok_mirror: "ids_ok d \<Longrightarrow> ids_ok (mirror_db b e (insert_account e d))"
  by (auto simp: ids_ok_def mirror_db_def set_update_where)

lemma handed_over_mirrored:
  assumes ok: "org_ok d" and h: "handed_over d (auto d ''tenants'') e d2"
  shows "org_ok (mirror_db (account_of (insert_account e d2) e) e (insert_account e d2))"
    (is "org_ok (mirror_db ?a e ?d3)")
proof -
  obtain t where t: "tenants d2 = tenants d @ [t]" "t_id t = auto d ''tenants''"
    using h by (auto simp: handed_over_def)
  have acc: "mirror_onto (account_of ?d3 k) x = mirror_onto (account_of d k) x" for k x
    using h account_of_insert [of e d2 k x] by (simp add: handed_over_def account_of_def)
  have one: "one_owner d2" using h by (simp add: handed_over_def sole_owner_one_owner)
  have "mirrors (account_of ?d3 k) x" if x: "x \<in> owned_workspaces (mirror_db ?a e ?d3) k" for k x
  proof -
    have "t_active x" "owns d2 k (t_id x)" "x \<in> set (tenants (mirror_db ?a e ?d3))"
      using x by (simp_all add: owned_workspaces_def)
    then obtain y where y: "y \<in> set (tenants d2)" "t_active x" "owns d2 k (t_id x)"
      "x = (if t_active y \<and> owns d2 e (t_id y) then mirror_onto ?a y else y)"
      by (auto simp: mirror_db_def set_update_where)
    show ?thesis
    proof (cases "sql_eq e k")
      case True
      then have "x = mirror_onto ?a y" using y owns_cong [OF True] by (auto split: if_splits)
      then show ?thesis using account_of_cong [OF True] by (simp add: mirrors_def)
    next
      case False
      with y(3) h have "owns d k (t_id x)" by (auto simp: handed_over_def)
      moreover have "\<not> owns d2 e (t_id x)" using one y(3) False unfolding one_owner_def by blast
      with y(4) have "x = y" by (auto split: if_splits)
      moreover have "x \<noteq> t" using calculation(1) unborn [OF ok] t(2) by auto
      ultimately have "x \<in> owned_workspaces d k" using y(1,2) t(1) by (auto simp: owned_workspaces_def)
      then show ?thesis using ok acc by (simp add: org_ok_def billing_consistent_def mirrors_def)
    qed
  qed
  then have "billing_consistent (mirror_db ?a e ?d3)" by (simp add: billing_consistent_def)
  then show ?thesis using h ids_ok_mirror [of d2 ?a e]
    by (simp add: org_ok_def handed_over_def sole_owner_def)
qed

lemma handed_over_claim:
  assumes ok: "org_ok d" and d1: "users d1 = users d" "accounts d1 = accounts d" "tenants d1 = tenants d @ [t]"
    "t_id t = auto d ''tenants''" "auto d1 ''users'' = auto d ''users''" "auto d1 ''tenants'' = Suc (auto d ''tenants'')"
    and me: "me \<in> set (users d)" "u_tenant me = None"
  shows "handed_over d (auto d ''tenants'') (u_email me) (claim_row (auto d ''tenants'') (u_id me) d1)"
    (is "handed_over d ?n ?e ?d2")
proof -
  have dist: "distinct (map u_id (users d))" and sole: "sole_owner d"
    and old: "u \<in> set (users d) \<Longrightarrow> u_tenant u \<noteq> Some ?n" for u
    using ok by (auto simp: org_ok_def ids_ok_def)
  have only: "u = me" if "u \<in> set (users d)" "u_id u = u_id me" for u
    using dist that me(1) by (metis distinct_map inj_onD)
  have us: "users ?d2 = update_where (\<lambda>u. u_id u = u_id me) (\<lambda>u. u\<lparr>u_tenant := Some ?n, u_role := Owner\<rparr>) (users d)"
    by (simp add: claim_row_def d1)
  have "ids_ok ?d2"
    using ok d1 by (auto simp: org_ok_def ids_ok_def us set_update_where map_update_where_same claim_row_def less_Suc_eq)
  moreover from this have "sole_owner ?d2"
    by (intro sole_ownerI)
       (use old sole_owner_unique [OF sole] in \<open>auto simp: ids_ok_def us set_update_where owner_row_def split: if_splits\<close>)
  moreover have "owns d e' t' \<or> t' = ?n \<and> sql_eq ?e e'" if "owns ?d2 e' t'" for e' t'
    using that by (auto simp: owns_def list_ex_iff us set_update_where is_owner_of_def split: if_splits dest: only)
  ultimately show ?thesis using d1 by (auto simp: handed_over_def claim_row_def)
qed

lemma handed_over_insert:
  assumes ok: "org_ok d" and d1: "users d1 = users d" "accounts d1 = accounts d" "tenants d1 = tenants d @ [t]"
    "t_id t = auto d ''tenants''" "auto d1 ''users'' = auto d ''users''" "auto d1 ''tenants'' = Suc (auto d ''tenants'')"
    and ins: "insert_user u d1 = Inr (i, d2)" "u_tenant u = Some (auto d ''tenants'')" "u_role u = Owner"
  shows "handed_over d (auto d ''tenants'') (u_email u) d2"
    (is "handed_over d ?n ?e d2")
proof -
  have dist: "distinct (map u_id (users d))" and sole: "sole_owner d"
    and old: "x \<in> set (users d) \<Longrightarrow> u_tenant x \<noteq> Some ?n \<and> u_id x < auto d ''users''" for x
    using ok by (auto simp: org_ok_def ids_ok_def)
  have d2: "d2 = (bump_id ''users'' d1)\<lparr>users := users d @ [u\<lparr>u_id := auto d ''users''\<rparr>]\<rparr>"
    using ins(1) d1 by (auto simp: insert_user_def next_id_def Let_def split: if_splits)
  have "ids_ok d2"
    using ok d1 ins(2) by (auto simp: org_ok_def ids_ok_def d2 bump_id_def less_Suc_eq)
  moreover from this have "sole_owner d2"
    by (intro sole_ownerI)
       (use old ins sole_owner_unique [OF sole] in \<open>auto simp: ids_ok_def d2 owner_row_def\<close>)
  moreover have "owns d e' t' \<or> t' = ?n \<and> sql_eq ?e e'" if "owns d2 e' t'" for e' t'
    using that ins by (auto simp: owns_def d2 is_owner_of_def)
  ultimately show ?thesis using d1 by (auto simp: handed_over_def d2 bump_id_def)
qed

lemma insert_tenant_result:
  assumes "insert_tenant t d = Inr (tid, d1)"
  shows "tid = auto d ''tenants'' \<and> users d1 = users d \<and> accounts d1 = accounts d
     \<and> tenants d1 = tenants d @ [t\<lparr>t_id := auto d ''tenants''\<rparr>]
     \<and> auto d1 ''users'' = auto d ''users'' \<and> auto d1 ''tenants'' = Suc (auto d ''tenants'')"
  using assms by (auto simp: insert_tenant_def next_id_def bump_id_def Let_def split: if_splits)

lemma own_workspace_hands_over:
  assumes "org_ok d" "insert_tenant t d = Inr (tid, db w)" "me \<in> set (users d)"
  shows "wp (own_workspace tid me) (\<lambda>r w'. \<forall>i. r = Inr i \<longrightarrow> handed_over d (auto d ''tenants'') (u_email me) (db w')) w"
  using assms insert_tenant_result [OF assms(2)]
    handed_over_claim [OF assms(1), of "db w" "t\<lparr>t_id := auto d ''tenants''\<rparr>" me]
    handed_over_insert [OF assms(1), of "db w" "t\<lparr>t_id := auto d ''tenants''\<rparr>"
      "new_user (Some tid) (u_email me) (u_password me) (u_name me) Owner (u_avatar me)"]
  by (auto simp: own_workspace_def split: sum.splits)

definition committed_ok :: "exn + ('a, 'b) tx_end \<Rightarrow> world \<Rightarrow> bool" where
  "committed_ok r w \<longleftrightarrow> (\<forall>x. r = Inr (Commit x) \<longrightarrow> org_ok (db w))"

lemma committed_ok_simps [simp]:
  "committed_ok (Inl e) w" "committed_ok (Inr (Rollback x)) w"
  "committed_ok (Inr (Commit y)) w = org_ok (db w)"
  by (simp_all add: committed_ok_def)

lemma committed_transaction:
  assumes "\<And>w. org_ok (db w) \<Longrightarrow> wp m committed_ok w"
  shows "preserves org_ok (transaction m)"
  by (rule preservesI)
     (auto simp: committed_ok_def split: sum.splits tx_end.splits intro!: wp_mono [OF assms])

lemma seed_columns_frame:
  "seed_columns t d = Inr (x, d') \<Longrightarrow>
   users d' = users d \<and> tenants d' = tenants d \<and> accounts d' = accounts d
   \<and> auto d' ''users'' = auto d ''users'' \<and> auto d' ''tenants'' = auto d ''tenants''"
  by (auto simp: seed_columns_def insert_column_def Let_def bump_id_def split: sum.splits if_splits)

lemma seed_columns_keeps [keeps]: "preserves org_ok (sql (seed_columns t))"
  by (rule preserves_sql) (auto dest!: seed_columns_frame intro: org_ok_frame)

lemma plan_then_seed:
  assumes "org_ok d" and "handed_over d (auto d ''tenants'') e (db w)"
  shows "wp (bnd (ensureAccount e) (\<lambda>_. bnd (mirrorAccountToTenants e) (\<lambda>_.
           bnd (sql (seed_columns t)) (\<lambda>_. ret (Commit x))))) committed_ok w"
proof (cases "e = []")
  case True
  then show ?thesis by (simp add: ensureAccount_def)
next
  case False
  show ?thesis
    using False
    by (auto simp: ensureAccount_def getAccount_def mirrorAccountToTenants_def split: sum.splits
          dest!: seed_columns_frame intro!: org_ok_frame [OF handed_over_mirrored [OF assms]])
qed

lemma create_workspace_tx_ok:
  assumes "org_ok (db w)"
  shows "wp (create_workspace_tx name sub web uid) committed_ok w"
proof -
  have tail: "wp (bnd (own_workspace tid me) (\<lambda>ownerId. bnd (ensureAccount (u_email me)) (\<lambda>_.
        bnd (mirrorAccountToTenants (u_email me)) (\<lambda>_. bnd (sql (seed_columns tid)) (\<lambda>_.
          ret (Commit (tid, ownerId, me))))))) committed_ok w'"
    if "insert_tenant t (db w) = Inr (tid, db w')" "me \<in> set (users (db w))" for t tid me w'
    by (rule wp_seq [OF own_workspace_hands_over [OF assms that]])
       (use plan_then_seed [OF assms] in auto)
  show ?thesis
    unfolding create_workspace_tx_def
    by (auto simp del: wp_bnd simp: wp_bnd [of "select f" for f] wp_bnd [of "sql f" for f]
          split: option.splits sum.splits dest!: findD intro!: tail)
qed

lemma createWorkspace_keeps: "preserves org_ok (createWorkspace data au)"
  unfolding createWorkspace_def Let_def
  by (intro keeps committed_transaction create_workspace_tx_ok)

section \<open>Sign-ins, profiles and invitations\<close>

text \<open>The tables the invariant does not look at.\<close>

lemma org_ok_unseen [simp]:
  "org_ok (d\<lparr>posts := a\<rparr>) = org_ok d" "org_ok (d\<lparr>votes := b\<rparr>) = org_ok d"
  "org_ok (d\<lparr>comments := c\<rparr>) = org_ok d" "org_ok (d\<lparr>changelog := e\<rparr>) = org_ok d"
  "org_ok (d\<lparr>notifications := f\<rparr>) = org_ok d" "org_ok (d\<lparr>api_keys := g\<rparr>) = org_ok d"
  "org_ok (d\<lparr>file_uploads := h\<rparr>) = org_ok d" "org_ok (d\<lparr>invitations := i\<rparr>) = org_ok d"
  "org_ok (d\<lparr>password_resets := j\<rparr>) = org_ok d" "org_ok (d\<lparr>sessions := k\<rparr>) = org_ok d"
  "org_ok (d\<lparr>oauth_accounts := l\<rparr>) = org_ok d"
  by (auto simp: org_ok_def ids_ok_def sole_owner_def billing_consistent_def owned_workspaces_def
        owns_def account_of_def)

lemma org_ok_bump: "tbl \<noteq> ''users'' \<Longrightarrow> tbl \<noteq> ''tenants'' \<Longrightarrow> org_ok (bump_id tbl d) = org_ok d"
  by (auto simp: org_ok_def ids_ok_def sole_owner_def billing_consistent_def owned_workspaces_def
        owns_def account_of_def bump_id_def)

lemma run_keeps [keeps]: "(\<And>d. P d \<Longrightarrow> P (f d)) \<Longrightarrow> preserves P (run f)"
  unfolding run_def by (rule preserves_execute) simp

interpretation org_accounts: account_invariant org_ok
  by unfold_locales (simp_all add: org_ok_bump org_ok_rewrite org_ok_join)

lemma invitation_writes_org [keeps]:
  "preserves org_ok (sql (insert_invitation t email token inviter expires))"
  "preserves org_ok (execute (revoke_invites au i))"
  "preserves org_ok (joinWorkspace v name pw avatar)"
proof -
  show "preserves org_ok (sql (insert_invitation t email token inviter expires))"
    by (rule preserves_sql) (auto simp: insert_invitation_def Let_def org_ok_bump split: option.splits if_splits)
  show "preserves org_ok (execute (revoke_invites au i))"
    by (rule preserves_execute) (simp add: revoke_invites_def)
  show "preserves org_ok (joinWorkspace v name pw avatar)"
    unfolding joinWorkspace_def
    by (intro keeps preserves_execute; simp add: mark_accepted_def)
qed

lemma invitation_handlers_org [keeps]:
  "preserves org_ok (createInvitation address au)" "preserves org_ok (revokeInvitation i au)"
  "preserves org_ok (acceptInvitationAsNewUser token name pw dev)"
  "preserves org_ok (acceptInvitationAsExistingUser token au)"
  unfolding createInvitation_def seat_left_def send_invitation_def revokeInvitation_def
    acceptInvitationAsNewUser_def accept_new_tx_def acceptInvitationAsExistingUser_def
    accept_existing_tx_def Let_def
  by (intro keeps)+

section \<open>Roles\<close>

lemma owners_of_sole:
  assumes "org_ok d" and "u \<in> set (users d)" and "owner_row t u"
  shows "owners_of (Some t) d = [u_id u]"
proof -
  have f: "filter (\<lambda>x. Some t \<noteq> None \<and> u_tenant x = Some t \<and> u_role x = Owner) (users d)
         = filter (owner_row t) (users d)"
    by (rule filter_cong) (simp_all add: owner_row_def)
  have m: "u \<in> set (filter (owner_row t) (users d))" using assms(2,3) by simp
  have "length (filter (owner_row t) (users d)) \<le> 1"
    using assms(1) by (simp add: org_ok_def sole_owner_def)
  with m have "filter (owner_row t) (users d) = [u]"
    by (cases "filter (owner_row t) (users d)") auto
  with f show ?thesis by (simp add: owners_of_def)
qed

lemma set_role_same:
  assumes "\<And>x. x \<in> set (users d) \<Longrightarrow> my_colleague au i x \<Longrightarrow> u_role x = r"
  shows "snd (set_role au i r d) = d"
proof -
  have "update_where (my_colleague au i) (\<lambda>u. u\<lparr>u_role := r\<rparr>) xs = xs"
    if "\<And>x. x \<in> set xs \<Longrightarrow> my_colleague au i x \<Longrightarrow> u_role x = r" for xs :: "user list"
    using that by (induction xs) auto
  from this [OF assms] show ?thesis by (simp add: set_role_def)
qed

lemma not_owner_is_member: "u_role u \<noteq> Owner \<longleftrightarrow> u_role u = Member"
  by (cases "u_role u") simp_all

lemma auth_of_simps [simp]:
  "au_id (auth_of u sid) = u_id u" "au_tenant (auth_of u sid) = u_tenant u"
  "au_role (auth_of u sid) = u_role u" "au_email (auth_of u sid) = u_email u"
  "au_sid (auth_of u sid) = sid"
  by (simp_all add: auth_of_def)

text \<open>For a caller who is a user of the database, no role change has any effect.\<close>

lemma updateUserRole_inert:
  assumes ok: "org_ok (db w)" and u: "u \<in> set (users (db w))"
  shows "wp (updateUserRole i r (auth_of u sid)) (\<lambda>res w'. db w' = db w) w"
proof (cases "u_role u = Owner \<and> r \<in> set TENANT_ROLES")
  case False
  then show ?thesis by (auto simp: updateUserRole_def auth_of_def)
next
  case True
  show ?thesis
  proof (cases "u_tenant u")
    case None
    have "snd (set_role (auth_of u sid) i (parse_role r) (db w)) = db w"
      by (rule set_role_same) (simp add: my_colleague_def auth_of_def None)
    then show ?thesis using True None by (simp add: updateUserRole_def auth_of_def Let_def)
  next
    case (Some t)
    have o: "owner_row t u" using True Some by (simp add: owner_row_def)
    have own: "owners_of (Some t) (db w) = [u_id u]" by (rule owners_of_sole [OF ok u o])
    have dist: "distinct (map u_id (users (db w)))" and sole: "sole_owner (db w)"
      using ok by (simp_all add: org_ok_def ids_ok_def)
    have same: "snd (set_role (auth_of u sid) i (parse_role r) (db w)) = db w"
      if "(i = u_id u \<and> r = ''owner'') \<or> (i \<noteq> u_id u \<and> r = ''user'')"
    proof (rule set_role_same)
      fix x assume x: "x \<in> set (users (db w))" "my_colleague (auth_of u sid) i x"
      then have xt: "u_id x = i" "u_tenant x = Some t" by (simp_all add: my_colleague_def auth_of_def Some)
      show "u_role x = parse_role r"
      proof (cases "i = u_id u")
        case True
        then have "x = u" using dist x(1) u xt(1) by (metis distinct_map inj_onD)
        then show ?thesis using that True o by (auto simp: parse_role_def owner_row_def)
      next
        case False
        then have "\<not> owner_row t x" using sole_owner_unique [OF sole x(1) u _ o] xt by auto
        then show ?thesis using that False xt by (auto simp: parse_role_def owner_row_def not_owner_is_member)
      qed
    qed
    have "r = ''owner'' \<or> r = ''user''" using True by (simp add: TENANT_ROLES_def)
    then show ?thesis using True Some own same
      by (elim disjE; cases "i = u_id u"; simp add: updateUserRole_def TENANT_ROLES_def Let_def)
  qed
qed

section \<open>Erasing an account\<close>

lemma delete_comments_frame [simp]:
  "users (delete_comments P d) = users d" "tenants (delete_comments P d) = tenants d"
  "accounts (delete_comments P d) = accounts d" "auto (delete_comments P d) = auto d"
  by (simp_all add: delete_comments_def Let_def)

lemma delete_users_result:
  assumes "delete_users P d = Inr (x, d')"
  shows "users d' = filter (\<lambda>u. \<not> P u) (users d) \<and> tenants d' = tenants d \<and> accounts d' = accounts d
     \<and> auto d' = auto d"
  using assms by (auto simp: delete_users_def unlink_users_def Let_def split: if_splits)

lemma clear_workspaces_frame [simp]:
  "users (clear_workspaces gone d) = users d" "accounts (clear_workspaces gone d) = accounts d"
  "auto (clear_workspaces gone d) = auto d"
  "tenants (clear_workspaces gone d) = filter (\<lambda>x. t_id x \<notin> set gone) (tenants d)"
  by (simp_all add: clear_workspaces_def delete_posts_def delete_columns_def delete_tags_def Let_def)

lemma org_ok_delete_users: "org_ok d \<Longrightarrow> delete_users P d = Inr (x, d') \<Longrightarrow> org_ok d'"
  by (drule delete_users_result)
     (auto intro: org_ok_delete [where d = d and P = "\<lambda>u. \<not> P u" and Q = "\<lambda>_. True"])

lemma org_ok_delete_tenants: "org_ok d \<Longrightarrow> delete_tenants gone d = Inr (x, d') \<Longrightarrow> org_ok d'"
  unfolding delete_tenants_def
  by (drule delete_users_result)
     (auto intro: org_ok_delete [where d = d and P = "\<lambda>u. \<not> in_workspaces gone u" and Q = "\<lambda>x. t_id x \<notin> set gone"])

lemma purge_steps_org [keeps]:
  "preserves org_ok (leave_workspace m)" "preserves org_ok (sql (delete_tenants gone))"
proof -
  have "preserves org_ok (sql (delete_users P))" for P
    by (rule preserves_sql) (rule org_ok_delete_users)
  then show "preserves org_ok (leave_workspace m)"
    unfolding leave_workspace_def anonymise_posts_def anonymise_comments_def hand_over_changelog_def
      hand_over_keys_def hand_over_uploads_def
    by (intro keeps) simp_all
  show "preserves org_ok (sql (delete_tenants gone))"
    by (rule preserves_sql) (rule org_ok_delete_tenants)
qed

text \<open>An account nobody uses any more can be forgotten.\<close>

definition unused :: "jstring \<Rightarrow> database \<Rightarrow> bool" where
  "unused email d \<longleftrightarrow> org_ok d \<and> rows_of email d = []"

lemma account_of_without:
  "\<not> sql_eq email e \<Longrightarrow>
   account_of (d\<lparr>accounts := filter (\<lambda>b. \<not> sql_eq (b_email b) email) (accounts d)\<rparr>) e = account_of d e"
proof -
  assume "\<not> sql_eq email e"
  then have "find (\<lambda>b. sql_eq (b_email b) e) (filter (\<lambda>b. \<not> sql_eq (b_email b) email) bs)
           = find (\<lambda>b. sql_eq (b_email b) e) bs" for bs
    by (induction bs) (auto simp: sql_eq_def)
  from this [of "accounts d"] show ?thesis by (simp add: account_of_def)
qed

lemma unused_forget:
  assumes "unused email d"
  shows "unused email (d\<lparr>accounts := filter (\<lambda>b. \<not> sql_eq (b_email b) email) (accounts d)\<rparr>)"
    (is "unused email ?d")
proof -
  have "mirrors (account_of ?d e) t" if "t \<in> owned_workspaces ?d e" for e t
  proof -
    have t: "t \<in> owned_workspaces d e" using that by (simp add: owned_workspaces_def owns_def)
    then have "\<not> sql_eq email e"
      using assms by (auto simp: unused_def rows_of_def filter_empty_conv owned_workspaces_def owns_def
          list_ex_iff is_owner_of_def sql_eq_def)
    then show ?thesis using assms t by (simp add: account_of_without unused_def org_ok_def billing_consistent_def)
  qed
  then show ?thesis using assms
    by (simp add: unused_def org_ok_def ids_ok_def sole_owner_def billing_consistent_def rows_of_def)
qed

lemma unused_frame [simp]:
  "unused e (d\<lparr>sessions := a\<rparr>) = unused e d" "unused e (d\<lparr>password_resets := b\<rparr>) = unused e d"
  "unused e (d\<lparr>invitations := c\<rparr>) = unused e d" "unused e (d\<lparr>oauth_accounts := f\<rparr>) = unused e d"
  by (simp_all add: unused_def rows_of_def)

lemma forget_account_org: "preserves org_ok (forget_account email)"
proof (rule preservesI)
  fix w :: world
  assume ok: "org_ok (db w)"
  let ?tail = "bnd (run (\<lambda>d. d\<lparr>accounts := filter (\<lambda>b. \<not> sql_eq (b_email b) email) (accounts d)\<rparr>)) (\<lambda>_.
     bnd (run (\<lambda>d. d\<lparr>sessions := filter (\<lambda>s. \<not> sql_eq (s_email s) email) (sessions d)\<rparr>)) (\<lambda>_.
     bnd (run (\<lambda>d. d\<lparr>password_resets := filter (\<lambda>r. \<not> sql_eq (pr_email r) email) (password_resets d)\<rparr>)) (\<lambda>_.
     bnd (run (\<lambda>d. d\<lparr>invitations := filter (\<lambda>v. \<not> sql_eq (i_email v) email) (invitations d)\<rparr>)) (\<lambda>_.
     run (\<lambda>d. d\<lparr>oauth_accounts := filter (\<lambda>l. \<not> sql_eq (o_email l) email) (oauth_accounts d)\<rparr>)))))"
  have keep: "preserves (unused email) ?tail" by (intro keeps) (simp_all add: unused_forget)
  have tail: "wp ?tail (\<lambda>_ w'. org_ok (db w')) w'" if "unused email (db w')" for w'
    by (rule wp_mono [OF preserves_wp [where P = "unused email", OF keep that]]) (simp add: unused_def)
  have del: "wp (sql (delete_users (\<lambda>u. sql_eq (u_email u) email)))
      (\<lambda>r w'. org_ok (db w') \<and> (\<forall>x. r = Inr x \<longrightarrow> unused email (db w'))) w"
    using ok by (auto simp: unused_def rows_of_def split: sum.splits
        dest: org_ok_delete_users delete_users_result)
  show "wp (forget_account email) (\<lambda>_ w'. org_ok (db w')) w"
    unfolding forget_account_def by (rule wp_seq [OF del]) (use tail in auto)
qed

lemma purge_org [keeps]: "preserves org_ok (purgeAccount email allow)"
  unfolding purgeAccount_def purge_tx_def isPlatformAdminEmail_def
  by (intro keeps forget_account_org)

lemma deleteAccount_org [keeps]: "preserves org_ok (deleteAccount pw au)"
  unfolding deleteAccount_def by (intro keeps)

end
