(* ===== verification/Org_Facts.thy ===== *)
theory Org_Facts
  imports Org_Invariant
begin

text \<open>
  What the account and team operations guarantee together: one owner per workspace with the
  owner's plan, roles that nobody can change, invitations that are used once and only by the
  invited address, teams that fit their plan.
\<close>

section \<open>Runs\<close>

text \<open>The requests of a visitor who is not signed in.\<close>

datatype visitor_request =
    Register register_data | Login login_data device | Social oauth_data device | Logout "jstring option"
  | Forgot "jstring option" | Reset jstring "jstring option"
  | AcceptNew jstring "jstring option" "jstring option" device

definition discard :: "'a io \<Rightarrow> unit io" where
  "discard m = bnd m (\<lambda>_. ret ())"

definition visitor_endpoint :: "visitor_request \<Rightarrow> unit io" where
  "visitor_endpoint q =
     (case q of
        Register rd \<Rightarrow> discard (registerNewUser rd)
      | Login ld dev \<Rightarrow> discard (userLogin ld dev)
      | Social oa dev \<Rightarrow> discard (oauthLogin oa dev)
      | Logout header \<Rightarrow> discard (logout header)
      | Forgot address \<Rightarrow> discard (requestPasswordReset address)
      | Reset token pw \<Rightarrow> discard (resetPassword token pw)
      | AcceptNew token name pw dev \<Rightarrow> discard (acceptInvitationAsNewUser token name pw dev))"

text \<open>The requests of a signed-in user.\<close>

datatype team_request =
    NewWorkspace workspace_data | InviteMember "jstring option" | RevokeInvite nat | AcceptAs jstring
  | SetRole nat string | ChangePassword "jstring option" "jstring option" | EditProfile profile_data
  | DeleteMe "jstring option"

definition team_endpoint :: "team_request \<Rightarrow> auth \<Rightarrow> unit io" where
  "team_endpoint q au =
     (case q of
        NewWorkspace data \<Rightarrow> discard (createWorkspace data au)
      | InviteMember address \<Rightarrow> discard (createInvitation address au)
      | RevokeInvite i \<Rightarrow> discard (revokeInvitation i au)
      | AcceptAs token \<Rightarrow> discard (acceptInvitationAsExistingUser token au)
      | SetRole i r \<Rightarrow> discard (updateUserRole i r au)
      | ChangePassword old new \<Rightarrow> discard (changeUserPassword old new au)
      | EditProfile pf \<Rightarrow> discard (updatePersonalInfo pf au)
      | DeleteMe pw \<Rightarrow> discard (deleteAccount pw au))"

text \<open>
  A signed-in caller is an active user of the database, as the token middleware establishes.
  Between requests both clocks advance and the outside services may change.
\<close>

inductive org_step :: "world \<Rightarrow> world \<Rightarrow> bool" where
  visitor: "org_step w (snd (visitor_endpoint q w))"
| member: "u \<in> set (users (db w)) \<Longrightarrow> u_active u \<Longrightarrow> org_step w (snd (team_endpoint q' (auth_of u sid) w))"
| billing: "billing_step w w' \<Longrightarrow> org_step w w'"
| wait: "c \<ge> clock (db w) \<Longrightarrow> org_step w (w\<lparr>db := (db w)\<lparr>clock := c\<rparr>, js_now := t, svc := s\<rparr>)"

inductive_cases org_stepE: "org_step w w'"

lemma discard_keeps [keeps]: "preserves P m \<Longrightarrow> preserves P (discard m)"
  unfolding discard_def by (intro keeps)

lemma discard_ok: "preserves P m \<Longrightarrow> P (db w) \<Longrightarrow> P (db (snd (discard m w)))"
  by (rule preservesD [OF discard_keeps])

lemma visitor_endpoint_org: "preserves org_ok (visitor_endpoint q)"
  by (cases q) (simp_all add: visitor_endpoint_def discard_keeps org_accounts.identity_handlers invitation_handlers_org)

lemma team_endpoint_org:
  assumes "org_ok (db w)" and "u \<in> set (users (db w))"
  shows "org_ok (db (snd (team_endpoint q (auth_of u sid) w)))"
proof -
  have "org_ok (db (snd (discard (updateUserRole i r (auth_of u sid)) w)))" for i r
  proof -
    have "wp (discard (updateUserRole i r (auth_of u sid))) (\<lambda>_ w'. org_ok (db w')) w"
      unfolding discard_def
      by (rule wp_seq [OF updateUserRole_inert [OF assms]]) (simp_all add: assms(1))
    then show ?thesis by (simp add: wp_iff)
  qed
  then show ?thesis
    by (cases q) (simp_all add: team_endpoint_def assms(1) discard_ok invitation_handlers_org org_accounts.identity_handlers
        deleteAccount_org createWorkspace_keeps)
qed

lemma org_ok_clock [simp]: "org_ok (d\<lparr>clock := c\<rparr>) = org_ok d"
  by (simp add: org_ok_def ids_ok_def sole_owner_def billing_consistent_def owned_workspaces_def
      owns_def account_of_def)

lemma org_step_ok: "org_step w w' \<Longrightarrow> org_ok (db w) \<Longrightarrow> org_ok (db w')"
  by (erule org_stepE)
     (auto intro: preservesD [OF visitor_endpoint_org] team_endpoint_org org_inv.step_keeps)

lemma org_run_ok: "org_step\<^sup>*\<^sup>* w w' \<Longrightarrow> org_ok (db w) \<Longrightarrow> org_ok (db w')"
  by (induction rule: rtranclp_induct) (auto intro: org_step_ok)

text \<open>
  C2: Along every run of sign-ups, sign-ins, invitations, joins, new workspaces, role changes,
  account deletions, payments and webhooks, whatever the providers answer and whichever
  database round trips fail: a workspace never gets a second owner, and every active workspace
  shows exactly the plan columns of its owner's account, a new one from the moment it exists.
\<close>

theorem organisation_invariant:
  assumes "org_step\<^sup>*\<^sup>* w w'" and "ids_ok (db w)" "sole_owner (db w)" "billing_consistent (db w)"
  shows "sole_owner (db w') \<and> billing_consistent (db w') \<and> ids_ok (db w')"
  using org_run_ok [OF assms(1)] assms(2-4) by (simp add: org_ok_def)

lemma demo_org_ok: "ids_ok demo_db" "sole_owner demo_db" "billing_consistent demo_db"
  using demo_billing_ok
  by (auto simp: ids_ok_def sole_owner_def owner_row_def demo_db_def empty_db_def demo_user_def
      demo_tenant_def)

lemma organisation_invariant_witness:
  "sole_owner (db (snd (team_endpoint (DeleteMe None) (auth_of (demo_user 2 2 ''b@x.io'' Owner) None) (demo_world demo_db))))"
proof -
  let ?w = "demo_world demo_db"
  have "demo_user 2 2 ''b@x.io'' Owner \<in> set (users (db ?w)) \<and> u_active (demo_user 2 2 ''b@x.io'' Owner)"
    by (simp add: demo_db_def demo_user_def)
  then have "org_step\<^sup>*\<^sup>* ?w (snd (team_endpoint (DeleteMe None) (auth_of (demo_user 2 2 ''b@x.io'' Owner) None) ?w))"
    by (intro r_into_rtranclp org_step.member) simp_all
  from organisation_invariant [OF this] show ?thesis using demo_org_ok by simp
qed



end
