(* ===== verification/Team_Facts.thy ===== *)
theory Team_Facts
  imports Org_Facts
begin

text \<open>
  Invitations and teams: what accepting an invitation takes and does, that a link works once,
  that a team never outgrows the plan of its workspace, and that a good link does work.
\<close>

section \<open>What accepting does\<close>

definition clear_link :: "jstring \<Rightarrow> database \<Rightarrow> bool" where
  "clear_link token d \<longleftrightarrow> \<not> list_ex (\<lambda>v. sql_eq (i_token v) token \<and> i_status v = InvPending) (invitations d)"

text \<open>The database after the holder of a link has joined: one member row, one used invitation.\<close>

definition joined_db :: "invitation \<Rightarrow> user \<Rightarrow> database \<Rightarrow> database \<Rightarrow> bool" where
  "joined_db v u d d' \<longleftrightarrow>
     v \<in> set (invitations d) \<and> live_invite d v
     \<and> users d' = users d @ [u] \<and> u_tenant u = Some (i_tenant v) \<and> u_email u = i_email v
     \<and> u_role u = Member \<and> u_active u \<and> tenants d' = tenants d \<and> clock d' = clock d
     \<and> invitations d' = invitations (mark_accepted (i_id v) (u_id u) d)"

lemma redeemableD:
  "redeemable token d = Some (v, t) \<Longrightarrow>
   v \<in> set (invitations d) \<and> t \<in> set (tenants d) \<and> i_tenant v = t_id t \<and> sql_eq (i_token v) token \<and> live_invite d v"
  by (auto simp: redeemable_def dest!: findD)

lemma joinWorkspace_spec:
  "wp (joinWorkspace v name pw avatar)
     (\<lambda>r w'. \<forall>i. r = Inr i \<longrightarrow> (\<exists>d1 u. insert_user (new_user (Some (i_tenant v)) (i_email v) pw name Member (or_null (or_empty avatar))) (db w) = Inr (i, d1)
          \<and> db w' = mark_accepted (i_id v) i d1)) w"
  by (auto simp: joinWorkspace_def split: sum.splits)

lemma insert_user_rows:
  "insert_user u d = Inr (i, d') \<Longrightarrow>
   i = auto d ''users'' \<and> users d' = users d @ [u\<lparr>u_id := i\<rparr>] \<and> invitations d' = invitations d
   \<and> tenants d' = tenants d \<and> clock d' = clock d \<and> sessions d' = sessions d"
  by (auto simp: insert_user_def next_id_def bump_id_def Let_def split: if_splits)

lemma join_is_joined:
  assumes "redeemable token (db w) = Some (v, t)"
  shows "wp (joinWorkspace v name pw avatar)
     (\<lambda>r w'. \<forall>i. r = Inr i \<longrightarrow> (\<exists>u. joined_db v u (db w) (db w') \<and> u_id u = i \<and> u_password u = pw \<and> u_name u = name)) w"
  by (rule wp_mono [OF joinWorkspace_spec])
     (use redeemableD [OF assms] in \<open>auto simp: joined_db_def mark_accepted_def new_user_def dest!: insert_user_rows\<close>)

text \<open>What a link's transaction commits.\<close>

definition link_used :: "jstring \<Rightarrow> database \<Rightarrow> nat \<Rightarrow> invitation \<Rightarrow> database \<Rightarrow> bool" where
  "link_used token d i v d' \<longleftrightarrow>
     sql_eq (i_token v) token \<and> (\<exists>u. joined_db v u d d' \<and> u_id u = i)"

lemma accept_new_commits:
  "wp (accept_new_tx token name pw)
     (\<lambda>r w'. case r of Inr (Commit (i, v)) \<Rightarrow> link_used token (db w) i v (db w')
               \<and> \<not> list_ex (\<lambda>u. sql_eq (u_email u) (i_email v)) (users (db w)) | _ \<Rightarrow> True) w"
proof -
  let ?Q = "\<lambda>r w'. case r of Inr (Commit (i, v)) \<Rightarrow> link_used token (db w) i v (db w')
               \<and> \<not> list_ex (\<lambda>u. sql_eq (u_email u) (i_email v)) (users (db w)) | _ \<Rightarrow> True"
  have join: "wp (bnd (joinWorkspace v name h None) (\<lambda>i. ret (Commit (i, v)))) ?Q w'"
    if "redeemable token (db w) = Some (v, t)" "db w' = db w"
      "\<not> list_ex (\<lambda>u. sql_eq (u_email u) (i_email v)) (users (db w))" for v t h w'
    using that redeemableD [OF that(1)]
    by (intro wp_seq [OF join_is_joined [of token w' v t]]) (auto simp: link_used_def)
  show ?thesis
    unfolding accept_new_tx_def
    by (auto simp del: wp_bnd simp: wp_bnd [of "select f" for f] wp_bnd [of "hash_password f" for f] join
          split: option.splits)
qed

text \<open>The tier that decides how many workspaces an account may join.\<close>

definition tier_now :: "database \<Rightarrow> jstring \<Rightarrow> string" where
  "tier_now d email = (if email = [] then ''free'' else account_tier d email)"

definition may_join :: "database \<Rightarrow> jstring \<Rightarrow> bool" where
  "may_join d email \<longleftrightarrow> below_limit (member_count d email) (joinWorkspaces (getPlanLimits (tier_now d email)))"

definition may_create :: "database \<Rightarrow> jstring \<Rightarrow> bool" where
  "may_create d email \<longleftrightarrow> below_limit (owned_count d email) (ownWorkspaces (getPlanLimits (tier_now d email)))"

lemma usage_spec:
  "wp (getAccountWorkspaceUsage email)
     (\<lambda>r w'. db w' = db w \<and> svc w' = svc w \<and> js_now w' = js_now w \<and> (\<forall>x. r = Inr x \<longrightarrow>
          wu_can_join x = may_join (db w) email \<and> wu_can_create x = may_create (db w) email)) w"
  by (simp add: getAccountWorkspaceUsage_def getAccountTier_def usage_of_def Let_def may_join_def may_create_def
      tier_now_def)

lemma accept_existing_commits:
  "wp (accept_existing_tx token au)
     (\<lambda>r w'. case r of Inr (Commit (i, v, a)) \<Rightarrow> link_used token (db w) i v (db w')
               \<and> sql_eq (au_email au) (i_email v) \<and> may_join (db w) (i_email v)
             | _ \<Rightarrow> True) w"
proof -
  let ?Q = "\<lambda>r w'. case r of Inr (Commit (i, v, a)) \<Rightarrow> link_used token (db w) i v (db w')
               \<and> sql_eq (au_email au) (i_email v) \<and> may_join (db w) (i_email v)
             | _ \<Rightarrow> True"
  have join: "wp (bnd (joinWorkspace v name h av) (\<lambda>i. ret (Commit (i, v, a)))) ?Q w'"
    if "redeemable token (db w) = Some (v, t)" "db w' = db w" "sql_eq (au_email au) (i_email v)"
      "may_join (db w) (i_email v)" for v t h w' a name av
    using that redeemableD [OF that(1)]
    by (intro wp_seq [OF join_is_joined [of token w' v t]]) (auto simp: link_used_def)
  have cap: "wp (bnd (getAccountWorkspaceUsage (i_email v)) (\<lambda>usage.
               if \<not> wu_can_join usage then ret (Rollback (PAYMENT_REQUIRED, ''plan_limit_workspaces_join''))
               else bnd (select (\<lambda>d. find (\<lambda>u. u_id u = au_id au) (users d))) (\<lambda>me.
                 case me of
                   None \<Rightarrow> raise (JsError ''Cannot read properties of undefined'')
                 | Some account \<Rightarrow>
                     bnd (joinWorkspace v (u_name account) (u_password account) (u_avatar account)) (\<lambda>memberId.
                       ret (Commit (memberId, v, account)))))) ?Q w'"
    if "redeemable token (db w) = Some (v, t)" "db w' = db w" "sql_eq (au_email au) (i_email v)" for v t w'
    by (rule wp_seq [OF usage_spec])
       (use that in \<open>auto simp del: wp_bnd simp: wp_bnd [of "select f" for f] split: option.splits intro!: join\<close>)
  show ?thesis
    unfolding accept_existing_tx_def
    by (auto simp del: wp_bnd simp: wp_bnd [of "select f" for f] sql_eq_def split: option.splits intro!: cap)
qed

section \<open>Who may join\<close>

text \<open>A transaction does what its body committed, or nothing.\<close>

lemma accept_existing_spec:
  "wp (acceptInvitationAsExistingUser token au)
     (\<lambda>r w'. case r of
        Inr (Resolve code key s) \<Rightarrow> (\<exists>v. link_used token (db w) (si_id s) v (db w')
            \<and> sql_eq (au_email au) (i_email v) \<and> may_join (db w) (i_email v)
            \<and> si_tenant s = Some (i_tenant v) \<and> si_role s = Member)
      | _ \<Rightarrow> db w' = db w) w"
proof -
  let ?C = "\<lambda>(i, v, a :: user) d'. link_used token (db w) i v d' \<and> sql_eq (au_email au) (i_email v) \<and> may_join (db w) (i_email v)"
  have tx: "wp (transaction (accept_existing_tx token au)) (\<lambda>r w'. case r of Inr (Inr x) \<Rightarrow> ?C x (db w') | _ \<Rightarrow> db w' = db w) w"
    by (rule wp_transaction_all, rule wp_mono [OF accept_existing_commits]) (auto split: sum.splits tx_end.splits)
  show ?thesis
    unfolding acceptInvitationAsExistingUser_def wp_catch
    by (rule wp_seq [OF tx]) (auto simp: signToken_def joined_def split: sum.splits)
qed

definition no_account :: "database \<Rightarrow> jstring \<Rightarrow> bool" where
  "no_account d email \<longleftrightarrow> \<not> list_ex (\<lambda>u. sql_eq (u_email u) email) (users d)"

lemma link_used_sessions [simp]: "link_used token d i v (d'\<lparr>sessions := s\<rparr>) = link_used token d i v d'"
  by (simp add: link_used_def joined_db_def)

text \<open>
  A new account may have joined although the answer is a failure: the session is opened after
  the commit.
\<close>

lemma accept_new_spec:
  "wp (acceptInvitationAsNewUser token name pw dev)
     (\<lambda>r w'. case r of
        Inr (Resolve code key s) \<Rightarrow> (\<exists>v. link_used token (db w) (si_id s) v (db w') \<and> no_account (db w) (i_email v)
            \<and> si_tenant s = Some (i_tenant v) \<and> si_role s = Member)
      | _ \<Rightarrow> db w' = db w \<or> (\<exists>i v. link_used token (db w) i v (db w'))) w"
    (is "wp _ ?Q w")
proof -
  let ?n = "js_trim (or_empty name)" and ?p = "or_empty pw"
  let ?C = "\<lambda>(i, v) d'. link_used token (db w) i v d' \<and> no_account (db w) (i_email v)"
  have tx: "wp (transaction (accept_new_tx token ?n ?p)) (\<lambda>r w'. case r of Inr (Inr x) \<Rightarrow> ?C x (db w') | _ \<Rightarrow> db w' = db w) w"
    by (rule wp_transaction_all, rule wp_mono [OF accept_new_commits])
       (auto simp: no_account_def split: sum.splits tx_end.splits)
  have "wp (catch (bnd (transaction (accept_new_tx token ?n ?p)) (\<lambda>end_of_tx.
              case end_of_tx of
                Inl (code, key) \<Rightarrow> ret (Reject code key)
              | Inr (memberId, v) \<Rightarrow>
                  bnd (createSession (i_email v) dev) (\<lambda>sid.
                  bnd (signToken memberId (i_email v) (Some (i_tenant v)) Member (Some sid)) (\<lambda>authToken.
                    ret (Resolve CREATED ''invitation_accepted'' (joined authToken memberId v ?n None))))))
           (\<lambda>_. ret (Reject INTERNAL_SERVER_ERROR ''failed_to_accept_invitation''))) ?Q w"
    unfolding wp_catch
    by (rule wp_seq [OF tx])
       (auto simp: signToken_def joined_def createSession_def insert_session_def split: sum.splits)
  then show ?thesis by (simp add: acceptInvitationAsNewUser_def Let_def del: wp_catch)
qed

section \<open>A link works once\<close>

datatype link_use = AsNew "jstring option" "jstring option" device | AsExisting auth

definition accept_link :: "jstring \<Rightarrow> link_use \<Rightarrow> signed_in outcome io" where
  "accept_link token a =
     (case a of
        AsNew name pw dev \<Rightarrow> acceptInvitationAsNewUser token name pw dev
      | AsExisting au \<Rightarrow> acceptInvitationAsExistingUser token au)"

definition resolved :: "'r outcome \<Rightarrow> bool" where
  "resolved r \<longleftrightarrow> (case r of Resolve c k x \<Rightarrow> True | Reject c k \<Rightarrow> False)"

lemma resolved_simps [simp]: "resolved (Resolve c k x)" "\<not> resolved (Reject c k)"
  by (simp_all add: resolved_def)

text \<open>\<open>uq_invitations_token\<close>.\<close>

definition unique_tokens :: "database \<Rightarrow> bool" where
  "unique_tokens d \<longleftrightarrow> distinct (map (js_lower \<circ> i_token) (invitations d))"

lemma accept_link_spec:
  "wp (accept_link token a)
     (\<lambda>r w'. (\<forall>x. r = Inr x \<longrightarrow> resolved x \<longrightarrow> (\<exists>i v. link_used token (db w) i v (db w')))
        \<and> (db w' = db w \<or> (\<exists>i v. link_used token (db w) i v (db w')))) w"
  unfolding accept_link_def
  by (cases a; simp only: link_use.case)
     (rule wp_mono [OF accept_new_spec] wp_mono [OF accept_existing_spec], force simp: resolved_def split: sum.splits outcome.splits)+

lemma map_mark_accepted: "map (js_lower \<circ> i_token) (invitations (mark_accepted i m d)) = map (js_lower \<circ> i_token) (invitations d)"
  by (simp add: mark_accepted_def update_where_def)

lemma link_used_unique: "link_used token d i v d' \<Longrightarrow> unique_tokens d \<Longrightarrow> unique_tokens d'"
  using map_mark_accepted by (auto simp: link_used_def joined_db_def unique_tokens_def)

lemma link_used_clears:
  assumes "link_used token d i v d'" and "unique_tokens d"
  shows "clear_link token d'"
proof -
  have v: "v \<in> set (invitations d)" "sql_eq (i_token v) token" "i_status v = InvPending"
    and inv: "invitations d' = update_where (\<lambda>x. i_id x = i_id v \<and> i_status x = InvPending)
         (\<lambda>x. x\<lparr>i_status := InvAccepted, i_accepted_by := Some i\<rparr>) (invitations d)"
    using assms(1) by (auto simp: link_used_def joined_db_def live_invite_def mark_accepted_def)
  have "x = v" if "x \<in> set (invitations d)" "sql_eq (i_token x) token" for x
    using assms(2) that v(1,2) unfolding unique_tokens_def distinct_map inj_on_def
    by (auto simp: sql_eq_def)
  then show ?thesis
    using v(3) by (auto simp: clear_link_def inv list_ex_iff set_update_where split: if_splits)
qed

lemma clear_link_dead: "clear_link token d \<Longrightarrow> \<not> link_used token d i v d'"
  by (auto simp: clear_link_def link_used_def joined_db_def live_invite_def list_ex_iff)

lemma attempts_on_dead_link:
  "clear_link token (db w) \<Longrightarrow>
   wp (for_each attempts (accept_link token)) (\<lambda>r w'. \<forall>rs. r = Inr rs \<longrightarrow> filter resolved rs = []) w"
proof (induction attempts arbitrary: w)
  case (Cons a as)
  have "wp (bnd (accept_link token a) (\<lambda>y. bnd (for_each as (accept_link token)) (\<lambda>ys. ret (y # ys))))
      (\<lambda>r w'. \<forall>rs. r = Inr rs \<longrightarrow> filter resolved rs = []) w"
  proof (rule wp_seq [OF accept_link_spec], goal_cases)
    case (1 x w')
    then have "clear_link token (db w')" "\<not> resolved x"
      using clear_link_dead [OF Cons.prems] Cons.prems by auto
    then show ?case by (intro wp_seq [OF Cons.IH [of w']]) auto
  qed simp
  then show ?case by simp
qed simp

text \<open>
  C24: An invitation is used once: of any number of attempts to accept the same link, by new
  accounts and by existing ones and with any database failures, at most one is answered with
  success.
\<close>

theorem invitation_single_use:
  assumes "unique_tokens (db w)"
  shows "wp (for_each attempts (accept_link token))
           (\<lambda>r w'. \<forall>rs. r = Inr rs \<longrightarrow> length (filter resolved rs) \<le> 1) w"
  using assms
proof (induction attempts arbitrary: w)
  case (Cons a as)
  let ?Q = "\<lambda>r w'. \<forall>rs. r = Inr rs \<longrightarrow> length (filter resolved rs) \<le> 1"
  have "wp (bnd (accept_link token a) (\<lambda>y. bnd (for_each as (accept_link token)) (\<lambda>ys. ret (y # ys)))) ?Q w"
  proof (rule wp_seq [OF accept_link_spec], goal_cases)
    case (1 x w')
    then have u: "unique_tokens (db w')" using Cons.prems link_used_unique by auto
    show ?case
    proof (cases "resolved x")
      case True
      then have "clear_link token (db w')" using 1 link_used_clears Cons.prems by blast
      then show ?thesis by (intro wp_seq [OF attempts_on_dead_link [of token w']]) auto
    next
      case False
      then show ?thesis by (intro wp_seq [OF Cons.IH [OF u]]) auto
    qed
  qed simp
  then show ?case by simp
qed simp

definition tok_invite :: invitation where
  "tok_invite =
     \<lparr>i_id = 1, i_tenant = 2, i_email = js ''new@x.io'', i_token = js ''tok'', i_invited_by = Some 2,
      i_status = InvPending, i_expires = 2000000000, i_accepted_by = None, i_created = 0\<rparr>"

definition invited_db :: database where
  "invited_db = demo_db\<lparr>invitations := [tok_invite]\<rparr>"

definition any_device :: device where "any_device = \<lparr>dv_agent = None, dv_ip = None\<rparr>"

lemma invitation_single_use_witness:
  "wp (for_each [AsNew (Some (js ''Ann'')) (Some (js ''password'')) any_device,
                 AsNew (Some (js ''Eve'')) (Some (js ''password'')) any_device] (accept_link (js ''tok'')))
     (\<lambda>r w'. \<forall>rs. r = Inr rs \<longrightarrow> length (filter resolved rs) \<le> 1) (demo_world invited_db)"
  by (rule invitation_single_use) (simp add: unique_tokens_def invited_db_def)

section \<open>Who gets in\<close>

text \<open>
  C25: Only the invited account joins: an existing account gets a row in a workspace through a
  link only if the link is pending and unexpired, was sent to that very address, and the
  account's own plan lets it join one more; the row it gets is a member's, of exactly that
  workspace, and the link is then used.  Every other answer leaves the database as it was.
\<close>

theorem only_the_invited_account_joins:
  "wp (acceptInvitationAsExistingUser token au)
     (\<lambda>r w'. case r of
        Inr (Resolve code key s) \<Rightarrow>
          (\<exists>v u. v \<in> set (invitations (db w)) \<and> i_status v = InvPending \<and> i_expires v > clock (db w)
             \<and> sql_eq (i_token v) token \<and> sql_eq (i_email v) (au_email au)
             \<and> may_join (db w) (i_email v)
             \<and> users (db w') = users (db w) @ [u] \<and> u_tenant u = Some (i_tenant v) \<and> u_role u = Member
             \<and> u_email u = i_email v \<and> tenants (db w') = tenants (db w)
             \<and> invitations (db w') = invitations (mark_accepted (i_id v) (u_id u) (db w)))
      | _ \<Rightarrow> db w' = db w) w"
  by (rule wp_mono [OF accept_existing_spec])
     (auto simp: link_used_def joined_db_def live_invite_def sql_eq_def split: sum.splits outcome.splits)

text \<open>The row a new account gets from an invitation.\<close>

definition welcome_row :: "invitation \<Rightarrow> jstring \<Rightarrow> jstring \<Rightarrow> user" where
  "welcome_row v name hash = new_user (Some (i_tenant v)) (i_email v) (Some hash) name Member None"

definition free_sid :: "world \<Rightarrow> nat \<Rightarrow> bool" where
  "free_sid w n \<longleftrightarrow> \<not> list_ex (\<lambda>s. sql_eq (s_id s) (random_hex (svc w) n)) (sessions (db w))"

lemma welcome_inserts:
  assumes "redeemable token d = Some (v, t)" and "no_account d (i_email v)"
    and "user_fits (welcome_row v name h)"
  shows "\<exists>d1. insert_user (welcome_row v name h) d = Inr (auto d ''users'', d1) \<and> sessions d1 = sessions d
     \<and> users d1 = users d @ [(welcome_row v name h)\<lparr>u_id := auto d ''users''\<rparr>] \<and> invitations d1 = invitations d"
  using assms redeemableD [OF assms(1)]
  by (auto simp: insert_user_def welcome_row_def no_account_def list_ex_iff member_row_def fk_opt_def has_tenant_def
      next_id_def bump_id_def Let_def)

text \<open>
  A good link works: whoever holds a pending, unexpired link to an address without an
  account, gives a name and a password of at least eight characters that fit their columns, and
  finds the database up, becomes a member of the workspace, is signed in on a device session of
  that address, and the link is used up.
\<close>

theorem live_link_works:
  assumes "healthy w" and "redeemable token (db w) = Some (v, t)" and "no_account (db w) (i_email v)"
    and "js_trim (or_empty name) \<noteq> []" and "8 \<le> length (or_empty pw)"
    and "user_fits (welcome_row v (js_trim (or_empty name)) (bcrypt_hash (svc w) (rn w) (or_empty pw)))"
    and "free_sid w (Suc (rn w))"
  shows "wp (acceptInvitationAsNewUser token name pw dev)
     (\<lambda>r w'. \<exists>s u. r = Inr (Resolve CREATED ''invitation_accepted'' s) \<and> users (db w') = users (db w) @ [u]
        \<and> u_id u = si_id s \<and> u_tenant u = Some (i_tenant v) \<and> u_role u = Member \<and> u_active u
        \<and> u_email u = i_email v
        \<and> u_password u = Some (bcrypt_hash (svc w) (rn w) (or_empty pw))
        \<and> map s_id (open_sessions (db w') (i_email v)) =
            map s_id (open_sessions (db w) (i_email v)) @ [random_hex (svc w) (Suc (rn w))]
        \<and> invitations (db w') = invitations (mark_accepted (i_id v) (u_id u) (db w))) w"
proof -
  let ?row = "welcome_row v (js_trim (or_empty name)) (bcrypt_hash (svc w) (rn w) (or_empty pw))"
  obtain d1 where d1: "insert_user ?row (db w) = Inr (auto (db w) ''users'', d1)" "sessions d1 = sessions (db w)"
    "users d1 = users (db w) @ [?row\<lparr>u_id := auto (db w) ''users''\<rparr>]" "invitations d1 = invitations (db w)"
    using welcome_inserts [OF assms(2,3,6)] by blast
  show ?thesis
    using assms d1
    by (simp add: acceptInvitationAsNewUser_def accept_new_tx_def joinWorkspace_def Let_def no_account_def
        welcome_row_def signToken_def createSession_def insert_session_def free_sid_def joined_def
        mark_accepted_def open_sessions_def new_user_def or_null_def)
qed

lemma invited_facts:
  "redeemable (js ''tok'') invited_db = Some (tok_invite, demo_tenant 2 ''beta'' ''free'')"
  "no_account invited_db (i_email tok_invite)"
  "user_fits (welcome_row tok_invite (js ''Ann'') (36 # js ''password''))"
  "free_sid (demo_world invited_db) n" "unique_tokens invited_db"
  "js_trim (js ''Ann'') = js ''Ann''"
  by (simp_all add: redeemable_def invited_db_def demo_db_def empty_db_def demo_tenant_def live_invite_def
      tok_invite_def no_account_def demo_user_def sql_eq_def js_lower_def lower_unit_def user_fits_def
      welcome_row_def new_user_def fits_def free_sid_def unique_tokens_def js_trim_def js_space_def)

lemma live_link_works_witness:
  "wp (acceptInvitationAsNewUser (js ''tok'') (Some (js ''Ann'')) (Some (js ''password'')) any_device)
     (\<lambda>r w'. \<exists>s. r = Inr (Resolve CREATED ''invitation_accepted'' s)) (demo_world invited_db)"
  by (rule wp_mono [OF live_link_works [where v = tok_invite and t = "demo_tenant 2 ''beta'' ''free''"]])
     (auto simp: invited_facts demo_services_def simp del: js_Cons)

section \<open>A failure after the commit\<close>

text \<open>
  A member whose welcome fails: when only the session insert that follows the commit
  fails, the answer is \<open>failed_to_accept_invitation\<close>, yet the account exists, is a member of
  the workspace, and the link is used up, so trying again is refused.
\<close>

theorem joined_but_refused:
  assumes "fault (svc w) = (\<lambda>n. n = qn w + 6)" and "redeemable token (db w) = Some (v, t)"
    and "no_account (db w) (i_email v)" and "unique_tokens (db w)"
    and "js_trim (or_empty name) \<noteq> []" and "8 \<le> length (or_empty pw)"
    and "user_fits (welcome_row v (js_trim (or_empty name)) (bcrypt_hash (svc w) (rn w) (or_empty pw)))"
  shows "wp (acceptInvitationAsNewUser token name pw dev)
     (\<lambda>r w'. r = Inr (Reject INTERNAL_SERVER_ERROR ''failed_to_accept_invitation'')
        \<and> is_member (Some (i_tenant v)) (i_email v) (db w') \<and> redeemable token (db w') = None) w"
proof -
  let ?row = "welcome_row v (js_trim (or_empty name)) (bcrypt_hash (svc w) (rn w) (or_empty pw))"
  let ?i = "auto (db w) ''users''"
  obtain d1 where d1: "insert_user ?row (db w) = Inr (?i, d1)" "users d1 = users (db w) @ [?row\<lparr>u_id := ?i\<rparr>]"
    using welcome_inserts [OF assms(2,3,7)] by blast
  have "link_used token (db w) ?i v (mark_accepted (i_id v) ?i d1)"
    using redeemableD [OF assms(2)] insert_user_rows [OF d1(1)]
    by (simp add: link_used_def joined_db_def mark_accepted_def welcome_row_def)
  from link_used_clears [OF this assms(4)]
  have "redeemable token (mark_accepted (i_id v) ?i d1) = None"
    by (auto simp: clear_link_def redeemable_def find_None_iff list_ex_iff live_invite_def)
  moreover have "is_member (Some (i_tenant v)) (i_email v) (mark_accepted (i_id v) ?i d1)"
    by (simp add: is_member_def mark_accepted_def d1(2) member_row_def welcome_row_def)
  ultimately show ?thesis
    using assms d1
    by (simp add: acceptInvitationAsNewUser_def accept_new_tx_def joinWorkspace_def Let_def no_account_def
        welcome_row_def createSession_def or_null_def)
qed

definition flaky_world :: "nat \<Rightarrow> database \<Rightarrow> world" where
  "flaky_world n d = (demo_world d)\<lparr>svc := demo_services\<lparr>fault := (\<lambda>k. k = n)\<rparr>\<rparr>"

lemma joined_but_refused_witness:
  "wp (acceptInvitationAsNewUser (js ''tok'') (Some (js ''Ann'')) (Some (js ''password'')) any_device)
     (\<lambda>r w'. r = Inr (Reject INTERNAL_SERVER_ERROR ''failed_to_accept_invitation'')
        \<and> is_member (Some (i_tenant tok_invite)) (i_email tok_invite) (db w') \<and> redeemable (js ''tok'') (db w') = None)
     (flaky_world 6 invited_db)"
  by (rule joined_but_refused [where v = tok_invite and t = "demo_tenant 2 ''beta'' ''free''"])
     (auto simp: invited_facts flaky_world_def demo_world_def demo_services_def simp del: js_Cons)

end
