(* ===== verification/Tenant_Settings.thy ===== *)
theory Tenant_Settings
  imports Admin_Panel Public_Board
begin

text \<open>
  The workspace records (\<open>src/main/tenant/\<close>): creating one, reading one's own, any other and
  all of them, and changing the settings of one, which keeps the cache of the public portal in
  step.  A field of the request is \<open>None\<close> where it is undefined; null and the empty string are
  the same for the fields that are stored as \<open>x || null\<close>.
\<close>

section \<open>Creating and reading\<close>

record tenant_data =
  td_name :: "jstring option"
  td_slug :: "jstring option"
  td_subdomain :: "jstring option"
  td_custom_domain :: "jstring option"
  td_plan :: "string option"
  td_logo :: "jstring option"
  td_color :: "jstring option"

text \<open>The row of a creation; without a name, a slug or a subdomain there is none.\<close>

definition requested_tenant :: "tenant_data \<Rightarrow> tenant option" where
  "requested_tenant td =
     (case (td_name td, td_slug td, td_subdomain td) of
        (Some name, Some slug, Some sub) \<Rightarrow>
          Some \<lparr>t_id = 0, t_name = name, t_slug = slug, t_subdomain = sub,
            t_custom_domain = or_null (or_empty (td_custom_domain td)), t_website = None,
            t_plan = plan_or_free (td_plan td), t_stripe_customer = None, t_stripe_sub = None,
            t_status = None, t_interval = None, t_period_end = None, t_pending_plan = None,
            t_pending_interval = None, t_pending_at = None, t_logo = or_null (or_empty (td_logo td)),
            t_color = or_null (or_empty (td_color td)), t_active = True, t_require_auth = False\<rparr>
      | _ \<Rightarrow> None)"

definition createTenant :: "tenant_data \<Rightarrow> nat outcome io" where
  "createTenant td =
     catch (bnd (sql (\<lambda>d. case requested_tenant td of
                     None \<Rightarrow> Inl DbError
                   | Some t \<Rightarrow> if length (t_plan t) > 50 then Inl DbError else insert_tenant t d)) (\<lambda>i.
              ret (Resolve CREATED ''tenant_created_successfully'' i)))
           (\<lambda>_. ret (Reject INTERNAL_SERVER_ERROR ''failed_to_create_tenant''))"

text \<open>The columns of the three reads.\<close>

record tenant_info =
  ti_id :: nat
  ti_name :: jstring
  ti_slug :: jstring
  ti_subdomain :: jstring
  ti_custom_domain :: "jstring option"
  ti_plan :: string
  ti_active :: bool

definition tenant_info_of :: "tenant \<Rightarrow> tenant_info" where
  "tenant_info_of t =
     \<lparr>ti_id = t_id t, ti_name = t_name t, ti_slug = t_slug t, ti_subdomain = t_subdomain t,
      ti_custom_domain = t_custom_domain t, ti_plan = t_plan t, ti_active = t_active t\<rparr>"

definition tenant_by_id :: "nat option \<Rightarrow> database \<Rightarrow> tenant option" where
  "tenant_by_id i d = find (\<lambda>t. Some (t_id t) = i) (tenants d)"

text \<open>With logo and colour; only one's own record has the sign-in requirement.\<close>

definition answer_tenant :: "(tenant \<Rightarrow> 'a) \<Rightarrow> nat option \<Rightarrow> 'a outcome io" where
  "answer_tenant f i =
     catch (bnd (select (tenant_by_id i)) (\<lambda>row.
              case row of
                None \<Rightarrow> ret (Reject NOT_FOUND ''tenant_not_found'')
              | Some t \<Rightarrow> ret (Resolve OK ''tenant_retrieved_successfully'' (f t))))
           (\<lambda>_. ret (Reject INTERNAL_SERVER_ERROR ''failed_to_get_tenant''))"

definition getMyTenant :: "auth \<Rightarrow> (tenant_info \<times> jstring option \<times> jstring option \<times> bool) outcome io" where
  "getMyTenant au = answer_tenant (\<lambda>t. (tenant_info_of t, t_logo t, t_color t, t_require_auth t)) (au_tenant au)"

definition getTenantById :: "nat \<Rightarrow> (tenant_info \<times> jstring option \<times> jstring option) outcome io" where
  "getTenantById i = answer_tenant (\<lambda>t. (tenant_info_of t, t_logo t, t_color t)) (Some i)"

text \<open>\<open>created\<close> is the column \<open>created_at\<close>, which the rows of the model leave out.\<close>

definition getTenantList :: "(tenant \<Rightarrow> int) \<Rightarrow> tenant_info list outcome io" where
  "getTenantList created =
     catch (bnd (select (\<lambda>d. map tenant_info_of (sort_key (\<lambda>t. - created t) (tenants d)))) (\<lambda>rows.
              ret (Resolve OK ''tenants_retrieved_successfully'' rows)))
           (\<lambda>_. ret (Reject INTERNAL_SERVER_ERROR ''failed_to_get_tenants''))"

section \<open>Changing the settings\<close>

record tenant_patch =
  tp_name :: "jstring option"
  tp_logo :: "jstring option"
  tp_color :: "jstring option"
  tp_subdomain :: "jstring option"
  tp_active :: "bool option"
  tp_require_auth :: "bool option"

definition new_subdomain :: "tenant_patch \<Rightarrow> jstring option" where
  "new_subdomain p = map_option (\<lambda>s. js_lower (js_trim s)) (tp_subdomain p)"

text \<open>The assignments of the \<open>UPDATE\<close>; an unchanged subdomain is not among them.\<close>

definition patch_settings :: "jstring option \<Rightarrow> tenant_patch \<Rightarrow> tenant \<Rightarrow> tenant" where
  "patch_settings sub p t =
     t\<lparr>t_name := (case tp_name p of None \<Rightarrow> t_name t | Some n \<Rightarrow> n),
       t_subdomain := (case sub of None \<Rightarrow> t_subdomain t | Some s \<Rightarrow> s),
       t_slug := (case sub of None \<Rightarrow> t_slug t | Some s \<Rightarrow> s),
       t_logo := (case tp_logo p of None \<Rightarrow> t_logo t | Some x \<Rightarrow> or_null x),
       t_color := (case tp_color p of None \<Rightarrow> t_color t | Some x \<Rightarrow> or_null x),
       t_require_auth := (case tp_require_auth p of None \<Rightarrow> t_require_auth t | Some b \<Rightarrow> b),
       t_active := (case tp_active p of None \<Rightarrow> t_active t | Some b \<Rightarrow> b)\<rparr>"

definition subdomain_elsewhere :: "nat \<Rightarrow> jstring \<Rightarrow> database \<Rightarrow> bool" where
  "subdomain_elsewhere i sub d \<longleftrightarrow> list_ex (\<lambda>t. subdomain_used sub t \<and> t_id t \<noteq> i) (tenants d)"

definition write_settings :: "nat \<Rightarrow> jstring option \<Rightarrow> tenant_patch \<Rightarrow> database \<Rightarrow> exn + (unit \<times> database)" where
  "write_settings i sub p d =
     (let rows = filter (\<lambda>t. t_id t = i) (tenants d)
      in if \<not> list_all (\<lambda>t. tenant_fits (patch_settings sub p t)) rows then Inl DbError
         else case sub of
           Some s \<Rightarrow>
             if rows \<noteq> [] \<and> list_ex (\<lambda>t. sql_eq (t_slug t) s \<and> t_id t \<noteq> i) (tenants d)
             then Inl (DupEntry ''uq_tenants_slug'')
             else if rows \<noteq> [] \<and> list_ex (\<lambda>t. sql_eq (t_subdomain t) s \<and> t_id t \<noteq> i) (tenants d)
             then Inl (DupEntry ''uq_tenants_subdomain'')
             else Inr ((), d\<lparr>tenants := update_where (\<lambda>t. t_id t = i) (patch_settings sub p) (tenants d)\<rparr>)
         | None \<Rightarrow> Inr ((), d\<lparr>tenants := update_where (\<lambda>t. t_id t = i) (patch_settings sub p) (tenants d)\<rparr>))"

text \<open>
  The subdomain part, before the \<open>try\<close>: a refusal, or the keys to drop from the cache with the
  subdomain to write, if it changes.
\<close>

definition check_subdomain :: "nat \<Rightarrow> tenant_patch \<Rightarrow> ((int \<times> string) + (jstring list \<times> jstring option)) io" where
  "check_subdomain i p =
     (case new_subdomain p of
        None \<Rightarrow> ret (Inr ([], None))
      | Some sub \<Rightarrow>
          bnd (select (tenant_by_id (Some i))) (\<lambda>current.
            case current of
              None \<Rightarrow> ret (Inl (NOT_FOUND, ''tenant_not_found''))
            | Some t \<Rightarrow>
                if sub = t_subdomain t then ret (Inr ([t_subdomain t, sub], None))
                else if \<not> valid_subdomain sub then ret (Inl (BAD_REQUEST, ''invalid_subdomain''))
                else bnd (select (subdomain_elsewhere i sub)) (\<lambda>taken.
                       if taken then ret (Inl (CONFLICT, ''subdomain_taken''))
                       else ret (Inr ([t_subdomain t, sub], Some sub)))))"

text \<open>Requiring visitors to sign in is a paid capability; lifting the requirement is not.\<close>

definition check_signin :: "nat \<Rightarrow> tenant_patch \<Rightarrow> bool io" where
  "check_signin i p =
     (if tp_require_auth p = Some True then planAllows (Some i) restrictAnonymousPosting else ret True)"

definition nothing_to_write :: "jstring option \<Rightarrow> tenant_patch \<Rightarrow> bool" where
  "nothing_to_write sub p \<longleftrightarrow>
     tp_name p = None \<and> sub = None \<and> tp_logo p = None \<and> tp_color p = None
     \<and> tp_require_auth p = None \<and> tp_active p = None"

text \<open>Without a subdomain in the request its key is looked up for the cache.\<close>

definition keys_to_drop :: "nat \<Rightarrow> jstring list \<Rightarrow> jstring list io" where
  "keys_to_drop i touched =
     (if touched = []
      then bnd (select (tenant_by_id (Some i))) (\<lambda>row.
             ret (case row of None \<Rightarrow> [] | Some t \<Rightarrow> [t_subdomain t]))
      else ret touched)"

definition settings_failed :: "exn \<Rightarrow> unit outcome" where
  "settings_failed e =
     (case e of DupEntry k \<Rightarrow> Reject CONFLICT ''subdomain_taken''
      | _ \<Rightarrow> Reject INTERNAL_SERVER_ERROR ''failed_to_update_tenant'')"

text \<open>The statement and its \<open>try\<close>.\<close>

definition store_settings :: "nat \<Rightarrow> jstring option \<Rightarrow> jstring list \<Rightarrow> tenant_patch \<Rightarrow> unit outcome io" where
  "store_settings i sub touched p =
     catch
       (bnd (sql (write_settings i sub p)) (\<lambda>_.
        bnd (keys_to_drop i touched) (\<lambda>drops.
        bnd (invalidateTenantCache drops) (\<lambda>_.
          ret (Resolve OK ''tenant_updated_successfully'' ())))))
       (\<lambda>e. ret (settings_failed e))"

definition updateTenant :: "nat \<Rightarrow> tenant_patch \<Rightarrow> unit outcome io" where
  "updateTenant i p =
     bnd (check_subdomain i p) (\<lambda>checked.
       case checked of
         Inl (code, key) \<Rightarrow> ret (Reject code key)
       | Inr (touched, sub) \<Rightarrow>
           bnd (check_signin i p) (\<lambda>allowed.
             if \<not> allowed then ret (Reject PAYMENT_REQUIRED ''plan_limit_require_signin'')
             else if nothing_to_write sub p then ret (Resolve OK ''tenant_updated_successfully'' ())
             else store_settings i sub touched p))"

text \<open>The route in front of it: the owner of this very workspace only.\<close>

definition updateTenantRoute :: "nat \<Rightarrow> tenant_patch \<Rightarrow> auth \<Rightarrow> unit outcome io" where
  "updateTenantRoute i p au =
     (if i \<noteq> id_or_zero (au_tenant au) \<or> au_role au \<noteq> Owner
      then ret (Reject FORBIDDEN ''You are not allowed to update this workspace.'')
      else updateTenant i p)"

end
