(* ===== verification/Tenant_Facts.thy ===== *)
theory Tenant_Facts
  imports Tenant_Settings
begin

text \<open>
  What the public portal shows after a change of a workspace's settings: the owner's changes at
  once, an administrator's only when the cached record has expired.  And what an open
  \<open>createTenant\<close> gives away.
\<close>

section \<open>The portal's answer\<close>

text \<open>What \<open>resolvePublicTenant\<close> answers from the database, with nothing cached.\<close>

definition portal_view :: "tenant \<Rightarrow> public_tenant" where
  "portal_view t =
     (let l = getPlanLimits (t_plan t)
      in \<lparr>pu_tenant = t, pu_attachments = allowAttachments l, pu_owner_badge = ownerBadge l,
          pu_owner_privacy = ownerPrivacy l,
          pu_signin_to_post = (t_require_auth t \<and> restrictAnonymousPosting l)\<rparr>)"

definition portal_answer :: "jstring \<Rightarrow> database \<Rightarrow> public_tenant outcome" where
  "portal_answer value d =
     (case board_named value d of
        None \<Rightarrow> Reject NOT_FOUND ''tenant_not_found''
      | Some t \<Rightarrow> Resolve OK ''tenant_retrieved_successfully'' (portal_view t))"

lemma resolve_uncached:
  assumes "healthy w" and "js_lower (js_trim q) \<noteq> []"
    and "map_of (tenant_cache w) (portal_key (js_lower (js_trim q))) = None"
  shows "wp (resolvePublicTenant (Some q))
    (\<lambda>r w'. r = Inr (portal_answer (js_lower (js_trim q)) (db w)) \<and> db w' = db w) w"
  using assms
  by (auto simp: resolvePublicTenant_def cache_wrap_def cache_get_def portal_answer_def portal_view_def Let_def
      split: option.split)

lemma resolve_cached:
  assumes "js_lower (js_trim q) \<noteq> []"
    and "map_of (tenant_cache w) (portal_key (js_lower (js_trim q))) = Some (t, e)" and "js_now w < e"
  shows "wp (resolvePublicTenant (Some q))
    (\<lambda>r w'. r = Inr (Resolve OK ''tenant_retrieved_successfully'' (portal_view t)) \<and> w' = w) w"
  using assms
  by (auto simp: resolvePublicTenant_def cache_wrap_def cache_get_def portal_view_def Let_def)

section \<open>Dropping the cached records\<close>

definition drop_key :: "jstring \<Rightarrow> (jstring \<times> tenant \<times> int) list \<Rightarrow> (jstring \<times> tenant \<times> int) list" where
  "drop_key s c = (if s = [] then c else cache_invalidate (portal_key (js_lower (js_trim s))) c)"

lemma wp_invalidateTenantCache [simp]:
  "wp (invalidateTenantCache ss) Q w = Q (Inr ()) (w\<lparr>tenant_cache := fold drop_key ss (tenant_cache w)\<rparr>)"
proof -
  have "\<exists>us. for_each (filter (\<lambda>s. s \<noteq> []) ss) (\<lambda>s. tenant_cache_invalidate (portal_key (js_lower (js_trim s)))) w
          = (Inr us, w\<lparr>tenant_cache := fold drop_key ss (tenant_cache w)\<rparr>)" for w
  proof (induction ss arbitrary: w)
    case (Cons s ss)
    from Cons [of "w\<lparr>tenant_cache := drop_key s (tenant_cache w)\<rparr>"] show ?case
      by (auto simp: drop_key_def bnd_def tenant_cache_invalidate_def ret_def)
  qed (simp add: ret_def)
  from this [of w] show ?thesis
    by (auto simp: invalidateTenantCache_def wp_def bnd_def ret_def)
qed

lemma map_of_drop_key:
  "map_of (drop_key s c) k = (if s \<noteq> [] \<and> k = portal_key (js_lower (js_trim s)) then None else map_of c k)"
  by (simp add: drop_key_def cache_invalidate_def map_of_delete)

section \<open>Settings\<close>

text \<open>What a request changes, given the stored row.\<close>

definition effective_subdomain :: "tenant_patch \<Rightarrow> tenant \<Rightarrow> jstring option" where
  "effective_subdomain p t =
     (case new_subdomain p of None \<Rightarrow> None | Some s \<Rightarrow> if s = t_subdomain t then None else Some s)"

lemma find_patched:
  "find (\<lambda>x. t_id x = i) xs = Some t \<Longrightarrow> (\<And>x. t_id (f x) = t_id x) \<Longrightarrow>
   find (\<lambda>x. t_id x = i) (update_where (\<lambda>x. t_id x = i) f xs) = Some (f t)"
  by (induction xs) (auto simp: update_where_Cons split: if_splits)

lemma patch_keeps_id [simp]: "t_id (patch_settings sub p t) = t_id t"
  by (simp add: patch_settings_def)

lemma check_subdomain_spec:
  assumes "healthy w" and "tenant_by_id (Some i) (db w) = Some t"
  shows "wp (check_subdomain i p) (\<lambda>r w'. healthy w' \<and> db w' = db w \<and> tenant_cache w' = tenant_cache w
     \<and> (case r of Inr (Inr (touched, sub)) \<Rightarrow> sub = effective_subdomain p t
           \<and> touched = (case new_subdomain p of None \<Rightarrow> [] | Some s \<Rightarrow> [t_subdomain t, s]) | _ \<Rightarrow> True)) w"
  using assms by (auto simp: check_subdomain_def effective_subdomain_def split: option.split)

lemma check_signin_spec:
  assumes "healthy w"
  shows "wp (check_signin i p) (\<lambda>r w'. healthy w' \<and> db w' = db w \<and> tenant_cache w' = tenant_cache w) w"
  using assms by (simp add: check_signin_def planAllows_def getTenantPlan_def)

text \<open>What a stored change leaves: the new row, and no cached record of either subdomain.\<close>

definition settings_stored :: "nat \<Rightarrow> tenant_patch \<Rightarrow> tenant \<Rightarrow> world \<Rightarrow> bool" where
  "settings_stored i p t w \<longleftrightarrow>
     tenant_by_id (Some i) (db w) = Some (patch_settings (effective_subdomain p t) p t)
     \<and> (\<forall>s. s = t_subdomain t \<or> new_subdomain p = Some s \<longrightarrow> s \<noteq> [] \<longrightarrow>
          map_of (tenant_cache w) (portal_key (js_lower (js_trim s))) = None)"

lemma store_settings_spec:
  assumes "healthy w" and "tenant_by_id (Some i) (db w) = Some t"
    and touched: "touched = (case new_subdomain p of None \<Rightarrow> [] | Some s \<Rightarrow> [t_subdomain t, s])"
  shows "wp (store_settings i (effective_subdomain p t) touched p)
     (\<lambda>r w'. healthy w' \<and> ((\<exists>c k. r = Inr (Resolve c k ())) \<longrightarrow> settings_stored i p t w')) w"
proof -
  let ?sub = "effective_subdomain p t"
  have patched: "find (\<lambda>x. t_id x = i) (update_where (\<lambda>x. t_id x = i) (patch_settings ?sub p) (tenants (db w)))
      = Some (patch_settings ?sub p t)"
    using assms(2) by (intro find_patched) (simp_all add: tenant_by_id_def)
  have same_key: "new_subdomain p = None \<Longrightarrow> t_subdomain (patch_settings ?sub p t) = t_subdomain t"
    by (simp add: patch_settings_def effective_subdomain_def)
  have written: "write_settings i ?sub p (db w) = Inr (u, d) \<Longrightarrow>
      d = (db w)\<lparr>tenants := update_where (\<lambda>x. t_id x = i) (patch_settings ?sub p) (tenants (db w))\<rparr>" for u d
    by (auto simp: write_settings_def Let_def split: if_splits option.splits)
  show ?thesis
    using assms(1)
    by (auto simp: store_settings_def settings_failed_def keys_to_drop_def touched settings_stored_def
        tenant_by_id_def patched same_key map_of_drop_key split: sum.split option.split exn.split dest!: written)
qed

lemma updateTenant_spec:
  assumes "healthy w" and "tenant_by_id (Some i) (db w) = Some t"
    and "\<not> nothing_to_write (effective_subdomain p t) p"
  shows "wp (updateTenant i p)
     (\<lambda>r w'. healthy w' \<and> ((\<exists>c k. r = Inr (Resolve c k ())) \<longrightarrow> settings_stored i p t w')) w"
  unfolding updateTenant_def
  by (rule wp_seq [OF check_subdomain_spec [OF assms(1,2), of p]])
     (auto split: sum.split prod.split simp del: wp_bnd
       intro!: wp_seq [OF check_signin_spec] store_settings_spec simp: assms)


text \<open>
  A workspace that an administrator deactivates still resolves on the portal until its cached
  record expires, while every other portal route already refuses it.
\<close>

theorem deactivated_board_still_resolves:
  assumes "healthy w" and row: "x \<in> set (tenants (db w))" "tenant_fits x"
    and one: "filter (\<lambda>y. sql_eq (t_subdomain y) (js_lower (js_trim q)) \<or> t_id y = t_id x) (tenants (db w)) = [x]"
    and q: "js_lower (js_trim q) \<noteq> []"
    and "map_of (tenant_cache w) (portal_key (js_lower (js_trim q))) = Some (x, e)" and "js_now w < e"
  shows "wp (updateWorkspace (t_id x) \<lparr>wp_name = None, wp_active = Some False\<rparr>) (\<lambda>r w1.
     r = Inr (Resolve OK ''workspace_updated'' ())
     \<and> wp (resolvePublicTenant (Some q))
         (\<lambda>a _. a = Inr (Resolve OK ''tenant_retrieved_successfully'' (portal_view x))) w1
     \<and> wp (attachPublicTenant q) (\<lambda>a _. a = Inr (Inl (NOT_FOUND, ''tenant_not_found''))) w1) w"
proof -
  let ?d = "(db w)\<lparr>tenants := update_where (\<lambda>y. t_id y = t_id x) (\<lambda>y. y\<lparr>t_active := False\<rparr>) (tenants (db w))\<rparr>"
  have only: "y = x" if "y \<in> set (tenants (db w))" "sql_eq (t_subdomain y) (js_lower (js_trim q)) \<or> t_id y = t_id x" for y
  proof -
    have "y \<in> set (filter (\<lambda>y. sql_eq (t_subdomain y) (js_lower (js_trim q)) \<or> t_id y = t_id x) (tenants (db w)))"
      using that by simp
    then show ?thesis unfolding one by simp
  qed
  have gone: "board_named (js_lower (js_trim q)) ?d = None"
    by (auto simp: board_named_def find_None_iff update_where_def dest: only)
  have fits: "list_all (\<lambda>t. tenant_fits (patch_tenant \<lparr>wp_name = None, wp_active = Some False\<rparr> t))
      (filter (\<lambda>t. t_id t = t_id x) (tenants (db w)))"
    using row(2) by (auto simp: list_all_iff patch_tenant_def tenant_fits_def dest: only)
  have there: "filter (\<lambda>t. t_id t = t_id x) (tenants (db w)) \<noteq> []"
    using row(1) by (auto simp: filter_empty_conv)
  have patch: "patch_tenant \<lparr>wp_name = None, wp_active = Some False\<rparr> = (\<lambda>y. y\<lparr>t_active := False\<rparr>)"
    by (simp add: fun_eq_iff patch_tenant_def)
  have shown: "wp (resolvePublicTenant (Some q))
      (\<lambda>a _. a = Inr (Resolve OK ''tenant_retrieved_successfully'' (portal_view x))) w1"
    if "tenant_cache w1 = tenant_cache w" "js_now w1 = js_now w" for w1
    by (rule wp_mono [OF resolve_cached [OF q, of w1 x e]]) (use that assms(6,7) in auto)
  show ?thesis
    using fits there assms(1) gone
    by (simp add: updateWorkspace_def update_tenant_row_def Let_def patch attachPublicTenant_def shown)
qed

section \<open>Creation\<close>

text \<open>
  A creation request needs no account: it stores a workspace on whatever plan it names, which
  nobody owns, and the portal grants the features of that plan.
\<close>

theorem created_on_any_plan:
  assumes "healthy w" and "requested_tenant td = Some t" and "tenant_fits t" and "length (t_plan t) \<le> 50"
    and free: "\<forall>x \<in> set (tenants (db w)). \<not> sql_eq (t_slug x) (t_slug t) \<and> \<not> sql_eq (t_subdomain x) (t_subdomain t)
        \<and> (t_custom_domain t = None \<or> t_custom_domain x = None) \<and> t_id x \<noteq> next_id ''tenants'' (db w)"
    and "js_lower (js_trim (t_subdomain t)) = js_lower (t_subdomain t)" and "js_lower (t_subdomain t) \<noteq> []"
    and "map_of (tenant_cache w) (portal_key (js_lower (t_subdomain t))) = None"
  shows "wp (bnd (createTenant td) (\<lambda>_. resolvePublicTenant (Some (t_subdomain t))))
    (\<lambda>r w'. users (db w') = users (db w)
       \<and> r = Inr (Resolve OK ''tenant_retrieved_successfully'' (portal_view (t\<lparr>t_id := next_id ''tenants'' (db w)\<rparr>)))) w"
proof -
  let ?t = "t\<lparr>t_id := next_id ''tenants'' (db w)\<rparr>"
  let ?d = "(bump_id ''tenants'' (db w))\<lparr>tenants := tenants (db w) @ [?t]\<rparr>"
  have stored: "insert_tenant t (db w) = Inr (next_id ''tenants'' (db w), ?d)"
    using assms(3) free by (auto simp: insert_tenant_def list_ex_iff Let_def sql_eq_null_def split: option.split)
  have active: "t_active t" using assms(2) by (auto simp: requested_tenant_def split: option.splits)
  have only: "\<not> sql_eq (t_subdomain x) (js_lower (t_subdomain t))" if "x \<in> set (tenants (db w))" for x
    using free that by (auto simp: sql_eq_def)
  then have "find (\<lambda>x. t_active x \<and> sql_eq (t_subdomain x) (js_lower (t_subdomain t))) (tenants (db w)) = None"
    by (auto simp: find_None_iff)
  then have named: "board_named (js_lower (t_subdomain t)) ?d = Some ?t"
    using active by (simp add: board_named_def find_append sql_eq_def)
  have "wp (resolvePublicTenant (Some (t_subdomain t)))
     (\<lambda>r w'. r = Inr (Resolve OK ''tenant_retrieved_successfully'' (portal_view ?t)) \<and> db w' = ?d)
     (w\<lparr>qn := Suc (qn w), db := ?d\<rparr>)"
    by (rule wp_mono [OF resolve_uncached])
       (use assms named in \<open>auto simp: portal_answer_def\<close>)
  moreover have "users ?d = users (db w)" by (simp add: bump_id_def)
  ultimately show ?thesis
    using assms(1,2,4) stored
    by (auto simp: createTenant_def elim!: wp_mono)
qed

section \<open>Instances\<close>

definition renamed :: tenant_patch where
  "renamed = \<lparr>tp_name = Some (js ''Acme Inc''), tp_logo = None, tp_color = None, tp_subdomain = None,
     tp_active = None, tp_require_auth = None\<rparr>"

definition cached_world :: world where
  "cached_world = (demo_world demo_db)\<lparr>tenant_cache :=
     [(portal_key (js ''acme''), demo_tenant 1 ''acme'' ''business'', 1000009000)]\<rparr>"

lemma cached_world_simps [simp]:
  "healthy cached_world" "db cached_world = demo_db" "js_now cached_world = 1000000000" "qn cached_world = 0"
  "tenant_cache cached_world = [(portal_key (js ''acme''), demo_tenant 1 ''acme'' ''business'', 1000009000)]"
  by (simp_all add: cached_world_def) (simp add: demo_db_def empty_db_def)

lemma acme_row: "tenant_by_id (Some 1) demo_db = Some (demo_tenant 1 ''acme'' ''business'')"
  by (simp add: tenant_by_id_def demo_db_def demo_tenant_def)

lemma acme_renamed:
  "effective_subdomain renamed t = None" "new_subdomain renamed = None" "tp_require_auth renamed = None"
  "\<not> nothing_to_write None renamed" "patch_settings None renamed t = t\<lparr>t_name := js ''Acme Inc''\<rparr>"
  by (simp_all add: effective_subdomain_def new_subdomain_def patch_settings_def nothing_to_write_def renamed_def del: js_Cons)

lemma acme_named:
  "board_named (js ''acme'') (demo_db\<lparr>tenants := update_where (\<lambda>x. t_id x = 1) (\<lambda>t. t\<lparr>t_name := n\<rparr>) (tenants demo_db)\<rparr>)
     = Some ((demo_tenant 1 ''acme'' ''business'')\<lparr>t_name := n\<rparr>)"
  by (simp add: board_named_def demo_db_def demo_tenant_def update_where_Cons sql_eq_refl del: js_Cons)

lemma acme_query: "js_lower (js_trim (js ''Acme'')) = js ''acme''" "js_lower (js_trim (js ''acme'')) = js ''acme''"
  by (simp_all add: js_lower_def js_trim_def js_space_def lower_unit_def)


lemma deactivated_board_still_resolves_witness:
  "wp (updateWorkspace 1 \<lparr>wp_name = None, wp_active = Some False\<rparr>) (\<lambda>r w1.
     r = Inr (Resolve OK ''workspace_updated'' ())
     \<and> wp (resolvePublicTenant (Some (js ''Acme'')))
         (\<lambda>a _. a = Inr (Resolve OK ''tenant_retrieved_successfully'' (portal_view (demo_tenant 1 ''acme'' ''business'')))) w1
     \<and> wp (attachPublicTenant (js ''Acme'')) (\<lambda>a _. a = Inr (Inl (NOT_FOUND, ''tenant_not_found''))) w1) cached_world"
proof -
  let ?t = "demo_tenant 1 ''acme'' ''business''"
  have "?t \<in> set (tenants demo_db)" and "tenant_fits ?t" and i: "t_id ?t = 1"
    and "filter (\<lambda>y. sql_eq (t_subdomain y) (js ''acme'') \<or> t_id y = t_id ?t) (tenants demo_db) = [?t]"
    by (simp_all add: tenant_fits_def fits_def demo_tenant_def demo_db_def sql_eq_def js_lower_def lower_unit_def)
  then show ?thesis
    using deactivated_board_still_resolves [of cached_world ?t "js ''Acme''" 1000009000]
    by (simp add: acme_query del: js_Cons One_nat_def)
qed

definition gift :: tenant_data where
  "gift = \<lparr>td_name = Some (js ''Gift''), td_slug = Some (js ''gift''), td_subdomain = Some (js ''gift''),
     td_custom_domain = None, td_plan = Some ''business'', td_logo = None, td_color = None\<rparr>"

definition gift_row :: tenant where
  "gift_row = (demo_tenant 0 ''gift'' ''business'')\<lparr>t_name := js ''Gift''\<rparr>"

lemma created_on_any_plan_witness:
  "wp (bnd (createTenant gift) (\<lambda>_. resolvePublicTenant (Some (t_subdomain gift_row))))
    (\<lambda>r w'. users (db w') = users demo_db
       \<and> r = Inr (Resolve OK ''tenant_retrieved_successfully'' (portal_view (gift_row\<lparr>t_id := 10\<rparr>)))) (demo_world demo_db)
   \<and> pu_owner_privacy (portal_view (gift_row\<lparr>t_id := 10\<rparr>))"
proof
  have ten: "next_id ''tenants'' demo_db = 10" by (simp add: next_id_def demo_db_def)
  have row: "requested_tenant gift = Some gift_row"
    by (simp add: requested_tenant_def gift_def gift_row_def demo_tenant_def plan_or_free_def or_null_def)
  have sub: "js_trim (js ''gift'') = js ''gift''" "js_lower (js ''gift'') = js ''gift''" "t_subdomain gift_row = js ''gift''"
    by (simp_all add: js_lower_def js_trim_def js_space_def lower_unit_def gift_row_def demo_tenant_def)
  have fits: "tenant_fits gift_row" "length (t_plan gift_row) \<le> 50"
    by (simp_all add: tenant_fits_def fits_def gift_row_def demo_tenant_def)
  have free: "\<forall>x \<in> set (tenants demo_db). \<not> sql_eq (t_slug x) (t_slug gift_row) \<and> \<not> sql_eq (t_subdomain x) (t_subdomain gift_row)
        \<and> (t_custom_domain gift_row = None \<or> t_custom_domain x = None) \<and> t_id x \<noteq> next_id ''tenants'' demo_db"
    unfolding ten by (simp add: demo_db_def gift_row_def demo_tenant_def sql_eq_def js_lower_def lower_unit_def)
  show "wp (bnd (createTenant gift) (\<lambda>_. resolvePublicTenant (Some (t_subdomain gift_row))))
    (\<lambda>r w'. users (db w') = users demo_db
       \<and> r = Inr (Resolve OK ''tenant_retrieved_successfully'' (portal_view (gift_row\<lparr>t_id := 10\<rparr>)))) (demo_world demo_db)"
    using created_on_any_plan [of "demo_world demo_db" gift gift_row] row fits free
    by (simp add: sub ten del: js_Cons)
  show "pu_owner_privacy (portal_view (gift_row\<lparr>t_id := 10\<rparr>))"
    by (simp add: portal_view_def gift_row_def demo_tenant_def Let_def business_limits_def)
qed

end
