(* ===== verification/Workspace_Tools.thy ===== *)
theory Workspace_Tools
  imports Board_Reads
begin

text \<open>
  The smaller tables of a workspace: the changelog's management (\<open>src/main/changelog/\<close>), the
  inbox of a member (\<open>src/main/notification/\<close>), the API keys (\<open>src/main/apikey/\<close>), the
  integrations (\<open>src/main/integration/\<close>) and the audit trail (\<open>src/main/auditlog/\<close>).  JSON
  columns hold the text \<open>JSON.stringify\<close> makes of the request's value, \<open>None\<close> where the request
  has none.
\<close>

section \<open>Listings\<close>

text \<open>\<open>(paginationData?.filterBy || '').trim()\<close>, and \<open>c LIKE '%text%'\<close> for one of the columns.\<close>

definition page_search :: "board_page \<Rightarrow> jstring" where
  "page_search pg = js_trim (or_empty (pg_filter pg))"

definition like_any :: "jstring \<Rightarrow> jstring option list \<Rightarrow> bool" where
  "like_any search cols \<longleftrightarrow>
     search = [] \<or> list_ex (\<lambda>c. case c of None \<Rightarrow> False | Some x \<Rightarrow> sql_like (37 # search @ [37]) x) cols"

text \<open>\<open>ORDER BY created_at ASC\<close> or \<open>DESC\<close>.\<close>

definition by_created :: "board_page \<Rightarrow> ('a \<Rightarrow> int) \<Rightarrow> 'a list \<Rightarrow> 'a list" where
  "by_created pg created rows =
     sort_key (\<lambda>x. if pg_order pg = Some ''asc'' then created x else - created x) rows"

text \<open>The page, then the number of rows, as two round trips.\<close>

definition listing_page ::
  "string \<Rightarrow> string \<Rightarrow> int \<Rightarrow> board_page \<Rightarrow> (database \<Rightarrow> 'a list) \<Rightarrow> (database \<Rightarrow> nat) \<Rightarrow> ('a list \<times> nat) outcome io" where
  "listing_page done_key failed dflt pg rows_of total_of =
     catch
       (bnd (select_page (int_or dflt (pg_items pg)) (int_or 0 (pg_offset pg)) rows_of) (\<lambda>rows.
        bnd (select total_of) (\<lambda>n. ret (Resolve OK done_key (rows, n)))))
       (\<lambda>_. ret (Reject INTERNAL_SERVER_ERROR failed))"

section \<open>The changelog\<close>

definition my_entry :: "auth \<Rightarrow> nat \<Rightarrow> changelog_entry \<Rightarrow> bool" where
  "my_entry au i e \<longleftrightarrow> cl_id e = i \<and> Some (cl_tenant e) = au_tenant au"

definition entry_fits :: "jstring \<Rightarrow> jstring option \<Rightarrow> bool" where
  "entry_fits title summary \<longleftrightarrow>
     length title \<le> 200 \<and> (case summary of None \<Rightarrow> True | Some s \<Rightarrow> text_fits s)"

definition insert_entry ::
  "auth \<Rightarrow> jstring option \<Rightarrow> jstring option \<Rightarrow> jstring option \<Rightarrow> database \<Rightarrow> exn + (nat \<times> database)" where
  "insert_entry au title summary content d =
     (case (au_tenant au, title, content) of
        (Some t, Some ti, Some co) \<Rightarrow>
          if \<not> has_tenant d t \<or> \<not> has_user d (au_id au) \<or> \<not> entry_fits ti summary then Inl DbError
          else let i = next_id ''changelog_entries'' d
               in Inr (i, (bump_id ''changelog_entries'' d)\<lparr>changelog := changelog d @
                    [\<lparr>cl_id = i, cl_tenant = t, cl_title = ti, cl_summary = summary, cl_content = co,
                      cl_published_at = None, cl_published = False, cl_created_by = au_id au,
                      cl_created = clock d\<rparr>]\<rparr>)
      | _ \<Rightarrow> Inl DbError)"

definition createChangelog :: "jstring option \<Rightarrow> jstring option \<Rightarrow> jstring option \<Rightarrow> auth \<Rightarrow> nat outcome io" where
  "createChangelog title summary content au =
     catch (bnd (sql (insert_entry au title (or_null (or_empty summary)) content)) (\<lambda>i.
              ret (Resolve CREATED ''changelog_created_successfully'' i)))
           (\<lambda>_. ret (Reject INTERNAL_SERVER_ERROR ''failed_to_create_changelog''))"

text \<open>All three columns are written, a missing title or content is NULL and refused.\<close>

definition rewrite_entry ::
  "auth \<Rightarrow> nat \<Rightarrow> jstring option \<Rightarrow> jstring option \<Rightarrow> jstring option \<Rightarrow> database \<Rightarrow> exn + (nat \<times> database)" where
  "rewrite_entry au i title summary content d =
     (let n = length (filter (my_entry au i) (changelog d))
      in if n = 0 then Inr (0, d)
         else case (title, content) of
           (Some ti, Some co) \<Rightarrow>
             if \<not> entry_fits ti summary then Inl DbError
             else Inr (n, d\<lparr>changelog := update_where (my_entry au i)
                    (\<lambda>e. e\<lparr>cl_title := ti, cl_summary := summary, cl_content := co\<rparr>) (changelog d)\<rparr>)
         | _ \<Rightarrow> Inl DbError)"

definition updateChangelog ::
  "nat \<Rightarrow> jstring option \<Rightarrow> jstring option \<Rightarrow> jstring option \<Rightarrow> auth \<Rightarrow> unit outcome io" where
  "updateChangelog i title summary content au =
     answer_rows NOT_FOUND ''changelog_not_found'' ''changelog_updated_successfully'' ''failed_to_update_changelog''
       (sql (rewrite_entry au i title summary content))"

definition deleteChangelog :: "nat \<Rightarrow> auth \<Rightarrow> unit outcome io" where
  "deleteChangelog i au =
     answer_rows NOT_FOUND ''changelog_not_found'' ''changelog_deleted_successfully'' ''failed_to_delete_changelog''
       (execute (\<lambda>d. (length (filter (my_entry au i) (changelog d)),
                      d\<lparr>changelog := filter (\<lambda>e. \<not> my_entry au i e) (changelog d)\<rparr>)))"

definition publishChangelog :: "nat \<Rightarrow> auth \<Rightarrow> unit outcome io" where
  "publishChangelog i au =
     answer_rows NOT_FOUND ''changelog_not_found'' ''changelog_published_successfully'' ''failed_to_publish_changelog''
       (execute (\<lambda>d. (length (filter (my_entry au i) (changelog d)),
                      d\<lparr>changelog := update_where (my_entry au i)
                          (\<lambda>e. e\<lparr>cl_published := True, cl_published_at := Some (clock d)\<rparr>) (changelog d)\<rparr>)))"

definition entry_row :: "database \<Rightarrow> changelog_entry \<Rightarrow> changelog_entry \<times> jstring option" where
  "entry_row d e = (e, map_option u_name (user_by_id d (Some (cl_created_by e))))"

definition getChangelogById :: "nat \<Rightarrow> auth \<Rightarrow> (changelog_entry \<times> jstring option) outcome io" where
  "getChangelogById i au =
     catch
       (bnd (select (\<lambda>d. map_option (entry_row d) (find (my_entry au i) (changelog d)))) (\<lambda>row.
          case row of
            None \<Rightarrow> ret (Reject NOT_FOUND ''changelog_not_found'')
          | Some e \<Rightarrow> ret (Resolve OK ''changelog_retrieved_successfully'' e)))
       (\<lambda>_. ret (Reject INTERNAL_SERVER_ERROR ''failed_to_get_changelog''))"

definition my_changelog :: "auth \<Rightarrow> database \<Rightarrow> changelog_entry list" where
  "my_changelog au d = filter (\<lambda>e. Some (cl_tenant e) = au_tenant au) (changelog d)"

text \<open>The total counts every entry, also those the search leaves out.\<close>

definition getChangelogList :: "board_page \<Rightarrow> auth \<Rightarrow> ((changelog_entry \<times> jstring option) list \<times> nat) outcome io" where
  "getChangelogList pg au =
     listing_page ''changelogs_retrieved_successfully'' ''failed_to_get_changelogs'' 10 pg
       (\<lambda>d. map (entry_row d) (by_created pg cl_created
              (filter (\<lambda>e. like_any (page_search pg) [Some (cl_title e), cl_summary e, Some (cl_content e)])
                 (my_changelog au d))))
       (\<lambda>d. length (my_changelog au d))"

section \<open>The inbox\<close>

definition my_inbox :: "auth \<Rightarrow> notification \<Rightarrow> bool" where
  "my_inbox au n \<longleftrightarrow> Some (n_tenant n) = au_tenant au \<and> n_user n = au_id au"

definition my_note :: "auth \<Rightarrow> nat \<Rightarrow> notification \<Rightarrow> bool" where
  "my_note au i n \<longleftrightarrow> n_id n = i \<and> my_inbox au n"

definition read_notes :: "(notification \<Rightarrow> bool) \<Rightarrow> database \<Rightarrow> nat \<times> database" where
  "read_notes P d =
     (length (filter P (notifications d)),
      d\<lparr>notifications := update_where P (\<lambda>n. n\<lparr>n_read := True, n_read_at := Some (clock d)\<rparr>) (notifications d)\<rparr>)"

definition delete_notes :: "(notification \<Rightarrow> bool) \<Rightarrow> database \<Rightarrow> nat \<times> database" where
  "delete_notes P d =
     (length (filter P (notifications d)), d\<lparr>notifications := filter (\<lambda>n. \<not> P n) (notifications d)\<rparr>)"

definition getNotifications :: "board_page \<Rightarrow> auth \<Rightarrow> (notification list \<times> nat) outcome io" where
  "getNotifications pg au =
     listing_page ''notifications_retrieved_successfully'' ''failed_to_get_notifications'' 20 pg
       (\<lambda>d. by_created pg n_created
              (filter (\<lambda>n. my_inbox au n
                         \<and> like_any (page_search pg) [Some (n_title n), n_message n, Some (js (n_type n))])
                 (notifications d)))
       (\<lambda>d. length (filter (my_inbox au) (notifications d)))"

definition markAsRead :: "nat \<Rightarrow> auth \<Rightarrow> unit outcome io" where
  "markAsRead i au =
     answer_rows NOT_FOUND ''notification_not_found'' ''notification_marked_as_read'' ''failed_to_mark_notification_as_read''
       (execute (read_notes (my_note au i)))"

definition markAllAsRead :: "auth \<Rightarrow> unit outcome io" where
  "markAllAsRead au =
     catch (bnd (execute (read_notes (\<lambda>n. my_inbox au n \<and> \<not> n_read n))) (\<lambda>_.
              ret (Resolve OK ''all_notifications_marked_as_read'' ())))
           (\<lambda>_. ret (Reject INTERNAL_SERVER_ERROR ''failed_to_mark_all_notifications_as_read''))"

definition deleteNotification :: "nat \<Rightarrow> auth \<Rightarrow> unit outcome io" where
  "deleteNotification i au =
     answer_rows NOT_FOUND ''notification_not_found'' ''notification_deleted_successfully'' ''failed_to_delete_notification''
       (execute (delete_notes (my_note au i)))"

definition clearAllNotifications :: "auth \<Rightarrow> nat outcome io" where
  "clearAllNotifications au =
     catch (bnd (execute (delete_notes (my_inbox au))) (\<lambda>n. ret (Resolve OK ''all_notifications_cleared'' n)))
           (\<lambda>_. ret (Reject INTERNAL_SERVER_ERROR ''failed_to_clear_notifications''))"

definition unread_notes :: "auth \<Rightarrow> database \<Rightarrow> nat" where
  "unread_notes au d = length (filter (\<lambda>n. my_inbox au n \<and> \<not> n_read n) (notifications d))"

definition getUnreadCount :: "auth \<Rightarrow> nat outcome io" where
  "getUnreadCount au =
     catch (bnd (select (unread_notes au)) (\<lambda>n. ret (Resolve OK ''unread_count_retrieved_successfully'' n)))
           (\<lambda>_. ret (Reject INTERNAL_SERVER_ERROR ''failed_to_get_unread_count''))"

section \<open>API keys\<close>

definition my_key :: "auth \<Rightarrow> nat \<Rightarrow> api_key \<Rightarrow> bool" where
  "my_key au i k \<longleftrightarrow> k_id k = i \<and> Some (k_tenant k) = au_tenant au"

definition insert_key ::
  "auth \<Rightarrow> jstring option \<Rightarrow> jstring \<Rightarrow> jstring \<Rightarrow> jstring \<Rightarrow> jstring option \<Rightarrow> database \<Rightarrow> exn + (nat \<times> database)" where
  "insert_key au name front hash scopes expires d =
     (case (au_tenant au, name) of
        (Some t, Some nm) \<Rightarrow>
          if \<not> has_tenant d t \<or> \<not> has_user d (au_id au) \<or> length nm > 100 \<or> length front > 20 \<or> length hash > 255
          then Inl DbError
          else if list_ex (\<lambda>k. sql_eq (k_hash k) hash) (api_keys d) then Inl (DupEntry ''uq_api_keys_hash'')
          else let i = next_id ''api_keys'' d
               in Inr (i, (bump_id ''api_keys'' d)\<lparr>api_keys := api_keys d @
                    [\<lparr>k_id = i, k_tenant = t, k_created_by = au_id au, k_name = nm, k_prefix = front,
                      k_hash = hash, k_scopes = Some scopes, k_expires = expires, k_revoked = False,
                      k_created = clock d\<rparr>]\<rparr>)
      | _ \<Rightarrow> Inl DbError)"

text \<open>The answer is the id and the key itself, which is not stored.\<close>

definition createApiKey ::
  "jstring option \<Rightarrow> jstring option \<Rightarrow> jstring option \<Rightarrow> auth \<Rightarrow> (nat \<times> jstring) outcome io" where
  "createApiKey keyName scopes expiresAt au =
     bnd draw_hex (\<lambda>hex.
     let rawKey = js ''fb_'' @ hex
     in bnd (hash_password rawKey) (\<lambda>keyHash.
        catch
          (bnd (sql (insert_key au keyName (take 10 rawKey) keyHash
                       (case scopes of None \<Rightarrow> js ''[]'' | Some s \<Rightarrow> s) (or_null (or_empty expiresAt)))) (\<lambda>i.
             ret (Resolve CREATED ''api_key_created_successfully'' (i, rawKey))))
          (\<lambda>_. ret (Reject INTERNAL_SERVER_ERROR ''failed_to_create_api_key''))))"

text \<open>The listed columns: the hash is not among them.\<close>

record key_row =
  kr_id :: nat
  kr_name :: jstring
  kr_prefix :: jstring
  kr_scopes :: "jstring option"
  kr_expires :: "jstring option"
  kr_revoked :: bool
  kr_created :: int

definition key_row_of :: "api_key \<Rightarrow> key_row" where
  "key_row_of k =
     \<lparr>kr_id = k_id k, kr_name = k_name k, kr_prefix = k_prefix k, kr_scopes = k_scopes k,
      kr_expires = k_expires k, kr_revoked = k_revoked k, kr_created = k_created k\<rparr>"

definition getApiKeyList :: "auth \<Rightarrow> key_row list outcome io" where
  "getApiKeyList au =
     catch (bnd (select (\<lambda>d. map key_row_of (sort_key (\<lambda>k. - k_created k)
                (filter (\<lambda>k. Some (k_tenant k) = au_tenant au) (api_keys d))))) (\<lambda>rows.
              ret (Resolve OK ''api_keys_retrieved_successfully'' rows)))
           (\<lambda>_. ret (Reject INTERNAL_SERVER_ERROR ''failed_to_get_api_keys''))"

definition revokeApiKey :: "nat \<Rightarrow> auth \<Rightarrow> unit outcome io" where
  "revokeApiKey i au =
     answer_rows NOT_FOUND ''api_key_not_found'' ''api_key_revoked_successfully'' ''failed_to_revoke_api_key''
       (execute (\<lambda>d. (length (filter (my_key au i) (api_keys d)),
                      d\<lparr>api_keys := update_where (my_key au i) (\<lambda>k. k\<lparr>k_revoked := True\<rparr>) (api_keys d)\<rparr>)))"

definition rename_key ::
  "auth \<Rightarrow> nat \<Rightarrow> jstring option \<Rightarrow> jstring option \<Rightarrow> database \<Rightarrow> exn + (nat \<times> database)" where
  "rename_key au i name scopes d =
     (let n = length (filter (my_key au i) (api_keys d))
      in if n = 0 then Inr (0, d)
         else case name of
           Some nm \<Rightarrow>
             if length nm > 100 then Inl DbError
             else Inr (n, d\<lparr>api_keys := update_where (my_key au i)
                    (\<lambda>k. k\<lparr>k_name := nm, k_scopes := scopes\<rparr>) (api_keys d)\<rparr>)
         | None \<Rightarrow> Inl DbError)"

definition updateApiKey :: "nat \<Rightarrow> jstring option \<Rightarrow> jstring option \<Rightarrow> auth \<Rightarrow> unit outcome io" where
  "updateApiKey i keyName scopes au =
     answer_rows NOT_FOUND ''api_key_not_found'' ''api_key_updated_successfully'' ''failed_to_update_api_key''
       (sql (rename_key au i keyName scopes))"

section \<open>Integrations\<close>

definition my_integration :: "auth \<Rightarrow> nat \<Rightarrow> integration \<Rightarrow> bool" where
  "my_integration au i x \<longleftrightarrow> ig_id x = i \<and> Some (ig_tenant x) = au_tenant au"

definition INTEGRATION_TYPES :: "string list" where
  "INTEGRATION_TYPES = [''slack'', ''discord'', ''webhook'', ''zapier'']"

definition insert_integration ::
  "auth \<Rightarrow> string option \<Rightarrow> jstring option \<Rightarrow> database \<Rightarrow> exn + (nat \<times> database)" where
  "insert_integration au type config d =
     (case (au_tenant au, type, config) of
        (Some t, Some ty, Some cfg) \<Rightarrow>
          (case find (\<lambda>x. enum_is x ty) INTEGRATION_TYPES of
             None \<Rightarrow> Inl DbError
           | Some member \<Rightarrow>
               if \<not> has_tenant d t then Inl DbError
               else let i = next_id ''integrations'' d
                    in Inr (i, (bump_id ''integrations'' d)\<lparr>integrations := integrations d @
                         [\<lparr>ig_id = i, ig_tenant = t, ig_type = member, ig_config = cfg, ig_active = True,
                           ig_created = clock d\<rparr>]\<rparr>))
      | _ \<Rightarrow> Inl DbError)"

text \<open>The plan is read before the \<open>try\<close>: a failing round trip there is an exception.\<close>

definition createIntegration :: "string option \<Rightarrow> jstring option \<Rightarrow> auth \<Rightarrow> nat outcome io" where
  "createIntegration integrationType config au =
     bnd (planAllows (au_tenant au) allowIntegrations) (\<lambda>allowed.
       if \<not> allowed then ret (Reject PAYMENT_REQUIRED ''plan_limit_integrations'')
       else catch
         (bnd (sql (insert_integration au integrationType config)) (\<lambda>i.
            ret (Resolve CREATED ''integration_created_successfully'' i)))
         (\<lambda>_. ret (Reject INTERNAL_SERVER_ERROR ''failed_to_create_integration'')))"

definition deleteIntegration :: "nat \<Rightarrow> auth \<Rightarrow> unit outcome io" where
  "deleteIntegration i au =
     answer_rows NOT_FOUND ''integration_not_found'' ''integration_deleted_successfully'' ''failed_to_delete_integration''
       (execute (\<lambda>d. (length (filter (my_integration au i) (integrations d)),
                      d\<lparr>integrations := filter (\<lambda>x. \<not> my_integration au i x) (integrations d)\<rparr>)))"

definition getIntegrationList :: "auth \<Rightarrow> integration list outcome io" where
  "getIntegrationList au =
     catch (bnd (select (\<lambda>d. sort_key (\<lambda>x. - ig_created x)
                (filter (\<lambda>x. Some (ig_tenant x) = au_tenant au) (integrations d)))) (\<lambda>rows.
              ret (Resolve OK ''integrations_retrieved_successfully'' rows)))
           (\<lambda>_. ret (Reject INTERNAL_SERVER_ERROR ''failed_to_get_integrations''))"

definition toggleIntegration :: "nat \<Rightarrow> auth \<Rightarrow> unit outcome io" where
  "toggleIntegration i au =
     answer_rows NOT_FOUND ''integration_not_found'' ''integration_toggled_successfully'' ''failed_to_toggle_integration''
       (execute (\<lambda>d. (length (filter (my_integration au i) (integrations d)),
                      d\<lparr>integrations := update_where (my_integration au i)
                          (\<lambda>x. x\<lparr>ig_active := \<not> ig_active x\<rparr>) (integrations d)\<rparr>)))"

definition reconfigure :: "auth \<Rightarrow> nat \<Rightarrow> jstring option \<Rightarrow> database \<Rightarrow> exn + (nat \<times> database)" where
  "reconfigure au i config d =
     (let n = length (filter (my_integration au i) (integrations d))
      in if n = 0 then Inr (0, d)
         else case config of
           None \<Rightarrow> Inl DbError
         | Some cfg \<Rightarrow> Inr (n, d\<lparr>integrations := update_where (my_integration au i)
                               (\<lambda>x. x\<lparr>ig_config := cfg\<rparr>) (integrations d)\<rparr>))"

definition updateIntegration :: "nat \<Rightarrow> jstring option \<Rightarrow> auth \<Rightarrow> unit outcome io" where
  "updateIntegration i config au =
     answer_rows NOT_FOUND ''integration_not_found'' ''integration_updated_successfully'' ''failed_to_update_integration''
       (sql (reconfigure au i config))"

section \<open>The audit trail\<close>

text \<open>What the request says happened; the actor alone is the signed-in user.\<close>

record audit_data =
  ad_action :: "jstring option"
  ad_entity_type :: "jstring option"
  ad_entity :: "nat option"
  ad_metadata :: "jstring option"
  ad_ip :: "jstring option"
  ad_agent :: "jstring option"

definition insert_audit :: "auth \<Rightarrow> audit_data \<Rightarrow> database \<Rightarrow> exn + (unit \<times> database)" where
  "insert_audit au a d =
     (case (au_tenant au, ad_action a, ad_entity_type a) of
        (Some t, Some act, Some ty) \<Rightarrow>
          if \<not> has_tenant d t \<or> \<not> has_user d (au_id au) \<or> length act > 120 \<or> length ty > 60
             \<or> length (or_empty (ad_ip a)) > 45 \<or> length (or_empty (ad_agent a)) > 255
          then Inl DbError
          else let i = next_id ''audit_logs'' d
               in Inr ((), (bump_id ''audit_logs'' d)\<lparr>audit_logs := audit_logs d @
                    [\<lparr>al_id = i, al_tenant = t, al_actor = Some (au_id au), al_action = act,
                      al_entity_type = ty,
                      al_entity = (if ad_entity a = Some 0 then None else ad_entity a),
                      al_metadata = (case ad_metadata a of None \<Rightarrow> js ''{}'' | Some m \<Rightarrow> m),
                      al_ip = or_null (or_empty (ad_ip a)), al_agent = or_null (or_empty (ad_agent a)),
                      al_created = clock d\<rparr>]\<rparr>)
      | _ \<Rightarrow> Inl DbError)"

definition createAuditLog :: "audit_data \<Rightarrow> auth \<Rightarrow> unit outcome io" where
  "createAuditLog a au =
     catch (bnd (sql (insert_audit au a)) (\<lambda>_. ret (Resolve CREATED ''audit_log_created_successfully'' ())))
           (\<lambda>_. ret (Reject INTERNAL_SERVER_ERROR ''failed_to_create_audit_log''))"

definition my_trail :: "auth \<Rightarrow> database \<Rightarrow> audit_entry list" where
  "my_trail au d = filter (\<lambda>a. Some (al_tenant a) = au_tenant au) (audit_logs d)"

definition column_is :: "jstring option \<Rightarrow> jstring \<Rightarrow> bool" where
  "column_is wanted x \<longleftrightarrow> or_empty wanted = [] \<or> sql_eq x (or_empty wanted)"

definition getAuditLogs ::
  "board_page \<Rightarrow> jstring option \<Rightarrow> jstring option \<Rightarrow> auth \<Rightarrow> ((audit_entry \<times> jstring option) list \<times> nat) outcome io" where
  "getAuditLogs pg action entityType au =
     listing_page ''audit_logs_retrieved_successfully'' ''failed_to_get_audit_logs'' 20 pg
       (\<lambda>d. map (\<lambda>a. (a, map_option u_name (user_by_id d (al_actor a))))
              (by_created pg al_created
                (filter (\<lambda>a. column_is action (al_action a) \<and> column_is entityType (al_entity_type a)
                           \<and> like_any (page_search pg) [Some (al_action a), Some (al_entity_type a)])
                   (my_trail au d))))
       (\<lambda>d. length (my_trail au d))"

end
