(* ===== verification/Request_Checks.thy ===== *)
theory Request_Checks
  imports Workspace_Tools Email_Quality
begin

text \<open>
  The middleware that checks requests: \<open>src/middlewares/pagination/paginationData.js\<close>,
  \<open>src/middlewares/common/languageValidator.js\<close>, and the validators of the user forms
  (\<open>src/middlewares/users/\<close>, \<open>src/common/dataValidator.js\<close>).  A value of a JSON body is a
  \<open>json_value\<close>; objects and arrays are left out, numbers are integers below \<open>10 ^ 21\<close>, which
  JavaScript prints in full.
\<close>

section \<open>Numbers in requests\<close>

datatype json_value = JUndefined | JNull | JBool bool | JNumber int | JText jstring

definition is_hex :: "nat \<Rightarrow> bool" where
  "is_hex u \<longleftrightarrow> is_digit u \<or> (65 \<le> u \<and> u \<le> 70) \<or> (97 \<le> u \<and> u \<le> 102)"

definition drop_sign :: "jstring \<Rightarrow> jstring" where
  "drop_sign s = (if s \<noteq> [] \<and> (hd s = 43 \<or> hd s = 45) then tl s else s)"

text \<open>The grammar of \<open>Number(text)\<close>: decimal with fraction and exponent, or with a radix prefix.\<close>

definition exponent_ok :: "jstring \<Rightarrow> bool" where
  "exponent_ok s \<longleftrightarrow>
     s = [] \<or> ((hd s = 101 \<or> hd s = 69) \<and> drop_sign (tl s) \<noteq> [] \<and> list_all is_digit (drop_sign (tl s)))"

definition decimal_text :: "jstring \<Rightarrow> bool" where
  "decimal_text s \<longleftrightarrow>
     (let whole = takeWhile is_digit s; rest = dropWhile is_digit s
      in if rest \<noteq> [] \<and> hd rest = 46
         then (whole \<noteq> [] \<or> takeWhile is_digit (tl rest) \<noteq> []) \<and> exponent_ok (dropWhile is_digit (tl rest))
         else whole \<noteq> [] \<and> exponent_ok rest)"

definition radix_text :: "jstring \<Rightarrow> bool" where
  "radix_text s \<longleftrightarrow>
     length s \<ge> 3 \<and> hd s = 48
     \<and> ((s ! 1 = 120 \<or> s ! 1 = 88) \<and> list_all is_hex (drop 2 s)
        \<or> (s ! 1 = 111 \<or> s ! 1 = 79) \<and> list_all (\<lambda>u. 48 \<le> u \<and> u \<le> 55) (drop 2 s)
        \<or> (s ! 1 = 98 \<or> s ! 1 = 66) \<and> list_all (\<lambda>u. u = 48 \<or> u = 49) (drop 2 s))"

definition numeric_text :: "jstring \<Rightarrow> bool" where
  "numeric_text s \<longleftrightarrow>
     (let t = js_trim s
      in t = [] \<or> drop_sign t = js ''Infinity'' \<or> decimal_text (drop_sign t) \<or> radix_text t)"

fun is_nan :: "json_value \<Rightarrow> bool" where
  "is_nan JUndefined = True"
| "is_nan (JText s) = (\<not> numeric_text s)"
| "is_nan _ = False"

text \<open>\<open>parseInt\<close>: white space, a sign, a hexadecimal prefix, then as many digits as there are.\<close>

definition hex_value :: "nat \<Rightarrow> nat" where
  "hex_value u = (if is_digit u then u - 48 else if u \<ge> 97 then u - 87 else u - 55)"

definition parse_magnitude :: "jstring \<Rightarrow> nat option" where
  "parse_magnitude s =
     (if length s \<ge> 2 \<and> hd s = 48 \<and> (s ! 1 = 120 \<or> s ! 1 = 88)
      then let ds = takeWhile is_hex (drop 2 s)
           in if ds = [] then None else Some (foldl (\<lambda>a u. 16 * a + hex_value u) 0 ds)
      else let ds = takeWhile is_digit s in if ds = [] then None else Some (js_to_nat ds))"

definition parse_int :: "jstring \<Rightarrow> int option" where
  "parse_int s =
     (let t = dropWhile js_space s
      in map_option (\<lambda>n. if t \<noteq> [] \<and> hd t = 45 then - int n else int n) (parse_magnitude (drop_sign t)))"

text \<open>\<open>parseInt(value)\<close>; \<open>None\<close> is NaN, which every comparison is false for.\<close>

fun parseInt :: "json_value \<Rightarrow> int option" where
  "parseInt (JNumber n) = Some n"
| "parseInt (JText s) = parse_int s"
| "parseInt _ = None"

definition below_zero :: "int option \<Rightarrow> bool" where
  "below_zero x = (case x of None \<Rightarrow> False | Some n \<Rightarrow> n < 0)"

section \<open>\<open>paginationData\<close>\<close>

record page_body =
  pb_items :: json_value
  pb_page :: json_value
  pb_order :: "string option"
  pb_filter :: "jstring option"
  pb_sort :: "string option"

definition no_page_body :: page_body where
  "no_page_body = \<lparr>pb_items = JUndefined, pb_page = JUndefined, pb_order = None, pb_filter = None, pb_sort = None\<rparr>"

text \<open>What it leaves in the body.\<close>

record page_request =
  pq_items :: int
  pq_page :: int
  pq_filter :: jstring
  pq_order :: string
  pq_lang :: jstring
  pq_sort :: "string option"
  pq_offset :: int

definition DASH_MAX_ITEMS :: "services \<Rightarrow> int" where
  "DASH_MAX_ITEMS s = env_or s ''MAX_ITEMS_PER_PAGE'' 100"

definition DASH_MAX_PAGE :: "services \<Rightarrow> int" where
  "DASH_MAX_PAGE s = env_or s ''MAX_PAGE_NUMBER'' 10000"

definition pagination_errors :: "page_body \<Rightarrow> string list" where
  "pagination_errors b =
     (if is_nan (pb_items b) then [''itemsPerPage must be a integer value''] else [])
     @ (if is_nan (pb_page b) then [''currentPageNumber must be a integer value''] else [])
     @ (if below_zero (parseInt (pb_items b)) then [''itemsPerPage must be a positive integer value''] else [])
     @ (if below_zero (parseInt (pb_page b)) then [''currentPageNumber must be a positive integer value''] else [])
     @ (if pb_order b \<noteq> Some ''asc'' \<and> pb_order b \<noteq> Some ''desc''
        then [''sortOrder - has to be either asc or desc''] else [])"

text \<open>\<open>Inl\<close> is the response, \<open>Inr\<close> the data the next handler finds.\<close>

definition paginationData :: "services \<Rightarrow> page_body option \<Rightarrow> jstring option \<Rightarrow> (int \<times> string) + page_request" where
  "paginationData s body lg =
     (let b = (case body of None \<Rightarrow> no_page_body | Some x \<Rightarrow> x);
          language = (if or_empty lg = [] then js ''en'' else or_empty lg)
      in if length (pagination_errors b) \<ge> 1 then Inl (BAD_REQUEST, ''invalid_pagination_data'')
         else let items = min (int_or 5 (parseInt (pb_items b))) (DASH_MAX_ITEMS s);
                  page = min (int_or 0 (parseInt (pb_page b))) (DASH_MAX_PAGE s)
              in Inr \<lparr>pq_items = items, pq_page = page, pq_filter = or_empty (pb_filter b),
                      pq_order = text_or ''desc'' (pb_order b), pq_lang = language,
                      pq_sort = (case pb_sort b of None \<Rightarrow> None | Some x \<Rightarrow> if x = [] then None else Some x),
                      pq_offset = items * page\<rparr>)"

text \<open>The same data as the listings read it.\<close>

definition page_of :: "page_request \<Rightarrow> board_page" where
  "page_of q = \<lparr>pg_sort = pq_sort q, pg_order = Some (pq_order q), pg_items = Some (pq_items q),
     pg_offset = Some (pq_offset q), pg_filter = Some (pq_filter q)\<rparr>"

section \<open>\<open>languageValidator\<close>\<close>

definition languageValidator :: "jstring option \<Rightarrow> jstring option \<Rightarrow> (int \<times> string) + jstring" where
  "languageValidator body_lg query_lg =
     (let lg = (if or_empty body_lg = [] then or_empty query_lg else or_empty body_lg)
      in if lg = [] then Inl (BAD_REQUEST, ''language_is_required'') else Inr lg)"

section \<open>The rules for user data\<close>

text \<open>\<open>Some key\<close> is a refusal, \<open>None\<close> is \<open>true\<close>.\<close>

definition isUserNameValid :: "jstring \<Rightarrow> string option" where
  "isUserNameValid userName =
     (if length userName < 3 then Some ''user_name_must_be_at_least_3_characters''
      else if length userName > 150 then Some ''user_name_must_not_exceed_150_characters'' else None)"

definition isEmailValid :: "jstring \<Rightarrow> string option" where
  "isEmailValid email = (if EMAIL_RE email then None else Some ''invalid_email_address'')"

definition isPhoneNumberValid :: "jstring \<Rightarrow> string option" where
  "isPhoneNumberValid phone =
     (if length phone < 10 \<or> length phone > 15 then Some ''invalid_user_phone_number'' else None)"

definition commonStringDataValid :: "jstring \<Rightarrow> string option" where
  "commonStringDataValid x = (if length x > 200 then Some ''value_must_not_exceed_200_characters'' else None)"

definition password_symbols :: jstring where
  "password_symbols = js ''!@#$%^&*()_+-=[]{};:|,.<>/?'' @ [39, 34, 92]"

definition isPasswordValid :: "jstring \<Rightarrow> string option" where
  "isPasswordValid password =
     (if length password < 6 then Some ''password_is_required''
      else if \<not> list_ex is_upper_ascii password then Some ''password_must_contain_uppercase''
      else if \<not> list_ex is_lower_ascii password then Some ''password_must_contain_lowercase''
      else if \<not> list_ex (\<lambda>u. u \<in> set password_symbols) password
      then Some ''password_must_contain_special_character''
      else None)"

section \<open>The validators of the user forms\<close>

record user_form =
  uf_lang :: "jstring option"
  uf_user :: json_value
  uf_name :: "jstring option"
  uf_email :: "jstring option"
  uf_password :: "jstring option"
  uf_contact :: "jstring option"

text \<open>A required field and an optional one; an empty field counts as absent.\<close>

definition required :: "string \<Rightarrow> (jstring \<Rightarrow> string option) \<Rightarrow> jstring option \<Rightarrow> string option" where
  "required missing rule x = (if or_empty x = [] then Some missing else rule (or_empty x))"

definition optional :: "(jstring \<Rightarrow> string option) \<Rightarrow> jstring option \<Rightarrow> string option" where
  "optional rule x = (if or_empty x = [] then None else rule (or_empty x))"

fun first_refusal :: "string option list \<Rightarrow> string option" where
  "first_refusal [] = None"
| "first_refusal (Some k # ks) = Some k"
| "first_refusal (None # ks) = first_refusal ks"

text \<open>\<open>_.isNil(userId) || !_.isNumber(userId)\<close> after \<open>parseInt\<close>: NaN is a number.\<close>

definition user_id_missing :: "json_value \<Rightarrow> bool" where
  "user_id_missing v \<longleftrightarrow> v \<in> {JUndefined, JNull, JBool False, JNumber 0, JText []}"

text \<open>
  \<open>userDataValidator\<close>: on \<open>/users/update\<close> the name is optional and the email and the password
  are dropped, elsewhere all three are required.  The language always has its default.
\<close>

definition userDataValidator :: "bool \<Rightarrow> user_form \<Rightarrow> string option" where
  "userDataValidator updateUrl f =
     first_refusal
       (if updateUrl
        then [if user_id_missing (uf_user f) then Some ''user_id_is_required'' else None,
              optional isUserNameValid (uf_name f), optional isPhoneNumberValid (uf_contact f)]
        else [required ''user_full_name_is_required'' isUserNameValid (uf_name f),
              required ''invalid_email_address'' isEmailValid (uf_email f),
              required ''password_is_required'' isPasswordValid (uf_password f),
              optional isPhoneNumberValid (uf_contact f)])"

text \<open>\<open>userLoginDataValidator\<close>: the language, an address with an \<open>@\<close> if there is one, and six characters.\<close>

definition userLoginDataValidator :: "user_form \<Rightarrow> string option" where
  "userLoginDataValidator f =
     first_refusal
       [if or_empty (uf_lang f) = [] then Some ''language_is_required'' else None,
        optional (\<lambda>e. if 64 \<in> set e then None else Some ''email_is_required'') (uf_email f),
        if length (or_empty (uf_password f)) < 6 then Some ''password_is_required'' else None]"

end
