(* ===== verification/Directory.thy ===== *)
theory Directory
  imports Tenant_Settings Request_Checks
begin

text \<open>
  Who and what there is: the members of a workspace and the signed-in user
  (\<open>src/main/users/getUserTableData.js\<close>, \<open>getUserListData.js\<close>, \<open>gerUserPersonalData.js\<close>), the
  dashboard's figures (\<open>src/main/analytics/getAnalyticsOverview.js\<close>) and the lists of the
  admin panel (\<open>src/main/admin/\<close>).  The model's rows of \<open>users\<close> and \<open>tenants\<close> leave the column
  \<open>created_at\<close> out, so the functions that order by it take it as an argument.
\<close>

section \<open>Members\<close>

record member_info =
  mi_id :: nat
  mi_name :: jstring
  mi_email :: jstring
  mi_role :: role
  mi_avatar :: "jstring option"

definition member_info_of :: "user \<Rightarrow> member_info" where
  "member_info_of u =
     \<lparr>mi_id = u_id u, mi_name = u_name u, mi_email = u_email u, mi_role = u_role u, mi_avatar = u_avatar u\<rparr>"

definition table_where :: "nat \<Rightarrow> jstring \<Rightarrow> user \<Rightarrow> bool" where
  "table_where t search u \<longleftrightarrow> u_tenant u = Some t \<and> like_any search [Some (u_name u), Some (u_email u)]"

definition totalUserTableRowCount :: "nat \<Rightarrow> jstring \<Rightarrow> nat io" where
  "totalUserTableRowCount t search = select (\<lambda>d. length (filter (table_where t search) (users d)))"

definition getUserTableDataQuery :: "(user \<Rightarrow> int) \<Rightarrow> nat \<Rightarrow> page_request \<Rightarrow> member_info list io" where
  "getUserTableDataQuery created t q =
     select_page (pq_items q) (pq_offset q) (\<lambda>d. map member_info_of
       (by_created (page_of q) created (filter (table_where t (js_trim (pq_filter q))) (users d))))"

text \<open>Here the total does follow the search.\<close>

definition getUserTableData :: "(user \<Rightarrow> int) \<Rightarrow> page_request \<Rightarrow> auth \<Rightarrow> (nat \<times> member_info list) outcome io" where
  "getUserTableData created q au =
     (if id_or_zero (au_tenant au) = 0 then ret (Reject BAD_REQUEST ''user_not_found'')
      else catch
        (bnd (totalUserTableRowCount (id_or_zero (au_tenant au)) (js_trim (pq_filter q))) (\<lambda>totalRows.
         bnd (getUserTableDataQuery created (id_or_zero (au_tenant au)) q) (\<lambda>rows.
           ret (Resolve OK ''user_data_fetched_successfully'' (totalRows, rows)))))
        (\<lambda>_. ret (Reject INTERNAL_SERVER_ERROR ''internal_server_error'')))"

definition getUserListDataQuery :: "(user \<Rightarrow> int) \<Rightarrow> nat \<Rightarrow> member_info list io" where
  "getUserListDataQuery created t =
     select (\<lambda>d. map member_info_of
       (sort_key (\<lambda>u. - created u) (filter (\<lambda>u. u_tenant u = Some t \<and> u_active u) (users d))))"

definition getUserListData :: "(user \<Rightarrow> int) \<Rightarrow> auth \<Rightarrow> member_info list outcome io" where
  "getUserListData created au =
     (if id_or_zero (au_tenant au) = 0 then ret (Reject BAD_REQUEST ''user_not_found'')
      else catch
        (bnd (getUserListDataQuery created (id_or_zero (au_tenant au))) (\<lambda>rows.
           ret (Resolve OK ''user_data_fetched_successfully'' rows)))
        (\<lambda>_. ret (Reject INTERNAL_SERVER_ERROR ''internal_server_error'')))"

text \<open>One's own row; of the password only whether there is one.\<close>

record personal_data =
  pd_user :: member_info
  pd_tenant :: "nat option"
  pd_contact :: "jstring option"
  pd_has_password :: bool

definition personal_data_of :: "user \<Rightarrow> personal_data" where
  "personal_data_of u =
     \<lparr>pd_user = member_info_of u, pd_tenant = u_tenant u, pd_contact = u_contact u,
      pd_has_password = (u_password u \<noteq> None)\<rparr>"

definition getUserPersonalData :: "auth \<Rightarrow> personal_data option io" where
  "getUserPersonalData au =
     select (\<lambda>d. map_option personal_data_of
       (find (\<lambda>u. u_id u = au_id au \<and> sql_eq (u_email u) (au_email au) \<and> u_active u) (users d)))"

definition getPersonalData :: "auth \<Rightarrow> personal_data outcome io" where
  "getPersonalData au =
     catch
       (bnd (getUserPersonalData au) (\<lambda>row.
          case row of
            None \<Rightarrow> ret (Reject BAD_REQUEST ''user_not_found'')
          | Some u \<Rightarrow> ret (Resolve OK ''data_fetched_successfully'' u)))
       (\<lambda>_. ret (Reject INTERNAL_SERVER_ERROR ''internal_server_error''))"

section \<open>The figures of the dashboard\<close>

text \<open>\<open>SELECT k, COUNT(*) \<dots> GROUP BY k\<close>, the groups in the order of their first row.\<close>

definition group_count :: "('a \<Rightarrow> 'k) \<Rightarrow> 'a list \<Rightarrow> ('k \<times> nat) list" where
  "group_count k xs = map (\<lambda>v. (v, length (filter (\<lambda>x. k x = v) xs))) (remdups (map k xs))"

text \<open>A day as its number since the epoch; the server and the database share the time zone UTC.\<close>

definition day_of :: "int \<Rightarrow> int" where
  "day_of ms = ms div 86400000"

record dashboard_totals =
  dt_posts :: nat
  dt_pinned :: nat
  dt_votes :: nat
  dt_comments :: nat
  dt_users :: nat

definition totals_of :: "nat option \<Rightarrow> database \<Rightarrow> dashboard_totals" where
  "totals_of t d =
     \<lparr>dt_posts = length (filter (\<lambda>p. Some (p_tenant p) = t) (posts d)),
      dt_pinned = length (filter (\<lambda>p. Some (p_tenant p) = t \<and> p_pinned p) (posts d)),
      dt_votes = length (filter (\<lambda>v. Some (v_tenant v) = t) (votes d)),
      dt_comments = length (filter (\<lambda>c. Some (c_tenant c) = t) (comments d)),
      dt_users = length (filter (\<lambda>u. t \<noteq> None \<and> u_tenant u = t \<and> u_active u) (users d))\<rparr>"

definition tenant_posts :: "nat option \<Rightarrow> database \<Rightarrow> post list" where
  "tenant_posts t d = filter (\<lambda>p. Some (p_tenant p) = t) (posts d)"

text \<open>\<open>created_at >= DATE_SUB(CURDATE(), INTERVAL 29 DAY)\<close>, counted by day.\<close>

definition trend_rows :: "nat option \<Rightarrow> database \<Rightarrow> (int \<times> nat) list" where
  "trend_rows t d =
     sort_key fst (group_count (\<lambda>p. day_of (p_created p))
       (filter (\<lambda>p. day_of (p_created p) \<ge> day_of (clock d) - 29) (tenant_posts t d)))"

text \<open>The days from 29 before today to today, each with its count or 0.\<close>

definition trend_series :: "int \<Rightarrow> (int \<times> nat) list \<Rightarrow> (int \<times> nat) list" where
  "trend_series today rows =
     map (\<lambda>i. let key = day_of today - 29 + int i in (key, case map_of rows key of None \<Rightarrow> 0 | Some n \<Rightarrow> n)) [0..<30]"

record analytics =
  an_totals :: dashboard_totals
  an_status :: "(post_status \<times> nat) list"
  an_type :: "(post_type \<times> nat) list"
  an_trend :: "(int \<times> nat) list"

text \<open>The four queries of \<open>Promise.all\<close>, one after the other.\<close>

definition getAnalyticsOverview :: "auth \<Rightarrow> analytics outcome io" where
  "getAnalyticsOverview au =
     catch
       (bnd (select (totals_of (au_tenant au))) (\<lambda>totals.
        bnd (select (\<lambda>d. group_count p_status (tenant_posts (au_tenant au) d))) (\<lambda>statusCounts.
        bnd (select (\<lambda>d. group_count p_type (tenant_posts (au_tenant au) d))) (\<lambda>typeCounts.
        bnd (select (trend_rows (au_tenant au))) (\<lambda>trend.
        bnd (asks js_now) (\<lambda>today.
          ret (Resolve OK ''analytics_retrieved_successfully''
            \<lparr>an_totals = totals, an_status = statusCounts, an_type = typeCounts,
             an_trend = trend_series today trend\<rparr>)))))))
       (\<lambda>_. ret (Reject INTERNAL_SERVER_ERROR ''failed_to_get_analytics''))"

section \<open>The lists of the admin panel\<close>

definition admin_list :: "(database \<Rightarrow> 'a) \<Rightarrow> 'a outcome io" where
  "admin_list f =
     catch (bnd (select f) (\<lambda>rows. ret (Resolve OK ''admin_data_retrieved'' rows)))
           (\<lambda>_. ret (Reject INTERNAL_SERVER_ERROR ''internal_server_error''))"

definition search_of :: "jstring option \<Rightarrow> jstring" where
  "search_of s = js_trim (or_empty s)"

record overview =
  ov_tenants :: nat
  ov_active :: nat
  ov_users :: nat
  ov_posts :: nat
  ov_paid :: nat

definition overview_of :: "database \<Rightarrow> overview" where
  "overview_of d =
     \<lparr>ov_tenants = length (tenants d), ov_active = length (filter t_active (tenants d)),
      ov_users = length (users d), ov_posts = length (posts d),
      ov_paid = length (filter (\<lambda>t. enum_is ''pro'' (t_plan t) \<or> enum_is ''business'' (t_plan t)) (tenants d))\<rparr>"

text \<open>The names of one group are equal up to letter case; the first one stands for it.\<close>

fun distinct_plans :: "string list \<Rightarrow> string list" where
  "distinct_plans [] = []"
| "distinct_plans (p # ps) = p # filter (\<lambda>q. \<not> enum_is p q) (distinct_plans ps)"

definition plan_breakdown :: "database \<Rightarrow> (string \<times> nat) list" where
  "plan_breakdown d =
     map (\<lambda>p. (p, length (filter (\<lambda>t. enum_is p (t_plan t)) (tenants d)))) (distinct_plans (map t_plan (tenants d)))"

text \<open>The count of the redemptions has a \<open>try\<close> of its own.\<close>

definition getOverview :: "(overview \<times> nat \<times> (string \<times> nat) list) outcome io" where
  "getOverview =
     catch
       (bnd (select overview_of) (\<lambda>counts.
        bnd (select plan_breakdown) (\<lambda>plans.
        bnd (catch (select (\<lambda>d. length (promo_redemptions d))) (\<lambda>_. ret 0)) (\<lambda>redemptions.
          ret (Resolve OK ''admin_data_retrieved'' (counts, redemptions, plans))))))
       (\<lambda>_. ret (Reject INTERNAL_SERVER_ERROR ''internal_server_error''))"

record workspace_line =
  wl_tenant :: tenant_info
  wl_status :: "string option"
  wl_owner :: "jstring option"
  wl_users :: nat
  wl_posts :: nat

definition workspace_line_of :: "database \<Rightarrow> tenant \<Rightarrow> workspace_line" where
  "workspace_line_of d t =
     \<lparr>wl_tenant = tenant_info_of t, wl_status = t_status t,
      wl_owner = map_option u_email (find (\<lambda>u. u_tenant u = Some (t_id t) \<and> u_role u = Owner) (users d)),
      wl_users = length (filter (\<lambda>u. u_tenant u = Some (t_id t)) (users d)),
      wl_posts = length (filter (\<lambda>p. p_tenant p = t_id t) (posts d))\<rparr>"

definition listWorkspaces :: "(tenant \<Rightarrow> int) \<Rightarrow> jstring option \<Rightarrow> workspace_line list outcome io" where
  "listWorkspaces created search =
     admin_list (\<lambda>d. map (workspace_line_of d) (sort_key (\<lambda>t. - created t)
       (filter (\<lambda>t. like_any (search_of search) [Some (t_name t), Some (t_subdomain t), t_custom_domain t]) (tenants d))))"

text \<open>The detail is the row without the Stripe customer, and the members in the order of their roles.\<close>

definition role_rank :: "role \<Rightarrow> int" where
  "role_rank r = (case r of Owner \<Rightarrow> 1 | Member \<Rightarrow> 2)"

definition getWorkspace :: "(user \<Rightarrow> int) \<Rightarrow> nat \<Rightarrow> (tenant \<times> (member_info \<times> bool) list) outcome io" where
  "getWorkspace created i =
     catch
       (bnd (select (tenant_by_id (Some i))) (\<lambda>row.
          case row of
            None \<Rightarrow> ret (Reject NOT_FOUND ''tenant_not_found'')
          | Some t \<Rightarrow>
              bnd (select (\<lambda>d. map (\<lambda>u. (member_info_of u, u_active u))
                     (sort_key (\<lambda>u. role_rank (u_role u)) (sort_key created
                        (filter (\<lambda>u. u_tenant u = Some i) (users d)))))) (\<lambda>members.
                ret (Resolve OK ''admin_data_retrieved'' (t\<lparr>t_stripe_customer := None\<rparr>, members)))))
       (\<lambda>_. ret (Reject INTERNAL_SERVER_ERROR ''internal_server_error''))"

record account_line =
  ac_email :: jstring
  ac_name :: jstring
  ac_owned :: nat
  ac_workspaces :: "jstring list"
  ac_plan :: string
  ac_billing :: "account option"
  ac_admin :: bool

text \<open>The active owner rows in active workspaces that the search leaves.\<close>

definition owner_rows :: "jstring \<Rightarrow> database \<Rightarrow> (user \<times> tenant) list" where
  "owner_rows search d =
     filter (\<lambda>(u, t). u_tenant u = Some (t_id t) \<and> t_active t \<and> u_role u = Owner \<and> u_active u
                    \<and> like_any search [Some (u_email u), Some (u_name u)])
       (List.product (users d) (tenants d))"

definition account_line_of :: "jstring \<Rightarrow> database \<Rightarrow> jstring \<Rightarrow> account_line" where
  "account_line_of search d email =
     (let rows = filter (\<lambda>(u, t). sql_eq (u_email u) email) (owner_rows search d);
          ba = find (\<lambda>b. sql_eq (b_email b) email) (accounts d)
      in \<lparr>ac_email = email, ac_name = last (sort_key js_lower (map (\<lambda>(u, t). u_name u) rows)),
          ac_owned = length (remdups (map (\<lambda>(u, t). t_id t) rows)),
          ac_workspaces = sort_key js_lower (remdups (map (\<lambda>(u, t). t_subdomain t) rows)),
          ac_plan = (case ba of None \<Rightarrow> ''free'' | Some b \<Rightarrow> b_plan b), ac_billing = ba,
          ac_admin = list_ex (\<lambda>(u, t). u_admin u) rows\<rparr>)"

fun distinct_emails :: "jstring list \<Rightarrow> jstring list" where
  "distinct_emails [] = []"
| "distinct_emails (e # es) = e # filter (\<lambda>x. \<not> sql_eq e x) (distinct_emails es)"

definition listAccounts :: "jstring option \<Rightarrow> account_line list outcome io" where
  "listAccounts search =
     admin_list (\<lambda>d.
       sort_key (\<lambda>a. - int (ac_owned a)) (sort_key (\<lambda>a. js_lower (ac_email a))
         (map (account_line_of (search_of search) d)
           (distinct_emails (map (\<lambda>(u, t). u_email u) (owner_rows (search_of search) d))))))"

definition listAllUsers :: "(user \<Rightarrow> int) \<Rightarrow> jstring option \<Rightarrow> (user \<times> jstring option) list outcome io" where
  "listAllUsers created search =
     admin_list (\<lambda>d. map (\<lambda>u. (u\<lparr>u_password := None, u_contact := None, u_avatar := None\<rparr>,
                                  map_option t_name (tenant_by_id (u_tenant u) d)))
       (take 500 (sort_key (\<lambda>u. - created u)
          (filter (\<lambda>u. like_any (search_of search) [Some (u_email u), Some (u_name u)]) (users d)))))"

record admin_line =
  al_user :: nat
  al_email :: jstring
  al_name :: jstring
  al_is_active :: bool
  al_login :: "int option"

definition admin_line_of :: "database \<Rightarrow> jstring \<Rightarrow> admin_line" where
  "admin_line_of d email =
     (let rows = filter (\<lambda>u. u_admin u \<and> sql_eq (u_email u) email) (users d);
          logins = concat (map (\<lambda>u. case u_last_login u of None \<Rightarrow> [] | Some n \<Rightarrow> [n]) rows)
      in \<lparr>al_user = foldr min (map u_id rows) (u_id (hd rows)), al_email = email,
          al_name = last (sort_key js_lower (map u_name rows)), al_is_active = list_ex u_active rows,
          al_login = (if logins = [] then None else Some (foldr max logins (hd logins)))\<rparr>)"

text \<open>\<open>MIN(created_at)\<close> of the rows of an address orders the list.\<close>

definition admin_since :: "(user \<Rightarrow> int) \<Rightarrow> database \<Rightarrow> jstring \<Rightarrow> int" where
  "admin_since created d email =
     (let rows = filter (\<lambda>u. u_admin u \<and> sql_eq (u_email u) email) (users d)
      in foldr min (map created rows) (created (hd rows)))"

definition listAdmins :: "(user \<Rightarrow> int) \<Rightarrow> admin_line list outcome io" where
  "listAdmins created =
     admin_list (\<lambda>d. map (admin_line_of d) (sort_key (\<lambda>e. - admin_since created d e)
       (distinct_emails (map u_email (filter u_admin (users d))))))"

definition listWorkspacePosts :: "nat \<Rightarrow> string option \<Rightarrow> jstring option \<Rightarrow> (post \<times> jstring \<times> nat \<times> nat) list outcome io" where
  "listWorkspacePosts t status search =
     admin_list (\<lambda>d. map (\<lambda>p. (p, shown_name (user_by_id d (p_author p)) (p_submitter_name p), vote_count (p_id p) d,
                                length (filter (\<lambda>c. c_post c = p_id p) (comments d))))
       (take 300 (sort_key (\<lambda>p. if p_pinned p then 0 else (1 :: int)) (sort_key (\<lambda>p. - p_created p)
         (filter (\<lambda>p. p_tenant p = t
             \<and> (case status of None \<Rightarrow> True
                | Some s \<Rightarrow> (case parse_status s of None \<Rightarrow> True | Some st \<Rightarrow> p_status p = st))
             \<and> like_any (search_of search) [Some (p_title p), Some (p_description p)]) (posts d))))))"

definition listPostComments :: "nat \<Rightarrow> nat \<Rightarrow> (board_comment \<times> jstring) list outcome io" where
  "listPostComments t i =
     admin_list (\<lambda>d. map (\<lambda>c. (c, shown_name (user_by_id d (c_author c)) (c_submitter_name c)))
       (sort_key c_created (comments_of t i d)))"

end
