(* ===== verification/Directory_Facts.thy ===== *)
theory Directory_Facts
  imports Directory "HOL-Library.Multiset"
begin

text \<open>
  The figures of the dashboard add up, a listing of the dashboard is never longer than the
  configured page, and what the form validators would refuse is accepted where none is mounted.
\<close>

section \<open>Groups\<close>

lemma count_groups:
  "distinct vs \<Longrightarrow> sum_list (map (\<lambda>v. length (filter (\<lambda>x. k x = v) xs)) vs) = length (filter (\<lambda>x. k x \<in> set vs) xs)"
proof (induction vs)
  case (Cons v vs)
  have "length (filter (\<lambda>x. k x = v \<or> k x \<in> set vs) xs)
      = length (filter (\<lambda>x. k x = v) xs) + length (filter (\<lambda>x. k x \<in> set vs) xs)"
    using Cons.prems by (induction xs) auto
  with Cons show ?case by simp
qed simp

lemma sum_group_count: "sum_list (map snd (group_count k xs)) = length xs"
proof -
  have "filter (\<lambda>x. k x \<in> k ` set xs) xs = xs" by simp
  then show ?thesis by (simp add: group_count_def comp_def count_groups)
qed

lemma map_of_group_count:
  "map_of (sort_key fst (group_count k xs)) v
     = (if v \<in> k ` set xs then Some (length (filter (\<lambda>x. k x = v) xs)) else None)"
proof -
  let ?g = "sort_key fst (group_count k xs)"
  have "mset (map fst ?g) = mset (remdups (map k xs))"
    by (simp add: group_count_def image_mset.compositionality comp_def)
  then have d: "distinct (map fst ?g)"
    by (metis distinct_remdups mset_eq_imp_distinct_iff)
  have s: "set ?g = (\<lambda>v. (v, length (filter (\<lambda>x. k x = v) xs))) ` k ` set xs"
    by (simp add: group_count_def image_comp)
  show ?thesis
  proof (cases "v \<in> k ` set xs")
    case True
    then have "(v, length (filter (\<lambda>x. k x = v) xs)) \<in> set ?g" using s by simp
    with d True show ?thesis by simp
  next
    case False
    then have "v \<notin> fst ` set ?g" using s by (auto simp: image_iff)
    with False show ?thesis by (simp add: map_of_eq_None_iff)
  qed
qed

section \<open>The trend\<close>

definition recent_post :: "int \<Rightarrow> post \<Rightarrow> bool" where
  "recent_post today p \<longleftrightarrow> day_of today - 29 \<le> day_of (p_created p) \<and> day_of (p_created p) \<le> day_of today"

lemma trend_days: "set (map (\<lambda>i. a + int i) [0..<30]) = {a .. a + 29}"
proof -
  have "x \<in> (\<lambda>i. a + int i) ` {0..<30}" if "a \<le> x" "x \<le> a + 29" for x
    using that by (intro image_eqI [of _ _ "nat (x - a)"]) auto
  then show ?thesis by auto
qed

lemma sum_trend_series:
  assumes "day_of today = day_of (clock d)"
  shows "sum_list (map snd (trend_series today (trend_rows t d)))
       = length (filter (recent_post today) (tenant_posts t d))"
proof -
  define a where "a = day_of (clock d) - 29"
  let ?ps = "filter (\<lambda>p. day_of (p_created p) \<ge> a) (tenant_posts t d)"
  let ?n = "\<lambda>v. length (filter (\<lambda>p. day_of (p_created p) = v) ?ps)"
  have "(case map_of (trend_rows t d) v of None \<Rightarrow> 0 | Some n \<Rightarrow> n) = ?n v" for v
  proof (cases "v \<in> (\<lambda>p. day_of (p_created p)) ` set ?ps")
    case False
    then have "filter (\<lambda>p. day_of (p_created p) = v) ?ps = []" by (auto simp: filter_empty_conv)
    with False show ?thesis by (simp add: trend_rows_def a_def map_of_group_count)
  qed (simp add: trend_rows_def a_def map_of_group_count)
  then have "map snd (trend_series today (trend_rows t d)) = map ?n (map (\<lambda>i. a + int i) [0..<30])"
    using assms by (simp add: trend_series_def Let_def a_def)
  moreover have "distinct (map (\<lambda>i. a + int i) [0..<30])" by (simp add: distinct_map inj_on_def)
  ultimately have "sum_list (map snd (trend_series today (trend_rows t d)))
      = length (filter (\<lambda>p. day_of (p_created p) \<in> {a .. a + 29}) ?ps)"
    by (simp only: count_groups trend_days)
  also have "\<dots> = length (filter (recent_post today) (tenant_posts t d))"
    using assms by (auto simp: recent_post_def a_def intro!: arg_cong [where f = length] filter_cong)
  finally show ?thesis .
qed

text \<open>
  C13: The figures of the dashboard add up: the groups by status and by type each count every post
  of the workspace once, and the 30 days of the trend count each post of these days once.
\<close>

theorem analytics_add_up:
  assumes "healthy w" and "day_of (js_now w) = day_of (clock (db w))"
  shows "wp (getAnalyticsOverview au) (\<lambda>r w'. db w' = db w
     \<and> (\<exists>a. r = Inr (Resolve OK ''analytics_retrieved_successfully'' a)
          \<and> dt_posts (an_totals a) = length (tenant_posts (au_tenant au) (db w))
          \<and> sum_list (map snd (an_status a)) = dt_posts (an_totals a)
          \<and> sum_list (map snd (an_type a)) = dt_posts (an_totals a)
          \<and> length (an_trend a) = 30
          \<and> sum_list (map snd (an_trend a)) = length (filter (recent_post (js_now w)) (tenant_posts (au_tenant au) (db w))))) w"
  using assms
  by (simp add: getAnalyticsOverview_def sum_group_count sum_trend_series)
     (simp add: totals_of_def tenant_posts_def trend_series_def)

section \<open>Page sizes\<close>

lemma int_or_positive: "0 < n \<Longrightarrow> \<not> below_zero x \<Longrightarrow> 1 \<le> int_or n x"
  by (auto simp: int_or_def below_zero_def split: option.split)

lemma int_or_zero: "\<not> below_zero x \<Longrightarrow> 0 \<le> int_or 0 x"
  by (auto simp: int_or_def below_zero_def split: option.split)

lemma pagination_no_errors:
  "pagination_errors b = [] \<Longrightarrow> \<not> below_zero (parseInt (pb_items b)) \<and> \<not> below_zero (parseInt (pb_page b))
     \<and> text_or ''desc'' (pb_order b) \<in> {''asc'', ''desc''}"
  by (auto simp: pagination_errors_def text_or_def split: if_splits)

lemma paginationData_bounds:
  assumes "paginationData s body lg = Inr q" and "0 < DASH_MAX_ITEMS s" and "0 \<le> DASH_MAX_PAGE s"
  shows "1 \<le> pq_items q \<and> pq_items q \<le> DASH_MAX_ITEMS s \<and> 0 \<le> pq_page q \<and> pq_page q \<le> DASH_MAX_PAGE s
    \<and> pq_offset q = pq_items q * pq_page q \<and> pq_order q \<in> {''asc'', ''desc''}"
proof -
  define b where "b = (case body of None \<Rightarrow> no_page_body | Some x \<Rightarrow> x)"
  have "pagination_errors b = []"
    using assms(1) by (simp add: paginationData_def Let_def b_def Suc_le_eq split: if_splits)
  then have ok: "\<not> below_zero (parseInt (pb_items b))" "\<not> below_zero (parseInt (pb_page b))"
    "text_or ''desc'' (pb_order b) \<in> {''asc'', ''desc''}"
    using pagination_no_errors by blast+
  have "pq_items q = min (int_or 5 (parseInt (pb_items b))) (DASH_MAX_ITEMS s)"
    "pq_page q = min (int_or 0 (parseInt (pb_page b))) (DASH_MAX_PAGE s)"
    "pq_offset q = pq_items q * pq_page q" "pq_order q = text_or ''desc'' (pb_order b)"
    using assms(1) \<open>pagination_errors b = []\<close> by (auto simp: paginationData_def Let_def b_def)
  then show ?thesis
    using int_or_positive [OF _ ok(1), of 5] int_or_zero [OF ok(2)] ok(3) assms(2,3) by simp
qed

text \<open>What a listing answered, if it did, has at most \<open>n\<close> rows.\<close>

fun page_within :: "int \<Rightarrow> exn + ('a list \<times> nat) outcome \<Rightarrow> bool" where
  "page_within n (Inr (Resolve c m (rows, k))) = (int (length rows) \<le> n)"
| "page_within n r = True"

lemma listing_page_within:
  assumes "1 \<le> pq_items q" and "pq_items q \<le> n"
  shows "wp (listing_page k e dflt (page_of q) f g) (\<lambda>r w'. page_within n r) w"
proof -
  have "int_or dflt (pg_items (page_of q)) = pq_items q" using assms by (simp add: page_of_def int_or_def)
  then show ?thesis
    using assms by (auto simp: listing_page_def select_page_def limit_rows_def)
qed

definition rows_within :: "int \<Rightarrow> exn + 'a list \<Rightarrow> bool" where
  "rows_within n r \<longleftrightarrow> (case r of Inl _ \<Rightarrow> True | Inr rows \<Rightarrow> int (length rows) \<le> n)"

lemma select_page_within: "0 \<le> k \<Longrightarrow> k \<le> n \<Longrightarrow> wp (select_page k j f) (\<lambda>r w'. rows_within n r) w"
  by (auto simp: select_page_def limit_rows_def rows_within_def)

lemma getPostList_within:
  assumes "1 \<le> pq_items q" and "pq_items q \<le> n"
  shows "wp (getPostList lastRun (page_of q) f au)
     (\<lambda>r w'. case r of Inr (a, _) \<Rightarrow> page_within n (Inr a) | Inl _ \<Rightarrow> True) w"
proof -
  have items: "int_or 10 (pg_items (page_of q)) = pq_items q" using assms by (simp add: page_of_def int_or_def)
  have nonneg: "0 \<le> pq_items q" using assms(1) by simp
  show ?thesis
    unfolding getPostList_def Let_def wp_bnd [of "asks g" for g] wp_asks items sum.case
    by (rule wp_seq [OF wp_any [where Q = "\<lambda>_ _. True"]], simp)
       (auto intro!: wp_seq [where R = "\<lambda>r w'. page_within n r"] wp_seq [OF select_page_within [OF nonneg assms(2)]]
         simp: rows_within_def simp del: wp_bnd split: sum.split, auto split: if_splits)
qed

lemma getUserTableData_within:
  assumes "1 \<le> pq_items q" and "pq_items q \<le> n"
  shows "wp (getUserTableData created q au)
     (\<lambda>r w'. \<forall>c m k rows. r = Inr (Resolve c m (k, rows)) \<longrightarrow> int (length rows) \<le> n) w"
  using assms
  by (auto simp: getUserTableData_def totalUserTableRowCount_def getUserTableDataQuery_def select_page_def limit_rows_def)

text \<open>
  C14: However large a page a request asks for, the paged listings of the dashboard answer at most
  the configured number of rows, and never fail for a negative limit: a request with one is refused.
\<close>

theorem dashboard_pages_are_bounded:
  assumes "paginationData (svc w) body lg = Inr q" and "0 < DASH_MAX_ITEMS (svc w)" and "0 \<le> DASH_MAX_PAGE (svc w)"
  defines "n \<equiv> DASH_MAX_ITEMS (svc w)"
  shows "0 \<le> pq_offset q \<and> pq_offset q \<le> n * DASH_MAX_PAGE (svc w)
    \<and> wp (getPostList lastRun (page_of q) f au)
        (\<lambda>r _. case r of Inr (a, _) \<Rightarrow> page_within n (Inr a) | Inl _ \<Rightarrow> True) w
    \<and> wp (getChangelogList (page_of q) au) (\<lambda>r _. page_within n r) w
    \<and> wp (getNotifications (page_of q) au) (\<lambda>r _. page_within n r) w
    \<and> wp (getAuditLogs (page_of q) action ty au) (\<lambda>r _. page_within n r) w
    \<and> wp (getUserTableData created q au)
        (\<lambda>r _. \<forall>c m k rows. r = Inr (Resolve c m (k, rows)) \<longrightarrow> int (length rows) \<le> n) w"
proof -
  from paginationData_bounds [OF assms(1-3)]
  have b: "1 \<le> pq_items q" "pq_items q \<le> n" "0 \<le> pq_page q" "pq_page q \<le> DASH_MAX_PAGE (svc w)"
    and o: "pq_offset q = pq_items q * pq_page q" by (simp_all add: n_def)
  have "pq_items q * pq_page q \<le> n * DASH_MAX_PAGE (svc w)"
    using b by (intro mult_mono) auto
  then show ?thesis
    unfolding getChangelogList_def getNotifications_def getAuditLogs_def
    using b(1,3) o
    by (intro conjI listing_page_within [OF b(1,2)] getPostList_within [OF b(1,2)] getUserTableData_within [OF b(1,2)])
       simp_all
qed

section \<open>Signing up\<close>

text \<open>The registration a validated form would lead to.\<close>

definition registration_of :: "user_form \<Rightarrow> register_data" where
  "registration_of f = \<lparr>rg_email = uf_email f, rg_password = uf_password f, rg_name = uf_name f, rg_contact = uf_contact f\<rparr>"

text \<open>
  The rules for new users are not in force: a registration that the form validator refuses is
  accepted whenever its values fit the columns, be the password one letter and the address none.
\<close>

theorem signup_ignores_the_rules:
  assumes "healthy w" and "userDataValidator False f = Some refusal"
    and "uf_email f = Some e" "uf_name f = Some n" "uf_password f = Some p"
    and "length e \<le> 190" "length n \<le> 150" "length (or_empty (uf_contact f)) \<le> 20"
    and "length (bcrypt_hash (svc w) (rn w) p) \<le> 255"
    and "\<not> email_known (Some e) (db w)"
  shows "wp (registerNewUser (registration_of f)) (\<lambda>r w'.
     r = Inr (Resolve OK ''sign_up_is_successful'' ())
     \<and> (\<exists>u. users (db w') = users (db w) @ [u] \<and> u_email u = e \<and> u_name u = n
          \<and> u_password u = Some (bcrypt_hash (svc w) (rn w) p) \<and> u_active u)) w"
  using assms(1,3-10)
  by (auto simp: registerNewUser_def registration_of_def hash_given_def insert_registration_def insert_user_def
      user_fits_def new_user_def fits_def fk_opt_def or_null_def placeholderImagePath_def member_row_def list_ex_iff
      bump_id_def Let_def)

definition careless_form :: user_form where
  "careless_form = \<lparr>uf_lang = Some (js ''en''), uf_user = JUndefined, uf_name = Some (js ''Al''),
     uf_email = Some (js ''nobody''), uf_password = Some (js ''x''), uf_contact = None\<rparr>"

lemma signup_ignores_the_rules_witness:
  "userDataValidator False careless_form = Some ''user_name_must_be_at_least_3_characters''
   \<and> wp (registerNewUser (registration_of careless_form)) (\<lambda>r w'.
     r = Inr (Resolve OK ''sign_up_is_successful'' ())
     \<and> (\<exists>u. users (db w') = users demo_db @ [u] \<and> u_email u = js ''nobody'' \<and> u_name u = js ''Al''
          \<and> u_password u = Some (bcrypt_hash demo_services 0 (js ''x'')) \<and> u_active u)) (demo_world demo_db)"
proof -
  have r: "userDataValidator False careless_form = Some ''user_name_must_be_at_least_3_characters''"
    by (simp add: userDataValidator_def careless_form_def required_def isUserNameValid_def)
  have "\<not> email_known (Some (js ''nobody'')) demo_db"
    by (simp add: email_known_def demo_db_def demo_user_def sql_eq_def js_lower_def lower_unit_def)
  then show ?thesis
    using signup_ignores_the_rules [of "demo_world demo_db" careless_form _ "js ''nobody''" "js ''Al''" "js ''x''"] r
    by (simp add: careless_form_def demo_services_def del: js_Cons)
qed

section \<open>Instances\<close>

lemma analytics_add_up_witness:
  "wp (getAnalyticsOverview \<lparr>au_id = 1, au_tenant = Some 1, au_role = Owner, au_email = js ''a@x.io'', au_sid = None\<rparr>)
     (\<lambda>r w'. db w' = demo_db \<and> (\<exists>a. r = Inr (Resolve OK ''analytics_retrieved_successfully'' a)
        \<and> dt_posts (an_totals a) = 1 \<and> sum_list (map snd (an_status a)) = 1 \<and> sum_list (map snd (an_type a)) = 1
        \<and> length (an_trend a) = 30)) (demo_world demo_db)"
  using analytics_add_up [of "demo_world demo_db" "\<lparr>au_id = 1, au_tenant = Some 1, au_role = Owner, au_email = js ''a@x.io'', au_sid = None\<rparr>"]
  by (auto simp: tenant_posts_def demo_db_def demo_post_def elim!: wp_mono)

definition greedy_page :: page_body where
  "greedy_page = \<lparr>pb_items = JText (js ''1000000''), pb_page = JNumber 0, pb_order = Some ''asc'', pb_filter = None, pb_sort = None\<rparr>"

definition greedy_request :: page_request where
  "greedy_request = \<lparr>pq_items = 100, pq_page = 0, pq_filter = [], pq_order = ''asc'', pq_lang = js ''en'', pq_sort = None, pq_offset = 0\<rparr>"

lemma greedy_accepted: "paginationData demo_services (Some greedy_page) None = Inr greedy_request"
  by (simp add: paginationData_def pagination_errors_def greedy_page_def greedy_request_def numeric_text_def js_trim_def
      js_space_def decimal_text_def drop_sign_def is_digit_def exponent_ok_def parse_int_def parse_magnitude_def
      js_to_nat_def below_zero_def int_or_def DASH_MAX_ITEMS_def DASH_MAX_PAGE_def env_or_def demo_services_def
      text_or_def Let_def)

lemma dashboard_pages_are_bounded_witness:
  "wp (getChangelogList (page_of greedy_request) \<lparr>au_id = 1, au_tenant = Some 1, au_role = Owner, au_email = js ''a@x.io'', au_sid = None\<rparr>)
     (\<lambda>r _. page_within 100 r) (demo_world demo_db)"
  using dashboard_pages_are_bounded [of "demo_world demo_db" "Some greedy_page" None greedy_request] greedy_accepted
  by (simp add: DASH_MAX_ITEMS_def DASH_MAX_PAGE_def env_or_def demo_services_def)

end
