(* ===== verification/Http.thy ===== *)
theory Http
  imports Directory
begin

text \<open>
  How Express takes a request to a handler (\<open>app.js\<close>, \<open>src/routes/\<close>): the application mounts
  limiters and routers under path prefixes, a router is a list of \<open>use\<close> and route entries, the
  first route whose method and pattern match runs its chain of middleware and then its handler.
  The tables themselves are in \<open>Routes\<close>.  A path is the list of its decoded segments; Express
  compares literal segments without regard to letter case.  Express and \<open>express-rate-limit\<close> are
  parameters: which route takes a request, and whether a limiter turns it down.
\<close>

section \<open>Routes\<close>

datatype verb = GET | POST | PUT | PATCH | DELETE

datatype seg = Lit string | Param string

datatype limiter = ApiLimiter | AuthLimiter | PublicWriteLimiter | ExpensiveActionLimiter

datatype middleware =
    Limit limiter | AuthenticateToken | AuthenticateAdmin | OptionalAuth | LanguageValidator | PaginationData
  | AttachPublicTenant | RequireAttachmentsAuthed | RequireAttachmentsPublic
  | CheckFilePath | Upload "string list" int  \<comment> \<open>multer and \<open>errorCheck\<close>: accepted types and size\<close>

text \<open>Where the language of the answer comes from: \<open>LgBodyQueryEn\<close> is \<open>body.lg || query.lg || "en"\<close>.\<close>

datatype lang = LgBody | LgBodyEn | LgBodyQueryEn | LgQueryEn | LgQueryBodyEn | LgPages

text \<open>
  The arguments of a handler: parts of the request, or what the middleware attached to it.
  \<open>Auth l\<close> is \<open>{ ...req.auth, lg }\<close>.
\<close>

datatype arg =
    Body string | BodyOrEmpty string | WholeBody | Query string | WholeQuery | Path string | Header string
  | Lang lang | Auth lang | AuthOnly | AuthOrNull | AuthTenant | AdminRow | AdminId | AdminEmail
  | BoardId | BoardLang | Pages | File | WholeReq

text \<open>
  How the promise of the handler becomes the answer, with the key of the result in the body.
  \<open>Detached\<close>: \<open>.then/.catch\<close> inside an \<open>async\<close> function that does not await it.  \<open>Chained\<close>: the
  promise is returned to Express.  \<open>Shaped\<close>: \<open>e.statusCode || 500\<close>.  \<open>Inline\<close>: the route answers
  by itself.
\<close>

datatype ending = Detached "string option" | Chained "string option" | Shaped "string option" | Inline

record route =
  rt_verb :: verb
  rt_path :: "seg list"
  rt_chain :: "middleware list"
  rt_handler :: string
  rt_args :: "arg list"
  rt_end :: ending

datatype entry = Use middleware | Route route

datatype item = UseAt "string list" middleware | Mount "string list" "entry list"

definition on :: "verb \<Rightarrow> seg list \<Rightarrow> middleware list \<Rightarrow> string \<Rightarrow> arg list \<Rightarrow> ending \<Rightarrow> entry" where
  "on v p ms h as e = Route \<lparr>rt_verb = v, rt_path = p, rt_chain = ms, rt_handler = h, rt_args = as, rt_end = e\<rparr>"

section \<open>Matching\<close>

type_synonym params = "(string \<times> jstring) list"

fun match_path :: "seg list \<Rightarrow> jstring list \<Rightarrow> params option" where
  "match_path [] [] = Some []"
| "match_path (Lit l # ps) (s # ss) = (if js l = js_lower s then match_path ps ss else None)"
| "match_path (Param x # ps) (s # ss) = (case match_path ps ss of None \<Rightarrow> None | Some m \<Rightarrow> Some ((x, s) # m))"
| "match_path _ _ = None"

fun match_prefix :: "string list \<Rightarrow> jstring list \<Rightarrow> jstring list option" where
  "match_prefix [] ss = Some ss"
| "match_prefix (l # ls) (s # ss) = (if js l = js_lower s then match_prefix ls ss else None)"
| "match_prefix (l # ls) [] = None"

text \<open>
  A reading of the documented dispatch: the middleware a request meets, in order, and the route
  it ends at, if any.  The theorems hold of any dispatcher with the contract \<open>express\<close> below.
\<close>

fun plan :: "entry list \<Rightarrow> middleware list \<Rightarrow> verb \<Rightarrow> jstring list \<Rightarrow> middleware list \<times> (route \<times> params) option" where
  "plan [] acc v ss = (acc, None)"
| "plan (Use m # es) acc v ss = plan es (acc @ [m]) v ss"
| "plan (Route r # es) acc v ss =
     (if rt_verb r \<noteq> v then plan es acc v ss
      else case match_path (rt_path r) ss of
             None \<Rightarrow> plan es acc v ss
           | Some m \<Rightarrow> (acc @ rt_chain r, Some (r, m)))"

fun plan_app :: "item list \<Rightarrow> middleware list \<Rightarrow> verb \<Rightarrow> jstring list \<Rightarrow> middleware list \<times> (route \<times> params) option" where
  "plan_app [] acc v ss = (acc, None)"
| "plan_app (UseAt pre m # is) acc v ss =
     plan_app is (if match_prefix pre ss = None then acc else acc @ [m]) v ss"
| "plan_app (Mount pre es # is) acc v ss =
     (case match_prefix pre ss of
        None \<Rightarrow> plan_app is acc v ss
      | Some rest \<Rightarrow>
          (case plan es acc v rest of
             (acc', None) \<Rightarrow> plan_app is acc' v ss
           | (acc', Some hit) \<Rightarrow> (acc', Some hit)))"

definition dispatch_first :: "item list \<Rightarrow> verb \<Rightarrow> jstring list \<Rightarrow> middleware list \<times> (route \<times> params) option" where
  "dispatch_first items v ss = plan_app items [] v ss"

section \<open>Requests\<close>

text \<open>The part of a request the middleware reads, and what it attaches.\<close>

record http_request =
  rq_verb :: verb
  rq_url :: string
  rq_path :: "jstring list"
  rq_header :: "jstring option"
  rq_body_lg :: "jstring option"
  rq_query_lg :: "jstring option"
  rq_pages :: "page_body option"
  rq_part :: "upload option"
  rq_params :: params
  rq_auth :: "auth option"
  rq_admin :: "user option"
  rq_board :: "tenant option"
  rq_page :: "page_request option"
  rq_file :: "upload option"

text \<open>\<open>Silence\<close>: nothing is sent until the timeout of the request answers 503.\<close>

datatype http_reply = Sent int string | Silence

datatype served = Answered http_reply | Reached route http_request

definition param_of :: "string \<Rightarrow> http_request \<Rightarrow> jstring" where
  "param_of x rq = (case map_of (rq_params rq) x of None \<Rightarrow> [] | Some s \<Rightarrow> s)"

text \<open>A limiter that is over its ceiling answers 429.\<close>

definition limitResponse :: "limiter \<Rightarrow> http_reply" where
  "limitResponse l = Sent TOO_MANY_REQUESTS
     (if l = AuthLimiter then ''too_many_attempts'' else ''too_many_requests'')"

text \<open>The upload folder follows the exact URL; without a match \<open>path.normalize(undefined)\<close> throws.\<close>

definition checkIfFileSavePathExist :: "http_request \<Rightarrow> http_reply + http_request" where
  "checkIfFileSavePathExist rq =
     (if rq_url rq = ''/uploader/upload-image'' then Inr rq
      else Inl (Sent INTERNAL_SERVER_ERROR ''Internal server error''))"

text \<open>\<open>multer(\<dots>).single\<close> and then \<open>errorCheck\<close>; a request without a file part passes.\<close>

definition errorCheck :: "string list \<Rightarrow> int \<Rightarrow> http_request \<Rightarrow> http_reply + http_request" where
  "errorCheck types limit rq =
     (case rq_part rq of
        None \<Rightarrow> Inr rq
      | Some f \<Rightarrow>
          if up_mime f \<notin> set types then Inl (Sent BAD_REQUEST ''unsupported type'')
          else if up_size f > limit then Inl (Sent BAD_REQUEST ''Failed to upload file'')
          else Inr (rq\<lparr>rq_file := Some f\<rparr>))"

text \<open>\<open>rejectFree\<close>: also when the plan cannot be read.\<close>

definition gate_attachments :: "nat option \<Rightarrow> http_request \<Rightarrow> (http_reply + http_request) io" where
  "gate_attachments tenant rq =
     bnd (requireAttachments tenant) (\<lambda>ok.
       ret (if ok then Inr rq else Inl (Sent PAYMENT_REQUIRED ''plan_limit_attachments'')))"

text \<open>
  One middleware: a response, or the request for the next one.  A failure inside the callback of
  \<open>jwt.verify\<close> reaches nobody.
\<close>

definition step :: "(limiter \<Rightarrow> http_request \<Rightarrow> bool) \<Rightarrow> middleware \<Rightarrow> http_request \<Rightarrow> (http_reply + http_request) io" where
  "step limited m rq =
     (case m of
        Limit l \<Rightarrow> ret (if limited l rq then Inl (limitResponse l) else Inr rq)
      | AuthenticateToken \<Rightarrow>
          catch (bnd (authenticateToken (rq_header rq)) (\<lambda>r. ret (case r of
                   Refused code text \<Rightarrow> Inl (Sent code text)
                 | Passed au \<Rightarrow> Inr (rq\<lparr>rq_auth := Some au\<rparr>))))
                (\<lambda>_. ret (Inl Silence))
      | AuthenticateAdmin \<Rightarrow>
          bnd (authenticateAdmin (rq_header rq)) (\<lambda>r. ret (case r of
            Inl text \<Rightarrow> Inl (Sent UNAUTHORIZED text) | Inr u \<Rightarrow> Inr (rq\<lparr>rq_admin := Some u\<rparr>)))
      | OptionalAuth \<Rightarrow>
          bnd (optionalAuth (rq_header rq)) (\<lambda>u. ret (Inr (case u of
            None \<Rightarrow> rq | Some x \<Rightarrow> rq\<lparr>rq_auth := Some (auth_of x None)\<rparr>)))
      | LanguageValidator \<Rightarrow>
          ret (case languageValidator (rq_body_lg rq) (rq_query_lg rq) of
            Inl (code, key) \<Rightarrow> Inl (Sent code key) | Inr _ \<Rightarrow> Inr rq)
      | PaginationData \<Rightarrow>
          bnd (asks svc) (\<lambda>s. ret (case paginationData s (rq_pages rq) (rq_body_lg rq) of
            Inl (code, key) \<Rightarrow> Inl (Sent code key) | Inr q \<Rightarrow> Inr (rq\<lparr>rq_page := Some q\<rparr>)))
      | AttachPublicTenant \<Rightarrow>
          bnd (attachPublicTenant (param_of ''subdomain'' rq)) (\<lambda>r. ret (case r of
            Inl (code, key) \<Rightarrow> Inl (Sent code key) | Inr t \<Rightarrow> Inr (rq\<lparr>rq_board := Some t\<rparr>)))
      | RequireAttachmentsAuthed \<Rightarrow>
          (case rq_auth rq of
             None \<Rightarrow> ret (Inl (Sent PAYMENT_REQUIRED ''plan_limit_attachments''))
           | Some au \<Rightarrow> gate_attachments (au_tenant au) rq)
      | RequireAttachmentsPublic \<Rightarrow>
          (case rq_board rq of
             None \<Rightarrow> ret (Inl (Sent PAYMENT_REQUIRED ''plan_limit_attachments''))
           | Some t \<Rightarrow> gate_attachments (Some (t_id t)) rq)
      | CheckFilePath \<Rightarrow> ret (checkIfFileSavePathExist rq)
      | Upload types limit \<Rightarrow> ret (errorCheck types limit rq))"

fun run_chain :: "(limiter \<Rightarrow> http_request \<Rightarrow> bool) \<Rightarrow> middleware list \<Rightarrow> http_request \<Rightarrow> (http_reply + http_request) io" where
  "run_chain limited [] rq = ret (Inr rq)"
| "run_chain limited (m # ms) rq =
     bnd (step limited m rq) (\<lambda>r. case r of Inl a \<Rightarrow> ret (Inl a) | Inr rq' \<Rightarrow> run_chain limited ms rq')"

definition fresh_request :: "http_request \<Rightarrow> params \<Rightarrow> http_request" where
  "fresh_request rq ps = rq\<lparr>rq_params := ps, rq_auth := None, rq_admin := None, rq_board := None,
     rq_page := None, rq_file := None\<rparr>"

definition serve ::
  "(item list \<Rightarrow> verb \<Rightarrow> jstring list \<Rightarrow> middleware list \<times> (route \<times> params) option) \<Rightarrow>
   (limiter \<Rightarrow> http_request \<Rightarrow> bool) \<Rightarrow> item list \<Rightarrow> http_request \<Rightarrow> served io" where
  "serve dispatch limited items rq =
     (case dispatch items (rq_verb rq) (rq_path rq) of
        (ms, hit) \<Rightarrow>
          bnd (run_chain limited ms (fresh_request rq (case hit of None \<Rightarrow> [] | Some (r, ps) \<Rightarrow> ps))) (\<lambda>x.
            ret (case x of
                   Inl a \<Rightarrow> Answered a
                 | Inr rq' \<Rightarrow> (case hit of
                     None \<Rightarrow> Answered (Sent NOT_FOUND ''Route not found'')
                   | Some (r, ps) \<Rightarrow> Reached r rq'))))"

text \<open>
  The end of a request.  \<open>throw setServerResponse(\<dots>)\<close> carries its status like a rejection; any
  other exception has no \<open>statusCode\<close>, so \<open>res.status(undefined)\<close> throws inside the \<open>.catch\<close>.
\<close>

definition finish :: "ending \<Rightarrow> exn + 'a outcome \<Rightarrow> http_reply" where
  "finish e r =
     (case r of
        Inr (Resolve c k x) \<Rightarrow> Sent c k
      | Inr (Reject c k) \<Rightarrow> Sent c k
      | Inl (Thrown c k) \<Rightarrow> Sent c k
      | Inl _ \<Rightarrow> (case e of
          Detached _ \<Rightarrow> Silence
        | Chained _ \<Rightarrow> Sent INTERNAL_SERVER_ERROR ''Internal server error''
        | Shaped _ \<Rightarrow> Sent INTERNAL_SERVER_ERROR ''error''
        | Inline \<Rightarrow> Silence))"

section \<open>What the handlers may read\<close>

datatype attribute = HasAuth | HasAdmin | HasBoard | HasPages

definition attributes :: "http_request \<Rightarrow> attribute set" where
  "attributes rq = {x. case x of HasAuth \<Rightarrow> rq_auth rq \<noteq> None | HasAdmin \<Rightarrow> rq_admin rq \<noteq> None
     | HasBoard \<Rightarrow> rq_board rq \<noteq> None | HasPages \<Rightarrow> rq_page rq \<noteq> None}"

fun provides :: "middleware \<Rightarrow> attribute list" where
  "provides AuthenticateToken = [HasAuth]"
| "provides AuthenticateAdmin = [HasAdmin]"
| "provides AttachPublicTenant = [HasBoard]"
| "provides PaginationData = [HasPages]"
| "provides _ = []"

fun lang_demands :: "lang \<Rightarrow> attribute list" where
  "lang_demands LgPages = [HasPages]"
| "lang_demands _ = []"

fun demands :: "arg \<Rightarrow> attribute list" where
  "demands (Lang l) = lang_demands l"
| "demands (Auth l) = HasAuth # lang_demands l"
| "demands AuthOnly = [HasAuth]"
| "demands AuthTenant = [HasAuth]"
| "demands AdminRow = [HasAdmin]"
| "demands AdminId = [HasAdmin]"
| "demands AdminEmail = [HasAdmin]"
| "demands BoardId = [HasBoard]"
| "demands BoardLang = [HasBoard]"
| "demands Pages = [HasPages]"
| "demands _ = []"

text \<open>A path parameter the handler reads is one of the pattern.\<close>

fun path_bound :: "seg list \<Rightarrow> arg \<Rightarrow> bool" where
  "path_bound p (Path x) \<longleftrightarrow> Param x \<in> set p"
| "path_bound p _ \<longleftrightarrow> True"

text \<open>
  An endpoint of an application: method, full pattern, the middleware of its own router and of
  its route, and the route.  It is well typed if every part of the request its handler is given
  is there: attached by the middleware, or a parameter of the pattern.
\<close>

type_synonym endpoint = "verb \<times> seg list \<times> middleware list \<times> route"

fun router_endpoints :: "string list \<Rightarrow> middleware list \<Rightarrow> entry list \<Rightarrow> endpoint list" where
  "router_endpoints pre acc [] = []"
| "router_endpoints pre acc (Use m # es) = router_endpoints pre (acc @ [m]) es"
| "router_endpoints pre acc (Route r # es) =
     (rt_verb r, map Lit pre @ rt_path r, acc @ rt_chain r, r) # router_endpoints pre acc es"

fun endpoints :: "item list \<Rightarrow> endpoint list" where
  "endpoints [] = []"
| "endpoints (UseAt pre m # is) = endpoints is"
| "endpoints (Mount pre es # is) = router_endpoints pre [] es @ endpoints is"

definition attached_by :: "middleware list \<Rightarrow> attribute list" where
  "attached_by ms = concat (map provides ms)"

fun well_typed :: "endpoint \<Rightarrow> bool" where
  "well_typed (v, p, ms, r) \<longleftrightarrow>
     list_all (\<lambda>a. list_all (\<lambda>x. x \<in> set (attached_by ms)) (demands a) \<and> path_bound (rt_path r) a) (rt_args r)"

section \<open>The contract of Express\<close>

fun hits :: "verb \<Rightarrow> jstring list \<Rightarrow> endpoint \<Rightarrow> bool" where
  "hits v ss (v', p, ms, r) \<longleftrightarrow> v' = v \<and> match_path p ss \<noteq> None"

fun param_names :: "seg list \<Rightarrow> string list" where
  "param_names [] = []"
| "param_names (Lit l # p) = param_names p"
| "param_names (Param x # p) = x # param_names p"

text \<open>
  What a dispatch says of the endpoints of an application: there is no hit only if none matches,
  and a hit is the first that matches, in the order of registration, with its own middleware run
  last and the parameters of its pattern bound.
\<close>

definition planned :: "endpoint list \<Rightarrow> verb \<Rightarrow> jstring list \<Rightarrow> middleware list \<times> (route \<times> params) option \<Rightarrow> bool" where
  "planned es v ss x \<longleftrightarrow>
     (case x of
        (_, None) \<Rightarrow> find (hits v ss) es = None
      | (ms, Some (r, m)) \<Rightarrow> \<exists>p chain extra. find (hits v ss) es = Some (v, p, chain, r)
          \<and> ms = extra @ chain \<and> map fst m = param_names (rt_path r))"

definition express ::
  "(item list \<Rightarrow> verb \<Rightarrow> jstring list \<Rightarrow> middleware list \<times> (route \<times> params) option) \<Rightarrow> bool" where
  "express dispatch \<longleftrightarrow> (\<forall>items v ss. planned (endpoints items) v ss (dispatch items v ss))"

end
