(* ===== verification/Routes.thy ===== *)
theory Routes
  imports Http
begin

text \<open>
  The routing tables, in the order of the files: one list per router of \<open>src/routes/\<close> (cut into
  parts where the file is long), and \<open>app\<close> for \<open>app.js\<close>.  An entry has the method and pattern,
  the middleware, the handler by the name it is imported under, the arguments it is called with
  and how its promise becomes the answer.
\<close>

abbreviation signed :: "middleware list" where "signed \<equiv> [AuthenticateToken, LanguageValidator]"

abbreviation paged :: "middleware list" where
  "paged \<equiv> [AuthenticateToken, PaginationData, LanguageValidator]"

text \<open>The accepted media types (\<open>attachment-const-value.js\<close>, \<open>upload-file-const-value.js\<close>).\<close>

definition attachment_types :: "string list" where
  "attachment_types =
     [''image/png'', ''image/jpeg'', ''image/jpg'', ''image/webp'', ''image/gif'',
      ''video/mp4'', ''video/webm'', ''video/quicktime'']"

definition fileTypes :: "string list" where
  "fileTypes = [''image/png'', ''image/jpeg'', ''image/jpg'', ''image/webp'', ''image/gif'', ''image/avif'']"

definition uploadFileSize :: int where "uploadFileSize = 10240000"

section \<open>Accounts and workspaces\<close>

text \<open>Sign-in, registration and password reset; \<open>logout\<close> answers by itself.\<close>

definition userRouter_signin :: "entry list" where
  "userRouter_signin =
    [on POST [Lit ''login''] [LanguageValidator] ''userLogin''
       [BodyOrEmpty ''userData'', Lang LgBody, WholeReq] (Detached (Some ''user'')),
     on POST [Lit ''oauth'', Lit ''login''] [LanguageValidator] ''oauthLogin''
       [BodyOrEmpty ''userData'', Lang LgBody, WholeReq] (Detached (Some ''user'')),
     on POST [Lit ''logout''] [LanguageValidator] ''logout''
       [Header ''Authorization'', Lang LgBodyEn] Inline,
     on POST [Lit ''register''] [LanguageValidator] ''registerNewUser''
       [BodyOrEmpty ''userData'', Lang LgBody] (Detached None),
     on POST [Lit ''password'', Lit ''forgot''] [LanguageValidator] ''requestPasswordReset''
       [Body ''email'', Lang LgBody, WholeReq] (Detached (Some ''data'')),
     on GET [Lit ''password'', Lit ''reset'', Param ''token''] [LanguageValidator] ''validateResetToken''
       [Path ''token'', Lang LgQueryEn] (Detached (Some ''data'')),
     on POST [Lit ''password'', Lit ''reset''] [LanguageValidator] ''resetPassword''
       [Body ''token'', Body ''password'', Lang LgBody] (Detached None)]"

text \<open>The signed-in user and the list of members.\<close>

definition userRouter_profile :: "entry list" where
  "userRouter_profile =
    [on GET [Lit ''personal-data''] [AuthenticateToken] ''getPersonalData''
       [Auth LgQueryBodyEn] (Detached (Some ''data'')),
     on POST [Lit ''update''] signed ''updatePersonalInfo''
       [Body ''userData'', Auth LgBody] (Detached None),
     on PATCH [Lit ''role'', Param ''userId''] signed ''updateUserRole''
       [Path ''userId'', Body ''role'', Auth LgBody] (Detached None),
     on POST [Lit ''table-data''] [AuthenticateToken, PaginationData] ''getUserTableData''
       [Pages, Auth LgPages] (Detached (Some ''data'')),
     on POST [Lit ''user-list''] signed ''getUserListData''
       [Auth LgBody] (Detached (Some ''data'')),
     on POST [Lit ''change-password''] signed ''changeUserPassword''
       [Body ''oldPassword'', Body ''newPassword'', Auth LgBody] (Detached (Some ''data''))]"

text \<open>Account deletion and the workspaces of the account.\<close>

definition userRouter_account :: "entry list" where
  "userRouter_account =
    [on POST [Lit ''account'', Lit ''deletion-summary''] signed ''getAccountDeletionSummary''
       [Auth LgBody] (Detached (Some ''data'')),
     on POST [Lit ''account'', Lit ''delete''] signed ''deleteAccount''
       [Body ''password'', Auth LgBody] (Detached (Some ''data'')),
     on GET [Lit ''workspaces''] [AuthenticateToken] ''getWorkspaces''
       [Auth LgQueryEn] (Detached (Some ''data'')),
     on GET [Lit ''workspaces'', Lit ''check-subdomain''] [AuthenticateToken] ''checkSubdomain''
       [Query ''subdomain'', Lang LgQueryEn] (Detached (Some ''data'')),
     on POST [Lit ''workspaces'', Lit ''create''] signed ''createWorkspace''
       [Body ''workspaceData'', Auth LgBody] (Detached (Some ''data'')),
     on POST [Lit ''workspaces'', Lit ''switch''] signed ''switchWorkspace''
       [Body ''tenantId'', Auth LgBody] (Detached (Some ''data''))]"

definition userRouter :: "entry list" where
  "userRouter = userRouter_signin @ userRouter_profile @ userRouter_account"

text \<open>\<open>createTenant\<close> is mounted without authentication.\<close>

definition tenantRouter :: "entry list" where
  "tenantRouter =
    [on POST [Lit ''create''] [LanguageValidator] ''createTenant''
       [Body ''tenantData'', Lang LgBody] (Detached (Some ''data'')),
     on GET [Lit ''me''] [AuthenticateToken] ''getMyTenant''
       [Auth LgQueryBodyEn] (Detached (Some ''data'')),
     on POST [Param ''id''] signed ''getTenantById''
       [Path ''id'', Lang LgBodyEn] (Detached (Some ''data'')),
     on PUT [Lit ''update'', Param ''id''] signed ''updateTenantRoute''
       [Path ''id'', Body ''tenantData'', AuthOnly, Lang LgBody] (Detached None),
     on POST [] signed ''getTenantList''
       [Lang LgBodyEn] (Detached (Some ''data''))]"

definition invitationRouter :: "entry list" where
  "invitationRouter =
    [Use AuthenticateToken,
     on POST [] [LanguageValidator] ''createInvitation''
       [WholeBody, Auth LgBody] (Chained (Some ''data'')),
     on POST [Lit ''list''] [LanguageValidator] ''listInvitations''
       [Auth LgBody] (Chained (Some ''data'')),
     on DELETE [Param ''id''] [] ''revokeInvitation''
       [Path ''id'', Auth LgBodyEn] (Chained (Some ''data'')),
     on POST [Param ''token'', Lit ''accept''] [LanguageValidator] ''acceptInvitationAsExistingUser''
       [Path ''token'', Auth LgBody] (Chained (Some ''data''))]"

section \<open>Feedback\<close>

text \<open>Posts: writing and listing.\<close>

definition postRouter_write :: "entry list" where
  "postRouter_write =
    [on POST [Lit ''create''] signed ''createPost''
       [Body ''postData'', Auth LgBody] (Detached (Some ''data'')),
     on POST [Lit ''attachment''] [AuthenticateToken, RequireAttachmentsAuthed, Upload attachment_types VIDEO_MAX_BYTES] ''storeAttachment''
       [File, AuthTenant, Lang LgBodyEn] (Detached (Some ''data'')),
     on PUT [Lit ''update'', Param ''id''] signed ''updatePost''
       [Path ''id'', Body ''postData'', Auth LgBody] (Detached None),
     on DELETE [Lit ''delete'', Param ''id''] signed ''deletePost''
       [Path ''id'', Auth LgBodyQueryEn] (Detached None),
     on POST [Lit ''list''] paged ''getPostList''
       [Pages, Body ''filters'', Auth LgBody] (Detached (Some ''data'')),
     on POST [Param ''id''] signed ''getPostById''
       [Path ''id'', Auth LgBodyEn] (Detached (Some ''data''))]"

text \<open>Posts: status, moderation and duplicates.\<close>

definition postRouter_moderate :: "entry list" where
  "postRouter_moderate =
    [on PATCH [Lit ''status'', Param ''id''] signed ''updatePostStatus''
       [Path ''id'', Body ''newStatus'', Auth LgBody] (Detached None),
     on PATCH [Lit ''moderation'', Param ''id''] signed ''updatePostModeration''
       [Path ''id'', Body ''moderationState'', Auth LgBody] (Detached None),
     on POST [Lit ''spam'', Lit ''purge''] signed ''purgeSpamPosts''
       [Auth LgBody, Body ''ids'', Body ''olderThanDays''] (Detached (Some ''data'')),
     on POST [Param ''id'', Lit ''notify-implemented''] signed ''notifyFeedbackImplemented''
       [Path ''id'', Auth LgBody] (Detached (Some ''data'')),
     on PATCH [Lit ''pin'', Param ''id''] signed ''updatePostPin''
       [Path ''id'', Body ''isPinned'', Auth LgBody] (Detached (Some ''data'')),
     on PATCH [Lit ''duplicate'', Param ''id''] signed ''setPostDuplicate''
       [Path ''id'', Body ''duplicateOfPostId'', Auth LgBody] (Detached None),
     on POST [Param ''id'', Lit ''duplicate-suggestions''] signed ''getDuplicateSuggestions''
       [Path ''id'', Auth LgBodyEn] (Detached (Some ''data''))]"

definition postRouter :: "entry list" where
  "postRouter = postRouter_write @ postRouter_moderate"

text \<open>There is no authenticated vote: voting is for visitors.\<close>

definition voteRouter :: "entry list" where
  "voteRouter =
    [on POST [Lit ''post'', Param ''postId''] signed ''getPostVotes''
       [Path ''postId'', Auth LgBodyEn] (Detached (Some ''data''))]"

definition commentRouter :: "entry list" where
  "commentRouter =
    [on POST [Lit ''create''] signed ''createComment''
       [Body ''commentData'', Auth LgBody] (Detached (Some ''data'')),
     on PUT [Lit ''update'', Param ''id''] signed ''updateComment''
       [Path ''id'', Body ''body'', Auth LgBody] (Detached None),
     on PATCH [Lit ''moderation'', Param ''id''] signed ''updateCommentModeration''
       [Path ''id'', Body ''moderationState'', Auth LgBody] (Detached None),
     on DELETE [Lit ''delete'', Param ''id''] signed ''deleteComment''
       [Path ''id'', Auth LgBodyQueryEn] (Detached None),
     on POST [Lit ''post'', Param ''postId''] signed ''getPostComments''
       [Path ''postId'', Auth LgBodyEn] (Detached (Some ''data''))]"

definition tagRouter_tags :: "entry list" where
  "tagRouter_tags =
    [on POST [Lit ''create''] signed ''createTag''
       [Body ''tagData'', Auth LgBody] (Detached (Some ''data'')),
     on PUT [Lit ''update'', Param ''id''] signed ''updateTag''
       [Path ''id'', Body ''tagData'', Auth LgBody] (Detached None),
     on DELETE [Lit ''delete'', Param ''id''] signed ''deleteTag''
       [Path ''id'', Auth LgBodyQueryEn] (Detached None)]"

definition tagRouter_posts :: "entry list" where
  "tagRouter_posts =
    [on POST [Lit ''list''] signed ''getTagList''
       [Auth LgBodyEn] (Detached (Some ''data'')),
     on POST [Lit ''add-to-post''] signed ''addTagToPost''
       [Body ''postId'', Body ''tagId'', Auth LgBody] (Detached None),
     on DELETE [Lit ''remove-from-post''] signed ''removeTagFromPost''
       [Body ''postId'', Body ''tagId'', Auth LgBody] (Detached None)]"

definition tagRouter :: "entry list" where
  "tagRouter = tagRouter_tags @ tagRouter_posts"

definition roadmapRouter_columns :: "entry list" where
  "roadmapRouter_columns =
    [on POST [Lit ''column'', Lit ''create''] signed ''createRoadmapColumn''
       [Body ''columnData'', Auth LgBody] (Detached (Some ''data'')),
     on PUT [Lit ''column'', Lit ''update'', Param ''id''] signed ''updateRoadmapColumn''
       [Path ''id'', Body ''columnData'', Auth LgBody] (Detached None),
     on DELETE [Lit ''column'', Lit ''delete'', Param ''id''] signed ''deleteRoadmapColumn''
       [Path ''id'', Auth LgBodyQueryEn] (Detached None),
     on POST [Lit ''columns''] signed ''getRoadmapColumns''
       [Auth LgBodyEn] (Detached (Some ''data''))]"

definition roadmapRouter_items :: "entry list" where
  "roadmapRouter_items =
    [on POST [Lit ''item'', Lit ''add''] signed ''addItemToRoadmap''
       [Body ''itemData'', Auth LgBody] (Detached (Some ''data'')),
     on PUT [Lit ''item'', Lit ''update'', Param ''id''] signed ''updateRoadmapItem''
       [Path ''id'', Body ''itemData'', Auth LgBody] (Detached None),
     on DELETE [Lit ''item'', Lit ''remove'', Param ''id''] signed ''removeItemFromRoadmap''
       [Path ''id'', Auth LgBodyQueryEn] (Detached None),
     on POST [Lit ''items''] signed ''getRoadmapItems''
       [Auth LgBodyEn] (Detached (Some ''data''))]"

definition roadmapRouter :: "entry list" where
  "roadmapRouter = roadmapRouter_columns @ roadmapRouter_items"

definition changelogRouter_write :: "entry list" where
  "changelogRouter_write =
    [on POST [Lit ''create''] signed ''createChangelog''
       [Body ''changelogData'', Auth LgBody] (Detached (Some ''data'')),
     on PUT [Lit ''update'', Param ''id''] signed ''updateChangelog''
       [Path ''id'', Body ''changelogData'', Auth LgBody] (Detached None),
     on DELETE [Lit ''delete'', Param ''id''] signed ''deleteChangelog''
       [Path ''id'', Auth LgBodyQueryEn] (Detached None)]"

definition changelogRouter_read :: "entry list" where
  "changelogRouter_read =
    [on POST [Lit ''list''] paged ''getChangelogList''
       [Pages, Auth LgBody] (Detached (Some ''data'')),
     on POST [Param ''id''] signed ''getChangelogById''
       [Path ''id'', Auth LgBodyEn] (Detached (Some ''data'')),
     on PATCH [Lit ''publish'', Param ''id''] signed ''publishChangelog''
       [Path ''id'', Auth LgBodyQueryEn] (Detached None)]"

definition changelogRouter :: "entry list" where
  "changelogRouter = changelogRouter_write @ changelogRouter_read"

section \<open>Workspace tools\<close>

definition notificationRouter :: "entry list" where
  "notificationRouter =
    [on POST [Lit ''list''] paged ''getNotifications''
       [Pages, Auth LgBody] (Detached (Some ''data'')),
     on PATCH [Lit ''mark-read'', Param ''id''] signed ''markAsRead''
       [Path ''id'', Auth LgBodyQueryEn] (Detached None),
     on PATCH [Lit ''mark-all-read''] signed ''markAllAsRead''
       [Auth LgBodyQueryEn] (Detached None),
     on DELETE [Lit ''delete'', Param ''id''] signed ''deleteNotification''
       [Path ''id'', Auth LgBodyQueryEn] (Detached None),
     on DELETE [Lit ''clear''] signed ''clearAllNotifications''
       [Auth LgBodyQueryEn] (Detached (Some ''data'')),
     on POST [Lit ''unread-count''] signed ''getUnreadCount''
       [Auth LgBodyEn] (Detached (Some ''data''))]"

definition apiKeyRouter :: "entry list" where
  "apiKeyRouter =
    [on POST [Lit ''create''] signed ''createApiKey''
       [Body ''apiKeyData'', Auth LgBody] (Detached (Some ''data'')),
     on PUT [Lit ''update'', Param ''id''] signed ''updateApiKey''
       [Path ''id'', Body ''apiKeyData'', Auth LgBody] (Detached None),
     on PATCH [Lit ''revoke'', Param ''id''] signed ''revokeApiKey''
       [Path ''id'', Auth LgBodyQueryEn] (Detached None),
     on POST [Lit ''list''] signed ''getApiKeyList''
       [Auth LgBodyEn] (Detached (Some ''data''))]"

definition auditLogRouter :: "entry list" where
  "auditLogRouter =
    [on POST [Lit ''list''] paged ''getAuditLogs''
       [Pages, Body ''filters'', Auth LgBody] (Detached (Some ''data'')),
     on POST [Lit ''create''] signed ''createAuditLog''
       [Body ''logData'', Auth LgBody] (Detached None)]"

definition integrationRouter :: "entry list" where
  "integrationRouter =
    [on POST [Lit ''create''] signed ''createIntegration''
       [Body ''integrationData'', Auth LgBody] (Detached (Some ''data'')),
     on PUT [Lit ''update'', Param ''id''] signed ''updateIntegration''
       [Path ''id'', Body ''integrationData'', Auth LgBody] (Detached None),
     on DELETE [Lit ''delete'', Param ''id''] signed ''deleteIntegration''
       [Path ''id'', Auth LgBodyQueryEn] (Detached None),
     on POST [Lit ''list''] signed ''getIntegrationList''
       [Auth LgBodyEn] (Detached (Some ''data'')),
     on PATCH [Lit ''toggle'', Param ''id''] signed ''toggleIntegration''
       [Path ''id'', Auth LgBodyQueryEn] (Detached None)]"

definition fileUploadRouter :: "entry list" where
  "fileUploadRouter =
    [Use AuthenticateToken,
     on POST [Lit ''upload-image''] [CheckFilePath, Upload fileTypes uploadFileSize] ''insertImageData''
       [File, AuthOnly, Lang LgBody] (Detached (Some ''filePath''))]"

definition analyticsRouter :: "entry list" where
  "analyticsRouter =
    [on POST [Lit ''overview''] signed ''getAnalyticsOverview''
       [Auth LgBodyEn] (Detached (Some ''data''))]"

definition supportRouter :: "entry list" where
  "supportRouter =
    [on POST [Lit ''session''] signed ''openSession''
       [Auth LgBodyQueryEn] (Detached (Some ''data'')),
     on POST [Lit ''messages'', Param ''sessionId'', Lit ''list''] signed ''getMessages''
       [Path ''sessionId'', Auth LgBodyQueryEn] (Detached (Some ''data'')),
     on POST [Lit ''messages'', Param ''sessionId''] signed ''sendMessage''
       [Path ''sessionId'', Body ''body'', Auth LgBodyQueryEn] (Detached (Some ''data'')),
     on POST [Lit ''unread''] signed ''getUnread''
       [Auth LgBodyQueryEn] (Detached (Some ''data''))]"

section \<open>The public portal\<close>

text \<open>What needs no workspace.  The pattern of an invitation stands before those with a \<open>:subdomain\<close>.\<close>

definition publicRouter_front :: "entry list" where
  "publicRouter_front =
    [on GET [Lit ''tenant''] [] ''resolvePublicTenant''
       [Query ''subdomain'', Query ''domain'', Lang LgQueryEn] (Detached (Some ''data'')),
     on GET [Lit ''invitations'', Param ''token''] [] ''getInvitation''
       [Path ''token'', Lang LgQueryEn] (Detached (Some ''data'')),
     on POST [Lit ''invitations'', Param ''token'', Lit ''accept''] [] ''acceptInvitationAsNewUser''
       [Path ''token'', WholeBody, Lang LgBodyEn, WholeReq] (Detached (Some ''data'')),
     on GET [Lit ''offers''] [] ''getActiveOffers''
       [] Inline,
     on GET [Lit ''form-token''] [] ''issueFormToken''
       [] Inline]"

text \<open>The board, and the posts of visitors.\<close>

definition publicRouter_board :: "entry list" where
  "publicRouter_board =
    [on POST [Param ''subdomain'', Lit ''posts''] [AttachPublicTenant] ''getPublicBoard''
       [BoardId, Body ''paginationData'', Body ''filters'', BoardLang] (Detached (Some ''data'')),
     on POST [Param ''subdomain'', Lit ''feedback''] [Limit PublicWriteLimiter, AttachPublicTenant, OptionalAuth] ''createPublicPost''
       [BoardId, WholeBody, AuthOrNull, BoardLang, WholeReq] (Detached (Some ''data'')),
     on POST [Param ''subdomain'', Lit ''attachments''] [Limit PublicWriteLimiter, AttachPublicTenant, RequireAttachmentsPublic, Upload attachment_types VIDEO_MAX_BYTES] ''storeAttachment''
       [File, BoardId, BoardLang] (Detached (Some ''data'')),
     on PUT [Param ''subdomain'', Lit ''posts'', Param ''postId''] [AttachPublicTenant, AuthenticateToken] ''updatePublicPost''
       [BoardId, Path ''postId'', WholeBody, AuthOnly, BoardLang] (Detached (Some ''data'')),
     on DELETE [Param ''subdomain'', Lit ''posts'', Param ''postId''] [AttachPublicTenant, AuthenticateToken] ''deletePublicPost''
       [BoardId, Path ''postId'', AuthOnly, BoardLang] (Detached (Some ''data'')),
     on POST [Param ''subdomain'', Lit ''posts'', Param ''postId''] [AttachPublicTenant] ''getPublicPostDetail''
       [BoardId, Path ''postId'', BoardLang] (Detached (Some ''data''))]"

text \<open>Votes, comments, the roadmap and the changelog.\<close>

definition publicRouter_thread :: "entry list" where
  "publicRouter_thread =
    [on POST [Param ''subdomain'', Lit ''posts'', Param ''postId'', Lit ''vote''] [Limit PublicWriteLimiter, AttachPublicTenant] ''togglePublicVote''
       [BoardId, Path ''postId'', Body ''guestId'', BoardLang, WholeReq] (Detached (Some ''data'')),
     on POST [Param ''subdomain'', Lit ''posts'', Param ''postId'', Lit ''comments''] [Limit PublicWriteLimiter, AttachPublicTenant, OptionalAuth] ''createPublicComment''
       [BoardId, Path ''postId'', WholeBody, AuthOrNull, BoardLang, WholeReq] (Detached (Some ''data'')),
     on PUT [Param ''subdomain'', Lit ''comments'', Param ''commentId''] [AttachPublicTenant, AuthenticateToken] ''updatePublicComment''
       [BoardId, Path ''commentId'', WholeBody, AuthOnly, BoardLang] (Detached (Some ''data'')),
     on DELETE [Param ''subdomain'', Lit ''comments'', Param ''commentId''] [AttachPublicTenant, AuthenticateToken] ''deletePublicComment''
       [BoardId, Path ''commentId'', AuthOnly, BoardLang] (Detached (Some ''data'')),
     on POST [Param ''subdomain'', Lit ''roadmap''] [AttachPublicTenant] ''getPublicRoadmap''
       [BoardId, BoardLang] (Detached (Some ''data'')),
     on POST [Param ''subdomain'', Lit ''changelog''] [AttachPublicTenant] ''getPublicChangelogList''
       [BoardId, Body ''paginationData'', BoardLang] (Detached (Some ''data'')),
     on POST [Param ''subdomain'', Lit ''changelog'', Param ''changelogId''] [AttachPublicTenant] ''getPublicChangelogDetail''
       [BoardId, Path ''changelogId'', BoardLang] (Detached (Some ''data''))]"

definition publicRouter :: "entry list" where
  "publicRouter = publicRouter_front @ publicRouter_board @ publicRouter_thread"

section \<open>Billing\<close>

text \<open>The operations of the provider that \<open>getBillingProvider()\<close> names; \<open>reply\<close> shapes the answer.\<close>

definition billingRouter :: "entry list" where
  "billingRouter =
    [on POST [Lit ''status''] signed ''getBillingStatus''
       [Auth LgBody] (Shaped (Some ''data'')),
     on POST [Lit ''checkout''] signed ''checkout''
       [Body ''plan'', Auth LgBody, Body ''promotionCode'', Body ''interval''] (Shaped (Some ''data'')),
     on POST [Lit ''redeem''] signed ''redeemPromo''
       [Body ''code'', Auth LgBody] (Shaped (Some ''data'')),
     on POST [Lit ''change'', Lit ''preview''] signed ''previewChange''
       [Body ''plan'', Body ''interval'', Auth LgBody] (Shaped (Some ''data'')),
     on POST [Lit ''change''] signed ''applyChange''
       [Body ''plan'', Body ''interval'', Auth LgBody] (Shaped (Some ''data'')),
     on POST [Lit ''change'', Lit ''cancel''] signed ''cancelScheduledChange''
       [Auth LgBody] (Shaped (Some ''data'')),
     on POST [Lit ''cancel''] signed ''cancelSubscription''
       [Auth LgBody] (Shaped (Some ''data'')),
     on POST [Lit ''resume''] signed ''resumeSubscription''
       [Auth LgBody] (Shaped (Some ''data'')),
     on POST [Lit ''portal''] signed ''createPortalSession''
       [Auth LgBody] (Shaped (Some ''data''))]"

text \<open>The raw body and its signature header.\<close>

definition stripeWebhookRouter :: "entry list" where
  "stripeWebhookRouter =
    [on POST [] [] ''handleStripeWebhook''
       [WholeBody, Header ''stripe-signature''] Inline]"

definition paddleWebhookRouter :: "entry list" where
  "paddleWebhookRouter =
    [on POST [] [] ''handleWebhook''
       [WholeBody, Header ''paddle-signature''] Inline]"

section \<open>Administration\<close>

text \<open>Sign-in stands before the gate, everything else behind it.\<close>

definition adminRouter_workspaces :: "entry list" where
  "adminRouter_workspaces =
    [on POST [Lit ''auth'', Lit ''login''] [LanguageValidator] ''adminLogin''
       [BodyOrEmpty ''userData'', Lang LgBody] (Detached (Some ''admin'')),
     Use AuthenticateAdmin,
     on GET [Lit ''overview''] [] ''getOverview''
       [Lang LgBodyQueryEn] (Chained (Some ''data'')),
     on GET [Lit ''workspaces''] [] ''listWorkspaces''
       [Query ''search'', Lang LgBodyQueryEn] (Chained (Some ''data'')),
     on GET [Lit ''workspaces'', Param ''id''] [] ''getWorkspace''
       [Path ''id'', Lang LgBodyQueryEn] (Chained (Some ''data'')),
     on PUT [Lit ''workspaces'', Param ''id''] [] ''updateWorkspace''
       [Path ''id'', WholeBody, Lang LgBodyQueryEn] (Chained (Some ''data'')),
     on GET [Lit ''accounts''] [] ''listAccounts''
       [Query ''search'', Lang LgBodyQueryEn] (Chained (Some ''data'')),
     on PUT [Lit ''accounts'', Param ''email'', Lit ''plan''] [] ''setAccountPlanAdmin''
       [Path ''email'', Body ''plan'', Body ''durationMonths'', Lang LgBodyQueryEn] (Chained (Some ''data'')),
     on DELETE [Lit ''workspaces'', Param ''id''] [] ''deleteWorkspace''
       [Path ''id'', Lang LgBodyQueryEn] (Chained (Some ''data'')),
     on POST [Lit ''workspaces'', Param ''id'', Lit ''enter''] [] ''enterWorkspace''
       [Path ''id'', AdminRow, WholeReq, Lang LgBodyQueryEn] (Chained (Some ''data''))]"

text \<open>Posts, comments and support of any workspace.\<close>

definition adminRouter_content :: "entry list" where
  "adminRouter_content =
    [on GET [Lit ''workspaces'', Param ''id'', Lit ''posts''] [] ''listWorkspacePosts''
       [Path ''id'', WholeQuery, Lang LgBodyQueryEn] (Chained (Some ''data'')),
     on PUT [Lit ''workspaces'', Param ''id'', Lit ''posts'', Param ''postId'', Lit ''status''] [] ''setPostStatus''
       [Path ''id'', Path ''postId'', Body ''status'', Lang LgBodyQueryEn] (Chained (Some ''data'')),
     on PUT [Lit ''workspaces'', Param ''id'', Lit ''posts'', Param ''postId'', Lit ''pin''] [] ''setPostPin''
       [Path ''id'', Path ''postId'', Body ''isPinned'', Lang LgBodyQueryEn] (Chained (Some ''data'')),
     on DELETE [Lit ''workspaces'', Param ''id'', Lit ''posts'', Param ''postId''] [] ''deleteWorkspacePost''
       [Path ''id'', Path ''postId'', Lang LgBodyQueryEn] (Chained (Some ''data'')),
     on DELETE [Lit ''workspaces'', Param ''id'', Lit ''posts''] [] ''clearWorkspaceFeedback''
       [Path ''id'', Body ''confirm'', Lang LgBodyQueryEn] (Chained (Some ''data'')),
     on GET [Lit ''workspaces'', Param ''id'', Lit ''posts'', Param ''postId'', Lit ''comments''] [] ''listPostComments''
       [Path ''id'', Path ''postId'', Lang LgBodyQueryEn] (Chained (Some ''data'')),
     on DELETE [Lit ''workspaces'', Param ''id'', Lit ''comments'', Param ''commentId''] [] ''deleteComment''
       [Path ''id'', Path ''commentId'', Lang LgBodyQueryEn] (Chained (Some ''data'')),
     on GET [Lit ''support'', Lit ''unread''] [] ''getSupportInboxUnread''
       [Lang LgBodyQueryEn] (Chained (Some ''data'')),
     on GET [Lit ''support'', Lit ''sessions''] [] ''listSupportSessions''
       [Query ''status'', Lang LgBodyQueryEn] (Chained (Some ''data'')),
     on GET [Lit ''support'', Lit ''sessions'', Param ''id''] [] ''getSupportSession''
       [Path ''id'', Lang LgBodyQueryEn] (Chained (Some ''data'')),
     on POST [Lit ''support'', Lit ''sessions'', Param ''id'', Lit ''messages''] [] ''sendSupportMessage''
       [Path ''id'', Body ''body'', AdminId, Lang LgBodyQueryEn] (Chained (Some ''data'')),
     on PUT [Lit ''support'', Lit ''sessions'', Param ''id'', Lit ''close''] [] ''closeSupportSession''
       [Path ''id'', AdminId, Lang LgBodyQueryEn] (Chained (Some ''data''))]"

text \<open>Users, administrators, promo codes and offers.\<close>

definition adminRouter_people :: "entry list" where
  "adminRouter_people =
    [on GET [Lit ''users''] [] ''listAllUsers''
       [Query ''search'', Lang LgBodyQueryEn] (Chained (Some ''data'')),
     on PUT [Lit ''users'', Param ''id''] [] ''updateUser''
       [Path ''id'', WholeBody, Lang LgBodyQueryEn] (Chained (Some ''data'')),
     on PUT [Lit ''users'', Param ''id'', Lit ''password''] [] ''resetUserPassword''
       [Path ''id'', Body ''password'', Lang LgBodyQueryEn] (Chained (Some ''data'')),
     on GET [Lit ''users'', Param ''id'', Lit ''deletion-summary''] [] ''getUserDeletionSummary''
       [Path ''id'', Lang LgBodyQueryEn] (Chained (Some ''data'')),
     on DELETE [Lit ''users'', Param ''id''] [] ''deleteUser''
       [Path ''id'', Lang LgBodyQueryEn] (Chained (Some ''data'')),
     on GET [Lit ''admins''] [] ''listAdmins''
       [Lang LgBodyQueryEn] (Chained (Some ''data'')),
     on POST [Lit ''admins''] [] ''createAdmin''
       [WholeBody, Lang LgBodyQueryEn] (Chained (Some ''data'')),
     on PUT [Lit ''admins'', Param ''id'', Lit ''active''] [] ''setAdminActive''
       [Path ''id'', Body ''isActive'', AdminEmail, Lang LgBodyQueryEn] (Chained (Some ''data'')),
     on DELETE [Lit ''admins'', Param ''id''] [] ''deleteAdmin''
       [Path ''id'', AdminEmail, Lang LgBodyQueryEn] (Chained (Some ''data'')),
     on GET [Lit ''promo-codes''] [] ''listPromoCodes''
       [Lang LgBodyQueryEn] (Chained (Some ''data'')),
     on POST [Lit ''promo-codes''] [] ''createPromoCode''
       [WholeBody, AdminId, Lang LgBodyQueryEn] (Chained (Some ''data'')),
     on PUT [Lit ''promo-codes'', Param ''id'', Lit ''revoke''] [] ''revokePromoCode''
       [Path ''id'', Lang LgBodyQueryEn] (Chained (Some ''data'')),
     on PUT [Lit ''promo-codes'', Param ''id'', Lit ''reactivate''] [] ''reactivatePromoCode''
       [Path ''id'', WholeBody, AdminId, Lang LgBodyQueryEn] (Chained (Some ''data'')),
     on DELETE [Lit ''promo-codes'', Param ''id''] [] ''deletePromoCode''
       [Path ''id'', Lang LgBodyQueryEn] (Chained (Some ''data'')),
     on GET [Lit ''offers''] [] ''listOffers''
       [Lang LgBodyQueryEn] (Chained (Some ''data'')),
     on POST [Lit ''offers''] [] ''createOffer''
       [WholeBody, AdminId, Lang LgBodyQueryEn] (Chained (Some ''data'')),
     on PUT [Lit ''offers'', Param ''id'', Lit ''deactivate''] [] ''deactivateOffer''
       [Path ''id'', Lang LgBodyQueryEn] (Chained (Some ''data''))]"

definition adminRouter :: "entry list" where
  "adminRouter = adminRouter_workspaces @ adminRouter_content @ adminRouter_people"

section \<open>The application\<close>

text \<open>
  \<open>app.js\<close>: the global limiter, the webhooks before the body parsers, the limiters of single
  paths, then the routers.  Only \<open>/health\<close>, the static files and the 404 follow.
\<close>

definition app :: "item list" where
  "app =
    [UseAt [] (Limit ApiLimiter),
     Mount [''webhooks'', ''stripe''] stripeWebhookRouter,
     Mount [''webhooks'', ''paddle''] paddleWebhookRouter,
     UseAt [''users'', ''login''] (Limit AuthLimiter),
     UseAt [''users'', ''register''] (Limit AuthLimiter),
     UseAt [''admin'', ''auth'', ''login''] (Limit AuthLimiter),
     UseAt [''users'', ''password'', ''forgot''] (Limit ExpensiveActionLimiter),
     UseAt [''users'', ''password'', ''reset''] (Limit AuthLimiter),
     UseAt [''invitations''] (Limit ExpensiveActionLimiter),
     UseAt [''billing'', ''checkout''] (Limit ExpensiveActionLimiter),
     Mount [''tenants''] tenantRouter,
     Mount [''users''] userRouter,
     Mount [''posts''] postRouter,
     Mount [''votes''] voteRouter,
     Mount [''comments''] commentRouter,
     Mount [''tags''] tagRouter,
     Mount [''roadmap''] roadmapRouter,
     Mount [''changelog''] changelogRouter,
     Mount [''notifications''] notificationRouter,
     Mount [''api-keys''] apiKeyRouter,
     Mount [''audit-logs''] auditLogRouter,
     Mount [''integrations''] integrationRouter,
     Mount [''uploader''] fileUploadRouter,
     Mount [''analytics''] analyticsRouter,
     Mount [''public''] publicRouter,
     Mount [''billing''] billingRouter,
     Mount [''admin''] adminRouter,
     Mount [''invitations''] invitationRouter,
     Mount [''support''] supportRouter]"

end
