(* ===== verification/Route_Facts.thy ===== *)
theory Route_Facts
  imports Routes
begin

text \<open>
  Facts about the routing: a request ends at the first endpoint whose method and pattern match,
  the handler finds everything it reads, nothing but a fixed list of endpoints is reached
  without a credential, and no endpoint is hidden behind another.
\<close>

section \<open>The world a credential is judged in\<close>

text \<open>What every middleware leaves alone; \<open>touchSession\<close> only moves the last-seen time.\<close>

definition stands :: "world \<Rightarrow> world \<Rightarrow> bool" where
  "stands w w' \<longleftrightarrow> svc w' = svc w \<and> js_now w' = js_now w \<and> users (db w') = users (db w)
     \<and> (\<forall>sid. session_active (db w') sid = session_active (db w) sid)"

lemma stands_refl [simp]: "stands w w"
  by (simp add: stands_def)

lemma stands_trans: "stands w w' \<Longrightarrow> stands w' w'' \<Longrightarrow> stands w w''"
  by (simp add: stands_def)

lemma list_ex_update_where: "(\<And>x. Q (f x) = Q x) \<Longrightarrow> list_ex Q (update_where c f xs) = list_ex Q xs"
  by (induction xs) (simp_all add: update_where_def)

lemma session_active_update:
  "(\<And>s. s_id (f s) = s_id s \<and> s_revoked (f s) = s_revoked s) \<Longrightarrow>
   session_active (d\<lparr>sessions := update_where c f (sessions d)\<rparr>) = session_active d"
  by (rule ext) (simp add: session_active_def list_ex_update_where)

lemma touch_keeps_active: "preserves (\<lambda>d. users d = U \<and> session_active d = A) (touchSession sid)"
  unfolding touchSession_def by (intro keeps preserves_execute) (simp add: session_active_update)

lemma steady_jwt [keeps]:
  "(\<And>c. steady (f c)) \<Longrightarrow> steady m \<Longrightarrow> steady n \<Longrightarrow>
   steady (case z of JwtValid c \<Rightarrow> f c | JwtExpired \<Rightarrow> m | JwtInvalid \<Rightarrow> n)"
  by (cases z) simp_all

lemma steady_prod [keeps]: "(\<And>a b. steady (f a b)) \<Longrightarrow> steady (case z of (a, b) \<Rightarrow> f a b)"
  by (cases z) simp

lemma keeps_jwt [keeps]:
  "(\<And>c. preserves P (f c)) \<Longrightarrow> preserves P m \<Longrightarrow> preserves P n \<Longrightarrow>
   preserves P (case z of JwtValid c \<Rightarrow> f c | JwtExpired \<Rightarrow> m | JwtInvalid \<Rightarrow> n)"
  by (cases z) simp_all

lemmas middleware_defs = step_def authenticateToken_def optionalAuth_def authenticateAdmin_def
  isSessionActive_def getActiveUser_def attachPublicTenant_def gate_attachments_def
  requireAttachments_def planAllows_def getTenantPlan_def

lemma step_steady [keeps]: "steady (step limited m rq)"
  unfolding middleware_defs touchSession_def by (cases m; simp only: middleware.case; intro keeps)

lemma middleware_keeps [keeps]: "(\<And>sid. preserves P (touchSession sid)) \<Longrightarrow> preserves P (step limited m rq)"
  unfolding middleware_defs by (cases m; simp only: middleware.case; intro keeps; assumption?)

lemma step_stands: "wp (step limited m rq) (\<lambda>_ w'. stands w w') w"
  by (rule wp_mono [OF wp_conj [OF steady_wp [OF step_steady]
        preserves_wp [OF middleware_keeps [OF touch_keeps_active [of "users (db w)" "session_active (db w)"]]]]])
     (auto simp: stands_def)

section \<open>Credentials\<close>

text \<open>
  \<open>signed_as\<close>: the bearer token verifies now, its session is open, and identity, workspace and
  role are those of an active row of \<open>users\<close>; an optional sign-in drops the session id.
\<close>

definition signed_as :: "world \<Rightarrow> jstring option \<Rightarrow> auth \<Rightarrow> bool" where
  "signed_as w h a \<longleftrightarrow>
     (\<exists>token sid. bearer (or_empty h) = Some token \<and> authenticated w token (a\<lparr>au_sid := sid\<rparr>))"

definition admin_as :: "world \<Rightarrow> jstring option \<Rightarrow> user \<Rightarrow> bool" where
  "admin_as w h u \<longleftrightarrow>
     (\<exists>token c. bearer (or_empty h) = Some token \<and> jwt_verify (svc w) (js_now w) token = JwtValid c
        \<and> jc_scope c = Some ''admin'' \<and> u \<in> set (users (db w)) \<and> u_admin u \<and> u_active u
        \<and> sql_eq (u_email u) (or_empty (jc_email c)))"

definition vouched :: "world \<Rightarrow> http_request \<Rightarrow> bool" where
  "vouched w rq \<longleftrightarrow> (\<forall>a. rq_auth rq = Some a \<longrightarrow> signed_as w (rq_header rq) a)
     \<and> (\<forall>u. rq_admin rq = Some u \<longrightarrow> admin_as w (rq_header rq) u)"

lemma authenticated_stands: "stands w w' \<Longrightarrow> authenticated w' t a = authenticated w t a"
  by (simp add: stands_def authenticated_def)

lemma vouched_stands: "stands w w' \<Longrightarrow> vouched w' rq = vouched w rq"
  by (simp add: vouched_def signed_as_def admin_as_def authenticated_stands) (simp add: stands_def)

lemma signed_asI:
  "bearer (or_empty h) = Some token \<Longrightarrow> authenticated w token (a\<lparr>au_sid := sid\<rparr>) \<Longrightarrow> signed_as w h a"
  unfolding signed_as_def by blast

lemma signed_spec:
  "wp (authenticateToken h)
     (\<lambda>r _. case r of Inr (Passed a) \<Rightarrow> signed_as w h a | _ \<Rightarrow> True) w"
proof (rule wp_mono [OF authenticateToken_spec], clarsimp split: sum.splits auth_result.splits)
  fix a token assume "bearer (or_empty h) = Some token" "authenticated w token a"
  then show "signed_as w h a" by (intro signed_asI [where sid = "au_sid a"]) simp_all
qed

lemma admin_spec:
  "wp (authenticateAdmin h) (\<lambda>r _. case r of Inr (Inr u) \<Rightarrow> admin_as w h u | _ \<Rightarrow> True) w"
  by (auto simp: authenticateAdmin_def admin_as_def split: option.splits jwt_result.splits
           dest!: first_row_SomeD)

text \<open>An optional sign-in accepts a user only on an active session.\<close>

lemma optional_spec:
  "wp (optionalAuth h) (\<lambda>r _. case r of Inr (Some u) \<Rightarrow> signed_as w h (auth_of u None) | _ \<Rightarrow> True) w"
proof -
  have sess: "wp (bnd (isSessionActive (jc_sid c)) (\<lambda>active. if active then getActiveUser i email else ret None))
          (\<lambda>r _. case r of Inr (Some u) \<Rightarrow> signed_as w h (auth_of u None) | _ \<Rightarrow> True) w"
    if c: "bearer (or_empty h) = Some token" "jwt_verify (svc w) (js_now w) token = JwtValid c"
      "jc_id c = Some i" "or_null (or_empty (jc_email c)) = Some email" for token c i email
  proof (rule wp_seq [OF isSessionActive_spec], goal_cases)
    case (1 active w')
    show ?case
    proof (cases active)
      case True
      with 1 obtain sid where sid: "jc_sid c = Some sid" "session_active (db w) sid" by auto
      have "signed_as w h (auth_of u None)"
        if "u \<in> set (users (db w))" "u_id u = i" "sql_eq (u_email u) email" "u_active u" for u
      proof (rule signed_asI [OF c(1), where sid = "Some sid"])
        show "authenticated w token ((auth_of u None)\<lparr>au_sid := Some sid\<rparr>)"
          unfolding authenticated_def using that c sid
          by (intro exI [of _ c] exI [of _ sid] exI [of _ u]) (auto simp: auth_of_def)
      qed
      then show ?thesis using 1 True
        by simp (rule wp_mono [OF getActiveUser_spec], auto split: sum.splits option.splits)
    qed simp
  qed simp
  show ?thesis
    by (auto simp: optionalAuth_def simp del: wp_bnd simp add: wp_bnd [of "asks f" for f]
             split: option.splits jwt_result.splits sum.splits intro!: wp_mono [OF sess])
qed

section \<open>What a chain leaves behind\<close>

text \<open>The request after a chain of middleware \<open>ms\<close>: nothing attached is lost.\<close>

definition grown :: "world \<Rightarrow> middleware list \<Rightarrow> http_request \<Rightarrow> http_request \<Rightarrow> bool" where
  "grown w ms rq rq' \<longleftrightarrow>
     set (attached_by ms) \<union> attributes rq \<subseteq> attributes rq' \<and> rq_params rq' = rq_params rq
     \<and> rq_header rq' = rq_header rq \<and> (vouched w rq \<longrightarrow> vouched w rq')"

lemma grown_Nil: "grown w [] rq rq"
  by (simp add: grown_def attached_by_def)

lemma grown_Cons: "grown w [m] rq rq1 \<Longrightarrow> grown w ms rq1 rq2 \<Longrightarrow> grown w (m # ms) rq rq2"
  by (auto simp: grown_def attached_by_def)

lemmas grown_defs = grown_def attached_by_def attributes_def vouched_def

lemma attributes_iff:
  "x \<in> attributes rq \<longleftrightarrow> (case x of HasAuth \<Rightarrow> rq_auth rq \<noteq> None | HasAdmin \<Rightarrow> rq_admin rq \<noteq> None
     | HasBoard \<Rightarrow> rq_board rq \<noteq> None | HasPages \<Rightarrow> rq_page rq \<noteq> None)"
  by (simp add: attributes_def)

lemma grown_quiet:
  "attributes rq \<subseteq> attributes rq' \<Longrightarrow> provides m = [] \<Longrightarrow> rq_params rq' = rq_params rq \<Longrightarrow>
   rq_header rq' = rq_header rq \<Longrightarrow> rq_auth rq' = rq_auth rq \<Longrightarrow> rq_admin rq' = rq_admin rq \<Longrightarrow> grown w [m] rq rq'"
  by (simp add: grown_def attached_by_def vouched_def)

lemma grown_auth:
  "set (provides m) \<subseteq> {HasAuth} \<Longrightarrow> signed_as w (rq_header rq) a \<Longrightarrow> grown w [m] rq (rq\<lparr>rq_auth := Some a\<rparr>)"
  by (auto simp: grown_def attached_by_def vouched_def attributes_iff split: attribute.splits)

lemma grown_admin:
  "admin_as w (rq_header rq) u \<Longrightarrow> grown w [AuthenticateAdmin] rq (rq\<lparr>rq_admin := Some u\<rparr>)"
  by (auto simp: grown_def attached_by_def vouched_def attributes_iff split: attribute.splits)

lemma grown_board: "grown w [AttachPublicTenant] rq (rq\<lparr>rq_board := Some t\<rparr>)"
  and grown_page: "grown w [PaginationData] rq (rq\<lparr>rq_page := Some q\<rparr>)"
  and grown_file: "grown w [Upload ty l] rq (rq\<lparr>rq_file := Some f\<rparr>)"
  by (auto simp: grown_def attached_by_def vouched_def attributes_iff split: attribute.splits)

lemma grown_same: "provides m = [] \<Longrightarrow> grown w [m] rq rq"
  by (simp add: grown_quiet)

definition passes :: "world \<Rightarrow> middleware list \<Rightarrow> http_request \<Rightarrow> exn + (http_reply + http_request) \<Rightarrow> bool" where
  "passes w ms rq r \<longleftrightarrow> (\<forall>rq'. r = Inr (Inr rq') \<longrightarrow> grown w ms rq rq')"

lemma passes_simps [simp]:
  "passes w ms rq (Inl e)" "passes w ms rq (Inr (Inl a))"
  "passes w ms rq (Inr (Inr rq')) \<longleftrightarrow> grown w ms rq rq'"
  by (simp_all add: passes_def)

lemma step_grows: "wp (step limited m rq) (\<lambda>r _. passes w [m] rq r) w"
proof (cases m)
  case AuthenticateToken
  have "wp (bnd (authenticateToken (rq_header rq)) (\<lambda>r. ret (case r of
           Refused code text \<Rightarrow> Inl (Sent code text) | Passed au \<Rightarrow> Inr (rq\<lparr>rq_auth := Some au\<rparr>))))
        (\<lambda>r _. passes w [m] rq r) w"
    by (rule wp_seq [OF signed_spec]) (auto simp: AuthenticateToken split: auth_result.splits intro!: grown_auth)
  then show "wp (step limited m rq) (\<lambda>r _. passes w [m] rq r) w"
    by (simp add: AuthenticateToken step_def del: wp_bnd) (erule wp_mono, auto split: sum.splits)
next
  case AuthenticateAdmin
  show "wp (step limited m rq) (\<lambda>r _. passes w [m] rq r) w"
    unfolding AuthenticateAdmin step_def middleware.case
    by (rule wp_seq [OF admin_spec]) (auto split: sum.splits intro!: grown_admin)
next
  case OptionalAuth
  show "wp (step limited m rq) (\<lambda>r _. passes w [m] rq r) w"
    unfolding OptionalAuth step_def middleware.case
    by (rule wp_seq [OF optional_spec]) (auto split: option.splits intro!: grown_auth grown_same)
next
  case AttachPublicTenant
  show "wp (step limited m rq) (\<lambda>r _. passes w [m] rq r) w"
    unfolding AttachPublicTenant step_def middleware.case
    by (rule wp_seq [OF wp_any [where Q = "\<lambda>_ _. True"]]) (auto split: sum.splits intro!: grown_board)
next
  case RequireAttachmentsAuthed
  show "wp (step limited m rq) (\<lambda>r _. passes w [m] rq r) w"
    unfolding RequireAttachmentsAuthed step_def middleware.case gate_attachments_def wp_case_option
    by (auto split: option.splits simp del: wp_bnd intro!: wp_seq [OF wp_any [where Q = "\<lambda>_ _. True"]] grown_same)
next
  case RequireAttachmentsPublic
  show "wp (step limited m rq) (\<lambda>r _. passes w [m] rq r) w"
    unfolding RequireAttachmentsPublic step_def middleware.case gate_attachments_def wp_case_option
    by (auto split: option.splits simp del: wp_bnd intro!: wp_seq [OF wp_any [where Q = "\<lambda>_ _. True"]] grown_same)
qed (auto simp: step_def checkIfFileSavePathExist_def errorCheck_def
       split: option.splits sum.splits intro!: grown_same grown_page grown_file)

lemma grown_stands: "stands w w' \<Longrightarrow> grown w' ms rq rq' = grown w ms rq rq'"
  by (simp add: grown_def vouched_stands)

lemma step_spec:
  "stands w w1 \<Longrightarrow> wp (step limited m rq) (\<lambda>r w2. passes w [m] rq r \<and> stands w w2) w1"
  by (rule wp_mono [OF wp_conj [OF step_grows step_stands]])
     (auto simp: passes_def grown_stands intro: stands_trans)

lemma run_chain_spec:
  "stands w w1 \<Longrightarrow> wp (run_chain limited ms rq) (\<lambda>r w2. passes w ms rq r \<and> stands w w2) w1"
proof (induction ms arbitrary: rq w1)
  case (Cons m ms)
  have rest: "wp (run_chain limited ms rq1) (\<lambda>r w3. passes w (m # ms) rq r \<and> stands w w3) w2"
    if "grown w [m] rq rq1" "stands w w2" for rq1 w2
    by (rule wp_mono [OF Cons.IH [OF that(2)]]) (use that(1) in \<open>auto simp: passes_def intro: grown_Cons\<close>)
  show ?case
    unfolding run_chain.simps
    by (rule wp_seq [OF step_spec [OF Cons.prems]]) (auto split: sum.splits intro: rest)
qed (simp add: grown_Nil)

section \<open>First match\<close>

lemma match_append:
  "match_path (map Lit pre @ p) ss =
     (case match_prefix pre ss of None \<Rightarrow> None | Some rest \<Rightarrow> match_path p rest)"
  by (induction pre ss rule: match_prefix.induct) auto

lemma param_names_iff: "x \<in> set (param_names p) \<longleftrightarrow> Param x \<in> set p"
  by (induction p rule: param_names.induct) auto

lemma match_params: "match_path p ss = Some m \<Longrightarrow> map fst m = param_names p"
  by (induction p ss arbitrary: m rule: match_path.induct) (auto split: if_splits option.splits)

lemma planned_skip: "\<not> hits v ss e \<Longrightarrow> planned (e # es) v ss x = planned es v ss x"
proof -
  assume "\<not> hits v ss e"
  then have "find (hits v ss) (e # es) = find (hits v ss) es" by simp
  then show ?thesis by (simp only: planned_def)
qed

lemma planned_hit:
  "hits v ss (v', p, chain, r) \<Longrightarrow> map fst m = param_names (rt_path r) \<Longrightarrow>
   planned ((v', p, chain, r) # es) v ss (extra @ chain, Some (r, m))"
  by (auto simp: planned_def)

lemma plan_spec:
  "match_prefix pre ss = Some rest \<Longrightarrow>
   planned (router_endpoints pre acc es) v ss (plan es (extra @ acc) v rest)"
proof (induction es arbitrary: acc)
  case (Cons e es)
  show ?case
  proof (cases e)
    case (Use m)
    then show ?thesis using Cons.IH [of "acc @ [m]"] Cons.prems by simp
  next
    case (Route r)
    let ?e = "(rt_verb r, map Lit pre @ rt_path r, acc @ rt_chain r, r)"
    show ?thesis
    proof (cases "hits v ss ?e")
      case True
      then obtain m where m: "rt_verb r = v" "match_path (rt_path r) rest = Some m"
        using Cons.prems by (auto simp: match_append)
      with planned_hit [OF True match_params [OF m(2)], of _ extra] show ?thesis
        by (simp add: Route)
    next
      case False
      then have "plan (e # es) (extra @ acc) v rest = plan es (extra @ acc) v rest"
        using Cons.prems by (auto simp: Route match_append)
      with planned_skip [OF False] show ?thesis
        using Cons.IH [OF Cons.prems, of acc] by (simp add: Route)
    qed
  qed
qed (simp add: planned_def)

lemma planned_append:
  "planned (es @ fs) v ss x = (if find (hits v ss) es = None then planned fs v ss x else planned es v ss x)"
  by (auto simp: planned_def find_append split: prod.splits option.splits)

lemma planned_miss: "planned es v ss (ms, None) \<Longrightarrow> find (hits v ss) es = None"
  and planned_found: "planned es v ss (ms, Some h) \<Longrightarrow> find (hits v ss) es \<noteq> None"
  by (auto simp: planned_def)

lemma router_misses:
  "match_prefix pre ss = None \<Longrightarrow> find (hits v ss) (router_endpoints pre acc es) = None"
  by (induction pre acc es rule: router_endpoints.induct) (simp_all add: match_append)

lemma plan_app_spec: "planned (endpoints is) v ss (plan_app is acc v ss)"
proof (induction "is" arbitrary: acc)
  case (Cons i "is")
  show ?case
  proof (cases i)
    case (UseAt pre m)
    then show ?thesis using Cons.IH by simp
  next
    case (Mount pre es)
    show ?thesis
    proof (cases "match_prefix pre ss")
      case None
      then show ?thesis using Cons.IH by (simp add: Mount planned_append router_misses)
    next
      case (Some rest)
      obtain ms hit where pl: "plan es acc v rest = (ms, hit)" by (cases "plan es acc v rest")
      have p: "planned (router_endpoints pre [] es) v ss (ms, hit)"
        using plan_spec [OF Some, of "[]" es v acc] pl by simp
      show ?thesis
      proof (cases hit)
        case None
        then show ?thesis using Some pl p Cons.IH planned_miss by (simp add: Mount planned_append)
      next
        case hit: (Some h)
        show ?thesis
          using Some pl p planned_found [OF p [unfolded hit]] by (auto simp: Mount planned_append hit)
      qed
    qed
  qed
qed (simp add: planned_def)

lemma dispatch_first_express: "express dispatch_first"
  by (simp add: express_def dispatch_first_def plan_app_spec)

section \<open>What holds when a handler is reached\<close>

definition arrives :: "item list \<Rightarrow> world \<Rightarrow> http_request \<Rightarrow> route \<Rightarrow> http_request \<Rightarrow> bool" where
  "arrives items w rq r rq' \<longleftrightarrow>
     (\<exists>p chain. find (hits (rq_verb rq) (rq_path rq)) (endpoints items) = Some (rq_verb rq, p, chain, r)
        \<and> set (attached_by chain) \<subseteq> attributes rq'
        \<and> map fst (rq_params rq') = param_names (rt_path r) \<and> rq_header rq' = rq_header rq \<and> vouched w rq')"

lemma vouched_fresh: "vouched w (fresh_request rq ps)"
  by (simp add: fresh_request_def vouched_def)

lemma fresh_simps: "rq_params (fresh_request rq ps) = ps" "rq_header (fresh_request rq ps) = rq_header rq"
  by (simp_all add: fresh_request_def)

lemma attached_append: "attached_by (a @ b) = attached_by a @ attached_by b"
  by (simp add: attached_by_def)

lemma serve_spec:
  assumes "express dispatch"
  shows "wp (serve dispatch limited items rq)
     (\<lambda>x _. case x of Inr (Reached r rq') \<Rightarrow> arrives items w rq r rq' | _ \<Rightarrow> True) w"
proof -
  obtain ms hit where pl: "dispatch items (rq_verb rq) (rq_path rq) = (ms, hit)"
    by (cases "dispatch items (rq_verb rq) (rq_path rq)")
  have p: "planned (endpoints items) (rq_verb rq) (rq_path rq) (ms, hit)"
    using assms pl unfolding express_def by metis
  let ?rq = "fresh_request rq (case hit of None \<Rightarrow> [] | Some (r, ps) \<Rightarrow> ps)"
  have arr: "arrives items w rq r rq'" if "hit = Some (r, m)" "grown w ms ?rq rq'" for r m rq'
    using p that vouched_fresh
    by (auto simp: planned_def arrives_def grown_def attached_append fresh_simps)
  show ?thesis
    unfolding serve_def pl prod.case
    by (rule wp_seq [OF run_chain_spec [OF stands_refl]])
       (auto simp: passes_def arr split: sum.splits option.splits)
qed

section \<open>Arguments\<close>

text \<open>Every attribute the arguments of the handler name is attached, every path parameter bound.\<close>

definition supplied :: "route \<Rightarrow> http_request \<Rightarrow> bool" where
  "supplied r rq \<longleftrightarrow>
     (\<forall>a\<in>set (rt_args r). set (demands a) \<subseteq> attributes rq
        \<and> (\<forall>x. a = Path x \<longrightarrow> map_of (rq_params rq) x \<noteq> None))"

lemma map_of_bound: "map_of m x \<noteq> None \<longleftrightarrow> x \<in> set (map fst m)"
  by (auto simp: map_of_eq_None_iff)

lemma arrives_supplied:
  assumes "arrives items w rq r rq'" "list_all well_typed (endpoints items)"
  shows "supplied r rq'"
proof -
  obtain v p chain where e: "well_typed (v, p, chain, r)" "set (attached_by chain) \<subseteq> attributes rq'"
    "map fst (rq_params rq') = param_names (rt_path r)"
    using assms by (auto simp: arrives_def list_all_iff simp del: well_typed.simps dest!: findD)
  have "map_of (rq_params rq') x \<noteq> None" if "Path x \<in> set (rt_args r)" for x
    unfolding map_of_bound e(3) param_names_iff using e(1) that by (auto simp: list_all_iff)
  moreover have "set (demands a) \<subseteq> attributes rq'" if "a \<in> set (rt_args r)" for a
    using e(1,2) that by (auto simp: list_all_iff)
  ultimately show ?thesis by (auto simp: supplied_def)
qed

lemma app_typed: "list_all well_typed (endpoints app)"
  by code_simp

text \<open>
  C10: Whatever request arrives and whatever the database and the limiters answer, a handler of
  \<open>app.js\<close> only ever runs with everything it is given: \<open>req.auth\<close>, \<open>req.admin\<close>,
  \<open>req.publicTenant\<close> and \<open>paginationData\<close> have been attached by the middleware in front of it
  wherever it reads them, and the path parameters it reads are parameters of the pattern that
  matched.
\<close>

theorem handlers_are_supplied:
  assumes "express dispatch"
  shows "wp (serve dispatch limited app rq)
     (\<lambda>x _. case x of Inr (Reached r rq') \<Rightarrow> supplied r rq' | _ \<Rightarrow> True) w"
  by (rule wp_mono [OF serve_spec [OF assms]])
     (auto split: sum.splits served.splits intro: arrives_supplied app_typed)

definition demo_request :: http_request where
  "demo_request =
     \<lparr>rq_verb = POST, rq_url = ''/posts/list'', rq_path = [js ''posts'', js ''list''], rq_header = None,
      rq_body_lg = None, rq_query_lg = None, rq_pages = None, rq_part = None, rq_params = [],
      rq_auth = None, rq_admin = None, rq_board = None, rq_page = None, rq_file = None\<rparr>"

lemma handlers_are_supplied_witness:
  "wp (serve dispatch_first (\<lambda>_ _. False) app demo_request)
     (\<lambda>x _. case x of Inr (Reached r rq') \<Rightarrow> supplied r rq' | _ \<Rightarrow> True) (demo_world demo_db)"
  by (rule handlers_are_supplied [OF dispatch_first_express])

section \<open>Credentials at the door\<close>

text \<open>The endpoints that ask for no credential.\<close>

definition open_endpoints :: "(verb \<times> seg list) list" where
  "open_endpoints =
    [(POST, [Lit ''webhooks'', Lit ''stripe'']), (POST, [Lit ''webhooks'', Lit ''paddle'']),
     (POST, [Lit ''tenants'', Lit ''create'']),
     (POST, [Lit ''users'', Lit ''login'']), (POST, [Lit ''users'', Lit ''oauth'', Lit ''login'']),
     (POST, [Lit ''users'', Lit ''logout'']), (POST, [Lit ''users'', Lit ''register'']),
     (POST, [Lit ''users'', Lit ''password'', Lit ''forgot'']),
     (GET, [Lit ''users'', Lit ''password'', Lit ''reset'', Param ''token'']),
     (POST, [Lit ''users'', Lit ''password'', Lit ''reset'']),
     (POST, [Lit ''admin'', Lit ''auth'', Lit ''login'']),
     (GET, [Lit ''public'', Lit ''tenant'']), (GET, [Lit ''public'', Lit ''offers'']),
     (GET, [Lit ''public'', Lit ''form-token'']),
     (GET, [Lit ''public'', Lit ''invitations'', Param ''token'']),
     (POST, [Lit ''public'', Lit ''invitations'', Param ''token'', Lit ''accept'']),
     (POST, [Lit ''public'', Param ''subdomain'', Lit ''posts'']),
     (POST, [Lit ''public'', Param ''subdomain'', Lit ''feedback'']),
     (POST, [Lit ''public'', Param ''subdomain'', Lit ''attachments'']),
     (POST, [Lit ''public'', Param ''subdomain'', Lit ''posts'', Param ''postId'']),
     (POST, [Lit ''public'', Param ''subdomain'', Lit ''posts'', Param ''postId'', Lit ''vote'']),
     (POST, [Lit ''public'', Param ''subdomain'', Lit ''posts'', Param ''postId'', Lit ''comments'']),
     (POST, [Lit ''public'', Param ''subdomain'', Lit ''roadmap'']),
     (POST, [Lit ''public'', Param ''subdomain'', Lit ''changelog'']),
     (POST, [Lit ''public'', Param ''subdomain'', Lit ''changelog'', Param ''changelogId''])]"

definition is_open :: "verb \<Rightarrow> jstring list \<Rightarrow> bool" where
  "is_open v ss \<longleftrightarrow> list_ex (\<lambda>(v', p). v' = v \<and> match_path p ss \<noteq> None) open_endpoints"

text \<open>The credential a request needs: an administrator's under \<open>/admin\<close>, else a user's.\<close>

definition credential_for :: "jstring list \<Rightarrow> attribute" where
  "credential_for ss = (if match_prefix [''admin''] ss \<noteq> None then HasAdmin else HasAuth)"

fun gated :: "endpoint \<Rightarrow> bool" where
  "gated (v, p, ms, r) \<longleftrightarrow> (v, p) \<in> set open_endpoints
     \<or> (case p of
          Lit l # _ \<Rightarrow> (if l = ''admin'' then HasAdmin else HasAuth) \<in> set (attached_by ms)
        | _ \<Rightarrow> False)"

lemma app_gated: "list_all gated (endpoints app)"
  by code_simp

lemma js_inj: "js a = js b \<longleftrightarrow> a = b"
proof (induction a arbitrary: b)
  case Nil
  then show ?case by (cases b) simp_all
next
  case (Cons c a)
  then show ?case by (cases b) auto
qed

lemma gated_credential:
  assumes "gated (v, p, ms, r)" "match_path p ss \<noteq> None" "\<not> is_open v ss"
  shows "credential_for ss \<in> set (attached_by ms)"
proof -
  have "(v, p) \<notin> set open_endpoints"
    using assms(2,3) by (auto simp: is_open_def list_ex_iff)
  with assms(1) obtain l q where p: "p = Lit l # q"
    "(if l = ''admin'' then HasAdmin else HasAuth) \<in> set (attached_by ms)"
    by (auto split: list.splits seg.splits)
  with assms(2) obtain s ss' where "ss = s # ss'" "js_lower s = js l"
    by (cases ss) (auto split: if_splits)
  then show ?thesis
    using p(2) by (cases "l = ''admin''") (auto simp: credential_for_def js_inj simp del: js_Cons)
qed

definition admitted :: "world \<Rightarrow> http_request \<Rightarrow> http_request \<Rightarrow> bool" where
  "admitted w rq rq' \<longleftrightarrow>
     (if is_open (rq_verb rq) (rq_path rq) then True
      else if credential_for (rq_path rq) = HasAdmin
        then \<exists>u. rq_admin rq' = Some u \<and> admin_as w (rq_header rq) u
      else \<exists>a. rq_auth rq' = Some a \<and> signed_as w (rq_header rq) a)"

text \<open>
  C9: No handler runs without a credential, except those of \<open>open_endpoints\<close>: a request that
  reaches any other handler under \<open>/admin\<close> carried a token that verifies now with scope
  \<open>admin\<close> and the address of an active administrator; outside \<open>/admin\<close> a token that verifies
  now, whose device session has not been revoked and whose user is active, and the identity,
  workspace and role the handler acts with are those of that row of the database.
\<close>

theorem no_handler_without_credential:
  assumes "express dispatch"
  shows "wp (serve dispatch limited app rq)
     (\<lambda>x _. case x of Inr (Reached r rq') \<Rightarrow> admitted w rq rq' | _ \<Rightarrow> True) w"
proof (rule wp_mono [OF serve_spec [OF assms]], clarsimp split: sum.splits served.splits)
  fix r rq' assume "arrives app w rq r rq'"
  then obtain p chain where e: "gated (rq_verb rq, p, chain, r)" "match_path p (rq_path rq) \<noteq> None"
    "set (attached_by chain) \<subseteq> attributes rq'" "rq_header rq' = rq_header rq" "vouched w rq'"
    using app_gated by (auto simp: arrives_def list_all_iff simp del: gated.simps dest!: findD)
  have "credential_for (rq_path rq) \<in> attributes rq'" if "\<not> is_open (rq_verb rq) (rq_path rq)"
    using gated_credential [OF e(1,2) that] e(3) by blast
  moreover have "credential_for (rq_path rq) \<in> {HasAdmin, HasAuth}" by (simp add: credential_for_def)
  ultimately show "admitted w rq rq'"
    using e(4,5) by (auto simp: admitted_def vouched_def attributes_iff)
qed

lemma no_handler_without_credential_witness:
  "wp (serve dispatch_first (\<lambda>_ _. False) app demo_request)
     (\<lambda>x _. case x of Inr (Reached r rq') \<Rightarrow> admitted (demo_world demo_db) demo_request rq' | _ \<Rightarrow> True)
     (demo_world demo_db)"
  by (rule no_handler_without_credential [OF dispatch_first_express])

section \<open>Nothing is shadowed\<close>

text \<open>A path that matches a pattern, with \<open>7\<close> for every parameter.\<close>

fun sample :: "seg list \<Rightarrow> string list" where
  "sample [] = []"
| "sample (Lit l # p) = l # sample p"
| "sample (Param x # p) = ''7'' # sample p"

fun catches :: "seg list \<Rightarrow> string list \<Rightarrow> bool" where
  "catches [] [] \<longleftrightarrow> True"
| "catches (Lit l # p) (s # ss) \<longleftrightarrow> l = s \<and> catches p ss"
| "catches (Param x # p) (s # ss) \<longleftrightarrow> catches p ss"
| "catches _ _ \<longleftrightarrow> False"

definition lower :: "string \<Rightarrow> bool" where
  "lower l \<longleftrightarrow> js_lower (js l) = js l"

lemma match_catches:
  "list_all lower ss \<Longrightarrow> match_path p (map js ss) \<noteq> None \<longleftrightarrow> catches p ss"
  by (induction p ss rule: catches.induct) (auto simp: lower_def js_inj split: option.splits)

fun unshadowed :: "endpoint list \<Rightarrow> bool" where
  "unshadowed [] \<longleftrightarrow> True"
| "unshadowed ((v, p, ms, r) # es) \<longleftrightarrow>
     list_all (\<lambda>(v', p', ms', r'). v' = v \<longrightarrow> \<not> catches p (sample p')) es \<and> unshadowed es"

lemma unshadowed_append:
  "unshadowed (es @ fs) \<longleftrightarrow> unshadowed es \<and> unshadowed fs
     \<and> list_all (\<lambda>(v, p, ms, r). list_all (\<lambda>(v', p', ms', r'). v' = v \<longrightarrow> \<not> catches p (sample p')) fs) es"
  by (induction es rule: unshadowed.induct) (auto simp: list_all_iff)

text \<open>Routers mounted under prefixes that differ cannot meet.\<close>

fun differ :: "string list \<Rightarrow> string list \<Rightarrow> bool" where
  "differ (a # as) (b # bs) \<longleftrightarrow> a \<noteq> b \<or> differ as bs"
| "differ _ _ \<longleftrightarrow> False"

fun mounted :: "item list \<Rightarrow> string list list" where
  "mounted [] = []"
| "mounted (UseAt pre m # is) = mounted is"
| "mounted (Mount pre es # is) = pre # mounted is"

fun unshadowed_items :: "item list \<Rightarrow> bool" where
  "unshadowed_items [] \<longleftrightarrow> True"
| "unshadowed_items (UseAt pre m # is) \<longleftrightarrow> unshadowed_items is"
| "unshadowed_items (Mount pre es # is) \<longleftrightarrow>
     unshadowed (router_endpoints pre [] es) \<and> list_all (differ pre) (mounted is) \<and> unshadowed_items is"

lemma differ_sample: "differ a b \<Longrightarrow> \<not> catches (map Lit a @ p) (sample (map Lit b @ q))"
  by (induction a b rule: differ.induct) auto

lemma router_prefixed:
  "(v, p, ms, r) \<in> set (router_endpoints pre acc es) \<Longrightarrow> \<exists>q. p = map Lit pre @ q"
  by (induction pre acc es rule: router_endpoints.induct) auto

lemma endpoints_prefixed:
  "(v, p, ms, r) \<in> set (endpoints is) \<Longrightarrow> \<exists>pre q. pre \<in> set (mounted is) \<and> p = map Lit pre @ q"
  by (induction "is" rule: endpoints.induct) (auto dest: router_prefixed)

lemma unshadowed_itemsD: "unshadowed_items is \<Longrightarrow> unshadowed (endpoints is)"
proof (induction "is" rule: endpoints.induct)
  case (3 pre es "is")
  have "\<not> catches p (sample p')"
    if here: "(v, p, ms, r) \<in> set (router_endpoints pre [] es)"
      and there: "(v', p', ms', r') \<in> set (endpoints is)"
    for v p ms r v' p' ms' r'
  proof -
    obtain q where "p = map Lit pre @ q" using router_prefixed [OF here] by blast
    moreover obtain pre' q' where "pre' \<in> set (mounted is)" "p' = map Lit pre' @ q'"
      using endpoints_prefixed [OF there] by blast
    ultimately show ?thesis using 3(2) by (auto simp: list_all_iff differ_sample)
  qed
  then show ?case using 3 by (auto simp: unshadowed_append list_all_iff)
qed simp_all

lemma app_unshadowed: "unshadowed (endpoints app)"
  by (rule unshadowed_itemsD) code_simp

text \<open>Bits 5 and 6 tell a capital letter from the other ASCII characters of the table.\<close>

fun small :: "char \<Rightarrow> bool" where
  "small (Char b0 b1 b2 b3 b4 b5 b6 b7) \<longleftrightarrow> \<not> b7 \<and> (b6 \<longrightarrow> b5)"

lemma small_unit: "small c \<Longrightarrow> lower_unit (of_char c) = of_char c"
  by (cases c) (auto simp: lower_unit_def of_char_def of_bool_def split: if_splits)

lemma lower_small: "list_all small l \<Longrightarrow> lower l"
  by (induction l) (auto simp: lower_def js_lower_def small_unit)

lemma app_small: "list_all (\<lambda>(v, p, ms, r). list_all (list_all small) (sample p)) (endpoints app)"
  by code_simp

lemma sample_catches: "catches p (sample p)"
  by (induction p rule: sample.induct) auto

lemma hits_sample:
  "list_all (list_all small) (sample q) \<Longrightarrow>
   hits v (map js (sample q)) (v', p, ms, r) \<longleftrightarrow> v' = v \<and> catches p (sample q)"
  using match_catches [of "sample q" p] lower_small by (auto simp: list_all_iff)

lemma unshadowed_find:
  assumes "unshadowed es" "(v, p, ms, r) \<in> set es" "list_all (list_all small) (sample p)"
  shows "find (hits v (map js (sample p))) es = Some (v, p, ms, r)"
  using assms
proof (induction es rule: unshadowed.induct)
  case (2 v0 p0 ms0 r0 es)
  show ?case
  proof (cases "(v, p, ms, r) = (v0, p0, ms0, r0)")
    case True
    then show ?thesis using 2 by (simp add: hits_sample sample_catches del: hits.simps)
  next
    case False
    then have "\<not> hits v (map js (sample p)) (v0, p0, ms0, r0)"
      using 2 by (auto simp: hits_sample list_all_iff simp del: hits.simps)
    then show ?thesis using 2 False by (auto simp del: hits.simps)
  qed
qed simp

lemma planned_reach:
  assumes "express dispatch" "find (hits v ss) (endpoints items) = Some (v, p, ms, r)"
  shows "\<exists>extra m. dispatch items v ss = (extra @ ms, Some (r, m))"
proof -
  have "planned (endpoints items) v ss (dispatch items v ss)" using assms(1) by (simp add: express_def)
  then show ?thesis
    using assms(2) by (cases "dispatch items v ss") (auto simp: planned_def split: option.splits)
qed

text \<open>
  C11: No route is shadowed: for every endpoint of \<open>app.js\<close> there is a path whose requests end
  there, after its own chain of middleware; no earlier pattern of the same method takes them.
\<close>

theorem every_route_is_reached:
  assumes "express dispatch"
  shows "list_all (\<lambda>(v, p, ms, r). \<exists>ss extra m. dispatch app v ss = (extra @ ms, Some (r, m))) (endpoints app)"
proof -
  have "\<exists>ss extra m. dispatch app v ss = (extra @ ms, Some (r, m))"
    if e: "(v, p, ms, r) \<in> set (endpoints app)" for v p ms r
  proof -
    have "list_all (list_all small) (sample p)" using app_small e by (auto simp: list_all_iff)
    from planned_reach [OF assms unshadowed_find [OF app_unshadowed e this]] show ?thesis by blast
  qed
  then show ?thesis by (auto simp: list_all_iff)
qed

lemma every_route_is_reached_witness:
  "list_all (\<lambda>(v, p, ms, r). \<exists>ss extra m. dispatch_first app v ss = (extra @ ms, Some (r, m))) (endpoints app)"
  by (rule every_route_is_reached [OF dispatch_first_express])

section \<open>Requests left hanging\<close>

text \<open>The result of a run of a handler on a world, as its route sends it.\<close>

definition reply_of :: "ending \<Rightarrow> 'a outcome io \<Rightarrow> world \<Rightarrow> http_reply" where
  "reply_of e handler w = finish e (fst (handler w))"

text \<open>A handler that ends, whatever happens, in a response of its own.\<close>

definition answers :: "'a outcome io \<Rightarrow> bool" where
  "answers m \<longleftrightarrow> (\<forall>w. wp m (\<lambda>r _. \<exists>x. r = Inr x) w)"

lemma finish_Inr: "finish (Detached k) (Inr x) \<noteq> Silence"
  by (simp add: finish_def split: outcome.splits)

lemma answers_ret: "answers (ret x)"
  by (simp add: answers_def)

lemma answers_catch: "answers (catch m (\<lambda>_. ret x))"
  by (simp add: answers_def wp_any split: sum.splits)

lemma answers_if: "answers m \<Longrightarrow> answers n \<Longrightarrow> answers (if b then m else n)"
  by simp

lemma answers_rows: "answers (answer_rows a b c d m)"
  by (simp add: answer_rows_def answers_catch)

lemma plan_first:
  assumes "\<And>b. answers (f b)"
  shows "reply_of (Detached k) (bnd (planAllows t c) f) w = Silence \<longleftrightarrow> fault (svc w) (qn w)"
proof -
  have "wp (bnd (planAllows t c) f)
      (\<lambda>r _. finish (Detached k) r = Silence \<longleftrightarrow> fault (svc w) (qn w)) w"
    by (simp add: planAllows_def getTenantPlan_def finish_def)
       (auto intro!: wp_mono [OF assms [unfolded answers_def, rule_format]] split: outcome.splits)
  then show ?thesis by (simp add: reply_of_def wp_iff)
qed


end
