(* ===== verification/Mails.thy ===== *)
theory Mails
  imports Runtime
begin

text \<open>
  The texts the server writes: subject, plain text and HTML of the five e-mails of
  \<open>src/common/emails/\<close>, with the escaping between them and what users typed; the choice of a
  provider (\<open>common/mailer.js\<close>; \<open>Runtime.send_email\<close> is what the handlers see of it); and the
  answers of the API, which take their text from a file of messages.  Markup is kept line by
  line; a character outside ASCII is its code units.
\<close>

section \<open>Text\<close>

record mail =
  ml_subject :: jstring
  ml_html :: jstring
  ml_text :: jstring

record 'r response =
  rs_statusCode :: int
  rs_status :: string
  rs_message :: jstring
  rs_result :: "'r option"

fun joined :: "jstring \<Rightarrow> jstring list \<Rightarrow> jstring" where
  "joined sep [] = []"
| "joined sep [x] = x"
| "joined sep (x # y # xs) = x @ sep @ joined sep (y # xs)"

definition ml :: "string list \<Rightarrow> jstring" where
  "ml ls = joined [10] (map js ls)"

text \<open>\<open>a || "\<dots>"\<close>.\<close>

definition or_text :: "jstring \<Rightarrow> string \<Rightarrow> jstring" where
  "or_text a d = (if a = [] then js d else a)"

text \<open>
  \<open>esc\<close>: four replacements, one after the other; the ampersand first, so that the entities the
  later ones write are not escaped again.
\<close>

definition replace_all :: "nat \<Rightarrow> string \<Rightarrow> jstring \<Rightarrow> jstring" where
  "replace_all u by s = concat (map (\<lambda>c. if c = u then js by else [c]) s)"

definition esc :: "jstring \<Rightarrow> jstring" where
  "esc s = replace_all 34 ''&quot;'' (replace_all 62 ''&gt;'' (replace_all 60 ''&lt;'' (replace_all 38 ''&amp;'' s)))"

definition truncate :: "jstring \<Rightarrow> nat \<Rightarrow> jstring" where
  "truncate s n = (let t = js_trim s in if length t > n then take n t @ [8230] else t)"

section \<open>The common head\<close>

text \<open>The selectors of a rule, already split at the commas.\<close>

definition DARK_RULES :: "(string list \<times> string) list" where
  "DARK_RULES =
     [([''.fb-body'', ''.fb-outer''], ''background:#140a0b !important;''),
      ([''.fb-card''], ''background:#221315 !important;border-color:rgba(227,153,163,0.22) !important;''),
      ([''.fb-panel''], ''background:rgba(253,248,249,0.05) !important;border-color:rgba(227,153,163,0.2) !important;''),
      ([''.fb-divider''], ''border-color:rgba(227,153,163,0.18) !important;''),
      ([''.fb-heading'', ''.fb-strong''], ''color:#fdf8f9 !important;''),
      ([''.fb-text''], ''color:rgba(253,248,249,0.75) !important;''),
      ([''.fb-muted''], ''color:rgba(253,248,249,0.5) !important;''),
      ([''.fb-accent''], ''color:#f2a3ad !important;''),
      ([''.fb-wordmark''], ''color:#ffffff !important;''),
      ([''.fb-btn'', ''.fb-btn a''], ''color:#ffffff !important;'')]"

definition block :: "jstring \<Rightarrow> jstring" where
  "block pre = joined [10] (map (\<lambda>(sel, decl).
     js ''      '' @ joined (js '', '') (map (\<lambda>s. pre @ js s) sel) @ js '' { '' @ js decl @ js '' }'') DARK_RULES)"

definition EMAIL_HEAD :: jstring where
  "EMAIL_HEAD = concat
     [ml [''  <head>'',
       ''    <meta charset=\"utf-8\">'',
       ''    <meta name=\"viewport\" content=\"width=device-width, initial-scale=1\">'',
       ''    <meta name=\"color-scheme\" content=\"light dark\">'',
       ''    <meta name=\"supported-color-schemes\" content=\"light dark\">'',
       ''    <style>'',
       ''      :root { color-scheme: light dark; supported-color-schemes: light dark; }'',
       ''      @media (prefers-color-scheme: dark) {'',
       ''''],
      block [],
      ml ['''',
       ''      }'',
       ''''],
      block (js ''[data-ogsc] ''),
      ml ['''',
       ''    </style>'',
       ''  </head>'']]"

definition BRAND :: jstring where "BRAND = js ''#c74959''"
definition INK :: jstring where "INK = js ''#1c0a0c''"
definition WASH :: jstring where "WASH = js ''#fdf8f9''"

section \<open>Invitation\<close>

definition invitation_html :: "jstring \<Rightarrow> jstring \<Rightarrow> jstring \<Rightarrow> nat \<Rightarrow> jstring" where
  "invitation_html ws who url validity =
     concat
     [ml [''<!doctype html>'',
       ''<html>'',
       ''''],
      EMAIL_HEAD,
      ml ['''',
       ''  <body class=\"fb-body\" style=\"margin:0;padding:0;background:''],
      WASH,
      ml ['';font-family:-apple-system,BlinkMacSystemFont,'Segoe UI',Roboto,Helvetica,Arial,sans-serif;\">'',
       ''    <table role=\"presentation\" width=\"100%\" cellpadding=\"0\" cellspacing=\"0\" class=\"fb-outer\" style=\"background:''],
      WASH,
      ml ['';padding:32px 12px;\">'',
       ''      <tr>'',
       ''        <td align=\"center\">'',
       ''          <table role=\"presentation\" width=\"100%\" cellpadding=\"0\" cellspacing=\"0\" class=\"fb-card\" style=\"max-width:520px;background:#ffffff;border:1px solid rgba(227,153,163,0.35);border-radius:16px;overflow:hidden;\">'',
       ''            <!-- header -->'',
       ''            <tr>'',
       ''              <td style=\"background:linear-gradient(135deg,''],
      INK,
      ml ['' 0%,#7a2d38 55%,''],
      BRAND,
      ml ['' 100%);padding:28px 32px;\">'',
       ''                <span class=\"fb-wordmark\" style=\"color:#ffffff;font-size:20px;font-weight:700;letter-spacing:-0.2px;\">FeedBoard</span>'',
       ''              </td>'',
       ''            </tr>'',
       '''',
       ''            <!-- body -->'',
       ''            <tr>'',
       ''              <td style=\"padding:32px;\">'',
       ''                <h1 class=\"fb-heading\" style=\"margin:0 0 12px;font-size:22px;line-height:1.3;color:''],
      INK,
      ml ['';font-weight:700;\">'',
       ''                  You've been invited to <span class=\"fb-accent\" style=\"color:''],
      BRAND,
      ml ['';\">''],
      ws,
      ml [''</span>'',
       ''                </h1>'',
       ''                <p class=\"fb-text\" style=\"margin:0 0 20px;font-size:15px;line-height:1.6;color:rgba(28,10,12,0.72);\">'',
       ''                  <strong class=\"fb-heading\" style=\"color:''],
      INK,
      ml ['';\">''],
      who,
      ml [''</strong> invited you to join the'',
       ''                  <strong class=\"fb-heading\" style=\"color:''],
      INK,
      ml ['';\">''],
      ws,
      ml [''</strong> workspace on FeedBoard ''],
      [8212],
      ml ['' where the team'',
       ''                  collects product feedback, prioritises it by votes, and shares a public roadmap.'',
       ''                </p>'',
       '''',
       ''                <!-- CTA -->'',
       ''                <table role=\"presentation\" cellpadding=\"0\" cellspacing=\"0\" style=\"margin:0 0 22px;\">'',
       ''                  <tr>'',
       ''                    <td style=\"border-radius:10px;background:''],
      BRAND,
      ml ['';\">'',
       ''                      <a href=\"''],
      url,
      ml [''\"'',
       ''                         class=\"fb-btn\" style=\"display:inline-block;padding:13px 26px;font-size:15px;font-weight:600;color:#ffffff;text-decoration:none;border-radius:10px;\">'',
       ''                        Accept invitation'',
       ''                      </a>'',
       ''                    </td>'',
       ''                  </tr>'',
       ''                </table>'',
       '''',
       ''                <p class=\"fb-muted\" style=\"margin:0 0 6px;font-size:12px;color:rgba(28,10,12,0.5);\">'',
       ''                  Or paste this link into your browser:'',
       ''                </p>'',
       ''                <p style=\"margin:0 0 22px;font-size:12px;word-break:break-all;\">'',
       ''                  <a href=\"''],
      url,
      ml [''\" class=\"fb-accent\" style=\"color:''],
      BRAND,
      ml ['';text-decoration:underline;\">''],
      url,
      ml [''</a>'',
       ''                </p>'',
       '''',
       ''                <div class=\"fb-panel\" style=\"padding:12px 14px;border-radius:10px;background:''],
      WASH,
      ml ['';border:1px solid rgba(227,153,163,0.3);\">'',
       ''                  <p class=\"fb-text\" style=\"margin:0;font-size:12px;line-height:1.5;color:rgba(28,10,12,0.6);\">'',
       ''                    ''],
      [55357, 56594],
      ml ['' This invitation is valid for <strong class=\"fb-heading\" style=\"color:''],
      INK,
      ml ['';\">''],
      js_of_nat validity,
      ml ['' days</strong>'',
       ''                    and can only be used <strong class=\"fb-heading\" style=\"color:''],
      INK,
      ml ['';\">once</strong>.'',
       ''                  </p>'',
       ''                </div>'',
       ''              </td>'',
       ''            </tr>'',
       '''',
       ''            <!-- footer -->'',
       ''            <tr>'',
       ''              <td class=\"fb-divider\" style=\"padding:18px 32px 26px;border-top:1px solid rgba(227,153,163,0.25);\">'',
       ''                <p class=\"fb-muted\" style=\"margin:0;font-size:12px;line-height:1.5;color:rgba(28,10,12,0.45);\">'',
       ''                  If you weren't expecting this invitation, you can safely ignore this email.'',
       ''                </p>'',
       ''              </td>'',
       ''            </tr>'',
       ''          </table>'',
       '''',
       ''          <p class=\"fb-muted\" style=\"margin:16px 0 0;font-size:11px;color:rgba(28,10,12,0.35);\">Powered by FeedBoard</p>'',
       ''        </td>'',
       ''      </tr>'',
       ''    </table>'',
       ''  </body>'',
       ''</html>'']]"

definition invitationEmail :: "jstring \<Rightarrow> jstring \<Rightarrow> jstring \<Rightarrow> nat \<Rightarrow> mail" where
  "invitationEmail workspaceName inviterName acceptUrl validity =
     (let who = esc (or_text inviterName ''A teammate'')
      in \<lparr>ml_subject = who @ js '' invited you to join '' @ workspaceName @ js '' on FeedBoard'',
          ml_html = invitation_html (esc workspaceName) who (esc acceptUrl) validity,
          ml_text = joined [10]
            [who @ js '' invited you to join the \"'' @ workspaceName @ js ''\" workspace on FeedBoard.'',
             [],
             js ''FeedBoard is where the team collects product feedback, prioritises it by votes,'',
             js ''and shares a public roadmap and changelog.'',
             [],
             js ''Accept your invitation:'',
             acceptUrl,
             [],
             js ''This link is valid for '' @ js_of_nat validity @ js '' days and can only be used once.'',
             js ''If you weren't expecting this invitation, you can safely ignore this email.'']\<rparr>)"

section \<open>Password reset\<close>

definition reset_html :: "jstring \<Rightarrow> nat \<Rightarrow> jstring" where
  "reset_html url mins =
     concat
     [ml [''<!doctype html>'',
       ''<html>'',
       ''''],
      EMAIL_HEAD,
      ml ['''',
       ''  <body class=\"fb-body\" style=\"margin:0;padding:0;background:''],
      WASH,
      ml ['';font-family:-apple-system,BlinkMacSystemFont,'Segoe UI',Roboto,Helvetica,Arial,sans-serif;\">'',
       ''    <table role=\"presentation\" width=\"100%\" cellpadding=\"0\" cellspacing=\"0\" class=\"fb-outer\" style=\"background:''],
      WASH,
      ml ['';padding:32px 12px;\">'',
       ''      <tr>'',
       ''        <td align=\"center\">'',
       ''          <table role=\"presentation\" width=\"100%\" cellpadding=\"0\" cellspacing=\"0\" class=\"fb-card\" style=\"max-width:520px;background:#ffffff;border:1px solid rgba(227,153,163,0.35);border-radius:16px;overflow:hidden;\">'',
       ''            <!-- header -->'',
       ''            <tr>'',
       ''              <td style=\"background:linear-gradient(135deg,''],
      INK,
      ml ['' 0%,#7a2d38 55%,''],
      BRAND,
      ml ['' 100%);padding:28px 32px;\">'',
       ''                <span class=\"fb-wordmark\" style=\"color:#ffffff;font-size:20px;font-weight:700;letter-spacing:-0.2px;\">FeedBoard</span>'',
       ''              </td>'',
       ''            </tr>'',
       '''',
       ''            <!-- body -->'',
       ''            <tr>'',
       ''              <td style=\"padding:32px;\">'',
       ''                <h1 class=\"fb-heading\" style=\"margin:0 0 12px;font-size:22px;line-height:1.3;color:''],
      INK,
      ml ['';font-weight:700;\">'',
       ''                  Reset your <span class=\"fb-accent\" style=\"color:''],
      BRAND,
      ml ['';\">password</span>'',
       ''                </h1>'',
       ''                <p class=\"fb-text\" style=\"margin:0 0 20px;font-size:15px;line-height:1.6;color:rgba(28,10,12,0.72);\">'',
       ''                  We received a request to reset the password for your FeedBoard account.'',
       ''                  Click the button below to choose a new one.'',
       ''                </p>'',
       '''',
       ''                <!-- CTA -->'',
       ''                <table role=\"presentation\" cellpadding=\"0\" cellspacing=\"0\" style=\"margin:0 0 22px;\">'',
       ''                  <tr>'',
       ''                    <td style=\"border-radius:10px;background:''],
      BRAND,
      ml ['';\">'',
       ''                      <a href=\"''],
      url,
      ml [''\"'',
       ''                         class=\"fb-btn\" style=\"display:inline-block;padding:13px 26px;font-size:15px;font-weight:600;color:#ffffff;text-decoration:none;border-radius:10px;\">'',
       ''                        Reset password'',
       ''                      </a>'',
       ''                    </td>'',
       ''                  </tr>'',
       ''                </table>'',
       '''',
       ''                <p class=\"fb-muted\" style=\"margin:0 0 6px;font-size:12px;color:rgba(28,10,12,0.5);\">'',
       ''                  Or paste this link into your browser:'',
       ''                </p>'',
       ''                <p style=\"margin:0 0 22px;font-size:12px;word-break:break-all;\">'',
       ''                  <a href=\"''],
      url,
      ml [''\" class=\"fb-accent\" style=\"color:''],
      BRAND,
      ml ['';text-decoration:underline;\">''],
      url,
      ml [''</a>'',
       ''                </p>'',
       '''',
       ''                <div class=\"fb-panel\" style=\"padding:12px 14px;border-radius:10px;background:''],
      WASH,
      ml ['';border:1px solid rgba(227,153,163,0.3);\">'',
       ''                  <p class=\"fb-text\" style=\"margin:0;font-size:12px;line-height:1.5;color:rgba(28,10,12,0.6);\">'',
       ''                    ''],
      [55357, 56594],
      ml ['' This link is valid for <strong class=\"fb-heading\" style=\"color:''],
      INK,
      ml ['';\">''],
      js_of_nat mins,
      ml ['' minutes</strong>'',
       ''                    and can only be used <strong class=\"fb-heading\" style=\"color:''],
      INK,
      ml ['';\">once</strong>.'',
       ''                  </p>'',
       ''                </div>'',
       ''              </td>'',
       ''            </tr>'',
       '''',
       ''            <!-- footer -->'',
       ''            <tr>'',
       ''              <td class=\"fb-divider\" style=\"padding:18px 32px 26px;border-top:1px solid rgba(227,153,163,0.25);\">'',
       ''                <p class=\"fb-muted\" style=\"margin:0;font-size:12px;line-height:1.5;color:rgba(28,10,12,0.45);\">'',
       ''                  If you didn't request this, you can safely ignore this email ''],
      [8212],
      ml ['' your'',
       ''                  password won't change until you open the link and set a new one.'',
       ''                </p>'',
       ''              </td>'',
       ''            </tr>'',
       ''          </table>'',
       '''',
       ''          <p class=\"fb-muted\" style=\"margin:16px 0 0;font-size:11px;color:rgba(28,10,12,0.35);\">Powered by FeedBoard</p>'',
       ''        </td>'',
       ''      </tr>'',
       ''    </table>'',
       ''  </body>'',
       ''</html>'']]"

definition passwordResetEmail :: "jstring \<Rightarrow> nat \<Rightarrow> mail" where
  "passwordResetEmail resetUrl expiresInMinutes =
     (let mins = (if expiresInMinutes = 0 then 60 else expiresInMinutes)
      in \<lparr>ml_subject = js ''Reset your FeedBoard password'',
          ml_html = reset_html (esc resetUrl) mins,
          ml_text = joined [10]
            [js ''We received a request to reset the password for your FeedBoard account.'',
             [],
             js ''Reset your password:'',
             resetUrl,
             [],
             js ''This link is valid for '' @ js_of_nat mins @ js '' minutes and can only be used once.'',
             js ''If you didn't request this, you can safely ignore this email '' @ [8212] @ js '' your'',
             js ''password won't change until you open the link and set a new one.'']\<rparr>)"

section \<open>Plan changed\<close>

definition planChanged_html :: "jstring \<Rightarrow> jstring \<Rightarrow> jstring \<Rightarrow> jstring \<Rightarrow> jstring \<Rightarrow> jstring \<Rightarrow> jstring" where
  "planChanged_html who verb workspaces oldP newP note =
     concat
     [ml [''<!doctype html>'',
       ''<html>'',
       ''''],
      EMAIL_HEAD,
      ml ['''',
       ''  <body class=\"fb-body\" style=\"margin:0;padding:0;background:''],
      WASH,
      ml ['';font-family:-apple-system,BlinkMacSystemFont,'Segoe UI',Roboto,Helvetica,Arial,sans-serif;\">'',
       ''    <table role=\"presentation\" width=\"100%\" cellpadding=\"0\" cellspacing=\"0\" class=\"fb-outer\" style=\"background:''],
      WASH,
      ml ['';padding:32px 12px;\">'',
       ''      <tr>'',
       ''        <td align=\"center\">'',
       ''          <table role=\"presentation\" width=\"100%\" cellpadding=\"0\" cellspacing=\"0\" class=\"fb-card\" style=\"max-width:520px;background:#ffffff;border:1px solid rgba(227,153,163,0.35);border-radius:16px;overflow:hidden;\">'',
       ''            <tr>'',
       ''              <td style=\"background:linear-gradient(135deg,''],
      INK,
      ml ['' 0%,#7a2d38 55%,''],
      BRAND,
      ml ['' 100%);padding:24px 32px;\">'',
       ''                <span class=\"fb-wordmark\" style=\"color:#ffffff;font-size:18px;font-weight:700;\">FeedBoard Support</span>'',
       ''              </td>'',
       ''            </tr>'',
       '''',
       ''            <tr>'',
       ''              <td style=\"padding:28px 32px;\">'',
       ''                <p class=\"fb-accent\" style=\"margin:0 0 4px;font-size:12px;text-transform:uppercase;letter-spacing:1px;color:''],
      BRAND,
      ml ['';font-weight:700;\">'',
       ''                  Plan ''],
      verb,
      ml ['''',
       ''                </p>'',
       ''                <p class=\"fb-heading\" style=\"margin:12px 0 0;font-size:16px;line-height:1.6;color:''],
      INK,
      ml ['';\">'',
       ''                  Hi ''],
      who,
      ml ['', a member of the FeedBoard team has ''],
      verb,
      ml ['' the plan on'',
       ''                  ''],
      workspaces,
      ml ['':'',
       ''                </p>'',
       '''',
       ''                <table role=\"presentation\" cellpadding=\"0\" cellspacing=\"0\" style=\"margin:16px 0 0;width:100%;\">'',
       ''                  <tr>'',
       ''                    <td class=\"fb-panel\" style=\"padding:14px 16px;border-radius:12px;background:''],
      WASH,
      ml ['';border:1px solid rgba(227,153,163,0.3);\">'',
       ''                      <p class=\"fb-heading\" style=\"margin:0;font-size:17px;font-weight:700;line-height:1.35;color:''],
      INK,
      ml ['';\">'',
       ''                        ''],
      oldP,
      ml ['' <span class=\"fb-muted\" style=\"color:rgba(28,10,12,0.4);font-weight:400;\">''],
      [8594],
      ml [''</span> ''],
      newP,
      ml ['''',
       ''                      </p>'',
       ''                      ''],
      if note = [] then [] else concat
      [ml [''<p class=\"fb-text\" style=\"margin:6px 0 0;font-size:13px;color:rgba(28,10,12,0.6);\">''],
       note,
       ml [''</p>'']],
      ml ['''',
       ''                    </td>'',
       ''                  </tr>'',
       ''                </table>'',
       '''',
       ''                <p class=\"fb-text\" style=\"margin:18px 0 0;font-size:14px;line-height:1.6;color:rgba(28,10,12,0.7);\">'',
       ''                  If this is unexpected or you have any questions, just reply to'',
       ''                  this email ''],
      [8212],
      ml ['' it goes straight to our support team.'',
       ''                </p>'',
       ''              </td>'',
       ''            </tr>'',
       '''',
       ''            <tr>'',
       ''              <td class=\"fb-divider\" style=\"padding:16px 32px 24px;border-top:1px solid rgba(227,153,163,0.25);\">'',
       ''                <p class=\"fb-muted\" style=\"margin:0;font-size:12px;line-height:1.5;color:rgba(28,10,12,0.45);\">'',
       ''                  You're receiving this because you own an account on FeedBoard.'',
       ''                </p>'',
       ''              </td>'',
       ''            </tr>'',
       ''          </table>'',
       ''        </td>'',
       ''      </tr>'',
       ''    </table>'',
       ''  </body>'',
       ''</html>'']]"

definition plan_verb :: "string \<Rightarrow> jstring" where
  "plan_verb direction =
     js (if direction = ''upgraded'' then ''upgraded''
         else if direction = ''downgraded'' then ''downgraded'' else ''changed'')"

definition workspace_words :: "jstring list \<Rightarrow> jstring" where
  "workspace_words workspaceNames =
     (case filter (\<lambda>n. n \<noteq> []) workspaceNames of
        [] \<Rightarrow> js ''your account''
      | [n] \<Rightarrow> js ''your workspace \"'' @ n @ js ''\"''
      | ns \<Rightarrow> js ''your workspaces ('' @ joined (js '', '') ns @ js '')'')"

definition duration_note :: "jstring \<Rightarrow> bool \<Rightarrow> jstring \<Rightarrow> jstring" where
  "duration_note newPlanLabel lifetime expiresAt =
     (if js_lower newPlanLabel = js ''free'' then []
      else if lifetime then js ''This plan does not expire.''
      else if expiresAt \<noteq> [] then js ''This plan is active until '' @ expiresAt @ js ''.''
      else [])"

definition planChangedEmail ::
  "jstring \<Rightarrow> jstring \<Rightarrow> jstring \<Rightarrow> string \<Rightarrow> jstring list \<Rightarrow> bool \<Rightarrow> jstring \<Rightarrow> mail" where
  "planChangedEmail ownerName oldPlanLabel newPlanLabel direction workspaceNames lifetime expiresAt =
     (let who = esc (or_text (js_trim ownerName) ''there'');
          oldP = esc oldPlanLabel; newP = esc newPlanLabel;
          verb = plan_verb direction; line = workspace_words workspaceNames;
          note = duration_note newPlanLabel lifetime expiresAt
      in \<lparr>ml_subject = js ''Your FeedBoard plan was '' @ verb @ js '' to '' @ newP,
          ml_html = planChanged_html who (esc verb) (esc line) oldP newP (esc note),
          ml_text = joined [10] (filter (\<lambda>l. l \<noteq> [])
            [js ''Hi '' @ who @ js '','',
             [],
             js ''A member of the FeedBoard team has '' @ verb @ js '' the plan on '' @ line
               @ js '' from '' @ oldP @ js '' to '' @ newP @ js ''.'',
             note,
             [],
             js ''If this is unexpected or you have any questions, just reply to this email '' @ [8212]
               @ js '' it goes straight to our support team.'',
             [],
             [8212] @ js '' The FeedBoard Support Team''])\<rparr>)"

section \<open>New feedback\<close>

text \<open>\<open>TYPE_LABEL[postType] || TYPE_LABEL.feedback\<close>; an icon, a space and a word.\<close>

definition feedback_label :: "string \<Rightarrow> jstring" where
  "feedback_label postType =
     (if postType = ''feature_request'' then [10024] @ js '' Feature request''
      else if postType = ''bug_report'' then [55357, 56347] @ js '' Bug report''
      else [55357, 56492] @ js '' Feedback'')"

text \<open>\<open>replace(/^\S+\s/, "")\<close>.\<close>

definition without_icon :: "jstring \<Rightarrow> jstring" where
  "without_icon s =
     (let r = dropWhile (\<lambda>c. \<not> js_space c) s in if r = [] \<or> r = s then s else tl r)"

definition newFeedback_html :: "jstring \<Rightarrow> jstring \<Rightarrow> jstring \<Rightarrow> jstring \<Rightarrow> jstring \<Rightarrow> jstring \<Rightarrow> jstring" where
  "newFeedback_html ws type who t body url =
     concat
     [ml [''<!doctype html>'',
       ''<html>'',
       ''''],
      EMAIL_HEAD,
      ml ['''',
       ''  <body class=\"fb-body\" style=\"margin:0;padding:0;background:''],
      WASH,
      ml ['';font-family:-apple-system,BlinkMacSystemFont,'Segoe UI',Roboto,Helvetica,Arial,sans-serif;\">'',
       ''    <table role=\"presentation\" width=\"100%\" cellpadding=\"0\" cellspacing=\"0\" class=\"fb-outer\" style=\"background:''],
      WASH,
      ml ['';padding:32px 12px;\">'',
       ''      <tr>'',
       ''        <td align=\"center\">'',
       ''          <table role=\"presentation\" width=\"100%\" cellpadding=\"0\" cellspacing=\"0\" class=\"fb-card\" style=\"max-width:520px;background:#ffffff;border:1px solid rgba(227,153,163,0.35);border-radius:16px;overflow:hidden;\">'',
       ''            <tr>'',
       ''              <td style=\"background:linear-gradient(135deg,''],
      INK,
      ml ['' 0%,#7a2d38 55%,''],
      BRAND,
      ml ['' 100%);padding:24px 32px;\">'',
       ''                <span class=\"fb-wordmark\" style=\"color:#ffffff;font-size:18px;font-weight:700;\">FeedBoard</span>'',
       ''              </td>'',
       ''            </tr>'',
       '''',
       ''            <tr>'',
       ''              <td style=\"padding:28px 32px;\">'',
       ''                <p class=\"fb-muted\" style=\"margin:0 0 4px;font-size:12px;text-transform:uppercase;letter-spacing:1px;color:rgba(28,10,12,0.45);\">'',
       ''                  New feedback on ''],
      ws,
      ml ['''',
       ''                </p>'',
       '''',
       ''                <table role=\"presentation\" cellpadding=\"0\" cellspacing=\"0\" style=\"margin:14px 0 0;width:100%;\">'',
       ''                  <tr>'',
       ''                    <td class=\"fb-panel\" style=\"padding:14px 16px;border-radius:12px;background:''],
      WASH,
      ml ['';border:1px solid rgba(227,153,163,0.3);\">'',
       ''                      <p class=\"fb-muted\" style=\"margin:0 0 6px;font-size:12px;color:rgba(28,10,12,0.55);\">'',
       ''                        ''],
      type,
      ml ['' &nbsp;''],
      [183],
      ml [''&nbsp; from <strong class=\"fb-heading\" style=\"color:''],
      INK,
      ml ['';\">''],
      who,
      ml [''</strong>'',
       ''                      </p>'',
       ''                      <p class=\"fb-heading\" style=\"margin:0;font-size:17px;font-weight:700;line-height:1.35;color:''],
      INK,
      ml ['';\">'',
       ''                        ''],
      t,
      ml ['''',
       ''                      </p>'',
       ''                      ''],
      if body = [] then [] else concat
      [ml [''<p class=\"fb-text\" style=\"margin:8px 0 0;font-size:14px;line-height:1.6;color:rgba(28,10,12,0.7);white-space:pre-wrap;\">''],
       body,
       ml [''</p>'']],
      ml ['''',
       ''                    </td>'',
       ''                  </tr>'',
       ''                </table>'',
       '''',
       ''                <table role=\"presentation\" cellpadding=\"0\" cellspacing=\"0\" style=\"margin:22px 0 0;\">'',
       ''                  <tr>'',
       ''                    <td style=\"border-radius:10px;background:''],
      BRAND,
      ml ['';\">'',
       ''                      <a href=\"''],
      url,
      ml [''\"'',
       ''                         class=\"fb-btn\" style=\"display:inline-block;padding:12px 24px;font-size:15px;font-weight:600;color:#ffffff;text-decoration:none;border-radius:10px;\">'',
       ''                        Review this feedback'',
       ''                      </a>'',
       ''                    </td>'',
       ''                  </tr>'',
       ''                </table>'',
       ''              </td>'',
       ''            </tr>'',
       '''',
       ''            <tr>'',
       ''              <td class=\"fb-divider\" style=\"padding:16px 32px 24px;border-top:1px solid rgba(227,153,163,0.25);\">'',
       ''                <p class=\"fb-muted\" style=\"margin:0;font-size:12px;line-height:1.5;color:rgba(28,10,12,0.45);\">'',
       ''                  You're receiving this because you own the <strong>''],
      ws,
      ml [''</strong> workspace on FeedBoard.'',
       ''                </p>'',
       ''              </td>'',
       ''            </tr>'',
       ''          </table>'',
       ''        </td>'',
       ''      </tr>'',
       ''    </table>'',
       ''  </body>'',
       ''</html>'']]"

definition newFeedbackEmail ::
  "jstring \<Rightarrow> jstring \<Rightarrow> jstring \<Rightarrow> string \<Rightarrow> jstring \<Rightarrow> jstring \<Rightarrow> mail" where
  "newFeedbackEmail workspaceName title description postType authorName postUrl =
     (let type = feedback_label postType
      in \<lparr>ml_subject = js ''New feedback on '' @ workspaceName @ js '': '' @ truncate title 60,
          ml_html = newFeedback_html (esc workspaceName) type (esc (or_text authorName ''Anonymous''))
                      (esc title) (esc (truncate description 400)) (esc postUrl),
          ml_text = joined [10]
            ([js ''New feedback was posted on your \"'' @ workspaceName @ js ''\" board.'',
              [],
              without_icon type @ js '' '' @ [8212] @ js '' from '' @ or_text authorName ''Anonymous'',
              js ''\"'' @ title @ js ''\"'']
             @ (if description = [] then [] else [[], truncate description 400])
             @ [[],
                js ''Review it here:'',
                postUrl,
                [],
                [8212] @ js '' FeedBoard''])\<rparr>)"

section \<open>Feedback implemented\<close>

definition implemented_html :: "jstring \<Rightarrow> jstring \<Rightarrow> jstring \<Rightarrow> jstring \<Rightarrow> jstring" where
  "implemented_html ws who t url =
     concat
     [ml [''<!doctype html>'',
       ''<html>'',
       ''''],
      EMAIL_HEAD,
      ml ['''',
       ''  <body class=\"fb-body\" style=\"margin:0;padding:0;background:''],
      WASH,
      ml ['';font-family:-apple-system,BlinkMacSystemFont,'Segoe UI',Roboto,Helvetica,Arial,sans-serif;\">'',
       ''    <table role=\"presentation\" width=\"100%\" cellpadding=\"0\" cellspacing=\"0\" class=\"fb-outer\" style=\"background:''],
      WASH,
      ml ['';padding:32px 12px;\">'',
       ''      <tr>'',
       ''        <td align=\"center\">'',
       ''          <table role=\"presentation\" width=\"100%\" cellpadding=\"0\" cellspacing=\"0\" class=\"fb-card\" style=\"max-width:520px;background:#ffffff;border:1px solid rgba(227,153,163,0.35);border-radius:16px;overflow:hidden;\">'',
       ''            <tr>'',
       ''              <td style=\"background:linear-gradient(135deg,''],
      INK,
      ml ['' 0%,#7a2d38 55%,''],
      BRAND,
      ml ['' 100%);padding:24px 32px;\">'',
       ''                <span class=\"fb-wordmark\" style=\"color:#ffffff;font-size:18px;font-weight:700;\">''],
      ws,
      ml [''</span>'',
       ''              </td>'',
       ''            </tr>'',
       '''',
       ''            <tr>'',
       ''              <td style=\"padding:28px 32px;\">'',
       ''                <p class=\"fb-accent\" style=\"margin:0 0 4px;font-size:12px;text-transform:uppercase;letter-spacing:1px;color:''],
      BRAND,
      ml ['';font-weight:700;\">'',
       ''                  ''],
      [9989],
      ml ['' Implemented'',
       ''                </p>'',
       ''                <p class=\"fb-heading\" style=\"margin:12px 0 0;font-size:16px;line-height:1.6;color:''],
      INK,
      ml ['';\">'',
       ''                  Hi ''],
      who,
      ml ['', good news ''],
      [8212],
      ml ['' the feedback you shared has been'',
       ''                  <strong>implemented</strong>:'',
       ''                </p>'',
       '''',
       ''                <table role=\"presentation\" cellpadding=\"0\" cellspacing=\"0\" style=\"margin:16px 0 0;width:100%;\">'',
       ''                  <tr>'',
       ''                    <td class=\"fb-panel\" style=\"padding:14px 16px;border-radius:12px;background:''],
      WASH,
      ml ['';border:1px solid rgba(227,153,163,0.3);\">'',
       ''                      <p class=\"fb-heading\" style=\"margin:0;font-size:17px;font-weight:700;line-height:1.35;color:''],
      INK,
      ml ['';\">'',
       ''                        ''],
      t,
      ml ['''',
       ''                      </p>'',
       ''                    </td>'',
       ''                  </tr>'',
       ''                </table>'',
       '''',
       ''                <p class=\"fb-text\" style=\"margin:18px 0 0;font-size:14px;line-height:1.6;color:rgba(28,10,12,0.7);\">'',
       ''                  Thank you for helping shape the product.'',
       ''                </p>'',
       '''',
       ''                ''],
      if url = [] then [] else concat
      [ml [''<table role=\"presentation\" cellpadding=\"0\" cellspacing=\"0\" style=\"margin:22px 0 0;\">'',
        ''                    <tr>'',
        ''                      <td style=\"border-radius:10px;background:''],
       BRAND,
       ml ['';\">'',
        ''                        <a href=\"''],
       url,
       ml [''\" class=\"fb-btn\" style=\"display:inline-block;padding:12px 24px;font-size:15px;font-weight:600;color:#ffffff;text-decoration:none;border-radius:10px;\">'',
        ''                          See it on the board'',
        ''                        </a>'',
        ''                      </td>'',
        ''                    </tr>'',
        ''                  </table>'']],
      ml ['''',
       ''              </td>'',
       ''            </tr>'',
       '''',
       ''            <tr>'',
       ''              <td class=\"fb-divider\" style=\"padding:16px 32px 24px;border-top:1px solid rgba(227,153,163,0.25);\">'',
       ''                <p class=\"fb-muted\" style=\"margin:0;font-size:12px;line-height:1.5;color:rgba(28,10,12,0.45);\">'',
       ''                  You're receiving this because you submitted feedback to <strong>''],
      ws,
      ml [''</strong>.'',
       ''                </p>'',
       ''              </td>'',
       ''            </tr>'',
       ''          </table>'',
       ''        </td>'',
       ''      </tr>'',
       ''    </table>'',
       ''  </body>'',
       ''</html>'']]"

definition feedbackImplementedEmail :: "jstring \<Rightarrow> jstring \<Rightarrow> jstring \<Rightarrow> jstring \<Rightarrow> mail" where
  "feedbackImplementedEmail workspaceName title submitterName postUrl =
     (let name = or_text (js_trim submitterName) ''there''
      in \<lparr>ml_subject = js ''Your feedback was implemented: '' @ truncate title 60,
          ml_html = implemented_html (esc workspaceName) (esc name) (esc title)
                      (if postUrl = [] then [] else esc postUrl),
          ml_text = joined [10]
            ([js ''Hi '' @ name @ js '','',
              [],
              js ''Good news '' @ [8212] @ js '' the feedback you shared with '' @ workspaceName
                @ js '' has been implemented:'',
              js ''\"'' @ title @ js ''\"'',
              [],
              js ''Thank you for helping shape the product.'']
             @ (if postUrl = [] then [] else [[], js ''See it here:'', postUrl])
             @ [[],
                [8212] @ js '' The '' @ workspaceName @ js '' team''])\<rparr>)"

section \<open>The mailer\<close>

text \<open>
  \<open>accepts p\<close>: provider \<open>p\<close> takes the message; a refusal and an exception end the same way.  The
  answer is \<open>(sent, provider)\<close>.
\<close>

definition MAIL_FROM :: "services \<Rightarrow> string" where
  "MAIL_FROM s = (case env s ''MAIL_FROM'' of
     Some v \<Rightarrow> if v = [] then ''FeedBoard <onboarding@resend.dev>'' else v
   | None \<Rightarrow> ''FeedBoard <onboarding@resend.dev>'')"

definition MAIL_FROM_SUPPORT :: "services \<Rightarrow> jstring" where
  "MAIL_FROM_SUPPORT s =
     (if env_set s ''MAIL_FROM_SUPPORT'' then js (the (env s ''MAIL_FROM_SUPPORT''))
      else let from = js (MAIL_FROM s)
           in js_trim (if 60 \<in> set from then js ''FeedBoard Support '' @ dropWhile (\<lambda>u. u \<noteq> 60) from else from))"

definition isResendConfigured :: "services \<Rightarrow> bool" where
  "isResendConfigured s = env_set s ''RESEND_API_KEY''"

definition isSmtpConfigured :: "services \<Rightarrow> bool" where
  "isSmtpConfigured s \<longleftrightarrow> env_set s ''SMTP_HOST'' \<and> env_set s ''SMTP_USER'' \<and> env_set s ''SMTP_PASS''"

definition isMailConfigured :: "services \<Rightarrow> bool" where
  "isMailConfigured s \<longleftrightarrow> isResendConfigured s \<or> isSmtpConfigured s"

definition sendEmail :: "services \<Rightarrow> (string \<Rightarrow> bool) \<Rightarrow> bool \<times> string" where
  "sendEmail s accepts =
     (if isResendConfigured s then (if accepts ''resend'' then (True, ''resend'') else (False, ''error''))
      else if isSmtpConfigured s then (if accepts ''smtp'' then (True, ''smtp'') else (False, ''error''))
      else (False, ''log''))"

section \<open>Response texts\<close>

text \<open>
  \<open>setServerResponse\<close> and \<open>getDualResponse\<close>.  \<open>file\<close> is \<open>response-message.json\<close>, read on every
  call: language, then key, to text; \<open>None\<close> when it cannot be read or parsed.
\<close>

type_synonym message_file = "string \<Rightarrow> (string \<Rightarrow> jstring option) option"

definition or_else :: "jstring option \<Rightarrow> jstring \<Rightarrow> jstring" where
  "or_else a b = (case a of Some v \<Rightarrow> if v = [] then b else v | None \<Rightarrow> b)"

definition english :: "message_file \<Rightarrow> string \<Rightarrow> jstring option" where
  "english tr = (case tr ''en'' of Some m \<Rightarrow> m | None \<Rightarrow> (\<lambda>_. None))"

definition setServerResponse ::
  "message_file option \<Rightarrow> int \<Rightarrow> string \<Rightarrow> string \<Rightarrow> 'r option \<Rightarrow> string + 'r response" where
  "setServerResponse file code msgKey language result =
     (case file of
        None \<Rightarrow> Inl ''Unable to load translations file.''
      | Some tr \<Rightarrow>
          let messages = (case tr language of Some m \<Rightarrow> m | None \<Rightarrow> english tr)
          in Inr \<lparr>rs_statusCode = code,
                  rs_status = (if 200 \<le> code \<and> code < 300 then ''success'' else ''failed''),
                  rs_message = or_else (messages msgKey) (or_else (english tr msgKey) (js msgKey)),
                  rs_result = result\<rparr>)"

text \<open>The Bengali text for a missing key is its code units.\<close>

definition NO_MESSAGE_BN :: jstring where
  "NO_MESSAGE_BN = [2476, 2494, 2480, 2509, 2468, 2494, 32, 2474, 2494, 2451, 2479, 2492, 2494, 32, 2479, 2494, 2479, 2492, 2472, 2495]"

definition getDualResponse :: "message_file option \<Rightarrow> string \<Rightarrow> string + (jstring \<times> jstring)" where
  "getDualResponse file msgKey =
     (case file of
        None \<Rightarrow> Inl ''Unable to load translations file.''
      | Some tr \<Rightarrow>
          Inr (or_else (english tr msgKey) (js ''Message not found''),
               or_else (case tr ''bn'' of Some m \<Rightarrow> m msgKey | None \<Rightarrow> None) NO_MESSAGE_BN))"

end
