(* ===== verification/Mail_Facts.thy ===== *)
theory Mail_Facts
  imports Mails
begin

text \<open>
  What users typed stays text in the e-mails: escaping loses nothing and lets no markup through,
  so the tags of a message are those of the same message with empty texts.
\<close>

section \<open>Escaping\<close>

definition esc_unit :: "nat \<Rightarrow> jstring" where
  "esc_unit c =
     (if c = 38 then js ''&amp;'' else if c = 60 then js ''&lt;''
      else if c = 62 then js ''&gt;'' else if c = 34 then js ''&quot;'' else [c])"

lemma replace_all_append: "replace_all u by (s @ t) = replace_all u by s @ replace_all u by t"
  by (simp add: replace_all_def)

lemma esc_append: "esc (s @ t) = esc s @ esc t"
  by (simp add: esc_def replace_all_append)

lemma esc_single: "esc [c] = esc_unit c"
  by (simp add: esc_def esc_unit_def replace_all_def)

lemma esc_Nil [simp]: "esc [] = []"
  by (simp add: esc_def replace_all_def)

lemma esc_Cons: "esc (c # s) = esc_unit c @ esc s"
  using esc_append [of "[c]" s] by (simp add: esc_single)

text \<open>A reader of HTML: the four entities, everything else as it is.\<close>

definition entities :: "(jstring \<times> nat) list" where
  "entities = [(js ''&amp;'', 38), (js ''&lt;'', 60), (js ''&gt;'', 62), (js ''&quot;'', 34)]"

function unescape :: "jstring \<Rightarrow> jstring" where
  "unescape [] = []"
| "unescape (c # s) =
     (case find (\<lambda>(e, u). prefix e (c # s)) entities of
        None \<Rightarrow> c # unescape s
      | Some (e, u) \<Rightarrow> u # unescape (drop (length e - 1) s))"
  by pat_completeness auto

termination
  by (relation "measure length") auto

lemma unescape_unit: "unescape (esc_unit c @ s) = c # unescape s"
  by (auto simp: esc_unit_def entities_def)

text \<open>
  C21: Escaping loses nothing: a reader that turns the four entities back sees exactly the text
  the user typed, whatever it contains, entities included.
\<close>

theorem esc_round_trip: "unescape (esc s) = s"
  by (induction s) (simp_all add: esc_Cons unescape_unit)

section \<open>Markup\<close>

text \<open>The characters that make tags and quote attributes.\<close>

definition skeleton :: "jstring \<Rightarrow> jstring" where
  "skeleton s = filter (\<lambda>u. u \<in> {60, 62, 34}) s"

lemma skeleton_concat: "skeleton (concat xs) = concat (map skeleton xs)"
  by (induction xs) (simp_all add: skeleton_def)

lemma skeleton_Nil: "skeleton [] = []"
  by (simp add: skeleton_def)

lemma skeleton_esc: "skeleton (esc s) = []"
  by (induction s) (auto simp: skeleton_def esc_Cons esc_unit_def)

lemma skeleton_digits: "skeleton (js_of_nat n) = []"
  using js_of_nat_digits [of n] by (auto simp: skeleton_def is_digit_def filter_empty_conv)

lemma skeleton_label: "skeleton (feedback_label ty) = []"
  by (simp add: skeleton_def feedback_label_def)

lemma invitation_skeleton:
  assumes "skeleton ws = []" "skeleton who = []" "skeleton url = []"
  shows "skeleton (invitation_html ws who url n) = skeleton (invitation_html [] [] [] 0)"
  unfolding invitation_html_def skeleton_concat
  by (simp only: list.map skeleton_digits skeleton_Nil assms)

lemma reset_skeleton:
  "skeleton url = [] \<Longrightarrow> skeleton (reset_html url n) = skeleton (reset_html [] 0)"
  unfolding reset_html_def skeleton_concat by (simp only: list.map skeleton_digits skeleton_Nil)

lemma if_skeleton: "skeleton (if b then [] else s) = (if b then [] else skeleton s)"
  by (simp add: skeleton_Nil)

lemma planChanged_skeleton:
  assumes "skeleton who = []" "skeleton verb = []" "skeleton line = []" "skeleton a = []" "skeleton b = []"
    "skeleton note = []" "skeleton note' = []" "note = [] \<longleftrightarrow> note' = []"
  shows "skeleton (planChanged_html who verb line a b note) = skeleton (planChanged_html [] [] [] [] [] note')"
  unfolding planChanged_html_def skeleton_concat
  by (simp only: list.map skeleton_Nil if_skeleton skeleton_concat assms)

lemma newFeedback_skeleton:
  assumes "skeleton ws = []" "skeleton ty = []" "skeleton who = []" "skeleton t = []" "skeleton body = []"
    "skeleton url = []" "skeleton body' = []" "body = [] \<longleftrightarrow> body' = []"
  shows "skeleton (newFeedback_html ws ty who t body url) = skeleton (newFeedback_html [] [] [] [] body' [])"
  unfolding newFeedback_html_def skeleton_concat
  by (simp only: list.map skeleton_Nil if_skeleton skeleton_concat assms)

lemma implemented_skeleton:
  assumes "skeleton ws = []" "skeleton who = []" "skeleton t = []" "skeleton url = []" "skeleton url' = []"
    "url = [] \<longleftrightarrow> url' = []"
  shows "skeleton (implemented_html ws who t url) = skeleton (implemented_html [] [] [] url')"
  unfolding implemented_html_def skeleton_concat
  by (simp only: list.map skeleton_Nil if_skeleton skeleton_concat assms)

lemma esc_eq_Nil [simp]: "esc s = [] \<longleftrightarrow> s = []"
  by (cases s) (auto simp: esc_Cons esc_unit_def split: if_splits)

lemma truncate_eq_Nil: "truncate s n = [] \<longleftrightarrow> js_trim s = []"
  by (auto simp: truncate_def Let_def)

text \<open>A stand-in for a text that is there.\<close>

definition some_text :: "jstring \<Rightarrow> jstring" where
  "some_text s = (if s = [] then [] else js ''x'')"

lemma some_text_simps [simp]: "skeleton (some_text s) = []" "some_text s = [] \<longleftrightarrow> s = []"
  by (auto simp: some_text_def skeleton_def)

lemmas skeletons = skeleton_esc skeleton_label skeleton_Nil

text \<open>
  C16: No text of a user becomes markup in an e-mail: the angle brackets and quotes of each of the
  five messages, in their order, are those of the same message with every name, title, address
  and link empty; only the presence of a description, a link or a duration note shows.
\<close>

theorem mails_carry_no_markup:
  "skeleton (ml_html (invitationEmail ws who url n)) = skeleton (invitation_html [] [] [] 0)
   \<and> skeleton (ml_html (passwordResetEmail url n)) = skeleton (reset_html [] 0)
   \<and> skeleton (ml_html (planChangedEmail who a b dir names life until))
       = skeleton (planChanged_html [] [] [] [] [] (some_text (duration_note b life until)))
   \<and> skeleton (ml_html (newFeedbackEmail ws t d ty who url))
       = skeleton (newFeedback_html [] [] [] [] (some_text (js_trim d)) [])
   \<and> skeleton (ml_html (feedbackImplementedEmail ws t who url))
       = skeleton (implemented_html [] [] [] (some_text url))"
proof (intro conjI)
  show "skeleton (ml_html (invitationEmail ws who url n)) = skeleton (invitation_html [] [] [] 0)"
    unfolding invitationEmail_def Let_def mail.simps by (intro invitation_skeleton skeletons)
  show "skeleton (ml_html (passwordResetEmail url n)) = skeleton (reset_html [] 0)"
    unfolding passwordResetEmail_def Let_def mail.simps by (intro reset_skeleton skeletons)
  show "skeleton (ml_html (planChangedEmail who a b dir names life until))
       = skeleton (planChanged_html [] [] [] [] [] (some_text (duration_note b life until)))"
    unfolding planChangedEmail_def Let_def mail.simps by (intro planChanged_skeleton skeletons) simp_all
  show "skeleton (ml_html (newFeedbackEmail ws t d ty who url))
       = skeleton (newFeedback_html [] [] [] [] (some_text (js_trim d)) [])"
    unfolding newFeedbackEmail_def Let_def mail.simps
    by (intro newFeedback_skeleton skeletons) (simp_all add: truncate_eq_Nil)
  show "skeleton (ml_html (feedbackImplementedEmail ws t who url)) = skeleton (implemented_html [] [] [] (some_text url))"
    unfolding feedbackImplementedEmail_def Let_def mail.simps
    by (intro implemented_skeleton skeletons) (simp_all add: skeletons)
qed

text \<open>The subject and plain text of an invitation carry entities: the escaped name is used there too.\<close>

lemma invitation_subject_is_escaped:
  "\<exists>rest. ml_subject (invitationEmail ws (js ''Tom & Ann'') url n) = js ''Tom &amp; Ann'' @ rest"
  by (simp add: invitationEmail_def or_text_def esc_Cons esc_unit_def)

section \<open>Delivery and answers\<close>

lemma sent_needs_provider: "fst (sendEmail s accepts) \<Longrightarrow> isMailConfigured s"
  by (simp add: sendEmail_def isMailConfigured_def split: if_splits)

text \<open>A partial translation falls back to English; the raw key shows only when English lacks it too.\<close>

lemma english_is_the_fallback:
  assumes "setServerResponse (Some tr) code key lang r = Inr a" "english tr key = Some t" "t \<noteq> []"
  shows "rs_message a = t \<or> (\<exists>m. tr lang = Some m \<and> m key = Some (rs_message a))"
  using assms by (auto simp: setServerResponse_def or_else_def Let_def split: option.splits)

lemma missing_key_is_shown:
  assumes "english tr key = None" "tr lang = None"
  shows "setServerResponse (Some tr) code key lang r
           = Inr \<lparr>rs_statusCode = code, rs_status = (if 200 \<le> code \<and> code < 300 then ''success'' else ''failed''),
                   rs_message = js key, rs_result = r\<rparr>"
  using assms by (simp add: setServerResponse_def or_else_def)

end
