(* ===== verification/Startup.thy ===== *)
theory Startup
  imports Paddle_Billing
begin

text \<open>
  How a worker comes to serve and stops serving: the migrations every boot runs
  (\<open>scripts/add-*.js\<close>), the boot that runs them under an advisory lock
  (\<open>common/bootMigrations.js\<close>), the bootstrap and shutdown of \<open>app.js\<close>, and the start of the
  billing sweep.  Workers of one cluster share the schema and the lock; \<open>orderly\<close> and \<open>crash\<close>
  are their steps.
\<close>

section \<open>Migrations\<close>

text \<open>
  A schema is what \<open>information_schema\<close> shows of it: tables, columns and indexes by name.  An
  item is a check and the statement it guards, with the columns an index is made of.
\<close>

record ddl =
  dd_tables :: "string list"
  dd_columns :: "(string \<times> string) list"
  dd_indexes :: "(string \<times> string) list"

datatype migration_item =
    NewColumn string string
  | NewIndex string string "string list"
  | NewTable string "string list"

fun present :: "ddl \<Rightarrow> migration_item \<Rightarrow> bool" where
  "present s (NewColumn t c) \<longleftrightarrow> (t, c) \<in> set (dd_columns s)"
| "present s (NewIndex t i cs) \<longleftrightarrow> (t, i) \<in> set (dd_indexes s)"
| "present s (NewTable t cs) \<longleftrightarrow> t \<in> set (dd_tables s)"

text \<open>
  The statement itself: an error when the name is taken, or when what it builds on is missing.
\<close>

fun alter :: "migration_item \<Rightarrow> ddl \<Rightarrow> ddl option" where
  "alter (NewColumn t c) s =
     (if t \<in> set (dd_tables s) \<and> (t, c) \<notin> set (dd_columns s)
      then Some (s\<lparr>dd_columns := dd_columns s @ [(t, c)]\<rparr>) else None)"
| "alter (NewIndex t i cs) s =
     (if (\<forall>c \<in> set cs. (t, c) \<in> set (dd_columns s)) \<and> (t, i) \<notin> set (dd_indexes s)
      then Some (s\<lparr>dd_indexes := dd_indexes s @ [(t, i)]\<rparr>) else None)"
| "alter (NewTable t cs) s =
     (if t \<in> set (dd_tables s) then Some s
      else Some (s\<lparr>dd_tables := dd_tables s @ [t], dd_columns := dd_columns s @ map (Pair t) cs\<rparr>))"

text \<open>What a script prints for an item.\<close>

fun item_name :: "migration_item \<Rightarrow> string" where
  "item_name (NewColumn t c) = t @ ''.'' @ c"
| "item_name (NewIndex t i cs) = ''index '' @ t @ ''.'' @ i"
| "item_name (NewTable t cs) = t"

definition added_line :: "migration_item \<Rightarrow> jstring" where
  "added_line i = js (''added '' @ item_name i)"

definition skipped_line :: "migration_item \<Rightarrow> jstring" where
  "skipped_line i = js (item_name i) @ js '' already exists '' @ [8212] @ js '' skipping''"

text \<open>The three scripts, item by item, in their order.\<close>

definition MODERATION_COLUMNS :: "string list" where
  "MODERATION_COLUMNS = [''moderation_state'', ''spam_score'', ''spam_reasons'', ''voter_hash'']"

definition add_spam_columns :: "migration_item list" where
  "add_spam_columns =
     map (NewColumn ''posts'') MODERATION_COLUMNS
     @ map (NewColumn ''comments'') MODERATION_COLUMNS
     @ [NewColumn ''votes'' ''voter_hash'',
        NewIndex ''votes'' ''uq_votes_voter_hash'' [''tenant_id'', ''post_id'', ''voter_hash''],
        NewIndex ''posts'' ''idx_posts_tenant_moderation'' [''tenant_id'', ''moderation_state''],
        NewIndex ''comments'' ''idx_comments_moderation'' [''tenant_id'', ''moderation_state''],
        NewTable ''public_write_counters'' [''scope_key'', ''window_start'', ''count'']]"

definition add_spam_review_columns :: "migration_item list" where
  "add_spam_review_columns =
     [NewColumn ''posts'' ''spam_reviewed_at'', NewColumn ''posts'' ''spam_reviewed_score'',
      NewColumn ''comments'' ''spam_reviewed_at'', NewColumn ''comments'' ''spam_reviewed_score'']"

definition add_require_auth_to_post :: "migration_item list" where
  "add_require_auth_to_post = [NewColumn ''tenants'' ''require_auth_to_post'']"

definition MIGRATIONS :: "(string \<times> migration_item list) list" where
  "MIGRATIONS =
     [(''add-spam-columns.js'', add_spam_columns),
      (''add-spam-review-columns.js'', add_spam_review_columns),
      (''add-require-auth-to-post.js'', add_require_auth_to_post)]"

text \<open>
  One script in an idle database: its output and the schema it leaves, or the failing statement
  (\<open>process.exit(1)\<close>) with what came before it.
\<close>

fun run_script :: "migration_item list \<Rightarrow> ddl \<Rightarrow> bool \<times> jstring list \<times> ddl" where
  "run_script [] s = (True, [], s)"
| "run_script (i # is) s =
     (if present s i then
        let (ok, out, s') = run_script is s in (ok, skipped_line i # out, s')
      else case alter i s of
             None \<Rightarrow> (False, [], s)
           | Some s1 \<Rightarrow> let (ok, out, s') = run_script is s1 in (ok, added_line i # out, s'))"

text \<open>The lines the boot reports as changes: \<open>/^added /i\<close> or \<open>/\bready$/i\<close>.\<close>

definition word_unit :: "nat \<Rightarrow> bool" where
  "word_unit u \<longleftrightarrow> is_digit u \<or> is_upper_ascii u \<or> is_lower_ascii u \<or> u = 95"

definition reports_change :: "jstring \<Rightarrow> bool" where
  "reports_change line =
     (let l = js_lower (js_trim line); n = length l - 5
      in take 6 l = js ''added ''
         \<or> (5 \<le> length l \<and> drop n l = js ''ready'' \<and> (n = 0 \<or> \<not> word_unit (l ! (n - 1)))))"

section \<open>One boot\<close>

text \<open>
  \<open>runBootMigrations\<close>: what the outside answers is given (a connection, the answer of
  \<open>GET_LOCK\<close> unless that fails, whether each script exits with 0, whether releasing works), so
  the result is whether the worker may serve, and the scripts it started.
\<close>

record boot_env =
  be_skip :: bool
  be_connects :: bool
  be_lock :: "bool option"
  be_script :: "string \<Rightarrow> bool"
  be_releases :: bool

fun run_scripts :: "(string \<Rightarrow> bool) \<Rightarrow> string list \<Rightarrow> bool \<times> string list" where
  "run_scripts ok [] = (True, [])"
| "run_scripts ok (f # fs) =
     (if ok f then let (r, started) = run_scripts ok fs in (r, f # started) else (False, [f]))"

definition runBootMigrations :: "boot_env \<Rightarrow> bool \<times> string list" where
  "runBootMigrations e =
     (if be_skip e then (True, [])
      else if \<not> be_connects e then (False, [])
      else case be_lock e of
             Some True \<Rightarrow>
               let (ok, started) = run_scripts (be_script e) (map fst MIGRATIONS)
               in (ok \<and> be_releases e, started)
           | _ \<Rightarrow> (False, []))"

section \<open>A cluster of workers\<close>

text \<open>
  A worker on its way through \<open>runBootMigrations\<close> and the bootstrap, and the child process that
  runs a script for it.  A child has the items it has not dealt with; \<open>True\<close> means it has looked
  for the first one, has not found it, and is about to alter.
\<close>

datatype phase =
    Starting
  | Awaiting
  | Migrating "(string \<times> migration_item list) list"
  | Serving
  | Gone

datatype child = NoChild | Script "migration_item list" bool | Exited bool

text \<open>
  \<open>cl_lock\<close> is the worker whose connection holds the advisory lock.  A restarted worker is a new
  number.
\<close>

record cluster =
  cl_skip :: bool
  cl_ddl :: ddl
  cl_lock :: "nat option"
  cl_phase :: "nat \<Rightarrow> phase"
  cl_child :: "nat \<Rightarrow> child"

definition set_phase :: "nat \<Rightarrow> phase \<Rightarrow> cluster \<Rightarrow> cluster" where
  "set_phase w p c = c\<lparr>cl_phase := (cl_phase c)(w := p)\<rparr>"

definition set_child :: "nat \<Rightarrow> child \<Rightarrow> cluster \<Rightarrow> cluster" where
  "set_child w x c = c\<lparr>cl_child := (cl_child c)(w := x)\<rparr>"

text \<open>The lock is bound to the connection: it goes when the worker releases it or exits.\<close>

definition unlock :: "nat \<Rightarrow> cluster \<Rightarrow> cluster" where
  "unlock w c = (if cl_lock c = Some w then c\<lparr>cl_lock := None\<rparr> else c)"

text \<open>
  The steps of a worker that is not interrupted.  A failing query, a lock that does not come
  within its timeout and a script that exits with an error all end in \<open>process.exit(1)\<close>; only a
  worker that still has its lock can release it and serve.
\<close>

inductive orderly :: "cluster \<Rightarrow> cluster \<Rightarrow> bool" where
  skipped: "cl_phase c w = Starting \<Longrightarrow> cl_skip c \<Longrightarrow> orderly c (set_phase w Serving c)"
| connected: "cl_phase c w = Starting \<Longrightarrow> \<not> cl_skip c \<Longrightarrow> orderly c (set_phase w Awaiting c)"
| unconnected: "cl_phase c w = Starting \<Longrightarrow> \<not> cl_skip c \<Longrightarrow> orderly c (set_phase w Gone c)"
| locked: "cl_phase c w = Awaiting \<Longrightarrow> cl_lock c = None \<Longrightarrow>
    orderly c (set_phase w (Migrating MIGRATIONS) (c\<lparr>cl_lock := Some w\<rparr>))"
| lock_refused: "cl_phase c w = Awaiting \<Longrightarrow> orderly c (set_phase w Gone c)"
| spawned: "cl_phase c w = Migrating (m # ms) \<Longrightarrow> cl_child c w = NoChild \<Longrightarrow>
    orderly c (set_child w (Script (snd m) False) c)"
| checked: "cl_child c w = Script (i # is) False \<Longrightarrow>
    orderly c (set_child w (if present (cl_ddl c) i then Script is False else Script (i # is) True) c)"
| altered: "cl_child c w = Script (i # is) True \<Longrightarrow> alter i (cl_ddl c) = Some d \<Longrightarrow>
    orderly c (set_child w (Script is False) (c\<lparr>cl_ddl := d\<rparr>))"
| rejected: "cl_child c w = Script (i # is) True \<Longrightarrow> alter i (cl_ddl c) = None \<Longrightarrow>
    orderly c (set_child w (Exited False) c)"
| failed: "cl_child c w = Script is b \<Longrightarrow> orderly c (set_child w (Exited False) c)"
| finished: "cl_child c w = Script [] False \<Longrightarrow> orderly c (set_child w (Exited True) c)"
| script_done: "cl_phase c w = Migrating (m # ms) \<Longrightarrow> cl_child c w = Exited True \<Longrightarrow>
    orderly c (set_phase w (Migrating ms) (set_child w NoChild c))"
| script_failed: "cl_phase c w = Migrating (m # ms) \<Longrightarrow> cl_child c w = Exited False \<Longrightarrow>
    orderly c (unlock w (set_phase w Gone (set_child w NoChild c)))"
| released: "cl_phase c w = Migrating [] \<Longrightarrow> cl_lock c = Some w \<Longrightarrow>
    orderly c (unlock w (set_phase w Serving c))"
| unreleased: "cl_phase c w = Migrating [] \<Longrightarrow> orderly c (unlock w (set_phase w Gone c))"

text \<open>
  Interruptions: a worker is killed, which frees the lock while its child, a process of its own,
  runs on; or only its connection drops.
\<close>

inductive crash :: "cluster \<Rightarrow> cluster \<Rightarrow> bool" where
  killed: "crash c (unlock w (set_phase w Gone c))"
| dropped: "crash c (unlock w c)"

definition cold :: "bool \<Rightarrow> ddl \<Rightarrow> cluster" where
  "cold skip d = \<lparr>cl_skip = skip, cl_ddl = d, cl_lock = None, cl_phase = (\<lambda>_. Starting), cl_child = (\<lambda>_. NoChild)\<rparr>"

section \<open>Serving and shutting down\<close>

text \<open>
  The process after its start: whether the sweep's timer is set, and whether it is shutting
  down.  Signals and uncaught exceptions shut down once; an unhandled rejection is only logged.
\<close>

datatype signal = SIGTERM | SIGINT | UncaughtException | UnhandledRejection

datatype proc_action =
  SetTimer int | FirstSweepAfter int | ClearTimer | ForceExitAfter int | StopAccepting | DrainPool | CloseLog | ExitWith int

text \<open>\<open>pr_first\<close>: the sweep that is due thirty seconds after the start is still to come.\<close>

record proc =
  pr_timer :: bool
  pr_first :: bool
  pr_down :: bool

definition startBillingScheduler :: "services \<Rightarrow> proc \<Rightarrow> proc \<times> proc_action list" where
  "startBillingScheduler s p =
     (if pr_timer p \<or> env s ''BILLING_SCHEDULER'' = Some ''off''
         \<or> \<not> isPaddleActive s \<or> \<not> isPaddleConfigured s then (p, [])
      else (p\<lparr>pr_timer := True, pr_first := True\<rparr>,
            [SetTimer (positive_or (env_num s ''BILLING_SCHEDULER_MINUTES'') 30 * 60 * 1000), FirstSweepAfter 30000]))"

definition stopBillingScheduler :: "proc \<Rightarrow> proc \<times> proc_action list" where
  "stopBillingScheduler p = (p\<lparr>pr_timer := False\<rparr>, if pr_timer p then [ClearTimer] else [])"

text \<open>
  \<open>shutdown\<close>; of the three things it waits for, the end of the open connections, the pool and
  the log, \<open>n\<close> finish before the forced exit.  Failures of the last two are only logged.
\<close>

definition shutdown :: "services \<Rightarrow> nat \<Rightarrow> proc \<Rightarrow> proc \<times> proc_action list" where
  "shutdown s n p =
     (if pr_down p then (p, [])
      else let (p', stopped) = stopBillingScheduler (p\<lparr>pr_down := True\<rparr>);
               closing = [DrainPool, CloseLog, ExitWith 0]
           in (p', stopped @ [ForceExitAfter (env_or s ''SHUTDOWN_TIMEOUT_MS'' 15000), StopAccepting]
                   @ (if n < 3 then take n closing @ [ExitWith 1] else closing)))"

fun on_signal :: "services \<Rightarrow> nat \<Rightarrow> signal \<Rightarrow> proc \<Rightarrow> proc \<times> proc_action list" where
  "on_signal s n UnhandledRejection p = (p, [])"
| "on_signal s n sig p = shutdown s n p"

text \<open>The bootstrap: refuse to start, or listen and start the sweep.\<close>

definition bootstrap :: "services \<Rightarrow> boot_env \<Rightarrow> proc \<Rightarrow> proc \<times> proc_action list" where
  "bootstrap s e p = (if fst (runBootMigrations e) then startBillingScheduler s p else (p, [ExitWith 1]))"

text \<open>\<open>GET /health\<close> reads the columns a missed migration breaks first.\<close>

definition health :: "(int \<times> string) io" where
  "health = catch (bnd (select (\<lambda>d. filter (\<lambda>p. p_moderation p \<noteq> Spam) (posts d))) (\<lambda>_. ret (200, ''ok'')))
                  (\<lambda>_. ret (503, ''schema_or_database_unavailable''))"

section \<open>Cross-origin requests\<close>

text \<open>
  \<open>buildCorsOptions\<close>; \<open>url_host\<close> is \<open>new URL(origin).host\<close>, \<open>None\<close> when that throws.  Without
  production and a root domain every origin is allowed.
\<close>

definition without_scheme :: "jstring \<Rightarrow> jstring" where
  "without_scheme s =
     (if take 7 s = js ''http://'' then drop 7 s
      else if take 8 s = js ''https://'' then drop 8 s else s)"

definition ROOT_HOST :: "services \<Rightarrow> jstring" where
  "ROOT_HOST s =
     js_lower (takeWhile (\<lambda>u. u \<noteq> 47) (without_scheme (case env s ''ROOT_DOMAIN'' of Some v \<Rightarrow> js v | None \<Rightarrow> [])))"

definition without_port :: "jstring \<Rightarrow> jstring" where
  "without_port h =
     (let digits = takeWhile is_digit (rev h); rest = drop (length digits) (rev h)
      in if digits \<noteq> [] \<and> rest \<noteq> [] \<and> hd rest = 58 then rev (tl rest) else h)"

definition EXTRA_ORIGINS :: "services \<Rightarrow> jstring list" where
  "EXTRA_ORIGINS s =
     filter (\<lambda>o'. o' \<noteq> [])
       (map (\<lambda>o'. js_lower (js_trim o')) (js_split 44 (case env s ''CORS_EXTRA_ORIGINS'' of Some v \<Rightarrow> js v | None \<Rightarrow> [])))"

definition FRONTEND_ORIGIN :: "services \<Rightarrow> jstring" where
  "FRONTEND_ORIGIN s =
     (let u = js_lower (case env s ''FRONTEND_URL'' of Some v \<Rightarrow> js v | None \<Rightarrow> [])
      in if u \<noteq> [] \<and> last u = 47 then butlast u else u)"

definition origin_allowed :: "services \<Rightarrow> jstring \<Rightarrow> bool" where
  "origin_allowed s origin =
     (case url_host s origin of
        None \<Rightarrow> False
      | Some h \<Rightarrow>
          let bare = without_port (ROOT_HOST s); host = without_port (js_lower h); lo = js_lower origin
          in lo \<in> set (EXTRA_ORIGINS s)
             \<or> (FRONTEND_ORIGIN s \<noteq> [] \<and> lo = FRONTEND_ORIGIN s)
             \<or> host = bare \<or> (\<exists>n \<le> length host. drop n host = 46 # bare))"

definition cors_admits :: "services \<Rightarrow> jstring option \<Rightarrow> bool" where
  "cors_admits s origin =
     (if env s ''NODE_ENV'' = Some ''production'' \<and> ROOT_HOST s \<noteq> []
      then (case or_empty origin of [] \<Rightarrow> True | u # us \<Rightarrow> origin_allowed s (u # us))
      else True)"

end
