(* ===== verification/Startup_Facts.thy ===== *)
theory Startup_Facts
  imports Startup
begin

text \<open>
  Migrations only add and can be repeated; no worker of a cluster serves a schema that lacks
  one, whatever is killed on the way; and as long as nothing is killed only one worker migrates
  at a time, so the check of a script is still true when it alters.
\<close>

section \<open>Migrations are additive\<close>

definition extends :: "ddl \<Rightarrow> ddl \<Rightarrow> bool" where
  "extends s s' \<longleftrightarrow>
     set (dd_tables s) \<subseteq> set (dd_tables s') \<and> set (dd_columns s) \<subseteq> set (dd_columns s')
     \<and> set (dd_indexes s) \<subseteq> set (dd_indexes s')"

lemma extends_refl [simp]: "extends s s"
  by (simp add: extends_def)

lemma extends_trans: "extends s s' \<Longrightarrow> extends s' s'' \<Longrightarrow> extends s s''"
  by (auto simp: extends_def)

lemma present_mono: "extends s s' \<Longrightarrow> present s i \<Longrightarrow> present s' i"
  by (cases i) (auto simp: extends_def)

lemma alter_adds: "alter i s = Some s' \<Longrightarrow> extends s s' \<and> present s' i"
  by (cases i) (auto simp: extends_def split: if_splits)

definition all_present :: "ddl \<Rightarrow> migration_item list \<Rightarrow> bool" where
  "all_present s is \<longleftrightarrow> list_all (present s) is"

lemma all_present_simps [simp]:
  "all_present s []" "all_present s (i # is) \<longleftrightarrow> present s i \<and> all_present s is"
  "all_present s (is @ ks) \<longleftrightarrow> all_present s is \<and> all_present s ks"
  by (simp_all add: all_present_def)

lemma all_present_mono: "extends s s' \<Longrightarrow> all_present s is \<Longrightarrow> all_present s' is"
  by (induction "is") (auto intro: present_mono)

lemma run_script_adds:
  "run_script is s = (ok, out, s') \<Longrightarrow> extends s s' \<and> (ok \<longrightarrow> all_present s' is)"
proof (induction "is" arbitrary: s ok out)
  case (Cons i "is")
  show ?case
  proof (cases "present s i")
    case True
    with Cons.prems obtain out' where "run_script is s = (ok, out', s')" by (auto split: prod.splits)
    from Cons.IH [OF this] True show ?thesis by (auto intro: present_mono)
  next
    case False
    show ?thesis
    proof (cases "alter i s")
      case None
      with False Cons.prems show ?thesis by auto
    next
      case (Some s1)
      with False Cons.prems obtain out' where "run_script is s1 = (ok, out', s')" by (auto split: prod.splits)
      from Cons.IH [OF this] alter_adds [OF Some] show ?thesis
        by (auto intro: present_mono extends_trans)
    qed
  qed
qed simp

lemma run_script_again: "all_present s is \<Longrightarrow> run_script is s = (True, map skipped_line is, s)"
  by (induction "is") simp_all

lemma run_script_idempotent:
  assumes "run_script is s = (True, out, s')"
  shows "run_script is s' = (True, map skipped_line is, s')"
  using run_script_adds [OF assms] by (intro run_script_again) simp

section \<open>Serving means migrated\<close>

definition all_items :: "(string \<times> migration_item list) list \<Rightarrow> migration_item list" where
  "all_items ms = concat (map snd ms)"

lemma all_items_simps [simp]:
  "all_items [] = []" "all_items (m # ms) = snd m @ all_items ms"
  "all_items (ms @ ns) = all_items ms @ all_items ns"
  by (simp_all add: all_items_def)

definition child_sound :: "ddl \<Rightarrow> (string \<times> migration_item list) list \<Rightarrow> child \<Rightarrow> bool" where
  "child_sound d ms x \<longleftrightarrow>
     (case x of
        NoChild \<Rightarrow> True
      | Script is b \<Rightarrow> ms \<noteq> [] \<and> (\<exists>ps. snd (hd ms) = ps @ is \<and> all_present d ps)
      | Exited b \<Rightarrow> ms \<noteq> [] \<and> (b \<longrightarrow> all_present d (snd (hd ms))))"

fun sound :: "ddl \<Rightarrow> phase \<Rightarrow> child \<Rightarrow> bool" where
  "sound d Starting x \<longleftrightarrow> x = NoChild"
| "sound d Awaiting x \<longleftrightarrow> x = NoChild"
| "sound d (Migrating ms) x \<longleftrightarrow>
     (\<exists>ps. MIGRATIONS = ps @ ms \<and> all_present d (all_items ps)) \<and> child_sound d ms x"
| "sound d Serving x \<longleftrightarrow> x = NoChild \<and> all_present d (all_items MIGRATIONS)"
| "sound d Gone x \<longleftrightarrow> True"

definition boot_inv :: "cluster \<Rightarrow> bool" where
  "boot_inv c \<longleftrightarrow> \<not> cl_skip c \<and> (\<forall>w. sound (cl_ddl c) (cl_phase c w) (cl_child c w))"

lemma child_sound_mono: "extends d d' \<Longrightarrow> child_sound d ms x \<Longrightarrow> child_sound d' ms x"
  by (auto simp: child_sound_def split: child.splits intro: all_present_mono)

lemma sound_mono: "extends d d' \<Longrightarrow> sound d p x \<Longrightarrow> sound d' p x"
  by (cases p) (auto intro: all_present_mono child_sound_mono)

lemma cluster_fields [simp]:
  "cl_phase (set_phase w p c) = (cl_phase c)(w := p)" "cl_child (set_phase w p c) = cl_child c"
  "cl_ddl (set_phase w p c) = cl_ddl c" "cl_lock (set_phase w p c) = cl_lock c" "cl_skip (set_phase w p c) = cl_skip c"
  "cl_child (set_child w x c) = (cl_child c)(w := x)" "cl_phase (set_child w x c) = cl_phase c"
  "cl_ddl (set_child w x c) = cl_ddl c" "cl_lock (set_child w x c) = cl_lock c" "cl_skip (set_child w x c) = cl_skip c"
  "cl_phase (unlock w c) = cl_phase c" "cl_child (unlock w c) = cl_child c" "cl_ddl (unlock w c) = cl_ddl c"
  "cl_skip (unlock w c) = cl_skip c" "cl_lock (unlock w c) = (if cl_lock c = Some w then None else cl_lock c)"
  by (simp_all add: set_phase_def set_child_def unlock_def)

lemma boot_inv_lock [simp]:
  "boot_inv (unlock w c) = boot_inv c" "boot_inv (set_phase w p (c\<lparr>cl_lock := l\<rparr>)) = boot_inv (set_phase w p c)"
  by (simp_all add: boot_inv_def set_phase_def)

lemma boot_inv_child:
  assumes "boot_inv c" "extends (cl_ddl c) d" "sound d (cl_phase c w) x"
  shows "boot_inv (set_child w x (c\<lparr>cl_ddl := d\<rparr>))"
  using assms sound_mono [OF assms(2)] by (simp add: boot_inv_def)

lemma boot_inv_child':
  assumes "boot_inv c" "sound (cl_ddl c) (cl_phase c w) x"
  shows "boot_inv (set_child w x c)"
  using boot_inv_child [of c "cl_ddl c" w x] assms by simp

lemma boot_inv_phase:
  assumes "boot_inv c" "sound (cl_ddl c) p (cl_child c w)"
  shows "boot_inv (set_phase w p c)"
  using assms by (simp add: boot_inv_def)

lemma boot_inv_both:
  assumes "boot_inv c" "sound (cl_ddl c) p x"
  shows "boot_inv (set_phase w p (set_child w x c))"
  using assms by (simp add: boot_inv_def)

lemma sound_of: "boot_inv c \<Longrightarrow> sound (cl_ddl c) (cl_phase c w) (cl_child c w)"
  by (simp add: boot_inv_def)

text \<open>The steps of a child keep its worker sound.\<close>

lemma script_steps:
  "sound d p (Script (i # is) b) \<Longrightarrow> present d i \<Longrightarrow> sound d p (Script is b')"
  "sound d p (Script is b) \<Longrightarrow> sound d p (Script is b')"
  "sound d p (Script is b) \<Longrightarrow> sound d p (Exited False)"
  "sound d p (Script [] b) \<Longrightarrow> sound d p (Exited True)"
  by (cases p; fastforce simp: child_sound_def)+

lemma reaped: "sound d (Migrating (m # ms)) (Exited True) \<Longrightarrow> sound d (Migrating ms) NoChild"
  by (auto simp: child_sound_def intro: exI [of _ "_ @ [m]"])

lemma migrated: "sound d (Migrating []) x \<Longrightarrow> sound d Serving x"
  by (auto simp: child_sound_def split: child.splits)

lemma orderly_keeps_boot_inv: "orderly c c' \<Longrightarrow> boot_inv c \<Longrightarrow> boot_inv c'"
proof (induction rule: orderly.induct)
  case (skipped c w)
  then show ?case by (simp add: boot_inv_def)
next
  case (connected c w)
  then show ?case using sound_of [of c w] by (intro boot_inv_phase) simp_all
next
  case (unconnected c w)
  then show ?case by (intro boot_inv_phase) simp_all
next
  case (locked c w)
  then have "boot_inv (set_phase w (Migrating MIGRATIONS) c)"
    using sound_of [of c w] by (intro boot_inv_phase) (simp_all add: child_sound_def)
  then show ?case by simp
next
  case (lock_refused c w)
  then show ?case by (intro boot_inv_phase) simp_all
next
  case (spawned c w m ms)
  then show ?case using sound_of [of c w] by (intro boot_inv_child') (simp_all add: child_sound_def)
next
  case (checked c w i "is")
  note s = sound_of [OF checked(2), of w, unfolded checked(1)]
  show ?case
    using script_steps(1) [OF s] script_steps(2) [OF s]
    by (intro boot_inv_child' [OF checked(2)]) (simp split: if_splits)
next
  case (altered c w i "is" d)
  note d = alter_adds [OF altered(2)]
  have "sound d (cl_phase c w) (Script (i # is) True)"
    using sound_mono [of "cl_ddl c" d] sound_of [OF altered(3), of w] d altered(1) by simp
  with d altered(3) show ?case by (intro boot_inv_child) (auto intro: script_steps(1))
next
  case (rejected c w i "is")
  note s = sound_of [OF rejected(3), of w, unfolded rejected(1)]
  show ?case by (rule boot_inv_child' [OF rejected(3) script_steps(3) [OF s]])
next
  case (failed c w "is" b)
  note s = sound_of [OF failed(2), of w, unfolded failed(1)]
  show ?case by (rule boot_inv_child' [OF failed(2) script_steps(3) [OF s]])
next
  case (finished c w)
  note s = sound_of [OF finished(2), of w, unfolded finished(1)]
  show ?case by (rule boot_inv_child' [OF finished(2) script_steps(4) [OF s]])
next
  case (script_done c w m ms)
  note s = sound_of [OF script_done(3), of w, unfolded script_done(1,2)]
  show ?case by (rule boot_inv_both [OF script_done(3) reaped [OF s]])
next
  case (script_failed c w m ms)
  then show ?case by (simp add: boot_inv_both)
next
  case (released c w)
  note s = sound_of [OF released(3), of w, unfolded released(1)]
  have "boot_inv (set_phase w Serving c)" by (rule boot_inv_phase [OF released(3) migrated [OF s]])
  then show ?case by simp
next
  case (unreleased c w)
  then show ?case by (simp add: boot_inv_phase)
qed

lemma crash_keeps_boot_inv: "crash c c' \<Longrightarrow> boot_inv c \<Longrightarrow> boot_inv c'"
  by (induction rule: crash.induct) (simp_all add: boot_inv_phase)

definition boots :: "cluster \<Rightarrow> cluster \<Rightarrow> bool" where
  "boots c c' \<longleftrightarrow> orderly c c' \<or> crash c c'"

lemma boot_inv_cold: "boot_inv (cold False d)"
  by (simp add: boot_inv_def cold_def)

lemma boot_inv_reachable: "boots\<^sup>*\<^sup>* (cold False d) c \<Longrightarrow> boot_inv c"
  by (induction rule: rtranclp_induct)
     (auto simp: boots_def boot_inv_cold dest: orderly_keeps_boot_inv crash_keeps_boot_inv)

section \<open>One migration at a time\<close>

text \<open>
  While nobody is killed: the worker that migrates holds the lock, its child is the only one,
  and what a script found missing is still missing when it alters.
\<close>

fun migrating :: "phase \<Rightarrow> bool" where
  "migrating (Migrating ms) = True"
| "migrating p = False"

fun adding :: "child \<Rightarrow> migration_item option" where
  "adding (Script (i # is) True) = Some i"
| "adding x = None"

definition exclusive :: "cluster \<Rightarrow> bool" where
  "exclusive c \<longleftrightarrow>
     (\<forall>w. migrating (cl_phase c w) = (cl_lock c = Some w))
     \<and> (\<forall>w. cl_child c w \<noteq> NoChild \<longrightarrow> cl_lock c = Some w)
     \<and> (\<forall>w i. adding (cl_child c w) = Some i \<longrightarrow> \<not> present (cl_ddl c) i)"

lemma exclusive_child:
  assumes "exclusive c" "cl_lock c = Some w" "\<And>i. adding x = Some i \<Longrightarrow> \<not> present d i"
  shows "exclusive (set_child w x (c\<lparr>cl_ddl := d\<rparr>))"
proof -
  have "cl_child c v = NoChild" if "v \<noteq> w" for v using assms(1,2) that by (auto simp: exclusive_def)
  then have "adding (cl_child c v) = None" if "v \<noteq> w" for v using that by simp
  with assms show ?thesis by (simp add: exclusive_def)
qed

lemma exclusive_child':
  assumes "exclusive c" "cl_lock c = Some w" "\<And>i. adding x = Some i \<Longrightarrow> \<not> present (cl_ddl c) i"
  shows "exclusive (set_child w x c)"
  using exclusive_child [OF assms] by simp

lemma exclusive_phase:
  "exclusive c \<Longrightarrow> migrating p = migrating (cl_phase c w) \<Longrightarrow> exclusive (set_phase w p c)"
  by (simp add: exclusive_def)

lemma exclusive_lock:
  "exclusive c \<Longrightarrow> cl_lock c = None \<Longrightarrow> exclusive (set_phase w (Migrating ms) (c\<lparr>cl_lock := Some w\<rparr>))"
  by (simp add: exclusive_def)

lemma exclusive_unlock:
  assumes "exclusive c" "cl_lock c = Some w" "cl_child c w = NoChild" "\<not> migrating p"
  shows "exclusive (unlock w (set_phase w p c))"
  using assms by (auto simp: exclusive_def)

lemma lock_of_phase: "exclusive c \<Longrightarrow> cl_phase c w = Migrating ms \<Longrightarrow> cl_lock c = Some w"
  by (metis exclusive_def migrating.simps(1))

lemma lock_of_child: "exclusive c \<Longrightarrow> cl_child c w = x \<Longrightarrow> x \<noteq> NoChild \<Longrightarrow> cl_lock c = Some w"
  by (auto simp: exclusive_def)

lemma orderly_keeps_exclusive: "orderly c c' \<Longrightarrow> boot_inv c \<Longrightarrow> exclusive c \<Longrightarrow> exclusive c'"
proof (induction rule: orderly.induct)
  case (locked c w)
  then show ?case by (intro exclusive_lock)
next
  case (spawned c w m ms)
  then show ?case by (intro exclusive_child' lock_of_phase) simp_all
next
  case (checked c w i "is")
  then show ?case
    by (intro exclusive_child' lock_of_child [OF checked(3,1)]) (auto split: if_splits)
next
  case (altered c w i "is" d)
  then show ?case by (intro exclusive_child lock_of_child [OF altered(4,1)]) simp_all
next
  case (rejected c w i "is")
  then show ?case by (intro exclusive_child' lock_of_child [OF rejected(4,1)]) simp_all
next
  case (failed c w "is" b)
  then show ?case by (intro exclusive_child' lock_of_child [OF failed(3,1)]) simp_all
next
  case (finished c w)
  then show ?case by (intro exclusive_child' lock_of_child [OF finished(3,1)]) simp_all
next
  case (script_done c w m ms)
  then show ?case by (intro exclusive_phase exclusive_child' lock_of_phase) simp_all
next
  case (script_failed c w m ms)
  then show ?case
    by (intro exclusive_unlock exclusive_child' lock_of_phase [OF script_failed(4,1)])
       (simp_all add: lock_of_phase)
next
  case (released c w)
  then show ?case using sound_of [OF released(3), of w]
    by (intro exclusive_unlock) (simp_all add: child_sound_def split: child.splits)
next
  case (unreleased c w)
  then show ?case using sound_of [OF unreleased(2), of w]
    by (intro exclusive_unlock lock_of_phase) (simp_all add: child_sound_def split: child.splits)
qed (simp_all add: exclusive_phase)

lemma exclusive_cold: "exclusive (cold skip d)"
  by (simp add: exclusive_def cold_def)

lemma exclusive_reachable: "orderly\<^sup>*\<^sup>* (cold False d) c \<Longrightarrow> boot_inv c \<and> exclusive c"
  by (induction rule: rtranclp_induct)
     (auto simp: boot_inv_cold exclusive_cold dest: orderly_keeps_boot_inv orderly_keeps_exclusive)

section \<open>A worker that is not interrupted serves\<close>

text \<open>What the scripts make of a schema, without their output.\<close>

fun apply_items :: "migration_item list \<Rightarrow> ddl \<Rightarrow> ddl option" where
  "apply_items [] d = Some d"
| "apply_items (i # is) d =
     (if present d i then apply_items is d
      else case alter i d of None \<Rightarrow> None | Some d' \<Rightarrow> apply_items is d')"

lemma run_script_apply: "run_script is d = (True, out, d') \<Longrightarrow> apply_items is d = Some d'"
  by (induction "is" arbitrary: d out) (auto split: if_splits option.splits prod.splits)

fun apply_all :: "(string \<times> migration_item list) list \<Rightarrow> ddl \<Rightarrow> ddl option" where
  "apply_all [] d = Some d"
| "apply_all (m # ms) d = (case apply_items (snd m) d of None \<Rightarrow> None | Some d' \<Rightarrow> apply_all ms d')"

lemma set_child_twice [simp]: "set_child w x (set_child w y c) = set_child w x c"
  by (simp add: set_child_def)

lemma set_child_ddl: "(set_child w x c)\<lparr>cl_ddl := d\<rparr> = set_child w x (c\<lparr>cl_ddl := d\<rparr>)"
  by (simp add: set_child_def)

lemma script_runs:
  "apply_items is d = Some d' \<Longrightarrow>
   orderly\<^sup>*\<^sup>* (set_child w (Script is False) (c\<lparr>cl_ddl := d\<rparr>))
             (set_child w (Script [] False) (c\<lparr>cl_ddl := d'\<rparr>))"
proof (induction "is" arbitrary: d)
  case (Cons i "is")
  let ?c = "\<lambda>x d. set_child w x (c\<lparr>cl_ddl := d\<rparr>)"
  have check: "orderly (?c (Script (i # is) False) d) (?c (if present d i then Script is False else Script (i # is) True) d)"
    using checked [of "?c (Script (i # is) False) d" w i "is"] by simp
  show ?case
  proof (cases "present d i")
    case True
    with Cons check show ?thesis by (auto intro: converse_rtranclp_into_rtranclp)
  next
    case False
    with Cons.prems obtain e where e: "alter i d = Some e" "apply_items is e = Some d'"
      by (auto split: option.splits)
    have "orderly (?c (Script (i # is) True) d) (?c (Script is False) e)"
      using altered [of "?c (Script (i # is) True) d" w i "is" e] e(1) by (simp add: set_child_ddl)
    with Cons.IH [OF e(2)] check False show ?thesis by (auto intro: converse_rtranclp_into_rtranclp)
  qed
qed simp

text \<open>Worker \<open>w\<close> alone, with its child and the schema it has made so far.\<close>

definition at_work :: "nat \<Rightarrow> (string \<times> migration_item list) list \<Rightarrow> child \<Rightarrow> ddl \<Rightarrow> cluster" where
  "at_work w ms x d =
     \<lparr>cl_skip = False, cl_ddl = d, cl_lock = Some w,
      cl_phase = (\<lambda>_. Starting)(w := Migrating ms), cl_child = (\<lambda>_. NoChild)(w := x)\<rparr>"

lemma at_work_simps [simp]:
  "set_child w y (at_work w ms x d) = at_work w ms y d"
  "set_phase w (Migrating ms') (at_work w ms x d) = at_work w ms' x d"
  "(at_work w ms x d)\<lparr>cl_ddl := e\<rparr> = at_work w ms x e"
  "cl_phase (at_work w ms x d) w = Migrating ms" "cl_child (at_work w ms x d) w = x"
  "cl_lock (at_work w ms x d) = Some w" "cl_ddl (at_work w ms x d) = d"
  by (simp_all add: at_work_def set_child_def set_phase_def)

lemma migrations_run:
  "apply_all ms d = Some d' \<Longrightarrow> orderly\<^sup>*\<^sup>* (at_work w ms NoChild d) (at_work w [] NoChild d')"
proof (induction ms arbitrary: d)
  case (Cons m ms)
  then obtain e where e: "apply_items (snd m) d = Some e" "apply_all ms e = Some d'"
    by (auto split: option.splits)
  have 1: "orderly (at_work w (m # ms) NoChild d) (at_work w (m # ms) (Script (snd m) False) d)"
    using spawned [of "at_work w (m # ms) NoChild d" w m ms] by simp
  have 2: "orderly\<^sup>*\<^sup>* (at_work w (m # ms) (Script (snd m) False) d) (at_work w (m # ms) (Script [] False) e)"
    using script_runs [OF e(1), of w "at_work w (m # ms) NoChild d"] by simp
  have 3: "orderly (at_work w (m # ms) (Script [] False) e) (at_work w (m # ms) (Exited True) e)"
    using finished [of "at_work w (m # ms) (Script [] False) e" w] by simp
  have 4: "orderly (at_work w (m # ms) (Exited True) e) (at_work w ms NoChild e)"
    using script_done [of "at_work w (m # ms) (Exited True) e" w m ms] by simp
  from 1 2 3 4 Cons.IH [OF e(2)] show ?case
    by (meson converse_rtranclp_into_rtranclp rtranclp_trans rtranclp.rtrancl_into_rtrancl)
qed simp

lemma boot_begins: "orderly\<^sup>*\<^sup>* (cold False d) (at_work w MIGRATIONS NoChild d)"
proof -
  have 1: "orderly (cold False d) (set_phase w Awaiting (cold False d))"
    by (rule connected) (simp_all add: cold_def)
  have 2: "orderly (set_phase w Awaiting (cold False d)) (at_work w MIGRATIONS NoChild d)"
    using locked [of "set_phase w Awaiting (cold False d)" w]
    by (simp add: cold_def at_work_def set_phase_def fun_upd_idem)
  from 1 2 show ?thesis by (meson converse_rtranclp_into_rtranclp rtranclp.rtrancl_refl)
qed

text \<open>The first script has looked for its first column and is about to add it.\<close>

lemma boot_reaches_alter:
  assumes "MIGRATIONS = m # ms" "snd m = i # is" "\<not> present d i"
  shows "orderly\<^sup>*\<^sup>* (cold False d) (at_work w MIGRATIONS (Script (i # is) True) d)"
proof -
  have 1: "orderly (at_work w (m # ms) NoChild d) (at_work w (m # ms) (Script (i # is) False) d)"
    using spawned [of "at_work w (m # ms) NoChild d" w m ms] assms(2) by simp
  have 2: "orderly (at_work w (m # ms) (Script (i # is) False) d) (at_work w (m # ms) (Script (i # is) True) d)"
    using checked [of "at_work w (m # ms) (Script (i # is) False) d" w i "is"] assms(3) by simp
  from boot_begins [of d w] 1 2 assms(1) show ?thesis by (metis rtranclp.rtrancl_into_rtrancl)
qed

lemma undisturbed_boot:
  assumes "apply_all MIGRATIONS d = Some d'"
  shows "\<exists>c. orderly\<^sup>*\<^sup>* (cold False d) c \<and> cl_phase c w = Serving \<and> cl_ddl c = d' \<and> cl_lock c = None"
proof -
  let ?s = "unlock w (set_phase w Serving (at_work w [] NoChild d'))"
  have "orderly (at_work w [] NoChild d') ?s" by (rule released) simp_all
  then have "orderly\<^sup>*\<^sup>* (cold False d) ?s"
    using boot_begins [of d w] migrations_run [OF assms, of w]
    by (meson rtranclp_trans rtranclp.rtrancl_into_rtrancl)
  moreover have "cl_phase ?s w = Serving \<and> cl_ddl ?s = d' \<and> cl_lock ?s = None" by simp
  ultimately show ?thesis by blast
qed

text \<open>A database from before the spam release.\<close>

definition old_ddl :: ddl where
  "old_ddl =
     \<lparr>dd_tables = [''tenants'', ''posts'', ''comments'', ''votes''],
      dd_columns = [(''posts'', ''tenant_id''), (''comments'', ''tenant_id''),
                    (''votes'', ''tenant_id''), (''votes'', ''post_id''), (''votes'', ''guest_id'')],
      dd_indexes = []\<rparr>"

lemma old_ddl_migrates: "\<exists>d. apply_all MIGRATIONS old_ddl = Some d"
proof -
  have "apply_all MIGRATIONS old_ddl \<noteq> None" by code_simp
  then show ?thesis by simp
qed

section \<open>Claims\<close>

text \<open>
  C17: Migrate, then serve: in a cluster started without \<open>SKIP_BOOT_MIGRATIONS\<close>, whatever the
  interleaving of its workers and whatever is killed or loses its connection on the way, a worker
  that serves has a schema with every column, index and table of the migrations.
\<close>

theorem no_worker_serves_unmigrated:
  assumes "boots\<^sup>*\<^sup>* (cold False d) c" "cl_phase c w = Serving"
  shows "all_present (cl_ddl c) (all_items MIGRATIONS)"
  using sound_of [OF boot_inv_reachable [OF assms(1)], of w] assms(2) by simp

lemma orderly_boots: "orderly\<^sup>*\<^sup>* c c' \<Longrightarrow> boots\<^sup>*\<^sup>* c c'"
  by (rule mono_rtranclp [rule_format, of orderly boots]) (simp_all add: boots_def)

theorem no_worker_serves_unmigrated_witness:
  "\<exists>c. boots\<^sup>*\<^sup>* (cold False old_ddl) c \<and> cl_phase c 3 = Serving
       \<and> all_present (cl_ddl c) (all_items MIGRATIONS)"
proof -
  obtain d where "apply_all MIGRATIONS old_ddl = Some d" using old_ddl_migrates by blast
  from undisturbed_boot [OF this, of 3] obtain c
    where "orderly\<^sup>*\<^sup>* (cold False old_ddl) c" "cl_phase c 3 = Serving" by blast
  with no_worker_serves_unmigrated [OF orderly_boots, of old_ddl c 3] orderly_boots
  show ?thesis by (intro exI [of _ c]) simp
qed

text \<open>
  C18: The advisory lock serialises the migrations: while no worker is killed and no connection
  drops, two workers never have a script running at the same time, and whatever a script found
  missing is still missing when it alters, so no boot fails on a duplicate column.
\<close>

theorem one_migration_at_a_time:
  assumes "orderly\<^sup>*\<^sup>* (cold False d) c" "cl_child c v \<noteq> NoChild"
  shows "(cl_child c w \<noteq> NoChild \<longrightarrow> w = v)
         \<and> (\<forall>i is. cl_child c v = Script (i # is) True \<longrightarrow> \<not> present (cl_ddl c) i)"
proof -
  from exclusive_reachable [OF assms(1)] have e: "exclusive c" ..
  then have "\<not> present (cl_ddl c) i" if "cl_child c v = Script (i # is) True" for i "is"
    using that unfolding exclusive_def by (metis adding.simps(1))
  moreover have "w = v" if "cl_child c w \<noteq> NoChild"
    using lock_of_child [OF e _ that] lock_of_child [OF e _ assms(2)] by simp
  ultimately show ?thesis by blast
qed

lemma old_ddl_start:
  "MIGRATIONS = (''add-spam-columns.js'', add_spam_columns) # tl MIGRATIONS"
  "add_spam_columns = NewColumn ''posts'' ''moderation_state'' # tl add_spam_columns"
  "\<not> present old_ddl (NewColumn ''posts'' ''moderation_state'')"
  by (simp_all add: MIGRATIONS_def add_spam_columns_def MODERATION_COLUMNS_def old_ddl_def)

theorem one_migration_at_a_time_witness:
  "\<exists>c is. orderly\<^sup>*\<^sup>* (cold False old_ddl) c
      \<and> cl_child c 0 = Script (NewColumn ''posts'' ''moderation_state'' # is) True
      \<and> \<not> present (cl_ddl c) (NewColumn ''posts'' ''moderation_state'') \<and> cl_child c 1 = NoChild"
proof -
  let ?c = "at_work 0 MIGRATIONS (Script add_spam_columns True) old_ddl"
  have run: "orderly\<^sup>*\<^sup>* (cold False old_ddl) ?c"
    using boot_reaches_alter [OF old_ddl_start(1) _ old_ddl_start(3), of _ 0] old_ddl_start(2) by simp
  have child: "cl_child ?c 0 = Script (NewColumn ''posts'' ''moderation_state'' # tl add_spam_columns) True"
    using old_ddl_start(2) by simp
  with one_migration_at_a_time [OF run, of 0 1] run show ?thesis
    by (intro exI [of _ ?c] exI [of _ "tl add_spam_columns"] conjI) auto
qed

section \<open>What a kill can break\<close>

text \<open>
  The lock belongs to the worker's connection, not to the script it started: kill a worker while
  its script is about to alter, and another one migrates beside the script that runs on.  What
  that script checked is no longer so, and one of the two fails on a duplicate column.
\<close>

lemma killed_worker_leaves_its_script:
  "\<exists>c is. boots\<^sup>*\<^sup>* (cold False old_ddl) c \<and> cl_phase c 0 = Gone
      \<and> cl_child c 0 = Script (NewColumn ''posts'' ''moderation_state'' # is) True
      \<and> cl_child c 1 = Script is False
      \<and> present (cl_ddl c) (NewColumn ''posts'' ''moderation_state'')"
proof -
  let ?i = "NewColumn ''posts'' ''moderation_state''" and ?is = "tl add_spam_columns"
  let ?w = "at_work 0 MIGRATIONS (Script (?i # ?is) True) old_ddl"
  let ?k = "unlock 0 (set_phase 0 Gone ?w)"
  obtain d where d: "alter ?i old_ddl = Some d" by (simp add: old_ddl_def)
  let ?a = "set_phase 1 Awaiting ?k"
  let ?l = "set_phase 1 (Migrating MIGRATIONS) (?a\<lparr>cl_lock := Some 1\<rparr>)"
  let ?s = "\<lambda>b. set_child 1 (Script (?i # ?is) b) ?l"
  let ?e = "set_child 1 (Script ?is False) ((?s True)\<lparr>cl_ddl := d\<rparr>)"
  have "orderly\<^sup>*\<^sup>* (cold False old_ddl) ?w"
    using boot_reaches_alter [OF old_ddl_start(1) _ old_ddl_start(3), of _ 0] old_ddl_start(2) by simp
  then have 0: "boots\<^sup>*\<^sup>* (cold False old_ddl) ?w" by (rule orderly_boots)
  have 1: "boots ?w ?k" by (simp add: boots_def crash.killed)
  have 2: "boots ?k ?a" unfolding boots_def by (intro disjI1 connected) (simp_all add: at_work_def)
  have 3: "boots ?a ?l" unfolding boots_def by (intro disjI1 locked) simp_all
  have 4: "boots ?l (?s False)"
    unfolding boots_def
    using spawned [of ?l 1 "(''add-spam-columns.js'', add_spam_columns)" "tl MIGRATIONS"] old_ddl_start(1,2)
    by (simp add: at_work_def)
  have 5: "boots (?s False) (?s True)"
    unfolding boots_def using checked [of "?s False" 1 ?i ?is] old_ddl_start(3) by simp
  have 6: "boots (?s True) ?e"
    unfolding boots_def by (intro disjI1 altered [where i = ?i]) (simp_all add: d del: alter.simps)
  from 0 1 2 3 4 5 6 have "boots\<^sup>*\<^sup>* (cold False old_ddl) ?e" by (meson rtranclp.rtrancl_into_rtrancl)
  then show ?thesis using alter_adds [OF d]
    by (intro exI [of _ ?e] exI [of _ ?is] conjI) simp_all
qed

lemma first_sweep_survives_stop:
  assumes "startBillingScheduler s p = (p', a)" "a \<noteq> []"
  shows "pr_first (fst (stopBillingScheduler p'))"
  using assms by (auto simp: startBillingScheduler_def stopBillingScheduler_def split: if_splits)

lemma second_signal_is_ignored:
  "on_signal s n sig p = (p', a) \<Longrightarrow> sig \<noteq> UnhandledRejection \<Longrightarrow> on_signal s n' sig' p' = (p', [])"
  by (cases sig; cases sig') (auto simp: shutdown_def stopBillingScheduler_def Let_def split: if_splits)

lemma refused_boot_never_serves:
  "\<not> fst (runBootMigrations e) \<Longrightarrow> bootstrap s e p = (p, [ExitWith 1])"
  by (simp add: bootstrap_def)

text \<open>A browser's origin is admitted only for the own domain, a name below it or a listed origin.\<close>

lemma foreign_origins_are_refused:
  assumes "env s ''NODE_ENV'' = Some ''production''" "ROOT_HOST s \<noteq> []"
    and "cors_admits s (Some o')" "o' \<noteq> []"
    and "js_lower o' \<notin> set (EXTRA_ORIGINS s)" "js_lower o' \<noteq> FRONTEND_ORIGIN s"
  shows "\<exists>h. url_host s o' = Some h
           \<and> (without_port (js_lower h) = without_port (ROOT_HOST s)
              \<or> (\<exists>pre. without_port (js_lower h) = pre @ [46] @ without_port (ROOT_HOST s)))"
  using assms
  by (auto simp: cors_admits_def or_empty_def origin_allowed_def Let_def split: option.splits list.splits)
     (metis append_take_drop_id)+

end
