(* ===== verification/Maintenance.thy ===== *)
theory Maintenance
  imports Promo_Admin
begin

text \<open>
  The scripts an operator runs against the database (\<open>scripts/\<close>): the move of subscriptions from
  workspaces to accounts, the repair of what deletions left behind, and the two clean-ups after a
  change of the Paddle environment.  A program that ends with an exception is a script that
  exits with 1; what it wrote before stays.
\<close>

section \<open>Subscriptions move from workspaces to accounts\<close>

text \<open>\<open>migrate-billing-to-accounts.js\<close>: every active owner row with its active workspace.\<close>

definition owned_now :: "database \<Rightarrow> (jstring \<times> tenant) list" where
  "owned_now d =
     concat (map (\<lambda>u. if u_role u = Owner \<and> u_active u
                      then map (Pair (u_email u)) (filter (\<lambda>t. u_tenant u = Some (t_id t) \<and> t_active t) (tenants d))
                      else []) (users d))"

text \<open>The \<open>Map\<close> by e-mail: keys compared exactly, in the order of their first row.\<close>

definition by_email :: "(jstring \<times> tenant) list \<Rightarrow> (jstring \<times> tenant list) list" where
  "by_email rows =
     map (\<lambda>e. (e, map snd (filter (\<lambda>r. fst r = e) rows))) (rev (remdups (rev (map fst rows))))"

text \<open>
  Candidate subscriptions: the highest plan first, then the latest period.  Candidate comps: the
  highest plan first, one without an end before one with an end.  Both sorts are stable; between
  two comps that never end the comparison has no preference, and they are the same to the caller.
\<close>

definition real_subs :: "tenant list \<Rightarrow> tenant list" where
  "real_subs owned =
     sort_key (\<lambda>t. - int (plan_rank (t_plan t)))
       (sort_key (\<lambda>t. - (case t_period_end t of None \<Rightarrow> 0 | Some e \<Rightarrow> e))
         (filter (\<lambda>t. text_or_null (t_stripe_sub t) \<noteq> None \<and> t_status t \<noteq> Some ''comped'') owned))"

definition comp_grants :: "tenant list \<Rightarrow> tenant list" where
  "comp_grants owned =
     sort_key (\<lambda>t. - int (plan_rank (t_plan t)))
       (sort_key (\<lambda>t. if t_period_end t = None then 0 else (1 :: int))
         (filter (\<lambda>t. t_status t = Some ''comped'') owned))"

definition account_fields ::
  "string \<Rightarrow> string option \<Rightarrow> interval option \<Rightarrow> string option \<Rightarrow> string option \<Rightarrow> int option \<Rightarrow> billing_field list" where
  "account_fields plan status iv customer sub period_end =
     [PlanName plan, SubscriptionStatus status, BillingInterval iv, StripeCustomer customer,
      StripeSubscription sub, PeriodEnd period_end]"

definition migrated_fields :: "tenant list \<Rightarrow> billing_field list" where
  "migrated_fields owned =
     (case real_subs owned of
        best # _ \<Rightarrow>
          account_fields (plan_or_free (Some (t_plan best)))
            (Some (case text_or_null (t_status best) of None \<Rightarrow> ''active'' | Some s \<Rightarrow> s))
            (t_interval best) (text_or_null (t_stripe_customer best)) (text_or_null (t_stripe_sub best))
            (t_period_end best)
      | [] \<Rightarrow>
          (case comp_grants owned of
             best # _ \<Rightarrow>
               account_fields (plan_or_free (Some (t_plan best))) (Some ''comped'') None None None (t_period_end best)
           | [] \<Rightarrow> account_fields ''free'' None None None None None))"

text \<open>Every further live subscription is cancelled, best effort.\<close>

definition cancel_duplicates :: "tenant list \<Rightarrow> unit io" where
  "cancel_duplicates subs =
     bnd (asks (\<lambda>w. isStripeConfigured (svc w))) (\<lambda>configured.
     bnd (for_each subs (\<lambda>t.
            case text_or_null (t_stripe_sub t) of
              None \<Rightarrow> ret ()
            | Some s \<Rightarrow>
                if configured
                then catch (call [EvStripeCancel s] (\<lambda>w. st_sub_cancel (stripe (svc w)) (log w) (js_now w) s))
                           (\<lambda>_. ret ())
                else ret ())) (\<lambda>_. ret ()))"

definition migrate_account :: "jstring \<Rightarrow> tenant list \<Rightarrow> unit io" where
  "migrate_account email owned =
     bnd (cancel_duplicates (drop 1 (real_subs owned))) (\<lambda>_.
       setAccountPlan email (migrated_fields owned))"

definition migrate_billing :: "unit io" where
  "migrate_billing =
     bnd (select (\<lambda>d. by_email (owned_now d))) (\<lambda>groups.
     bnd (select (\<lambda>d. map b_email (accounts d))) (\<lambda>migrated.
     bnd (for_each groups (\<lambda>(email, owned).
            if email \<in> set migrated then ret () else migrate_account email owned)) (\<lambda>_. ret ())))"

section \<open>Orphans\<close>

text \<open>
  \<open>cleanup-orphans.js\<close>: workspaces without an owner, with the numbers of their members and posts;
  only an empty one is deleted.  Then the platform-admin flag is spread over the rows of an account.
\<close>

definition ownerless :: "database \<Rightarrow> (tenant \<times> nat \<times> nat) list" where
  "ownerless d =
     map (\<lambda>t. (t, length (filter (\<lambda>u. u_tenant u = Some (t_id t)) (users d)),
                  length (filter (\<lambda>p. p_tenant p = t_id t) (posts d))))
       (filter (\<lambda>t. \<not> list_ex (\<lambda>u. u_tenant u = Some (t_id t) \<and> u_role u = Owner) (users d)) (tenants d))"

definition unflagged :: "database \<Rightarrow> user \<Rightarrow> bool" where
  "unflagged d u \<longleftrightarrow> \<not> u_admin u \<and> list_ex (\<lambda>a. sql_eq (u_email a) (u_email u) \<and> u_admin a) (users d)"

definition flag_admins :: "database \<Rightarrow> database" where
  "flag_admins d = d\<lparr>users := update_where (unflagged d) (\<lambda>u. u\<lparr>u_admin := True\<rparr>) (users d)\<rparr>"

definition cleanup_orphans :: "bool \<Rightarrow> nat io" where
  "cleanup_orphans fix_it =
     bnd (select ownerless) (\<lambda>orphans.
     bnd (for_each orphans (\<lambda>(t, members, ps).
            if members > 0 \<or> ps > 0 then ret ()
            else if fix_it then sql (delete_tenants [t_id t]) else ret ())) (\<lambda>_.
     bnd (select (\<lambda>d. filter (unflagged d) (users d))) (\<lambda>drift.
     bnd (if fix_it \<and> drift \<noteq> [] then execute (\<lambda>d. ((), flag_admins d)) else ret ()) (\<lambda>_.
       ret (length orphans + length drift)))))"

section \<open>After a change of the Paddle environment\<close>

text \<open>
  \<open>clear-stale-paddle-refs.js\<close>: an id is gone when the provider says "not found"; any other
  failure leaves it alone.  \<open>customer_get\<close> is \<open>paddle.customers.get\<close>, which nothing else uses.
\<close>

definition says_not_found :: "string \<Rightarrow> bool" where
  "says_not_found msg = js_includes (js_lower (js msg)) (js ''not found'')"

definition gone_if :: "(world \<Rightarrow> string + 'a) \<Rightarrow> bool io" where
  "gone_if get = catch (bnd (call [] get) (\<lambda>_. ret False))
                   (\<lambda>e. ret (case e of JsError m \<Rightarrow> says_not_found m | _ \<Rightarrow> False))"

definition is_gone :: "string option \<Rightarrow> (world \<Rightarrow> string \<Rightarrow> string + 'a) \<Rightarrow> bool io" where
  "is_gone ref get = (case text_or_null ref of None \<Rightarrow> ret True | Some i \<Rightarrow> gone_if (\<lambda>w. get w i))"

definition stale_fields :: "bool \<Rightarrow> billing_field list" where
  "stale_fields custGone =
     [PlanName ''free'', SubscriptionStatus None, BillingInterval None, PeriodEnd None, PaddleSubscription None]
     @ (if custGone then [PaddleCustomer None] else [])
     @ [PendingPlan None, PendingInterval None, PendingEffectiveAt None]"

definition clear_if_stale :: "(world \<Rightarrow> string \<Rightarrow> string + unit) \<Rightarrow> bool \<Rightarrow> account \<Rightarrow> bool io" where
  "clear_if_stale customer_get dry r =
     (if b_status r = Some ''comped'' then ret False
      else bnd (is_gone (b_paddle_sub r) (\<lambda>w. pd_sub_get (paddle (svc w)) (log w) (js_now w))) (\<lambda>subGone.
           bnd (is_gone (b_paddle_customer r) customer_get) (\<lambda>custGone.
             if \<not> subGone \<or> dry then ret False
             else bnd (setAccountPlan (b_email r) (stale_fields custGone)) (\<lambda>_. ret True))))"

definition clear_stale_paddle_refs :: "(world \<Rightarrow> string \<Rightarrow> string + unit) \<Rightarrow> bool \<Rightarrow> (nat \<times> nat) io" where
  "clear_stale_paddle_refs customer_get dry =
     bnd (asks (\<lambda>w. isPaddleConfigured (svc w))) (\<lambda>configured.
     if \<not> configured then ret (0, 0)
     else bnd (select (\<lambda>d. filter (\<lambda>b. b_paddle_customer b \<noteq> None \<or> b_paddle_sub b \<noteq> None) (accounts d))) (\<lambda>rows.
          bnd (for_each rows (clear_if_stale customer_get dry)) (\<lambda>cleared.
            ret (length (filter id cleared), length rows))))"

text \<open>
  \<open>backfill-offer-discounts.js\<close>: a discount of the active provider for every offer that has none,
  or for every one with \<open>--force\<close>.  The answers are created and skipped.
\<close>

datatype backfill_result = Created | Skipped | Neither

definition backfill_offer :: "bool \<Rightarrow> bool \<Rightarrow> offer \<Rightarrow> backfill_result io" where
  "backfill_offer dry force r =
     (if text_or_null (of_paddle_discount r) \<noteq> None \<and> \<not> force then ret Skipped
      else let original = listPrice (of_plan r) (of_interval r)
           in if \<not> 0 < of_price_cents r \<or> original * 100 \<le> of_price_cents r \<or> dry then ret Neither
              else catch (bnd (asks js_now) (\<lambda>now.
                          bnd (createPaddleOfferDiscount (of_plan r) (of_interval r) original (of_price_cents r)
                                 (offerDurationPeriods now (of_interval r) (of_starts r) (of_ends r))) (\<lambda>i.
                          bnd (execute (\<lambda>d. ((), d\<lparr>offers := update_where (\<lambda>x. of_id x = of_id r)
                                                    (\<lambda>x. x\<lparr>of_paddle_discount := i\<rparr>) (offers d)\<rparr>))) (\<lambda>_.
                            ret Created))))
                     (\<lambda>_. ret Neither))"

definition backfill_offer_discounts :: "bool \<Rightarrow> bool \<Rightarrow> (nat \<times> nat \<times> nat) io" where
  "backfill_offer_discounts dry force =
     bnd (asks (\<lambda>w. isPaddleActive (svc w))) (\<lambda>active.
     if \<not> active then ret (0, 0, 0)
     else bnd (select (\<lambda>d. filter (\<lambda>x. of_active x \<and> (case of_ends x of None \<Rightarrow> True | Some e \<Rightarrow> clock d \<le> e)) (offers d))) (\<lambda>rows.
          bnd (for_each rows (backfill_offer dry force)) (\<lambda>rs.
            ret (length (filter (\<lambda>x. x = Created) rs), length (filter (\<lambda>x. x = Skipped) rs), length rows))))"

end
