(* ===== verification/Maintenance_Facts.thy ===== *)
theory Maintenance_Facts
  imports Maintenance Org_Invariant Billing_Gaps
begin

text \<open>
  The move to accounts can stop anywhere and be run again, and once it ends every workspace shows
  the plan of its owner's account; the clean-ups lose no account, post or member.
\<close>

section \<open>One account at a time\<close>

definition mirrored_at :: "database \<Rightarrow> jstring \<Rightarrow> bool" where
  "mirrored_at d e \<longleftrightarrow> (\<forall>t \<in> owned_workspaces d e. mirrors (account_of d e) t)"

lemma billing_consistent_at: "billing_consistent d \<longleftrightarrow> (\<forall>e. mirrored_at d e)"
  by (auto simp: billing_consistent_def mirrored_at_def)

lemma mirrored_at_cong: "sql_eq e e' \<Longrightarrow> mirrored_at d e = mirrored_at d e'"
  using owns_cong [of e e' d] account_of_cong [of e e' d]
  by (simp add: mirrored_at_def owned_workspaces_def mirrors_def)

lemma mirrored_at_plan_db:
  assumes "one_owner d" "mirrored_at d e \<or> sql_eq k e"
  shows "mirrored_at (plan_db k fs d) e"
proof (cases "sql_eq k e")
  case True
  then show ?thesis using plan_mirror.put_agrees [OF assms(1) True] by (simp add: mirrored_at_def)
next
  case False
  with assms show ?thesis
    using plan_mirror.put_copies [OF assms(1) False] by (auto simp: mirrored_at_def plan_mirror.put_source)
qed

text \<open>
  A database on which the move can start or resume: whatever account is there already has its
  workspaces in line.
\<close>

definition migratable :: "database \<Rightarrow> bool" where
  "migratable d \<longleftrightarrow> one_owner d \<and> (\<forall>b \<in> set (accounts d). mirrored_at d (b_email b))"

lemma emails_of_update: "b_email ` set (update_where P (set_fields fs) bs) = b_email ` set bs"
  by (induction bs) auto

lemma accounts_plan_db: "b_email ` set (accounts (plan_db k fs d)) \<subseteq> insert k (b_email ` set (accounts d))"
proof -
  have "accounts (plan_db k fs d)
          = update_where (\<lambda>b. sql_eq (b_email b) k) (set_fields fs) (accounts (insert_account k d))"
    by (simp add: plan_db_def Let_def update_account_def)
  then show ?thesis by (auto simp: emails_of_update insert_account_def free_account_def split: if_splits)
qed

lemma migratable_plan_db:
  assumes "migratable d"
  shows "migratable (plan_db k fs d)"
proof -
  have "mirrored_at (plan_db k fs d) (b_email b)" if "b \<in> set (accounts (plan_db k fs d))" for b
  proof (rule mirrored_at_plan_db)
    have "b_email b = k \<or> b_email b \<in> b_email ` set (accounts d)" using accounts_plan_db that by blast
    with assms show "mirrored_at d (b_email b) \<or> sql_eq k (b_email b)"
      by (auto simp: migratable_def)
  qed (use assms in \<open>simp add: migratable_def\<close>)
  with assms show ?thesis by (simp add: migratable_def)
qed

text \<open>What the move does to a database, step by step.\<close>

definition moved :: "database \<Rightarrow> database \<Rightarrow> bool" where
  "moved d d' \<longleftrightarrow> migratable d' \<and> users d' = users d
     \<and> map (\<lambda>t. (t_id t, t_active t)) (tenants d') = map (\<lambda>t. (t_id t, t_active t)) (tenants d)
     \<and> (\<forall>e. mirrored_at d e \<longrightarrow> mirrored_at d' e)"

lemma moved_refl: "migratable d \<Longrightarrow> moved d d"
  by (simp add: moved_def)

lemma ids_plan_db:
  "map (\<lambda>t. (t_id t, t_active t)) (tenants (plan_db k fs d)) = map (\<lambda>t. (t_id t, t_active t)) (tenants d)"
  by (simp add: tenants_plan_db update_where_def)

lemma moved_plan_db: "moved d d' \<Longrightarrow> moved d (plan_db k fs d')"
  by (auto simp: moved_def ids_plan_db migratable_plan_db intro!: mirrored_at_plan_db) (simp_all add: migratable_def)

lemma setAccountPlan_moved: "preserves (moved d) (setAccountPlan email fs)"
proof (cases "email = []")
  case False
  show ?thesis
    by (rule preservesI, rule wp_mono [OF setAccountPlan_spec [OF False]]) (auto simp: moved_plan_db)
qed (simp add: setAccountPlan_def preserves_raise)

lemma cancel_duplicates_keeps: "preserves P (cancel_duplicates subs)"
  unfolding cancel_duplicates_def by (intro keeps)

lemma migrate_account_moved: "preserves (moved d) (migrate_account email owned)"
  unfolding migrate_account_def by (intro keeps cancel_duplicates_keeps setAccountPlan_moved)

lemma migrate_account_spec:
  assumes "migratable (db w)"
  shows "wp (migrate_account email owned)
           (\<lambda>r w'. moved (db w) (db w') \<and> (r = Inr () \<longrightarrow> mirrored_at (db w') email)) w"
proof (rule wp_conj)
  show "wp (migrate_account email owned) (\<lambda>r w'. moved (db w) (db w')) w"
    by (rule preserves_wp [OF migrate_account_moved moved_refl [OF assms]])
  have set: "wp (setAccountPlan email fs) (\<lambda>r w'. r = Inr () \<longrightarrow> mirrored_at (db w') email) w1"
    if "migratable (db w1)" for w1 fs
  proof (cases "email = []")
    case False
    show ?thesis
      using that by (intro wp_mono [OF setAccountPlan_spec [OF False]])
        (auto simp: migratable_def intro!: mirrored_at_plan_db)
  qed (simp add: setAccountPlan_def)
  show "wp (migrate_account email owned) (\<lambda>r w'. r = Inr () \<longrightarrow> mirrored_at (db w') email) w"
    unfolding migrate_account_def
    by (rule wp_seq [OF preserves_wp [OF cancel_duplicates_keeps, of migratable, OF assms]])
       (auto intro: set)
qed

lemma moved_trans: "moved d d' \<Longrightarrow> moved d' d'' \<Longrightarrow> moved d d''"
  by (auto simp: moved_def)

lemma moved_migratable: "moved d d' \<Longrightarrow> migratable d'"
  by (simp add: moved_def)

lemma moved_mirrored: "moved d d' \<Longrightarrow> mirrored_at d e \<Longrightarrow> mirrored_at d' e"
  by (simp add: moved_def)

definition migrate_unless :: "jstring list \<Rightarrow> jstring \<times> tenant list \<Rightarrow> unit io" where
  "migrate_unless migrated g = (case g of (email, owned) \<Rightarrow>
     if email \<in> set migrated then ret () else migrate_account email owned)"

lemma migrate_groups:
  assumes "migratable (db w)"
  shows "wp (for_each gs (migrate_unless migrated))
           (\<lambda>r w'. moved (db w) (db w')
              \<and> (case r of Inr _ \<Rightarrow> \<forall>g \<in> set gs. fst g \<notin> set migrated \<longrightarrow> mirrored_at (db w') (fst g) | Inl _ \<Rightarrow> True)) w"
  using assms
proof (induction gs arbitrary: w)
  case Nil
  then show ?case by (simp add: moved_refl)
next
  case (Cons g gs)
  obtain email owned where g: "g = (email, owned)" by fastforce
  have one: "wp (migrate_unless migrated g)
      (\<lambda>r w'. moved (db w) (db w') \<and> (r = Inr () \<longrightarrow> email \<notin> set migrated \<longrightarrow> mirrored_at (db w') email)) w"
    using Cons.prems by (auto simp: migrate_unless_def g moved_refl intro!: wp_mono [OF migrate_account_spec])
  show ?case
    unfolding for_each.simps
  proof (rule wp_seq [OF one])
    fix x :: unit and w1 :: world
    assume "moved (db w) (db w1) \<and> (Inr x = Inr () \<longrightarrow> email \<notin> set migrated \<longrightarrow> mirrored_at (db w1) email)"
    then have m: "moved (db w) (db w1)" and e: "email \<notin> set migrated \<longrightarrow> mirrored_at (db w1) email" by simp_all
    show "wp (bnd (for_each gs (migrate_unless migrated)) (\<lambda>ys. ret (x # ys)))
            (\<lambda>r w'. moved (db w) (db w')
              \<and> (case r of Inr _ \<Rightarrow> \<forall>g \<in> set (g # gs). fst g \<notin> set migrated \<longrightarrow> mirrored_at (db w') (fst g)
                         | Inl _ \<Rightarrow> True)) w1"
      by (rule wp_seq [OF Cons.IH [OF moved_migratable [OF m]]])
         (use e in \<open>auto simp: g intro: moved_trans [OF m] moved_mirrored\<close>)
  qed simp
qed

section \<open>Every owner is reached\<close>

lemma by_email_keys: "fst ` set (by_email rows) = fst ` set rows"
  by (force simp: by_email_def)

lemma owner_is_reached:
  assumes "moved d d'" "t \<in> owned_workspaces d' e"
  shows "\<exists>e'. sql_eq e' e \<and> e' \<in> fst ` set (by_email (owned_now d))"
proof -
  from assms have t: "t \<in> set (tenants d')" "t_active t" and o': "owns d e (t_id t)"
    by (auto simp: owned_workspaces_def moved_def owns_def)
  from o' obtain u where u: "u \<in> set (users d)" "u_tenant u = Some (t_id t)" "u_role u = Owner" "u_active u"
      "sql_eq (u_email u) e"
    by (auto simp: owns_def list_ex_iff is_owner_of_def)
  have "(t_id t, t_active t) \<in> (\<lambda>t. (t_id t, t_active t)) ` set (tenants d)"
    using assms(1) t(1) unfolding moved_def by (metis (mono_tags, lifting) image_eqI list.set_map)
  then obtain t0 where "t0 \<in> set (tenants d)" "t_id t0 = t_id t" "t_active t0"
    using t(2) by auto
  with u have "(u_email u, t0) \<in> set (owned_now d)" by (auto simp: owned_now_def intro!: bexI [of _ u])
  then show ?thesis using u(5) by (force simp: by_email_keys)
qed

text \<open>
  C19: The move of subscriptions to accounts may stop at any failure and be run again: it never
  changes who owns what, the workspaces of every account it has written stay in line, and when
  it runs to its end every active workspace shows the plan of the account that owns it.
\<close>

theorem migration_is_resumable:
  assumes "migratable (db w)"
  shows "wp migrate_billing
           (\<lambda>r w'. migratable (db w') \<and> users (db w') = users (db w) \<and> (r = Inr () \<longrightarrow> billing_ok (db w'))) w"
proof -
  let ?d = "db w"
  have run: "wp (for_each (by_email (owned_now ?d)) (migrate_unless (map b_email (accounts ?d))))
      (\<lambda>r w'. migratable (db w') \<and> users (db w') = users ?d
         \<and> (case r of Inr _ \<Rightarrow> billing_ok (db w') | Inl _ \<Rightarrow> True)) w1" if w1: "db w1 = ?d" for w1
  proof (rule wp_mono [OF migrate_groups], goal_cases)
    case 1
    then show ?case using assms w1 by simp
  next
    case (2 r w')
    then have m: "moved ?d (db w')" by (simp add: w1)
    have "mirrored_at (db w') e" if r: "r = Inr xs" for e xs
      unfolding mirrored_at_def
    proof
      fix t assume t: "t \<in> owned_workspaces (db w') e"
      from owner_is_reached [OF m t] obtain e' where e': "sql_eq e' e" "e' \<in> fst ` set (by_email (owned_now ?d))"
        by blast
      have "mirrored_at (db w') e'"
      proof (cases "e' \<in> b_email ` set (accounts ?d)")
        case True
        with assms m show ?thesis by (auto simp: migratable_def moved_def)
      next
        case False
        with e'(2) 2 r show ?thesis by auto
      qed
      with t e'(1) mirrored_at_cong [OF e'(1), of "db w'"] show "mirrors (account_of (db w') e) t"
        by (simp add: mirrored_at_def)
    qed
    with m show ?case
      by (auto simp: moved_def migratable_def billing_ok_def billing_consistent_at split: sum.splits)
  qed
  have body: "migrate_billing =
      bnd (select (\<lambda>d. by_email (owned_now d))) (\<lambda>groups.
      bnd (select (\<lambda>d. map b_email (accounts d))) (\<lambda>migrated.
      bnd (for_each groups (migrate_unless migrated)) (\<lambda>_. ret ())))"
    by (simp add: migrate_billing_def migrate_unless_def [abs_def])
  show ?thesis
    unfolding body using assms
    by simp (auto intro!: wp_mono [OF run] split: sum.splits)
qed

text \<open>A database from before the move: workspaces with subscriptions of their own, no accounts.\<close>

definition old_db :: database where
  "old_db = demo_db\<lparr>accounts := []\<rparr>"

lemma old_db_migratable: "migratable old_db"
proof -
  have "owns old_db = owns demo_db" by (simp add: old_db_def owns_def [abs_def])
  then have "one_owner old_db" using demo_billing_ok by (simp add: one_owner_def)
  then show ?thesis by (simp add: migratable_def old_db_def)
qed

theorem migration_is_resumable_witness:
  "wp migrate_billing
     (\<lambda>r w'. migratable (db w') \<and> users (db w') = users demo_db \<and> (r = Inr () \<longrightarrow> billing_ok (db w')))
     (demo_world old_db)"
  using migration_is_resumable [of "demo_world old_db"] old_db_migratable
  by (simp add: old_db_def)

text \<open>On a database that answers the move runs to its end.\<close>

definition ends :: "'a io \<Rightarrow> bool" where
  "ends m \<longleftrightarrow> (\<forall>w. healthy w \<longrightarrow> wp m (\<lambda>r w'. (\<exists>x. r = Inr x) \<and> healthy w') w)"

lemma ends_bnd: "ends m \<Longrightarrow> (\<And>x. ends (f x)) \<Longrightarrow> ends (bnd m f)"
  unfolding ends_def
  by (intro allI impI, rule wp_seq [where R = "\<lambda>r w'. (\<exists>x. r = Inr x) \<and> healthy w'"]) auto

lemma ends_atoms:
  "ends (ret x)" "ends (asks f)" "ends (select g)" "ends (catch (call evs h) (\<lambda>_. ret ()))"
  by (simp_all add: ends_def split: sum.splits)

lemma ends_for_each: "(\<And>x. x \<in> set xs \<Longrightarrow> ends (f x)) \<Longrightarrow> ends (for_each xs f)"
proof (induction xs)
  case (Cons x xs)
  then have "ends (f x)" "ends (for_each xs f)" by simp_all
  then show ?case unfolding for_each.simps by (intro ends_bnd ends_atoms)
qed (simp add: ends_atoms)

lemma migrate_account_ends: "email \<noteq> [] \<Longrightarrow> ends (migrate_account email owned)"
proof -
  assume "email \<noteq> []"
  then have "ends (setAccountPlan email fs)" for fs
    by (auto simp: ends_def intro!: wp_mono [OF setAccountPlan_healthy])
  moreover have "ends (cancel_duplicates subs)" for subs
    unfolding cancel_duplicates_def
    by (intro ends_bnd ends_for_each ends_atoms) (auto intro: ends_atoms split: option.splits)
  ultimately show ?thesis unfolding migrate_account_def by (intro ends_bnd)
qed

lemma healthy_select:
  "healthy w \<Longrightarrow> wp (bnd (select g) f) Q w = wp (f (g (db w))) Q (w\<lparr>qn := Suc (qn w)\<rparr>)"
  by simp

lemma migration_ends:
  assumes "healthy w" "\<forall>u \<in> set (users (db w)). u_email u \<noteq> []"
  shows "wp migrate_billing (\<lambda>r w'. r = Inr ()) w"
proof -
  have "fst g \<noteq> []" if "g \<in> set (by_email (owned_now (db w)))" for g
  proof -
    have "fst g \<in> fst ` set (owned_now (db w))" using that by_email_keys by (metis image_eqI)
    then show ?thesis using assms(2) by (auto simp: owned_now_def split: if_splits)
  qed
  then have "ends (for_each (by_email (owned_now (db w))) (migrate_unless migrated))" for migrated
    by (intro ends_for_each) (force simp: migrate_unless_def ends_atoms intro: migrate_account_ends)
  then have all: "ends (bnd (for_each (by_email (owned_now (db w))) (migrate_unless migrated)) (\<lambda>_. ret ()))" for migrated
    by (intro ends_bnd ends_atoms)
  have body: "migrate_billing =
      bnd (select (\<lambda>d. by_email (owned_now d))) (\<lambda>groups.
      bnd (select (\<lambda>d. map b_email (accounts d))) (\<lambda>migrated.
      bnd (for_each groups (migrate_unless migrated)) (\<lambda>_. ret ())))"
    by (simp add: migrate_billing_def migrate_unless_def [abs_def])
  show ?thesis
    unfolding body healthy_select [OF assms(1)]
    using assms(1) all [unfolded ends_def, rule_format, of "w\<lparr>qn := Suc (Suc (qn w))\<rparr>" "map b_email (accounts (db w))"]
    by (simp add: healthy_select del: wp_bnd) (erule wp_mono, simp)
qed

text \<open>The plan an account gets is the highest among its paid workspaces.\<close>

lemma best_subscription:
  assumes "real_subs owned = best # rest" "t \<in> set owned" "text_or_null (t_stripe_sub t) \<noteq> None"
    "t_status t \<noteq> Some ''comped''"
  shows "plan_rank (t_plan t) \<le> plan_rank (t_plan best)"
proof -
  have "t \<in> set (real_subs owned)" using assms(2-4) by (auto simp: real_subs_def)
  moreover have "sorted (map (\<lambda>t. - int (plan_rank (t_plan t))) (real_subs owned))"
    by (simp add: real_subs_def)
  ultimately show ?thesis using assms(1) by auto
qed

section \<open>The clean-ups\<close>

definition sans_flag :: "user \<Rightarrow> user" where
  "sans_flag u = u\<lparr>u_admin := False\<rparr>"

lemma posts_clear_workspaces:
  assumes "\<forall>p \<in> set (posts d). p_tenant p \<notin> set gone"
  shows "posts (clear_workspaces gone d) = posts d"
proof -
  have "filter (\<lambda>p. p_tenant p \<in> set gone) (posts d) = []" "filter (\<lambda>p. p_tenant p \<notin> set gone) (posts d) = posts d"
    using assms by (auto simp: filter_empty_conv filter_id_conv)
  moreover have "update_where (\<lambda>p. case p_duplicate_of p of None \<Rightarrow> False | Some q \<Rightarrow> q \<in> set []) f (posts d) = posts d" for f
  proof -
    have "(case x of None \<Rightarrow> False | Some q \<Rightarrow> q \<in> set []) = False" for x :: "nat option" by (cases x) simp_all
    then show ?thesis unfolding update_where_def by (simp only: if_False) simp
  qed
  ultimately show ?thesis
    by (simp add: clear_workspaces_def delete_posts_def delete_comments_def delete_columns_def delete_tags_def Let_def)
qed

text \<open>Deleting a workspace without members and posts.\<close>

lemma delete_empty_tenant:
  assumes "\<forall>u \<in> set (users d). u_tenant u \<noteq> Some t" "\<forall>p \<in> set (posts d). p_tenant p \<noteq> t"
    and "delete_tenants [t] d = Inr (x, d')"
  shows "posts d' = posts d \<and> users d' = users d"
proof -
  have u: "\<forall>u \<in> set (users d). \<not> in_workspaces [t] u"
    using assms(1) by (auto simp: in_workspaces_def split: option.splits)
  have "posts (clear_workspaces [t] d) = posts d"
    using assms(2) by (intro posts_clear_workspaces) simp
  with assms(3) u show ?thesis
    by (auto simp: delete_tenants_def delete_users_def unlink_users_def delete_comments_def Let_def filter_id_conv
             split: if_splits)
qed

lemma sans_flag_tenant: "u_tenant (sans_flag u) = u_tenant u"
  by (simp add: sans_flag_def)

lemma sans_flag_update: "map sans_flag (update_where P (\<lambda>u. u\<lparr>u_admin := True\<rparr>) us) = map sans_flag us"
  by (induction us) (auto simp: sans_flag_def)

lemma flag_admins_closed:
  assumes "u \<in> set (users (flag_admins d))" "a \<in> set (users (flag_admins d))"
    and "sql_eq (u_email a) (u_email u)" "u_admin a"
  shows "u_admin u"
proof -
  obtain u0 a0 where u0: "u0 \<in> set (users d)" "u = (if unflagged d u0 then u0\<lparr>u_admin := True\<rparr> else u0)"
    and a0: "a0 \<in> set (users d)" "a = (if unflagged d a0 then a0\<lparr>u_admin := True\<rparr> else a0)"
    using assms(1,2) by (auto simp: flag_admins_def set_update_where)
  have "\<exists>b \<in> set (users d). sql_eq (u_email b) (u_email a0) \<and> u_admin b"
    using a0 assms(4) by (auto simp: unflagged_def list_ex_iff sql_eq_def split: if_splits)
  then have "u_admin u0 \<or> unflagged d u0"
    using assms(3) u0 a0 by (auto simp: unflagged_def list_ex_iff sql_eq_def split: if_splits)
  then show ?thesis using u0(2) by auto
qed

lemma no_drift_closed:
  assumes "filter (unflagged d) (users d) = []" "u \<in> set (users d)" "a \<in> set (users d)"
    and "sql_eq (u_email a) (u_email u)" "u_admin a"
  shows "u_admin u"
  using assms by (auto simp: filter_empty_conv unflagged_def list_ex_iff)

text \<open>
  C20: Repairing orphans loses nobody's data: whatever fails on the way, every post and every
  member stays, apart from the flag of platform admins, which after a complete repair is the
  same on all rows of an account; without \<open>--fix\<close> nothing changes at all.
\<close>

theorem repair_loses_nothing:
  "wp (cleanup_orphans fix_it)
     (\<lambda>r w'. posts (db w') = posts (db w) \<and> map sans_flag (users (db w')) = map sans_flag (users (db w))
        \<and> (fix_it \<or> db w' = db w)
        \<and> (fix_it \<and> (\<exists>n. r = Inr n) \<longrightarrow>
             (\<forall>u \<in> set (users (db w')). \<forall>a \<in> set (users (db w')).
                sql_eq (u_email a) (u_email u) \<and> u_admin a \<longrightarrow> u_admin u))) w"
proof -
  let ?P = "\<lambda>d. posts d = posts (db w) \<and> map sans_flag (users d) = map sans_flag (users (db w))
     \<and> (fix_it \<or> d = db w)"
  let ?body = "\<lambda>(t, members, ps). if 0 < members \<or> 0 < ps then ret ()
     else if fix_it then sql (delete_tenants [t_id t]) else ret ()"
  have keep: "preserves ?P (for_each (ownerless (db w)) ?body)"
  proof (intro preserves_for_each)
    fix x assume x: "x \<in> set (ownerless (db w))"
    obtain t members ps where t: "x = (t, members, ps)" by (cases x)
    have gone: "?P d'" if "members = 0" "ps = 0" "fix_it" "?P d" "delete_tenants [t_id t] d = Inr (y, d')" for d y d'
    proof -
      have none: "\<forall>u \<in> set (users (db w)). u_tenant u \<noteq> Some (t_id t)" "\<forall>p \<in> set (posts (db w)). p_tenant p \<noteq> t_id t"
        using x that(1,2) by (auto simp: ownerless_def t filter_empty_conv)
      have "\<forall>u \<in> set (users d). u_tenant u \<noteq> Some (t_id t)"
      proof
        fix u assume "u \<in> set (users d)"
        then have "sans_flag u \<in> sans_flag ` set (users (db w))" using that(4) by (metis image_eqI list.set_map)
        then obtain v where "v \<in> set (users (db w))" "sans_flag u = sans_flag v" by auto
        then show "u_tenant u \<noteq> Some (t_id t)" using none(1) by (metis sans_flag_tenant)
      qed
      with none(2) that(3-5) delete_empty_tenant [of d "t_id t" y d'] show ?thesis by simp
    qed
    show "preserves ?P (?body x)"
    proof (cases "members = 0 \<and> ps = 0 \<and> fix_it")
      case True
      then have "?body x = sql (delete_tenants [t_id t])" by (simp add: t)
      moreover have "preserves ?P (sql (delete_tenants [t_id t]))"
        using True gone by (intro preserves_sql) blast
      ultimately show ?thesis by simp
    next
      case False
      then have "?body x = ret ()" by (auto simp: t)
      then show ?thesis by (simp add: preserves_ret)
    qed
  qed
  show ?thesis
    unfolding cleanup_orphans_def
  proof (rule wp_seq [where R = "\<lambda>r w'. db w' = db w \<and> (\<forall>xs. r = Inr xs \<longrightarrow> xs = ownerless (db w))"], goal_cases)
    case (2 orphans w1)
    then have o: "orphans = ownerless (db w)" "db w1 = db w" by simp_all
    have keep': "wp (for_each orphans ?body) (\<lambda>r w'. ?P (db w')) w1"
      unfolding o(1) by (rule preserves_wp [OF keep]) (simp add: o(2))
    have "posts (flag_admins d) = posts d" "map sans_flag (users (flag_admins d)) = map sans_flag (users d)" for d
      by (simp_all add: flag_admins_def sans_flag_update)
    then show ?case
      by (intro wp_seq [OF keep'])
         (auto dest: no_drift_closed flag_admins_closed)
  qed simp_all
qed

text \<open>An account with two rows, only one of them flagged.\<close>

definition drift_db :: database where
  "drift_db = demo_db\<lparr>users := [(demo_user 1 1 ''a@x.io'' Owner)\<lparr>u_admin := True\<rparr>, demo_user 2 2 ''a@x.io'' Owner]\<rparr>"

lemma drift_db_repaired: "wp (cleanup_orphans True) (\<lambda>r w'. \<exists>n. r = Inr n) (demo_world drift_db)"
proof -
  have "ownerless drift_db = []"
    by (simp add: ownerless_def drift_db_def demo_db_def demo_tenant_def demo_user_def)
  then show ?thesis by (simp add: cleanup_orphans_def demo_services_def)
qed

theorem repair_loses_nothing_witness:
  "wp (cleanup_orphans True)
     (\<lambda>r w'. (\<exists>n. r = Inr n) \<and> posts (db w') = posts demo_db
        \<and> filter (unflagged (db w')) (users (db w')) = []) (demo_world drift_db)"
  using wp_conj [OF drift_db_repaired repair_loses_nothing]
  by (rule wp_mono) (auto simp: drift_db_def unflagged_def list_ex_iff filter_empty_conv)

lemma clear_stale_keeps_mirror: "preserves billing_ok (clear_stale_paddle_refs customer_get dry)"
  unfolding clear_stale_paddle_refs_def clear_if_stale_def is_gone_def gone_if_def
  by (intro keeps setAccountPlan_billing_ok)

text \<open>An account whose subscription could not be read is left alone.\<close>

lemma unclear_answer_clears_nothing:
  assumes "text_or_null (b_paddle_sub r) = Some i"
    and "\<And>m. pd_sub_get (paddle (svc w)) (log w) (js_now w) i = Inl m \<Longrightarrow> \<not> says_not_found m"
  shows "wp (clear_if_stale customer_get dry r) (\<lambda>a w'. a = Inr False \<and> db w' = db w) w"
  using assms
  by (auto simp: clear_if_stale_def is_gone_def gone_if_def split: option.splits sum.splits)

text \<open>
  With \<open>--force\<close> and no key of Paddle, nothing is created and the discount an offer has is erased,
  which hides the offer; the script counts it as created.
\<close>

lemma backfill_without_key_erases:
  assumes "healthy w" "\<not> isPaddleConfigured (svc w)"
    and "0 < of_price_cents r" "of_price_cents r < listPrice (of_plan r) (of_interval r) * 100"
  shows "wp (backfill_offer False True r)
           (\<lambda>a w'. a = Inr Created
              \<and> (\<forall>x \<in> set (offers (db w')). of_id x = of_id r \<longrightarrow> of_paddle_discount x = None)) w"
  using assms
  by (simp add: backfill_offer_def createPaddleOfferDiscount_def Let_def set_update_where) auto

end
