(* ===== verification/Spec2Isabelle.thy ===== *)
theory Spec2Isabelle
  imports Promo_Admin_Facts Billing_Gaps Admin_Facts Support_Facts Read_Facts Team_Facts
    Tenant_Facts Directory_Facts Route_Facts Mail_Facts Startup_Facts Maintenance_Facts
begin

text \<open>
  Feedbase, the backend of a multi-tenant feedback board (\<open>src/src/\<close>, Express and MySQL).

  \<^bold>\<open>The program.\<close>  An account is an email.  It has one row of \<open>users\<close> per workspace
  (\<open>tenants\<close>) it belongs to and at most one row of \<open>billing_accounts\<close>, the source of truth of
  its plan; the plan is mirrored onto the workspaces the account owns, and the feature gates
  read the mirror.  A workspace has posts, comments, votes, tags, a roadmap, a changelog,
  invitations and notifications.  Visitors write to its public portal through a spam gate;
  members work on its dashboard with a token bound to a device session; an outside provider
  bills the account and reports back through a webhook.

  \<^bold>\<open>The theories.\<close>  Foundations:
    \<^item> \<open>Prelude\<close>: JavaScript strings (lists of UTF-16 units) and MySQL comparison, list lemmas,
      the collections \<open>prog\<close> and \<open>keeps\<close>.
    \<^item> \<open>Schema\<close> (\<open>database/schema.sql\<close>): a record per row type, a list per table, the counters
      and the clock of the database.
    \<^item> \<open>Runtime\<close>: the monad of request handlers over the \<open>world\<close>, its fault schedule and log,
      transactions, and the calculi \<open>wp\<close>, \<open>preserves\<close> and \<open>emits_only\<close>.
    \<^item> \<open>Plans\<close> (\<open>consts/plans.js\<close>), \<open>Plan_Guard\<close> (\<open>common/planGuard.js\<close>),
      \<open>Offers\<close> (\<open>common/offers.js\<close>).
  Spam defence: \<open>Spam_Score\<close>, \<open>Form_Token\<close>, \<open>Ttl_Cache\<close>, \<open>Email_Quality\<close>, \<open>Write_Counters\<close>,
  \<open>Public_Write_Guard\<close>, each the file of that name in \<open>common/\<close>.
  Accounts and teams:
    \<^item> \<open>Account_Billing\<close> (\<open>common/accountBilling.js\<close>), \<open>Paddle_Billing\<close>
      (\<open>main/billing/paddleBilling.js\<close>, \<open>common/paddle.js\<close>), \<open>Stripe_Billing\<close> (the other
      files of \<open>main/billing/\<close>), \<open>Billing_Flow\<close> (the dispatch between the two), \<open>Promo\<close>
      (\<open>redeemPromo.js\<close>).
    \<^item> \<open>Sessions\<close> (\<open>common/sessions.js\<close>, \<open>middlewares/jwt/\<close>), \<open>Identity\<close> (sign-in, registration,
      password reset, profile under \<open>main/users/\<close>).
    \<^item> \<open>Membership\<close> (\<open>main/users/workspaces.js\<close>, \<open>updateUserRole.js\<close>), \<open>Invitation_Flow\<close>
      (\<open>main/invitations/\<close>), \<open>Account_Deletion\<close> (\<open>common/accountDeletion.js\<close>), \<open>Tenant_Settings\<close>
      (\<open>main/tenant/\<close>).
    \<^item> \<open>Admin_Panel\<close> and \<open>Promo_Admin\<close> (\<open>main/admin/\<close>, \<open>common/discounts.js\<close>), \<open>Support_Chat\<close>
      (\<open>main/support/\<close>, \<open>main/admin/support.js\<close>).
  Boards:
    \<^item> \<open>Content\<close> (inserts, attachments, notifications, roadmap synchronisation), \<open>Public_Board\<close>
      (writes of \<open>main/public/\<close>), \<open>Dashboard_Content\<close> and \<open>Workspace_Board\<close> (writes of
      \<open>main/post\<close>, \<open>comment\<close>, \<open>tag\<close>, \<open>roadmap\<close>, \<open>common/spamRetention.js\<close>), \<open>Board_Reads\<close>.
    \<^item> \<open>Workspace_Tools\<close> (\<open>main/changelog\<close>, \<open>notification\<close>, \<open>apikey\<close>, \<open>integration\<close>,
      \<open>auditlog\<close>), \<open>Directory\<close> (member lists, analytics and the lists of the admin panel).
  The way in:
    \<^item> \<open>Request_Checks\<close> (\<open>middlewares/pagination\<close>, \<open>common\<close>, \<open>users\<close>, \<open>common/dataValidator.js\<close>),
      \<open>Http\<close> (what a route is, its middleware, how a promise becomes an answer) and \<open>Routes\<close>
      (every table of \<open>routes/\<close>, and \<open>app.js\<close>).
  Around the requests:
    \<^item> \<open>Mails\<close> (\<open>common/emails/\<close>, \<open>mailer.js\<close>, \<open>setServerResponse.js\<close>): the texts that go out.
    \<^item> \<open>Startup\<close> (\<open>common/bootMigrations.js\<close>, the scripts it runs, the bootstrap, shutdown and
      CORS of \<open>app.js\<close>, the timer of \<open>billingScheduler.js\<close>): one worker, and a cluster of them as
      a step relation over a shared schema and lock.
    \<^item> \<open>Maintenance\<close> (\<open>scripts/\<close>): the move of subscriptions to accounts and three clean-ups.
  The theorems that span operations are in \<open>Isolation\<close>, \<open>Portal_Safety\<close>, \<open>Portal_Facts\<close>,
  \<open>Dashboard_Safety\<close>, \<open>Dashboard_Facts\<close>, \<open>Read_Facts\<close>, \<open>Account_Safety\<close>, \<open>Org_Invariant\<close>,
  \<open>Org_Facts\<close>, \<open>Team_Facts\<close>, \<open>Billing_Gaps\<close>, \<open>Promo_Facts\<close>, \<open>Promo_Admin_Facts\<close>,
  \<open>Admin_Facts\<close>, \<open>Support_Facts\<close>, \<open>Tenant_Facts\<close>, \<open>Directory_Facts\<close>, \<open>Route_Facts\<close>,
  \<open>Mail_Facts\<close>, \<open>Startup_Facts\<close> and \<open>Maintenance_Facts\<close>.

  \<^bold>\<open>How the model corresponds to the code.\<close>  Every handler is one definition with the name of
  its function, of type \<open>'a outcome io\<close>: \<open>Resolve\<close> and \<open>Reject\<close> are the two ways its promise
  settles through \<open>setServerResponse\<close>, with the status code and the message key before
  translation; a rejection with anything else is an exception.  \<open>sql f\<close>, \<open>select f\<close> and
  \<open>execute f\<close> are one round trip each, whose statement is the function \<open>f\<close> on the database;
  unique keys, foreign keys, ENUM values and column widths are checked where the code relies on
  them.  \<open>catch\<close> is the handler's \<open>try/catch\<close>, \<open>transaction\<close> the span from \<open>beginTransaction\<close>
  to \<open>commit\<close> or \<open>rollback\<close>.  Requests that the routes can send are datatypes
  (\<open>portal_request\<close>, \<open>dash_request\<close>, \<open>billing_request\<close>, \<open>visitor_request\<close>, \<open>team_request\<close>,
  \<open>chat_request\<close>), and runs of them are inductive step relations.  The routes themselves are
  data: a table per router, and \<open>app\<close>, over which \<open>Route_Facts\<close> proves its theorems by
  evaluating one check on the tables.

  \<^bold>\<open>Faults and outside services.\<close>  The services are parameters: the billing provider, the mail
  server, DNS, HMAC and hash functions, bcrypt, random draws, the environment.  A service is any
  function of the requests it received so far, so it may answer differently every time, or
  throw.  Every database round trip may fail, and a theorem that does not restrict \<open>fault\<close>
  holds under every pattern of failures, at every point of a handler.  The dispatch of Express
  is a parameter with the contract \<open>express\<close> (the first endpoint in the order of registration
  that matches, after its own middleware), which \<open>dispatch_first\<close> satisfies; the rate limiter
  is any predicate on requests.

  \<^bold>\<open>What the lemmas show.\<close>
    \<^item> \<open>plan_invariant\<close> (locale): what every operation that changes a plan keeps.  Its
      interpretation \<open>mirror_inv\<close> gives that a workspace always shows the plan of its owner.
    \<^item> \<open>account_invariant\<close> (locale): what the identity operations keep; its interpretation
      \<open>org_accounts\<close> gives, with the lemmas of \<open>Org_Invariant\<close>, that runs of account, team and
      billing requests never give a workspace a second owner.
    \<^item> \<open>foreign\<close> (\<open>Isolation\<close>): other workspaces' requests change none of a workspace's rows.
    \<^item> \<open>flat\<close>, \<open>votes_ok\<close> (\<open>Portal_Safety\<close>, \<open>Portal_Facts\<close>): threads two levels deep, one vote
      per device.
    \<^item> \<open>link_used\<close> (\<open>Team_Facts\<close>): what accepting an invitation does, and that it happens once.
    \<^item> \<open>uses\<close>, \<open>within_cap\<close> (\<open>Promo_Facts\<close>): redemptions never exceed the cap of a code, and
      grant completely or not at all.
    \<^item> \<open>arrives\<close> (\<open>Route_Facts\<close>): what is true when a handler runs, whatever the request: its
      arguments are attached, and its caller has the credential the path asks for.
    \<^item> \<open>boot_inv\<close>, \<open>exclusive\<close> (\<open>Startup_Facts\<close>): a serving worker has the migrated schema,
      whatever is killed; one migration runs at a time while nothing is.
    \<^item> \<open>migratable\<close>, \<open>moved\<close> (\<open>Maintenance_Facts\<close>): the move to accounts can be resumed and ends
      with every workspace in line; \<open>skeleton\<close> (\<open>Mail_Facts\<close>): e-mails carry no markup of users.
    \<^item> The cache refines a partial map with expiry, the page reads tile the listing, and the form
      token round-trips.

  \<^bold>\<open>Fuel.\<close>  Only the walk to the root of a comment thread (\<open>climb\<close>) has a loop whose end depends
  on data.  It is given one unit per row of \<open>comments\<close> and one more, and \<open>climb_terminates\<close>
  shows that this is enough on every table, cyclic parents included.

  \<^bold>\<open>Conventions.\<close>  Request handlers run one at a time: two handlers interleave only between,
  not within, their round trips, and a promise that is not awaited runs to its end at that
  point, its failure swallowed as its \<open>.catch\<close> does.  \<open>affectedRows\<close> counts matched rows, as the
  MySQL driver does.  Rows that tie in an \<open>ORDER BY\<close> come in primary-key order.
  Ids that the routes read from the URL are natural numbers.

  \<^bold>\<open>Not modelled.\<close>  The counting inside \<open>express-rate-limit\<close>, body parsing, compression and
  security headers, static files and logging, which are packages the code only configures; the
  resizing and storing of images; the contents of the file of messages and of audit logs; the
  tests; and the scripts that change or seed one deployment by hand, read-only reports included.
  Handlers record an e-mail by its kind (\<open>EvMail\<close>); its text is in \<open>Mails\<close>.
\<close>

end
